(* ===== verification/LunePrelude.thy ===== *)
theory LunePrelude
  imports Complex_Main "HOL-Library.Word" "HOL-Library.AList" "HOL-Library.List_Lexorder"
    "HOL-Library.Multiset"
begin

text \<open>
  The part of JavaScript that the admin console's sources use, and the generic lemmas the
  component theories share.

  \<^item> A JavaScript string is a list of UTF-16 code units, each a natural number: \<open>jstr\<close>.
    An ASCII literal of the source is written \<open>js ''abc''\<close>; a literal with Chinese text is
    written as its list of code units. \<open>js\<close> is injective (\<open>js_inject\<close>, a simp rule), so two
    literals are compared without unfolding them.
  \<^item> \<open>undefined\<close> and \<open>null\<close> are \<open>None\<close> of an \<open>option\<close>; the operators \<open>||\<close> and \<open>??\<close> on an
    optional string are \<open>or_str\<close> (an empty string is falsy) and \<open>nullish\<close>.
  \<^item> A JavaScript number is an \<open>int\<close> where the code only counts, a \<open>rat\<close> where it divides, and a
    \<open>jsnum\<close> (with NaN and the infinities) where the code asks \<open>Number.isFinite\<close>. The rounding of
    binary floating point is not modelled: a finite number is the exact rational.
  \<^item> \<open>Map\<close> is an association list in insertion order; \<open>Array.prototype.sort\<close>, which is stable, is
    \<open>sort_key\<close>.
\<close>

named_theorems js_str "evaluation rules for the JavaScript string operations"
named_theorems lune_enum "case rules for the status strings of the admin console"

section \<open>Strings\<close>

type_synonym jstr = "nat list"

definition js :: "string \<Rightarrow> jstr" where
  "js s = map of_char s"

lemma js_inject [simp]: "js a = js b \<longleftrightarrow> a = b"
proof -
  have "inj (of_char :: char \<Rightarrow> nat)"
    by (rule injI) simp
  then show ?thesis
    by (simp add: js_def inj_map_eq_map)
qed

lemma js_Nil [simp]: "js [] = []"
  by (simp add: js_def)

lemma js_eq_Nil [simp]: "js a = [] \<longleftrightarrow> a = []" "[] = js a \<longleftrightarrow> a = []"
  by (auto simp: js_def)

lemma js_append: "js (a @ b) = js a @ js b"
  by (simp add: js_def)

lemma length_js [simp]: "length (js s) = length s"
  by (simp add: js_def)

definition startsWith :: "jstr \<Rightarrow> jstr \<Rightarrow> bool" where
  "startsWith s p \<longleftrightarrow> take (length p) s = p"

lemma startsWith_append [simp]: "startsWith (p @ s) p"
  by (simp add: startsWith_def)

lemma startsWith_iff: "startsWith s p \<longleftrightarrow> (\<exists>r. s = p @ r)"
  by (auto simp: startsWith_def intro: exI [of _ "drop (length p) s"])
     (metis append_take_drop_id)

definition endsWith :: "jstr \<Rightarrow> jstr \<Rightarrow> bool" where
  "endsWith s p \<longleftrightarrow> length p \<le> length s \<and> drop (length s - length p) s = p"

lemma endsWith_append [simp]: "endsWith (s @ p) p"
  by (simp add: endsWith_def)

lemma endsWith_iff: "endsWith s p \<longleftrightarrow> (\<exists>r. s = r @ p)"
  by (auto simp: endsWith_def intro: exI [of _ "take (length s - length p) s"])
     (metis append_take_drop_id)

text \<open>\<open>String.prototype.includes\<close>.\<close>

fun str_includes :: "jstr \<Rightarrow> jstr \<Rightarrow> bool" where
  "str_includes [] t = (t = [])"
| "str_includes (c # s) t = (startsWith (c # s) t \<or> str_includes s t)"

lemma str_includes_iff: "str_includes s t \<longleftrightarrow> (\<exists>a b. s = a @ t @ b)"
proof (induction s)
  case Nil
  then show ?case by auto
next
  case (Cons c s)
  have "(\<exists>a b. c # s = a @ t @ b) \<longleftrightarrow> (\<exists>b. c # s = t @ b) \<or> (\<exists>a b. s = a @ t @ b)"
    by (metis (no_types, opaque_lifting) append_Cons append_eq_Cons_conv append_self_conv2)
  then show ?case
    by (simp add: Cons.IH startsWith_iff)
qed

lemma str_includes_single: "str_includes s [c] \<longleftrightarrow> c \<in> set s"
  by (induction s) (auto simp: startsWith_def)

text \<open>White space as \<open>String.prototype.trim\<close> strips it.\<close>

definition is_js_space :: "nat \<Rightarrow> bool" where
  "is_js_space c \<longleftrightarrow>
     9 \<le> c \<and> c \<le> 13 \<or> c = 32 \<or> c = 160 \<or> c = 0x1680 \<or> 0x2000 \<le> c \<and> c \<le> 0x200A \<or>
     c = 0x2028 \<or> c = 0x2029 \<or> c = 0x202F \<or> c = 0x205F \<or> c = 0x3000 \<or> c = 0xFEFF"

definition trim :: "jstr \<Rightarrow> jstr" where
  "trim s = rev (dropWhile is_js_space (rev (dropWhile is_js_space s)))"

text \<open>
  \<open>String.prototype.toLowerCase\<close>. ASCII and Latin-1 letters are mapped, and the two code points
  outside ASCII whose lower case holds an ASCII letter (U+0130 and U+212A); every other code unit is
  kept. A comparison of the result with an ASCII literal, or a search for one in it, is therefore
  exact, and the sources do nothing else with a lower-cased string.
\<close>

definition lower_unit :: "nat \<Rightarrow> jstr" where
  "lower_unit c =
     (if 65 \<le> c \<and> c \<le> 90 then [c + 32]
      else if 192 \<le> c \<and> c \<le> 222 \<and> c \<noteq> 215 then [c + 32]
      else if c = 0x130 then [105, 0x307]
      else if c = 0x212A then [107]
      else [c])"

definition toLowerCase :: "jstr \<Rightarrow> jstr" where
  "toLowerCase s = concat (map lower_unit s)"

lemma toLowerCase_Nil [simp]: "toLowerCase [] = []"
  by (simp add: toLowerCase_def)

lemma toLowerCase_eq_Nil [simp]: "toLowerCase s = [] \<longleftrightarrow> s = []"
  by (cases s) (auto simp: toLowerCase_def lower_unit_def split: if_splits)

lemma lower_unit_idem: "concat (map lower_unit (lower_unit c)) = lower_unit c"
  by (auto simp: lower_unit_def)

lemma toLowerCase_idem [simp]: "toLowerCase (toLowerCase s) = toLowerCase s"
proof (induction s)
  case (Cons c s)
  then show ?case
    using lower_unit_idem [of c] by (simp add: toLowerCase_def)
qed simp

text \<open>\<open>slice\<close> on strings and arrays: negative positions count from the end, and both are clamped.\<close>

definition clamp_index :: "int \<Rightarrow> 'a list \<Rightarrow> nat" where
  "clamp_index i xs =
     (let n = int (length xs) in nat (if i < 0 then max 0 (n + i) else min i n))"

definition slice :: "int \<Rightarrow> int \<Rightarrow> 'a list \<Rightarrow> 'a list" where
  "slice a b xs = take (clamp_index b xs - clamp_index a xs) (drop (clamp_index a xs) xs)"

definition slice_from :: "int \<Rightarrow> 'a list \<Rightarrow> 'a list" where
  "slice_from a xs = drop (clamp_index a xs) xs"

lemma length_slice_le: "length (slice a b xs) \<le> nat (b - a)" if "0 \<le> a" "a \<le> b"
  using that by (auto simp: slice_def clamp_index_def Let_def)

lemma slice_take: "slice 0 (int n) xs = take n xs"
  by (auto simp: slice_def clamp_index_def Let_def min_def)


section \<open>Optional values\<close>

text \<open>\<open>a ?? b\<close> and, on an optional string, \<open>a || b\<close>.\<close>

definition nullish :: "'a option \<Rightarrow> 'a \<Rightarrow> 'a" where
  "nullish a b = (case a of None \<Rightarrow> b | Some x \<Rightarrow> x)"

definition or_str :: "jstr option \<Rightarrow> jstr \<Rightarrow> jstr" where
  "or_str a b = (case a of None \<Rightarrow> b | Some s \<Rightarrow> if s = [] then b else s)"

text \<open>Whether an optional string or object is truthy.\<close>

definition truthy_str :: "jstr option \<Rightarrow> bool" where
  "truthy_str a \<longleftrightarrow> a \<noteq> None \<and> a \<noteq> Some []"

lemma nullish_simps [simp]: "nullish None b = b" "nullish (Some x) b = x"
  by (simp_all add: nullish_def)

lemma or_str_simps [simp]: "or_str None b = b" "or_str (Some []) b = b"
    "or_str (Some (c # s)) b = c # s"
  by (simp_all add: or_str_def)

lemma or_str_nonempty [simp]: "s \<noteq> [] \<Longrightarrow> or_str (Some s) b = s"
  by (simp add: or_str_def)

lemma or_str_eq_lit: "s \<noteq> [] \<Longrightarrow> or_str a [] = s \<longleftrightarrow> a = Some s"
  by (auto simp: or_str_def split: option.splits if_splits)

lemma or_str_eq_Nil [simp]: "or_str a b = [] \<longleftrightarrow> (a = None \<or> a = Some []) \<and> b = []"
  by (auto simp: or_str_def split: option.splits if_splits)

section \<open>Decimal digits\<close>

fun nat_digits :: "nat \<Rightarrow> jstr" where
  "nat_digits n = (if n < 10 then [48 + n] else nat_digits (n div 10) @ [48 + n mod 10])"

declare nat_digits.simps [simp del]

definition show_int :: "int \<Rightarrow> jstr" where
  "show_int i = (if i < 0 then 45 # nat_digits (nat (- i)) else nat_digits (nat i))"

definition is_digit :: "nat \<Rightarrow> bool" where
  "is_digit c \<longleftrightarrow> 48 \<le> c \<and> c \<le> 57"

definition digits_val :: "jstr \<Rightarrow> nat" where
  "digits_val s = foldl (\<lambda>n c. 10 * n + (c - 48)) 0 s"

lemma digits_val_snoc [simp]: "digits_val (s @ [c]) = 10 * digits_val s + (c - 48)"
  by (simp add: digits_val_def)

lemma nat_digits_all: "c \<in> set (nat_digits n) \<Longrightarrow> is_digit c"
proof (induction n rule: nat_digits.induct)
  case (1 n)
  show ?case
    using 1 by (subst (asm) (2) nat_digits.simps) (auto simp: is_digit_def split: if_splits)
qed

lemma nat_digits_nonempty [simp]: "nat_digits n \<noteq> []"
  by (subst nat_digits.simps) simp

lemma digits_val_nat_digits [simp]: "digits_val (nat_digits n) = n"
proof (induction n rule: nat_digits.induct)
  case (1 n)
  show ?case
  proof (cases "n < 10")
    case True
    then show ?thesis by (simp add: nat_digits.simps [of n] digits_val_def)
  next
    case False
    then show ?thesis using 1 by (simp add: nat_digits.simps [of n])
  qed
qed

lemma nat_digits_inject [simp]: "nat_digits a = nat_digits b \<longleftrightarrow> a = b"
  by (metis digits_val_nat_digits)

lemma hd_nat_digits_not_minus: "nat_digits n \<noteq> 45 # s"
proof
  assume eq: "nat_digits n = 45 # s"
  have "45 \<in> set (nat_digits n)" by (simp add: eq)
  then show False using nat_digits_all [of 45 n] by (simp add: is_digit_def)
qed

lemma show_int_inject [simp]: "show_int a = show_int b \<longleftrightarrow> a = b"
  using hd_nat_digits_not_minus hd_nat_digits_not_minus [symmetric]
  by (auto simp: show_int_def)

lemma show_int_nonempty [simp]: "show_int i \<noteq> []"
  by (simp add: show_int_def)

text \<open>\<open>Number(s)\<close> of a text written by \<open>String(i)\<close> for an integer \<open>i\<close>.\<close>

definition read_int :: "jstr \<Rightarrow> int" where
  "read_int s = (case s of [] \<Rightarrow> 0 | c # r \<Rightarrow> if c = 45 then - int (digits_val r) else int (digits_val s))"

lemma read_nat_digits: "read_int (nat_digits n) = int n"
proof (cases "nat_digits n")
  case (Cons c r)
  then have "c \<noteq> 45" using hd_nat_digits_not_minus by metis
  then have "read_int (nat_digits n) = int (digits_val (nat_digits n))" by (simp add: read_int_def Cons)
  then show ?thesis by simp
qed simp

lemma read_show_int [simp]: "read_int (show_int i) = i"
proof (cases "i < 0")
  case True
  then show ?thesis by (simp add: show_int_def read_int_def)
qed (simp add: show_int_def read_nat_digits)

text \<open>\<open>padStart(w, c)\<close> with a one-unit filler.\<close>

definition padStart :: "nat \<Rightarrow> nat \<Rightarrow> jstr \<Rightarrow> jstr" where
  "padStart w c s = replicate (w - length s) c @ s"

lemma length_padStart [simp]: "length (padStart w c s) = max w (length s)"
  by (simp add: padStart_def)

lemma digits_val_padStart [simp]: "digits_val (padStart w 48 s) = digits_val s"
proof -
  have "foldl (\<lambda>n c. 10 * n + (c - 48)) 0 (replicate k 48) = (0::nat)" for k :: nat
    by (induction k) auto
  then show ?thesis by (simp add: padStart_def digits_val_def)
qed

section \<open>Splitting and joining\<close>

text \<open>\<open>s.split(sep)\<close> and \<open>parts.join(sep)\<close>.\<close>

function split_on :: "jstr \<Rightarrow> jstr \<Rightarrow> jstr list" where
  "split_on sep s =
     (if sep = [] then map (\<lambda>c. [c]) s
      else case s of
        [] \<Rightarrow> [[]]
      | c # r \<Rightarrow>
          if startsWith s sep then [] # split_on sep (drop (length sep) s)
          else (case split_on sep r of [] \<Rightarrow> [[c]] | p # ps \<Rightarrow> (c # p) # ps))"
  by pat_completeness auto
termination
  by (relation "measure (\<lambda>(sep, s). length s)") (auto simp: startsWith_def)

declare split_on.simps [simp del]

fun join_with :: "jstr \<Rightarrow> jstr list \<Rightarrow> jstr" where
  "join_with sep [] = []"
| "join_with sep [x] = x"
| "join_with sep (x # y # r) = x @ sep @ join_with sep (y # r)"

text \<open>\<open>s.split(a).join(b)\<close>: every occurrence of \<open>a\<close>, from the left, becomes \<open>b\<close>.\<close>

definition replace_all :: "jstr \<Rightarrow> jstr \<Rightarrow> jstr \<Rightarrow> jstr" where
  "replace_all a b s = join_with b (split_on a s)"

lemma split_on_nonempty: "sep \<noteq> [] \<Longrightarrow> split_on sep s \<noteq> []"
  by (subst split_on.simps) (auto split: list.splits)

lemma split_on_unit_none: "c \<notin> set u \<Longrightarrow> split_on [c] u = [u]"
  by (induction u) (simp_all add: split_on.simps startsWith_def)

lemma split_on_unit: "c \<notin> set u \<Longrightarrow> split_on [c] (u @ c # r) = u # split_on [c] r"
proof (induction u)
  case Nil
  then show ?case by (subst split_on.simps) (simp add: startsWith_def)
next
  case (Cons d u)
  then show ?case by (subst split_on.simps) (simp add: startsWith_def)
qed

lemma join_with_Cons: "ps \<noteq> [] \<Longrightarrow> join_with b (p # ps) = p @ b @ join_with b ps"
  by (cases ps) auto

lemma join_with_head: "join_with b ((c # p) # ps) = c # join_with b (p # ps)"
  by (cases ps) auto

lemma replace_all_Nil [simp]: "a \<noteq> [] \<Longrightarrow> replace_all a b [] = []"
  by (simp add: replace_all_def split_on.simps)

lemma replace_all_match:
  assumes "a \<noteq> []"
  shows "replace_all a b (a @ s) = b @ replace_all a b s"
proof -
  obtain c r where a: "a = c # r"
    using assms by (cases a) auto
  have "split_on a (a @ s) = [] # split_on a s"
    by (subst split_on.simps) (simp add: a startsWith_def)
  then show ?thesis
    using split_on_nonempty [OF assms] by (simp add: replace_all_def join_with_Cons)
qed

lemma replace_all_skip:
  assumes "a \<noteq> []" and "\<not> startsWith (c # s) a"
  shows "replace_all a b (c # s) = c # replace_all a b s"
proof -
  obtain p ps where ps: "split_on a s = p # ps"
    using split_on_nonempty [OF assms(1)] by (cases "split_on a s") auto
  then have "split_on a (c # s) = (c # p) # ps"
    using assms by (subst split_on.simps) simp
  then show ?thesis by (simp add: replace_all_def join_with_head ps)
qed

lemma replace_all_no_head:
  assumes "a \<noteq> []" and "hd a \<notin> set u"
  shows "replace_all a b (u @ s) = u @ replace_all a b s"
  using assms(2)
proof (induction u)
  case (Cons c u)
  then have "\<not> startsWith (c # u @ s) a"
    using assms(1) by (cases a) (auto simp: startsWith_def)
  then show ?case using Cons assms(1) by (simp add: replace_all_skip)
qed simp

text \<open>\<open>s.replace(a, b)\<close> with a string pattern: the first occurrence only.\<close>

fun replace_first :: "jstr \<Rightarrow> jstr \<Rightarrow> jstr \<Rightarrow> jstr" where
  "replace_first a b [] = (if a = [] then b else [])"
| "replace_first a b (c # s) =
     (if startsWith (c # s) a then b @ drop (length a) (c # s) else c # replace_first a b s)"

lemma replace_first_absent: "\<not> str_includes s a \<Longrightarrow> replace_first a b s = s"
  by (induction s) auto

section \<open>Trimming and slicing\<close>

lemma trim_ends:
  assumes "trim s \<noteq> []"
  shows "\<not> is_js_space (hd (trim s)) \<and> \<not> is_js_space (last (trim s))"
proof -
  let ?d = "dropWhile is_js_space s"
  let ?e = "dropWhile is_js_space (rev ?d)"
  have e: "?e \<noteq> []" using assms by (simp add: trim_def)
  obtain u where u: "rev ?d = u @ ?e" by (metis takeWhile_dropWhile_id)
  then have d: "?d = rev ?e @ rev u" by (metis rev_append rev_rev_ident)
  have "hd (rev ?e) = hd ?d" using e by (metis d hd_append rev_is_Nil_conv)
  moreover have "\<not> is_js_space (hd ?d)" using e by (metis d append_is_Nil_conv hd_dropWhile rev_is_Nil_conv)
  moreover have "\<not> is_js_space (hd ?e)" using e by (rule hd_dropWhile)
  ultimately show ?thesis using e by (simp add: trim_def last_rev)
qed

lemma trim_id:
  "s \<noteq> [] \<Longrightarrow> \<not> is_js_space (hd s) \<Longrightarrow> \<not> is_js_space (last s) \<Longrightarrow> trim s = s"
proof -
  assume s: "s \<noteq> []" "\<not> is_js_space (hd s)" "\<not> is_js_space (last s)"
  then have "dropWhile is_js_space s = s" "dropWhile is_js_space (rev s) = rev s"
    by (simp_all add: dropWhile_eq_self_iff hd_rev)
  then show ?thesis by (simp add: trim_def)
qed

lemma slice_from_neg:
  "n \<le> length xs \<Longrightarrow> 0 < n \<Longrightarrow> slice_from (- int n) xs = drop (length xs - n) xs"
  by (auto simp: slice_from_def clamp_index_def Let_def nat_diff_distrib)

lemma trim_trim [simp]: "trim (trim s) = trim s"
proof (cases "trim s = []")
  case False
  then show ?thesis using trim_ends [of s] by (simp add: trim_id)
next
  case True
  have "trim [] = []" by (simp add: trim_def)
  with True show ?thesis by simp
qed

text \<open>\<open>xs.filter((_, k) => k !== i)\<close>: a list without its \<open>i\<close>-th element.\<close>

lemma distinct_delete_at:
  assumes "distinct xs"
  shows "distinct (take i xs @ drop (Suc i) xs)"
proof -
  have "distinct (take i xs @ drop i xs)" using assms by simp
  then show ?thesis
    using set_drop_subset_set_drop [of i "Suc i" xs] distinct_drop [OF assms] unfolding distinct_append by auto
qed

lemma set_delete_at: "set (take i xs @ drop (Suc i) xs) \<subseteq> set xs"
  by (metis Un_least set_append set_drop_subset set_take_subset)

end
