(* ===== verification/JsCollections.thy ===== *)
theory JsCollections
  imports LunePrelude
begin

text \<open>
  \<open>Map\<close> and \<open>Array.prototype.sort\<close> as the console uses them, and the contracts its components rely
  on. \<open>keyed_store\<close> is the contract of an insertion-ordered map; its lemmas give the result of the
  group-and-count loops that the Activity page runs over its request logs. \<open>ranked_sort\<close> is the
  contract of a stable descending sort; its lemmas say what the first rows of the result are.
\<close>

section \<open>Maps in insertion order\<close>

type_synonym ('k, 'v) jmap = "('k \<times> 'v) list"

definition map_get :: "('k, 'v) jmap \<Rightarrow> 'k \<Rightarrow> 'v option" where
  "map_get m k = map_of m k"

definition map_set :: "'k \<Rightarrow> 'v \<Rightarrow> ('k, 'v) jmap \<Rightarrow> ('k, 'v) jmap" where
  "map_set k v m = AList.update k v m"

text \<open>
  The loop body \<open>existing = m.get(k); if (existing) existing.n += 1; else m.set(k, fresh)\<close>, and the
  loop over an array. Counting with \<open>m.set(k, (m.get(k) ?? 0) + 1)\<close> is the instance \<open>tally\<close>.
\<close>

definition upsert :: "'k \<Rightarrow> ('v \<Rightarrow> 'v) \<Rightarrow> 'v \<Rightarrow> ('k, 'v) jmap \<Rightarrow> ('k, 'v) jmap" where
  "upsert k upd fresh m =
     (case map_get m k of None \<Rightarrow> map_set k fresh m | Some v \<Rightarrow> map_set k (upd v) m)"

definition group_by ::
    "('a \<Rightarrow> 'k) \<Rightarrow> ('v \<Rightarrow> 'v) \<Rightarrow> ('a \<Rightarrow> 'v) \<Rightarrow> 'a list \<Rightarrow> ('k, 'v) jmap" where
  "group_by key upd fresh xs = foldl (\<lambda>m x. upsert (key x) upd (fresh x) m) [] xs"

definition tally :: "'k list \<Rightarrow> ('k, int) jmap" where
  "tally ks = foldl (\<lambda>m k. map_set k (nullish (map_get m k) 0 + 1) m) [] ks"

locale keyed_store =
  fixes get :: "'m \<Rightarrow> 'k \<Rightarrow> 'v option"
    and put :: "'k \<Rightarrow> 'v \<Rightarrow> 'm \<Rightarrow> 'm"
    and empty :: 'm
    and keys :: "'m \<Rightarrow> 'k list"
  assumes get_empty: "get empty k = None"
    and get_put: "get (put k v m) k' = (if k' = k then Some v else get m k')"
    and keys_empty: "keys empty = []"
    and keys_put: "keys (put k v m) = (if get m k = None then keys m @ [k] else keys m)"
    and keys_get: "k \<in> set (keys m) \<longleftrightarrow> get m k \<noteq> None"
begin

definition add :: "('a \<Rightarrow> 'k) \<Rightarrow> ('v \<Rightarrow> 'v) \<Rightarrow> ('a \<Rightarrow> 'v) \<Rightarrow> 'm \<Rightarrow> 'a \<Rightarrow> 'm" where
  "add key upd fresh m x =
     put (key x) (case get m (key x) of None \<Rightarrow> fresh x | Some v \<Rightarrow> upd v) m"

lemma get_foldl_add_present:
  "get m k = Some v \<Longrightarrow>
   get (foldl (add key upd fresh) m xs) k = Some ((upd ^^ length (filter (\<lambda>x. key x = k) xs)) v)"
  by (induction xs arbitrary: m v) (auto simp: add_def get_put funpow_swap1)

lemma get_foldl_add:
  "get m k = None \<Longrightarrow>
   get (foldl (add key upd fresh) m xs) k =
     (case filter (\<lambda>x. key x = k) xs of
        [] \<Rightarrow> None
      | y # ys \<Rightarrow> Some ((upd ^^ length ys) (fresh y)))"
proof (induction xs arbitrary: m)
  case (Cons x xs)
  show ?case
  proof (cases "key x = k")
    case True
    then have "get (add key upd fresh m x) k = Some (fresh x)"
      using Cons.prems by (simp add: add_def get_put)
    with True show ?thesis by (simp add: get_foldl_add_present)
  next
    case False
    then have "get (add key upd fresh m x) k = None"
      using Cons.prems by (simp add: add_def get_put)
    with False Cons.IH show ?thesis by simp
  qed
qed simp

lemma keys_foldl_add:
  "distinct (keys m) \<Longrightarrow>
   distinct (keys (foldl (add key upd fresh) m xs)) \<and>
   set (keys (foldl (add key upd fresh) m xs)) = set (keys m) \<union> key ` set xs"
proof (induction xs arbitrary: m)
  case (Cons x xs)
  have "distinct (keys (add key upd fresh m x))"
    using Cons.prems by (simp add: add_def keys_put keys_get)
  moreover have "set (keys (add key upd fresh m x)) = insert (key x) (set (keys m))"
    by (auto simp: add_def keys_put keys_get)
  ultimately show ?case using Cons.IH [of "add key upd fresh m x"] by auto
qed simp

end

lemma map_fst_update_conv:
  "map fst (AList.update k v m) = (if map_of m k = None then map fst m @ [k] else map fst m)"
proof -
  have "map fst (AList.update k v m) = (if k \<in> set (map fst m) then map fst m else map fst m @ [k])"
    by (induction m) auto
  then show ?thesis by (simp add: map_of_eq_None_iff)
qed

interpretation jm: keyed_store map_get map_set "[]" "map fst"
  by unfold_locales
     (auto simp: map_get_def map_set_def update_conv' map_fst_update_conv map_of_eq_None_iff)

lemma upsert_eq_add: "upsert (key x) upd (fresh x) m = jm.add key upd fresh m x"
  by (simp add: upsert_def jm.add_def split: option.splits)

lemma group_by_eq: "group_by key upd fresh xs = foldl (jm.add key upd fresh) [] xs"
  by (simp add: group_by_def upsert_eq_add)

lemma tally_eq_group_by: "tally ks = group_by (\<lambda>k. k) (\<lambda>n. n + 1) (\<lambda>_. 1) ks"
proof -
  have "map_set k (nullish (map_get m k) 0 + 1) m = upsert k (\<lambda>n. n + 1) 1 m"
    for k and m :: "('a, int) jmap"
    by (simp add: upsert_def split: option.splits)
  then show ?thesis by (simp add: tally_def group_by_def)
qed

text \<open>What a grouping loop leaves under a key, and its keys.\<close>

lemma map_of_group_by:
  "map_of (group_by key upd fresh xs) k =
     (case filter (\<lambda>x. key x = k) xs of
        [] \<Rightarrow> None
      | y # ys \<Rightarrow> Some ((upd ^^ length ys) (fresh y)))"
  using jm.get_foldl_add [of "[]" k key upd fresh xs] by (simp add: group_by_eq map_get_def)

lemma distinct_group_by: "distinct (map fst (group_by key upd fresh xs))"
  using jm.keys_foldl_add [of "[]" key upd fresh xs] by (simp add: group_by_eq)

lemma keys_group_by: "fst ` set (group_by key upd fresh xs) = key ` set xs"
  using jm.keys_foldl_add [of "[]" key upd fresh xs] by (simp add: group_by_eq)

lemma group_by_eq_Nil [simp]: "group_by key upd fresh xs = [] \<longleftrightarrow> xs = []"
  using keys_group_by [of key upd fresh xs] by (auto simp: group_by_def)

lemma funpow_add_one: "((\<lambda>n. n + 1) ^^ k) (a :: int) = a + int k"
  by (induction k arbitrary: a) auto

lemma map_of_tally:
  "map_of (tally ks) k = (if k \<in> set ks then Some (int (count_list ks k)) else None)"
proof (cases "filter (\<lambda>x. x = k) ks")
  case Nil
  then have "k \<notin> set ks" by (auto simp: filter_empty_conv)
  with Nil show ?thesis by (simp add: tally_eq_group_by map_of_group_by)
next
  case (Cons y ys)
  then have "y = k" and "k \<in> set ks"
    by (auto dest: filter_eq_ConsD)
  moreover have "count_list ks k = Suc (length ys)"
    using arg_cong [OF Cons, of length] filter_cong [of ks ks "(=) k" "\<lambda>x. x = k"]
    by (simp add: count_list_eq_length_filter eq_commute)
  ultimately show ?thesis using Cons by (simp add: tally_eq_group_by map_of_group_by funpow_add_one)
qed

lemma distinct_tally: "distinct (map fst (tally ks))"
  by (simp add: tally_eq_group_by distinct_group_by)

lemma keys_tally: "fst ` set (tally ks) = set ks"
  by (simp add: tally_eq_group_by keys_group_by)

lemma tally_eq_Nil [simp]: "tally ks = [] \<longleftrightarrow> ks = []"
  by (simp add: tally_eq_group_by)

lemma in_tally_iff: "(k, n) \<in> set (tally ks) \<longleftrightarrow> k \<in> set ks \<and> n = int (count_list ks k)"
proof -
  have "(k, n) \<in> set (tally ks) \<longleftrightarrow> map_of (tally ks) k = Some n"
    using map_of_eq_Some_iff [OF distinct_tally] by metis
  then show ?thesis by (auto simp: map_of_tally)
qed

text \<open>The counts add up to the number of counted items.\<close>

lemma sum_list_update_count:
  "distinct (map fst m) \<Longrightarrow>
   sum_list (map snd (map_set k (nullish (map_get m k) 0 + 1) m)) = sum_list (map snd m) + (1 :: int)"
proof (induction m)
  case Nil
  then show ?case by (simp add: map_set_def map_get_def)
next
  case (Cons p m)
  have "map_of m k = None" if "k = fst p"
    using Cons.prems that by (simp add: map_of_eq_None_iff)
  with Cons show ?case
    by (cases p) (auto simp: map_set_def map_get_def split: if_splits)
qed

lemma sum_list_tally: "sum_list (map snd (tally ks)) = int (length ks)"
proof (induction ks rule: rev_induct)
  case Nil
  then show ?case by (simp add: tally_def)
next
  case (snoc k ks)
  have "tally (ks @ [k]) = map_set k (nullish (map_get (tally ks) k) 0 + 1) (tally ks)"
    by (simp add: tally_def)
  then show ?case
    using snoc distinct_tally [of ks] by (simp add: sum_list_update_count)
qed

lemma sum_list_update_present:
  assumes "distinct (map fst m)" "map_of m k = Some v"
  shows "sum_list (map f (map snd (AList.update k w m))) = sum_list (map f (map snd m)) - f v + (f w :: int)"
  using assms
proof (induction m)
  case (Cons p m)
  show ?case
  proof (cases "fst p = k")
    case True
    then show ?thesis using Cons.prems by (cases p) auto
  next
    case False
    then have "map_of m k = Some v" using Cons.prems by (cases p) auto
    with Cons False show ?thesis by (cases p) auto
  qed
qed simp

lemma sum_list_update_absent:
  assumes "map_of m k = None"
  shows "sum_list (map f (map snd (AList.update k w m))) = sum_list (map f (map snd m)) + (f w :: int)"
  using assms by (induction m) (auto split: if_splits)

text \<open>
  Counting in groups loses nothing: where the key decides whether an item is counted, the counts of the
  groups add up to the number of items.
\<close>

lemma sum_group_by:
  fixes f :: "'v \<Rightarrow> int"
  assumes fresh: "\<And>x. f (fresh x) = (if Q x then 1 else 0)"
    and upd: "\<And>x n. f (upd ((upd ^^ n) (fresh x))) = f ((upd ^^ n) (fresh x)) + (if Q x then 1 else 0)"
    and same: "\<And>x y. key x = key y \<Longrightarrow> Q x = Q y"
  shows "sum_list (map f (map snd (group_by key upd fresh xs))) = int (length (filter Q xs))"
proof (induction xs rule: rev_induct)
  case (snoc x xs)
  let ?m = "group_by key upd fresh xs"
  have g: "group_by key upd fresh (xs @ [x]) = upsert (key x) upd (fresh x) ?m"
    by (simp add: group_by_def)
  show ?case
  proof (cases "map_of ?m (key x)")
    case None
    then show ?thesis
      using snoc sum_list_update_absent [OF None, of f "fresh x"] fresh [of x]
      by (simp add: g upsert_def map_get_def map_set_def)
  next
    case (Some v)
    obtain y ys where y: "filter (\<lambda>z. key z = key x) xs = y # ys" "v = (upd ^^ length ys) (fresh y)"
      using Some by (auto simp: map_of_group_by split: list.splits)
    then have "key y = key x" by (auto dest: filter_eq_ConsD)
    then have "f (upd v) = f v + (if Q x then 1 else 0)"
      using upd [of "length ys" y] y(2) same [of y x] by simp
    then show ?thesis
      using snoc sum_list_update_present [OF distinct_group_by Some, of f "upd v"]
      by (simp add: g upsert_def map_get_def map_set_def Some)
  qed
qed (simp add: group_by_def)

lemma update_map_snd: "AList.update k (g v) (map (apsnd g) m) = map (apsnd g) (AList.update k v m)"
  by (induction m) auto

lemma map_of_map_apsnd: "map_of (map (apsnd g) m) k = map_option g (map_of m k)"
  by (induction m) auto

lemma group_by_map_snd:
  assumes "\<And>v. g (upd v) = upd' (g v)"
  shows "group_by key upd' (\<lambda>x. g (fresh x)) xs = map (apsnd g) (group_by key upd fresh xs)"
proof (induction xs rule: rev_induct)
  case (snoc x xs)
  then show ?case
    by (auto simp: map_of_map_apsnd group_by_def upsert_def map_get_def map_set_def update_map_snd
        assms [symmetric] split: option.splits)
qed (simp add: group_by_def)

section \<open>Descending stable sorts\<close>

text \<open>\<open>xs.sort((a, b) => b.f - a.f)\<close>.\<close>

definition sort_desc :: "('a \<Rightarrow> 'b::linordered_idom) \<Rightarrow> 'a list \<Rightarrow> 'a list" where
  "sort_desc f xs = sort_key (\<lambda>x. - f x) xs"

locale ranked_sort =
  fixes srt :: "'a list \<Rightarrow> 'a list" and rank :: "'a \<Rightarrow> 'b::linorder"
  assumes mset_srt: "mset (srt xs) = mset xs"
    and sorted_srt: "sorted_wrt (\<lambda>x y. rank y \<le> rank x) (srt xs)"
    and stable_srt: "filter (\<lambda>x. rank x = r) (srt xs) = filter (\<lambda>x. rank x = r) xs"
begin

lemma set_srt [simp]: "set (srt xs) = set xs"
  by (metis mset_srt set_mset_mset)

lemma length_srt [simp]: "length (srt xs) = length xs"
  by (metis mset_srt size_mset)

lemma srt_eq_Nil [simp]: "srt xs = [] \<longleftrightarrow> xs = []"
  by (metis length_srt length_0_conv)

lemma hd_srt_max: "xs \<noteq> [] \<Longrightarrow> hd (srt xs) \<in> set xs \<and> (\<forall>y \<in> set xs. rank y \<le> rank (hd (srt xs)))"
proof -
  assume "xs \<noteq> []"
  then obtain h t where ht: "srt xs = h # t"
    by (metis list.exhaust srt_eq_Nil)
  then have "set xs = insert h (set t)"
    by (metis list.simps(15) set_srt)
  then show ?thesis
    using sorted_srt [of xs] by (auto simp: ht)
qed

text \<open>Every row kept by \<open>slice(0, n)\<close> ranks at least as high as every row cut off.\<close>

lemma take_srt_top:
  assumes "x \<in> set (take n (srt xs))" and "y \<in> set (drop n (srt xs))"
  shows "rank y \<le> rank x"
proof -
  have "sorted_wrt (\<lambda>x y. rank y \<le> rank x) (take n (srt xs) @ drop n (srt xs))"
    using sorted_srt by simp
  then show ?thesis using assms by (auto simp only: sorted_wrt_append)
qed

lemma hd_srt_first:
  assumes "xs \<noteq> []"
  shows "hd (filter (\<lambda>x. rank x = rank (hd (srt xs))) xs) = hd (srt xs)"
proof -
  let ?h = "hd (srt xs)"
  obtain ys where "srt xs = ?h # ys"
    using assms by (metis list.collapse srt_eq_Nil)
  then have "filter (\<lambda>x. rank x = rank ?h) (srt xs) = ?h # filter (\<lambda>x. rank x = rank ?h) ys"
    by (metis (mono_tags, lifting) filter.simps(2))
  then show ?thesis by (metis stable_srt list.sel(1))
qed

end

interpretation sd: ranked_sort "sort_desc f" f for f :: "'a \<Rightarrow> 'b::linordered_idom"
proof
  fix xs :: "'a list" and r :: 'b
  show "mset (sort_desc f xs) = mset xs"
    by (simp add: sort_desc_def)
  show "sorted_wrt (\<lambda>x y. f y \<le> f x) (sort_desc f xs)"
    using sorted_sort_key [of "\<lambda>x. - f x" xs] by (simp add: sort_desc_def sorted_map)
  show "filter (\<lambda>x. f x = r) (sort_desc f xs) = filter (\<lambda>x. f x = r) xs"
    using sort_key_stable [of "\<lambda>x. - f x" "- r" xs] by (simp add: sort_desc_def eq_commute)
qed

lemma hd_sort_desc_max:
  "xs \<noteq> [] \<Longrightarrow> hd (sort_desc f xs) \<in> set xs \<and> (\<forall>y \<in> set xs. f y \<le> f (hd (sort_desc f xs)))"
  by (rule sd.hd_srt_max)

lemma sort_desc_Nil [simp]: "sort_desc f [] = []"
  by (simp add: sort_desc_def)

lemma sort_key_map: "sort_key f (map g xs) = map g (sort_key (\<lambda>x. f (g x)) xs)"
proof (induction xs)
  case (Cons x xs)
  have "insort_key f (g x) (map g ys) = map g (insort_key (\<lambda>x. f (g x)) x ys)" for ys
    by (induction ys) auto
  with Cons show ?case by simp
qed simp

text \<open>A row among the few of a high rank is among the first rows.\<close>

lemma high_rank_shown:
  fixes rank :: "'a \<Rightarrow> int"
  assumes "x \<in> set xs" and "b \<le> rank x" and "length (filter (\<lambda>y. b \<le> rank y) xs) \<le> n"
  shows "x \<in> set (take n (sort_desc rank xs))"
proof (rule ccontr)
  let ?s = "sort_desc rank xs"
  assume nx: "x \<notin> set (take n ?s)"
  have "x \<in> set (take n ?s) \<union> set (drop n ?s)"
    using assms(1) by (metis append_take_drop_id sd.set_srt set_append)
  then have d: "x \<in> set (drop n ?s)" using nx by blast
  have "\<forall>y \<in> set (take n ?s). b \<le> rank y"
    using sd.take_srt_top [OF _ d] assms(2) order_trans by blast
  then have t: "filter (\<lambda>y. b \<le> rank y) (take n ?s) = take n ?s" by (simp add: filter_id_conv)
  have "n < length ?s" using d by (cases "n < length ?s") auto
  then have "length (filter (\<lambda>y. b \<le> rank y) (take n ?s)) = n" by (simp add: t)
  moreover have "filter (\<lambda>y. b \<le> rank y) (drop n ?s) \<noteq> []"
    using d assms(2) by (auto simp: filter_empty_conv)
  ultimately have "n < length (filter (\<lambda>y. b \<le> rank y) ?s)"
    by (metis append_take_drop_id filter_append length_append length_greater_0_conv less_add_same_cancel1)
  moreover have "length (filter (\<lambda>y. b \<le> rank y) ?s) = length (filter (\<lambda>y. b \<le> rank y) xs)"
    by (metis mset_filter sd.mset_srt size_mset)
  ultimately show False using assms(3) by simp
qed

end
