(* ===== verification/JsNumber.thy ===== *)
theory JsNumber
  imports LunePrelude
begin

text \<open>
  Numbers and dates of JavaScript as the console uses them: \<open>Number(s)\<close>, \<open>toFixed\<close>, \<open>Math.round\<close>,
  \<open>Date.parse\<close> and the local calendar fields of a \<open>Date\<close>. The host environment (the clock, the
  offset of the local time zone, and what the engine does with a string outside the date format of
  ECMAScript) is the record \<open>host\<close>. The local time zone has a fixed offset: daylight-saving changes
  are not modelled.
\<close>

section \<open>Numbers\<close>

datatype jsnum = NaN | PosInf | NegInf | Num rat

fun isFinite :: "jsnum \<Rightarrow> bool" where
  "isFinite (Num _) = True"
| "isFinite _ = False"

definition math_round :: "rat \<Rightarrow> int" where
  "math_round x = \<lfloor>x + 1 / 2\<rfloor>"

text \<open>
  \<open>x.toFixed(f)\<close> for \<open>\<bar>x\<bar> < 10\<^sup>2\<^sup>1\<close>: the integer \<open>n\<close> with \<open>n / 10\<^sup>f\<close> closest to \<open>x\<close>, the larger one
  on a tie, printed with \<open>f\<close> digits after the point.
\<close>

definition toFixed_pos :: "nat \<Rightarrow> rat \<Rightarrow> jstr" where
  "toFixed_pos f x =
     (let n = nat \<lfloor>x * 10 ^ f + 1 / 2\<rfloor>;
          d = padStart (f + 1) 48 (nat_digits n)
      in if f = 0 then nat_digits n
         else take (length d - f) d @ [46] @ drop (length d - f) d)"

definition toFixed :: "nat \<Rightarrow> rat \<Rightarrow> jstr" where
  "toFixed f x = (if x < 0 then 45 # toFixed_pos f (- x) else toFixed_pos f x)"

text \<open>
  \<open>Number(s)\<close>: decimal literals with an optional fraction and exponent, the hexadecimal, octal and
  binary prefixes, \<open>Infinity\<close>, and 0 for a blank string. A value of at least \<open>2\<^sup>1\<^sup>0\<^sup>2\<^sup>4 - 2\<^sup>9\<^sup>7\<^sup>0\<close> rounds
  to infinity.
\<close>

definition to_double :: "rat \<Rightarrow> jsnum" where
  "to_double x =
     (if 2 ^ 1024 - 2 ^ 970 \<le> x then PosInf
      else if x \<le> - (2 ^ 1024 - 2 ^ 970) then NegInf else Num x)"

definition exponent_part :: "jstr \<Rightarrow> int option" where
  "exponent_part s =
     (case s of
        [] \<Rightarrow> Some 0
      | c # r \<Rightarrow>
          if c = 101 \<or> c = 69 then
            (let neg = (r \<noteq> [] \<and> hd r = 45);
                 ds = (if r \<noteq> [] \<and> (hd r = 45 \<or> hd r = 43) then tl r else r)
             in if ds \<noteq> [] \<and> list_all is_digit ds
                then Some (if neg then - int (digits_val ds) else int (digits_val ds)) else None)
          else None)"

definition pow10 :: "int \<Rightarrow> rat" where
  "pow10 e = (if e < 0 then 1 / 10 ^ nat (- e) else 10 ^ nat e)"

definition decimal_value :: "jstr \<Rightarrow> rat option" where
  "decimal_value s =
     (let ip = takeWhile is_digit s; r1 = dropWhile is_digit s;
          dot = (r1 \<noteq> [] \<and> hd r1 = 46);
          fp = (if dot then takeWhile is_digit (tl r1) else []);
          r2 = (if dot then dropWhile is_digit (tl r1) else r1)
      in if ip = [] \<and> fp = [] then None
         else case exponent_part r2 of
                None \<Rightarrow> None
              | Some e \<Rightarrow> Some (of_nat (digits_val (ip @ fp)) * pow10 (e - int (length fp))))"

definition radix_digit :: "nat \<Rightarrow> nat" where
  "radix_digit c =
     (if is_digit c then c - 48 else if 97 \<le> c \<and> c \<le> 102 then c - 87
      else if 65 \<le> c \<and> c \<le> 70 then c - 55 else 99)"

definition radix_value :: "nat \<Rightarrow> jstr \<Rightarrow> rat option" where
  "radix_value b s =
     (if s \<noteq> [] \<and> list_all (\<lambda>c. radix_digit c < b) s
      then Some (of_nat (foldl (\<lambda>n c. b * n + radix_digit c) 0 s)) else None)"

definition string_to_number :: "jstr \<Rightarrow> jsnum" where
  "string_to_number s =
     (let t = trim s; p = toLowerCase (take 2 t);
          sgn = (t \<noteq> [] \<and> (hd t = 43 \<or> hd t = 45));
          neg = (t \<noteq> [] \<and> hd t = 45); u = (if sgn then tl t else t);
          num = (\<lambda>r. case r of None \<Rightarrow> NaN | Some x \<Rightarrow> to_double x)
      in if t = [] then Num 0
         else if p = js ''0x'' then num (radix_value 16 (drop 2 t))
         else if p = js ''0o'' then num (radix_value 8 (drop 2 t))
         else if p = js ''0b'' then num (radix_value 2 (drop 2 t))
         else if u = js ''Infinity'' then (if neg then NegInf else PosInf)
         else num (map_option (\<lambda>x. if neg then - x else x) (decimal_value u)))"

text \<open>
  \<open>String(x)\<close> of a number. A number that is not whole is printed with its shortest exact decimal expansion,
  which is what JavaScript prints for a value read from a JSON decimal of up to 15 digits.
\<close>

fun decimal_scale :: "nat \<Rightarrow> nat \<Rightarrow> rat \<Rightarrow> nat" where
  "decimal_scale 0 f x = f"
| "decimal_scale (Suc k) f x =
     (if of_int \<lfloor>x * 10 ^ f\<rfloor> = x * 10 ^ f then f else decimal_scale k (Suc f) x)"

fun num_string :: "jsnum \<Rightarrow> jstr" where
  "num_string NaN = js ''NaN''"
| "num_string PosInf = js ''Infinity''"
| "num_string NegInf = js ''-Infinity''"
| "num_string (Num x) = toFixed (decimal_scale 20 0 x) x"

section \<open>Dates\<close>

record host =
  now_ms :: int
  tz_ms :: int
  date_fallback :: "jstr \<Rightarrow> int option"

abbreviation (input) ms_per_hour :: int where "ms_per_hour \<equiv> 3600000"
abbreviation (input) ms_per_day :: int where "ms_per_day \<equiv> 86400000"

definition days_from_civil :: "int \<Rightarrow> int \<Rightarrow> int \<Rightarrow> int" where
  "days_from_civil y m d =
     (let y' = (if m \<le> 2 then y - 1 else y);
          era = y' div 400;
          yoe = y' - era * 400;
          doy = (153 * (if m > 2 then m - 3 else m + 9) + 2) div 5 + d - 1;
          doe = yoe * 365 + yoe div 4 - yoe div 100 + doy
      in era * 146097 + doe - 719468)"

definition civil_from_days :: "int \<Rightarrow> int \<times> int \<times> int" where
  "civil_from_days z0 =
     (let z = z0 + 719468;
          era = z div 146097;
          doe = z - era * 146097;
          yoe = (doe - doe div 1460 + doe div 36524 - doe div 146096) div 365;
          doy = doe - (365 * yoe + yoe div 4 - yoe div 100);
          mp = (5 * doy + 2) div 153;
          m = (if mp < 10 then mp + 3 else mp - 9)
      in (yoe + era * 400 + (if m \<le> 2 then 1 else 0), m, doy - (153 * mp + 2) div 5 + 1))"

definition days_in_month :: "int \<Rightarrow> int \<Rightarrow> int" where
  "days_in_month y m =
     (if m = 2 then (if y mod 4 = 0 \<and> (y mod 100 \<noteq> 0 \<or> y mod 400 = 0) then 29 else 28)
      else if m \<in> {4, 6, 9, 11} then 30 else 31)"

text \<open>The local calendar fields of a time value.\<close>

definition local_ms :: "host \<Rightarrow> int \<Rightarrow> int" where
  "local_ms h t = t + tz_ms h"

definition getHours :: "host \<Rightarrow> int \<Rightarrow> int" where
  "getHours h t = local_ms h t mod ms_per_day div ms_per_hour"

definition getMinutes :: "host \<Rightarrow> int \<Rightarrow> int" where
  "getMinutes h t = local_ms h t mod ms_per_hour div 60000"

definition getDay :: "host \<Rightarrow> int \<Rightarrow> int" where
  "getDay h t = local_ms h t div ms_per_day"

definition getFullYear :: "host \<Rightarrow> int \<Rightarrow> int" where
  "getFullYear h t = fst (civil_from_days (getDay h t))"

definition getMonth :: "host \<Rightarrow> int \<Rightarrow> int" where
  "getMonth h t = fst (snd (civil_from_days (getDay h t))) - 1"

definition getDate :: "host \<Rightarrow> int \<Rightarrow> int" where
  "getDate h t = snd (snd (civil_from_days (getDay h t)))"

lemma getHours_bounds: "0 \<le> getHours h t \<and> getHours h t < 24"
proof -
  have "0 \<le> local_ms h t mod 86400000" "local_ms h t mod 86400000 < 86400000"
    by simp_all
  then show ?thesis unfolding getHours_def by linarith
qed

lemma getMinutes_bounds: "0 \<le> getMinutes h t \<and> getMinutes h t < 60"
proof -
  have "0 \<le> local_ms h t mod 3600000" "local_ms h t mod 3600000 < 3600000"
    by simp_all
  then show ?thesis unfolding getMinutes_def by linarith
qed

text \<open>
  \<open>Date.parse(s)\<close>: the format \<open>YYYY[-MM[-DD]][THH:mm[:ss[.s...]]][Z|+HH:mm|-HH:mm]\<close>. A date alone is
  UTC, a date with a time and no offset is local. Every other string is left to the engine.
\<close>

definition read_num :: "nat \<Rightarrow> jstr \<Rightarrow> (int \<times> jstr) option" where
  "read_num n s =
     (if n \<le> length s \<and> list_all is_digit (take n s)
      then Some (int (digits_val (take n s)), drop n s) else None)"

definition read_sep_num :: "nat \<Rightarrow> nat \<Rightarrow> jstr \<Rightarrow> (int \<times> jstr) option" where
  "read_sep_num c n s = (if s \<noteq> [] \<and> hd s = c then read_num n (tl s) else None)"

definition read_fraction :: "jstr \<Rightarrow> (int \<times> jstr) option" where
  "read_fraction s =
     (if s \<noteq> [] \<and> hd s = 46
      then (let f = takeWhile is_digit (tl s)
            in if f = [] then None
               else Some (int (digits_val (take 3 (f @ [48, 48]))), dropWhile is_digit (tl s)))
      else Some (0, s))"

definition read_offset :: "host \<Rightarrow> jstr \<Rightarrow> int option" where
  "read_offset h s =
     (if s = [] then Some (tz_ms h)
      else if s = [90] then Some 0
      else if hd s = 43 \<or> hd s = 45 then
        (case read_num 2 (tl s) of
           None \<Rightarrow> None
         | Some (oh, r) \<Rightarrow>
             (case read_sep_num 58 2 r of
                None \<Rightarrow> None
              | Some (om, r') \<Rightarrow>
                  if r' = [] \<and> oh \<le> 23 \<and> om \<le> 59
                  then Some ((if hd s = 45 then -1 else 1) * (oh * 3600000 + om * 60000))
                  else None))
      else None)"

text \<open>The clock part \<open>THH:mm[:ss[.s...]]\<close> in milliseconds, and what follows it.\<close>

definition read_seconds :: "jstr \<Rightarrow> (int \<times> int \<times> jstr) option" where
  "read_seconds s =
     (case read_sep_num 58 2 s of
        None \<Rightarrow> Some (0, 0, s)
      | Some (ss, r) \<Rightarrow> map_option (\<lambda>(ms, r'). (ss, ms, r')) (read_fraction r))"

definition read_clock :: "jstr \<Rightarrow> (int \<times> jstr) option" where
  "read_clock s =
     (case read_sep_num 84 2 s of
        None \<Rightarrow> None
      | Some (hh, r1) \<Rightarrow>
          (case read_sep_num 58 2 r1 of
             None \<Rightarrow> None
           | Some (mi, r2) \<Rightarrow>
               (case read_seconds r2 of
                  None \<Rightarrow> None
                | Some (ss, ms, r3) \<Rightarrow>
                    if mi \<le> 59 \<and> ss \<le> 59 \<and> (hh \<le> 23 \<or> hh = 24 \<and> mi = 0 \<and> ss = 0 \<and> ms = 0)
                    then Some (hh * 3600000 + mi * 60000 + ss * 1000 + ms, r3) else None)))"

definition read_time :: "host \<Rightarrow> jstr \<Rightarrow> int option" where
  "read_time h s =
     (case read_clock s of
        None \<Rightarrow> None
      | Some (t, r) \<Rightarrow> map_option (\<lambda>off. t - off) (read_offset h r))"

text \<open>The date part \<open>YYYY[-MM[-DD]]\<close> in days, and what follows it.\<close>

definition read_date :: "jstr \<Rightarrow> (int \<times> jstr) option" where
  "read_date s =
     (case read_num 4 s of
        None \<Rightarrow> None
      | Some (y, r1) \<Rightarrow>
          (let (mo, d, r3) =
                 (case read_sep_num 45 2 r1 of
                    None \<Rightarrow> (1, 1, r1)
                  | Some (mo, r2) \<Rightarrow>
                      (case read_sep_num 45 2 r2 of
                         None \<Rightarrow> (mo, 1, r2)
                       | Some (d, r3) \<Rightarrow> (mo, d, r3)))
           in if 1 \<le> mo \<and> mo \<le> 12 \<and> 1 \<le> d \<and> d \<le> days_in_month y mo
              then Some (days_from_civil y mo d, r3) else None))"

definition iso_parse :: "host \<Rightarrow> jstr \<Rightarrow> int option" where
  "iso_parse h s =
     (case read_date s of
        None \<Rightarrow> None
      | Some (day, r) \<Rightarrow>
          map_option (\<lambda>t. day * 86400000 + t) (if r = [] then Some 0 else read_time h r))"

definition date_parse :: "host \<Rightarrow> jstr \<Rightarrow> int option" where
  "date_parse h s = (case iso_parse h s of None \<Rightarrow> date_fallback h s | Some t \<Rightarrow> Some t)"

section \<open>Lemmas\<close>

text \<open>\<open>Number\<close> reads a string of digits as the number they write.\<close>

lemma digit_facts: "is_digit c \<Longrightarrow> \<not> is_js_space c" "is_digit c \<Longrightarrow> lower_unit c = [c]"
  by (auto simp: is_digit_def is_js_space_def lower_unit_def)

lemma trim_digits:
  assumes "list_all is_digit t"
  shows "trim t = t"
proof -
  have "dropWhile is_js_space u = u" if "list_all is_digit u" for u
    using that by (cases u) (auto simp: digit_facts)
  from this [of t] this [of "rev t"] assms show ?thesis by (simp add: trim_def list_all_rev)
qed

lemma string_to_number_digits:
  assumes "list_all is_digit t" and "t \<noteq> []"
  shows "string_to_number t = to_double (of_nat (digits_val t))"
proof -
  have l: "toLowerCase u = u" if "list_all is_digit u" for u
    using that by (induction u) (auto simp: toLowerCase_def digit_facts)
  have d: "list_all is_digit (take 2 t)" using assms(1) by (auto simp: list_all_iff dest: in_set_takeD)
  then have p: "take 2 t \<noteq> js ''0x''" "take 2 t \<noteq> js ''0o''" "take 2 t \<noteq> js ''0b''"
    by (auto simp: js_def is_digit_def)
  have h: "hd t \<noteq> 43" "hd t \<noteq> 45" "t \<noteq> js ''Infinity''"
    using assms by (cases t; auto simp: is_digit_def js_def)+
  have w: "takeWhile is_digit t = t" "dropWhile is_digit t = []"
    using assms(1) by (auto simp: takeWhile_eq_all_conv dropWhile_eq_Nil_conv list_all_iff)
  show ?thesis
    using assms(2) p h by (simp add: string_to_number_def trim_digits [OF assms(1)] l [OF d] Let_def decimal_value_def w
        exponent_part_def pow10_def)
qed

end
