(* ===== verification/AdminTypes.thy ===== *)
theory AdminTypes
  imports LunePrelude
begin

text \<open>
  The data the admin API returns (\<^verbatim>\<open>web/src/lib/types.ts\<close>), one record per interface, in the
  order of the source. A field the source marks \<open>?\<close> or \<open>| null\<close> is an \<open>option\<close>. The status fields
  are strings: the TypeScript unions are not checked at run time, so every string a server can send is
  a value of the model. Field names that several interfaces share carry a prefix.
\<close>

record account_runtime =
  rt_base_url :: jstr
  rt_auth_mode :: jstr
  provider_pinning_supported :: "bool option"

record account =
  acc_id :: int
  acc_label :: jstr
  acc_base_url :: jstr
  api_key_set :: bool
  api_key_masked :: jstr
  acc_enabled :: bool
  acc_status :: jstr
  acc_notes :: jstr
  quota_display :: jstr
  acc_models :: "jstr list option"
  last_checked_at :: "jstr option"
  last_error :: "jstr option"
  acc_created_at :: jstr
  acc_updated_at :: jstr
  source_kind :: jstr
  provider :: jstr
  cpa_service_id :: "int option"
  cpa_provider :: jstr
  cpa_account_key :: jstr
  cpa_email :: jstr
  cpa_plan_type :: jstr
  cpa_openai_id :: jstr
  cpa_expired_at :: "jstr option"
  cpa_last_refresh_at :: "jstr option"
  cpa_disabled :: bool
  cpa_credential_status :: "jstr option"
  cpa_credential_reason :: "jstr option"
  cpa_credential_last_error :: "jstr option"
  cpa_credential_checked_at :: "jstr option"
  cpa_subscription_expires_at :: "jstr option"
  cpa_subscription_fetched_at :: "jstr option"
  cpa_subscription_last_error :: "jstr option"
  cpa_subscription_status :: "jstr option"
  cpa_access_status :: "jstr option"
  cpa_access_reason :: "jstr option"
  cpa_access_last_error :: "jstr option"
  cpa_access_checked_at :: "jstr option"
  codex_quota_json :: "jstr option"
  codex_quota_fetched_at :: "jstr option"
  cpa_quota_status :: "jstr option"
  cpa_quota_last_error :: "jstr option"
  cpa_quota_checked_at :: "jstr option"
  serving_status :: "jstr option"
  failure_count :: "int option"
  last_failure_at :: "jstr option"
  last_success_at :: "jstr option"
  cooldown_until :: "jstr option"
  probe_models :: "jstr list"
  last_probe_status :: "jstr option"
  last_probe_at :: "jstr option"
  last_probe_error :: "jstr option"
  runtime :: "account_runtime option"

record pool =
  pool_id :: int
  pool_label :: jstr
  pool_priority :: int
  pool_enabled :: bool
  routing_policy :: jstr
  account_count :: int
  healthy_account_count :: int
  routable_account_count :: int
  pool_models :: "jstr list"
  pool_created_at :: jstr
  pool_updated_at :: jstr

record pool_member =
  member_id :: int
  member_pool_id :: int
  member_account_id :: int
  member_position :: int
  member_enabled :: bool
  member_account :: "account option"

record access_token =
  token_id :: int
  token_name :: jstr
  token_value :: "jstr option"
  token_masked :: jstr
  token_pool_id :: int
  token_pool_label :: "jstr option"
  token_enabled :: bool
  token_created_at :: jstr
  token_updated_at :: jstr
  token_last_used_at :: "jstr option"

record request_log =
  log_id :: int
  request_id :: jstr
  access_token_name :: jstr
  model_requested :: jstr
  model_actual :: jstr
  log_pool_id :: int
  log_account_id :: int
  log_account_label :: jstr
  status_code :: int
  latency_ms :: int
  input_tokens :: "int option"
  output_tokens :: "int option"
  log_stream :: bool
  request_ip :: jstr
  log_success :: bool
  error_message :: "jstr option"
  log_source_kind :: jstr
  attempt_count :: int
  diagnostic :: "bool option"
  force_account :: "bool option"
  stateful_probe :: "bool option"
  traffic_kind :: "jstr option"
  runtime_auth_index :: jstr
  runtime_auth_id :: jstr
  runtime_account_key :: jstr
  runtime_binding_status :: jstr
  runtime_binding_reason :: jstr
  log_created_at :: jstr

record overview_alert =
  alert_type :: jstr
  alert_message :: jstr
  alert_pool_id :: "int option"

record overview =
  pools_total :: int
  pools_healthy :: int
  accounts_total :: int
  accounts_healthy :: int
  models_total :: int
  requests_today :: int
  success_rate_today :: rat
  avg_latency_today :: rat
  overview_alerts :: "overview_alert list option"

record usage_by_account =
  by_account_id :: int
  by_account_label :: jstr
  by_account_requests :: int
  by_account_successful :: int
  by_account_success_rate :: rat
  by_account_input_tokens :: int
  by_account_output_tokens :: int

record usage_by_token =
  by_token_name :: jstr
  by_token_requests :: int
  by_token_input_tokens :: int
  by_token_output_tokens :: int

record usage_stats =
  total_requests :: int
  success_rate :: rat
  total_input_tokens :: int
  total_output_tokens :: int
  by_account :: "usage_by_account list"
  by_token :: "usage_by_token list"

record pool_detail_response =
  detail_pool :: pool
  detail_members :: "pool_member list option"
  detail_tokens :: "access_token list"
  detail_models :: "jstr list"
  detail_stats :: usage_stats

record usage_log_page =
  page_items :: "request_log list"
  page_total :: int
  page_number :: int
  page_size :: int

record cpa_service =
  svc_id :: int
  svc_label :: jstr
  svc_base_url :: jstr
  svc_api_key_set :: bool
  svc_api_key_masked :: jstr
  svc_enabled :: bool
  svc_status :: jstr
  svc_last_checked_at :: "jstr option"
  svc_last_error :: jstr
  svc_created_at :: jstr
  svc_updated_at :: jstr
  svc_runtime_mode :: "jstr option"
  svc_auth_dir :: "jstr option"
  svc_image_pinned_version :: "jstr option"
  svc_running_version :: "jstr option"
  svc_current_version :: "jstr option"
  svc_latest_version :: "jstr option"
  svc_update_available :: "bool option"
  svc_provider_pinning_supported :: bool
  svc_provider_pinning_state :: "jstr option"

record login_session =
  ls_id :: jstr
  ls_service_id :: "int option"
  ls_pool_id :: "int option"
  ls_provider :: "jstr option"
  ls_status :: jstr
  ls_verification_uri :: "jstr option"
  ls_user_code :: "jstr option"
  ls_expires_at :: "jstr option"
  ls_poll_interval_seconds :: "int option"
  ls_account_id :: "int option"
  ls_account :: "account option"
  ls_error_code :: "jstr option"
  ls_error_message :: "jstr option"

text \<open>
  An account with every field at its neutral value: the starting point of the concrete inputs at
  which the theorems are applied.
\<close>

definition blank_account :: account where
  "blank_account =
     \<lparr>acc_id = 0, acc_label = [], acc_base_url = [], api_key_set = False, api_key_masked = [],
      acc_enabled = True, acc_status = js ''healthy'', acc_notes = [], quota_display = [],
      acc_models = None, last_checked_at = None, last_error = None, acc_created_at = [],
      acc_updated_at = [], source_kind = js ''openai_compat'', provider = [], cpa_service_id = None,
      cpa_provider = [], cpa_account_key = [], cpa_email = [], cpa_plan_type = [],
      cpa_openai_id = [], cpa_expired_at = None, cpa_last_refresh_at = None, cpa_disabled = False,
      cpa_credential_status = None, cpa_credential_reason = None, cpa_credential_last_error = None,
      cpa_credential_checked_at = None, cpa_subscription_expires_at = None,
      cpa_subscription_fetched_at = None, cpa_subscription_last_error = None,
      cpa_subscription_status = None, cpa_access_status = None, cpa_access_reason = None,
      cpa_access_last_error = None, cpa_access_checked_at = None, codex_quota_json = None,
      codex_quota_fetched_at = None, cpa_quota_status = None, cpa_quota_last_error = None,
      cpa_quota_checked_at = None, serving_status = None, failure_count = None,
      last_failure_at = None, last_success_at = None, cooldown_until = None, probe_models = [],
      last_probe_status = None, last_probe_at = None, last_probe_error = None, runtime = None\<rparr>"

end
