(* ===== verification/Copy.thy ===== *)
theory Copy
  imports LunePrelude
begin

text \<open>
  The user-visible texts of the console that the models below return: one constant per literal of
  the source, spelled in UTF-16 code units where the literal is not ASCII. The names gloss the
  Chinese text in English.
\<close>

definition c_label_unknown :: jstr where
  "c_label_unknown =
      [0x5F85, 0x68C0, 0x67E5]"

definition c_label_healthy :: jstr where
  "c_label_healthy =
      [0x6B63, 0x5E38]"

definition c_label_degraded :: jstr where
  "c_label_degraded =
      [0x964D, 0x7EA7]"

definition c_label_error :: jstr where
  "c_label_error =
      [0x5F02, 0x5E38]"

definition c_label_disabled :: jstr where
  "c_label_disabled =
      [0x5DF2, 0x505C, 0x7528]"

definition c_account_missing :: jstr where
  "c_account_missing =
      [0x8D26, 0x53F7, 0x6570, 0x636E, 0x7F3A, 0x5931]"

definition c_account_missing_impact :: jstr where
  "c_account_missing_impact =
      [0x65E0, 0x6CD5, 0x5224, 0x65AD, 0x8DEF, 0x7531, 0x80FD, 0x529B, 0x3002]"

definition c_do_refresh_page :: jstr where
  "c_do_refresh_page =
      [0x5237, 0x65B0, 0x9875, 0x9762]"

definition c_account_disabled :: jstr where
  "c_account_disabled =
      [0x8D26, 0x53F7, 0x5DF2, 0x505C, 0x7528]"

definition c_account_disabled_impact :: jstr where
  "c_account_disabled_impact =
      [0x666E, 0x901A, 0x8DEF, 0x7531, 0x4E0D, 0x4F1A, 0x9009, 0x62E9, 0x8FD9, 0x4E2A, 0x8D26,
      0x53F7, 0x3002]"

definition c_do_enable :: jstr where
  "c_do_enable =
      [0x542F, 0x7528, 0x8D26, 0x53F7, 0x6216] @ js '' Pool '' @ [0x6210, 0x5458]"

definition c_binding_unconfirmed :: jstr where
  "c_binding_unconfirmed =
      js ''Binding '' @ [0x672A, 0x786E, 0x8BA4]"

definition c_binding_unconfirmed_impact :: jstr where
  "c_binding_unconfirmed_impact =
      [0x8BF7, 0x6C42, 0x91CF, 0x3001, 0x989D, 0x5EA6, 0x5F52, 0x56E0, 0x548C, 0x5065, 0x5EB7,
      0x4FEE, 0x590D, 0x6682, 0x4E0D, 0x53EF, 0x4FE1, 0xFF0C, 0x666E, 0x901A, 0x6D41, 0x91CF,
      0x4F1A, 0x5728, 0x7F51, 0x5173, 0x4FA7] @ js '' fail closed'' @ [0x3002]"

definition c_do_check_cpa_runtime :: jstr where
  "c_do_check_cpa_runtime =
      [0x68C0, 0x67E5] @ js '' CPA runtime''"

definition c_do_view_runtime_binding :: jstr where
  "c_do_view_runtime_binding =
      [0x67E5, 0x770B] @ js '' Activity '' @ [0x4E2D, 0x7684] @ js '' Runtime Binding''"

definition c_do_wait_pinning :: jstr where
  "c_do_wait_pinning =
      [0x7B49, 0x5F85] @ js '' provider pinning '' @ [0x652F, 0x6301, 0x540E, 0x518D, 0x63A5,
      0x6D41, 0x91CF]"

definition c_status_unchecked :: jstr where
  "c_status_unchecked =
      [0x72B6, 0x6001, 0x5F85, 0x68C0, 0x67E5]"

definition c_status_unchecked_impact :: jstr where
  "c_status_unchecked_impact =
      [0x7F3A, 0x5C11, 0x8DB3, 0x591F, 0x7684, 0x5065, 0x5EB7, 0x68C0, 0x67E5, 0x7ED3, 0x679C,
      0xFF0C, 0x666E, 0x901A, 0x8DEF, 0x7531, 0x6682, 0x4E0D, 0x9009, 0x62E9, 0x3002]"

definition c_do_refresh_account :: jstr where
  "c_do_refresh_account =
      [0x5237, 0x65B0, 0x8D26, 0x53F7, 0x72B6, 0x6001]"

definition c_do_self_check :: jstr where
  "c_do_self_check =
      [0x8FD0, 0x884C, 0x81EA, 0x68C0]"

definition c_needs_login :: jstr where
  "c_needs_login =
      [0x9700, 0x8981, 0x91CD, 0x767B]"

definition c_needs_login_impact :: jstr where
  "c_needs_login_impact =
      [0x5DF2, 0x786E, 0x8BA4, 0x4E0A, 0x6E38, 0x51ED, 0x636E, 0x5931, 0x6548, 0xFF0C, 0x666E,
      0x901A, 0x8DEF, 0x7531, 0x4F1A, 0x8DF3, 0x8FC7, 0x3002]"

definition c_do_relogin :: jstr where
  "c_do_relogin =
      [0x91CD, 0x65B0, 0x767B, 0x5F55]"

definition c_refresh_failed :: jstr where
  "c_refresh_failed =
      [0x51ED, 0x636E, 0x5237, 0x65B0, 0x5931, 0x8D25]"

definition c_refresh_failed_impact :: jstr where
  "c_refresh_failed_impact =
      [0x7CFB, 0x7EDF, 0x5237, 0x65B0, 0x767B, 0x5F55, 0x6001, 0x5931, 0x8D25, 0xFF0C, 0x666E,
      0x901A, 0x8DEF, 0x7531, 0x4F1A, 0x8DF3, 0x8FC7, 0x3002]"

definition c_runtime_error :: jstr where
  "c_runtime_error =
      js ''CPA Runtime '' @ [0x5F02, 0x5E38]"

definition c_runtime_error_impact :: jstr where
  "c_runtime_error_impact =
      [0x8FD0, 0x884C, 0x73AF, 0x5883, 0x4E0D, 0x53EF, 0x7528, 0x6216, 0x914D, 0x7F6E, 0x5F02,
      0x5E38, 0xFF0C, 0x666E, 0x901A, 0x8DEF, 0x7531, 0x4F1A, 0x8DF3, 0x8FC7, 0x3002]"

definition c_do_view_service_log :: jstr where
  "c_do_view_service_log =
      [0x67E5, 0x770B, 0x670D, 0x52A1, 0x65E5, 0x5FD7]"

definition c_credential_syncing :: jstr where
  "c_credential_syncing =
      [0x51ED, 0x636E, 0x540C, 0x6B65, 0x4E2D]"

definition c_credential_syncing_impact :: jstr where
  "c_credential_syncing_impact =
      js ''auth file '' @ [0x4E0E] @ js '' runtime '' @ [0x7D22, 0x5F15, 0x4ECD, 0x5728, 0x540C,
      0x6B65, 0xFF0C, 0x666E, 0x901A, 0x8DEF, 0x7531, 0x6682, 0x4E0D, 0x9009, 0x62E9, 0x3002]"

definition c_do_refresh_later :: jstr where
  "c_do_refresh_later =
      [0x7A0D, 0x540E, 0x5237, 0x65B0, 0x72B6, 0x6001]"

definition c_credential_unknown :: jstr where
  "c_credential_unknown =
      [0x51ED, 0x636E, 0x72B6, 0x6001, 0x672A, 0x77E5]"

definition c_credential_unknown_impact :: jstr where
  "c_credential_unknown_impact =
      [0x7F3A, 0x5C11, 0x53EF, 0x4FE1, 0x51ED, 0x636E, 0x72B6, 0x6001, 0xFF0C, 0x666E, 0x901A,
      0x8DEF, 0x7531, 0x4F1A, 0x8DF3, 0x8FC7, 0x3002]"

definition c_access_ineligible :: jstr where
  "c_access_ineligible =
      js ''Access '' @ [0x4E0D, 0x53EF, 0x7528]"

definition c_access_pending :: jstr where
  "c_access_pending =
      js ''Access '' @ [0x5F85, 0x786E, 0x8BA4]"

definition c_access_error :: jstr where
  "c_access_error =
      js ''Access '' @ [0x63A2, 0x6D4B, 0x5931, 0x8D25]"

definition c_access_unconfirmed :: jstr where
  "c_access_unconfirmed =
      js ''Access '' @ [0x672A, 0x786E, 0x8BA4]"

definition c_access_impact :: jstr where
  "c_access_impact =
      js ''Codex '' @ [0x4F7F, 0x7528, 0x8D44, 0x683C, 0x5C1A, 0x672A, 0x786E, 0x8BA4, 0x53EF,
      0x7528, 0xFF0C, 0x666E, 0x901A, 0x8DEF, 0x7531, 0x4F1A, 0x8DF3, 0x8FC7, 0x3002]"

definition c_do_check_access :: jstr where
  "c_do_check_access =
      [0x68C0, 0x67E5] @ js '' Access '' @ [0x8BE6, 0x60C5]"

definition c_quota_exhausted :: jstr where
  "c_quota_exhausted =
      [0x989D, 0x5EA6, 0x5DF2, 0x7528, 0x5C3D]"

definition c_quota_exhausted_impact :: jstr where
  "c_quota_exhausted_impact =
      [0x989D, 0x5EA6, 0x63A5, 0x53E3, 0x660E, 0x786E, 0x62D2, 0x7EDD, 0x7EE7, 0x7EED, 0x4F7F,
      0x7528, 0xFF0C, 0x666E, 0x901A, 0x8DEF, 0x7531, 0x4F1A, 0x8DF3, 0x8FC7, 0x3002]"

definition c_do_refresh_quota :: jstr where
  "c_do_refresh_quota =
      [0x5237, 0x65B0, 0x989D, 0x5EA6]"

definition c_do_switch_account :: jstr where
  "c_do_switch_account =
      [0x66F4, 0x6362, 0x8D26, 0x53F7]"

definition c_do_view_activity :: jstr where
  "c_do_view_activity =
      [0x67E5, 0x770B] @ js '' Activity''"

definition c_do_wait_cooldown :: jstr where
  "c_do_wait_cooldown =
      [0x7B49, 0x5F85, 0x51B7, 0x5374, 0x7ED3, 0x675F]"

definition c_serving_cooldown :: jstr where
  "c_serving_cooldown =
      [0x670D, 0x52A1, 0x51B7, 0x5374, 0x4E2D]"

definition c_serving_cooldown_impact :: jstr where
  "c_serving_cooldown_impact =
      [0x6700, 0x8FD1, 0x771F, 0x5B9E, 0x8BF7, 0x6C42, 0x5931, 0x8D25, 0xFF0C, 0x51B7, 0x5374,
      0x7ED3, 0x675F, 0x524D, 0x666E, 0x901A, 0x8DEF, 0x7531, 0x4F1A, 0x8DF3, 0x8FC7, 0x3002]"

definition c_serving_error :: jstr where
  "c_serving_error =
      [0x670D, 0x52A1, 0x5F02, 0x5E38]"

definition c_serving_error_impact :: jstr where
  "c_serving_error_impact =
      [0x771F, 0x5B9E, 0x6A21, 0x578B, 0x8BF7, 0x6C42, 0x6301, 0x7EED, 0x5931, 0x8D25, 0xFF0C,
      0x666E, 0x901A, 0x8DEF, 0x7531, 0x4F1A, 0x8DF3, 0x8FC7, 0x3002]"

definition c_do_view_last_error :: jstr where
  "c_do_view_last_error =
      [0x67E5, 0x770B, 0x6700, 0x8FD1, 0x9519, 0x8BEF]"

definition c_unroutable :: jstr where
  "c_unroutable =
      [0x4E0D, 0x53EF, 0x8DEF, 0x7531]"

definition c_unroutable_impact :: jstr where
  "c_unroutable_impact =
      [0x5F53, 0x524D, 0x7EC4, 0x5408, 0x72B6, 0x6001, 0x4E0D, 0x6EE1, 0x8DB3, 0x666E, 0x901A,
      0x8DEF, 0x7531, 0x6761, 0x4EF6, 0x3002]"

definition c_do_view_diagnosis :: jstr where
  "c_do_view_diagnosis =
      [0x67E5, 0x770B, 0x8BCA, 0x65AD]"

definition c_quota_query_failed :: jstr where
  "c_quota_query_failed =
      [0x989D, 0x5EA6, 0x67E5, 0x8BE2, 0x5931, 0x8D25]"

definition c_quota_query_failed_impact :: jstr where
  "c_quota_query_failed_impact =
      [0x6700, 0x8FD1, 0x6A21, 0x578B, 0x8C03, 0x7528, 0x53EF, 0x7528, 0x6027, 0x672A, 0x88AB,
      0x5355, 0x72EC, 0x5426, 0x5B9A, 0xFF0C, 0x4F46, 0x989D, 0x5EA6, 0x63A5, 0x53E3, 0x6682,
      0x4E0D, 0x53EF, 0x7528, 0xFF0C, 0x8DEF, 0x7531, 0x4F1A, 0x964D, 0x6743, 0x3002]"

definition c_quota_unknown :: jstr where
  "c_quota_unknown =
      [0x989D, 0x5EA6, 0x672A, 0x77E5]"

definition c_quota_unknown_impact :: jstr where
  "c_quota_unknown_impact =
      [0x6CA1, 0x6709, 0x53EF, 0x7528, 0x989D, 0x5EA6, 0x5FEB, 0x7167, 0xFF0C, 0x8D26, 0x53F7,
      0x53EF, 0x8DEF, 0x7531, 0x4F46, 0x4F1A, 0x964D, 0x6743, 0x3002]"

definition c_auth_suspect :: jstr where
  "c_auth_suspect =
      [0x9274, 0x6743, 0x5F85, 0x786E, 0x8BA4]"

definition c_auth_suspect_impact :: jstr where
  "c_auth_suspect_impact =
      [0x8F85, 0x52A9, 0x63A5, 0x53E3, 0x7591, 0x4F3C, 0x9274, 0x6743, 0x5F02, 0x5E38, 0xFF0C,
      0x4F46, 0x771F, 0x5B9E, 0x6A21, 0x578B, 0x8C03, 0x7528, 0x5C1A, 0x672A, 0x786E, 0x8BA4,
      0x5931, 0x8D25, 0xFF0C, 0x8DEF, 0x7531, 0x4F1A, 0x964D, 0x6743, 0x3002]"

definition c_do_direct_test :: jstr where
  "c_do_direct_test =
      [0x8FD0, 0x884C, 0x76F4, 0x6D4B]"

definition c_routable :: jstr where
  "c_routable =
      [0x53EF, 0x63A5, 0x6D41, 0x91CF]"

definition c_routable_impact :: jstr where
  "c_routable_impact =
      [0x8D26, 0x53F7, 0x6EE1, 0x8DB3, 0x666E, 0x901A, 0x8DEF, 0x7531, 0x6761, 0x4EF6, 0x3002]"

definition c_do_keep_watching :: jstr where
  "c_do_keep_watching =
      [0x4FDD, 0x6301, 0x76D1, 0x63A7]"

definition c_direct_access :: jstr where
  "c_direct_access =
      [0x76F4, 0x8FDE] @ js '' '' @ [0x00B7] @ js '' ''"

definition c_cpa_access :: jstr where
  "c_cpa_access =
      js ''CPA '' @ [0x00B7] @ js '' ''"

definition c_expired :: jstr where
  "c_expired =
      [0x5DF2, 0x8FC7, 0x671F]"

definition c_days_within :: jstr where
  "c_days_within =
      js '' '' @ [0x5929, 0x5185, 0x5230, 0x671F]"

definition c_days_after :: jstr where
  "c_days_after =
      js '' '' @ [0x5929, 0x540E, 0x5230, 0x671F]"

definition c_relogin_required :: jstr where
  "c_relogin_required =
      [0x9700, 0x8981, 0x91CD, 0x65B0, 0x767B, 0x5F55]"

definition c_quota_blocked_detail :: jstr where
  "c_quota_blocked_detail =
      [0x989D, 0x5EA6, 0x5DF2, 0x8017, 0x5C3D, 0x6216, 0x4E0A, 0x6E38, 0x62D2, 0x7EDD, 0x4F7F,
      0x7528]"

definition c_model_rate_limited :: jstr where
  "c_model_rate_limited =
      [0x6A21, 0x578B, 0x8BF7, 0x6C42, 0x88AB, 0x9650, 0x6D41]"

definition c_model_rate_limited_detail :: jstr where
  "c_model_rate_limited_detail =
      [0x6700, 0x8FD1, 0x4E00, 0x6B21, 0x771F, 0x5B9E, 0x6A21, 0x578B, 0x8BF7, 0x6C42, 0x8FD4,
      0x56DE, 0x4E86] @ js '' HTTP 429''"

definition c_management_detail :: jstr where
  "c_management_detail =
      js ''CPA management '' @ [0x65E0, 0x6CD5, 0x4EE3, 0x7406, 0x989D, 0x5EA6, 0x67E5, 0x8BE2,
      0x3002]"

definition c_quota_auth_detail :: jstr where
  "c_quota_auth_detail =
      [0x989D, 0x5EA6, 0x8F85, 0x52A9, 0x63A5, 0x53E3, 0x9274, 0x6743, 0x5931, 0x8D25, 0xFF0C,
      0x4E0D, 0x4EE3, 0x8868, 0x6A21, 0x578B, 0x8BF7, 0x6C42, 0x88AB, 0x9650, 0x6D41, 0x3002]"

definition c_quota_aux_detail :: jstr where
  "c_quota_aux_detail =
      [0x989D, 0x5EA6, 0x8F85, 0x52A9, 0x63A5, 0x53E3, 0x6682, 0x4E0D, 0x53EF, 0x7528, 0x3002]"

definition c_no_quota_snapshot :: jstr where
  "c_no_quota_snapshot =
      [0x6CA1, 0x6709, 0x53EF, 0x7528, 0x989D, 0x5EA6, 0x5FEB, 0x7167, 0x3002]"

definition c_subscription_failed :: jstr where
  "c_subscription_failed =
      [0x8BA2, 0x9605, 0x5230, 0x671F, 0x83B7, 0x53D6, 0x5931, 0x8D25]"

definition c_reason_disabled :: jstr where
  "c_reason_disabled =
      js ''CPA '' @ [0x51ED, 0x8BC1, 0x5DF2, 0x88AB, 0x7981, 0x7528]"

definition c_reason_file_missing :: jstr where
  "c_reason_file_missing =
      js ''CPA '' @ [0x51ED, 0x8BC1, 0x6587, 0x4EF6, 0x7F3A, 0x5931]"

definition c_reason_file_corrupt :: jstr where
  "c_reason_file_corrupt =
      js ''CPA '' @ [0x51ED, 0x8BC1, 0x6587, 0x4EF6, 0x635F, 0x574F]"

definition c_reason_index_pending :: jstr where
  "c_reason_index_pending =
      [0x6B63, 0x5728, 0x540C, 0x6B65, 0x8D26, 0x53F7, 0x51ED, 0x636E]"

definition c_reason_unreachable :: jstr where
  "c_reason_unreachable =
      js ''CPA runtime '' @ [0x4E0D, 0x53EF, 0x7528]"

definition c_reason_service_missing :: jstr where
  "c_reason_service_missing =
      js ''CPA '' @ [0x670D, 0x52A1, 0x7F3A, 0x5931]"

definition c_reason_key_missing :: jstr where
  "c_reason_key_missing =
      js ''CPA '' @ [0x7BA1, 0x7406, 0x5BC6, 0x94A5, 0x7F3A, 0x5931]"

definition c_reason_dir_missing :: jstr where
  "c_reason_dir_missing =
      js ''CPA '' @ [0x51ED, 0x8BC1, 0x76EE, 0x5F55, 0x672A, 0x914D, 0x7F6E]"

definition c_reason_refresh_failed :: jstr where
  "c_reason_refresh_failed =
      js ''CPA '' @ [0x81EA, 0x52A8, 0x5237, 0x65B0, 0x5931, 0x8D25]"

definition c_reason_auth_suspect :: jstr where
  "c_reason_auth_suspect =
      [0x9274, 0x6743, 0x72B6, 0x6001, 0x5F85, 0x786E, 0x8BA4]"

definition c_reason_auth_failed :: jstr where
  "c_reason_auth_failed =
      js ''CPA '' @ [0x6388, 0x6743, 0x5931, 0x8D25]"

definition c_reason_default :: jstr where
  "c_reason_default =
      js ''CPA '' @ [0x767B, 0x5F55, 0x6001, 0x5931, 0x6548]"

definition c_quota_weekly_failed_detail :: jstr where
  "c_quota_weekly_failed_detail =
      [0x989D, 0x5EA6, 0x8F85, 0x52A9, 0x63A5, 0x53E3, 0x6682, 0x4E0D, 0x53EF, 0x7528, 0xFF0C,
      0x672A, 0x62FF, 0x5230] @ js '' 7 '' @ [0x5929, 0x989D, 0x5EA6, 0x5FEB, 0x7167, 0x3002]"

definition c_no_weekly_quota :: jstr where
  "c_no_weekly_quota =
      [0x65E0, 0x5468, 0x989D, 0x5EA6]"

definition c_no_weekly_quota_detail :: jstr where
  "c_no_weekly_quota_detail =
      [0x5F53, 0x524D, 0x8BA1, 0x5212, 0x672A, 0x8FD4, 0x56DE] @ js '' 7 '' @ [0x5929, 0x989D,
      0x5EA6, 0x7A97, 0x53E3, 0x3002]"

definition c_weekly_unknown :: jstr where
  "c_weekly_unknown =
      [0x5468, 0x989D, 0x5EA6, 0x672A, 0x77E5]"

definition c_weekly_unknown_detail :: jstr where
  "c_weekly_unknown_detail =
      [0x8D26, 0x53F7, 0x8BA1, 0x5212, 0x6216] @ js '' quota snapshot '' @ [0x4E0D, 0x5B8C,
      0x6574, 0xFF0C, 0x4E0D, 0x80FD, 0x5224, 0x65AD, 0x662F, 0x5426, 0x5B58, 0x5728] @ js '' 7 ''
      @ [0x5929, 0x7A97, 0x53E3, 0x3002]"

definition c_weekly_pending :: jstr where
  "c_weekly_pending =
      [0x5468, 0x989D, 0x5EA6, 0x5F85, 0x540C, 0x6B65]"

definition c_weekly_pending_detail :: jstr where
  "c_weekly_pending_detail =
      [0x989D, 0x5EA6, 0x5FEB, 0x7167, 0x672A, 0x8FD4, 0x56DE] @ js '' 7 '' @ [0x5929, 0x7A97,
      0x53E3, 0xFF0C, 0x4E0D, 0x80FD, 0x5224, 0x65AD, 0x5468, 0x989D, 0x5EA6, 0x3002]"

definition c_already_reset :: jstr where
  "c_already_reset =
      [0x5DF2, 0x91CD, 0x7F6E]"

definition c_never :: jstr where
  "c_never =
      [0x4ECE, 0x672A]"

definition c_just_now :: jstr where
  "c_just_now =
      [0x521A, 0x521A]"

definition c_ago :: jstr where
  "c_ago =
      js '' '' @ [0x524D]"

definition c_minutes_ago :: jstr where
  "c_minutes_ago =
      js '' '' @ [0x5206, 0x949F, 0x524D]"

definition c_hours_ago :: jstr where
  "c_hours_ago =
      js '' '' @ [0x5C0F, 0x65F6, 0x524D]"

definition c_days_ago :: jstr where
  "c_days_ago =
      js '' '' @ [0x5929, 0x524D]"

definition c_moon_new :: jstr where
  "c_moon_new =
      [0x65B0, 0x6708]"

definition c_moon_waxing_crescent :: jstr where
  "c_moon_waxing_crescent =
      [0x5A25, 0x7709, 0x6708]"

definition c_moon_first_quarter :: jstr where
  "c_moon_first_quarter =
      [0x4E0A, 0x5F26, 0x6708]"

definition c_moon_waxing_gibbous :: jstr where
  "c_moon_waxing_gibbous =
      [0x6E10, 0x76C8, 0x51F8, 0x6708]"

definition c_moon_full :: jstr where
  "c_moon_full =
      [0x6EE1, 0x6708]"

definition c_moon_waning_gibbous :: jstr where
  "c_moon_waning_gibbous =
      [0x6E10, 0x4E8F, 0x51F8, 0x6708]"

definition c_moon_last_quarter :: jstr where
  "c_moon_last_quarter =
      [0x4E0B, 0x5F26, 0x6708]"

definition c_moon_waning_crescent :: jstr where
  "c_moon_waning_crescent =
      [0x6B8B, 0x6708]"

definition c_lb_corner :: jstr where
  "c_lb_corner =
      [0x300C]"

definition c_rb_corner :: jstr where
  "c_rb_corner =
      [0x300D]"

definition c_account :: jstr where
  "c_account =
      [0x8D26, 0x53F7]"

definition c_will_at :: jstr where
  "c_will_at =
      [0x5C06, 0x4E8E] @ js '' ''"

definition c_expire :: jstr where
  "c_expire =
      js '' '' @ [0x5230, 0x671F]"

definition c_login_invalid_colon :: jstr where
  "c_login_invalid_colon =
      js ''CPA '' @ [0x767B, 0x5F55, 0x6001, 0x5931, 0x6548, 0xFF1A]"

definition c_login_invalid_relogin :: jstr where
  "c_login_invalid_relogin =
      js ''CPA '' @ [0x767B, 0x5F55, 0x6001, 0x5931, 0x6548, 0xFF0C, 0x9700, 0x8981, 0x91CD,
      0x65B0, 0x767B, 0x5F55]"

definition c_quota_limited_colon :: jstr where
  "c_quota_limited_colon =
      [0x989D, 0x5EA6, 0x53D7, 0x9650, 0xFF1A]"

definition c_quota_limited :: jstr where
  "c_quota_limited =
      [0x989D, 0x5EA6, 0x53D7, 0x9650]"

definition c_status_abnormal_colon :: jstr where
  "c_status_abnormal_colon =
      [0x72B6, 0x6001, 0x5F02, 0x5E38, 0xFF1A]"

definition c_status_abnormal :: jstr where
  "c_status_abnormal =
      [0x72B6, 0x6001, 0x5F02, 0x5E38]"

definition c_no_routable_account :: jstr where
  "c_no_routable_account =
      [0x5F53, 0x524D, 0x6CA1, 0x6709, 0x53EF, 0x8DEF, 0x7531, 0x7684, 0x8D26, 0x53F7]"

definition c_overview_failed :: jstr where
  "c_overview_failed =
      [0x603B, 0x89C8, 0x52A0, 0x8F7D, 0x5931, 0x8D25]"

definition c_ph_event :: jstr where
  "c_ph_event =
      [0x3010, 0x4E8B, 0x4EF6, 0x3011]"

definition c_ph_severity :: jstr where
  "c_ph_severity =
      [0x3010, 0x4E25, 0x91CD, 0x7EA7, 0x522B, 0x3011]"

definition c_ph_time :: jstr where
  "c_ph_time =
      [0x3010, 0x65F6, 0x95F4, 0x3011]"

definition c_ph_account :: jstr where
  "c_ph_account =
      [0x3010, 0x8D26, 0x53F7, 0x3011]"

definition c_ph_expires :: jstr where
  "c_ph_expires =
      [0x3010, 0x8FC7, 0x671F, 0x65F6, 0x95F4, 0x3011]"

definition c_ph_invalid_reason :: jstr where
  "c_ph_invalid_reason =
      [0x3010, 0x5931, 0x6548, 0x539F, 0x56E0, 0x3011]"

definition c_ph_last_error :: jstr where
  "c_ph_last_error =
      [0x3010, 0x6700, 0x8FD1, 0x9519, 0x8BEF, 0x3011]"

definition c_ph_service :: jstr where
  "c_ph_service =
      [0x3010, 0x670D, 0x52A1, 0x3011]"

definition c_ph_instance :: jstr where
  "c_ph_instance =
      [0x3010, 0x5B9E, 0x4F8B, 0x3011]"

definition c_ph_admin :: jstr where
  "c_ph_admin =
      [0x3010, 0x7BA1, 0x7406, 0x540E, 0x53F0, 0x3011]"

definition c_trig_expiring :: jstr where
  "c_trig_expiring =
      [0x8D26, 0x53F7, 0x8BA2, 0x9605, 0x6216, 0x975E] @ js '' Codex CPA '' @ [0x51ED, 0x636E,
      0x5728, 0x9608, 0x503C, 0x5185, 0x5373, 0x5C06, 0x8FC7, 0x671F]"

definition c_trig_credential :: jstr where
  "c_trig_credential =
      js ''CPA '' @ [0x767B, 0x5F55, 0x6001, 0x5931, 0x6548, 0xFF0C, 0x9700, 0x8981, 0x7528,
      0x6237, 0x91CD, 0x65B0, 0x767B, 0x5F55]"

definition c_trig_account_error :: jstr where
  "c_trig_account_error =
      [0x8D26, 0x53F7, 0x5065, 0x5EB7, 0x68C0, 0x67E5, 0x8FDE, 0x7EED, 0x5931, 0x8D25]"

definition c_trig_service :: jstr where
  "c_trig_service =
      [0x5185, 0x7F6E] @ js '' CPA '' @ [0x8FD0, 0x884C, 0x72B6, 0x6001, 0x68C0, 0x67E5, 0x5931,
      0x8D25]"

definition c_trig_test :: jstr where
  "c_trig_test =
      [0x624B, 0x52A8, 0x70B9, 0x51FB] @ js '' Send Test '' @ [0x89E6, 0x53D1]"

definition c_dg_late_night :: jstr where
  "c_dg_late_night =
      [0x6DF1, 0x591C, 0x597D]"

definition c_dg_morning :: jstr where
  "c_dg_morning =
      [0x65E9, 0x4E0A, 0x597D]"

definition c_dg_noon :: jstr where
  "c_dg_noon =
      [0x5348, 0x540E]"

definition c_dg_afternoon :: jstr where
  "c_dg_afternoon =
      [0x4E0B, 0x5348, 0x597D]"

definition c_dg_evening :: jstr where
  "c_dg_evening =
      [0x665A, 0x4E0A, 0x597D]"

definition c_dg_night :: jstr where
  "c_dg_night =
      [0x591C, 0x6DF1, 0x4E86]"

definition c_dg_ran :: jstr where
  "c_dg_ran =
      [0xFF0C, 0x8FC7, 0x53BB] @ js '' 24 '' @ [0x5C0F, 0x65F6, 0x5DF2, 0x7ECF, 0x8DD1, 0x8FC7]"

definition c_dg_requests :: jstr where
  "c_dg_requests =
      [0x6B21, 0x8BF7, 0x6C42]"

definition c_dg_avg :: jstr where
  "c_dg_avg =
      [0xFF0C, 0x5E73, 0x5747, 0x5EF6, 0x8FDF]"

definition c_dg_of_which :: jstr where
  "c_dg_of_which =
      [0xFF0C, 0x5176, 0x4E2D] @ js '' ''"

definition c_dg_streamed :: jstr where
  "c_dg_streamed =
      js '' '' @ [0x6761, 0x8D70, 0x4E86] @ js '' stream''"

definition c_dg_comma :: jstr where
  "c_dg_comma =
      [0xFF0C]"

definition c_dg_period :: jstr where
  "c_dg_period =
      [0x3002]"

definition c_dg_rparen :: jstr where
  "c_dg_rparen =
      [0xFF09]"

definition c_dg_up1 :: jstr where
  "c_dg_up1 =
      [0x6BD4, 0x6628, 0x5929, 0x8FD9, 0x4F1A, 0x513F, 0x70ED, 0x95F9, 0xFF08, 0x6628, 0x5929]
      @ js '' ''"

definition c_dg_up2 :: jstr where
  "c_dg_up2 =
      [0x6BD4, 0x6628, 0x5929, 0x591A, 0x51FA, 0x4E00, 0x622A, 0xFF08, 0x6628, 0x5929] @ js '' ''"

definition c_dg_down1 :: jstr where
  "c_dg_down1 =
      [0x6BD4, 0x6628, 0x5929, 0x51B7, 0x6E05, 0xFF08, 0x6628, 0x5929] @ js '' ''"

definition c_dg_down2 :: jstr where
  "c_dg_down2 =
      [0x6BD4, 0x6628, 0x5929, 0x5C11, 0x4E86, 0x4E0D, 0x5C11, 0xFF08, 0x6628, 0x5929] @ js '' ''"

definition c_dg_route1a :: jstr where
  "c_dg_route1a =
      [0x6709] @ js '' ''"

definition c_dg_route1b :: jstr where
  "c_dg_route1b =
      js '' '' @ [0x6B21, 0x8BF7, 0x6C42, 0x8FDE, 0x4E0A, 0x6E38, 0x90FD, 0x6CA1, 0x6253, 0x5230,
      0xFF0C, 0x88AB, 0x8DEF, 0x7531, 0x76F4, 0x63A5, 0x62D2, 0x4E86]"

definition c_dg_route2 :: jstr where
  "c_dg_route2 =
      js '' '' @ [0x6B21, 0x8BF7, 0x6C42, 0x5361, 0x5728, 0x8DEF, 0x7531, 0x5C42, 0x5C31, 0x5931,
      0x8D25, 0x4E86]"

definition c_dg_route3a :: jstr where
  "c_dg_route3a =
      [0x770B, 0x5230] @ js '' ''"

definition c_dg_route3b :: jstr where
  "c_dg_route3b =
      js '' '' @ [0x6B21, 0x8DEF, 0x7531, 0x62D2, 0x7EDD, 0xFF0C, 0x53EF, 0x80FD, 0x662F, 0x6A21,
      0x578B, 0x6CA1, 0x914D, 0x6216] @ js '' pool '' @ [0x4E0D, 0x5065, 0x5EB7]"

definition c_dg_route_tail :: jstr where
  "c_dg_route_tail =
      [0xFF0C, 0x503C, 0x5F97, 0x67E5, 0x4E00, 0x4E0B, 0x8DEF, 0x7531, 0x914D, 0x7F6E, 0x3002]"

definition c_dg_rate_up1 :: jstr where
  "c_dg_rate_up1 =
      [0x6BD4, 0x6628, 0x5929, 0x66F4, 0x7A33, 0x4E86]"

definition c_dg_rate_up2 :: jstr where
  "c_dg_rate_up2 =
      [0x6BD4, 0x6628, 0x5929, 0x597D, 0x4E00, 0x622A]"

definition c_dg_rate_down1 :: jstr where
  "c_dg_rate_down1 =
      [0x6BD4, 0x6628, 0x5929, 0x660E, 0x663E, 0x5DEE, 0x4E86, 0x4E00, 0x4E9B]"

definition c_dg_rate_down2 :: jstr where
  "c_dg_rate_down2 =
      [0x6BD4, 0x6628, 0x5929, 0x4E0B, 0x6ED1, 0x4E86]"

definition c_dg_green1 :: jstr where
  "c_dg_green1 =
      [0x51E0, 0x4E4E, 0x4E00, 0x8DEF, 0x7EFF, 0x706F]"

definition c_dg_green2 :: jstr where
  "c_dg_green2 =
      [0x633A, 0x7701, 0x5FC3, 0x7684]"

definition c_dg_green3 :: jstr where
  "c_dg_green3 =
      [0x4ECA, 0x5929, 0x72B6, 0x6001, 0x4E0D, 0x9519]"

definition c_dg_rate :: jstr where
  "c_dg_rate =
      [0x6210, 0x529F, 0x7387]"

definition c_dg_with :: jstr where
  "c_dg_with =
      [0xFF0C, 0x6709] @ js '' ''"

definition c_dg_final_failed :: jstr where
  "c_dg_final_failed =
      js '' '' @ [0x6B21, 0x6700, 0x7EC8, 0x5931, 0x8D25]"

definition c_dg_see_top :: jstr where
  "c_dg_see_top =
      [0xFF0C, 0x7FFB, 0x4E00, 0x4E0B] @ js '' Top Errors '' @ [0x770B, 0x770B, 0x3002]"

definition c_dg_rate_fell :: jstr where
  "c_dg_rate_fell =
      [0x6210, 0x529F, 0x7387, 0x8DCC, 0x5230]"

definition c_dg_dropped :: jstr where
  "c_dg_dropped =
      js '' '' @ [0x6B21, 0x8BF7, 0x6C42, 0x76F4, 0x63A5, 0x6389, 0x7ED9, 0x4E86, 0x5BA2, 0x6237,
      0x7AEF]"

definition c_dg_top_first :: jstr where
  "c_dg_top_first =
      [0xFF0C] @ js ''Top Errors '' @ [0x662F, 0x7B2C, 0x4E00, 0x4F18, 0x5148, 0x7EA7, 0x3002]"

definition c_dg_network :: jstr where
  "c_dg_network =
      [0x7F51, 0x7EDC, 0x6545, 0x969C]"

definition c_dg_err1 :: jstr where
  "c_dg_err1 =
      [0x5931, 0x8D25, 0x91CC, 0x51FA, 0x955C, 0x6700, 0x591A, 0x7684, 0x662F] @ js '' ''"

definition c_dg_err2 :: jstr where
  "c_dg_err2 =
      [0x6700, 0x9891, 0x7E41, 0x7684, 0x5931, 0x8D25, 0x662F] @ js '' ''"

definition c_dg_err3 :: jstr where
  "c_dg_err3 =
      [0x4ECA, 0x5929, 0x649E, 0x5F97, 0x6700, 0x591A, 0x7684, 0x9519, 0x662F] @ js '' ''"

definition c_dg_lparen :: jstr where
  "c_dg_lparen =
      [0xFF08]"

definition c_dg_times :: jstr where
  "c_dg_times =
      js '' '' @ [0x6B21, 0xFF09, 0xFF0C]"

definition c_dg_slow1 :: jstr where
  "c_dg_slow1 =
      [0x5C3E, 0x90E8, 0x5EF6, 0x8FDF, 0x504F, 0x6162]"

definition c_dg_slow2 :: jstr where
  "c_dg_slow2 =
      [0x6162, 0x8BF7, 0x6C42, 0x6BD4, 0x8F83, 0x660E, 0x663E]"

definition c_dg_p95_at :: jstr where
  "c_dg_p95_at =
      [0xFF0C] @ js ''p95 '' @ [0x5DF2, 0x7ECF, 0x5230]"

definition c_dg_slow_tail :: jstr where
  "c_dg_slow_tail =
      [0xFF0C, 0x770B, 0x770B, 0x662F, 0x4E0D, 0x662F, 0x67D0, 0x4E2A] @ js '' account ''
      @ [0x62D6, 0x540E, 0x817F, 0x3002]"

definition c_dg_fast1 :: jstr where
  "c_dg_fast1 =
      [0x957F, 0x5C3E, 0x5EF6, 0x8FDF, 0x660E, 0x663E, 0x6536, 0x655B]"

definition c_dg_fast2 :: jstr where
  "c_dg_fast2 =
      [0x6162, 0x8BF7, 0x6C42, 0x5C11, 0x4E86, 0x5F88, 0x591A]"

definition c_dg_p95_from :: jstr where
  "c_dg_p95_from =
      [0x2014, 0x2014] @ js ''p95 '' @ [0x4ECE] @ js '' ''"

definition c_dg_p95_to :: jstr where
  "c_dg_p95_to =
      js '' '' @ [0x964D, 0x5230]"

definition c_dg_pool1a :: jstr where
  "c_dg_pool1a =
      [0x6D41, 0x91CF, 0x538B, 0x5728, 0x4E86] @ js '' ''"

definition c_dg_pool1b :: jstr where
  "c_dg_pool1b =
      js '' '' @ [0x4E00, 0x4E2A] @ js '' pool '' @ [0x4E0A, 0xFF0C, 0x5360] @ js '' ''"

definition c_dg_pool2a :: jstr where
  "c_dg_pool2a =
      js '' '' @ [0x625B, 0x4E86] @ js '' ''"

definition c_dg_pool2b :: jstr where
  "c_dg_pool2b =
      js '' '' @ [0x7684, 0x91CF]"

definition c_dg_asleep :: jstr where
  "c_dg_asleep =
      [0xFF0C, 0x522B, 0x7684] @ js '' pool '' @ [0x57FA, 0x672C, 0x5728, 0x7761]"

definition c_dg_model1 :: jstr where
  "c_dg_model1 =
      js '' '' @ [0x4E00, 0x4E2A, 0x6A21, 0x578B, 0x5C31, 0x5403, 0x6389] @ js '' ''"

definition c_dg_model2a :: jstr where
  "c_dg_model2a =
      js '' '' @ [0x7684, 0x8BF7, 0x6C42, 0x90FD, 0x6253, 0x5728] @ js '' ''"

definition c_dg_model2b :: jstr where
  "c_dg_model2b =
      js '' '' @ [0x4E0A]"

definition c_dg_busy1 :: jstr where
  "c_dg_busy1 =
      js '' '' @ [0x90A3, 0x5C0F, 0x65F6, 0x5360, 0x4E86, 0x4ECA, 0x5929] @ js '' ''"

definition c_dg_busy2a :: jstr where
  "c_dg_busy2a =
      [0x6709, 0x4E2A, 0x660E, 0x663E, 0x7684, 0x5C16, 0x5CF0, 0x5728] @ js '' ''"

definition c_dg_busy2b :: jstr where
  "c_dg_busy2b =
      [0xFF0C, 0x5360, 0x4E86] @ js '' ''"

definition c_dg_retry1a :: jstr where
  "c_dg_retry1a =
      [0x91CD, 0x8BD5, 0x6551, 0x56DE, 0x4E86] @ js '' ''"

definition c_dg_retry1b :: jstr where
  "c_dg_retry1b =
      js '' '' @ [0x6B21, 0x8BF7, 0x6C42]"

definition c_dg_retry2 :: jstr where
  "c_dg_retry2 =
      js '' '' @ [0x6B21, 0x8BF7, 0x6C42, 0x662F, 0x9760, 0x91CD, 0x8BD5, 0x624D, 0x6210, 0x7684]"

definition c_dg_retry3a :: jstr where
  "c_dg_retry3a =
      [0x4ECA, 0x5929, 0x6709] @ js '' ''"

definition c_dg_retry3b :: jstr where
  "c_dg_retry3b =
      js '' '' @ [0x6B21, 0x8BF7, 0x6C42, 0x8E29, 0x4E86, 0x5751, 0x4F46, 0x88AB, 0x91CD, 0x8BD5,
      0x635E, 0x56DE]"

definition c_dg_retry_tail :: jstr where
  "c_dg_retry_tail =
      [0x2014, 0x2014, 0x7528, 0x6237, 0x4FA7, 0x770B, 0x5230, 0x7684, 0x662F, 0x6210, 0x529F,
      0xFF0C, 0x80CC, 0x540E, 0x786E, 0x5B9E, 0x6296, 0x4E86, 0x4E00, 0x4E0B, 0x3002]"

definition c_dg_idle :: jstr where
  "c_dg_idle =
      [0xFF0C, 0x8FC7, 0x53BB] @ js '' 24 '' @ [0x5C0F, 0x65F6, 0x8FD8, 0x6CA1, 0x6709, 0x8BF7,
      0x6C42, 0x7ECF, 0x8FC7] @ js '' Lune'' @ [0xFF0C, 0x5148, 0x628A] @ js '' token ''
      @ [0x6216, 0x5BA2, 0x6237, 0x7AEF, 0x914D, 0x597D, 0x8BD5, 0x4E00, 0x6761, 0x5427, 0x3002]"

definition c_dg_ellipsis :: jstr where
  "c_dg_ellipsis =
      [0x2026]"

definition c_act_failed :: jstr where
  "c_act_failed =
      js ''Activity '' @ [0x52A0, 0x8F7D, 0x5931, 0x8D25]"

definition c_act_truncated :: jstr where
  "c_act_truncated =
      [0x8FD9, 0x6761, 0x8BF7, 0x6C42, 0x4E0D, 0x5728, 0x5F53, 0x524D, 0x805A, 0x5408, 0x7A97,
      0x53E3, 0x91CC, 0xFF0C, 0x53EF, 0x80FD, 0x5DF2, 0x7ECF, 0x88AB, 0x622A, 0x65AD, 0x3002]"

definition c_act_not_found :: jstr where
  "c_act_not_found =
      [0x6CA1, 0x6709, 0x627E, 0x5230, 0x8FD9, 0x6761] @ js '' request_id'' @ [0x3002]"

definition c_act_unconfirmed :: jstr where
  "c_act_unconfirmed =
      [0x672A, 0x786E, 0x8BA4]"

definition c_act_binding_unconfirmed :: jstr where
  "c_act_binding_unconfirmed =
      js ''Runtime binding '' @ [0x672A, 0x786E, 0x8BA4]"

definition c_act_input :: jstr where
  "c_act_input =
      [0x8F93, 0x5165] @ js '' ''"

definition c_act_output :: jstr where
  "c_act_output =
      js '' / '' @ [0x8F93, 0x51FA] @ js '' ''"

definition c_act_dash :: jstr where
  "c_act_dash =
      [0x2014]"

definition c_aa_step1 :: jstr where
  "c_aa_step1 =
      [0x63A5, 0x5165, 0x65B9, 0x5F0F]"

definition c_aa_step1_detail :: jstr where
  "c_aa_step1_detail =
      [0x5148, 0x9009, 0x8DEF, 0x5F84, 0xFF0C, 0x518D, 0x7EE7, 0x7EED, 0x3002]"

definition c_aa_step2 :: jstr where
  "c_aa_step2 =
      [0x786E, 0x8BA4] @ js '' Pool''"

definition c_aa_step2_detail :: jstr where
  "c_aa_step2_detail =
      [0x786E, 0x8BA4, 0x5F52, 0x5C5E, 0x4F4D, 0x7F6E, 0x3002]"

definition c_aa_step3 :: jstr where
  "c_aa_step3 =
      [0x586B, 0x5199, 0x4FE1, 0x606F]"

definition c_aa_step3_detail :: jstr where
  "c_aa_step3_detail =
      [0x5B8C, 0x6210, 0x8F93, 0x5165, 0x6216, 0x6388, 0x6743, 0x3002]"

definition c_aa_step4 :: jstr where
  "c_aa_step4 =
      [0x5B8C, 0x6210]"

definition c_aa_step4_detail :: jstr where
  "c_aa_step4_detail =
      [0x8D26, 0x53F7, 0x5DF2, 0x7ECF, 0x53EF, 0x4EE5, 0x4F7F, 0x7528, 0x3002]"

definition c_aa_failed :: jstr where
  "c_aa_failed =
      [0x6388, 0x6743, 0x5931, 0x8D25]"

definition c_aa_expired :: jstr where
  "c_aa_expired =
      [0x6388, 0x6743, 0x5DF2, 0x8FC7, 0x671F]"

definition c_aa_authorized :: jstr where
  "c_aa_authorized =
      [0x6388, 0x6743, 0x5DF2, 0x786E, 0x8BA4, 0xFF0C, 0x6B63, 0x5728, 0x5B8C, 0x6210, 0x63A5,
      0x5165]"

definition c_aa_cancelled :: jstr where
  "c_aa_cancelled =
      [0x6388, 0x6743, 0x5DF2, 0x53D6, 0x6D88]"

definition c_aa_succeeded :: jstr where
  "c_aa_succeeded =
      [0x8D26, 0x53F7, 0x5DF2, 0x63A5, 0x5165]"

definition c_aa_waiting :: jstr where
  "c_aa_waiting =
      [0x7B49, 0x5F85, 0x6388, 0x6743]"

definition c_aa_authorized_hint :: jstr where
  "c_aa_authorized_hint =
      [0x6D4F, 0x89C8, 0x5668, 0x7AEF, 0x5DF2, 0x7ECF, 0x786E, 0x8BA4, 0xFF0C] @ js ''Lune ''
      @ [0x6B63, 0x5728, 0x7EE7, 0x7EED, 0x6536, 0x53E3, 0x3002]"

definition c_aa_failed_hint :: jstr where
  "c_aa_failed_hint =
      [0x8FD9, 0x6B21, 0x6388, 0x6743, 0x6CA1, 0x6709, 0x5B8C, 0x6210, 0xFF0C, 0x53EF, 0x4EE5,
      0x91CD, 0x65B0, 0x5F00, 0x59CB, 0x3002]"

definition c_aa_expired_hint :: jstr where
  "c_aa_expired_hint =
      [0x6388, 0x6743, 0x7A97, 0x53E3, 0x5DF2, 0x7ECF, 0x7ED3, 0x675F, 0xFF0C, 0x9700, 0x8981,
      0x91CD, 0x65B0, 0x83B7, 0x53D6, 0x65B0, 0x7684, 0x6388, 0x6743, 0x7801, 0x3002]"

definition c_aa_cancelled_hint :: jstr where
  "c_aa_cancelled_hint =
      [0x8FD9, 0x6B21, 0x6388, 0x6743, 0x5DF2, 0x7ECF, 0x7EC8, 0x6B62, 0xFF0C, 0x4E0D, 0x4F1A,
      0x7EE7, 0x7EED, 0x8F6E, 0x8BE2, 0x3002]"

definition c_aa_succeeded_hint :: jstr where
  "c_aa_succeeded_hint =
      [0x8D26, 0x53F7, 0x5DF2, 0x7ECF, 0x521B, 0x5EFA, 0x5B8C, 0x6210, 0x3002]"

definition c_aa_waiting_hint :: jstr where
  "c_aa_waiting_hint =
      [0x4FDD, 0x6301, 0x6B64, 0x9875, 0x6253, 0x5F00, 0xFF0C, 0x6216, 0x7A0D, 0x540E, 0x7EE7,
      0x7EED, 0x56DE, 0x6765, 0x5B8C, 0x6210, 0x3002]"

definition c_aa_unnamed_pool :: jstr where
  "c_aa_unnamed_pool =
      [0x672A, 0x547D, 0x540D] @ js '' Pool''"

definition c_aa_to_confirm :: jstr where
  "c_aa_to_confirm =
      [0x5F85, 0x786E, 0x8BA4]"

definition c_aa_created :: jstr where
  "c_aa_created =
      [0x5DF2, 0x521B, 0x5EFA]"

definition c_aa_updated :: jstr where
  "c_aa_updated =
      [0x5DF2, 0x66F4, 0x65B0]"

definition c_aa_skipped :: jstr where
  "c_aa_skipped =
      [0x5DF2, 0x8DF3, 0x8FC7]"

definition c_aa_item_failed :: jstr where
  "c_aa_item_failed =
      [0x5931, 0x8D25]"

definition c_aa_synced :: jstr where
  "c_aa_synced =
      js ''runtime '' @ [0x5DF2, 0x540C, 0x6B65]"

definition c_aa_sync_pending :: jstr where
  "c_aa_sync_pending =
      [0x7B49, 0x5F85] @ js '' runtime '' @ [0x540C, 0x6B65]"

definition c_aa_sync_failed :: jstr where
  "c_aa_sync_failed =
      js ''runtime '' @ [0x540C, 0x6B65, 0x5931, 0x8D25]"

definition c_aa_not_applicable :: jstr where
  "c_aa_not_applicable =
      [0x4E0D, 0x9002, 0x7528]"

definition c_aa_need_pool_label :: jstr where
  "c_aa_need_pool_label =
      [0x8BF7, 0x8F93, 0x5165] @ js '' Pool '' @ [0x540D, 0x79F0]"

definition c_aa_need_pool :: jstr where
  "c_aa_need_pool =
      [0x5B89, 0x5168, 0x9884, 0x68C0, 0x9700, 0x8981, 0x5148, 0x9009, 0x62E9, 0x5DF2, 0x6709]
      @ js '' Pool'' @ [0xFF1B, 0x65B0] @ js '' Pool '' @ [0x4F1A, 0x5728, 0x786E, 0x8BA4, 0x5BFC,
      0x5165, 0x65F6, 0x521B, 0x5EFA, 0x3002]"

definition c_aa_direct :: jstr where
  "c_aa_direct =
      [0x76F4, 0x8FDE] @ js '' '' @ [0x00B7] @ js '' ''"

definition c_aa_create_failed :: jstr where
  "c_aa_create_failed =
      [0x521B, 0x5EFA, 0x8D26, 0x53F7, 0x5931, 0x8D25]"

definition c_aa_no_service :: jstr where
  "c_aa_no_service =
      [0x5185, 0x7F6E] @ js '' CPA '' @ [0x670D, 0x52A1, 0x672A, 0x5C31, 0x7EEA, 0xFF0C, 0x8BF7,
      0x7A0D, 0x540E, 0x91CD, 0x8BD5, 0x6216, 0x68C0, 0x67E5, 0x5BB9, 0x5668, 0x65E5, 0x5FD7,
      0x3002]"

definition c_aa_no_provider :: jstr where
  "c_aa_no_provider =
      [0x8BF7, 0x5148, 0x9009, 0x62E9] @ js '' Provider''"

definition c_aa_login_failed :: jstr where
  "c_aa_login_failed =
      [0x542F, 0x52A8, 0x767B, 0x5F55, 0x5931, 0x8D25]"

definition c_aa_choose_json :: jstr where
  "c_aa_choose_json =
      [0x8BF7, 0x9009, 0x62E9] @ js '' JSON '' @ [0x6587, 0x4EF6]"

definition c_aa_not_auth_json :: jstr where
  "c_aa_not_auth_json =
      [0x4E0D, 0x662F, 0x53EF, 0x8BC6, 0x522B, 0x7684] @ js '' CPA auth JSON''"

definition c_aa_not_sessions :: jstr where
  "c_aa_not_sessions =
      [0x8BF7, 0x4E0A, 0x4F20] @ js '' auth JSON'' @ [0xFF0C, 0x4E0D, 0x8981, 0x4E0A, 0x4F20]
      @ js '' .login-sessions.json''"

definition c_aa_no_refresh :: jstr where
  "c_aa_no_refresh =
      [0x7F3A, 0x5C11] @ js '' refresh_token''"

definition c_aa_unsupported :: jstr where
  "c_aa_unsupported =
      [0x6682, 0x4E0D, 0x652F, 0x6301] @ js '' provider: ''"

definition c_aa_no_identity :: jstr where
  "c_aa_no_identity =
      [0x7F3A, 0x5C11, 0x8D26, 0x53F7] @ js '' email / account_id''"

definition c_aa_choose_first :: jstr where
  "c_aa_choose_first =
      [0x8BF7, 0x5148, 0x9009, 0x62E9] @ js '' auth JSON''"

definition c_aa_preview_partial :: jstr where
  "c_aa_preview_partial =
      [0x9884, 0x68C0, 0x53D1, 0x73B0, 0x90E8, 0x5206, 0x6587, 0x4EF6, 0x4E0D, 0x53EF, 0x5BFC,
      0x5165]"

definition c_aa_preview_done :: jstr where
  "c_aa_preview_done =
      [0x9884, 0x68C0, 0x5B8C, 0x6210, 0xFF0C, 0x8BF7, 0x786E, 0x8BA4, 0x5BFC, 0x5165]"

definition c_aa_preview_failed :: jstr where
  "c_aa_preview_failed =
      [0x9884, 0x68C0, 0x5931, 0x8D25]"

definition c_aa_preview_needed :: jstr where
  "c_aa_preview_needed =
      [0x8BF7, 0x5148, 0x5B8C, 0x6210, 0x5B89, 0x5168, 0x9884, 0x68C0]"

definition c_aa_accounts :: jstr where
  "c_aa_accounts =
      js '' '' @ [0x4E2A, 0x8D26, 0x53F7]"

definition c_aa_cpa_source :: jstr where
  "c_aa_cpa_source =
      js ''CPA '' @ [0x00B7] @ js '' ''"

definition c_aa_batch_source :: jstr where
  "c_aa_batch_source =
      js ''CPA '' @ [0x00B7] @ js '' codex '' @ [0x00B7] @ js '' JSON batch''"

definition c_aa_imported :: jstr where
  "c_aa_imported =
      [0x51ED, 0x636E, 0x5DF2, 0x5BFC, 0x5165]"

definition c_aa_import_failed :: jstr where
  "c_aa_import_failed =
      [0x5BFC, 0x5165, 0x5931, 0x8D25]"

definition c_aa_login_cancelled :: jstr where
  "c_aa_login_cancelled =
      [0x6388, 0x6743, 0x5DF2, 0x53D6, 0x6D88]"

definition c_aa_cancel_failed :: jstr where
  "c_aa_cancel_failed =
      [0x53D6, 0x6D88, 0x6388, 0x6743, 0x5931, 0x8D25]"

definition c_custom_template :: jstr where
  "c_custom_template =
      [0x81EA, 0x5B9A, 0x4E49]"

definition c_st_unknown :: jstr where
  "c_st_unknown =
      [0x5F85, 0x68C0, 0x67E5]"

definition c_st_healthy :: jstr where
  "c_st_healthy =
      [0x6B63, 0x5E38]"

definition c_st_degraded :: jstr where
  "c_st_degraded =
      [0x964D, 0x7EA7]"

definition c_st_error :: jstr where
  "c_st_error =
      [0x5F02, 0x5E38]"

definition c_st_disabled :: jstr where
  "c_st_disabled =
      [0x5DF2, 0x505C, 0x7528]"

definition c_openai_compat :: jstr where
  "c_openai_compat =
      js ''OpenAI '' @ [0x517C, 0x5BB9]"

definition c_pd_invalid :: jstr where
  "c_pd_invalid =
      [0x65E0, 0x6548, 0x7684] @ js '' Pool '' @ [0x8DEF, 0x5F84]"

definition c_pd_load_failed :: jstr where
  "c_pd_load_failed =
      js ''Pool '' @ [0x8BE6, 0x60C5, 0x52A0, 0x8F7D, 0x5931, 0x8D25]"

definition c_pd_no_token :: jstr where
  "c_pd_no_token =
      js ''Pool Token '' @ [0x5C1A, 0x672A, 0x5C31, 0x7EEA]"

definition c_pd_reveal_failed :: jstr where
  "c_pd_reveal_failed =
      [0x8BFB, 0x53D6] @ js '' Token '' @ [0x5931, 0x8D25]"

definition c_pd_reordered :: jstr where
  "c_pd_reordered =
      [0x4F18, 0x5148, 0x7EA7, 0x5DF2, 0x66F4, 0x65B0]"

definition c_pd_reorder_failed :: jstr where
  "c_pd_reorder_failed =
      [0x4F18, 0x5148, 0x7EA7, 0x66F4, 0x65B0, 0x5931, 0x8D25]"

definition c_pd_enabled :: jstr where
  "c_pd_enabled =
      [0x8D26, 0x53F7, 0x5DF2, 0x542F, 0x7528]"

definition c_pd_disabled :: jstr where
  "c_pd_disabled =
      [0x8D26, 0x53F7, 0x5DF2, 0x79FB, 0x5165, 0x7981, 0x7528, 0x533A]"

definition c_pd_toggle_failed :: jstr where
  "c_pd_toggle_failed =
      [0x8D26, 0x53F7, 0x72B6, 0x6001, 0x66F4, 0x65B0, 0x5931, 0x8D25]"

definition c_pd_ordered :: jstr where
  "c_pd_ordered =
      [0x5DF2, 0x5207, 0x6362, 0x4E3A, 0x6392, 0x5E8F, 0x4F18, 0x5148]"

definition c_pd_health_first :: jstr where
  "c_pd_health_first =
      [0x5DF2, 0x5207, 0x6362, 0x4E3A, 0x5065, 0x5EB7, 0x4F18, 0x5148]"

definition c_pd_policy_failed :: jstr where
  "c_pd_policy_failed =
      [0x8DEF, 0x7531, 0x7B56, 0x7565, 0x66F4, 0x65B0, 0x5931, 0x8D25]"

definition c_pd_update_failed :: jstr where
  "c_pd_update_failed =
      [0x66F4, 0x65B0, 0x5931, 0x8D25]"

definition c_pd_partial :: jstr where
  "c_pd_partial =
      [0x8D26, 0x53F7, 0x5DF2, 0x5237, 0x65B0, 0xFF0C, 0x90E8, 0x5206, 0x4FE1, 0x606F, 0x5237,
      0x65B0, 0x5931, 0x8D25, 0xFF1A]"

definition c_pd_quota :: jstr where
  "c_pd_quota =
      [0x989D, 0x5EA6]"

definition c_pd_subscription :: jstr where
  "c_pd_subscription =
      [0x8BA2, 0x9605]"

definition c_pd_refreshed_comma :: jstr where
  "c_pd_refreshed_comma =
      [0x8D26, 0x53F7, 0x5DF2, 0x5237, 0x65B0, 0xFF0C]"

definition c_pd_pending_tail :: jstr where
  "c_pd_pending_tail =
      [0x6B63, 0x5728, 0x540C, 0x6B65, 0x540E, 0x8865, 0x9F50]"

definition c_pd_models_head :: jstr where
  "c_pd_models_head =
      [0x6A21, 0x578B, 0x3001]"

definition c_pd_refreshed_tail :: jstr where
  "c_pd_refreshed_tail =
      [0x5DF2, 0x5237, 0x65B0]"

definition c_pd_refreshed :: jstr where
  "c_pd_refreshed =
      [0x8D26, 0x53F7, 0x5DF2, 0x5237, 0x65B0]"

definition c_pd_sep_semicolon :: jstr where
  "c_pd_sep_semicolon =
      [0xFF1B]"

definition c_pd_sep_comma :: jstr where
  "c_pd_sep_comma =
      [0x3001]"

definition c_pd_refresh_failed :: jstr where
  "c_pd_refresh_failed =
      [0x5237, 0x65B0, 0x5931, 0x8D25]"

definition c_pd_deleted :: jstr where
  "c_pd_deleted =
      [0x8D26, 0x53F7, 0x5DF2, 0x5220, 0x9664]"

definition c_pd_delete_failed :: jstr where
  "c_pd_delete_failed =
      [0x5220, 0x9664, 0x8D26, 0x53F7, 0x5931, 0x8D25]"

definition c_pd_check_no_token :: jstr where
  "c_pd_check_no_token =
      [0x672A, 0x627E, 0x5230, 0x53EF, 0x7528, 0x7684] @ js '' Token'' @ [0xFF0C, 0x65E0, 0x6CD5,
      0x81EA, 0x68C0]"

definition c_pd_check_no_model :: jstr where
  "c_pd_check_no_model =
      [0x6CA1, 0x6709, 0x53EF, 0x6D4B, 0x6A21, 0x578B]"

definition c_pd_check_passed :: jstr where
  "c_pd_check_passed =
      [0x81EA, 0x68C0, 0x5168, 0x90E8, 0x901A, 0x8FC7, 0xFF08]"

definition c_pd_check_paren :: jstr where
  "c_pd_check_paren =
      [0xFF09]"

definition c_pd_check_done :: jstr where
  "c_pd_check_done =
      [0x81EA, 0x68C0, 0x5B8C, 0x6210, 0xFF1A]"

definition c_pd_check_success :: jstr where
  "c_pd_check_success =
      js '' '' @ [0x6210, 0x529F, 0xFF0C]"

definition c_pd_check_failed :: jstr where
  "c_pd_check_failed =
      js '' '' @ [0x5931, 0x8D25]"

definition c_pd_setup_no_token :: jstr where
  "c_pd_setup_no_token =
      [0x672A, 0x627E, 0x5230, 0x53EF, 0x7528, 0x7684] @ js '' Token''"

definition c_pd_gone :: jstr where
  "c_pd_gone =
      js ''Pool '' @ [0x4E0D, 0x5B58, 0x5728, 0x6216, 0x5DF2, 0x88AB, 0x5220, 0x9664, 0x3002]"

definition c_pd_need_label :: jstr where
  "c_pd_need_label =
      [0x8BF7, 0x8F93, 0x5165] @ js '' Pool '' @ [0x540D, 0x79F0]"

definition c_pd_label_saved :: jstr where
  "c_pd_label_saved =
      js ''Pool '' @ [0x540D, 0x79F0, 0x5DF2, 0x66F4, 0x65B0]"

definition c_pd_label_failed :: jstr where
  "c_pd_label_failed =
      [0x4FDD, 0x5B58] @ js '' Pool '' @ [0x540D, 0x79F0, 0x5931, 0x8D25]"

definition c_pd_pool_enabled :: jstr where
  "c_pd_pool_enabled =
      js ''Pool '' @ [0x5DF2, 0x542F, 0x7528]"

definition c_pd_pool_disabled :: jstr where
  "c_pd_pool_disabled =
      js ''Pool '' @ [0x5DF2, 0x505C, 0x7528]"

definition c_pd_status_failed :: jstr where
  "c_pd_status_failed =
      js ''Pool '' @ [0x72B6, 0x6001, 0x66F4, 0x65B0, 0x5931, 0x8D25]"

definition c_pd_pool_deleted :: jstr where
  "c_pd_pool_deleted =
      js ''Pool '' @ [0x5DF2, 0x5220, 0x9664]"

definition c_pd_pool_delete_failed :: jstr where
  "c_pd_pool_delete_failed =
      [0x5220, 0x9664] @ js '' Pool '' @ [0x5931, 0x8D25]"

definition c_pd_self_check_message :: jstr where
  "c_pd_self_check_message =
      [0x4F60, 0x597D, 0xFF0C, 0x8BF7, 0x7528, 0x4E00, 0x53E5, 0x8BDD, 0x56DE, 0x590D, 0x6211,
      0x3002]"

definition c_pc_need_label :: jstr where
  "c_pc_need_label =
      [0x8BF7, 0x8F93, 0x5165] @ js '' Pool '' @ [0x540D, 0x79F0]"

definition c_pc_created :: jstr where
  "c_pc_created =
      js ''Pool '' @ [0x5DF2, 0x521B, 0x5EFA]"

definition c_pc_failed :: jstr where
  "c_pc_failed =
      [0x521B, 0x5EFA] @ js '' Pool '' @ [0x5931, 0x8D25]"

definition c_card_relogin_long :: jstr where
  "c_card_relogin_long =
      [0x9700, 0x8981, 0x91CD, 0x65B0, 0x767B, 0x5F55]"

definition c_card_relogin_short :: jstr where
  "c_card_relogin_short =
      [0x9700, 0x8981, 0x91CD, 0x767B]"

definition c_card_plan_unknown :: jstr where
  "c_card_plan_unknown =
      js ''Plan '' @ [0x672A, 0x77E5]"

definition c_card_limited_long :: jstr where
  "c_card_limited_long =
      [0x6A21, 0x578B, 0x8BF7, 0x6C42, 0x88AB, 0x9650, 0x6D41]"

definition c_card_limited_short :: jstr where
  "c_card_limited_short =
      [0x8BF7, 0x6C42, 0x9650, 0x6D41]"

definition c_card_binding :: jstr where
  "c_card_binding =
      js ''Binding '' @ [0x672A, 0x786E, 0x8BA4]"

definition c_card_binding_detail :: jstr where
  "c_card_binding_detail =
      js ''CPA HTTP provider '' @ [0x5F53, 0x524D, 0x65E0, 0x6CD5, 0x786E, 0x8BA4]
      @ js '' per-request auth pinning'' @ [0xFF0C, 0x666E, 0x901A, 0x6D41, 0x91CF, 0x4F1A]
      @ js '' fail closed'' @ [0x3002]"

definition c_card_cooldown :: jstr where
  "c_card_cooldown =
      [0x670D, 0x52A1, 0x51B7, 0x5374, 0x4E2D]"

definition c_card_serving_error :: jstr where
  "c_card_serving_error =
      [0x670D, 0x52A1, 0x5F02, 0x5E38]"

definition c_card_today :: jstr where
  "c_card_today =
      [0x4ECA, 0x65E5] @ js '' ''"

definition c_sig_none :: jstr where
  "c_sig_none =
      js ''24h '' @ [0x65E0, 0x8BF7, 0x6C42, 0x6837, 0x672C]"

definition c_sig_dash :: jstr where
  "c_sig_dash =
      [0x2014]"

definition c_sig_rate :: jstr where
  "c_sig_rate =
      js ''24h '' @ [0x6210, 0x529F, 0x7387] @ js '' ''"

definition c_sig_open :: jstr where
  "c_sig_open =
      [0xFF08]"

definition c_sig_close :: jstr where
  "c_sig_close =
      js '' '' @ [0x6B21, 0x8BF7, 0x6C42, 0xFF09]"

definition c_sh_preset_hello :: jstr where
  "c_sh_preset_hello =
      [0x4F60, 0x597D, 0xFF0C, 0x8BF7, 0x7528, 0x4E00, 0x53E5, 0x8BDD, 0x56DE, 0x590D, 0x6211,
      0x3002]"

definition c_sh_preset_model :: jstr where
  "c_sh_preset_model =
      [0x8BF7, 0x544A, 0x8BC9, 0x6211, 0x4F60, 0x7684, 0x6A21, 0x578B, 0x540D, 0x79F0, 0x548C,
      0x7248, 0x672C, 0x3002]"

definition c_sh_ellipsis :: jstr where
  "c_sh_ellipsis =
      [0x2026]"

definition c_sh_dash :: jstr where
  "c_sh_dash =
      [0x2014]"

definition c_sh_no_sample :: jstr where
  "c_sh_no_sample =
      js ''24h '' @ [0x65E0, 0x6837, 0x672C]"

definition c_sh_read_failed :: jstr where
  "c_sh_read_failed =
      [0x8BFB, 0x53D6, 0x5931, 0x8D25]"

definition c_sh_reading :: jstr where
  "c_sh_reading =
      [0x8BFB, 0x53D6, 0x4E2D]"

definition c_sh_saved :: jstr where
  "c_sh_saved =
      [0x8FDE, 0x63A5, 0x4FE1, 0x606F, 0x5DF2, 0x4FDD, 0x5B58]"

definition c_sh_save_failed :: jstr where
  "c_sh_save_failed =
      [0x8FDE, 0x63A5, 0x4FE1, 0x606F, 0x4FDD, 0x5B58, 0x5931, 0x8D25]"

definition c_sh_probe_failed :: jstr where
  "c_sh_probe_failed =
      [0x4FDD, 0x5B58, 0x5931, 0x8D25]"

definition c_sh_no_token :: jstr where
  "c_sh_no_token =
      [0x672A, 0x627E, 0x5230, 0x53EF, 0x7528, 0x7684] @ js '' Token''"

definition c_sh_request_failed :: jstr where
  "c_sh_request_failed =
      [0x8BF7, 0x6C42, 0x5931, 0x8D25] @ js '' (''"

definition c_sh_test_failed :: jstr where
  "c_sh_test_failed =
      [0x6D4B, 0x8BD5, 0x5931, 0x8D25]"

definition c_sh_conn_used :: jstr where
  "c_sh_conn_used =
      [0x5F53, 0x524D, 0x8BF7, 0x6C42, 0x4F1A, 0x76F4, 0x63A5, 0x53D1, 0x9001, 0x5230, 0x8FD9,
      0x4E2A, 0x5730, 0x5740, 0x3002]"

definition c_sh_conn_missing :: jstr where
  "c_sh_conn_missing =
      [0x672A, 0x914D, 0x7F6E] @ js '' API Base URL'' @ [0x3002]"

definition c_sh_conn_keep :: jstr where
  "c_sh_conn_keep =
      [0x4FDD, 0x6301, 0x5F53, 0x524D, 0x8FDE, 0x63A5, 0x914D, 0x7F6E]"

definition c_sh_conn_add :: jstr where
  "c_sh_conn_add =
      [0x8865, 0x5145] @ js '' API Base URL''"

definition c_sh_bind_direct :: jstr where
  "c_sh_bind_direct =
      [0x76F4, 0x8FDE] @ js '' Bearer''"

definition c_sh_bind_direct_reason :: jstr where
  "c_sh_bind_direct_reason =
      [0x76F4, 0x8FDE, 0x8D26, 0x53F7, 0x4E0D, 0x7ECF, 0x8FC7] @ js '' CPA runtime auth file ''
      @ [0x7ED1, 0x5B9A, 0x3002]"

definition c_sh_bind_direct_do :: jstr where
  "c_sh_bind_direct_do =
      [0x4FDD, 0x6301, 0x5F53, 0x524D] @ js '' API key '' @ [0x914D, 0x7F6E]"

definition c_sh_bind_open :: jstr where
  "c_sh_bind_open =
      [0x672A, 0x786E, 0x8BA4]"

definition c_sh_bind_open_reason :: jstr where
  "c_sh_bind_open_reason =
      js ''CPA HTTP provider '' @ [0x5F53, 0x524D, 0x65E0, 0x6CD5, 0x9A8C, 0x8BC1]
      @ js '' per-request auth pinning'' @ [0x3002]"

definition c_sh_bind_open_do :: jstr where
  "c_sh_bind_open_do =
      [0x68C0, 0x67E5] @ js '' CPA runtime'' @ [0xFF0C, 0x5E76, 0x5728]
      @ js '' provider pinning '' @ [0x652F, 0x6301, 0x540E, 0x518D, 0x63A5, 0x666E, 0x901A,
      0x6D41, 0x91CF]"

definition c_sh_bind_ok :: jstr where
  "c_sh_bind_ok =
      [0x5DF2, 0x786E, 0x8BA4]"

definition c_sh_bind_ok_reason :: jstr where
  "c_sh_bind_ok_reason =
      js ''Lune '' @ [0x53EF, 0x786E, 0x8BA4, 0x8BF7, 0x6C42, 0x4F7F, 0x7528, 0x76EE, 0x6807]
      @ js '' CPA auth file'' @ [0x3002]"

definition c_sh_watch :: jstr where
  "c_sh_watch =
      [0x4FDD, 0x6301, 0x76D1, 0x63A7]"

definition c_sh_key_set :: jstr where
  "c_sh_key_set =
      js ''API key '' @ [0x5DF2, 0x914D, 0x7F6E]"

definition c_sh_key_missing :: jstr where
  "c_sh_key_missing =
      js ''API key '' @ [0x7F3A, 0x5931]"

definition c_sh_key_user :: jstr where
  "c_sh_key_user =
      [0x76F4, 0x8FDE, 0x51ED, 0x636E, 0x7531, 0x7528, 0x6237, 0x63D0, 0x4F9B, 0x3002]"

definition c_sh_key_none :: jstr where
  "c_sh_key_none =
      [0x6CA1, 0x6709, 0x53EF, 0x7528] @ js '' API key'' @ [0x3002]"

definition c_sh_key_add :: jstr where
  "c_sh_key_add =
      [0x8865, 0x5145] @ js '' API key''"

definition c_sh_credential :: jstr where
  "c_sh_credential =
      [0x51ED, 0x636E]"

definition c_sh_credential_ok :: jstr where
  "c_sh_credential_ok =
      [0x51ED, 0x636E, 0x6B63, 0x5E38]"

definition c_sh_credential_none :: jstr where
  "c_sh_credential_none =
      [0x6CA1, 0x6709, 0x8BB0, 0x5F55, 0x5230, 0x51ED, 0x636E, 0x5F02, 0x5E38, 0x3002]"

definition c_sh_do_login :: jstr where
  "c_sh_do_login =
      [0x91CD, 0x65B0, 0x767B, 0x5F55]"

definition c_sh_do_runtime :: jstr where
  "c_sh_do_runtime =
      [0x68C0, 0x67E5] @ js '' CPA runtime''"

definition c_sh_do_later :: jstr where
  "c_sh_do_later =
      [0x7A0D, 0x540E, 0x5237, 0x65B0, 0x72B6, 0x6001]"

definition c_sh_do_direct_test :: jstr where
  "c_sh_do_direct_test =
      [0x8FD0, 0x884C, 0x76F4, 0x6D4B, 0x786E, 0x8BA4]"

definition c_sh_subscription :: jstr where
  "c_sh_subscription =
      [0x8BA2, 0x9605]"

definition c_sh_sub_snapshot :: jstr where
  "c_sh_sub_snapshot =
      [0x8BA2, 0x9605, 0x5FEB, 0x7167, 0x53EF, 0x7528, 0x3002]"

definition c_sh_sub_later :: jstr where
  "c_sh_sub_later =
      [0x7A0D, 0x540E, 0x5237, 0x65B0, 0x8BA2, 0x9605]"

definition c_sh_sub_refresh :: jstr where
  "c_sh_sub_refresh =
      [0x5237, 0x65B0, 0x8BA2, 0x9605]"

definition c_sh_quota :: jstr where
  "c_sh_quota =
      [0x989D, 0x5EA6]"

definition c_sh_quota_direct :: jstr where
  "c_sh_quota_direct =
      [0x76F4, 0x8FDE, 0x8D26, 0x53F7, 0x4F7F, 0x7528, 0x7528, 0x6237, 0x7EF4, 0x62A4, 0x7684,
      0x989D, 0x5EA6, 0x5C55, 0x793A, 0x3002]"

definition c_sh_quota_direct_do :: jstr where
  "c_sh_quota_direct_do =
      [0x9700, 0x8981, 0x65F6, 0x66F4, 0x65B0, 0x8D26, 0x53F7, 0x5907, 0x6CE8, 0x6216, 0x989D,
      0x5EA6, 0x5C55, 0x793A]"

definition c_sh_quota_snapshot :: jstr where
  "c_sh_quota_snapshot =
      [0x5DF2, 0x4FDD, 0x5B58, 0x6700, 0x8FD1, 0x4E00, 0x6B21, 0x989D, 0x5EA6, 0x5FEB, 0x7167,
      0x3002]"

definition c_sh_quota_no_snapshot :: jstr where
  "c_sh_quota_no_snapshot =
      [0x6CA1, 0x6709, 0x53EF, 0x7528, 0x989D, 0x5EA6, 0x5FEB, 0x7167, 0x3002]"

definition c_sh_quota_switch :: jstr where
  "c_sh_quota_switch =
      [0x66F4, 0x6362, 0x8D26, 0x53F7, 0x6216, 0x7B49, 0x5F85, 0x989D, 0x5EA6, 0x6062, 0x590D]"

definition c_sh_quota_refresh :: jstr where
  "c_sh_quota_refresh =
      [0x5237, 0x65B0, 0x989D, 0x5EA6]"

definition c_sh_discovery :: jstr where
  "c_sh_discovery =
      [0x6A21, 0x578B, 0x53D1, 0x73B0, 0x72B6, 0x6001, 0xFF1A]"

definition c_sh_wait_cooldown :: jstr where
  "c_sh_wait_cooldown =
      [0x7B49, 0x5F85, 0x51B7, 0x5374, 0x7ED3, 0x675F, 0x6216, 0x8FD0, 0x884C, 0x81EA, 0x68C0]"

definition c_sh_run_check :: jstr where
  "c_sh_run_check =
      [0x8FD0, 0x884C, 0x81EA, 0x68C0, 0x5E76, 0x67E5, 0x770B, 0x6700, 0x8FD1, 0x9519, 0x8BEF]"

definition c_sh_models_unit :: jstr where
  "c_sh_models_unit =
      js '' '' @ [0x4E2A, 0x6A21, 0x578B]"

definition c_sh_models_none :: jstr where
  "c_sh_models_none =
      [0x6682, 0x65E0, 0x6A21, 0x578B]"

definition c_sh_models_reason :: jstr where
  "c_sh_models_reason =
      [0x5C1A, 0x672A, 0x53D1, 0x73B0, 0x53EF, 0x8DEF, 0x7531, 0x6A21, 0x578B, 0x3002]"

definition c_sh_models_do :: jstr where
  "c_sh_models_do =
      [0x5237, 0x65B0, 0x6A21, 0x578B]"

definition c_sh_sub_active :: jstr where
  "c_sh_sub_active =
      [0x8BA2, 0x9605, 0x6709, 0x6548]"

definition c_sh_sub_expired :: jstr where
  "c_sh_sub_expired =
      [0x5DF2, 0x8FC7, 0x671F]"

definition c_sh_sub_pending :: jstr where
  "c_sh_sub_pending =
      [0x8BA2, 0x9605, 0x5237, 0x65B0, 0x4E2D]"

definition c_sh_sub_error :: jstr where
  "c_sh_sub_error =
      [0x8BA2, 0x9605, 0x83B7, 0x53D6, 0x5931, 0x8D25]"

definition c_sh_sub_unknown :: jstr where
  "c_sh_sub_unknown =
      [0x8BA2, 0x9605, 0x672A, 0x77E5]"

definition c_sh_quota_ok :: jstr where
  "c_sh_quota_ok =
      [0x989D, 0x5EA6, 0x53EF, 0x7528]"

definition c_sh_quota_blocked :: jstr where
  "c_sh_quota_blocked =
      [0x989D, 0x5EA6, 0x5DF2, 0x7528, 0x5C3D]"

definition c_sh_quota_pending :: jstr where
  "c_sh_quota_pending =
      [0x989D, 0x5EA6, 0x5237, 0x65B0, 0x4E2D]"

definition c_sh_quota_error :: jstr where
  "c_sh_quota_error =
      [0x989D, 0x5EA6, 0x67E5, 0x8BE2, 0x5931, 0x8D25]"

definition c_sh_quota_unknown :: jstr where
  "c_sh_quota_unknown =
      [0x989D, 0x5EA6, 0x672A, 0x77E5]"

definition c_sh_serving_cooldown :: jstr where
  "c_sh_serving_cooldown =
      [0x670D, 0x52A1, 0x51B7, 0x5374, 0x4E2D]"

definition c_sh_serving_error :: jstr where
  "c_sh_serving_error =
      [0x670D, 0x52A1, 0x5F02, 0x5E38]"

definition c_sh_serving_unknown :: jstr where
  "c_sh_serving_unknown =
      [0x670D, 0x52A1, 0x72B6, 0x6001, 0x672A, 0x77E5]"

definition c_sh_serving_ok :: jstr where
  "c_sh_serving_ok =
      [0x670D, 0x52A1, 0x6B63, 0x5E38]"

definition c_set_updated :: jstr where
  "c_set_updated =
      [0x8BBE, 0x7F6E, 0x5DF2, 0x66F4, 0x65B0]"

definition c_set_save_failed :: jstr where
  "c_set_save_failed =
      [0x4FDD, 0x5B58, 0x8BBE, 0x7F6E, 0x5931, 0x8D25]"

definition c_dr_preview_failed :: jstr where
  "c_dr_preview_failed =
      [0x9884, 0x89C8, 0x6E05, 0x7406, 0x7ED3, 0x679C, 0x5931, 0x8D25]"

definition c_dr_pruned :: jstr where
  "c_dr_pruned =
      [0x5DF2, 0x6E05, 0x7406] @ js '' ''"

definition c_dr_items :: jstr where
  "c_dr_items =
      js '' '' @ [0x6761]"

definition c_dr_pruned_none :: jstr where
  "c_dr_pruned_none =
      [0x5DF2, 0x6E05, 0x7406, 0x5B8C, 0x6210]"

definition c_dr_prune_failed :: jstr where
  "c_dr_prune_failed =
      [0x6E05, 0x7406, 0x5931, 0x8D25]"

definition c_dr_never :: jstr where
  "c_dr_never =
      [0x5C1A, 0x672A, 0x6267, 0x884C]"

definition c_dr_zero :: jstr where
  "c_dr_zero =
      js ''0 '' @ [0x6761]"

definition c_dr_no_record :: jstr where
  "c_dr_no_record =
      [0x6682, 0x65E0, 0x8BB0, 0x5F55]"

definition c_dr_arrow :: jstr where
  "c_dr_arrow =
      js '' '' @ [0x2192] @ js '' ''"

definition c_dr_waiting :: jstr where
  "c_dr_waiting =
      [0x7B49, 0x5F85] @ js '' ''"

definition c_dr_dropped :: jstr where
  "c_dr_dropped =
      js '' '' @ [0x00B7] @ js '' '' @ [0x5DF2, 0x4E22, 0x5F03] @ js '' ''"

definition c_dr_no_backlog :: jstr where
  "c_dr_no_backlog =
      [0x65E0, 0x79EF, 0x538B]"

definition c_im_format :: jstr where
  "c_im_format =
      [0x5BFC, 0x5165, 0x6587, 0x4EF6, 0x683C, 0x5F0F, 0x4E0D, 0x6B63, 0x786E]"

definition c_im_read_failed :: jstr where
  "c_im_read_failed =
      [0x8BFB, 0x53D6, 0x5BFC, 0x5165, 0x6587, 0x4EF6, 0x5931, 0x8D25]"

definition c_im_done :: jstr where
  "c_im_done =
      [0x5BFC, 0x5165, 0x5B8C, 0x6210, 0xFF1A, 0x65B0, 0x5EFA] @ js '' ''"

definition c_im_skipped :: jstr where
  "c_im_skipped =
      js '' Token'' @ [0xFF0C, 0x8DF3, 0x8FC7] @ js '' ''"

definition c_im_items :: jstr where
  "c_im_items =
      js '' '' @ [0x9879]"

definition c_im_failed :: jstr where
  "c_im_failed =
      [0x5BFC, 0x5165, 0x5931, 0x8D25]"

definition c_im_pools :: jstr where
  "c_im_pools =
      js ''Pools'' @ [0xFF08, 0x65B0, 0x5EFA] @ js '' / '' @ [0x66F4, 0x65B0, 0xFF09]"

definition c_im_tokens :: jstr where
  "c_im_tokens =
      js ''Tokens'' @ [0xFF08, 0x65B0, 0x5EFA] @ js '' / '' @ [0x8DF3, 0x8FC7, 0xFF09]"

definition c_im_settings :: jstr where
  "c_im_settings =
      js ''Settings '' @ [0x8986, 0x76D6]"

definition c_tk_copied :: jstr where
  "c_tk_copied =
      [0x5DF2, 0x590D, 0x5236]"

definition c_tk_copy_failed :: jstr where
  "c_tk_copy_failed =
      [0x590D, 0x5236] @ js '' Token '' @ [0x5931, 0x8D25]"

definition c_tk_read_failed :: jstr where
  "c_tk_read_failed =
      [0x8BFB, 0x53D6] @ js '' Token '' @ [0x5931, 0x8D25]"

definition c_tk_name_empty :: jstr where
  "c_tk_name_empty =
      [0x540D, 0x79F0, 0x4E0D, 0x80FD, 0x4E3A, 0x7A7A]"

definition c_tk_renamed :: jstr where
  "c_tk_renamed =
      [0x540D, 0x79F0, 0x5DF2, 0x66F4, 0x65B0]"

definition c_tk_rename_failed :: jstr where
  "c_tk_rename_failed =
      [0x66F4, 0x65B0, 0x540D, 0x79F0, 0x5931, 0x8D25]"

definition c_tk_kept :: jstr where
  "c_tk_kept =
      [0x5DF2, 0x4FDD, 0x7559, 0x73B0, 0x6709] @ js '' token''"

definition c_tk_replaced :: jstr where
  "c_tk_replaced =
      js ''Token '' @ [0x5DF2, 0x66FF, 0x6362]"

definition c_tk_replace_failed :: jstr where
  "c_tk_replace_failed =
      [0x66FF, 0x6362] @ js '' Token '' @ [0x5931, 0x8D25]"

definition c_tk_regenerated :: jstr where
  "c_tk_regenerated =
      js ''Token '' @ [0x5DF2, 0x91CD, 0x65B0, 0x751F, 0x6210]"

definition c_tk_regenerate_failed :: jstr where
  "c_tk_regenerate_failed =
      [0x91CD, 0x65B0, 0x751F, 0x6210, 0x5931, 0x8D25]"

definition c_tk_not_ready :: jstr where
  "c_tk_not_ready =
      [0x51ED, 0x8BC1, 0x672A, 0x5C31, 0x7EEA, 0xFF0C, 0x5237, 0x65B0, 0x540E, 0x91CD, 0x8BD5]"

definition c_sp_load_failed :: jstr where
  "c_sp_load_failed =
      js ''Settings '' @ [0x52A0, 0x8F7D, 0x5931, 0x8D25]"

definition c_sp_mode_embedded :: jstr where
  "c_sp_mode_embedded =
      [0x5185, 0x7F6E, 0x8FD0, 0x884C, 0x65F6]"

definition c_sp_mode_external :: jstr where
  "c_sp_mode_external =
      [0x5916, 0x90E8, 0x8FD0, 0x884C, 0x65F6]"

definition c_sp_ok :: jstr where
  "c_sp_ok =
      [0x5F53, 0x524D, 0x8FD0, 0x884C, 0x65F6, 0x6B63, 0x5E38, 0xFF0C, 0x53EF, 0x63A5, 0x6536,
      0x7F51, 0x5173, 0x8BF7, 0x6C42, 0x3002]"

definition c_sp_pending :: jstr where
  "c_sp_pending =
      [0x6B63, 0x5728, 0x786E, 0x8BA4, 0x8FD0, 0x884C, 0x65F6, 0x72B6, 0x6001, 0x3002]"

definition c_sp_problem :: jstr where
  "c_sp_problem =
      [0x8FD0, 0x884C, 0x65F6, 0x9700, 0x8981, 0x5904, 0x7406, 0xFF0C, 0x90E8, 0x5206, 0x8BF7,
      0x6C42, 0x53EF, 0x80FD, 0x4E0D, 0x53EF, 0x7528, 0x3002]"

definition c_sp_no_version :: jstr where
  "c_sp_no_version =
      [0x672A, 0x77E5, 0x7248, 0x672C]"

definition c_sp_version :: jstr where
  "c_sp_version =
      [0x5F53, 0x524D, 0x7248, 0x672C] @ js '' ''"

definition c_sp_detail_error :: jstr where
  "c_sp_detail_error =
      [0xFF0C, 0x6700, 0x8FD1, 0x4E00, 0x6B21, 0x68C0, 0x67E5, 0x53D1, 0x73B0, 0x5F02, 0x5E38,
      0xFF0C, 0x8BE6, 0x60C5, 0x89C1, 0x4E0B, 0x65B9, 0x8BCA, 0x65AD, 0x3002]"

definition c_sp_detail_ready :: jstr where
  "c_sp_detail_ready =
      [0xFF0C, 0x5C31, 0x7EEA, 0x72B6, 0x6001, 0x9700, 0x8981, 0x5173, 0x6CE8, 0xFF0C, 0x8BE6,
      0x60C5, 0x89C1, 0x4E0B, 0x65B9, 0x8BCA, 0x65AD, 0x3002]"

definition c_sp_detail_ok :: jstr where
  "c_sp_detail_ok =
      [0xFF0C, 0x8BF7, 0x6C42, 0x8D85, 0x65F6, 0x3001, 0x91CD, 0x8BD5, 0x548C, 0x5065, 0x5EB7,
      0x68C0, 0x67E5, 0x914D, 0x7F6E, 0x4F1A, 0x5B9E, 0x65F6, 0x751F, 0x6548, 0x3002]"

definition c_sp_none :: jstr where
  "c_sp_none =
      [0x65E0]"

definition c_sp_refused :: jstr where
  "c_sp_refused =
      [0x8FD0, 0x884C, 0x65F6, 0x8FDE, 0x63A5, 0x5931, 0x8D25, 0xFF0C, 0x8BF7, 0x68C0, 0x67E5,
      0x5BB9, 0x5668, 0x5185, 0x670D, 0x52A1, 0x662F, 0x5426, 0x5DF2, 0x542F, 0x52A8, 0x3002]"

definition c_sp_timeout :: jstr where
  "c_sp_timeout =
      [0x8FD0, 0x884C, 0x65F6, 0x54CD, 0x5E94, 0x8D85, 0x65F6, 0xFF0C, 0x8BF7, 0x7A0D, 0x540E,
      0x91CD, 0x8BD5, 0x6216, 0x68C0, 0x67E5, 0x8D1F, 0x8F7D, 0x3002]"

definition c_sp_files :: jstr where
  "c_sp_files =
      [0x8FD0, 0x884C, 0x65F6, 0x6587, 0x4EF6, 0x8BBF, 0x95EE, 0x5931, 0x8D25, 0xFF0C, 0x8BF7,
      0x68C0, 0x67E5, 0x6570, 0x636E, 0x76EE, 0x5F55, 0x6302, 0x8F7D, 0x548C, 0x6743, 0x9650,
      0x3002]"

definition c_sp_internal :: jstr where
  "c_sp_internal =
      [0x8FD0, 0x884C, 0x65F6, 0x8FD4, 0x56DE, 0x4E86, 0x8BE6, 0x7EC6, 0x9519, 0x8BEF, 0xFF0C,
      0x8BF7, 0x67E5, 0x770B, 0x5BB9, 0x5668, 0x65E5, 0x5FD7, 0x5B9A, 0x4F4D, 0x3002]"

definition c_sp_reachable :: jstr where
  "c_sp_reachable =
      [0x8FDE, 0x63A5, 0x6B63, 0x5E38] @ js '' ''"

definition c_sp_unreachable :: jstr where
  "c_sp_unreachable =
      [0x8FDE, 0x63A5, 0x5931, 0x8D25]"

definition c_sp_test_failed :: jstr where
  "c_sp_test_failed =
      [0x6D4B, 0x8BD5, 0x5931, 0x8D25]"

definition c_nt_load_failed :: jstr where
  "c_nt_load_failed =
      [0x901A, 0x77E5, 0x8BBE, 0x7F6E, 0x52A0, 0x8F7D, 0x5931, 0x8D25]"

definition c_nt_save_failed :: jstr where
  "c_nt_save_failed =
      [0x4FDD, 0x5B58, 0x901A, 0x77E5, 0x8BBE, 0x7F6E, 0x5931, 0x8D25]"

definition c_nt_body_empty :: jstr where
  "c_nt_body_empty =
      [0x6B63, 0x6587, 0x6A21, 0x677F, 0x4E0D, 0x80FD, 0x4E3A, 0x7A7A]"

definition c_nt_body_first :: jstr where
  "c_nt_body_first =
      [0x8BF7, 0x5148, 0x8865, 0x5168, 0x6B63, 0x6587, 0x6A21, 0x677F, 0x518D, 0x5207, 0x6362,
      0x8BA2, 0x9605, 0x72B6, 0x6001]"

definition c_nt_sub_failed :: jstr where
  "c_nt_sub_failed =
      [0x4FDD, 0x5B58, 0x8BA2, 0x9605, 0x8BBE, 0x7F6E, 0x5931, 0x8D25]"

definition c_nt_test_failed :: jstr where
  "c_nt_test_failed =
      [0x6D4B, 0x8BD5, 0x5931, 0x8D25]"

definition c_nt_disabled :: jstr where
  "c_nt_disabled =
      [0x901A, 0x77E5, 0x672A, 0x542F, 0x7528, 0x6216] @ js '' Webhook URL '' @ [0x4E3A, 0x7A7A]"

definition c_nt_days_failed :: jstr where
  "c_nt_days_failed =
      [0x4FDD, 0x5B58, 0x9608, 0x503C, 0x5931, 0x8D25]"

definition c_nt_need_switch :: jstr where
  "c_nt_need_switch =
      [0x5F00, 0x542F, 0x9876, 0x90E8, 0x603B, 0x5F00, 0x5173, 0x540E, 0x624D, 0x80FD, 0x53D1,
      0x9001]"

definition c_nt_need_url :: jstr where
  "c_nt_need_url =
      [0x8BF7, 0x5148, 0x586B, 0x5199] @ js '' Webhook URL''"

definition c_nt_mobile_bad :: jstr where
  "c_nt_mobile_bad =
      [0x5FC5, 0x987B, 0x662F] @ js '' 11 '' @ [0x4F4D, 0x624B, 0x673A, 0x53F7, 0x6216]
      @ js '' @all''"

definition c_nt_history_failed :: jstr where
  "c_nt_history_failed =
      [0x901A, 0x77E5, 0x5386, 0x53F2, 0x52A0, 0x8F7D, 0x5931, 0x8D25]"

definition c_tpl_empty :: jstr where
  "c_tpl_empty =
      [0xFF08, 0x5185, 0x5BB9, 0x4E3A, 0x7A7A, 0xFF09]"

definition c_unit_s :: jstr where
  "c_unit_s =
      [0x79D2]"

definition c_unit_ms :: jstr where
  "c_unit_ms =
      [0x6BEB, 0x79D2]"

definition c_orbit_healthy :: jstr where
  "c_orbit_healthy =
      [0x5065, 0x5EB7]"

definition c_orbit_degraded :: jstr where
  "c_orbit_degraded =
      [0x964D, 0x7EA7]"

definition c_orbit_error :: jstr where
  "c_orbit_error =
      [0x5F02, 0x5E38]"

definition c_orbit_disabled :: jstr where
  "c_orbit_disabled =
      [0x5DF2, 0x505C, 0x7528]"

definition c_orbit_unknown :: jstr where
  "c_orbit_unknown =
      [0x672A, 0x77E5]"

definition c_ov_copied :: jstr where
  "c_ov_copied =
      [0x5DF2, 0x590D, 0x5236]"

definition c_ov_copy_failed :: jstr where
  "c_ov_copy_failed =
      [0x590D, 0x5236, 0x5931, 0x8D25]"

definition c_render_unknown :: jstr where
  "c_render_unknown =
      [0x672A, 0x77E5, 0x6E32, 0x67D3, 0x9519, 0x8BEF]"

definition c_cb_copied :: jstr where
  "c_cb_copied =
      [0x5DF2, 0x590D, 0x5236]"

definition c_cb_failed :: jstr where
  "c_cb_failed =
      [0x590D, 0x5236, 0x5931, 0x8D25]"

definition c_ap_success_frag :: jstr where
  "c_ap_success_frag =
      js '' '' @ [0x6210, 0x529F] @ js '' / ''"

definition c_ap_fail_frag :: jstr where
  "c_ap_fail_frag =
      js '' '' @ [0x5931, 0x8D25] @ js '' (''"

definition c_ap_no_requests :: jstr where
  "c_ap_no_requests =
      js '' '' @ [0x00B7] @ js '' '' @ [0x65E0, 0x8BF7, 0x6C42]"

definition c_ap_total_a :: jstr where
  "c_ap_total_a =
      [0x5171] @ js '' ''"

definition c_ap_total_b :: jstr where
  "c_ap_total_b =
      js '' '' @ [0x6B21, 0x8BF7, 0x6C42]"

definition c_ap_hover_hint :: jstr where
  "c_ap_hover_hint =
      [0x60AC, 0x505C, 0x67E5, 0x770B, 0x6BCF, 0x5C0F, 0x65F6, 0x7684, 0x6210, 0x529F] @ js ''/''
      @ [0x5931, 0x8D25, 0x660E, 0x7EC6]"

definition c_ap_no_24h :: jstr where
  "c_ap_no_24h =
      [0x8FC7, 0x53BB] @ js '' 24 '' @ [0x5C0F, 0x65F6, 0x65E0, 0x8BF7, 0x6C42]"

definition c_ap_network :: jstr where
  "c_ap_network =
      [0x7F51, 0x7EDC, 0x6545, 0x969C]"

definition c_ap_based_a :: jstr where
  "c_ap_based_a =
      [0x57FA, 0x4E8E, 0x6700, 0x8FD1] @ js '' 24h '' @ [0x7684] @ js '' ''"

definition c_ap_based_b :: jstr where
  "c_ap_based_b =
      js '' '' @ [0x6761, 0x6210, 0x529F, 0x8BF7, 0x6C42]"

definition c_ap_no_success :: jstr where
  "c_ap_no_success =
      [0x8FC7, 0x53BB] @ js '' 24 '' @ [0x5C0F, 0x65F6, 0x65E0, 0x6210, 0x529F, 0x8BF7, 0x6C42]"

definition c_ap_retry_times :: jstr where
  "c_ap_retry_times =
      [0x91CD, 0x8BD5] @ js '' '' @ [0x00D7]"

definition c_ap_rejected :: jstr where
  "c_ap_rejected =
      [0x8DEF, 0x7531, 0x62D2, 0x7EDD, 0xFF08, 0x672A, 0x53D1, 0x8D77, 0x4E0A, 0x6E38, 0x8BF7,
      0x6C42, 0xFF09]"

definition c_ap_saved :: jstr where
  "c_ap_saved =
      [0xFF08, 0x91CD, 0x8BD5, 0x6551, 0x56DE, 0xFF09]"

definition c_ap_still_failed :: jstr where
  "c_ap_still_failed =
      [0xFF08, 0x91CD, 0x8BD5, 0x4ECD, 0x5931, 0x8D25, 0xFF09]"

definition c_ap_all :: jstr where
  "c_ap_all =
      [0x5168, 0x90E8]"

definition c_ap_ok :: jstr where
  "c_ap_ok =
      [0x6210, 0x529F]"

definition c_ap_failed :: jstr where
  "c_ap_failed =
      [0x5931, 0x8D25]"

definition c_ap_link_copied :: jstr where
  "c_ap_link_copied =
      [0x94FE, 0x63A5, 0x5DF2, 0x590D, 0x5236]"

definition c_ap_link_failed :: jstr where
  "c_ap_link_failed =
      [0x590D, 0x5236, 0x94FE, 0x63A5, 0x5931, 0x8D25]"

definition c_ap_matched_a :: jstr where
  "c_ap_matched_a =
      [0x5339, 0x914D, 0x5230]"

definition c_ap_matched_b :: jstr where
  "c_ap_matched_b =
      js '' '' @ [0x6761, 0x8BF7, 0x6C42]"

definition c_ap_per_page_a :: jstr where
  "c_ap_per_page_a =
      [0xFF0C, 0x6BCF, 0x9875] @ js '' ''"

definition c_ap_per_page_b :: jstr where
  "c_ap_per_page_b =
      js '' '' @ [0x6761]"

definition c_ap_truncated_a :: jstr where
  "c_ap_truncated_a =
      [0x4E3A, 0x4FDD, 0x8BC1, 0x52A0, 0x8F7D, 0x7A33, 0x5B9A, 0xFF0C, 0x5F53, 0x524D, 0x805A,
      0x5408, 0x57FA, 0x4E8E, 0x6700, 0x8FD1] @ js '' ''"

definition c_ap_truncated_b :: jstr where
  "c_ap_truncated_b =
      [0x6761, 0x8BF7, 0x6C42, 0x3002]"

definition c_av_missing :: jstr where
  "c_av_missing =
      [0x8D26, 0x53F7, 0x6570, 0x636E, 0x7F3A, 0x5931, 0x3002]"

definition c_av_refreshing :: jstr where
  "c_av_refreshing =
      [0x5237, 0x65B0, 0x4E2D, 0x2026]"

definition c_av_disable :: jstr where
  "c_av_disable =
      [0x79FB, 0x5165, 0x7981, 0x7528, 0x533A]"

definition c_av_enable :: jstr where
  "c_av_enable =
      [0x91CD, 0x65B0, 0x542F, 0x7528]"

definition c_qb_short :: jstr where
  "c_qb_short =
      [0x77ED]"

definition c_qb_week :: jstr where
  "c_qb_week =
      [0x5468]"

definition c_qb_window_used :: jstr where
  "c_qb_window_used =
      js '' '' @ [0x7A97, 0x53E3] @ js '' '' @ [0x00B7] @ js '' '' @ [0x5DF2, 0x7528] @ js '' ''"

definition c_qb_resets :: jstr where
  "c_qb_resets =
      js '' '' @ [0x540E, 0x91CD, 0x7F6E]"

definition c_qb_five_hours :: jstr where
  "c_qb_five_hours =
      js ''5h '' @ [0x7A97, 0x53E3]"

definition c_qb_seven_days :: jstr where
  "c_qb_seven_days =
      js ''7 '' @ [0x5929, 0x7A97, 0x53E3]"

definition c_qb_left :: jstr where
  "c_qb_left =
      js '' '' @ [0x5269, 0x4F59]"

definition c_qb_used :: jstr where
  "c_qb_used =
      [0x5DF2, 0x7528] @ js '' ''"

definition c_qb_never :: jstr where
  "c_qb_never =
      [0x4ECE, 0x672A]"

definition c_qb_unlimited :: jstr where
  "c_qb_unlimited =
      js '' '' @ [0x00B7] @ js '' '' @ [0x65E0, 0x9650]"

definition c_qb_overage :: jstr where
  "c_qb_overage =
      js '' '' @ [0x00B7] @ js '' overage '' @ [0x5DF2, 0x89E6, 0x53D1]"

definition c_qb_fetched :: jstr where
  "c_qb_fetched =
      [0x6700, 0x540E, 0x6293, 0x53D6] @ js '' '' @ [0x00B7] @ js '' ''"

definition c_sv_times :: jstr where
  "c_sv_times =
      js '' '' @ [0x6B21]"

definition c_sv_window :: jstr where
  "c_sv_window =
      js ''24h '' @ [0x7A97, 0x53E3]"

definition c_sv_syncing :: jstr where
  "c_sv_syncing =
      [0x989D, 0x5EA6, 0x5FEB, 0x7167, 0x6B63, 0x5728, 0x540C, 0x6B65, 0xFF0C, 0x5B8C, 0x6210,
      0x540E, 0x4F1A, 0x81EA, 0x52A8, 0x586B, 0x5145, 0x3002]"

definition c_sv_colon :: jstr where
  "c_sv_colon =
      [0xFF1A]"

definition c_sv_waiting :: jstr where
  "c_sv_waiting =
      [0x7B49, 0x5F85, 0x54CD, 0x5E94]"

definition c_pv_checking :: jstr where
  "c_pv_checking =
      [0x81EA, 0x68C0, 0x4E2D]"

definition c_pv_check :: jstr where
  "c_pv_check =
      [0x81EA, 0x68C0] @ js '' Pool''"

definition c_pv_ordered :: jstr where
  "c_pv_ordered =
      [0x6392, 0x5E8F, 0x4F18, 0x5148]"

definition c_pv_by_health :: jstr where
  "c_pv_by_health =
      [0x5065, 0x5EB7, 0x4F18, 0x5148]"

definition c_pv_accounts :: jstr where
  "c_pv_accounts =
      js '' '' @ [0x8D26, 0x53F7]"

definition c_pv_usable :: jstr where
  "c_pv_usable =
      js '' '' @ [0x53EF, 0x7528]"

definition c_pv_requests :: jstr where
  "c_pv_requests =
      js ''24h '' @ [0x8BF7, 0x6C42] @ js '' ''"

definition c_pv_success :: jstr where
  "c_pv_success =
      [0x6210, 0x529F, 0x7387] @ js '' ''"

definition c_pv_empty :: jstr where
  "c_pv_empty =
      js '' '' @ [0x8FD8, 0x6CA1, 0x6709, 0x8D26, 0x53F7, 0x3002]"

definition c_pv_delete :: jstr where
  "c_pv_delete =
      [0x5C06, 0x5220, 0x9664] @ js '' ''"

definition c_pv_this_account :: jstr where
  "c_pv_this_account =
      [0x8BE5, 0x8D26, 0x53F7]"

definition c_pv_removed :: jstr where
  "c_pv_removed =
      [0xFF0C, 0x5E76, 0x4ECE, 0x5F53, 0x524D] @ js '' Pool '' @ [0x79FB, 0x9664, 0x3002]"

definition c_dw_intro :: jstr where
  "c_dw_intro =
      [0x5148, 0x9009, 0x63A5, 0x5165, 0x65B9, 0x5F0F, 0xFF0C, 0x518D, 0x786E, 0x8BA4, 0x5F52,
      0x5C5E] @ js '' Pool'' @ [0xFF0C, 0x5B8C, 0x6210, 0x540E, 0x5373, 0x53EF, 0x4F7F, 0x7528,
      0x3002]"

definition c_dw_source :: jstr where
  "c_dw_source =
      [0x9009, 0x62E9, 0x63A5, 0x5165, 0x65B9, 0x5F0F]"

definition c_dw_source_hint :: jstr where
  "c_dw_source_hint =
      [0x544A, 0x8BC9] @ js '' Lune '' @ [0x4F60, 0x51C6, 0x5907, 0x4ECE, 0x54EA, 0x91CC, 0x63A5,
      0x5165, 0x8D26, 0x53F7, 0x3002]"

definition c_dw_cpa_card :: jstr where
  "c_dw_cpa_card =
      [0x901A, 0x8FC7] @ js '' CPA '' @ [0x767B, 0x5F55, 0x63A5, 0x5165, 0x8D26, 0x53F7]"

definition c_dw_direct :: jstr where
  "c_dw_direct =
      [0x76F4, 0x8FDE]"

definition c_dw_direct_card :: jstr where
  "c_dw_direct_card =
      [0x8FDE, 0x63A5] @ js '' OpenAI '' @ [0x517C, 0x5BB9, 0x4E0A, 0x6E38]"

definition c_dw_device_hint :: jstr where
  "c_dw_device_hint =
      [0x5F53, 0x524D] @ js '' Device Code '' @ [0x6388, 0x6743, 0x6D41, 0x7A0B, 0x4F1A, 0x8DDF,
      0x968F, 0x6240, 0x9009] @ js '' Provider '' @ [0x8BB0, 0x5F55, 0x6765, 0x6E90, 0x3002]"

definition c_dw_pool :: jstr where
  "c_dw_pool =
      [0x786E, 0x8BA4, 0x5F52, 0x5C5E] @ js '' Pool''"

definition c_dw_pool_hint :: jstr where
  "c_dw_pool_hint =
      js ''Lune '' @ [0x5DF2, 0x6839, 0x636E, 0x63A5, 0x5165, 0x65B9, 0x5F0F, 0x4E0E]
      @ js '' Provider '' @ [0x81EA, 0x52A8, 0x63A8, 0x8350, 0x5F52, 0x5C5E, 0x3002]"

definition c_dw_recommended :: jstr where
  "c_dw_recommended =
      [0x63A8, 0x8350, 0x5F52, 0x5C5E, 0xFF1A]"

definition c_dw_reload :: jstr where
  "c_dw_reload =
      [0x5F85, 0x91CD, 0x65B0, 0x52A0, 0x8F7D]"

definition c_dw_by_hand :: jstr where
  "c_dw_by_hand =
      [0x624B, 0x52A8, 0x9009, 0x62E9]"

definition c_dw_pools_failed :: jstr where
  "c_dw_pools_failed =
      js ''Pool '' @ [0x5217, 0x8868, 0x52A0, 0x8F7D, 0x5931, 0x8D25, 0xFF0C, 0x8BF7, 0x5148,
      0x91CD, 0x8BD5, 0xFF0C, 0x518D, 0x786E, 0x8BA4, 0x5F52, 0x5C5E, 0x3002]"

definition c_dw_may_change :: jstr where
  "c_dw_may_change =
      [0x4F60, 0x4ECD, 0x7136, 0x53EF, 0x4EE5, 0x6539, 0x5230, 0x5176, 0x4ED6] @ js '' Pool''
      @ [0xFF0C, 0x6216, 0x65B0, 0x5EFA, 0x4E00, 0x4E2A, 0x3002]"

definition c_dw_pools_unsafe :: jstr where
  "c_dw_pools_unsafe =
      js ''Pool '' @ [0x5217, 0x8868, 0x52A0, 0x8F7D, 0x5931, 0x8D25, 0xFF0C, 0x5F53, 0x524D,
      0x4E0D, 0x80FD, 0x5B89, 0x5168, 0x5224, 0x65AD, 0x5F52, 0x5C5E, 0x3002]"

definition c_dw_new_pool :: jstr where
  "c_dw_new_pool =
      [0x65B0, 0x5EFA] @ js '' Pool''"

definition c_dw_new_pool_hint :: jstr where
  "c_dw_new_pool_hint =
      [0x4E3A, 0x5F53, 0x524D, 0x63A5, 0x5165, 0x65B0, 0x5EFA, 0x5F52, 0x5C5E, 0x4F4D, 0x7F6E]"

definition c_dw_new_pool_example :: jstr where
  "c_dw_new_pool_example =
      [0x4F8B, 0x5982] @ js '' OpenAI / Claude / Gemini''"

definition c_dw_form :: jstr where
  "c_dw_form =
      [0x586B, 0x5199, 0x8FDE, 0x63A5, 0x4FE1, 0x606F]"

definition c_dw_form_hint :: jstr where
  "c_dw_form_hint =
      [0x4F7F, 0x7528, 0x6700, 0x5C11, 0x5B57, 0x6BB5, 0x5B8C, 0x6210, 0x76F4, 0x8FDE, 0x63A5,
      0x5165, 0x3002]"

definition c_dw_label_example :: jstr where
  "c_dw_label_example =
      [0x4F8B, 0x5982] @ js '' My OpenAI''"

definition c_dw_paste_key :: jstr where
  "c_dw_paste_key =
      [0x7C98, 0x8D34, 0x4F60, 0x7684] @ js '' API Key''"

definition c_dw_authorize :: jstr where
  "c_dw_authorize =
      [0x5728, 0x6D4F, 0x89C8, 0x5668, 0x4E2D, 0x5B8C, 0x6210, 0x6388, 0x6743]"

definition c_dw_import :: jstr where
  "c_dw_import =
      [0x5BFC, 0x5165] @ js '' auth JSON''"

definition c_dw_authorize_hint :: jstr where
  "c_dw_authorize_hint =
      [0x6253, 0x5F00, 0x6388, 0x6743, 0x5730, 0x5740, 0x5E76, 0x8F93, 0x5165, 0x6388, 0x6743,
      0x7801, 0xFF0C, 0x5B8C, 0x6210, 0x540E, 0x6B64, 0x9875, 0x4F1A, 0x7EE7, 0x7EED, 0x81EA,
      0x52A8, 0x5904, 0x7406, 0x3002]"

definition c_dw_import_hint :: jstr where
  "c_dw_import_hint =
      [0x4E0A, 0x4F20, 0x5DF2, 0x6709] @ js '' Codex CPA auth JSON'' @ [0xFF0C] @ js ''Lune ''
      @ [0x4F1A, 0x5199, 0x5165, 0x51ED, 0x636E, 0x5E76, 0x52A0, 0x5165, 0x76EE, 0x6807]
      @ js '' Pool'' @ [0x3002]"

definition c_dw_login_card :: jstr where
  "c_dw_login_card =
      [0x901A, 0x8FC7] @ js '' Device Code '' @ [0x65B0, 0x767B, 0x5F55]"

definition c_dw_import_card :: jstr where
  "c_dw_import_card =
      [0x8FC1, 0x79FB, 0x5DF2, 0x6709] @ js '' CPA '' @ [0x51ED, 0x636E, 0x6587, 0x4EF6]"

definition c_dw_goes_on :: jstr where
  "c_dw_goes_on =
      [0x6388, 0x6743, 0x5B8C, 0x6210, 0x540E, 0x65E0, 0x9700, 0x624B, 0x52A8, 0x5237, 0x65B0,
      0xFF0C, 0x6B64, 0x9875, 0x4F1A, 0x81EA, 0x52A8, 0x7EE7, 0x7EED, 0x3002]"

definition c_dw_window_until :: jstr where
  "c_dw_window_until =
      [0x7A97, 0x53E3, 0x5C06, 0x4E8E] @ js '' ''"

definition c_dw_window_ends :: jstr where
  "c_dw_window_ends =
      js '' '' @ [0x7ED3, 0x675F]"

definition c_dw_code_waiting :: jstr where
  "c_dw_code_waiting =
      [0x7B49, 0x5F85, 0x751F, 0x6210]"

definition c_dw_files :: jstr where
  "c_dw_files =
      js '' '' @ [0x4E2A] @ js '' JSON '' @ [0x6587, 0x4EF6]"

definition c_dw_choose_file :: jstr where
  "c_dw_choose_file =
      [0x9009, 0x62E9] @ js '' Codex auth JSON''"

definition c_dw_added :: jstr where
  "c_dw_added =
      [0x8D26, 0x53F7, 0x5DF2, 0x6DFB, 0x52A0]"

definition c_dw_added_hint :: jstr where
  "c_dw_added_hint =
      [0x8FD9, 0x6B21, 0x63A5, 0x5165, 0x5DF2, 0x7ECF, 0x5199, 0x5165, 0xFF0C, 0x8DEF, 0x7531,
      0x72B6, 0x6001, 0x4EE5, 0x8D26, 0x53F7, 0x5065, 0x5EB7, 0x3001] @ js ''Access'' @ [0x3001,
      0x989D, 0x5EA6, 0x548C] @ js '' runtime '' @ [0x540C, 0x6B65, 0x7ED3, 0x679C, 0x4E3A,
      0x51C6, 0x3002]"

definition c_dw_done_source :: jstr where
  "c_dw_done_source =
      [0x63A5, 0x5165, 0x65B9, 0x5F0F, 0xFF1A]"

definition c_dw_done_pool :: jstr where
  "c_dw_done_pool =
      [0x5F52, 0x5C5E] @ js '' Pool'' @ [0xFF1A]"

definition c_dw_done_label :: jstr where
  "c_dw_done_label =
      [0x8D26, 0x53F7, 0x6807, 0x8BC6, 0xFF1A]"

definition c_dw_done_batch :: jstr where
  "c_dw_done_batch =
      [0x6279, 0x6B21, 0xFF1A]"

definition c_dw_no_summary :: jstr where
  "c_dw_no_summary =
      [0x5B89, 0x5168, 0x6458, 0x8981, 0x4E0D, 0x53EF, 0x7528]"

definition c_dw_later :: jstr where
  "c_dw_later =
      [0x7A0D, 0x540E, 0x7EE7, 0x7EED]"

definition c_dw_cancel :: jstr where
  "c_dw_cancel =
      [0x53D6, 0x6D88, 0x6388, 0x6743]"

definition c_dw_back :: jstr where
  "c_dw_back =
      [0x8FD4, 0x56DE]"

definition c_dw_next :: jstr where
  "c_dw_next =
      [0x7EE7, 0x7EED, 0x6DFB, 0x52A0]"

definition c_dw_continue :: jstr where
  "c_dw_continue =
      [0x7EE7, 0x7EED]"

definition c_dw_confirm_pool :: jstr where
  "c_dw_confirm_pool =
      [0x786E, 0x8BA4] @ js '' Pool''"

definition c_dw_confirm_add :: jstr where
  "c_dw_confirm_add =
      [0x786E, 0x8BA4, 0x6DFB, 0x52A0]"

definition c_dw_start :: jstr where
  "c_dw_start =
      [0x5F00, 0x59CB, 0x6388, 0x6743]"

definition c_dw_restart :: jstr where
  "c_dw_restart =
      [0x91CD, 0x65B0, 0x5F00, 0x59CB]"

definition c_dw_confirm_import :: jstr where
  "c_dw_confirm_import =
      [0x786E, 0x8BA4, 0x5BFC, 0x5165]"

definition c_dw_preview :: jstr where
  "c_dw_preview =
      [0x9884, 0x68C0, 0x6587, 0x4EF6]"

definition c_dw_go :: jstr where
  "c_dw_go =
      [0x524D, 0x5F80] @ js '' Pool''"

definition c_dw_copy :: jstr where
  "c_dw_copy =
      [0x590D, 0x5236]"

definition c_dw_copied :: jstr where
  "c_dw_copied =
      [0x5DF2, 0x590D, 0x5236]"

definition c_dw_new_pool_name :: jstr where
  "c_dw_new_pool_name =
      [0x65B0] @ js '' Pool '' @ [0x540D, 0x79F0]"

definition c_sx_tokens_name :: jstr where
  "c_sx_tokens_name =
      [0x540D, 0x79F0]"

definition c_sx_tokens_actions :: jstr where
  "c_sx_tokens_actions =
      [0x64CD, 0x4F5C]"

definition c_sx_can_receive :: jstr where
  "c_sx_can_receive =
      [0x53EF, 0x63A5, 0x6536, 0x8BF7, 0x6C42]"

definition c_sx_checking :: jstr where
  "c_sx_checking =
      [0x68C0, 0x67E5, 0x4E2D]"

definition c_sx_attention :: jstr where
  "c_sx_attention =
      [0x9700, 0x8981, 0x5904, 0x7406]"

definition c_sx_state :: jstr where
  "c_sx_state =
      [0x8FD0, 0x884C, 0x72B6, 0x6001]"

definition c_sx_normal :: jstr where
  "c_sx_normal =
      [0x6B63, 0x5E38]"

definition c_sx_abnormal :: jstr where
  "c_sx_abnormal =
      [0x5F02, 0x5E38]"

definition c_sx_ready :: jstr where
  "c_sx_ready =
      [0x8BF7, 0x6C42, 0x5C31, 0x7EEA]"

definition c_sx_is_ready :: jstr where
  "c_sx_is_ready =
      [0x5DF2, 0x5C31, 0x7EEA]"

definition c_sx_not_available :: jstr where
  "c_sx_not_available =
      [0x6682, 0x4E0D, 0x53EF, 0x7528]"

definition c_sx_mode :: jstr where
  "c_sx_mode =
      [0x8FD0, 0x884C, 0x6A21, 0x5F0F]"

definition c_sx_last_check :: jstr where
  "c_sx_last_check =
      [0x6700, 0x540E, 0x68C0, 0x67E5]"

definition c_sx_never_checked :: jstr where
  "c_sx_never_checked =
      [0x5C1A, 0x672A, 0x68C0, 0x67E5]"

definition c_sx_image_version :: jstr where
  "c_sx_image_version =
      [0x955C, 0x50CF, 0x5185, 0x7F6E, 0x7248, 0x672C]"

definition c_sx_unknown :: jstr where
  "c_sx_unknown =
      [0x672A, 0x77E5]"

definition c_sx_running_version :: jstr where
  "c_sx_running_version =
      [0x5F53, 0x524D, 0x8FD0, 0x884C, 0x7248, 0x672C]"

definition c_sx_update_source :: jstr where
  "c_sx_update_source =
      [0x66F4, 0x65B0, 0x6765, 0x6E90]"

definition c_sx_can_update :: jstr where
  "c_sx_can_update =
      [0x53EF, 0x66F4, 0x65B0, 0x5230] @ js '' ''"

definition c_sx_with_image :: jstr where
  "c_sx_with_image =
      [0x968F] @ js '' Lune '' @ [0x955C, 0x50CF, 0x66F4, 0x65B0]"

definition c_sx_pinning :: jstr where
  "c_sx_pinning =
      [0x7248, 0x672C, 0x56FA, 0x5B9A]"

definition c_sx_pinned :: jstr where
  "c_sx_pinned =
      [0x5DF2, 0x542F, 0x7528]"

definition c_sx_not_pinned :: jstr where
  "c_sx_not_pinned =
      [0x672A, 0x542F, 0x7528]"

definition c_sx_reason :: jstr where
  "c_sx_reason =
      [0x4E0D, 0x53EF, 0x7528, 0x539F, 0x56E0]"

definition c_sx_last_error :: jstr where
  "c_sx_last_error =
      [0x6700, 0x8FD1, 0x9519, 0x8BEF]"

definition c_sx_no_service :: jstr where
  "c_sx_no_service =
      [0x5185, 0x7F6E] @ js '' CPA '' @ [0x670D, 0x52A1, 0x672A, 0x5C31, 0x7EEA, 0xFF0C, 0x8BF7,
      0x7A0D, 0x540E, 0x91CD, 0x8BD5, 0x6216, 0x68C0, 0x67E5, 0x5BB9, 0x5668, 0x65E5, 0x5FD7,
      0x3002]"

definition c_sx_timeout :: jstr where
  "c_sx_timeout =
      [0x8BF7, 0x6C42, 0x8D85, 0x65F6]"

definition c_sx_seconds :: jstr where
  "c_sx_seconds =
      [0x79D2]"

definition c_sx_retries :: jstr where
  "c_sx_retries =
      [0x6700, 0x5927, 0x91CD, 0x8BD5, 0x6B21, 0x6570]"

definition c_sx_times :: jstr where
  "c_sx_times =
      [0x6B21]"

definition c_sx_interval :: jstr where
  "c_sx_interval =
      [0x5065, 0x5EB7, 0x68C0, 0x67E5, 0x95F4, 0x9694]"

definition c_sx_interval_hint :: jstr where
  "c_sx_interval_hint =
      [0x5065, 0x5EB7, 0x68C0, 0x67E5, 0x8DF3, 0x52A8, 0x5468, 0x671F, 0xFF1B, 0x8D8A, 0x77ED,
      0x8D8A, 0x5FEB, 0x53D1, 0x73B0, 0x6545, 0x969C, 0x3002]"

definition c_sx_max_body :: jstr where
  "c_sx_max_body =
      [0x6700, 0x5927, 0x8BF7, 0x6C42, 0x4F53]"

definition c_sx_max_body_hint :: jstr where
  "c_sx_max_body_hint =
      [0x8D85, 0x8FC7, 0x4E0A, 0x9650, 0x7684, 0x8BF7, 0x6C42, 0x4F1A, 0x88AB, 0x62D2, 0x7EDD,
      0x5E76, 0x8BB0, 0x5F55, 0x5230] @ js '' Activity'' @ [0x3002]"

definition c_sx_memory :: jstr where
  "c_sx_memory =
      [0x5185, 0x5B58, 0x5904, 0x7406, 0x9608, 0x503C]"

definition c_sx_memory_hint :: jstr where
  "c_sx_memory_hint =
      [0x8D85, 0x8FC7, 0x9608, 0x503C, 0x7684, 0x8BF7, 0x6C42, 0x5199, 0x5165, 0x78C1, 0x76D8,
      0x91CD, 0x653E, 0xFF0C, 0x7528, 0x4E8E, 0x91CD, 0x8BD5, 0x3002]"

definition c_sx_live :: jstr where
  "c_sx_live =
      [0x5B9E, 0x65F6, 0x751F, 0x6548]"

definition c_sx_no_pools :: jstr where
  "c_sx_no_pools =
      [0x8FD8, 0x6CA1, 0x6709] @ js '' Pool'' @ [0xFF0C, 0x521B, 0x5EFA] @ js '' Pool ''
      @ [0x540E, 0x4F1A, 0x81EA, 0x52A8, 0x751F, 0x6210, 0x8BBF, 0x95EE, 0x51ED, 0x8BC1, 0x3002]"

definition c_sx_creating :: jstr where
  "c_sx_creating =
      [0x81EA, 0x52A8, 0x521B, 0x5EFA, 0x4E2D]"

definition c_sx_saving :: jstr where
  "c_sx_saving =
      [0x4FDD, 0x5B58, 0x4E2D]"

definition c_sx_save :: jstr where
  "c_sx_save =
      [0x4FDD, 0x5B58]"

definition c_sx_regen_before :: jstr where
  "c_sx_regen_before =
      [0x91CD, 0x65B0, 0x751F, 0x6210, 0x540E, 0xFF0C]"

definition c_sx_regen_this :: jstr where
  "c_sx_regen_this =
      [0x8BE5] @ js '' Token''"

definition c_sx_regen_after :: jstr where
  "c_sx_regen_after =
      js '' '' @ [0x7684, 0x65E7, 0x503C, 0x4F1A, 0x7ACB, 0x5373, 0x5931, 0x6548, 0x3002]"

definition c_sx_prune_runs :: jstr where
  "c_sx_prune_runs =
      [0x81EA, 0x52A8, 0x6E05, 0x7406, 0x8FD0, 0x884C, 0x4E2D]"

definition c_sx_prune_off :: jstr where
  "c_sx_prune_off =
      [0x81EA, 0x52A8, 0x6E05, 0x7406, 0x5DF2, 0x505C, 0x7528]"

definition c_sx_keep_before :: jstr where
  "c_sx_keep_before =
      [0x4FDD, 0x7559, 0x6700, 0x8FD1] @ js '' ''"

definition c_sx_keep_after :: jstr where
  "c_sx_keep_after =
      js '' '' @ [0x5929, 0x6570, 0x636E, 0xFF0C, 0x6BCF, 0x6B21, 0x5065, 0x5EB7, 0x68C0, 0x67E5,
      0x4F1A, 0x5220, 0x6389, 0x8D85, 0x51FA, 0x7A97, 0x53E3, 0x7684, 0x8BB0, 0x5F55, 0x3002]"

definition c_sx_keep_zero :: jstr where
  "c_sx_keep_zero =
      [0x4FDD, 0x7559, 0x5929, 0x6570, 0x5F52, 0x96F6, 0x540E, 0x4E0D, 0x4F1A, 0x518D, 0x81EA,
      0x52A8, 0x6E05, 0x7406, 0x4EFB, 0x4F55, 0x6570, 0x636E, 0x3002]"

definition c_sx_logs :: jstr where
  "c_sx_logs =
      [0xFF08, 0x65E5, 0x5FD7] @ js '' ''"

definition c_sx_deliveries :: jstr where
  "c_sx_deliveries =
      js '' '' @ [0x00B7] @ js '' '' @ [0x901A, 0x77E5]"

definition c_sx_queue :: jstr where
  "c_sx_queue =
      js '' '' @ [0x00B7] @ js '' '' @ [0x961F, 0x5217]"

definition c_sx_close :: jstr where
  "c_sx_close =
      [0xFF09]"

definition c_sx_usage_logs :: jstr where
  "c_sx_usage_logs =
      [0x8BF7, 0x6C42, 0x65E5, 0x5FD7]"

definition c_sx_usage_wal :: jstr where
  "c_sx_usage_wal =
      js ''SQLite '' @ [0x5B9E, 0x65F6, 0x5199, 0x5165, 0x4E0E, 0x5171, 0x4EAB, 0x5185, 0x5B58,
      0x6587, 0x4EF6]"

definition c_sx_usage_history :: jstr where
  "c_sx_usage_history =
      [0x901A, 0x77E5, 0x5386, 0x53F2]"

definition c_sx_usage_queue :: jstr where
  "c_sx_usage_queue =
      [0x901A, 0x77E5, 0x961F, 0x5217]"

definition c_sx_manual_on :: jstr where
  "c_sx_manual_on =
      [0x6309, 0x5F53, 0x524D, 0x4FDD, 0x7559, 0x89C4, 0x5219, 0x7ACB, 0x5373, 0x8DD1, 0x4E00,
      0x6B21, 0x6E05, 0x7406, 0x3002, 0x9884, 0x89C8, 0x4F1A, 0x5148, 0x544A, 0x8BC9, 0x4F60,
      0x4F1A, 0x5220, 0x6389, 0x4EC0, 0x4E48, 0xFF0C, 0x518D, 0x51B3, 0x5B9A, 0x662F, 0x5426,
      0x6267, 0x884C, 0x3002]"

definition c_sx_manual_off :: jstr where
  "c_sx_manual_off =
      [0x4FDD, 0x7559, 0x5929, 0x6570, 0x4E3A] @ js '' 0 '' @ [0x65F6, 0x65E0, 0x6E05, 0x7406,
      0x76EE, 0x6807, 0xFF0C, 0x8BF7, 0x5148, 0x5728, 0x5DE6, 0x4FA7, 0x8BBE, 0x7F6E, 0x4E00,
      0x4E2A, 0x4FDD, 0x7559, 0x5929, 0x6570, 0x3002]"

definition c_sx_older_logs :: jstr where
  "c_sx_older_logs =
      [0x8BF7, 0x6C42, 0x65E5, 0x5FD7, 0xFF08] @ js ''> ''"

definition c_sx_older_deliveries :: jstr where
  "c_sx_older_deliveries =
      [0x901A, 0x77E5, 0x5386, 0x53F2, 0xFF08] @ js ''> ''"

definition c_sx_older_queue :: jstr where
  "c_sx_older_queue =
      [0x901A, 0x77E5, 0x961F, 0x5217] @ js '' '' @ [0x00B7] @ js '' dropped'' @ [0xFF08]
      @ js ''> ''"

definition c_sx_days :: jstr where
  "c_sx_days =
      js '' '' @ [0x5929, 0xFF09]"

definition c_sx_nothing :: jstr where
  "c_sx_nothing =
      [0x65E0, 0x53EF, 0x6E05, 0x7406]"

definition c_sx_confirm_prune :: jstr where
  "c_sx_confirm_prune =
      [0x786E, 0x8BA4, 0x6E05, 0x7406]"

definition c_sx_parsing :: jstr where
  "c_sx_parsing =
      [0x89E3, 0x6790, 0x6587, 0x4EF6, 0x4E2D, 0x2026]"

definition c_sx_choose_file :: jstr where
  "c_sx_choose_file =
      [0x9009, 0x62E9, 0x6587, 0x4EF6]"

definition c_sx_from :: jstr where
  "c_sx_from =
      [0x6765, 0x81EA] @ js '' ''"

definition c_sx_source_unknown :: jstr where
  "c_sx_source_unknown =
      [0x6765, 0x6E90, 0x672A, 0x77E5]"

definition c_sx_exported :: jstr where
  "c_sx_exported =
      js '' '' @ [0x00B7] @ js '' '' @ [0x5BFC, 0x51FA, 0x4E8E] @ js '' ''"

definition c_sx_ignored_before :: jstr where
  "c_sx_ignored_before =
      [0x6587, 0x4EF6, 0x4E2D, 0x7684] @ js '' ''"

definition c_sx_ignored_accounts :: jstr where
  "c_sx_ignored_accounts =
      js '' '' @ [0x4E2A, 0x8D26, 0x53F7] @ js '' /''"

definition c_sx_ignored_services :: jstr where
  "c_sx_ignored_services =
      js '' '' @ [0x4E2A] @ js '' CPA runtime '' @ [0x914D, 0x7F6E, 0x4E0D, 0x4F1A, 0x88AB,
      0x5BFC, 0x5165, 0xFF08, 0x9700, 0x624B, 0x52A8, 0x5728]"

definition c_sx_masked :: jstr where
  "c_sx_masked =
      [0x8131, 0x654F, 0x5BFC, 0x51FA]"

definition c_sx_masked_hint :: jstr where
  "c_sx_masked_hint =
      [0x9ED8, 0x8BA4, 0x63A8, 0x8350] @ js '' '' @ [0x00B7] @ js '' '' @ [0x6240, 0x6709, 0x5BC6,
      0x94A5, 0x88AB, 0x6253, 0x7801, 0xFF0C, 0x53EF, 0x76F4, 0x63A5, 0x5206, 0x4EAB]"

definition c_sx_full :: jstr where
  "c_sx_full =
      [0x5B8C, 0x6574, 0x5BFC, 0x51FA]"

definition c_sx_full_hint :: jstr where
  "c_sx_full_hint =
      [0x542B, 0x660E, 0x6587] @ js '' Token / API Key / Management Key''"

definition c_sx_builtin :: jstr where
  "c_sx_builtin =
      [0x5185, 0x7F6E, 0x4E8B, 0x4EF6]"

definition c_sx_trigger :: jstr where
  "c_sx_trigger =
      [0x89E6, 0x53D1, 0x65F6, 0x673A, 0xFF1A]"

definition c_sx_severity_fixed :: jstr where
  "c_sx_severity_fixed =
      [0x3002, 0x4E25, 0x91CD, 0x7EA7, 0x522B, 0x7531, 0x540E, 0x7AEF, 0x751F, 0x6210, 0xFF0C,
      0x65E0, 0x6CD5, 0x5728, 0x524D, 0x7AEF, 0x4FEE, 0x6539, 0x3002]"

definition c_sx_unsubscribed :: jstr where
  "c_sx_unsubscribed =
      [0x5F53, 0x524D, 0x672A, 0x8BA2, 0x9605, 0xFF1A, 0x4FDD, 0x5B58, 0x540E, 0x8BE5, 0x4E8B,
      0x4EF6, 0x4E0D, 0x4F1A, 0x53D1, 0x9001, 0xFF0C, 0x4F46, 0x914D, 0x7F6E, 0x4ECD, 0x4F1A,
      0x4FDD, 0x7559, 0x3002]"

definition c_sx_all :: jstr where
  "c_sx_all =
      [0x5168, 0x90E8]"

definition c_sx_success :: jstr where
  "c_sx_success =
      [0x6210, 0x529F]"

definition c_sx_failed :: jstr where
  "c_sx_failed =
      [0x5931, 0x8D25]"

definition c_sx_dropped :: jstr where
  "c_sx_dropped =
      [0x4E22, 0x5F03]"

definition c_sx_test :: jstr where
  "c_sx_test =
      [0x624B, 0x52A8, 0x6D4B, 0x8BD5]"

definition c_sx_matched :: jstr where
  "c_sx_matched =
      [0x5339, 0x914D, 0x5230] @ js '' ''"

definition c_sx_records :: jstr where
  "c_sx_records =
      js '' '' @ [0x6761, 0x8BB0, 0x5F55]"

definition c_sx_per_page :: jstr where
  "c_sx_per_page =
      [0xFF0C, 0x6BCF, 0x9875] @ js '' ''"

definition c_sx_items :: jstr where
  "c_sx_items =
      js '' '' @ [0x6761]"

definition c_sx_stop :: jstr where
  "c_sx_stop =
      [0x3002]"

definition c_sx_only_latest :: jstr where
  "c_sx_only_latest =
      [0x4E3A, 0x4FDD, 0x8BC1, 0x52A0, 0x8F7D, 0x7A33, 0x5B9A, 0xFF0C, 0x5F53, 0x524D, 0x4EC5,
      0x5C55, 0x793A, 0x6700, 0x8FD1] @ js '' ''"

definition c_sx_latest_end :: jstr where
  "c_sx_latest_end =
      js '' '' @ [0x6761, 0x3002]"

definition c_sx_none_shown :: jstr where
  "c_sx_none_shown =
      [0x5F53, 0x524D, 0x7B5B, 0x9009, 0x4E0B, 0x6CA1, 0x6709, 0x53EF, 0x663E, 0x793A, 0x7684,
      0x901A, 0x77E5, 0x6295, 0x9012, 0x8BB0, 0x5F55, 0x3002]"

definition c_sx_page :: jstr where
  "c_sx_page =
      [0x7B2C] @ js '' ''"

definition c_sx_pages :: jstr where
  "c_sx_pages =
      js '' '' @ [0x9875]"

definition c_sx_untitled :: jstr where
  "c_sx_untitled =
      js ''('' @ [0x65E0, 0x6807, 0x9898] @ js '')''"

definition c_sx_no_summary :: jstr where
  "c_sx_no_summary =
      [0x6CA1, 0x6709, 0x53EF, 0x5C55, 0x793A, 0x7684, 0x6458, 0x8981, 0x3002]"

definition c_sx_loading :: jstr where
  "c_sx_loading =
      [0x6B63, 0x5728, 0x52A0, 0x8F7D, 0x901A, 0x77E5, 0x8BBE, 0x7F6E, 0x2026]"

definition c_sx_notifications_off :: jstr where
  "c_sx_notifications_off =
      [0x901A, 0x77E5, 0x5DF2, 0x5173, 0x95ED, 0x3002, 0x8BA2, 0x9605, 0x548C, 0x6A21, 0x677F,
      0x4ECD, 0x53EF, 0x7F16, 0x8F91, 0xFF0C, 0x5F00, 0x542F, 0x540E, 0x7ACB, 0x523B, 0x751F,
      0x6548, 0x3002]"

definition c_sx_no_events :: jstr where
  "c_sx_no_events =
      [0x8FD8, 0x6CA1, 0x6709, 0x53EF, 0x8BA2, 0x9605, 0x7684, 0x4E8B, 0x4EF6, 0x7C7B, 0x578B,
      0x3002]"

definition c_sx_channel :: jstr where
  "c_sx_channel =
      [0x6E20, 0x9053]"

definition c_sx_subscriptions :: jstr where
  "c_sx_subscriptions =
      [0x8BA2, 0x9605, 0x4E8B, 0x4EF6]"

definition c_sx_test_hint :: jstr where
  "c_sx_test_hint =
      [0x5411, 0x5F53, 0x524D] @ js '' webhook '' @ [0x771F, 0x5B9E, 0x53D1, 0x9001, 0x4E00,
      0x6761] @ js '' test '' @ [0x4E8B, 0x4EF6, 0xFF1B, 0x7ED3, 0x679C, 0x4F1A, 0x663E, 0x793A,
      0x5728, 0x6309, 0x94AE, 0x53F3, 0x4FA7, 0x3002]"

definition c_sx_ignored_end :: jstr where
  "c_sx_ignored_end =
      js ''Overview / Settings '' @ [0x91CD, 0x65B0, 0x63A5, 0x5165, 0xFF09, 0x3002]"

lemmas copy_defs =
  c_label_unknown_def
  c_label_healthy_def
  c_label_degraded_def
  c_label_error_def
  c_label_disabled_def
  c_account_missing_def
  c_account_missing_impact_def
  c_do_refresh_page_def
  c_account_disabled_def
  c_account_disabled_impact_def
  c_do_enable_def
  c_binding_unconfirmed_def
  c_binding_unconfirmed_impact_def
  c_do_check_cpa_runtime_def
  c_do_view_runtime_binding_def
  c_do_wait_pinning_def
  c_status_unchecked_def
  c_status_unchecked_impact_def
  c_do_refresh_account_def
  c_do_self_check_def
  c_needs_login_def
  c_needs_login_impact_def
  c_do_relogin_def
  c_refresh_failed_def
  c_refresh_failed_impact_def
  c_runtime_error_def
  c_runtime_error_impact_def
  c_do_view_service_log_def
  c_credential_syncing_def
  c_credential_syncing_impact_def
  c_do_refresh_later_def
  c_credential_unknown_def
  c_credential_unknown_impact_def
  c_access_ineligible_def
  c_access_pending_def
  c_access_error_def
  c_access_unconfirmed_def
  c_access_impact_def
  c_do_check_access_def
  c_quota_exhausted_def
  c_quota_exhausted_impact_def
  c_do_refresh_quota_def
  c_do_switch_account_def
  c_do_view_activity_def
  c_do_wait_cooldown_def
  c_serving_cooldown_def
  c_serving_cooldown_impact_def
  c_serving_error_def
  c_serving_error_impact_def
  c_do_view_last_error_def
  c_unroutable_def
  c_unroutable_impact_def
  c_do_view_diagnosis_def
  c_quota_query_failed_def
  c_quota_query_failed_impact_def
  c_quota_unknown_def
  c_quota_unknown_impact_def
  c_auth_suspect_def
  c_auth_suspect_impact_def
  c_do_direct_test_def
  c_routable_def
  c_routable_impact_def
  c_do_keep_watching_def
  c_direct_access_def
  c_cpa_access_def
  c_expired_def
  c_days_within_def
  c_days_after_def
  c_relogin_required_def
  c_quota_blocked_detail_def
  c_model_rate_limited_def
  c_model_rate_limited_detail_def
  c_management_detail_def
  c_quota_auth_detail_def
  c_quota_aux_detail_def
  c_no_quota_snapshot_def
  c_subscription_failed_def
  c_reason_disabled_def
  c_reason_file_missing_def
  c_reason_file_corrupt_def
  c_reason_index_pending_def
  c_reason_unreachable_def
  c_reason_service_missing_def
  c_reason_key_missing_def
  c_reason_dir_missing_def
  c_reason_refresh_failed_def
  c_reason_auth_suspect_def
  c_reason_auth_failed_def
  c_reason_default_def
  c_quota_weekly_failed_detail_def
  c_no_weekly_quota_def
  c_no_weekly_quota_detail_def
  c_weekly_unknown_def
  c_weekly_unknown_detail_def
  c_weekly_pending_def
  c_weekly_pending_detail_def
  c_already_reset_def
  c_never_def
  c_just_now_def
  c_ago_def
  c_minutes_ago_def
  c_hours_ago_def
  c_days_ago_def
  c_moon_new_def
  c_moon_waxing_crescent_def
  c_moon_first_quarter_def
  c_moon_waxing_gibbous_def
  c_moon_full_def
  c_moon_waning_gibbous_def
  c_moon_last_quarter_def
  c_moon_waning_crescent_def
  c_lb_corner_def
  c_rb_corner_def
  c_account_def
  c_will_at_def
  c_expire_def
  c_login_invalid_colon_def
  c_login_invalid_relogin_def
  c_quota_limited_colon_def
  c_quota_limited_def
  c_status_abnormal_colon_def
  c_status_abnormal_def
  c_no_routable_account_def
  c_overview_failed_def
  c_ph_event_def
  c_ph_severity_def
  c_ph_time_def
  c_ph_account_def
  c_ph_expires_def
  c_ph_invalid_reason_def
  c_ph_last_error_def
  c_ph_service_def
  c_ph_instance_def
  c_ph_admin_def
  c_trig_expiring_def
  c_trig_credential_def
  c_trig_account_error_def
  c_trig_service_def
  c_trig_test_def
  c_dg_late_night_def
  c_dg_morning_def
  c_dg_noon_def
  c_dg_afternoon_def
  c_dg_evening_def
  c_dg_night_def
  c_dg_ran_def
  c_dg_requests_def
  c_dg_avg_def
  c_dg_of_which_def
  c_dg_streamed_def
  c_dg_comma_def
  c_dg_period_def
  c_dg_rparen_def
  c_dg_up1_def
  c_dg_up2_def
  c_dg_down1_def
  c_dg_down2_def
  c_dg_route1a_def
  c_dg_route1b_def
  c_dg_route2_def
  c_dg_route3a_def
  c_dg_route3b_def
  c_dg_route_tail_def
  c_dg_rate_up1_def
  c_dg_rate_up2_def
  c_dg_rate_down1_def
  c_dg_rate_down2_def
  c_dg_green1_def
  c_dg_green2_def
  c_dg_green3_def
  c_dg_rate_def
  c_dg_with_def
  c_dg_final_failed_def
  c_dg_see_top_def
  c_dg_rate_fell_def
  c_dg_dropped_def
  c_dg_top_first_def
  c_dg_network_def
  c_dg_err1_def
  c_dg_err2_def
  c_dg_err3_def
  c_dg_lparen_def
  c_dg_times_def
  c_dg_slow1_def
  c_dg_slow2_def
  c_dg_p95_at_def
  c_dg_slow_tail_def
  c_dg_fast1_def
  c_dg_fast2_def
  c_dg_p95_from_def
  c_dg_p95_to_def
  c_dg_pool1a_def
  c_dg_pool1b_def
  c_dg_pool2a_def
  c_dg_pool2b_def
  c_dg_asleep_def
  c_dg_model1_def
  c_dg_model2a_def
  c_dg_model2b_def
  c_dg_busy1_def
  c_dg_busy2a_def
  c_dg_busy2b_def
  c_dg_retry1a_def
  c_dg_retry1b_def
  c_dg_retry2_def
  c_dg_retry3a_def
  c_dg_retry3b_def
  c_dg_retry_tail_def
  c_dg_idle_def
  c_dg_ellipsis_def
  c_act_failed_def
  c_act_truncated_def
  c_act_not_found_def
  c_act_unconfirmed_def
  c_act_binding_unconfirmed_def
  c_act_input_def
  c_act_output_def
  c_act_dash_def
  c_aa_step1_def
  c_aa_step1_detail_def
  c_aa_step2_def
  c_aa_step2_detail_def
  c_aa_step3_def
  c_aa_step3_detail_def
  c_aa_step4_def
  c_aa_step4_detail_def
  c_aa_failed_def
  c_aa_expired_def
  c_aa_authorized_def
  c_aa_cancelled_def
  c_aa_succeeded_def
  c_aa_waiting_def
  c_aa_authorized_hint_def
  c_aa_failed_hint_def
  c_aa_expired_hint_def
  c_aa_cancelled_hint_def
  c_aa_succeeded_hint_def
  c_aa_waiting_hint_def
  c_aa_unnamed_pool_def
  c_aa_to_confirm_def
  c_aa_created_def
  c_aa_updated_def
  c_aa_skipped_def
  c_aa_item_failed_def
  c_aa_synced_def
  c_aa_sync_pending_def
  c_aa_sync_failed_def
  c_aa_not_applicable_def
  c_aa_need_pool_label_def
  c_aa_need_pool_def
  c_aa_direct_def
  c_aa_create_failed_def
  c_aa_no_service_def
  c_aa_no_provider_def
  c_aa_login_failed_def
  c_aa_choose_json_def
  c_aa_not_auth_json_def
  c_aa_not_sessions_def
  c_aa_no_refresh_def
  c_aa_unsupported_def
  c_aa_no_identity_def
  c_aa_choose_first_def
  c_aa_preview_partial_def
  c_aa_preview_done_def
  c_aa_preview_failed_def
  c_aa_preview_needed_def
  c_aa_accounts_def
  c_aa_cpa_source_def
  c_aa_batch_source_def
  c_aa_imported_def
  c_aa_import_failed_def
  c_aa_login_cancelled_def
  c_aa_cancel_failed_def
  c_custom_template_def
  c_st_unknown_def
  c_st_healthy_def
  c_st_degraded_def
  c_st_error_def
  c_st_disabled_def
  c_openai_compat_def
  c_pd_invalid_def
  c_pd_load_failed_def
  c_pd_no_token_def
  c_pd_reveal_failed_def
  c_pd_reordered_def
  c_pd_reorder_failed_def
  c_pd_enabled_def
  c_pd_disabled_def
  c_pd_toggle_failed_def
  c_pd_ordered_def
  c_pd_health_first_def
  c_pd_policy_failed_def
  c_pd_update_failed_def
  c_pd_partial_def
  c_pd_quota_def
  c_pd_subscription_def
  c_pd_refreshed_comma_def
  c_pd_pending_tail_def
  c_pd_models_head_def
  c_pd_refreshed_tail_def
  c_pd_refreshed_def
  c_pd_sep_semicolon_def
  c_pd_sep_comma_def
  c_pd_refresh_failed_def
  c_pd_deleted_def
  c_pd_delete_failed_def
  c_pd_check_no_token_def
  c_pd_check_no_model_def
  c_pd_check_passed_def
  c_pd_check_paren_def
  c_pd_check_done_def
  c_pd_check_success_def
  c_pd_check_failed_def
  c_pd_setup_no_token_def
  c_pd_gone_def
  c_pd_need_label_def
  c_pd_label_saved_def
  c_pd_label_failed_def
  c_pd_pool_enabled_def
  c_pd_pool_disabled_def
  c_pd_status_failed_def
  c_pd_pool_deleted_def
  c_pd_pool_delete_failed_def
  c_pd_self_check_message_def
  c_pc_need_label_def
  c_pc_created_def
  c_pc_failed_def
  c_card_relogin_long_def
  c_card_relogin_short_def
  c_card_plan_unknown_def
  c_card_limited_long_def
  c_card_limited_short_def
  c_card_binding_def
  c_card_binding_detail_def
  c_card_cooldown_def
  c_card_serving_error_def
  c_card_today_def
  c_sig_none_def
  c_sig_dash_def
  c_sig_rate_def
  c_sig_open_def
  c_sig_close_def
  c_sh_preset_hello_def
  c_sh_preset_model_def
  c_sh_ellipsis_def
  c_sh_dash_def
  c_sh_no_sample_def
  c_sh_read_failed_def
  c_sh_reading_def
  c_sh_saved_def
  c_sh_save_failed_def
  c_sh_probe_failed_def
  c_sh_no_token_def
  c_sh_request_failed_def
  c_sh_test_failed_def
  c_sh_conn_used_def
  c_sh_conn_missing_def
  c_sh_conn_keep_def
  c_sh_conn_add_def
  c_sh_bind_direct_def
  c_sh_bind_direct_reason_def
  c_sh_bind_direct_do_def
  c_sh_bind_open_def
  c_sh_bind_open_reason_def
  c_sh_bind_open_do_def
  c_sh_bind_ok_def
  c_sh_bind_ok_reason_def
  c_sh_watch_def
  c_sh_key_set_def
  c_sh_key_missing_def
  c_sh_key_user_def
  c_sh_key_none_def
  c_sh_key_add_def
  c_sh_credential_def
  c_sh_credential_ok_def
  c_sh_credential_none_def
  c_sh_do_login_def
  c_sh_do_runtime_def
  c_sh_do_later_def
  c_sh_do_direct_test_def
  c_sh_subscription_def
  c_sh_sub_snapshot_def
  c_sh_sub_later_def
  c_sh_sub_refresh_def
  c_sh_quota_def
  c_sh_quota_direct_def
  c_sh_quota_direct_do_def
  c_sh_quota_snapshot_def
  c_sh_quota_no_snapshot_def
  c_sh_quota_switch_def
  c_sh_quota_refresh_def
  c_sh_discovery_def
  c_sh_wait_cooldown_def
  c_sh_run_check_def
  c_sh_models_unit_def
  c_sh_models_none_def
  c_sh_models_reason_def
  c_sh_models_do_def
  c_sh_sub_active_def
  c_sh_sub_expired_def
  c_sh_sub_pending_def
  c_sh_sub_error_def
  c_sh_sub_unknown_def
  c_sh_quota_ok_def
  c_sh_quota_blocked_def
  c_sh_quota_pending_def
  c_sh_quota_error_def
  c_sh_quota_unknown_def
  c_sh_serving_cooldown_def
  c_sh_serving_error_def
  c_sh_serving_unknown_def
  c_sh_serving_ok_def
  c_set_updated_def
  c_set_save_failed_def
  c_dr_preview_failed_def
  c_dr_pruned_def
  c_dr_items_def
  c_dr_pruned_none_def
  c_dr_prune_failed_def
  c_dr_never_def
  c_dr_zero_def
  c_dr_no_record_def
  c_dr_arrow_def
  c_dr_waiting_def
  c_dr_dropped_def
  c_dr_no_backlog_def
  c_im_format_def
  c_im_read_failed_def
  c_im_done_def
  c_im_skipped_def
  c_im_items_def
  c_im_failed_def
  c_im_pools_def
  c_im_tokens_def
  c_im_settings_def
  c_tk_copied_def
  c_tk_copy_failed_def
  c_tk_read_failed_def
  c_tk_name_empty_def
  c_tk_renamed_def
  c_tk_rename_failed_def
  c_tk_kept_def
  c_tk_replaced_def
  c_tk_replace_failed_def
  c_tk_regenerated_def
  c_tk_regenerate_failed_def
  c_tk_not_ready_def
  c_sp_load_failed_def
  c_sp_mode_embedded_def
  c_sp_mode_external_def
  c_sp_ok_def
  c_sp_pending_def
  c_sp_problem_def
  c_sp_no_version_def
  c_sp_version_def
  c_sp_detail_error_def
  c_sp_detail_ready_def
  c_sp_detail_ok_def
  c_sp_none_def
  c_sp_refused_def
  c_sp_timeout_def
  c_sp_files_def
  c_sp_internal_def
  c_sp_reachable_def
  c_sp_unreachable_def
  c_sp_test_failed_def
  c_nt_load_failed_def
  c_nt_save_failed_def
  c_nt_body_empty_def
  c_nt_body_first_def
  c_nt_sub_failed_def
  c_nt_test_failed_def
  c_nt_disabled_def
  c_nt_days_failed_def
  c_nt_need_switch_def
  c_nt_need_url_def
  c_nt_mobile_bad_def
  c_nt_history_failed_def
  c_tpl_empty_def
  c_unit_s_def
  c_unit_ms_def
  c_orbit_healthy_def
  c_orbit_degraded_def
  c_orbit_error_def
  c_orbit_disabled_def
  c_orbit_unknown_def
  c_ov_copied_def
  c_ov_copy_failed_def
  c_render_unknown_def
  c_cb_copied_def
  c_cb_failed_def
  c_ap_success_frag_def
  c_ap_fail_frag_def
  c_ap_no_requests_def
  c_ap_total_a_def
  c_ap_total_b_def
  c_ap_hover_hint_def
  c_ap_no_24h_def
  c_ap_network_def
  c_ap_based_a_def
  c_ap_based_b_def
  c_ap_no_success_def
  c_ap_retry_times_def
  c_ap_rejected_def
  c_ap_saved_def
  c_ap_still_failed_def
  c_ap_all_def
  c_ap_ok_def
  c_ap_failed_def
  c_ap_link_copied_def
  c_ap_link_failed_def
  c_ap_matched_a_def
  c_ap_matched_b_def
  c_ap_per_page_a_def
  c_ap_per_page_b_def
  c_ap_truncated_a_def
  c_ap_truncated_b_def
  c_av_missing_def
  c_av_refreshing_def
  c_av_disable_def
  c_av_enable_def
  c_qb_short_def
  c_qb_week_def
  c_qb_window_used_def
  c_qb_resets_def
  c_qb_five_hours_def
  c_qb_seven_days_def
  c_qb_left_def
  c_qb_used_def
  c_qb_never_def
  c_qb_unlimited_def
  c_qb_overage_def
  c_qb_fetched_def
  c_sv_times_def
  c_sv_window_def
  c_sv_syncing_def
  c_sv_colon_def
  c_sv_waiting_def
  c_pv_checking_def
  c_pv_check_def
  c_pv_ordered_def
  c_pv_by_health_def
  c_pv_accounts_def
  c_pv_usable_def
  c_pv_requests_def
  c_pv_success_def
  c_pv_empty_def
  c_pv_delete_def
  c_pv_this_account_def
  c_pv_removed_def
  c_dw_intro_def
  c_dw_source_def
  c_dw_source_hint_def
  c_dw_cpa_card_def
  c_dw_direct_def
  c_dw_direct_card_def
  c_dw_device_hint_def
  c_dw_pool_def
  c_dw_pool_hint_def
  c_dw_recommended_def
  c_dw_reload_def
  c_dw_by_hand_def
  c_dw_pools_failed_def
  c_dw_may_change_def
  c_dw_pools_unsafe_def
  c_dw_new_pool_def
  c_dw_new_pool_hint_def
  c_dw_new_pool_example_def
  c_dw_form_def
  c_dw_form_hint_def
  c_dw_label_example_def
  c_dw_paste_key_def
  c_dw_authorize_def
  c_dw_import_def
  c_dw_authorize_hint_def
  c_dw_import_hint_def
  c_dw_login_card_def
  c_dw_import_card_def
  c_dw_goes_on_def
  c_dw_window_until_def
  c_dw_window_ends_def
  c_dw_code_waiting_def
  c_dw_files_def
  c_dw_choose_file_def
  c_dw_added_def
  c_dw_added_hint_def
  c_dw_done_source_def
  c_dw_done_pool_def
  c_dw_done_label_def
  c_dw_done_batch_def
  c_dw_no_summary_def
  c_dw_later_def
  c_dw_cancel_def
  c_dw_back_def
  c_dw_next_def
  c_dw_continue_def
  c_dw_confirm_pool_def
  c_dw_confirm_add_def
  c_dw_start_def
  c_dw_restart_def
  c_dw_confirm_import_def
  c_dw_preview_def
  c_dw_go_def
  c_dw_copy_def
  c_dw_copied_def
  c_dw_new_pool_name_def
  c_sx_tokens_name_def
  c_sx_tokens_actions_def
  c_sx_can_receive_def
  c_sx_checking_def
  c_sx_attention_def
  c_sx_state_def
  c_sx_normal_def
  c_sx_abnormal_def
  c_sx_ready_def
  c_sx_is_ready_def
  c_sx_not_available_def
  c_sx_mode_def
  c_sx_last_check_def
  c_sx_never_checked_def
  c_sx_image_version_def
  c_sx_unknown_def
  c_sx_running_version_def
  c_sx_update_source_def
  c_sx_can_update_def
  c_sx_with_image_def
  c_sx_pinning_def
  c_sx_pinned_def
  c_sx_not_pinned_def
  c_sx_reason_def
  c_sx_last_error_def
  c_sx_no_service_def
  c_sx_timeout_def
  c_sx_seconds_def
  c_sx_retries_def
  c_sx_times_def
  c_sx_interval_def
  c_sx_interval_hint_def
  c_sx_max_body_def
  c_sx_max_body_hint_def
  c_sx_memory_def
  c_sx_memory_hint_def
  c_sx_live_def
  c_sx_no_pools_def
  c_sx_creating_def
  c_sx_saving_def
  c_sx_save_def
  c_sx_regen_before_def
  c_sx_regen_this_def
  c_sx_regen_after_def
  c_sx_prune_runs_def
  c_sx_prune_off_def
  c_sx_keep_before_def
  c_sx_keep_after_def
  c_sx_keep_zero_def
  c_sx_logs_def
  c_sx_deliveries_def
  c_sx_queue_def
  c_sx_close_def
  c_sx_usage_logs_def
  c_sx_usage_wal_def
  c_sx_usage_history_def
  c_sx_usage_queue_def
  c_sx_manual_on_def
  c_sx_manual_off_def
  c_sx_older_logs_def
  c_sx_older_deliveries_def
  c_sx_older_queue_def
  c_sx_days_def
  c_sx_nothing_def
  c_sx_confirm_prune_def
  c_sx_parsing_def
  c_sx_choose_file_def
  c_sx_from_def
  c_sx_source_unknown_def
  c_sx_exported_def
  c_sx_ignored_before_def
  c_sx_ignored_accounts_def
  c_sx_ignored_services_def
  c_sx_masked_def
  c_sx_masked_hint_def
  c_sx_full_def
  c_sx_full_hint_def
  c_sx_builtin_def
  c_sx_trigger_def
  c_sx_severity_fixed_def
  c_sx_unsubscribed_def
  c_sx_all_def
  c_sx_success_def
  c_sx_failed_def
  c_sx_dropped_def
  c_sx_test_def
  c_sx_matched_def
  c_sx_records_def
  c_sx_per_page_def
  c_sx_items_def
  c_sx_stop_def
  c_sx_only_latest_def
  c_sx_latest_end_def
  c_sx_none_shown_def
  c_sx_page_def
  c_sx_pages_def
  c_sx_untitled_def
  c_sx_no_summary_def
  c_sx_loading_def
  c_sx_notifications_off_def
  c_sx_no_events_def
  c_sx_channel_def
  c_sx_subscriptions_def
  c_sx_test_hint_def
  c_sx_ignored_end_def

end
