(* ===== verification/RouteHealth.thy ===== *)
theory RouteHealth
  imports AdminTypes Copy JsNumber JsCollections
begin

text \<open>
  \<^verbatim>\<open>web/src/lib/lune.ts\<close>: which account can take ordinary traffic, why not, and the summary of a
  pool. \<open>isAccountRoutable\<close> mirrors the gateway's own selection rule; \<open>getRouteSummary\<close> explains it
  to the operator. The lemmas relate the two: a summary that reports \<open>Healthy\<close> or \<open>Degraded\<close> is a
  routable account (up to the one branch that reports a rate-limited Codex account), and the pool
  snapshot's counters partition the members.
\<close>

section \<open>Data\<close>

datatype route_health = Unknown | Healthy | Degraded | Error | Disabled

record route_summary =
  rs_status :: route_health
  rs_label :: jstr
  rs_reason :: jstr
  rs_impact :: jstr
  rs_actions :: "jstr list"

fun ROUTE_LABELS :: "route_health \<Rightarrow> jstr" where
  "ROUTE_LABELS Unknown = c_label_unknown"
| "ROUTE_LABELS Healthy = c_label_healthy"
| "ROUTE_LABELS Degraded = c_label_degraded"
| "ROUTE_LABELS Error = c_label_error"
| "ROUTE_LABELS Disabled = c_label_disabled"

record status_counts =
  n_healthy :: nat
  n_degraded :: nat
  n_error :: nat
  n_disabled :: nat
  n_unknown :: nat
  n_total :: nat

record pool_snapshot =
  snap_id :: int
  snap_label :: jstr
  snap_enabled :: bool
  activeAccountIds :: "int list"
  activeAccountCount :: "nat option"
  availableAccountCount :: "nat option"
  memberStatusCounts :: "status_counts option"
  snap_models :: "jstr list"
  snap_health :: route_health

section \<open>Small helpers\<close>

definition ensureArray :: "'a list option \<Rightarrow> 'a list" where
  "ensureArray v = (case v of Some xs \<Rightarrow> xs | None \<Rightarrow> [])"

text \<open>\<open>s.replace(/\/$/, "")\<close>: one trailing slash is removed.\<close>

definition strip_slash :: "jstr \<Rightarrow> jstr" where
  "strip_slash s = (if s \<noteq> [] \<and> last s = 47 then butlast s else s)"

definition getApiBaseUrl :: "jstr \<Rightarrow> jstr option \<Rightarrow> jstr" where
  "getApiBaseUrl origin externalUrl =
     (let fallback = origin @ js ''/v1'' in
      case externalUrl of
        None \<Rightarrow> fallback
      | Some u \<Rightarrow>
          if u = [] then fallback
          else (let normalized = strip_slash (trim u) in
                if normalized = [] then fallback
                else if endsWith normalized (js ''/v1'') then normalized
                else normalized @ js ''/v1''))"

definition maskToken :: "jstr \<Rightarrow> jstr" where
  "maskToken token =
     (if token = [] then []
      else if length token \<le> 12 then token
      else slice 0 12 token @ js ''...'' @ slice_from (- 4) token)"

definition getPoolHealth :: "pool \<Rightarrow> route_health" where
  "getPoolHealth p =
     (if \<not> pool_enabled p then Disabled
      else if account_count p = 0 then Degraded
      else if routable_account_count p = 0 then Error
      else if healthy_account_count p = account_count p then Healthy
      else Degraded)"

section \<open>Routability\<close>

abbreviation (input) is_cpa :: "account \<Rightarrow> bool" where
  "is_cpa a \<equiv> source_kind a = js ''cpa''"

abbreviation (input) model_429 :: jstr where
  "model_429 \<equiv> js ''HTTP 429 from model request''"

definition is_codex :: "account \<Rightarrow> bool" where
  "is_codex a \<longleftrightarrow> toLowerCase (cpa_provider a) = js ''codex''"

definition isCpaOtherwiseRoutable :: "account \<Rightarrow> bool" where
  "isCpaOtherwiseRoutable a =
     (if \<not> is_cpa a then False
      else if or_str (cpa_credential_status a) [] \<in>
          {js ''needs_login'', js ''refresh_failed'', js ''runtime_pending'', js ''runtime_error'',
           js ''unknown'', []} then False
      else if cpa_quota_status a = Some (js ''blocked'') then False
      else if is_codex a \<and> cpa_quota_status a = Some (js ''error'') \<and>
          (case cpa_quota_last_error a of None \<Rightarrow> False | Some e \<Rightarrow> startsWith e model_429)
        then False
      else if is_codex a then
        (if cpa_access_status a = Some (js ''eligible'') then True
         else if cpa_access_status a = Some (js ''ineligible'') \<or>
             cpa_access_status a = Some (js ''pending'') then False
         else cpa_subscription_status a = Some (js ''active''))
      else True)"

definition isCpaOrDirectOtherwiseRoutable :: "host \<Rightarrow> account \<Rightarrow> bool" where
  "isCpaOrDirectOtherwiseRoutable h a =
     (if \<not> acc_enabled a then False
      else if acc_status a \<noteq> js ''healthy'' \<and> acc_status a \<noteq> js ''degraded'' then False
      else if serving_status a = Some (js ''cooldown'') \<and>
          (case (if truthy_str (cooldown_until a) then date_parse h (or_str (cooldown_until a) [])
                 else None) of
             None \<Rightarrow> True
           | Some until \<Rightarrow> until > now_ms h)
        then False
      else if serving_status a = Some (js ''error'') then False
      else if is_cpa a then isCpaOtherwiseRoutable a
      else True)"

definition pinning_supported :: "account \<Rightarrow> bool" where
  "pinning_supported a \<longleftrightarrow>
     (case runtime a of None \<Rightarrow> False | Some r \<Rightarrow> provider_pinning_supported r = Some True)"

definition hasRuntimeBindingIssue :: "host \<Rightarrow> account option \<Rightarrow> bool" where
  "hasRuntimeBindingIssue h acc =
     (case acc of
        None \<Rightarrow> False
      | Some a \<Rightarrow>
          is_cpa a \<and> isCpaOrDirectOtherwiseRoutable h a \<and> \<not> pinning_supported a)"

definition isAccountRoutable :: "host \<Rightarrow> account \<Rightarrow> bool" where
  "isAccountRoutable h a =
     (if \<not> isCpaOrDirectOtherwiseRoutable h a then False
      else if is_cpa a \<and> hasRuntimeBindingIssue h (Some a) then False
      else True)"

definition accountHasRoutePenalty :: "account option \<Rightarrow> bool" where
  "accountHasRoutePenalty acc =
     (case acc of
        None \<Rightarrow> False
      | Some a \<Rightarrow>
          if \<not> is_cpa a then False
          else cpa_credential_status a = Some (js ''auth_suspect'') \<or>
               cpa_quota_status a = Some (js ''error'') \<or>
               cpa_quota_status a = Some (js ''unknown''))"

section \<open>Pool snapshots\<close>

definition count_member :: "status_counts \<Rightarrow> pool_member \<Rightarrow> status_counts" where
  "count_member c0 m =
     (let c = c0\<lparr>n_total := n_total c0 + 1\<rparr> in
      case member_account m of
        None \<Rightarrow> c\<lparr>n_disabled := n_disabled c + 1\<rparr>
      | Some a \<Rightarrow>
          if \<not> member_enabled m \<or> \<not> acc_enabled a \<or> acc_status a = js ''disabled''
          then c\<lparr>n_disabled := n_disabled c + 1\<rparr>
          else if acc_status a = js ''healthy'' then c\<lparr>n_healthy := n_healthy c + 1\<rparr>
          else if acc_status a = js ''degraded'' then c\<lparr>n_degraded := n_degraded c + 1\<rparr>
          else if acc_status a = js ''error'' then c\<lparr>n_error := n_error c + 1\<rparr>
          else c\<lparr>n_unknown := n_unknown c + 1\<rparr>)"

definition zero_counts :: status_counts where
  "zero_counts =
     \<lparr>n_healthy = 0, n_degraded = 0, n_error = 0, n_disabled = 0, n_unknown = 0, n_total = 0\<rparr>"

definition is_active_member :: "pool_member \<Rightarrow> bool" where
  "is_active_member m \<longleftrightarrow>
     member_enabled m \<and> (case member_account m of None \<Rightarrow> False | Some a \<Rightarrow> acc_enabled a)"

definition is_available_member :: "host \<Rightarrow> pool_member \<Rightarrow> bool" where
  "is_available_member h m \<longleftrightarrow>
     (case member_account m of None \<Rightarrow> False | Some a \<Rightarrow> isAccountRoutable h a)"

definition is_healthy_member :: "pool_member \<Rightarrow> bool" where
  "is_healthy_member m \<longleftrightarrow>
     (case member_account m of None \<Rightarrow> False | Some a \<Rightarrow> acc_status a = js ''healthy'')"

definition member_models :: "pool_member \<Rightarrow> jstr list" where
  "member_models m = (case member_account m of None \<Rightarrow> [] | Some a \<Rightarrow> ensureArray (acc_models a))"

definition derivePoolSnapshot :: "host \<Rightarrow> pool \<Rightarrow> pool_detail_response option \<Rightarrow> pool_snapshot" where
  "derivePoolSnapshot h p detail =
     (case detail of
        None \<Rightarrow>
          \<lparr>snap_id = pool_id p, snap_label = pool_label p, snap_enabled = pool_enabled p,
           activeAccountIds = [], activeAccountCount = None, availableAccountCount = None,
           memberStatusCounts = None, snap_models = [],
           snap_health = (if pool_enabled p then Unknown else Disabled)\<rparr>
      | Some d \<Rightarrow>
          (let members = ensureArray (detail_members d);
               activeMembers = filter is_active_member members;
               availableMembers = filter (is_available_member h) activeMembers;
               healthyMembers = filter is_healthy_member availableMembers;
               counts = foldl count_member zero_counts members;
               modelSet = remdups (concat (map member_models availableMembers));
               health =
                 (if \<not> pool_enabled p then Disabled
                  else if length activeMembers = 0 then Degraded
                  else if length availableMembers = 0 then Error
                  else if length healthyMembers = length activeMembers then Healthy
                  else Degraded)
           in \<lparr>snap_id = pool_id p, snap_label = pool_label p, snap_enabled = pool_enabled p,
               activeAccountIds = map member_account_id activeMembers,
               activeAccountCount = Some (length activeMembers),
               availableAccountCount = Some (length availableMembers),
               memberStatusCounts = Some counts,
               snap_models = (if pool_enabled p then sort modelSet else []),
               snap_health = health\<rparr>))"


section \<open>Quota and credential metadata\<close>

datatype quota_source = ModelRequest | WhamUsage | CpaManagement | Store

datatype quota_reason =
  QuotaBlocked | ModelRequest429 | QuotaFetchAuthFailed | RuntimeApiCallFailed | QuotaFetchFailed
  | QuotaUnknown

datatype tone = ToneDefault | ToneWarning | ToneDanger

record quota_error_meta =
  qm_label :: jstr
  qm_detail :: jstr
  qm_tone :: tone
  qm_source :: quota_source
  qm_reason :: quota_reason

record credential_meta =
  cm_label :: jstr
  cm_detail :: jstr
  cm_tone :: tone

definition getCpaQuotaErrorMeta :: "account \<Rightarrow> quota_error_meta option" where
  "getCpaQuotaErrorMeta a =
     (if \<not> is_cpa a then None
      else if toLowerCase (cpa_provider a) \<noteq> js ''codex'' then None
      else
        (let status = or_str (cpa_quota_status a) [] in
         if status = js ''blocked'' then
           Some \<lparr>qm_label = c_quota_exhausted,
                 qm_detail = or_str (cpa_quota_last_error a) c_quota_blocked_detail,
                 qm_tone = ToneDanger, qm_source = Store, qm_reason = QuotaBlocked\<rparr>
         else if status = js ''error'' then
           (let lastError = or_str (cpa_quota_last_error a) [] in
            if startsWith lastError model_429 then
              Some \<lparr>qm_label = c_model_rate_limited,
                    qm_detail = or_str (Some lastError) c_model_rate_limited_detail,
                    qm_tone = ToneWarning, qm_source = ModelRequest, qm_reason = ModelRequest429\<rparr>
            else
              (let lower = toLowerCase lastError in
               if str_includes lower (js ''management'') \<or> str_includes lower (js ''api-call'') then
                 Some \<lparr>qm_label = c_quota_query_failed,
                       qm_detail = or_str (Some lastError) c_management_detail,
                       qm_tone = ToneWarning, qm_source = CpaManagement,
                       qm_reason = RuntimeApiCallFailed\<rparr>
               else if str_includes lastError (js ''HTTP 401'') \<or>
                   str_includes lastError (js ''HTTP 403'') then
                 Some \<lparr>qm_label = c_quota_query_failed,
                       qm_detail = or_str (Some lastError) c_quota_auth_detail,
                       qm_tone = ToneWarning, qm_source = WhamUsage,
                       qm_reason = QuotaFetchAuthFailed\<rparr>
               else
                 Some \<lparr>qm_label = c_quota_query_failed,
                       qm_detail = or_str (Some lastError) c_quota_aux_detail,
                       qm_tone = ToneWarning, qm_source = WhamUsage,
                       qm_reason = QuotaFetchFailed\<rparr>))
         else if status = js ''unknown'' then
           Some \<lparr>qm_label = c_quota_unknown,
                 qm_detail = or_str (cpa_quota_last_error a) c_no_quota_snapshot,
                 qm_tone = ToneWarning, qm_source = Store, qm_reason = QuotaUnknown\<rparr>
         else None))"

definition cpaCredentialReasonLabel :: "jstr \<Rightarrow> jstr" where
  "cpaCredentialReasonLabel reason =
     (if reason = js ''disabled'' then c_reason_disabled
      else if reason = js ''file_missing'' then c_reason_file_missing
      else if reason = js ''file_corrupt'' then c_reason_file_corrupt
      else if reason = js ''auth_index_pending'' then c_reason_index_pending
      else if reason = js ''runtime_unreachable'' then c_reason_unreachable
      else if reason = js ''service_missing'' then c_reason_service_missing
      else if reason = js ''management_key_missing'' then c_reason_key_missing
      else if reason = js ''auth_dir_missing'' then c_reason_dir_missing
      else if reason = js ''refresh_failed'' then c_reason_refresh_failed
      else if reason = js ''auth_suspect'' then c_reason_auth_suspect
      else if reason = js ''auth_failed'' then c_reason_auth_failed
      else c_reason_default)"

definition getCpaCredentialMeta :: "account \<Rightarrow> credential_meta option" where
  "getCpaCredentialMeta a =
     (if \<not> is_cpa a then None
      else
        (let status = or_str (cpa_credential_status a) (js ''unknown'') in
         if status \<notin> {js ''needs_login'', js ''refresh_failed'', js ''auth_suspect'',
             js ''runtime_pending'', js ''runtime_error'', js ''unknown''} then None
         else
           (let reasonLabel = cpaCredentialReasonLabel (or_str (cpa_credential_reason a) []);
                pending = (status = js ''runtime_pending'')
            in Some
              \<lparr>cm_label =
                 (if pending then c_credential_syncing
                  else if status = js ''runtime_error'' then c_runtime_error
                  else if status = js ''auth_suspect'' then c_auth_suspect
                  else if status = js ''unknown'' then c_credential_unknown
                  else if status = js ''refresh_failed'' then c_refresh_failed
                  else c_relogin_required),
               cm_detail =
                 (if pending then reasonLabel
                  else or_str (cpa_credential_last_error a) reasonLabel),
               cm_tone = (if pending then ToneDefault else ToneDanger)\<rparr>)))"

definition getCpaSubscriptionErrorMeta :: "account \<Rightarrow> credential_meta option" where
  "getCpaSubscriptionErrorMeta a =
     (if \<not> is_cpa a then None
      else if toLowerCase (cpa_provider a) \<noteq> js ''codex'' then None
      else if truthy_str (cpa_subscription_expires_at a) then None
      else
        (let detail = or_str (cpa_subscription_last_error a) [] in
         if detail = [] then None
         else Some \<lparr>cm_label = c_subscription_failed, cm_detail = detail, cm_tone = ToneWarning\<rparr>))"

definition getAccountHealth :: "account \<Rightarrow> route_health" where
  "getAccountHealth a =
     (if \<not> acc_enabled a then Disabled
      else if \<not> is_cpa a \<and> last_probe_status a = Some (js ''healthy'') then Healthy
      else if \<not> is_cpa a \<and> last_probe_status a = Some (js ''degraded'') then Degraded
      else if \<not> is_cpa a \<and> last_probe_status a = Some (js ''error'') then Error
      else if acc_status a = js ''healthy'' then Healthy
      else if acc_status a = js ''error'' then Error
      else if acc_status a = js ''unknown'' then Unknown
      else if acc_status a = js ''degraded'' then Degraded
      else Unknown)"

definition getProviderLabel :: "account \<Rightarrow> jstr" where
  "getProviderLabel a =
     (if is_cpa a then or_str (Some (cpa_provider a)) (js ''CPA'')
      else or_str (Some (provider a)) (js ''Direct''))"

definition getAccessLabel :: "account \<Rightarrow> jstr" where
  "getAccessLabel a =
     (if is_cpa a then c_cpa_access @ getProviderLabel a
      else c_direct_access @ getProviderLabel a)"

record expiry_meta =
  em_label :: jstr
  em_tone :: tone
  em_daysLeft :: int

definition getExpiryMeta :: "host \<Rightarrow> jstr option \<Rightarrow> expiry_meta option" where
  "getExpiryMeta h iso_at =
     (if \<not> truthy_str iso_at then None
      else case date_parse h (or_str iso_at []) of
        None \<Rightarrow> None
      | Some expiry \<Rightarrow>
          (let diff = expiry - now_ms h;
               daysLeft = \<lceil>(of_int diff :: rat) / 86400000\<rceil>
           in if diff \<le> 0 then
                Some \<lparr>em_label = c_expired, em_tone = ToneDanger, em_daysLeft = 0\<rparr>
              else if daysLeft \<le> 7 then
                Some \<lparr>em_label = show_int daysLeft @ c_days_within, em_tone = ToneWarning,
                      em_daysLeft = daysLeft\<rparr>
              else
                Some \<lparr>em_label = show_int daysLeft @ c_days_after, em_tone = ToneDefault,
                      em_daysLeft = daysLeft\<rparr>))"

section \<open>Route summaries\<close>

definition routeSummary :: "route_health \<Rightarrow> jstr \<Rightarrow> jstr \<Rightarrow> jstr list \<Rightarrow> route_summary" where
  "routeSummary status reason impact actions =
     \<lparr>rs_status = status, rs_label = ROUTE_LABELS status, rs_reason = reason, rs_impact = impact,
      rs_actions = actions\<rparr>"

lemma rs_status_routeSummary [simp]: "rs_status (routeSummary s r i as) = s"
  by (simp add: routeSummary_def)

text \<open>The \<open>switch\<close> on the credential status; \<open>None\<close> is its \<open>default\<close> branch.\<close>

definition credential_summary :: "account \<Rightarrow> route_summary option" where
  "credential_summary a =
     (let credentialStatus = or_str (cpa_credential_status a) (js ''unknown'') in
      if credentialStatus = js ''needs_login'' then
        Some (routeSummary Error c_needs_login c_needs_login_impact
                [c_do_relogin, c_do_refresh_account])
      else if credentialStatus = js ''refresh_failed'' then
        Some (routeSummary Error c_refresh_failed c_refresh_failed_impact
                [c_do_relogin, c_do_check_cpa_runtime])
      else if credentialStatus = js ''runtime_error'' then
        Some (routeSummary Error c_runtime_error c_runtime_error_impact
                [c_do_check_cpa_runtime, c_do_view_service_log])
      else if credentialStatus = js ''runtime_pending'' then
        Some (routeSummary Error c_credential_syncing c_credential_syncing_impact
                [c_do_refresh_later])
      else if credentialStatus = js ''unknown'' \<or> credentialStatus = [] then
        Some (routeSummary Error c_credential_unknown c_credential_unknown_impact
                [c_do_refresh_account, c_do_check_cpa_runtime])
      else None)"

text \<open>The Codex access check, the blocked quota and the rate-limited model request.\<close>

definition cpa_summary :: "account \<Rightarrow> route_summary option" where
  "cpa_summary a =
     (case credential_summary a of
        Some r \<Rightarrow> Some r
      | None \<Rightarrow>
          (let accessStatus = or_str (cpa_access_status a) (js ''unknown'') in
           if is_codex a \<and> accessStatus \<noteq> js ''eligible'' then
             Some (routeSummary Error
                (if accessStatus = js ''ineligible'' then c_access_ineligible
                 else if accessStatus = js ''pending'' then c_access_pending
                 else if accessStatus = js ''error'' then c_access_error
                 else c_access_unconfirmed)
                c_access_impact [c_do_refresh_account, c_do_check_access])
           else if cpa_quota_status a = Some (js ''blocked'') then
             Some (routeSummary Error c_quota_exhausted c_quota_exhausted_impact
                [c_do_refresh_quota, c_do_switch_account])
           else
             (case getCpaQuotaErrorMeta a of
                None \<Rightarrow> None
              | Some q \<Rightarrow>
                  if qm_reason q = ModelRequest429 then
                    Some (routeSummary
                       (if serving_status a = Some (js ''cooldown'') then Error else Degraded)
                       (qm_label q) (qm_detail q)
                       [c_do_refresh_quota, c_do_view_activity, c_do_wait_cooldown])
                  else None)))"

text \<open>The tail of the function: the account is routable, possibly with a penalty.\<close>

definition penalty_summary :: "account \<Rightarrow> route_summary" where
  "penalty_summary a =
     (if is_cpa a \<and> cpa_quota_status a = Some (js ''error'') then
        (let q = getCpaQuotaErrorMeta a in
         routeSummary Degraded
           (or_str (map_option qm_label q) c_quota_query_failed)
           (or_str (map_option qm_detail q) c_quota_query_failed_impact)
           [c_do_refresh_quota, c_do_view_activity])
      else if is_cpa a \<and> cpa_quota_status a = Some (js ''unknown'') then
        routeSummary Degraded c_quota_unknown c_quota_unknown_impact [c_do_refresh_quota]
      else if is_cpa a \<and> cpa_credential_status a = Some (js ''auth_suspect'') then
        routeSummary Degraded c_auth_suspect c_auth_suspect_impact
          [c_do_direct_test, c_do_view_activity]
      else routeSummary Healthy c_routable c_routable_impact [c_do_keep_watching])"

definition getRouteSummary ::
    "host \<Rightarrow> account option \<Rightarrow> bool \<Rightarrow> jstr option \<Rightarrow> route_summary" where
  "getRouteSummary h acc memberEnabled discoveryHealth =
     (case acc of
        None \<Rightarrow>
          routeSummary Unknown c_account_missing c_account_missing_impact [c_do_refresh_page]
      | Some a \<Rightarrow>
          if \<not> memberEnabled \<or> \<not> acc_enabled a then
            routeSummary Disabled c_account_disabled c_account_disabled_impact [c_do_enable]
          else if hasRuntimeBindingIssue h (Some a) then
            routeSummary Error c_binding_unconfirmed c_binding_unconfirmed_impact
              [c_do_check_cpa_runtime, c_do_view_runtime_binding, c_do_wait_pinning]
          else
            (let healthUnknown =
                   (case discoveryHealth of
                      None \<Rightarrow> getAccountHealth a = Unknown
                    | Some s \<Rightarrow> s = js ''unknown'') in
             if acc_status a = js ''unknown'' \<or> healthUnknown then
               routeSummary Unknown c_status_unchecked c_status_unchecked_impact
                 [c_do_refresh_account, c_do_self_check]
             else
               (case (if is_cpa a then cpa_summary a else None) of
                  Some r \<Rightarrow> r
                | None \<Rightarrow>
                    if serving_status a = Some (js ''cooldown'') then
                      routeSummary Error c_serving_cooldown c_serving_cooldown_impact
                        [c_do_wait_cooldown, c_do_self_check]
                    else if serving_status a = Some (js ''error'') then
                      routeSummary Error c_serving_error c_serving_error_impact
                        [c_do_self_check, c_do_view_last_error]
                    else if \<not> isAccountRoutable h a then
                      routeSummary Error c_unroutable c_unroutable_impact
                        [c_do_refresh_account, c_do_view_diagnosis]
                    else penalty_summary a)))"

definition getRouteHealth ::
    "host \<Rightarrow> account option \<Rightarrow> bool \<Rightarrow> jstr option \<Rightarrow> route_health" where
  "getRouteHealth h acc memberEnabled discoveryHealth =
     rs_status (getRouteSummary h acc memberEnabled discoveryHealth)"

section \<open>Routability and its explanation\<close>

text \<open>The health the summary looks at is unknown.\<close>

definition health_unknown :: "account \<Rightarrow> jstr option \<Rightarrow> bool" where
  "health_unknown a d \<longleftrightarrow>
     acc_status a = js ''unknown'' \<or>
     (case d of None \<Rightarrow> getAccountHealth a = Unknown | Some s \<Rightarrow> s = js ''unknown'')"

lemma isAccountRoutable_iff:
  "isAccountRoutable h a \<longleftrightarrow>
     isCpaOrDirectOtherwiseRoutable h a \<and> (is_cpa a \<longrightarrow> pinning_supported a)"
  by (auto simp: isAccountRoutable_def hasRuntimeBindingIssue_def)

lemma routable_enabled: "isAccountRoutable h a \<Longrightarrow> acc_enabled a"
  by (auto simp: isAccountRoutable_def isCpaOrDirectOtherwiseRoutable_def split: if_splits)

lemma routable_serving_error: "isAccountRoutable h a \<Longrightarrow> serving_status a \<noteq> Some (js ''error'')"
  by (auto simp: isAccountRoutable_def isCpaOrDirectOtherwiseRoutable_def split: if_splits)

lemma routable_no_binding_issue: "isAccountRoutable h a \<Longrightarrow> \<not> hasRuntimeBindingIssue h (Some a)"
  by (auto simp: isAccountRoutable_def hasRuntimeBindingIssue_def split: if_splits)

lemma routable_cpa:
  "isAccountRoutable h a \<Longrightarrow> is_cpa a \<Longrightarrow> isCpaOtherwiseRoutable a"
  by (auto simp: isAccountRoutable_def isCpaOrDirectOtherwiseRoutable_def split: if_splits)

lemma rs_status_penalty_summary:
  "rs_status (penalty_summary a) =
     (if accountHasRoutePenalty (Some a) then Degraded else Healthy)"
  by (auto simp: penalty_summary_def accountHasRoutePenalty_def Let_def)

lemma credential_summary_status: "credential_summary a = Some r \<Longrightarrow> rs_status r = Error"
  by (auto simp: credential_summary_def Let_def split: if_splits)

lemma quota_meta_429:
  assumes "getCpaQuotaErrorMeta a = Some q" and "qm_reason q = ModelRequest429"
  shows "is_cpa a \<and> is_codex a \<and> cpa_quota_status a = Some (js ''error'') \<and>
    (\<exists>e. cpa_quota_last_error a = Some e \<and> startsWith e model_429)"
  using assms
  by (auto simp: getCpaQuotaErrorMeta_def Let_def is_codex_def or_str_def startsWith_def
      split: if_splits option.splits)

lemma cpa_summary_status:
  assumes "cpa_summary a = Some r"
  shows "rs_status r = Error \<or>
    rs_status r = Degraded \<and> cpa_quota_status a = Some (js ''error'') \<and>
    serving_status a \<noteq> Some (js ''cooldown'') \<and>
    (\<exists>q. getCpaQuotaErrorMeta a = Some q \<and> qm_reason q = ModelRequest429)"
  using assms credential_summary_status [of a]
  by (auto simp: cpa_summary_def Let_def split: if_splits option.splits dest: quota_meta_429)

lemma routable_cpa_facts:
  assumes "isAccountRoutable h a" and "is_cpa a"
  shows "credential_summary a = None" and "cpa_quota_status a \<noteq> Some (js ''blocked'')"
    and "getCpaQuotaErrorMeta a = Some q \<Longrightarrow> qm_reason q \<noteq> ModelRequest429"
proof -
  note r = routable_cpa [OF assms]
  from r show "cpa_quota_status a \<noteq> Some (js ''blocked'')"
    using assms(2) by (simp add: isCpaOtherwiseRoutable_def split: if_splits)
  from r show "credential_summary a = None"
    using assms(2)
    by (auto simp: isCpaOtherwiseRoutable_def credential_summary_def Let_def or_str_def
        split: if_splits option.splits)
  from r show "qm_reason q \<noteq> ModelRequest429" if "getCpaQuotaErrorMeta a = Some q"
    using assms(2) quota_meta_429 [OF that]
    by (auto simp: isCpaOtherwiseRoutable_def split: if_splits)
qed

lemma cpa_summary_routable:
  assumes "isAccountRoutable h a" and "is_cpa a"
  shows "cpa_summary a = None \<longleftrightarrow> (is_codex a \<longrightarrow> cpa_access_status a = Some (js ''eligible''))"
  using routable_cpa_facts [OF assms]
  by (auto simp: cpa_summary_def Let_def or_str_def split: option.splits if_splits)

lemma getRouteHealth_Some:
  "getRouteHealth h (Some a) me d =
     (if \<not> me \<or> \<not> acc_enabled a then Disabled
      else if hasRuntimeBindingIssue h (Some a) then Error
      else if health_unknown a d then Unknown
      else case (if is_cpa a then cpa_summary a else None) of
        Some r \<Rightarrow> rs_status r
      | None \<Rightarrow>
          if serving_status a = Some (js ''cooldown'') \<or> serving_status a = Some (js ''error'') \<or>
             \<not> isAccountRoutable h a then Error
          else if accountHasRoutePenalty (Some a) then Degraded else Healthy)"
  by (simp add: getRouteHealth_def getRouteSummary_def health_unknown_def Let_def
      rs_status_penalty_summary split: option.splits)

lemma Healthy_imp_routable: "getRouteHealth h (Some a) me d = Healthy \<Longrightarrow> isAccountRoutable h a"
  using cpa_summary_status [of a] by (auto simp: getRouteHealth_Some split: if_splits option.splits)

lemma Healthy_iff:
  "getRouteHealth h (Some a) me d = Healthy \<longleftrightarrow>
     me \<and> isAccountRoutable h a \<and> \<not> accountHasRoutePenalty (Some a) \<and> \<not> health_unknown a d \<and>
     serving_status a \<noteq> Some (js ''cooldown'') \<and>
     \<not> (source_kind a = js ''cpa'' \<and> is_codex a \<and> cpa_access_status a \<noteq> Some (js ''eligible''))"
  (is "?L \<longleftrightarrow> ?R")
proof
  assume ?L
  then show ?R
    using cpa_summary_status [of a] cpa_summary_routable [of h a]
    by (auto simp: getRouteHealth_Some split: if_splits option.splits)
next
  assume ?R
  then show ?L
    using cpa_summary_routable [of h a] routable_enabled [of h a] routable_serving_error [of h a]
      routable_no_binding_issue [of h a]
    by (auto simp: getRouteHealth_Some)
qed

text \<open>
  C1: The route badge is green exactly for the accounts ordinary routing can use without a penalty:
  \<open>getRouteHealth\<close> returns \<open>Healthy\<close> for an account if and only if the pool member is enabled, the
  account is routable and carries no routing penalty, its health is known, it is not marked as cooling
  down and, for a Codex account, its access is confirmed as eligible.
\<close>

theorem getRouteHealth_Healthy_iff:
  "getRouteHealth h (Some a) me d = Healthy \<longleftrightarrow>
     me \<and> isAccountRoutable h a \<and> \<not> accountHasRoutePenalty (Some a) \<and> \<not> health_unknown a d \<and>
     serving_status a \<noteq> Some (js ''cooldown'') \<and>
     \<not> (source_kind a = js ''cpa'' \<and> is_codex a \<and> cpa_access_status a \<noteq> Some (js ''eligible''))"
  by (rule Healthy_iff)

text \<open>
  A yellow route badge is a penalty, never a guess: whenever \<open>getRouteHealth\<close> returns
  \<open>Degraded\<close>, the member and the account are enabled, the account is not cooling down, it carries a
  routing penalty, and either it is routable or its last model request was answered with HTTP 429.
\<close>

theorem getRouteHealth_Degraded:
  assumes "getRouteHealth h (Some a) me d = Degraded"
  shows "me \<and> acc_enabled a \<and> accountHasRoutePenalty (Some a) \<and>
    serving_status a \<noteq> Some (js ''cooldown'') \<and>
    (isAccountRoutable h a \<or>
     (\<exists>e. cpa_quota_last_error a = Some e \<and> startsWith e (js ''HTTP 429 from model request'')))"
  using assms cpa_summary_status [of a] quota_meta_429 [of a]
  by (auto simp: getRouteHealth_Some accountHasRoutePenalty_def split: if_splits option.splits)

definition sample_host :: host where
  "sample_host = \<lparr>now_ms = 1776139200001, tz_ms = 28800000, date_fallback = (\<lambda>_. None)\<rparr>"

definition sample_cpa :: account where
  "sample_cpa = blank_account\<lparr>source_kind := js ''cpa'', cpa_provider := js ''Codex'',
     cpa_credential_status := Some (js ''ok''), cpa_access_status := Some (js ''eligible''),
     cpa_quota_status := Some (js ''unknown''),
     runtime := Some \<lparr>rt_base_url = [], rt_auth_mode = [], provider_pinning_supported = Some True\<rparr>\<rparr>"

lemma sample_cpa_codex: "toLowerCase (js ''Codex'') = js ''codex''"
  by code_simp

lemmas route_eval =
  isAccountRoutable_iff isCpaOrDirectOtherwiseRoutable_def isCpaOtherwiseRoutable_def is_codex_def
  getRouteHealth_Some hasRuntimeBindingIssue_def health_unknown_def getAccountHealth_def
  pinning_supported_def cpa_summary_def credential_summary_def getCpaQuotaErrorMeta_def
  accountHasRoutePenalty_def or_str_def truthy_str_def sample_cpa_codex

theorem getRouteHealth_Degraded_witness:
  "getRouteHealth sample_host (Some sample_cpa) True None = Degraded \<and>
   accountHasRoutePenalty (Some sample_cpa)"
proof -
  have "getRouteHealth sample_host (Some sample_cpa) True None = Degraded"
    by (simp add: route_eval sample_cpa_def blank_account_def)
  from this getRouteHealth_Degraded [OF this] show ?thesis by blast
qed

text \<open>
  C23: The binding guard fails closed: a CPA account whose runtime does not support provider pinning
  is never routable, and its badge is never green, whatever its other fields are.
\<close>

theorem unpinned_cpa_fails_closed:
  assumes "source_kind a = js ''cpa''" and "\<not> pinning_supported a"
  shows "\<not> isAccountRoutable h a \<and> getRouteHealth h (Some a) me d \<noteq> Healthy"
  using assms Healthy_imp_routable [of h a me d] by (auto simp: isAccountRoutable_iff)

theorem unpinned_cpa_fails_closed_witness:
  "\<not> isAccountRoutable sample_host (sample_cpa\<lparr>runtime := None\<rparr>)"
proof -
  have "source_kind (sample_cpa\<lparr>runtime := None\<rparr>) = js ''cpa''"
    "\<not> pinning_supported (sample_cpa\<lparr>runtime := None\<rparr>)"
    by (simp_all add: sample_cpa_def blank_account_def pinning_supported_def)
  from unpinned_cpa_fails_closed [OF this] show ?thesis by blast
qed

text \<open>
  The badge and the routing rule disagree after a cooldown ends: there is an account that
  \<open>isAccountRoutable\<close> accepts, because its cooldown is over, and whose route badge is still \<open>Error\<close>,
  because \<open>getRouteSummary\<close> looks at the serving status without the cooldown's end time.
\<close>

theorem expired_cooldown_reported_as_error:
  "\<exists>h a. isAccountRoutable h a \<and> getRouteHealth h (Some a) True None = Error"
proof -
  let ?a = "blank_account\<lparr>serving_status := Some (js ''cooldown''),
              cooldown_until := Some (js ''2026-04-14T04:00:00Z'')\<rparr>"
  have "date_parse sample_host (js ''2026-04-14T04:00:00Z'') = Some 1776139200000"
    by code_simp
  then have "isAccountRoutable sample_host ?a \<and> getRouteHealth sample_host (Some ?a) True None = Error"
    by (simp add: route_eval blank_account_def) (simp add: sample_host_def)
  then show ?thesis by blast
qed

text \<open>
  The Codex access rule is stated twice and differently: there is a Codex account whose access is
  unconfirmed and whose subscription is active that \<open>isAccountRoutable\<close> accepts, while its route badge
  says ordinary routing skips it.
\<close>

theorem codex_subscription_fallback_diverges:
  "\<exists>h a. isAccountRoutable h a \<and> getRouteHealth h (Some a) True None = Error \<and>
     serving_status a = None \<and> cpa_access_status a = None \<and>
     cpa_subscription_status a = Some (js ''active'')"
proof -
  let ?a = "sample_cpa\<lparr>cpa_access_status := None, cpa_quota_status := Some (js ''ok''),
              cpa_subscription_status := Some (js ''active'')\<rparr>"
  have "isAccountRoutable sample_host ?a \<and> getRouteHealth sample_host (Some ?a) True None = Error \<and>
      serving_status ?a = None \<and> cpa_access_status ?a = None \<and>
      cpa_subscription_status ?a = Some (js ''active'')"
    by (simp add: route_eval sample_cpa_def blank_account_def)
  then show ?thesis by blast
qed

section \<open>Pool snapshots\<close>

definition counts_balanced :: "status_counts \<Rightarrow> bool" where
  "counts_balanced c \<longleftrightarrow>
     n_healthy c + n_degraded c + n_error c + n_disabled c + n_unknown c = n_total c"

lemma count_member_balanced:
  "counts_balanced c \<Longrightarrow> counts_balanced (count_member c m)"
  "n_total (count_member c m) = n_total c + 1"
  by (auto simp: counts_balanced_def count_member_def Let_def split: option.splits)

lemma foldl_count_member:
  "counts_balanced c \<Longrightarrow>
   counts_balanced (foldl count_member c ms) \<and>
   n_total (foldl count_member c ms) = n_total c + length ms"
  by (induction ms arbitrary: c) (simp_all add: count_member_balanced)

lemma length_filter_eq_iff: "length (filter P xs) = length xs \<longleftrightarrow> (\<forall>x \<in> set xs. P x)"
  using sum_length_filter_compl [of P xs] by (auto simp: filter_empty_conv)

lemma healthy_available_iff:
  "is_healthy_member m \<and> is_available_member h m \<longleftrightarrow>
   (\<exists>a. member_account m = Some a \<and> isAccountRoutable h a \<and> acc_status a = js ''healthy'')"
  by (auto simp: is_healthy_member_def is_available_member_def split: option.splits)

lemma set_available_models:
  "set (concat (map member_models (filter (is_available_member h) ms))) =
   {x. \<exists>m \<in> set ms. \<exists>a. member_account m = Some a \<and> isAccountRoutable h a \<and>
         x \<in> set (ensureArray (acc_models a))}"
  by (force simp: is_available_member_def member_models_def split: option.splits)

text \<open>
  The snapshot's member counters partition the pool: for every pool with loaded details, the
  healthy, degraded, error, disabled and unknown counters add up to the total, and the total is the
  number of members.
\<close>

theorem derivePoolSnapshot_counts_partition:
  "\<exists>c. memberStatusCounts (derivePoolSnapshot h p (Some d)) = Some c \<and>
     n_healthy c + n_degraded c + n_error c + n_disabled c + n_unknown c = n_total c \<and>
     n_total c = length (ensureArray (detail_members d))"
proof -
  have "counts_balanced zero_counts" "n_total zero_counts = 0"
    by (simp_all add: counts_balanced_def zero_counts_def)
  then show ?thesis
    using foldl_count_member [of zero_counts "ensureArray (detail_members d)"]
    by (simp add: derivePoolSnapshot_def Let_def counts_balanced_def)
qed

text \<open>
  A pool is shown as healthy exactly when it is enabled, has at least one active member, and no
  active member is unroutable or reports a status other than healthy.
\<close>

theorem derivePoolSnapshot_healthy_iff:
  "snap_health (derivePoolSnapshot h p (Some d)) = Healthy \<longleftrightarrow>
     pool_enabled p \<and>
     (\<exists>m. m \<in> set (ensureArray (detail_members d)) \<and> is_active_member m) \<and>
     \<not> (\<exists>m. m \<in> set (ensureArray (detail_members d)) \<and> is_active_member m \<and>
          \<not> (\<exists>a. member_account m = Some a \<and> isAccountRoutable h a \<and> acc_status a = js ''healthy''))"
proof -
  let ?act = "filter is_active_member (ensureArray (detail_members d))"
  have "length (filter is_healthy_member (filter (is_available_member h) ?act)) = length ?act
     \<longleftrightarrow> (\<forall>m \<in> set ?act. is_healthy_member m \<and> is_available_member h m)"
    by (subst filter_filter) (simp only: length_filter_eq_iff, blast)
  then show ?thesis
    by (auto simp: derivePoolSnapshot_def Let_def filter_empty_conv healthy_available_iff
        simp del: filter_filter)
qed

text \<open>
  The models a pool offers are exactly those of its active, routable members, listed once each in
  code-unit order; a disabled pool offers none.
\<close>

theorem derivePoolSnapshot_models:
  "sorted (snap_models (derivePoolSnapshot h p (Some d))) \<and>
   distinct (snap_models (derivePoolSnapshot h p (Some d))) \<and>
   set (snap_models (derivePoolSnapshot h p (Some d))) =
     (if pool_enabled p
      then {x. \<exists>m a. m \<in> set (ensureArray (detail_members d)) \<and> is_active_member m \<and>
              member_account m = Some a \<and> isAccountRoutable h a \<and>
              x \<in> set (ensureArray (acc_models a))}
      else {})"
  using set_available_models [of h "filter is_active_member (ensureArray (detail_members d))"]
  by (auto simp: derivePoolSnapshot_def Let_def)

section \<open>Tokens, addresses and expiry\<close>

text \<open>
  A masked token shows only its first twelve and last four characters: two tokens of more than
  sixteen characters that agree on those have the same mask, of nineteen characters.
\<close>

theorem maskToken_hides_middle:
  assumes "length t > 16" and "length t' > 16" and "take 12 t = take 12 t'"
    and "drop (length t - 4) t = drop (length t' - 4) t'"
  shows "maskToken t = maskToken t' \<and> length (maskToken t) = 19"
  using assms slice_take [of 12 t] slice_take [of 12 t'] slice_from_neg [of 4 t]
    slice_from_neg [of 4 t']
  by (auto simp: maskToken_def)

theorem maskToken_hides_middle_witness:
  "maskToken (js ''sk-lune-0123ABCDxyzw'') = maskToken (js ''sk-lune-0123-secret-xyzw'')"
proof -
  have "length (js ''sk-lune-0123ABCDxyzw'') > 16" "length (js ''sk-lune-0123-secret-xyzw'') > 16"
    "take 12 (js ''sk-lune-0123ABCDxyzw'') = take 12 (js ''sk-lune-0123-secret-xyzw'')"
    "drop (length (js ''sk-lune-0123ABCDxyzw'') - 4) (js ''sk-lune-0123ABCDxyzw'') =
     drop (length (js ''sk-lune-0123-secret-xyzw'') - 4) (js ''sk-lune-0123-secret-xyzw'')"
    by code_simp+
  from maskToken_hides_middle [OF this] show ?thesis by blast
qed

lemma strip_slash_v1: "endsWith s (js ''/v1'') \<Longrightarrow> strip_slash s = s"
  by (auto simp: endsWith_iff strip_slash_def js_def)

lemma trim_v1: "s \<noteq> [] \<Longrightarrow> \<not> is_js_space (hd s) \<Longrightarrow> endsWith s (js ''/v1'') \<Longrightarrow> trim s = s"
proof (rule trim_id)
  assume "endsWith s (js ''/v1'')"
  then have "last s = 49" by (auto simp: endsWith_iff js_def)
  then show "\<not> is_js_space (last s)" by (simp add: is_js_space_def)
qed

lemma getApiBaseUrl_head:
  assumes "origin \<noteq> []" and "\<not> is_js_space (hd origin)"
  shows "getApiBaseUrl origin u \<noteq> [] \<and> \<not> is_js_space (hd (getApiBaseUrl origin u))"
proof (cases "u = None \<or> u = Some [] \<or> strip_slash (trim (the u)) = []")
  case True
  then have "getApiBaseUrl origin u = origin @ js ''/v1''"
    by (auto simp: getApiBaseUrl_def Let_def split: option.splits)
  with assms show ?thesis by simp
next
  case False
  then obtain v where v: "u = Some v" "v \<noteq> []" "strip_slash (trim v) \<noteq> []"
    by (cases u) auto
  then have "trim v \<noteq> []" by (auto simp: strip_slash_def)
  then have "\<not> is_js_space (hd (strip_slash (trim v)))"
    using trim_ends [of v] v(3) by (cases "trim v") (auto simp: strip_slash_def)
  with v show ?thesis by (auto simp: getApiBaseUrl_def Let_def)
qed

text \<open>
  The API base address always ends in \<open>/v1\<close>, and normalising an already normalised address
  changes nothing, for every origin that does not start with white space.
\<close>

theorem getApiBaseUrl_normalises:
  assumes "origin \<noteq> []" and "\<not> is_js_space (hd origin)"
  shows "endsWith (getApiBaseUrl origin u) (js ''/v1'') \<and>
    getApiBaseUrl origin (Some (getApiBaseUrl origin u)) = getApiBaseUrl origin u"
proof -
  let ?r = "getApiBaseUrl origin u"
  have e: "endsWith ?r (js ''/v1'')"
    by (auto simp: getApiBaseUrl_def Let_def split: option.splits)
  have h: "?r \<noteq> []" "\<not> is_js_space (hd ?r)"
    using getApiBaseUrl_head [OF assms] by auto
  have "getApiBaseUrl origin (Some ?r) = ?r"
    using h e strip_slash_v1 [OF e] trim_v1 [OF h e] by (subst getApiBaseUrl_def) (simp add: Let_def)
  with e show ?thesis by blast
qed

theorem getApiBaseUrl_normalises_witness:
  "endsWith (getApiBaseUrl (js ''http://h:7788'') (Some (js '' https://x.y/ ''))) (js ''/v1'')"
proof -
  have "js ''http://h:7788'' \<noteq> []" "\<not> is_js_space (hd (js ''http://h:7788''))"
    by (simp_all add: js_def is_js_space_def)
  from getApiBaseUrl_normalises [OF this] show ?thesis by blast
qed

lemma ceiling_days:
  "\<lceil>(of_int n :: rat) / 86400000\<rceil> \<le> k \<longleftrightarrow> n \<le> k * 86400000"
proof -
  have "(of_int n :: rat) \<le> of_int k * 86400000 \<longleftrightarrow> n \<le> k * 86400000"
    by (metis of_int_le_iff of_int_mult of_int_numeral)
  then show ?thesis by (simp add: ceiling_le_iff divide_le_eq)
qed

text \<open>
  The expiry badge is right about the day: when \<open>getExpiryMeta\<close> answers, the timestamp was
  readable; the tone is danger exactly when the time has passed, warning exactly within the last seven
  days, and otherwise the days left are the remaining time rounded up to whole days.
\<close>

theorem getExpiryMeta_correct:
  assumes "getExpiryMeta h (Some s) = Some m"
  shows "\<exists>t. date_parse h s = Some t \<and> (em_tone m = ToneDanger \<longleftrightarrow> t \<le> now_ms h) \<and>
    (em_tone m = ToneWarning \<longleftrightarrow> 0 < t - now_ms h \<and> t - now_ms h \<le> 7 * 86400000) \<and>
    (now_ms h < t \<longrightarrow>
       (em_daysLeft m - 1) * 86400000 < t - now_ms h \<and> t - now_ms h \<le> em_daysLeft m * 86400000)"
proof -
  obtain t where t: "date_parse h s = Some t" "s \<noteq> []"
    using assms
    by (auto simp: getExpiryMeta_def truthy_str_def or_str_def split: if_splits option.splits)
  let ?d = "\<lceil>(of_int (t - now_ms h) :: rat) / 86400000\<rceil>"
  have b: "(?d - 1) * 86400000 < t - now_ms h" "t - now_ms h \<le> ?d * 86400000"
    using ceiling_days [of "t - now_ms h" "?d"] ceiling_days [of "t - now_ms h" "?d - 1"] by auto
  have m: "m = (if t - now_ms h \<le> 0 then \<lparr>em_label = c_expired, em_tone = ToneDanger, em_daysLeft = 0\<rparr>
     else if ?d \<le> 7 then \<lparr>em_label = show_int ?d @ c_days_within, em_tone = ToneWarning, em_daysLeft = ?d\<rparr>
     else \<lparr>em_label = show_int ?d @ c_days_after, em_tone = ToneDefault, em_daysLeft = ?d\<rparr>)"
    using assms t by (simp add: getExpiryMeta_def truthy_str_def Let_def split: if_splits)
  show ?thesis
    by (rule exI [of _ t]) (use t b ceiling_days [of "t - now_ms h" 7] m in \<open>auto split: if_splits\<close>)
qed

theorem getExpiryMeta_correct_witness:
  "\<exists>m. getExpiryMeta sample_host (Some (js ''2026-04-16T04:00:00Z'')) = Some m \<and>
     em_tone m = ToneWarning"
proof -
  have d: "date_parse sample_host (js ''2026-04-16T04:00:00Z'') = Some 1776312000000"
    by code_simp
  then have "getExpiryMeta sample_host (Some (js ''2026-04-16T04:00:00Z'')) \<noteq> None"
    by (simp add: getExpiryMeta_def truthy_str_def Let_def)
  then obtain m where m: "getExpiryMeta sample_host (Some (js ''2026-04-16T04:00:00Z'')) = Some m"
    by blast
  from getExpiryMeta_correct [OF m] d m show ?thesis by (auto simp: sample_host_def)
qed

end
