(* ===== verification/Json.thy ===== *)
theory Json
  imports JsNumber JsCollections
begin

text \<open>
  \<open>JSON.parse\<close> and the part of \<open>JSON.stringify\<close> the console uses: the quota payload of an account,
  the dismissed alerts and the stored login session are JSON texts. The parser is recursive descent
  over the code units with fuel; \<open>2 * length s + 2\<close> units are enough for every text \<open>s\<close>
  (\<open>parse_value_fuel\<close>), because every two calls consume at least one unit.
\<close>

datatype json =
    JNull
  | JBool bool
  | JNum jsnum
  | JStr jstr
  | JArr "json list"
  | JObj "(jstr \<times> json) list"

section \<open>Reading\<close>

definition is_json_ws :: "nat \<Rightarrow> bool" where
  "is_json_ws c \<longleftrightarrow> c = 32 \<or> c = 9 \<or> c = 10 \<or> c = 13"

definition skip_ws :: "jstr \<Rightarrow> jstr" where
  "skip_ws s = dropWhile is_json_ws s"

lemma length_skip_ws: "length (skip_ws s) \<le> length s"
  by (simp add: skip_ws_def length_dropWhile_le)

lemma skip_ws_Cons: "skip_ws s = c # r \<Longrightarrow> length r < length s"
  using length_skip_ws [of s] by simp

definition hex4 :: "jstr \<Rightarrow> nat option" where
  "hex4 s =
     (if length s = 4 \<and> list_all (\<lambda>c. radix_digit c < 16) s
      then Some (foldl (\<lambda>n c. 16 * n + radix_digit c) 0 s) else None)"

definition simple_escape :: "nat \<Rightarrow> nat option" where
  "simple_escape e =
     (if e = 34 \<or> e = 92 \<or> e = 47 then Some e
      else if e = 98 then Some 8
      else if e = 102 then Some 12
      else if e = 110 then Some 10
      else if e = 114 then Some 13
      else if e = 116 then Some 9
      else None)"

text \<open>The units of a string literal up to its closing quote.\<close>

function parse_chars :: "jstr \<Rightarrow> (jstr \<times> jstr) option" where
  "parse_chars s =
     (case s of
        [] \<Rightarrow> None
      | c # r \<Rightarrow>
          if c = 34 then Some ([], r)
          else if c = 92 then
            (case r of
               [] \<Rightarrow> None
             | e # r' \<Rightarrow>
                 if e = 117 then
                   (case hex4 (take 4 r') of
                      None \<Rightarrow> None
                    | Some u \<Rightarrow> map_option (apfst (Cons u)) (parse_chars (drop 4 r')))
                 else (case simple_escape e of
                         None \<Rightarrow> None
                       | Some u \<Rightarrow> map_option (apfst (Cons u)) (parse_chars r')))
          else if c < 32 then None
          else map_option (apfst (Cons c)) (parse_chars r))"
  by pat_completeness auto
termination
  by (relation "measure length") auto

declare parse_chars.simps [simp del]

lemma parse_chars_Nil [simp]: "parse_chars [] = None"
  by (simp add: parse_chars.simps)

lemma parse_chars_shorter: "parse_chars s = Some (u, r) \<Longrightarrow> length r < length s"
proof (induction s arbitrary: u r rule: measure_induct_rule [of length])
  case (less s)
  have IH: "length r' < n" if "parse_chars t = Some (u', r')" "length t < length s" "length t \<le> n"
    for t u' r' n
    using less.IH [OF that(2,1)] that(3) by simp
  from less.prems show ?case
    by (subst (asm) parse_chars.simps)
       (auto split: list.splits if_splits option.splits elim!: IH)
qed

text \<open>The parts of a number literal after its integer digits.\<close>

definition json_frac :: "jstr \<Rightarrow> jstr \<times> jstr" where
  "json_frac s =
     (if s \<noteq> [] \<and> hd s = 46 \<and> tl s \<noteq> [] \<and> is_digit (hd (tl s))
      then (takeWhile is_digit (tl s), dropWhile is_digit (tl s)) else ([], s))"

definition json_exp :: "jstr \<Rightarrow> int \<times> jstr" where
  "json_exp s =
     (let es = (if s \<noteq> [] \<and> (hd s = 101 \<or> hd s = 69) then tl s else []);
          eneg = (es \<noteq> [] \<and> hd es = 45);
          eds = (if es \<noteq> [] \<and> (hd es = 45 \<or> hd es = 43) then tl es else es);
          ed = takeWhile is_digit eds
      in if ed = [] then (0, s)
         else (if eneg then - int (digits_val ed) else int (digits_val ed), dropWhile is_digit eds))"

definition json_number :: "jstr \<Rightarrow> (json \<times> jstr) option" where
  "json_number s =
     (let neg = (s \<noteq> [] \<and> hd s = 45); s1 = (if neg then tl s else s);
          ip = takeWhile is_digit s1;
          (fp, r2) = json_frac (dropWhile is_digit s1);
          (e, r3) = json_exp r2;
          x = of_nat (digits_val (ip @ fp)) * pow10 (e - int (length fp))
      in if ip = [] \<or> (hd ip = 48 \<and> length ip > 1) then None
         else Some (JNum (to_double (if neg then - x else x)), r3))"

lemma dropWhile_le: "length t \<le> n \<Longrightarrow> length (dropWhile P t) \<le> n"
  using length_dropWhile_le order_trans by blast

lemma json_frac_le: "json_frac s = (f, r) \<Longrightarrow> length r \<le> length s"
  by (auto simp: json_frac_def intro!: dropWhile_le split: if_splits)

lemma json_exp_le: "json_exp s = (e, r) \<Longrightarrow> length r \<le> length s"
  by (auto simp: json_exp_def Let_def intro!: dropWhile_le split: if_splits)

lemma json_number_shorter: "json_number s = Some (v, r) \<Longrightarrow> length r < length s"
proof -
  assume p: "json_number s = Some (v, r)"
  define s1 where "s1 = (if s \<noteq> [] \<and> hd s = 45 then tl s else s)"
  obtain fp r2 where f: "json_frac (dropWhile is_digit s1) = (fp, r2)"
    by fastforce
  obtain e r3 where e: "json_exp r2 = (e, r3)"
    by fastforce
  have r: "takeWhile is_digit s1 \<noteq> []" "r = r3"
    using p f by (simp_all add: json_number_def Let_def e flip: s1_def split: if_splits)
  have "length (takeWhile is_digit s1) + length (dropWhile is_digit s1) = length s1"
    by (metis length_append takeWhile_dropWhile_id)
  moreover have "length s1 \<le> length s" by (simp add: s1_def)
  moreover have "0 < length (takeWhile is_digit s1)" using r(1) by blast
  ultimately show ?thesis
    using json_frac_le [OF f] json_exp_le [OF e] unfolding r(2) by linarith
qed

text \<open>
  \<open>parse_elems\<close> reads the rest of an array from its next element on, \<open>parse_members\<close> the rest of an
  object from its next key on.
\<close>

fun parse_value :: "nat \<Rightarrow> jstr \<Rightarrow> (json \<times> jstr) option"
and parse_elems :: "nat \<Rightarrow> jstr \<Rightarrow> (json list \<times> jstr) option"
and parse_members :: "nat \<Rightarrow> jstr \<Rightarrow> ((jstr \<times> json) list \<times> jstr) option" where
  "parse_value 0 s = None"
| "parse_value (Suc n) s =
     (case skip_ws s of
        [] \<Rightarrow> None
      | c # r \<Rightarrow>
          if c = 34 then map_option (apfst JStr) (parse_chars r)
          else if c = 91 then
            (if skip_ws r \<noteq> [] \<and> hd (skip_ws r) = 93 then Some (JArr [], tl (skip_ws r))
             else map_option (apfst JArr) (parse_elems n r))
          else if c = 123 then
            (if skip_ws r \<noteq> [] \<and> hd (skip_ws r) = 125 then Some (JObj [], tl (skip_ws r))
             else map_option (apfst JObj) (parse_members n r))
          else if startsWith (c # r) (js ''null'') then Some (JNull, drop 4 (c # r))
          else if startsWith (c # r) (js ''true'') then Some (JBool True, drop 4 (c # r))
          else if startsWith (c # r) (js ''false'') then Some (JBool False, drop 5 (c # r))
          else json_number (c # r))"
| "parse_elems 0 s = None"
| "parse_elems (Suc n) s =
     (case parse_value n s of
        None \<Rightarrow> None
      | Some (v, r) \<Rightarrow>
          (case skip_ws r of
             [] \<Rightarrow> None
           | c # r' \<Rightarrow>
               if c = 93 then Some ([v], r')
               else if c = 44 then map_option (apfst (Cons v)) (parse_elems n r')
               else None))"
| "parse_members 0 s = None"
| "parse_members (Suc n) s =
     (case skip_ws s of
        [] \<Rightarrow> None
      | q # r0 \<Rightarrow>
          if q \<noteq> 34 then None
          else
            (case parse_chars r0 of
               None \<Rightarrow> None
             | Some (k, r1) \<Rightarrow>
                 (case skip_ws r1 of
                    [] \<Rightarrow> None
                  | c1 # r2 \<Rightarrow>
                      if c1 \<noteq> 58 then None
                      else
                        (case parse_value n r2 of
                           None \<Rightarrow> None
                         | Some (v, r3) \<Rightarrow>
                             (case skip_ws r3 of
                                [] \<Rightarrow> None
                              | c \<comment> \<open>comma or brace\<close> # r' \<Rightarrow>
                                  if c = 125 then Some ([(k, v)], r')
                                  else if c = 44 then
                                    map_option (apfst (Cons (k, v))) (parse_members n r')
                                  else None)))))"

definition json_parse :: "jstr \<Rightarrow> json option" where
  "json_parse s =
     (case parse_value (2 * length s + 2) s of
        None \<Rightarrow> None
      | Some (v, r) \<Rightarrow> if skip_ws r = [] then Some v else None)"

text \<open>A property of a parsed object: the last binding of a key wins.\<close>

definition json_get :: "json \<Rightarrow> jstr \<Rightarrow> json option" where
  "json_get j k = (case j of JObj kvs \<Rightarrow> map_of (rev kvs) k | _ \<Rightarrow> None)"

fun json_truthy :: "json \<Rightarrow> bool" where
  "json_truthy JNull = False"
| "json_truthy (JBool b) = b"
| "json_truthy (JNum x) = (x \<noteq> NaN \<and> x \<noteq> Num 0)"
| "json_truthy (JStr s) = (s \<noteq> [])"
| "json_truthy (JArr _) = True"
| "json_truthy (JObj _) = True"

text \<open>\<open>String(v)\<close> of a JSON value.\<close>

fun json_string :: "json \<Rightarrow> jstr" where
  "json_string JNull = js ''null''"
| "json_string (JBool b) = (if b then js ''true'' else js ''false'')"
| "json_string (JNum x) = num_string x"
| "json_string (JStr s) = s"
| "json_string (JArr xs) =
     join_with (js '','') (map (\<lambda>x. if x = JNull then [] else json_string x) xs)"
| "json_string (JObj _) = js ''[object Object]''"

text \<open>\<open>v ?? w\<close> on a property value: \<open>undefined\<close> is \<open>None\<close>.\<close>

definition json_nullish :: "json option \<Rightarrow> json \<Rightarrow> json" where
  "json_nullish v w = (case v of None \<Rightarrow> w | Some JNull \<Rightarrow> w | Some j \<Rightarrow> j)"

definition json_bool :: "json option \<Rightarrow> bool" where
  "json_bool v = (case v of None \<Rightarrow> False | Some j \<Rightarrow> json_truthy j)"

text \<open>The exception of a property access on \<open>null\<close> or \<open>undefined\<close>.\<close>

datatype js_error = TypeError

section \<open>Fuel\<close>

lemma parse_shorter:
  "parse_value n s = Some (v, r) \<Longrightarrow> length r < length s"
  "parse_elems n s = Some (vs, r) \<Longrightarrow> length r < length s"
  "parse_members n s = Some (kvs, r) \<Longrightarrow> length r < length s"
proof (induction n s and n s and n s arbitrary: v r and vs r and kvs r
    rule: parse_value_parse_elems_parse_members.induct)
  case (2 n s)
  show ?case
  proof (cases "skip_ws s")
    case Nil
    then show ?thesis using "2.prems" by simp
  next
    case (Cons c t)
    note l = skip_ws_Cons [OF this]
    show ?thesis
      using "2.prems" "2.IH"[OF Cons] l length_skip_ws [of t]
        parse_chars_shorter [of t] json_number_shorter [of "c # t"]
      by (fastforce simp: Cons split: if_splits)
  qed
next
  case (4 n s)
  from "4.prems" obtain v r1 where v: "parse_value n s = Some (v, r1)"
    by (auto split: option.splits)
  with "4.prems" obtain c r' where c: "skip_ws r1 = c # r'"
    by (auto split: list.splits)
  have l: "length r1 < length s" "length r' < length r1"
    using "4.IH"(1)[OF v] skip_ws_Cons [OF c] .
  show ?case
  proof (cases "c = 93")
    case True
    then show ?thesis using "4.prems" l by (simp add: v c)
  next
    case False
    then obtain ws where "c = 44" "parse_elems n r' = Some (ws, r)"
      using "4.prems" by (auto simp: v c split: if_splits)
    then have "length r < length r'" using "4.IH"(2)[OF v refl c] by simp
    with l show ?thesis by simp
  qed
next
  case (6 n s)
  from "6.prems" obtain q r0 where q: "skip_ws s = q # r0" "q = 34"
    by (auto split: list.splits if_splits)
  with "6.prems" obtain k r1 where k: "parse_chars r0 = Some (k, r1)"
    by (auto split: option.splits)
  with q "6.prems" obtain c1 r2 where c1: "skip_ws r1 = c1 # r2" "c1 = 58"
    by (auto split: list.splits if_splits)
  with q k "6.prems" obtain v r3 where v: "parse_value n r2 = Some (v, r3)"
    by (auto split: option.splits)
  with q k c1 "6.prems" obtain c r' where c: "skip_ws r3 = c # r'"
    by (auto split: list.splits)
  have l: "length r0 < length s" "length r1 < length r0" "length r2 < length r1"
      "length r3 < length r2" "length r' < length r3"
    using skip_ws_Cons [OF q(1)] parse_chars_shorter [OF k] skip_ws_Cons [OF c1(1)]
      "6.IH"(1)[OF q(1) _ k refl c1(1) _ v] skip_ws_Cons [OF c] q(2) c1(2)
    by auto
  show ?case
  proof (cases "c = 125")
    case True
    then show ?thesis using "6.prems" l q k c1 v c by simp
  next
    case False
    then obtain ws where w: "c = 44" "parse_members n r' = Some (ws, r)"
      using "6.prems" q k c1 v c by (auto split: if_splits)
    then have "length r < length r'" using "6.IH"(2)[OF q(1) _ k refl c1(1) _ v refl c] q(2) c1(2) by simp
    with l show ?thesis by simp
  qed
qed simp_all

lemma parse_fuel:
  "(\<forall>n m. 2 * length s + 1 \<le> n \<longrightarrow> 2 * length s + 1 \<le> m \<longrightarrow> parse_value n s = parse_value m s) \<and>
   (\<forall>n m. 2 * length s + 2 \<le> n \<longrightarrow> 2 * length s + 2 \<le> m \<longrightarrow> parse_elems n s = parse_elems m s) \<and>
   (\<forall>n m. 2 * length s + 2 \<le> n \<longrightarrow> 2 * length s + 2 \<le> m \<longrightarrow> parse_members n s = parse_members m s)"
proof (induction s rule: measure_induct_rule [of length])
  case (less s)
  note IH = less.IH
  have E: "parse_elems n r = parse_elems m r" "parse_members n r = parse_members m r" 
    if "length r < length s" "2 * length s \<le> n" "2 * length s \<le> m" for r n m
    using IH [OF that(1)] that by auto
  have V': "parse_value n r = parse_value m r"
    if "length r < length s" "2 * length s \<le> n" "2 * length s \<le> m" for r n m
    using IH [OF that(1)] that by auto
  have V: "parse_value n s = parse_value m s" if nm: "2 * length s + 1 \<le> n" "2 * length s + 1 \<le> m" for n m
  proof -
    obtain n' m' where nm': "n = Suc n'" "m = Suc m'" using nm by (cases n; cases m) auto
    have e: "length r < length s \<Longrightarrow> parse_elems n' r = parse_elems m' r"
      "length r < length s \<Longrightarrow> parse_members n' r = parse_members m' r" for r
      by (rule E; use nm nm' in simp)+
    show ?thesis
    proof (cases "skip_ws s")
      case (Cons c r)
      then show ?thesis using e [OF skip_ws_Cons [OF Cons]] by (simp add: nm')
    qed (simp add: nm')
  qed
  have El: "parse_elems n s = parse_elems m s" if nm: "2 * length s + 2 \<le> n" "2 * length s + 2 \<le> m" for n m
  proof -
    obtain n' m' where nm': "n = Suc n'" "m = Suc m'" using nm by (cases n; cases m) auto
    have v: "parse_value n' s = parse_value m' s" by (rule V) (use nm nm' in simp_all)
    have r: "length r' < length s" if "parse_value m' s = Some (v, r)" "skip_ws r = c # r'" for v r c r'
      using parse_shorter(1)[OF that(1)] skip_ws_Cons [OF that(2)] by simp
    have e: "length r < length s \<Longrightarrow> parse_elems n' r = parse_elems m' r" for r
      by (rule E; use nm nm' in simp)
    show ?thesis using e r
      by (auto simp: nm' v split: option.split list.split)
  qed
  have Em: "parse_members n s = parse_members m s" if nm: "2 * length s + 2 \<le> n" "2 * length s + 2 \<le> m" for n m
  proof -
    obtain n' m' where nm': "n = Suc n'" "m = Suc m'" using nm by (cases n; cases m) auto
    have r2: "length r2 < length s" if "skip_ws s = q # r0" "parse_chars r0 = Some (k, r1)" "skip_ws r1 = c # r2" for q r0 k r1 c r2
      using skip_ws_Cons [OF that(1)] parse_chars_shorter [OF that(2)] skip_ws_Cons [OF that(3)] by simp
    have v: "parse_value n' r2 = parse_value m' r2" if "length r2 < length s" for r2
      by (rule V'; use that nm nm' in simp)
    have r: "length r' < length s"
      if "skip_ws s = q # r0" "parse_chars r0 = Some (k, r1)" "skip_ws r1 = c # r2"
        "parse_value m' r2 = Some (v, r)" "skip_ws r = d # r'" for q r0 k r1 c r2 v r d r'
      using r2 [OF that(1-3)] parse_shorter(1) [OF that(4)] skip_ws_Cons [OF that(5)] by simp
    have e: "length r < length s \<Longrightarrow> parse_members n' r = parse_members m' r" for r
      by (rule E; use nm nm' in simp)
    show ?thesis using e r r2 v
      by (auto simp: nm' split: option.split list.split)
  qed
  show ?case using V El Em by blast
qed

section \<open>Writing\<close>

definition hex_digit :: "nat \<Rightarrow> nat" where
  "hex_digit n = (if n < 10 then 48 + n else 87 + n)"

definition unicode_escape :: "nat \<Rightarrow> jstr" where
  "unicode_escape c =
     [92, 117, hex_digit (c div 4096 mod 16), hex_digit (c div 256 mod 16),
      hex_digit (c div 16 mod 16), hex_digit (c mod 16)]"

definition quote_unit :: "nat \<Rightarrow> jstr" where
  "quote_unit c =
     (if c = 34 then [92, 34]
      else if c = 92 then [92, 92]
      else if c = 8 then [92, 98]
      else if c = 12 then [92, 102]
      else if c = 10 then [92, 110]
      else if c = 13 then [92, 114]
      else if c = 9 then [92, 116]
      else if c < 32 \<or> 0xD800 \<le> c \<and> c \<le> 0xDFFF then unicode_escape c
      else [c])"

text \<open>A surrogate pair is written as it is, a lone surrogate as an escape.\<close>

fun quote_units :: "jstr \<Rightarrow> jstr" where
  "quote_units [] = []"
| "quote_units [c] = quote_unit c"
| "quote_units (c # d # s) =
     (if 0xD800 \<le> c \<and> c \<le> 0xDBFF \<and> 0xDC00 \<le> d \<and> d \<le> 0xDFFF then c # d # quote_units s
      else quote_unit c @ quote_units (d # s))"

definition json_quote :: "jstr \<Rightarrow> jstr" where
  "json_quote s = 34 # quote_units s @ [34]"

definition stringify_strings :: "jstr list \<Rightarrow> jstr" where
  "stringify_strings xs = 91 # join_with [44] (map json_quote xs) @ [93]"

text \<open>
  \<open>JSON.stringify\<close> of a parsed value. A number that is not finite is written as \<open>null\<close>; a key bound
  twice is written once, at its first place and with its last value.
\<close>

fun json_stringify :: "json \<Rightarrow> jstr" where
  "json_stringify JNull = js ''null''"
| "json_stringify (JBool b) = (if b then js ''true'' else js ''false'')"
| "json_stringify (JNum x) = (case x of Num _ \<Rightarrow> num_string x | _ \<Rightarrow> js ''null'')"
| "json_stringify (JStr s) = json_quote s"
| "json_stringify (JArr xs) = 91 # join_with [44] (map json_stringify xs) @ [93]"
| "json_stringify (JObj kvs) =
     123 # join_with [44]
       (map (\<lambda>(k, t). json_quote k @ 58 # t)
         (foldl (\<lambda>m (k, t). map_set k t m) [] (map (\<lambda>(k, v). (k, json_stringify v)) kvs))) @ [125]"

lemma json_stringify_strings [simp]: "json_stringify (JArr (map JStr xs)) = stringify_strings xs"
  by (simp add: stringify_strings_def comp_def)

lemma radix_hex_digit: "n < 16 \<Longrightarrow> radix_digit (hex_digit n) = n"
  by (auto simp: radix_digit_def hex_digit_def is_digit_def)

lemma hex_positional: "c < 65536 \<Longrightarrow>
   16 * (16 * (16 * (c div 4096 mod 16) + c div 256 mod 16) + c div 16 mod 16) + c mod 16 = (c :: nat)"
proof -
  assume c: "c < 65536"
  have d: "c div 256 = c div 16 div 16" "c div 4096 = c div 16 div 16 div 16"
    by (simp_all add: div_mult2_eq [symmetric])
  have m: "c div 16 div 16 div 16 mod 16 = c div 16 div 16 div 16"
    using c by (simp add: div_mult2_eq [symmetric])
  show ?thesis unfolding d m mult_div_mod_eq ..
qed

lemma hex4_escape: "c < 65536 \<Longrightarrow> hex4 (drop 2 (unicode_escape c)) = Some c"
  using hex_positional [of c] by (simp add: hex4_def unicode_escape_def radix_hex_digit)

lemma parse_unicode_escape:
  "c < 65536 \<Longrightarrow> parse_chars (unicode_escape c @ s) = map_option (apfst (Cons c)) (parse_chars s)"
  using hex4_escape [of c] by (subst parse_chars.simps) (simp add: unicode_escape_def)

lemma parse_quote_unit:
  "parse_chars (quote_unit c @ s) = map_option (apfst (Cons c)) (parse_chars s)"
proof (cases "c \<in> {34, 92, 8, 12, 10, 13, 9}")
  case True
  then show ?thesis by (auto simp: quote_unit_def simple_escape_def parse_chars.simps [of "_ # _"])
next
  case False
  show ?thesis
  proof (cases "c < 32 \<or> 0xD800 \<le> c \<and> c \<le> 0xDFFF")
    case True
    with False show ?thesis by (auto simp: quote_unit_def parse_unicode_escape)
  next
    case False
    with \<open>c \<notin> _\<close> have "quote_unit c = [c]" by (auto simp: quote_unit_def)
    with False \<open>c \<notin> _\<close> show ?thesis by (subst parse_chars.simps) simp
  qed
qed

lemma parse_plain_unit: "32 \<le> c \<Longrightarrow> c \<noteq> 34 \<Longrightarrow> c \<noteq> 92 \<Longrightarrow> parse_chars (c # s) = map_option (apfst (Cons c)) (parse_chars s)"
  by (subst parse_chars.simps) simp

lemma parse_quote_units:
  "parse_chars (quote_units s @ 34 # r) = Some (s, r)"
proof (induction s rule: quote_units.induct)
  case 1
  then show ?case by (simp add: parse_chars.simps)
next
  case (2 c)
  then show ?case by (simp add: parse_quote_unit) (simp add: parse_chars.simps)
next
  case (3 c d s)
  then show ?case by (auto simp: parse_quote_unit parse_plain_unit)
qed

lemma parse_json_quote:
  "parse_value (Suc n) (json_quote s @ r) = Some (JStr s, r)"
  by (simp add: json_quote_def skip_ws_def is_json_ws_def parse_quote_units)

lemma parse_elems_strings:
  assumes "xs \<noteq> []" and "length xs < n"
  shows "parse_elems n (join_with [44] (map json_quote xs) @ 93 # r) = Some (map JStr xs, r)"
  using assms
proof (induction xs arbitrary: n)
  case (Cons x xs)
  obtain n' where n': "n = Suc (Suc n')" using Cons.prems(2) by (cases n; cases "n - 1") auto
  show ?case
  proof (cases xs)
    case Nil
    then show ?thesis using Cons.prems
      by (simp add: n' parse_json_quote del: parse_value.simps) (simp add: skip_ws_def is_json_ws_def)
  next
    case (Cons y ys)
    have IH: "parse_elems (Suc n') (join_with [44] (map json_quote xs) @ 93 # r) = Some (map JStr xs, r)"
      using Cons.IH [of "Suc n'"] Cons.prems Cons n' by simp
    have "join_with [44] (map json_quote (x # xs)) @ 93 # r = json_quote x @ 44 # join_with [44] (map json_quote xs) @ 93 # r"
      by (simp add: Cons)
    then show ?thesis using Cons.prems IH
      by (simp add: n' parse_json_quote del: parse_value.simps) (simp add: skip_ws_def is_json_ws_def)
  qed
qed simp

lemma length_join_quoted: "2 * length xs \<le> length (join_with [44] (map json_quote xs))"
proof (induction xs rule: induct_list012)
  case (3 x y zs)
  then show ?case by (simp add: json_quote_def)
qed (simp_all add: json_quote_def)

lemma json_parse_stringify_strings:
  "json_parse (stringify_strings xs) = Some (JArr (map JStr xs))"
proof (cases "xs = []")
  case True
  have "json_parse (stringify_strings []) = Some (JArr [])"
    by code_simp
  with True show ?thesis by simp
next
  case False
  let ?b = "join_with [44] (map json_quote xs) @ [93]"
  obtain t where t: "?b = 34 # t"
    using False by (cases xs; cases "tl xs") (auto simp: json_quote_def)
  have "length xs < 2 * length (stringify_strings xs) + 1"
    using length_join_quoted [of xs] by (simp add: stringify_strings_def)
  then have "parse_elems (2 * length (stringify_strings xs) + 1) ?b = Some (map JStr xs, [])"
    using parse_elems_strings [OF False] by blast
  then show ?thesis
    by (simp add: json_parse_def stringify_strings_def t skip_ws_def is_json_ws_def)
qed

lemma stringify_strings_inject [simp]: "stringify_strings xs = stringify_strings ys \<longleftrightarrow> xs = ys"
proof
  assume "stringify_strings xs = stringify_strings ys"
  then have "map JStr xs = map JStr ys"
    using json_parse_stringify_strings by (metis json.inject(4) option.inject)
  then show "xs = ys" by (metis (no_types, lifting) injI inj_map_eq_map json.inject(3))
qed simp

lemma parse_value_fuel:
  "2 * length s + 2 \<le> n \<Longrightarrow> parse_value n s = parse_value (2 * length s + 2) s"
  using parse_fuel [THEN conjunct1, rule_format, of s n "2 * length s + 2"] by linarith

text \<open>
  Reading a text ends for a reason of the text alone: from twice its length on, more fuel never changes
  what the reader finds, so \<open>JSON.parse\<close> is not cut short by the bound of the model.
\<close>

theorem json_parse_fuel_free:
  assumes "2 * length s + 2 \<le> n"
  shows "json_parse s =
     (case parse_value n s of
        None \<Rightarrow> None
      | Some (v, r) \<Rightarrow> if skip_ws r = [] then Some v else None)"
  using parse_value_fuel [OF assms] by (simp add: json_parse_def)

theorem json_parse_fuel_free_witness:
  "json_parse (js ''[]'') =
     (case parse_value 100 (js ''[]'') of
        None \<Rightarrow> None
      | Some (v, r) \<Rightarrow> if skip_ws r = [] then Some v else None)"
  by (rule json_parse_fuel_free) (simp add: js_def)

text \<open>Evaluation on a concrete text: the nesting depth is enough fuel, and more does not change the result.\<close>

lemma json_parseI:
  assumes "\<And>n. parse_value (Suc (Suc (Suc (Suc (Suc (Suc (Suc (Suc (Suc n))))))))) s = Some (v, [])"
  shows "json_parse s = Some v"
proof -
  have "parse_value (2 * length s + 2) s = Some (v, [])"
    using assms [of "2 * length s + 2"]
      parse_value_fuel [of s "Suc (Suc (Suc (Suc (Suc (Suc (Suc (Suc (Suc (2 * length s + 2)))))))))"]
    by (metis le_SucI order_refl)
  then show ?thesis by (simp add: json_parse_def skip_ws_def)
qed

lemmas json_eval = js_def skip_ws_def is_json_ws_def parse_chars.simps startsWith_def json_number_def
  is_digit_def json_frac_def json_exp_def digits_val_def pow10_def to_double_def simple_escape_def

end
