(* ===== verification/Format.thy ===== *)
theory Format
  imports Copy JsNumber JsCollections
begin

text \<open>
  The formatting helpers of \<^verbatim>\<open>web/src/lib/fmt.ts\<close> and \<^verbatim>\<open>web/src/lib/pricing.ts\<close>, the timestamp
  reader that \<^verbatim>\<open>fmt.ts\<close>, \<^verbatim>\<open>codexQuota.ts\<close> and the Activity page each spell out, and the moon phase
  of the Overview page.
\<close>

section \<open>Timestamps\<close>

text \<open>
  \<open>iso.includes("T") || iso.includes("Z") || iso.includes("+") ? iso : iso.replace(" ", "T") + "Z"\<close>,
  which turns the database's \<open>YYYY-MM-DD HH:MM:SS\<close> into a UTC timestamp.
\<close>

definition normalizeUTC :: "jstr \<Rightarrow> jstr" where
  "normalizeUTC s =
     (if str_includes s (js ''T'') \<or> str_includes s (js ''Z'') \<or> str_includes s (js ''+'')
      then s else replace_first (js '' '') (js ''T'') s @ js ''Z'')"

definition parseUTC :: "host \<Rightarrow> jstr \<Rightarrow> int option" where
  "parseUTC h iso_str = date_parse h (normalizeUTC iso_str)"

definition parseSqliteUTC :: "host \<Rightarrow> jstr option \<Rightarrow> int option" where
  "parseSqliteUTC h s =
     (if \<not> truthy_str s then None else date_parse h (normalizeUTC (or_str s [])))"

section \<open>Numbers, sizes and durations\<close>

definition pct :: "rat \<Rightarrow> jstr" where
  "pct v = toFixed 1 (v * 100) @ js ''%''"

definition latency :: "rat \<Rightarrow> jstr" where
  "latency ms =
     (if ms < 1 then js ''< 1ms''
      else if ms < 1000 then show_int (math_round ms) @ js ''ms''
      else toFixed 2 (ms / 1000) @ js ''s'')"

definition compact :: "int \<Rightarrow> jstr" where
  "compact n =
     (if n \<ge> 1000000 then toFixed 1 (of_int n / 1000000) @ js ''M''
      else if n \<ge> 1000 then toFixed 1 (of_int n / 1000) @ js ''k''
      else show_int n)"

definition tokenCount :: "int \<Rightarrow> jstr" where
  "tokenCount n = compact n @ js '' tokens''"

definition pad2 :: "int \<Rightarrow> jstr" where
  "pad2 n = padStart 2 48 (show_int n)"

definition shortDate :: "host \<Rightarrow> jstr \<Rightarrow> jstr" where
  "shortDate h iso_str =
     (case parseUTC h iso_str of
        None \<Rightarrow> iso_str
      | Some t \<Rightarrow>
          show_int (getMonth h t + 1) @ js ''/'' @ show_int (getDate h t) @ js '' '' @
          pad2 (getHours h t) @ js '':'' @ pad2 (getMinutes h t))"

definition relativeTime :: "host \<Rightarrow> jstr option \<Rightarrow> jstr" where
  "relativeTime h iso_opt =
     (if \<not> truthy_str iso_opt then c_never
      else case parseUTC h (or_str iso_opt []) of
        None \<Rightarrow> or_str iso_opt []
      | Some t \<Rightarrow>
          (let seconds = (now_ms h - t) div 1000;
               minutes = seconds div 60;
               hours = minutes div 60;
               days = hours div 24
           in if seconds < 5 then c_just_now
              else if seconds < 60 then show_int seconds @ js ''s'' @ c_ago
              else if minutes < 60 then show_int minutes @ c_minutes_ago
              else if hours < 24 then show_int hours @ c_hours_ago
              else show_int days @ c_days_ago))"

text \<open>
  \<open>Math.floor(Math.log(bytes) / Math.log(1024))\<close> for \<open>bytes \<ge> 1\<close>, capped at the last unit. Sizes are
  whole numbers of bytes.
\<close>

fun log1024 :: "nat \<Rightarrow> nat" where
  "log1024 n = (if n < 1024 then 0 else Suc (log1024 (n div 1024)))"

declare log1024.simps [simp del]

definition byte_units :: "jstr list" where
  "byte_units = [js ''B'', js ''KB'', js ''MB'', js ''GB'', js ''TB'']"

definition formatBytes :: "int \<Rightarrow> jstr" where
  "formatBytes bytes =
     (if bytes \<le> 0 then js ''0 B''
      else
        (let exponent = min (length byte_units - 1) (log1024 (nat bytes));
             v = (of_int bytes :: rat) / 1024 ^ exponent;
             decimals = (if exponent = 0 \<or> v \<ge> 100 then 0 else if v \<ge> 10 then 1 else 2)
         in toFixed decimals v @ js '' '' @ byte_units ! exponent))"

section \<open>Prices\<close>

text \<open>Model, price of a million input tokens and of a million output tokens, in dollars.\<close>

definition MODEL_PRICING :: "(jstr \<times> rat \<times> rat) list" where
  "MODEL_PRICING =
     [(js ''gpt-4o'', 5 / 2, 10), (js ''gpt-4o-mini'', 15 / 100, 6 / 10),
      (js ''gpt-4.1'', 2, 8), (js ''gpt-4.1-mini'', 4 / 10, 16 / 10),
      (js ''gpt-4.1-nano'', 1 / 10, 4 / 10), (js ''o3'', 10, 40), (js ''o3-mini'', 11 / 10, 44 / 10),
      (js ''o4-mini'', 11 / 10, 44 / 10), (js ''gpt-4-turbo'', 10, 30), (js ''gpt-4'', 30, 60),
      (js ''gpt-3.5-turbo'', 1 / 2, 3 / 2),
      (js ''claude-opus-4-20250514'', 15, 75), (js ''claude-sonnet-4-20250514'', 3, 15),
      (js ''claude-3-7-sonnet'', 3, 15), (js ''claude-3-5-sonnet'', 3, 15),
      (js ''claude-3-5-haiku'', 8 / 10, 4), (js ''claude-3-opus'', 15, 75),
      (js ''claude-3-sonnet'', 3, 15), (js ''claude-3-haiku'', 1 / 4, 5 / 4),
      (js ''deepseek-chat'', 14 / 100, 28 / 100), (js ''deepseek-reasoner'', 55 / 100, 219 / 100),
      (js ''gemini-2.5-pro'', 5 / 4, 10), (js ''gemini-2.5-flash'', 15 / 100, 6 / 10),
      (js ''gemini-2.0-flash'', 1 / 10, 4 / 10), (js ''gemini-1.5-pro'', 5 / 4, 5),
      (js ''gemini-1.5-flash'', 75 / 1000, 3 / 10),
      (js ''llama-3.3-70b-versatile'', 59 / 100, 79 / 100),
      (js ''llama-3.1-8b-instant'', 5 / 100, 8 / 100),
      (js ''mistral-large-latest'', 2, 6), (js ''mistral-small-latest'', 1 / 10, 3 / 10),
      (js ''moonshot-v1-8k'', 84 / 100, 84 / 100), (js ''moonshot-v1-32k'', 168 / 100, 168 / 100),
      (js ''moonshot-v1-128k'', 84 / 10, 84 / 10)]"

definition find_pricing :: "jstr \<Rightarrow> (rat \<times> rat) option" where
  "find_pricing model =
     (case map_of MODEL_PRICING model of
        Some p \<Rightarrow> Some p
      | None \<Rightarrow> map_option snd (find (\<lambda>(k, p). startsWith model k) MODEL_PRICING))"

definition estimateCost :: "jstr \<Rightarrow> int \<Rightarrow> int \<Rightarrow> rat option" where
  "estimateCost model inputTokens outputTokens =
     (case find_pricing model of
        None \<Rightarrow> None
      | Some (i, out) \<Rightarrow> Some ((of_int inputTokens * i + of_int outputTokens * out) / 1000000))"

definition formatCost :: "rat \<Rightarrow> jstr" where
  "formatCost usd =
     (if usd < 1 / 100 then js ''$'' @ toFixed 4 usd
      else if usd < 1 then js ''$'' @ toFixed 3 usd
      else js ''$'' @ toFixed 2 usd)"

section \<open>The moon\<close>

text \<open>\<open>a % b\<close> on finite numbers: the remainder has the sign of \<open>a\<close>.\<close>

definition js_rem :: "rat \<Rightarrow> rat \<Rightarrow> rat" where
  "js_rem a b = a - b * of_int (if 0 \<le> a / b then \<lfloor>a / b\<rfloor> else \<lceil>a / b\<rceil>)"

abbreviation (input) synodic :: rat where "synodic \<equiv> 29530588853 / 1000000000"

definition getMoonPhase :: "int \<Rightarrow> rat" where
  "getMoonPhase time =
     (let epoch = days_from_civil 2000 1 6 * 86400000 + 18 * 3600000 + 14 * 60000;
          days = of_int (time - epoch) / 86400000;
          phase = js_rem (js_rem days synodic + synodic) synodic
      in phase / synodic)"

definition getMoonPhaseName :: "rat \<Rightarrow> jstr" where
  "getMoonPhaseName phase =
     (if phase < 3 / 100 \<or> phase \<ge> 97 / 100 then c_moon_new
      else if phase < 22 / 100 then c_moon_waxing_crescent
      else if phase < 28 / 100 then c_moon_first_quarter
      else if phase < 47 / 100 then c_moon_waxing_gibbous
      else if phase < 53 / 100 then c_moon_full
      else if phase < 72 / 100 then c_moon_waning_gibbous
      else if phase < 78 / 100 then c_moon_last_quarter
      else c_moon_waning_crescent)"

section \<open>Reading UTC timestamps\<close>

text \<open>A suffix that still ends in \<open>Z\<close>.\<close>

definition ends_Z :: "jstr \<Rightarrow> bool" where
  "ends_Z s \<longleftrightarrow> s \<noteq> [] \<and> last s = 90"

lemma read_num_ends_Z: "read_num n s = Some (v, r) \<Longrightarrow> ends_Z s \<Longrightarrow> ends_Z r"
proof -
  assume r: "read_num n s = Some (v, r)" and z: "ends_Z s"
  then have d: "r = drop n s" "list_all is_digit (take n s)" "n \<le> length s"
    by (auto simp: read_num_def split: if_splits)
  have "r \<noteq> []"
  proof
    assume "r = []"
    then have "is_digit (last s)"
      using d z last_in_set [of s] by (auto simp: ends_Z_def list_all_iff)
    then show False using z by (simp add: ends_Z_def is_digit_def)
  qed
  then show ?thesis using d(1) z by (auto simp: ends_Z_def)
qed

lemma tl_ends_Z: "ends_Z s \<Longrightarrow> hd s \<noteq> 90 \<Longrightarrow> ends_Z (tl s)"
  by (cases s) (auto simp: ends_Z_def split: if_splits)

lemma read_sep_num_ends_Z: "read_sep_num c n s = Some (v, r) \<Longrightarrow> c \<noteq> 90 \<Longrightarrow> ends_Z s \<Longrightarrow> ends_Z r"
  using tl_ends_Z by (auto simp: read_sep_num_def split: if_splits dest: read_num_ends_Z)

lemma dropWhile_digit_ends_Z: "ends_Z s \<Longrightarrow> ends_Z (dropWhile is_digit s)"
proof (induction s)
  case (Cons c s)
  then show ?case by (cases "s = []") (auto simp: ends_Z_def is_digit_def)
qed (simp add: ends_Z_def)

lemma read_fraction_ends_Z: "read_fraction s = Some (v, r) \<Longrightarrow> ends_Z s \<Longrightarrow> ends_Z r"
  using dropWhile_digit_ends_Z [OF tl_ends_Z, of s]
  by (auto simp: read_fraction_def Let_def split: if_splits)

lemma read_offset_tz: "ends_Z s \<Longrightarrow> read_offset (h\<lparr>tz_ms := tz\<rparr>) s = read_offset h s"
  by (simp add: read_offset_def ends_Z_def)


lemma read_seconds_ends_Z: "read_seconds s = Some (ss, ms, r) \<Longrightarrow> ends_Z s \<Longrightarrow> ends_Z r"
  by (auto simp: read_seconds_def split: option.splits dest: read_sep_num_ends_Z read_fraction_ends_Z)

lemma read_clock_ends_Z: "read_clock s = Some (t, r) \<Longrightarrow> ends_Z s \<Longrightarrow> ends_Z r"
  by (auto simp: read_clock_def split: option.splits if_splits
      dest!: read_sep_num_ends_Z read_seconds_ends_Z)

lemma read_date_ends_Z: "read_date s = Some (t, r) \<Longrightarrow> ends_Z s \<Longrightarrow> ends_Z r"
  by (auto simp: read_date_def Let_def split: option.splits if_splits prod.splits
      dest!: read_num_ends_Z read_sep_num_ends_Z)

lemma iso_parse_tz: "ends_Z s \<Longrightarrow> iso_parse (h\<lparr>tz_ms := tz\<rparr>) s = iso_parse h s"
  by (auto simp: iso_parse_def read_time_def ends_Z_def[of "[]"] split: option.splits
      dest!: read_date_ends_Z dest: read_clock_ends_Z intro!: arg_cong [where f = "map_option _"] simp: read_offset_tz)

text \<open>
  A database timestamp is read as UTC on every machine: for a text without \<open>T\<close>, \<open>Z\<close> or \<open>+\<close>, the
  result of \<open>parseSqliteUTC\<close> does not depend on the offset of the local time zone.
\<close>

theorem parseSqliteUTC_timezone_free:
  assumes "\<not> str_includes s (js ''T'')" and "\<not> str_includes s (js ''Z'')"
    and "\<not> str_includes s (js ''+'')"
  shows "parseSqliteUTC (h\<lparr>tz_ms := tz\<rparr>) (Some s) = parseSqliteUTC h (Some s)"
proof -
  have "normalizeUTC s = replace_first (js '' '') (js ''T'') s @ js ''Z''"
    using assms by (simp add: normalizeUTC_def)
  then have "ends_Z (normalizeUTC s)" by (simp add: ends_Z_def js_def)
  then show ?thesis
    by (cases "s = []")
       (simp_all add: parseSqliteUTC_def truthy_str_def date_parse_def iso_parse_tz split: option.split)
qed

theorem parseSqliteUTC_timezone_free_witness:
  "parseSqliteUTC \<lparr>now_ms = 0, tz_ms = 28800000, date_fallback = (\<lambda>_. None)\<rparr>
     (Some (js ''2026-04-14 04:00:00'')) = Some 1776139200000"
proof -
  let ?h = "\<lparr>now_ms = 0, tz_ms = 0, date_fallback = (\<lambda>_. None)\<rparr>"
  have "\<not> str_includes (js ''2026-04-14 04:00:00'') (js ''T'')"
    "\<not> str_includes (js ''2026-04-14 04:00:00'') (js ''Z'')"
    "\<not> str_includes (js ''2026-04-14 04:00:00'') (js ''+'')"
    by code_simp+
  from parseSqliteUTC_timezone_free [OF this, where h = ?h and tz = 28800000]
  have "parseSqliteUTC (?h\<lparr>tz_ms := 28800000\<rparr>) (Some (js ''2026-04-14 04:00:00'')) =
      parseSqliteUTC ?h (Some (js ''2026-04-14 04:00:00''))" .
  also have "parseSqliteUTC ?h (Some (js ''2026-04-14 04:00:00'')) = Some 1776139200000"
    by code_simp
  finally show ?thesis by simp
qed

lemma log1024_bounds: "0 < n \<Longrightarrow> 1024 ^ log1024 n \<le> n \<and> n < 1024 ^ Suc (log1024 n)"
proof (induction n rule: log1024.induct)
  case (1 n)
  show ?case
  proof (cases "n < 1024")
    case True
    with 1 show ?thesis by (simp add: log1024.simps [of n])
  next
    case False
    then have "1024 ^ log1024 (n div 1024) \<le> n div 1024 \<and> n div 1024 < 1024 ^ Suc (log1024 (n div 1024))"
      using 1 by (simp add: div_greater_zero_iff)
    then have "1024 * 1024 ^ log1024 (n div 1024) \<le> n" "n < 1024 * 1024 ^ Suc (log1024 (n div 1024))"
      by (auto simp: less_mult_imp_div_less)
    with False show ?thesis by (simp add: log1024.simps [of n])
  qed
qed


lemma js_rem_bounds:
  assumes "0 < b"
  shows "- b < js_rem a b" "js_rem a b < b" "0 \<le> a \<Longrightarrow> 0 \<le> js_rem a b"
proof -
  have e: "js_rem a b = b * (a / b - of_int (if 0 \<le> a / b then \<lfloor>a / b\<rfloor> else \<lceil>a / b\<rceil>))"
    using assms by (simp add: js_rem_def right_diff_distrib)
  have f: "of_int \<lfloor>a / b\<rfloor> \<le> a / b" "a / b < of_int \<lfloor>a / b\<rfloor> + 1" "a / b \<le> of_int \<lceil>a / b\<rceil>"
    "of_int \<lceil>a / b\<rceil> - 1 < a / b"
    by (auto simp: floor_le_iff) linarith+
  let ?x = "a / b - of_int (if 0 \<le> a / b then \<lfloor>a / b\<rfloor> else \<lceil>a / b\<rceil>)"
  have x: "-1 < ?x" "?x < 1" "0 \<le> a / b \<Longrightarrow> 0 \<le> ?x"
    using f by (cases "0 \<le> a / b"; simp only: if_True if_False simp_thms; linarith)+
  show "js_rem a b < b" unfolding e using x(2) mult_strict_left_mono [OF x(2) assms] by simp
  show "- b < js_rem a b" unfolding e using mult_strict_left_mono [OF x(1) assms] by simp
  show "0 \<le> a \<Longrightarrow> 0 \<le> js_rem a b" unfolding e using x(3) assms by (simp add: mult_nonneg_nonneg)
qed

text \<open>
  The moon phase is a proper fraction at every time, before the epoch too: \<open>0 \<le> phase < 1\<close>.
\<close>

theorem getMoonPhase_bounds: "0 \<le> getMoonPhase t \<and> getMoonPhase t < 1"
proof -
  have "0 \<le> js_rem (js_rem d synodic + synodic) synodic \<and> js_rem (js_rem d synodic + synodic) synodic < synodic" for d
    using js_rem_bounds(1) [of synodic d] js_rem_bounds(2,3) [of synodic "js_rem d synodic + synodic"] by simp
  then show ?thesis by (simp add: getMoonPhase_def Let_def)
qed

text \<open>
  A size is shown in its largest fitting unit: for every positive size below 1024 TB the printed
  number \<open>v\<close> satisfies \<open>1 \<le> v < 1024\<close> and \<open>v\<close> times the unit is exactly the size.
\<close>

theorem formatBytes_mantissa:
  assumes "0 < n" "n < 1024 ^ 5"
  shows "\<exists>e d v. formatBytes n = toFixed d v @ js '' '' @ byte_units ! e \<and> e < length byte_units \<and>
     of_int n = v * 1024 ^ e \<and> 1 \<le> v \<and> v < 1024 \<and>
     d = (if e = 0 \<or> v \<ge> 100 then 0 else if v \<ge> 10 then 1 else 2)"
proof -
  define e where "e = log1024 (nat n)"
  have b: "1024 ^ e \<le> nat n \<and> nat n < 1024 ^ Suc e"
    unfolding e_def using log1024_bounds [of "nat n"] assms by simp
  moreover have "nat n < 1024 ^ 5" using assms by (simp add: nat_less_iff)
  ultimately have "(1024::nat) ^ e < 1024 ^ 5" by linarith
  then have e4: "e \<le> 4" using power_strict_increasing_iff [of "1024::nat" e 5] by simp
  then have e5: "e < length byte_units" "min (length byte_units - 1) e = e" by (simp_all add: byte_units_def)
  have i: "(1024::int) ^ e \<le> n" "n < 1024 ^ Suc e"
    using b assms by (metis nat_le_iff of_nat_numeral of_nat_power zle_int int_nat_eq less_imp_le, simp add: nat_less_iff)
  have r: "(1024::rat) ^ e \<le> of_int n" "of_int n < (1024::rat) ^ Suc e"
    using i by (metis of_int_le_iff of_int_numeral of_int_power, metis of_int_less_iff of_int_numeral of_int_power)
  let ?v = "(of_int n :: rat) / 1024 ^ e"
  have v: "1 \<le> ?v" "?v < 1024" "of_int n = ?v * 1024 ^ e"
    using r by (simp_all add: le_divide_eq divide_less_eq)
  show ?thesis
    by (rule exI [of _ e], rule exI, rule exI [of _ ?v])
       (use v e5 assms in \<open>simp add: formatBytes_def Let_def flip: e_def\<close>)
qed

theorem formatBytes_mantissa_witness:
  "\<exists>e d v. formatBytes 1536 = toFixed d v @ js '' '' @ byte_units ! e \<and> (1536::rat) = v * 1024 ^ e"
proof -
  have "(0::int) < 1536" "(1536::int) < 1024 ^ 5" by simp_all
  from formatBytes_mantissa [OF this] show ?thesis by auto
qed

lemma find_pricing_exact: "(m, p) \<in> set MODEL_PRICING \<Longrightarrow> find_pricing m = Some p"
proof -
  have "distinct (map fst MODEL_PRICING)" by (simp add: MODEL_PRICING_def)
  then show "(m, p) \<in> set MODEL_PRICING \<Longrightarrow> find_pricing m = Some p"
    by (simp add: find_pricing_def)
qed

text \<open>
  The price of a dated model name is the first table entry that is a prefix of it, not the longest:
  a dated \<open>gpt-4o-mini\<close> is charged at the price of \<open>gpt-4o\<close>, almost seventeen times its own.
\<close>

theorem mini_model_overpriced:
  "estimateCost (js ''gpt-4o-mini-2024-07-18'') 1000000 0 = Some (5 / 2) \<and>
   estimateCost (js ''gpt-4o-mini'') 1000000 0 = Some (15 / 100)"
  by code_simp

end
