(* ===== verification/Quota.thy ===== *)
theory Quota
  imports AdminTypes Json Format RouteHealth
begin

text \<open>
  \<^verbatim>\<open>web/src/lib/codexQuota.ts\<close> and \<open>parseQuotaDisplay\<close> of \<^verbatim>\<open>lune.ts\<close>: reading the quota payload
  of a Codex account. A property access on \<open>null\<close> throws; \<open>parseCodexQuota\<close> has one such access
  outside its \<open>try\<close>, so its result is a sum with the error on the left.
\<close>

datatype window_tone = WOk | WWarning | WDanger

record quota_window =
  usedPercent :: rat
  limitWindowSeconds :: rat
  resetAfterSeconds :: rat
  resetAtMs :: rat

record quota_credits =
  hasCredits :: bool
  unlimited :: bool
  overageLimitReached :: bool
  balance :: jstr

record codex_quota =
  quota_primary :: quota_window
  quota_secondary :: "quota_window option"
  quota_allowed :: bool
  limitReached :: bool
  quota_credits_of :: "quota_credits option"
  spendControlReached :: bool

definition toNumber :: "json option \<Rightarrow> rat option" where
  "toNumber v =
     (case v of
        Some (JNum (Num x)) \<Rightarrow> Some x
      | Some (JStr s) \<Rightarrow>
          if trim s \<noteq> [] then (case string_to_number s of Num x \<Rightarrow> Some x | _ \<Rightarrow> None) else None
      | _ \<Rightarrow> None)"

definition parseWindow :: "json option \<Rightarrow> quota_window option" where
  "parseWindow raw =
     (case raw of
        Some (JObj kvs) \<Rightarrow>
          (let w = JObj kvs in
           case (toNumber (Some (json_nullish (json_get w (js ''used_percent'')) (JNum (Num 0)))),
                 toNumber (json_get w (js ''limit_window_seconds'')),
                 toNumber (json_get w (js ''reset_after_seconds'')),
                 toNumber (json_get w (js ''reset_at''))) of
             (Some u, Some l, Some a, Some t) \<Rightarrow>
               Some \<lparr>usedPercent = u, limitWindowSeconds = l, resetAfterSeconds = a,
                     resetAtMs = t * 1000\<rparr>
           | _ \<Rightarrow> None)
      | _ \<Rightarrow> None)"

definition parse_credits :: "json option \<Rightarrow> quota_credits option" where
  "parse_credits raw =
     (if json_bool raw then
        (let c = (case raw of None \<Rightarrow> JNull | Some j \<Rightarrow> j) in
         Some \<lparr>hasCredits = json_bool (json_get c (js ''has_credits'')),
               unlimited = json_bool (json_get c (js ''unlimited'')),
               overageLimitReached = json_bool (json_get c (js ''overage_limit_reached'')),
               balance = json_string (json_nullish (json_get c (js ''balance'')) (JStr []))\<rparr>)
      else None)"

definition parse_quota_json :: "json \<Rightarrow> codex_quota option" where
  "parse_quota_json parsed =
     (let rl = json_get parsed (js ''rate_limit'') in
      if \<not> json_bool rl then None
      else
        (let r = (case rl of None \<Rightarrow> JNull | Some j \<Rightarrow> j);
             primary = parseWindow (json_get r (js ''primary_window''));
             secondary = parseWindow (json_get r (js ''secondary_window''))
         in case primary of
              None \<Rightarrow> None
            | Some p \<Rightarrow>
                Some \<lparr>quota_primary = p, quota_secondary = secondary,
                      quota_allowed = (json_get r (js ''allowed'') \<noteq> Some (JBool False)),
                      limitReached = json_bool (json_get r (js ''limit_reached'')),
                      quota_credits_of = parse_credits (json_get parsed (js ''credits'')),
                      spendControlReached =
                        (case json_get parsed (js ''spend_control'') of
                           None \<Rightarrow> False
                         | Some sc \<Rightarrow> json_bool (json_get sc (js ''reached'')))\<rparr>))"

definition parseCodexQuota :: "account \<Rightarrow> js_error + codex_quota option" where
  "parseCodexQuota a =
     (if toLowerCase (cpa_provider a) \<noteq> js ''codex'' then Inr None
      else if \<not> truthy_str (codex_quota_json a) then Inr None
      else case json_parse (or_str (codex_quota_json a) []) of
        None \<Rightarrow> Inr None
      | Some JNull \<Rightarrow> Inl TypeError
      | Some parsed \<Rightarrow> Inr (parse_quota_json parsed))"

record weekly_meta =
  wm_text :: jstr
  wm_detail :: jstr

definition codexWeeklyWindowMeta :: "jstr option \<Rightarrow> jstr option \<Rightarrow> weekly_meta" where
  "codexWeeklyWindowMeta planType quotaErrorLabel =
     (if quotaErrorLabel = Some c_quota_query_failed then
        \<lparr>wm_text = c_quota_query_failed, wm_detail = c_quota_weekly_failed_detail\<rparr>
      else
        (let plan = toLowerCase (trim (or_str planType [])) in
         if plan = js ''free'' \<or> plan = js ''go'' then
           \<lparr>wm_text = c_no_weekly_quota, wm_detail = c_no_weekly_quota_detail\<rparr>
         else if plan = [] \<or> plan = js ''unknown'' then
           \<lparr>wm_text = c_weekly_unknown, wm_detail = c_weekly_unknown_detail\<rparr>
         else \<lparr>wm_text = c_weekly_pending, wm_detail = c_weekly_pending_detail\<rparr>))"

definition windowTone :: "rat \<Rightarrow> window_tone" where
  "windowTone remainPercent =
     (if remainPercent < 20 then WDanger else if remainPercent < 50 then WWarning else WOk)"

definition formatResetIn :: "jsnum \<Rightarrow> jstr" where
  "formatResetIn seconds =
     (case seconds of
        Num x \<Rightarrow>
          if x \<le> 0 then c_already_reset
          else
            (let days = \<lfloor>x / 86400\<rfloor>;
                 hours = \<lfloor>js_rem x 86400 / 3600\<rfloor>;
                 minutes = \<lfloor>js_rem x 3600 / 60\<rfloor>
             in if days > 0 then show_int days @ js ''d '' @ show_int hours @ js ''h''
                else if hours > 0 then show_int hours @ js ''h '' @ show_int minutes @ js ''m''
                else if minutes > 0 then show_int minutes @ js ''m''
                else show_int (max 1 \<lfloor>x\<rfloor>) @ js ''s'')
      | _ \<Rightarrow> c_already_reset)"

text \<open>A \<open>Date\<close> truncates its time value to whole milliseconds; out of range it is invalid.\<close>

definition formatResetAt :: "host \<Rightarrow> jsnum \<Rightarrow> jstr" where
  "formatResetAt h ms =
     (case ms of
        Num x \<Rightarrow>
          if x \<le> 0 \<or> x > 8640000000000000 then []
          else
            (let t = \<lfloor>x\<rfloor> in
             show_int (getFullYear h t) @ js ''-'' @ pad2 (getMonth h t + 1) @ js ''-'' @
             pad2 (getDate h t) @ js '' '' @ pad2 (getHours h t) @ js '':'' @ pad2 (getMinutes h t))
      | _ \<Rightarrow> [])"

abbreviation (input) STALE_THRESHOLD_MS :: int where "STALE_THRESHOLD_MS \<equiv> 900000"

definition isQuotaStale :: "host \<Rightarrow> jstr option \<Rightarrow> bool" where
  "isQuotaStale h fetchedAt =
     (if \<not> truthy_str fetchedAt then True
      else case parseSqliteUTC h fetchedAt of
        None \<Rightarrow> True
      | Some ms \<Rightarrow> now_ms h - ms > STALE_THRESHOLD_MS)"

definition parseQuotaDisplay :: "jstr \<Rightarrow> jstr" where
  "parseQuotaDisplay raw =
     (if raw = [] then js ''--''
      else case json_parse raw of
        None \<Rightarrow> raw
      | Some JNull \<Rightarrow> raw
      | Some d \<Rightarrow>
          (let pick = (\<lambda>k1 k2 k3.
                 json_nullish (json_get d k1)
                   (json_nullish (json_get d k2) (json_nullish (json_get d k3) JNull)));
               used = pick (js ''used'') (js ''current'') (js ''value'');
               total = pick (js ''total'') (js ''limit'') (js ''max'');
               unit = (if json_bool (json_get d (js ''unit''))
                       then js '' '' @ json_string (json_nullish (json_get d (js ''unit'')) JNull)
                       else [])
           in if used \<noteq> JNull \<and> total \<noteq> JNull
              then json_string used @ js '' / '' @ json_string total @ unit
              else if used \<noteq> JNull then json_string used @ unit
              else raw))"

section \<open>Lemmas\<close>

text \<open>
  The quota reader never invents a window: if it returns a quota, the account is a Codex account
  (in any letter case), its payload is a JSON object with a truthy \<open>rate_limit\<close>, the primary window is
  the numbers found there, and an unreadable secondary window is dropped without rejecting the quota.
\<close>

theorem parseCodexQuota_sound:
  assumes "parseCodexQuota a = Inr (Some q)"
  shows "toLowerCase (cpa_provider a) = js ''codex'' \<and>
    (\<exists>raw parsed rl. codex_quota_json a = Some raw \<and> json_parse raw = Some parsed \<and>
       json_get parsed (js ''rate_limit'') = Some rl \<and> json_truthy rl \<and>
       parseWindow (json_get rl (js ''primary_window'')) = Some (quota_primary q) \<and>
       parseWindow (json_get rl (js ''secondary_window'')) = quota_secondary q \<and>
       (quota_allowed q \<longleftrightarrow> json_get rl (js ''allowed'') \<noteq> Some (JBool False)))"
proof -
  obtain raw where raw: "toLowerCase (cpa_provider a) = js ''codex''" "codex_quota_json a = Some raw"
      "raw \<noteq> []"
    using assms by (auto simp: parseCodexQuota_def truthy_str_def split: if_splits option.splits)
  then obtain parsed where p: "json_parse raw = Some parsed" "parse_quota_json parsed = Some q"
    using assms
    by (auto simp: parseCodexQuota_def truthy_str_def split: option.splits json.splits)
  then obtain rl where "json_get parsed (js ''rate_limit'') = Some rl" "json_truthy rl"
    by (auto simp: parse_quota_json_def json_bool_def Let_def split: if_splits option.splits)
  with p raw show ?thesis
    by (auto simp: parse_quota_json_def json_bool_def Let_def split: option.splits)
qed

text \<open>The payload of the repository's own check script: a numeric string and a missing percentage.\<close>

definition sample_payload :: jstr where
  \<open>sample_payload = js ''{"rate_limit":{"primary_window":{"limit_window_seconds":"300","reset_after_seconds":120,"reset_at":1800000000}}}''\<close>

definition sample_quota_account :: account where
  "sample_quota_account =
     blank_account\<lparr>cpa_provider := js ''CoDeX'', codex_quota_json := Some sample_payload\<rparr>"

lemma sample_payload_json:
  "json_parse sample_payload = Some (JObj [(js ''rate_limit'', JObj [(js ''primary_window'',
     JObj [(js ''limit_window_seconds'', JStr (js ''300'')),
           (js ''reset_after_seconds'', JNum (Num 120)),
           (js ''reset_at'', JNum (Num 1800000000))])])])"
  by (rule json_parseI) (simp add: sample_payload_def json_eval)

lemma sample_payload_parse:
  "map_option parse_quota_json (json_parse sample_payload) =
     Some (Some \<lparr>quota_primary = \<lparr>usedPercent = 0, limitWindowSeconds = 300, resetAfterSeconds = 120,
                                   resetAtMs = 1800000000000\<rparr>,
                 quota_secondary = None, quota_allowed = True, limitReached = False,
                 quota_credits_of = None, spendControlReached = False\<rparr>)"
proof -
  have "toNumber (Some (JStr (js ''300''))) = Some 300"
    by (simp add: toNumber_def string_to_number_def trim_def is_js_space_def js_def toLowerCase_def
        lower_unit_def decimal_value_def exponent_part_def is_digit_def digits_val_def pow10_def
        to_double_def)
  then show ?thesis
    by (simp add: sample_payload_json parse_quota_json_def json_get_def json_bool_def parseWindow_def
        toNumber_def json_nullish_def parse_credits_def)
qed

lemma sample_quota_account_parse:
  "parseCodexQuota sample_quota_account =
     Inr (Some \<lparr>quota_primary = \<lparr>usedPercent = 0, limitWindowSeconds = 300, resetAfterSeconds = 120,
                                   resetAtMs = 1800000000000\<rparr>,
                 quota_secondary = None, quota_allowed = True, limitReached = False,
                 quota_credits_of = None, spendControlReached = False\<rparr>)"
proof -
  have cd: "toLowerCase (js ''CoDeX'') = js ''codex''" by code_simp
  have ne: "sample_payload \<noteq> []" by (simp add: sample_payload_def)
  obtain z where z: "json_parse sample_payload = Some z"
    using sample_payload_parse by (cases "json_parse sample_payload") simp_all
  have q: "parse_quota_json z = Some \<lparr>quota_primary = \<lparr>usedPercent = 0, limitWindowSeconds = 300,
        resetAfterSeconds = 120, resetAtMs = 1800000000000\<rparr>,
      quota_secondary = None, quota_allowed = True, limitReached = False,
      quota_credits_of = None, spendControlReached = False\<rparr>"
    using sample_payload_parse by (simp add: z)
  have "parse_quota_json JNull = None"
    by (simp add: parse_quota_json_def json_get_def json_bool_def)
  with q have nn: "z \<noteq> JNull" by (metis option.distinct(1))
  have "codex_quota_json sample_quota_account = Some sample_payload"
      "cpa_provider sample_quota_account = js ''CoDeX''"
    by (simp_all add: sample_quota_account_def)
  then show ?thesis
    using nn q by (cases z) (simp_all add: parseCodexQuota_def cd ne truthy_str_def z)
qed

theorem parseCodexQuota_sound_witness:
  "\<exists>q. parseCodexQuota sample_quota_account = Inr (Some q) \<and> usedPercent (quota_primary q) = 0 \<and>
     toLowerCase (cpa_provider sample_quota_account) = js ''codex''"
  using parseCodexQuota_sound [OF sample_quota_account_parse] sample_quota_account_parse by auto

text \<open>
  The quota reader throws on exactly one kind of payload: a Codex account whose payload is the
  JSON text \<open>null\<close>. Every other payload, malformed JSON included, gives a quota or nothing.
\<close>

theorem parseCodexQuota_throws_iff:
  "parseCodexQuota a = Inl TypeError \<longleftrightarrow>
     toLowerCase (cpa_provider a) = js ''codex'' \<and>
     (\<exists>raw. codex_quota_json a = Some raw \<and> raw \<noteq> [] \<and> json_parse raw = Some JNull)"
  by (auto simp: parseCodexQuota_def truthy_str_def split: option.splits json.splits)

end
