(* ===== verification/Requests.thy ===== *)
theory Requests
  imports Json
begin

text \<open>
  \<^verbatim>\<open>web/src/lib/api.ts\<close>: the one function every page calls the admin API with, and the contract by
  which the pages discard answers that arrive too late. \<open>fetch\<close> is the browser's: a parameter that
  gives a response or, with \<open>None\<close>, a rejected promise (no connection). A call returns whether it
  dispatched \<open>lune:auth-error\<close> and either an exception or the \<open>data\<close> field of the answer
  (\<open>None\<close> is \<open>undefined\<close>).

  Locale \<open>latest_wins\<close> is the interface of a page that numbers its requests and ignores the answer to
  any but the newest; the pages interpret it on their own step functions.
\<close>

section \<open>Requests\<close>

record fetch_request =
  rq_method :: jstr
  rq_url :: jstr
  rq_json_header :: bool
  rq_body :: "jstr option"

text \<open>A response: \<open>rs_json\<close> is \<open>None\<close> where \<open>res.json()\<close> rejects.\<close>

record http_response =
  rs_code :: int
  rs_statusText :: jstr
  rs_json :: "json option"

datatype api_failure =
    ApiError int jstr
  | NetworkError
  | ScriptError js_error

type_synonym api_result = "bool \<times> (api_failure + json option)"

definition res_ok :: "http_response \<Rightarrow> bool" where
  "res_ok r \<longleftrightarrow> 200 \<le> rs_code r \<and> rs_code r \<le> 299"

text \<open>\<open>v?.key\<close> and \<open>v.key\<close>; the latter throws on \<open>null\<close> and \<open>undefined\<close>.\<close>

definition opt_get :: "json option \<Rightarrow> jstr \<Rightarrow> json option" where
  "opt_get v k = (case v of None \<Rightarrow> None | Some j \<Rightarrow> json_get j k)"

definition prop_get :: "json \<Rightarrow> jstr \<Rightarrow> js_error + json option" where
  "prop_get v k = (if v = JNull then Inl TypeError else Inr (json_get v k))"

definition error_body :: "http_response \<Rightarrow> json" where
  "error_body r =
     (case rs_json r of
        Some j \<Rightarrow> j
      | None \<Rightarrow> JObj [(js ''error'', JObj [(js ''message'', JStr (rs_statusText r))])])"

definition error_text :: "json option \<Rightarrow> jstr" where
  "error_text err =
     json_string (json_nullish (opt_get err (js ''message''))
       (json_nullish (opt_get err (js ''code'')) (JStr (js ''Unknown error''))))"

text \<open>What both request functions do with the answer.\<close>

definition handle_response :: "http_response \<Rightarrow> api_result" where
  "handle_response r =
     (rs_code r = 401,
      if \<not> res_ok r then
        (case prop_get (error_body r) (js ''error'') of
           Inl e \<Rightarrow> Inl (ScriptError e)
         | Inr err \<Rightarrow> Inl (ApiError (rs_code r) (error_text err)))
      else
        (case prop_get (case rs_json r of Some j \<Rightarrow> j | None \<Rightarrow> JObj [(js ''data'', JNull)]) (js ''data'') of
           Inl e \<Rightarrow> Inl (ScriptError e)
         | Inr d \<Rightarrow> Inr d))"

definition send_request :: "(fetch_request \<Rightarrow> http_response option) \<Rightarrow> fetch_request \<Rightarrow> api_result" where
  "send_request fetch rq =
     (case fetch rq of None \<Rightarrow> (False, Inl NetworkError) | Some r \<Rightarrow> handle_response r)"

text \<open>\<open>body\<close> is the value passed by the caller; a falsy one is sent as no body at all.\<close>

definition request :: "(fetch_request \<Rightarrow> http_response option) \<Rightarrow> jstr \<Rightarrow> jstr \<Rightarrow> json option \<Rightarrow> api_result"
  where
  "request fetch method path body =
     (let given = json_bool body in
      send_request fetch
        \<lparr>rq_method = method, rq_url = js ''/admin/api'' @ path, rq_json_header = given,
         rq_body = (if given then map_option json_stringify body else None)\<rparr>)"

text \<open>A \<open>FormData\<close> body is opaque: its serialised text is the argument.\<close>

definition formRequest :: "(fetch_request \<Rightarrow> http_response option) \<Rightarrow> jstr \<Rightarrow> jstr \<Rightarrow> jstr \<Rightarrow> api_result" where
  "formRequest fetch method path body =
     send_request fetch
       \<lparr>rq_method = method, rq_url = js ''/admin/api'' @ path, rq_json_header = False, rq_body = Some body\<rparr>"

definition api_get :: "(fetch_request \<Rightarrow> http_response option) \<Rightarrow> jstr \<Rightarrow> api_result" where
  "api_get fetch path = request fetch (js ''GET'') path None"

definition api_post :: "(fetch_request \<Rightarrow> http_response option) \<Rightarrow> jstr \<Rightarrow> json option \<Rightarrow> api_result" where
  "api_post fetch path body = request fetch (js ''POST'') path body"

definition api_put :: "(fetch_request \<Rightarrow> http_response option) \<Rightarrow> jstr \<Rightarrow> json option \<Rightarrow> api_result" where
  "api_put fetch path body = request fetch (js ''PUT'') path body"

definition api_delete :: "(fetch_request \<Rightarrow> http_response option) \<Rightarrow> jstr \<Rightarrow> api_result" where
  "api_delete fetch path = request fetch (js ''DELETE'') path None"

section \<open>Failures as the pages see them\<close>

text \<open>A request that failed: the status of an \<open>ApiError\<close>, and the message of an \<open>Error\<close>.\<close>

record call_failure =
  cf_status :: "int option"
  cf_message :: "jstr option"

text \<open>\<open>err instanceof Error ? err.message : fallback\<close>.\<close>

definition failure_text :: "call_failure \<Rightarrow> jstr \<Rightarrow> jstr" where
  "failure_text f fallback = nullish (cf_message f) fallback"

definition throw_error :: "jstr \<Rightarrow> call_failure" where
  "throw_error msg = \<lparr>cf_status = None, cf_message = Some msg\<rparr>"

section \<open>The newest request wins\<close>

text \<open>
  \<open>answer e\<close> is the number of the request that the event \<open>e\<close> answers, if it is an answer.
\<close>

locale latest_wins =
  fixes step :: "'s \<Rightarrow> 'e \<Rightarrow> 's"
    and newest :: "'s \<Rightarrow> nat"
    and answer :: "'e \<Rightarrow> nat option"
  assumes stale_ignored: "answer e = Some i \<Longrightarrow> i \<noteq> newest s \<Longrightarrow> step s e = s"
    and newest_mono: "newest s \<le> newest (step s e)"
begin

text \<open>
  Once a newer request is out, the answers to an older one can be dropped from any later history,
  wherever they arrive in it.
\<close>

lemma superseded_answers_ignored:
  "i < newest s \<Longrightarrow> foldl step s es = foldl step s (filter (\<lambda>e. answer e \<noteq> Some i) es)"
proof (induction es arbitrary: s)
  case (Cons e es)
  have "i < newest (step s e)"
    using Cons.prems newest_mono [of s e] by simp
  with Cons.IH have IH: "foldl step (step s e) es =
      foldl step (step s e) (filter (\<lambda>e. answer e \<noteq> Some i) es)" .
  show ?case
  proof (cases "answer e = Some i")
    case True
    then have "step s e = s"
      using Cons.prems by (simp add: stale_ignored)
    with True IH show ?thesis by simp
  qed (use IH in simp)
qed simp

lemma all_superseded_answers_ignored:
  "foldl step s es = foldl step s (filter (\<lambda>e. \<forall>i. answer e = Some i \<longrightarrow> newest s \<le> i) es)"
proof (induction es rule: rev_induct)
  case (snoc e es)
  have m: "newest s \<le> newest (foldl step s xs)" for xs
    by (induction xs rule: rev_induct) (auto intro: order_trans newest_mono)
  show ?case
  proof (cases "\<exists>i. answer e = Some i \<and> i < newest s")
    case True
    then obtain i where i: "answer e = Some i" "i < newest s" by blast
    then have "step (foldl step s es) e = foldl step s es"
      using m [of es] by (intro stale_ignored [OF i(1)]) simp
    with i snoc show ?thesis by auto
  next
    case False
    then have "\<forall>i. answer e = Some i \<longrightarrow> newest s \<le> i" by (metis not_less)
    with snoc show ?thesis by simp
  qed
qed simp

end

section \<open>Lemmas\<close>

text \<open>
  The API client never hands an error answer to a page as data: whatever the server sends, an
  answer outside 200..299 ends in an exception, a 401 also raises the session event, and an answer in
  200..299 is returned as its \<open>data\<close> field, even when its body is not JSON. The one exception on a
  good answer is the body \<open>null\<close>.
\<close>

theorem send_request_outcome:
  "send_request fetch rq =
     (case fetch rq of
        None \<Rightarrow> (False, Inl NetworkError)
      | Some r \<Rightarrow>
          if rs_json r = Some JNull then (rs_code r = 401, Inl (ScriptError TypeError))
          else if res_ok r then
            (False, Inr (case rs_json r of None \<Rightarrow> Some JNull | Some j \<Rightarrow> json_get j (js ''data'')))
          else (rs_code r = 401, Inl (ApiError (rs_code r)
                 (case rs_json r of None \<Rightarrow> rs_statusText r | Some j \<Rightarrow> error_text (json_get j (js ''error''))))))"
  by (auto simp: send_request_def handle_response_def prop_get_def error_body_def error_text_def opt_get_def
      json_get_def json_nullish_def res_ok_def split: option.splits json.splits)

end
