(* ===== verification/Alerts.thy ===== *)
theory Alerts
  imports AdminTypes Json Copy
begin

text \<open>
  \<^verbatim>\<open>web/src/pages/OverviewPage/alertUtils.ts\<close>: reading the English alert messages of the backend
  back into a label and a detail, their Chinese sentences, and the persisted set of dismissed alerts.
  The messages themselves are built by \<^verbatim>\<open>internal/store/stats.go\<close>; \<open>backend_message\<close> is that
  code, with Go's \<open>%q\<close> spelled out rune by rune, and the round trip through \<open>parseAlert\<close> is proved
  against it.
\<close>

datatype alert_kind =
    AccountExpiring
  | CpaCredentialError
  | CpaQuotaBlocked
  | AccountError
  | PoolUnhealthy
  | OtherAlert

record parsed_alert =
  pa_label :: jstr
  pa_detail :: jstr
  pa_kind :: alert_kind

section \<open>The regular expressions\<close>

text \<open>
  The expressions of the source are deterministic: a run of spaces is followed by a class that does not
  start with a space or by a class that takes the whole rest, so the greedy match is the only one that
  can succeed. \<open>.\<close> matches every unit but a line terminator; the flag \<open>i\<close> without \<open>u\<close> folds ASCII
  letters only with each other.
\<close>

definition is_line_end :: "nat \<Rightarrow> bool" where
  "is_line_end c \<longleftrightarrow> c = 10 \<or> c = 13 \<or> c = 0x2028 \<or> c = 0x2029"

definition one_line :: "jstr \<Rightarrow> bool" where
  "one_line s \<longleftrightarrow> list_all (\<lambda>c. \<not> is_line_end c) s"

definition skip_space :: "jstr \<Rightarrow> jstr" where
  "skip_space s = dropWhile is_js_space s"

definition ascii_lower :: "nat \<Rightarrow> nat" where
  "ascii_lower c = (if 65 \<le> c \<and> c \<le> 90 then c + 32 else c)"

text \<open>The rest after a literal prefix, exactly and with the flag \<open>i\<close>.\<close>

definition after_prefix :: "jstr \<Rightarrow> jstr \<Rightarrow> jstr option" where
  "after_prefix p s = (if startsWith s p then Some (drop (length p) s) else None)"

definition after_prefix_i :: "jstr \<Rightarrow> jstr \<Rightarrow> jstr option" where
  "after_prefix_i p s =
     (if map ascii_lower (take (length p) s) = map ascii_lower p then Some (drop (length p) s) else None)"

text \<open>\<open>/^(?:Account|Pool)\s+"([^"]+)"\s*(.*)$/\<close>: the two groups.\<close>

definition match_subject :: "jstr \<Rightarrow> (jstr \<times> jstr) option" where
  "match_subject msg =
     (case (case after_prefix (js ''Account'') msg of
              None \<Rightarrow> after_prefix (js ''Pool'') msg
            | Some r \<Rightarrow> Some r) of
        None \<Rightarrow> None
      | Some r \<Rightarrow>
          (let q = skip_space r in
           if length q = length r then None
           else case q of
             [] \<Rightarrow> None
           | c # r1 \<Rightarrow>
               if c \<noteq> 34 then None
               else
                 (let label = takeWhile (\<lambda>u. u \<noteq> 34) r1; r2 = dropWhile (\<lambda>u. u \<noteq> 34) r1 in
                  if label = [] \<or> r2 = [] then None
                  else (let rest = skip_space (tl r2) in
                        if one_line rest then Some (label, rest) else None))))"

text \<open>\<open>/^expires at\s+(.+)$/i\<close>; a subject that is all spaces gives its last one to the group.\<close>

definition match_expires :: "jstr \<Rightarrow> jstr option" where
  "match_expires s =
     (case after_prefix_i (js ''expires at'') s of
        None \<Rightarrow> None
      | Some r \<Rightarrow>
          (let q = skip_space r in
           if length q = length r then None
           else if q = [] then (if length r < 2 then None
                                else if one_line [last r] then Some [last r] else None)
           else if one_line q then Some q else None))"

text \<open>\<open>/^phrase(?::\s*(.*))?$/i\<close>: the outer option is the match, the inner one the group.\<close>

definition match_colon :: "jstr \<Rightarrow> jstr \<Rightarrow> jstr option option" where
  "match_colon phrase s =
     (case after_prefix_i phrase s of
        None \<Rightarrow> None
      | Some [] \<Rightarrow> Some None
      | Some (c # r) \<Rightarrow>
          if c = 58 \<and> one_line (skip_space r) then Some (Some (skip_space r)) else None)"

section \<open>The parser and the sentences\<close>

definition kind_of_type :: "jstr \<Rightarrow> alert_kind" where
  "kind_of_type t =
     (if t = js ''account_expiring'' \<or> t = js ''expiring'' then AccountExpiring
      else if t = js ''cpa_credential_error'' then CpaCredentialError
      else if t = js ''cpa_quota_blocked'' then CpaQuotaBlocked
      else if t = js ''account_error'' \<or> t = js ''error'' then AccountError
      else if t = js ''pool_unhealthy'' then PoolUnhealthy
      else OtherAlert)"

text \<open>\<open>colon && colon[1] ? colon[1].trim() : ""\<close>.\<close>

definition colon_detail :: "jstr option option \<Rightarrow> jstr" where
  "colon_detail m = (case m of Some (Some g) \<Rightarrow> if g = [] then [] else trim g | _ \<Rightarrow> [])"

definition detail_of :: "alert_kind \<Rightarrow> jstr \<Rightarrow> jstr" where
  "detail_of kind detail =
     (case kind of
        AccountExpiring \<Rightarrow> (case match_expires detail of Some g \<Rightarrow> trim g | None \<Rightarrow> detail)
      | CpaCredentialError \<Rightarrow> colon_detail (match_colon (js ''CPA credential requires login'') detail)
      | CpaQuotaBlocked \<Rightarrow> colon_detail (match_colon (js ''CPA quota is blocked'') detail)
      | AccountError \<Rightarrow> colon_detail (match_colon (js ''has error status'') detail)
      | _ \<Rightarrow> [])"

definition parseAlert :: "overview_alert \<Rightarrow> parsed_alert" where
  "parseAlert a =
     (let kind = kind_of_type (alert_type a) in
      case match_subject (alert_message a) of
        Some (label, rest) \<Rightarrow>
          \<lparr>pa_label = label, pa_detail = detail_of kind (trim rest), pa_kind = kind\<rparr>
      | None \<Rightarrow> \<lparr>pa_label = [], pa_detail = alert_message a, pa_kind = kind\<rparr>)"

definition formatCn :: "overview_alert \<Rightarrow> parsed_alert \<Rightarrow> jstr" where
  "formatCn a p =
     (let label = (if pa_label p \<noteq> [] then c_lb_corner @ pa_label p @ c_rb_corner else []);
          d = pa_detail p
      in case pa_kind p of
           AccountExpiring \<Rightarrow> c_account @ label @ c_will_at @ d @ c_expire
         | CpaCredentialError \<Rightarrow>
             if d \<noteq> [] then c_account @ label @ c_login_invalid_colon @ d
             else c_account @ label @ c_login_invalid_relogin
         | CpaQuotaBlocked \<Rightarrow>
             if d \<noteq> [] then c_account @ label @ c_quota_limited_colon @ d
             else c_account @ label @ c_quota_limited
         | AccountError \<Rightarrow>
             if d \<noteq> [] then c_account @ label @ c_status_abnormal_colon @ d
             else c_account @ label @ c_status_abnormal
         | PoolUnhealthy \<Rightarrow> js ''Pool'' @ label @ c_no_routable_account
         | OtherAlert \<Rightarrow> alert_message a)"

definition fingerprint :: "overview_alert \<Rightarrow> parsed_alert \<Rightarrow> jstr" where
  "fingerprint a p =
     join_with (js ''|'')
       [alert_type a, show_int (nullish (alert_pool_id a) 0), pa_label p, pa_detail p]"

section \<open>Dismissed alerts\<close>

text \<open>
  The entry of \<open>localStorage\<close> under \<open>DISMISS_STORAGE_KEY\<close>. Reading and writing may throw (storage
  disabled, quota exceeded); both are caught. A JavaScript \<open>Set\<close> is the list of its elements in
  insertion order; what is read back may hold any JSON value, of which arrays and objects are equal
  only to themselves.
\<close>

record local_storage =
  dismissals_item :: "jstr option"
  can_read :: bool
  can_write :: bool

fun is_reference :: "json \<Rightarrow> bool" where
  "is_reference (JArr _) = True"
| "is_reference (JObj _) = True"
| "is_reference _ = False"

definition set_add :: "json \<Rightarrow> json list \<Rightarrow> json list" where
  "set_add x s = (if x \<in> set s \<and> \<not> is_reference x then s else s @ [x])"

definition new_set :: "json list \<Rightarrow> json list" where
  "new_set xs = foldl (\<lambda>s x. set_add x s) [] xs"

definition set_has :: "json list \<Rightarrow> jstr \<Rightarrow> bool" where
  "set_has s fp \<longleftrightarrow> JStr fp \<in> set s"

definition loadDismissed :: "local_storage \<Rightarrow> json list" where
  "loadDismissed st =
     (if \<not> can_read st then []
      else if \<not> truthy_str (dismissals_item st) then []
      else case json_parse (or_str (dismissals_item st) []) of
        Some (JArr arr) \<Rightarrow> new_set arr
      | _ \<Rightarrow> [])"

definition saveDismissed :: "json list \<Rightarrow> local_storage \<Rightarrow> local_storage" where
  "saveDismissed s st =
     (if can_write st then st\<lparr>dismissals_item := Some (json_stringify (JArr s))\<rparr> else st)"

definition filterVisible :: "overview_alert list \<Rightarrow> json list \<Rightarrow> (overview_alert \<times> parsed_alert) list" where
  "filterVisible alerts dismissed =
     filter (\<lambda>(a, p). if pa_kind p \<noteq> AccountExpiring then True
                      else \<not> set_has dismissed (fingerprint a p))
       (map (\<lambda>a. (a, parseAlert a)) alerts)"

section \<open>The messages of the backend\<close>

text \<open>
  The message that \<^verbatim>\<open>GetOverview\<close> builds for an alert type, a label and its detail. The label is a
  Go string, a list of runes, printed with \<open>%q\<close>: a double quote and a backslash are escaped by a
  backslash, a printable rune stands for itself, the seven control runes with a letter of their own
  and the other control runes are escaped, and so are the runes that Go does not consider printable.
  Which runes beyond ASCII are printable is Go's table \<open>strconv.IsPrint\<close>, the parameter \<open>pr\<close>. The
  console reads the message as UTF-16 units.
\<close>

definition utf16 :: "nat \<Rightarrow> jstr" where
  "utf16 r =
     (if r < 0x10000 then [r]
      else [0xD800 + (r - 0x10000) div 1024, 0xDC00 + (r - 0x10000) mod 1024])"

definition go_printable :: "(nat \<Rightarrow> bool) \<Rightarrow> nat \<Rightarrow> bool" where
  "go_printable pr r = (if r < 128 then 32 \<le> r \<and> r < 127 else pr r)"

fun hex_padded :: "nat \<Rightarrow> nat \<Rightarrow> jstr" where
  "hex_padded 0 n = []"
| "hex_padded (Suc w) n = hex_padded w (n div 16) @ [hex_digit (n mod 16)]"

definition go_letters :: "nat \<Rightarrow> nat option" where
  "go_letters = map_of [(7, 97), (8, 98), (12, 102), (10, 110), (13, 114), (9, 116), (11, 118)]"

definition go_rune :: "(nat \<Rightarrow> bool) \<Rightarrow> nat \<Rightarrow> jstr" where
  "go_rune pr r =
     (if r = 34 \<or> r = 92 then [92, r]
      else if go_printable pr r then utf16 r
      else case go_letters r of
        Some c \<Rightarrow> [92, c]
      | None \<Rightarrow>
          if r < 32 \<or> r = 127 then [92, 120] @ hex_padded 2 r
          else if r < 0x10000 then [92, 117] @ hex_padded 4 r
          else [92, 85] @ hex_padded 8 r)"

definition go_escape :: "(nat \<Rightarrow> bool) \<Rightarrow> nat list \<Rightarrow> jstr" where
  "go_escape pr label = concat (map (go_rune pr) label)"

fun backend_type :: "alert_kind \<Rightarrow> jstr" where
  "backend_type AccountExpiring = js ''account_expiring''"
| "backend_type CpaCredentialError = js ''cpa_credential_error''"
| "backend_type CpaQuotaBlocked = js ''cpa_quota_blocked''"
| "backend_type AccountError = js ''account_error''"
| "backend_type PoolUnhealthy = js ''pool_unhealthy''"
| "backend_type OtherAlert = js ''other''"

definition backend_phrase :: "alert_kind \<Rightarrow> jstr \<Rightarrow> jstr" where
  "backend_phrase k d =
     (case k of
        AccountExpiring \<Rightarrow> js ''expires at '' @ d
      | CpaCredentialError \<Rightarrow> js ''CPA credential requires login: '' @ d
      | CpaQuotaBlocked \<Rightarrow>
          js ''CPA quota is blocked: '' @ (if d = [] then js ''quota blocked'' else d)
      | AccountError \<Rightarrow>
          js ''has error status'' @ (if d \<noteq> [] then js '': '' @ d else [])
      | _ \<Rightarrow> js ''has no routable accounts'')"

definition backend_message :: "(nat \<Rightarrow> bool) \<Rightarrow> alert_kind \<Rightarrow> nat list \<Rightarrow> jstr \<Rightarrow> jstr" where
  "backend_message pr k label d =
     (if k = PoolUnhealthy then js ''Pool '' else js ''Account '') @ [34] @ go_escape pr label @ [34] @
     js '' '' @ backend_phrase k d"

text \<open>A label that is printed as it is: every rune is printable and none is a quote or a backslash.\<close>

definition plain_label :: "(nat \<Rightarrow> bool) \<Rightarrow> nat list \<Rightarrow> bool" where
  "plain_label pr label \<longleftrightarrow> list_all (\<lambda>r. go_printable pr r \<and> r \<noteq> 34 \<and> r \<noteq> 92) label"

text \<open>A text as the backend appends it: on one line, with no space at either end.\<close>

definition plain_text :: "jstr \<Rightarrow> bool" where
  "plain_text d \<longleftrightarrow> one_line d \<and> (d \<noteq> [] \<longrightarrow> \<not> is_js_space (hd d) \<and> \<not> is_js_space (last d))"

definition shown_detail :: "alert_kind \<Rightarrow> jstr \<Rightarrow> jstr" where
  "shown_detail k d =
     (if k = PoolUnhealthy then [] else if k = CpaQuotaBlocked \<and> d = [] then js ''quota blocked'' else d)"

section \<open>Lemmas\<close>

lemma skip_space_simps [simp]:
  "skip_space (32 # s) = skip_space s" "skip_space (34 # s) = 34 # s"
  by (simp_all add: skip_space_def is_js_space_def)

lemma length_skip_space: "length (skip_space s) \<le> length s"
  by (simp add: skip_space_def length_dropWhile_le)

lemma match_subject_quoted:
  assumes "label \<noteq> []" and "34 \<notin> set label" and "one_line (skip_space rest)"
  shows "match_subject ((if pool then js ''Pool '' else js ''Account '') @ 34 # label @ 34 # rest) =
    Some (label, skip_space rest)"
proof -
  have tw: "takeWhile (\<lambda>u. u \<noteq> 34) (label @ 34 # rest) = label"
    using assms(2) by (subst takeWhile_append2) auto
  have dw: "dropWhile (\<lambda>u. u \<noteq> 34) (label @ 34 # rest) = 34 # rest"
    using assms(2) by (subst dropWhile_append2) auto
  show ?thesis
    using assms(1,3)
    by (cases pool)
       (simp_all add: match_subject_def after_prefix_def startsWith_def js_def Let_def tw dw)
qed

lemma after_prefix_i_append [simp]: "after_prefix_i p (p @ r) = Some r"
  by (simp add: after_prefix_i_def)

lemma after_prefix_i_self [simp]: "after_prefix_i p p = Some []"
  by (simp add: after_prefix_i_def)

lemma plain_textD:
  assumes "plain_text d"
  shows "one_line d" "skip_space d = d" "trim d = d"
proof -
  show "one_line d" "skip_space d = d"
    using assms by (auto simp: plain_text_def skip_space_def dropWhile_eq_self_iff)
  show "trim d = d"
    using assms by (cases "d = []") (auto simp: plain_text_def trim_id trim_def [of "[]"])
qed

lemma plain_text_append:
  "plain_text d \<Longrightarrow> d \<noteq> [] \<Longrightarrow> one_line p \<Longrightarrow> p \<noteq> [] \<Longrightarrow> \<not> is_js_space (hd p) \<Longrightarrow> plain_text (p @ d)"
  by (auto simp: plain_text_def one_line_def)

lemma match_colon_detail:
  "plain_text d \<Longrightarrow> colon_detail (match_colon p (p @ 58 # 32 # d)) = d"
  using plain_textD [of d] by (simp add: match_colon_def colon_detail_def)

lemma match_colon_bare: "colon_detail (match_colon p p) = []"
  by (simp add: match_colon_def colon_detail_def)

lemma match_expires_detail:
  assumes "plain_text d" "d \<noteq> []"
  shows "match_expires (js ''expires at '' @ d) = Some d"
proof -
  have "js ''expires at '' @ d = js ''expires at'' @ 32 # d" by (simp add: js_def)
  then show ?thesis
    using plain_textD [OF assms(1)] assms(2) by (simp add: match_expires_def)
qed

lemma js_phrases:
  "js ''CPA credential requires login: '' @ d = js ''CPA credential requires login'' @ 58 # 32 # d"
  "js ''CPA quota is blocked: '' @ d = js ''CPA quota is blocked'' @ 58 # 32 # d"
  "js '': '' @ d = 58 # 32 # d"
  by (simp_all add: js_def)

lemmas literal_units = one_line_def js_def is_line_end_def is_js_space_def

lemma backend_phrase_plain:
  assumes "plain_text d" and "k \<in> {AccountExpiring, CpaCredentialError} \<Longrightarrow> d \<noteq> []"
  shows "plain_text (backend_phrase k d)"
proof -
  have e: "plain_text (if d = [] then js ''quota blocked'' else d)"
      "(if d = [] then js ''quota blocked'' else d) \<noteq> []"
    using assms(1) by (simp_all add: plain_text_def literal_units)
  have t: "plain_text (js ''has error status'')" "plain_text (js ''has no routable accounts'')"
    by (simp_all add: plain_text_def literal_units)
  have p: "one_line (js ''expires at '')" "\<not> is_js_space (hd (js ''expires at ''))"
      "one_line (js ''CPA credential requires login: '')"
      "\<not> is_js_space (hd (js ''CPA credential requires login: ''))"
      "one_line (js ''CPA quota is blocked: '')" "\<not> is_js_space (hd (js ''CPA quota is blocked: ''))"
      "one_line (js ''has error status'')" "\<not> is_js_space (hd (js ''has error status''))"
      "one_line (js '': '')" "\<not> is_js_space (hd (js '': ''))"
    by (simp_all add: literal_units)
  show ?thesis
    using assms e t p by (cases k) (auto simp: backend_phrase_def intro!: plain_text_append)
qed

lemma detail_of_backend_phrase:
  assumes "plain_text d" and "k \<in> {AccountExpiring, CpaCredentialError} \<Longrightarrow> d \<noteq> []" "k \<noteq> OtherAlert"
  shows "detail_of k (backend_phrase k d) = shown_detail k d"
proof -
  have "plain_text (js ''quota blocked'')"
    by (simp add: plain_text_def literal_units)
  then show ?thesis
    using assms plain_textD(3) [OF assms(1)]
    by (cases k) (auto simp: detail_of_def backend_phrase_def shown_detail_def js_phrases
        match_expires_detail match_colon_detail match_colon_bare)
qed

lemma hex_digit_cases: "n < 16 \<Longrightarrow> hex_digit n \<noteq> 34"
  by (simp add: hex_digit_def)

lemma hex_padded_no_quote: "34 \<notin> set (hex_padded w n)"
  by (induction w arbitrary: n) (use hex_digit_cases in auto)

lemma go_letters_no_quote: "go_letters r = Some c \<Longrightarrow> c \<noteq> 34"
  by (auto simp: go_letters_def split: if_splits)

lemma go_rune_no_quote: "r \<noteq> 34 \<Longrightarrow> 34 \<notin> set (go_rune pr r)"
  by (auto simp: go_rune_def utf16_def hex_padded_no_quote go_letters_no_quote split: option.splits)

lemma go_rune_nonempty: "go_rune pr r \<noteq> []"
  by (simp add: go_rune_def utf16_def split: option.splits)

lemma go_escape_quoted:
  assumes "label \<noteq> []" and "34 \<notin> set label"
  shows "go_escape pr label \<noteq> []" "34 \<notin> set (go_escape pr label)"
proof -
  show "go_escape pr label \<noteq> []"
    using assms(1) by (cases label) (simp_all add: go_escape_def go_rune_nonempty)
  show "34 \<notin> set (go_escape pr label)"
    using assms(2) by (induction label) (auto simp: go_escape_def go_rune_no_quote)
qed

lemma go_escape_plain: "plain_label pr label \<Longrightarrow> go_escape pr label = concat (map utf16 label)"
  by (induction label) (simp_all add: plain_label_def go_escape_def go_rune_def)

lemmas go_defs = go_escape_def go_rune_def go_printable_def go_letters_def utf16_def plain_label_def

lemma match_subject_backend:
  assumes "label \<noteq> []" and "34 \<notin> set label" and "plain_text (backend_phrase k d)"
  shows "match_subject (backend_message pr k label d) = Some (go_escape pr label, backend_phrase k d)"
  using match_subject_quoted [OF go_escape_quoted [OF assms(1,2)],
      where rest = "js '' '' @ backend_phrase k d" and pool = "k = PoolUnhealthy"] plain_textD [OF assms(3)]
  by (simp add: backend_message_def js_def)

text \<open>
  C18: The console reads back what the backend writes. For each alert type, each label that is not
  empty and holds no double quote and each detail on one line without spaces at its ends (an expiry
  date and a credential detail are not empty), the message built by the store is parsed into that kind,
  that detail (a pool alert has none, and an empty quota error is the store's own default text) and the
  label as Go's \<open>%q\<close> writes it. That is the label itself if every rune of it is printable and none is a
  backslash; a backslash, a control rune or an unprintable rune is shown escaped.
\<close>

theorem parseAlert_backend_message:
  assumes "label \<noteq> []" and "34 \<notin> set label" and "plain_text d"
    and "k \<in> {AccountExpiring, CpaCredentialError} \<Longrightarrow> d \<noteq> []" and "k \<noteq> OtherAlert"
  shows "parseAlert \<lparr>alert_type = backend_type k, alert_message = backend_message pr k label d,
           alert_pool_id = pid\<rparr> =
         \<lparr>pa_label = go_escape pr label, pa_detail = shown_detail k d, pa_kind = k\<rparr> \<and>
         (plain_label pr label \<longrightarrow> go_escape pr label = concat (map utf16 label))"
proof -
  have ph: "plain_text (backend_phrase k d)"
    using assms(3,4) by (rule backend_phrase_plain)
  have "kind_of_type (backend_type k) = k"
    using assms(5) by (cases k) (simp_all add: kind_of_type_def)
  then show ?thesis
    using match_subject_backend [OF assms(1,2) ph] plain_textD(3) [OF ph]
      detail_of_backend_phrase [OF assms(3-5)]
    by (simp add: parseAlert_def go_escape_plain)
qed

theorem parseAlert_backend_message_witness:
  "parseAlert \<lparr>alert_type = js ''account_error'',
      alert_message = js ''Account \"main\" has error status: dial timeout'', alert_pool_id = Some 3\<rparr> =
    \<lparr>pa_label = js ''main'', pa_detail = js ''dial timeout'', pa_kind = AccountError\<rparr> \<and>
   pa_label (parseAlert \<lparr>alert_type = js ''account_error'',
      alert_message = js ''Account '' @ [34] @ js ''a'' @ [92] @ js ''tb'' @ [34] @
        js '' has error status: dial timeout'', alert_pool_id = None\<rparr>) = js ''a'' @ [92] @ js ''tb''"
  using parseAlert_backend_message [of "js ''main''" "js ''dial timeout''" AccountError "\<lambda>_. True" "Some 3"]
    parseAlert_backend_message [of "[97, 9, 98]" "js ''dial timeout''" AccountError "\<lambda>_. True" None]
  by (simp add: backend_message_def backend_phrase_def go_defs plain_text_def literal_units shown_detail_def)

section \<open>Fingerprints\<close>

lemma split_at_unit:
  assumes "c \<notin> set u" "c \<notin> set u'" "u @ c # r = u' @ c # r'"
  shows "u = u' \<and> r = r'"
proof -
  have "takeWhile (\<lambda>x. x \<noteq> c) (v @ c # t) = v" if "c \<notin> set v" for v t
    using that by (subst takeWhile_append2) auto
  then have "u = u'" using assms by metis
  with assms(3) show ?thesis by simp
qed

lemma bar_show_int: "124 \<notin> set (show_int i)"
  using nat_digits_all [of 124] by (auto simp: show_int_def is_digit_def)

lemma fingerprint_inject:
  assumes "fingerprint a p = fingerprint b q"
    and "124 \<notin> set (alert_type a)" and "124 \<notin> set (alert_type b)"
    and "124 \<notin> set (pa_label p)" and "124 \<notin> set (pa_label q)"
  shows "alert_type a = alert_type b \<and> nullish (alert_pool_id a) 0 = nullish (alert_pool_id b) 0 \<and>
    pa_label p = pa_label q \<and> pa_detail p = pa_detail q"
proof -
  have "alert_type a @ 124 # show_int (nullish (alert_pool_id a) 0) @ 124 # pa_label p @ 124 # pa_detail p =
      alert_type b @ 124 # show_int (nullish (alert_pool_id b) 0) @ 124 # pa_label q @ 124 # pa_detail q"
    using assms(1) by (simp add: fingerprint_def js_def)
  from split_at_unit [OF assms(2,3) this]
  have t: "alert_type a = alert_type b"
    and r: "show_int (nullish (alert_pool_id a) 0) @ 124 # pa_label p @ 124 # pa_detail p =
      show_int (nullish (alert_pool_id b) 0) @ 124 # pa_label q @ 124 # pa_detail q" by simp_all
  from split_at_unit [OF bar_show_int bar_show_int r] split_at_unit [OF assms(4,5)] t
  show ?thesis by (metis show_int_inject)
qed

section \<open>The stored set\<close>

lemma set_add_strings: "set (new_set (map JStr fps)) = JStr ` set fps"
proof (induction fps rule: rev_induct)
  case (snoc f fps)
  then show ?case by (auto simp: new_set_def set_add_def)
qed (simp add: new_set_def)

lemma new_set_distinct: "distinct fps \<Longrightarrow> new_set (map JStr fps) = map JStr fps"
proof (induction fps rule: rev_induct)
  case (snoc f fps)
  then show ?case by (auto simp: new_set_def set_add_def)
qed (simp add: new_set_def)

text \<open>
  Dismissed alerts survive the storage: where storage can be read and written, reading back a
  saved set of fingerprints gives the same fingerprints in the same order, whatever units they hold.
\<close>

theorem load_save_dismissed:
  assumes "can_read st" and "can_write st" and "distinct fps"
  shows "loadDismissed (saveDismissed (map JStr fps) st) = map JStr fps"
proof -
  have "stringify_strings fps \<noteq> []" by (simp add: stringify_strings_def)
  then show ?thesis
    using assms json_parse_stringify_strings [of fps]
    by (simp add: loadDismissed_def saveDismissed_def truthy_str_def new_set_distinct
        del: json_stringify.simps)
qed

theorem load_save_dismissed_witness:
  "loadDismissed (saveDismissed (map JStr [js ''account_expiring|3|main|2026-05-01''])
      \<lparr>dismissals_item = None, can_read = True, can_write = True\<rparr>) =
    [JStr (js ''account_expiring|3|main|2026-05-01'')]"
  using load_save_dismissed [of "\<lparr>dismissals_item = None, can_read = True, can_write = True\<rparr>"
      "[js ''account_expiring|3|main|2026-05-01'']"]
  by (simp add: js_def)

text \<open>
  A label with a double quote is not read back: Go's \<open>%q\<close> writes it as an escaped quote, the
  pattern stops there, the label is cut and the expiry date is the unparsed rest of the message.
\<close>

theorem quoted_label_truncated:
  "parseAlert \<lparr>alert_type = js ''account_expiring'',
      alert_message = backend_message (\<lambda>_. True) AccountExpiring (js ''my \"pro\"'') (js ''2026-05-01''),
      alert_pool_id = Some 3\<rparr> =
    \<lparr>pa_label = js ''my '' @ [92], pa_detail = js ''pro'' @ [92, 34, 34] @ js '' expires at 2026-05-01'',
      pa_kind = AccountExpiring\<rparr>"
proof -
  show ?thesis
    by (simp add: backend_message_def backend_phrase_def go_defs parseAlert_def match_subject_def after_prefix_def startsWith_def literal_units
        skip_space_def kind_of_type_def detail_of_def match_expires_def after_prefix_i_def ascii_lower_def trim_def)
qed

text \<open>
  An alert whose error text runs over several lines loses its label: the pattern accepts no line
  break after the quoted label, so the whole English message becomes the detail.
\<close>

theorem multiline_error_unparsed:
  assumes "label \<noteq> []" and "34 \<notin> set label" and "\<not> one_line d"
  shows "parseAlert \<lparr>alert_type = js ''account_error'', alert_message = backend_message pr AccountError label d,
           alert_pool_id = pid\<rparr> =
         \<lparr>pa_label = [], pa_detail = backend_message pr AccountError label d, pa_kind = AccountError\<rparr>"
proof -
  note q = go_escape_quoted(2) [OF assms(1,2)]
  have tw: "takeWhile (\<lambda>u. u \<noteq> 34) (go_escape pr label @ 34 # rest) = go_escape pr label" for rest
    using q by (subst takeWhile_append2) auto
  have dw: "dropWhile (\<lambda>u. u \<noteq> 34) (go_escape pr label @ 34 # rest) = 34 # rest" for rest
    using q by (subst dropWhile_append2) auto
  have "d \<noteq> []" using assms(3) by (auto simp: one_line_def)
  then have "match_subject (backend_message pr AccountError label d) = None"
    using assms(3)
    by (auto simp: match_subject_def backend_message_def backend_phrase_def after_prefix_def startsWith_def
        literal_units skip_space_def Let_def tw dw)
  then show ?thesis by (simp add: parseAlert_def kind_of_type_def)
qed

theorem multiline_error_unparsed_witness:
  "pa_label (parseAlert \<lparr>alert_type = js ''account_error'',
      alert_message = backend_message (\<lambda>_. True) AccountError (js ''main'') (js ''EOF'' @ [10] @ js ''retry''),
      alert_pool_id = None\<rparr>) = []"
  using multiline_error_unparsed [of "js ''main''" "js ''EOF'' @ [10] @ js ''retry''" "\<lambda>_. True" None]
  by (simp add: literal_units)

end
