(* ===== verification/Overview.thy ===== *)
theory Overview
  imports RouteHealth Alerts Requests
begin

text \<open>
  \<^verbatim>\<open>web/src/pages/OverviewPage.tsx\<close>: the overview page as a state machine. Its state is the page's
  React state together with the stored dismissals; \<open>ov_step\<close> is one event (an answer of the API, a
  click, the wheel, a change of the shared data version) followed by the page's effects.

  A load started by the page's effect carries a signal that the next change of \<open>dataVersion\<close>
  cancels: the number \<open>ov_signal\<close> of the newest one stands for the only signal that is not
  cancelled. A load started by the retry button has a signal of its own that nothing cancels.
\<close>

section \<open>Alerts and tone\<close>

datatype moon_tone = Calm | Warning | Critical

definition getMoonTone :: "overview_alert list \<Rightarrow> moon_tone" where
  "getMoonTone alerts =
     (if alerts = [] then Calm
      else if list_ex (\<lambda>a. pa_kind (parseAlert a) = AccountError \<or> pa_kind (parseAlert a) = PoolUnhealthy) alerts
      then Critical else Warning)"

section \<open>Pools for the orbit\<close>

record orbit_account =
  oa_id :: int
  oa_label :: jstr
  oa_health :: route_health

record orbit_pool =
  op_id :: int
  op_label :: jstr
  op_enabled :: bool
  op_health :: route_health
  op_accounts :: "orbit_account list"

definition orbit_accounts :: "pool_member list \<Rightarrow> orbit_account list" where
  "orbit_accounts members =
     concat (map (\<lambda>m. if member_enabled m
                      then (case member_account m of
                              None \<Rightarrow> []
                            | Some a \<Rightarrow> [\<lparr>oa_id = acc_id a, oa_label = acc_label a,
                                         oa_health = getAccountHealth a\<rparr>])
                      else []) members)"

definition orbit_health :: "bool \<Rightarrow> orbit_account list \<Rightarrow> route_health" where
  "orbit_health enabled accounts =
     (let activeHealths = filter (\<lambda>a. oa_health a \<noteq> Disabled) accounts in
      if \<not> enabled then Disabled
      else if activeHealths = [] then Degraded
      else if list_all (\<lambda>a. oa_health a = Healthy) activeHealths then Healthy
      else if list_all (\<lambda>a. oa_health a = Error) activeHealths then Error
      else Degraded)"

definition poolsToOrbit :: "pool list \<Rightarrow> (int \<rightharpoonup> pool_detail_response) \<Rightarrow> orbit_pool list" where
  "poolsToOrbit pools details =
     map (\<lambda>p. let accounts = orbit_accounts
                       (case details (pool_id p) of None \<Rightarrow> [] | Some d \<Rightarrow> ensureArray (detail_members d))
              in \<lparr>op_id = pool_id p, op_label = pool_label p, op_enabled = pool_enabled p,
                  op_health = orbit_health (pool_enabled p) accounts, op_accounts = accounts\<rparr>) pools"

section \<open>The page\<close>

record overview_state =
  ov_overview :: "overview option"
  ov_pools :: "pool list"
  ov_poolDetails :: "int \<rightharpoonup> pool_detail_response"
  ov_loading :: bool
  ov_error :: "jstr option"
  ov_zoomScale :: real
  ov_phaseRevealAt :: "int option"
  ov_dismissed :: "json list"
  ov_storage :: local_storage
  ov_signal :: nat

text \<open>
  The answers of a load: the pair of its first two requests, their failure with the exception's
  message (\<open>None\<close> where what was thrown is no \<open>Error\<close>), and the pool details, where a failed request
  is \<open>None\<close>. \<open>Some n\<close> is the load with signal \<open>n\<close>, \<open>None\<close> one started by the retry button.
\<close>

datatype ov_event =
    FirstOk "nat option" overview "pool list option"
  | FirstFail "nat option" "jstr option"
  | DetailsDone "nat option" "(int \<times> pool_detail_response option) list"
  | DataVersion
  | Retry
  | Dismiss jstr
  | Wheel real
  | MoonClick int
  | PhaseDismiss

abbreviation (input) ZOOM_MIN :: real where "ZOOM_MIN \<equiv> 0.5"
abbreviation (input) ZOOM_MAX :: real where "ZOOM_MAX \<equiv> 2.4"
abbreviation (input) ZOOM_SENSITIVITY :: real where "ZOOM_SENSITIVITY \<equiv> 0.0012"

definition zoom_by :: "real \<Rightarrow> real \<Rightarrow> real" where
  "zoom_by deltaY current =
     (if \<bar>deltaY\<bar> < 1 then current
      else max ZOOM_MIN (min ZOOM_MAX (current * exp (- deltaY * ZOOM_SENSITIVITY))))"

text \<open>\<open>overview?.alerts ?? []\<close>.\<close>

definition alerts_of :: "overview_state \<Rightarrow> overview_alert list" where
  "alerts_of s = (case ov_overview s of None \<Rightarrow> [] | Some ov \<Rightarrow> ensureArray (overview_alerts ov))"

definition visibleAlerts :: "overview_state \<Rightarrow> overview_alert list" where
  "visibleAlerts s = map fst (filterVisible (alerts_of s) (ov_dismissed s))"

definition moonTone :: "overview_state \<Rightarrow> moon_tone" where
  "moonTone s = getMoonTone (visibleAlerts s)"

text \<open>The two state updates a load starts with.\<close>

definition start_load :: "overview_state \<Rightarrow> overview_state" where
  "start_load s = s\<lparr>ov_loading := True, ov_error := None\<rparr>"

definition not_cancelled :: "nat option \<Rightarrow> overview_state \<Rightarrow> bool" where
  "not_cancelled sig s \<longleftrightarrow> (case sig of None \<Rightarrow> True | Some n \<Rightarrow> n = ov_signal s)"

definition details_record :: "(int \<times> pool_detail_response option) list \<Rightarrow> (int \<rightharpoonup> pool_detail_response)" where
  "details_record entries =
     foldl (\<lambda>m (k, d). case d of None \<Rightarrow> m | Some x \<Rightarrow> m(k \<mapsto> x)) Map.empty entries"

fun ov_handle :: "overview_state \<Rightarrow> ov_event \<Rightarrow> overview_state" where
  "ov_handle s (FirstOk sig ov ps) =
     (if not_cancelled sig s then s\<lparr>ov_overview := Some ov, ov_pools := ensureArray ps\<rparr> else s)"
| "ov_handle s (FirstFail sig msg) =
     (if not_cancelled sig s then s\<lparr>ov_error := Some (nullish msg c_overview_failed), ov_loading := False\<rparr> else s)"
| "ov_handle s (DetailsDone sig entries) =
     (if not_cancelled sig s then s\<lparr>ov_poolDetails := details_record entries, ov_loading := False\<rparr> else s)"
| "ov_handle s DataVersion = start_load (s\<lparr>ov_signal := Suc (ov_signal s)\<rparr>)"
| "ov_handle s Retry = start_load s"
| "ov_handle s (Dismiss fp) =
     (let next = set_add (JStr fp) (ov_dismissed s) in
      s\<lparr>ov_dismissed := next, ov_storage := saveDismissed next (ov_storage s)\<rparr>)"
| "ov_handle s (Wheel deltaY) =
     (if ov_loading s \<or> ov_error s \<noteq> None \<or> ov_pools s = [] then s
      else s\<lparr>ov_zoomScale := zoom_by deltaY (ov_zoomScale s)\<rparr>)"
| "ov_handle s (MoonClick now) = s\<lparr>ov_phaseRevealAt := Some now\<rparr>"
| "ov_handle s PhaseDismiss = s\<lparr>ov_phaseRevealAt := None\<rparr>"

text \<open>The effect that drops dismissals without a live alert.\<close>

definition live_fingerprints :: "overview_alert list \<Rightarrow> jstr list" where
  "live_fingerprints alerts =
     map (\<lambda>(a, p). fingerprint a p)
       (filter (\<lambda>(a, p). pa_kind p = AccountExpiring) (map (\<lambda>a. (a, parseAlert a)) alerts))"

definition is_live :: "overview_alert list \<Rightarrow> json \<Rightarrow> bool" where
  "is_live alerts j = (case j of JStr fp \<Rightarrow> fp \<in> set (live_fingerprints alerts) | _ \<Rightarrow> False)"

definition ov_prune :: "overview_state \<Rightarrow> overview_state" where
  "ov_prune s =
     (let next = filter (is_live (alerts_of s)) (ov_dismissed s) in
      if ov_dismissed s = [] then s
      else if next \<noteq> ov_dismissed s
      then s\<lparr>ov_dismissed := next, ov_storage := saveDismissed next (ov_storage s)\<rparr>
      else s)"

text \<open>
  React runs that effect after a render in which the identity of \<open>alerts\<close> changed: when a new
  overview was stored, and on every render on which \<open>alerts\<close> is the fresh array of \<open>?? []\<close>. An
  answer to a cancelled load returns without touching the state and ov_renders nothing.
\<close>

definition ov_renders :: "overview_state \<Rightarrow> ov_event \<Rightarrow> bool" where
  "ov_renders s e =
     (case e of
        FirstOk sig _ _ \<Rightarrow> not_cancelled sig s
      | FirstFail sig _ \<Rightarrow> not_cancelled sig s
      | DetailsDone sig _ \<Rightarrow> not_cancelled sig s
      | _ \<Rightarrow> True)"

definition alerts_renewed :: "overview_state \<Rightarrow> ov_event \<Rightarrow> bool" where
  "alerts_renewed s e \<longleftrightarrow>
     (case ov_overview s of None \<Rightarrow> True | Some ov \<Rightarrow> overview_alerts ov = None) \<or>
     (case e of FirstOk _ _ _ \<Rightarrow> True | _ \<Rightarrow> False)"

definition ov_step :: "overview_state \<Rightarrow> ov_event \<Rightarrow> overview_state" where
  "ov_step s e =
     (let s' = ov_handle s e in if ov_renders s e \<and> alerts_renewed s' e then ov_prune s' else s')"

definition ov_initial :: "local_storage \<Rightarrow> overview_state" where
  "ov_initial st =
     \<lparr>ov_overview = None, ov_pools = [], ov_poolDetails = Map.empty, ov_loading = True, ov_error = None,
      ov_zoomScale = 1, ov_phaseRevealAt = None, ov_dismissed = loadDismissed st, ov_storage = st,
      ov_signal = 0\<rparr>"

text \<open>After the first render: the load effect, then the pruning effect.\<close>

definition ov_mount :: "local_storage \<Rightarrow> overview_state" where
  "ov_mount st = ov_prune (start_load (ov_initial st))"

text \<open>What the user can dismiss: the rows of visible alerts that carry the button.\<close>

definition enabled_event :: "overview_state \<Rightarrow> ov_event \<Rightarrow> bool" where
  "enabled_event s e =
     (case e of
        Dismiss fp \<Rightarrow>
          list_ex (\<lambda>(a, p). pa_kind p = AccountExpiring \<and> fingerprint a p = fp)
            (filterVisible (alerts_of s) (ov_dismissed s))
      | _ \<Rightarrow> True)"

inductive ov_reachable :: "local_storage \<Rightarrow> overview_state \<Rightarrow> bool" for st where
  mounted: "ov_reachable st (ov_mount st)"
| stepped: "ov_reachable st s \<Longrightarrow> enabled_event s e \<Longrightarrow> ov_reachable st (ov_step s e)"

section \<open>Lemmas\<close>

text \<open>The numbers and the retry loads: an answer with a signal is numbered, one of a retry is not.\<close>

definition answer_signal :: "ov_event \<Rightarrow> nat option" where
  "answer_signal e =
     (case e of FirstOk sig _ _ \<Rightarrow> sig | FirstFail sig _ \<Rightarrow> sig | DetailsDone sig _ \<Rightarrow> sig | _ \<Rightarrow> None)"

lemma prune_simps [simp]:
  "ov_signal (ov_prune s) = ov_signal s" "ov_overview (ov_prune s) = ov_overview s"
  "ov_zoomScale (ov_prune s) = ov_zoomScale s" "alerts_of (ov_prune s) = alerts_of s"
  "ov_dismissed (ov_prune s) = filter (is_live (alerts_of s)) (ov_dismissed s)"
  by (auto simp: ov_prune_def Let_def alerts_of_def)

lemma handle_stale:
  "answer_signal e = Some i \<Longrightarrow> i \<noteq> ov_signal s \<Longrightarrow> ov_handle s e = s \<and> \<not> ov_renders s e"
  by (cases e) (auto simp: answer_signal_def not_cancelled_def ov_renders_def)

interpretation ovl: latest_wins ov_step ov_signal answer_signal
proof
  fix e i s
  show "answer_signal e = Some i \<Longrightarrow> i \<noteq> ov_signal s \<Longrightarrow> ov_step s e = s"
    using handle_stale by (simp add: ov_step_def)
next
  fix s e
  have "ov_signal s \<le> ov_signal (ov_handle s e)"
    by (cases e) (auto simp: start_load_def Let_def)
  then show "ov_signal s \<le> ov_signal (ov_step s e)"
    by (simp add: ov_step_def Let_def)
qed

lemma set_filterVisible:
  "(a, p) \<in> set (filterVisible alerts d) \<longleftrightarrow>
     a \<in> set alerts \<and> p = parseAlert a \<and>
     (pa_kind p = AccountExpiring \<longrightarrow> JStr (fingerprint a p) \<notin> set d)"
  by (auto simp: filterVisible_def set_has_def)

lemma set_live_fingerprints:
  "fp \<in> set (live_fingerprints alerts) \<longleftrightarrow>
     (\<exists>a \<in> set alerts. pa_kind (parseAlert a) = AccountExpiring \<and> fp = fingerprint a (parseAlert a))"
  by (auto simp: live_fingerprints_def)

definition ov_inv :: "overview_state \<Rightarrow> bool" where
  "ov_inv s \<longleftrightarrow> list_all (is_live (alerts_of s)) (ov_dismissed s) \<and>
     ZOOM_MIN \<le> ov_zoomScale s \<and> ov_zoomScale s \<le> ZOOM_MAX"

lemma zoom_by_bounds:
  "ZOOM_MIN \<le> z \<Longrightarrow> z \<le> ZOOM_MAX \<Longrightarrow> ZOOM_MIN \<le> zoom_by d z \<and> zoom_by d z \<le> ZOOM_MAX"
  by (auto simp: zoom_by_def)

lemma prune_live: "list_all (is_live (alerts_of (ov_prune s))) (ov_dismissed (ov_prune s))"
  by (simp add: list_all_iff)

lemma ov_inv_prune: "ZOOM_MIN \<le> ov_zoomScale s \<Longrightarrow> ov_zoomScale s \<le> ZOOM_MAX \<Longrightarrow> ov_inv (ov_prune s)"
  using prune_live [of s] by (simp add: ov_inv_def)

lemma dismissed_live_after_handle:
  assumes "list_all (is_live (alerts_of s)) (ov_dismissed s)" and "enabled_event s e"
    and "\<not> (ov_renders s e \<and> alerts_renewed (ov_handle s e) e)"
  shows "list_all (is_live (alerts_of (ov_handle s e))) (ov_dismissed (ov_handle s e))"
proof (cases e)
  case (Dismiss fp)
  then have "is_live (alerts_of s) (JStr fp)"
    using assms(2)
    by (auto simp: enabled_event_def list_ex_iff is_live_def set_live_fingerprints set_filterVisible)
  moreover have "alerts_of (ov_handle s e) = alerts_of s"
    by (simp add: Dismiss alerts_of_def Let_def)
  ultimately show ?thesis
    using assms(1) by (auto simp: Dismiss Let_def set_add_def list_all_iff)
qed (use assms(1,3) in \<open>auto simp: ov_renders_def alerts_renewed_def alerts_of_def start_load_def Let_def\<close>)

lemma handle_zoom:
  "ZOOM_MIN \<le> ov_zoomScale s \<Longrightarrow> ov_zoomScale s \<le> ZOOM_MAX \<Longrightarrow>
   ZOOM_MIN \<le> ov_zoomScale (ov_handle s e) \<and> ov_zoomScale (ov_handle s e) \<le> ZOOM_MAX"
  by (cases e) (use zoom_by_bounds in \<open>auto simp: start_load_def Let_def\<close>)

lemma ov_inv_step: "ov_inv s \<Longrightarrow> enabled_event s e \<Longrightarrow> ov_inv (ov_step s e)"
  using dismissed_live_after_handle [of s e] handle_zoom [of s e] ov_inv_prune [of "ov_handle s e"]
  by (auto simp: ov_inv_def ov_step_def Let_def)

theorem reachable_inv: "ov_reachable st s \<Longrightarrow> ov_inv s"
proof (induction rule: ov_reachable.induct)
  case mounted
  show ?case
    by (auto simp: ov_mount_def ov_initial_def start_load_def intro!: ov_inv_prune)
qed (rule ov_inv_step)

lemma is_live_iff: "is_live alerts j \<longleftrightarrow> (\<exists>fp \<in> set (live_fingerprints alerts). j = JStr fp)"
  by (auto simp: is_live_def split: json.splits)

text \<open>
  C15: In every state the page can reach, each dismissed entry is the fingerprint of an expiry alert
  that the current overview still holds, so the dismissed set never outgrows the live alerts; and the
  zoom stays between its bounds.
\<close>

theorem reachable_dismissed_live:
  assumes "ov_reachable st s"
  shows "set (ov_dismissed s) \<subseteq> JStr ` set (live_fingerprints (alerts_of s)) \<and>
    1/2 \<le> ov_zoomScale s \<and> ov_zoomScale s \<le> 12/5"
  using reachable_inv [OF assms] by (auto simp: ov_inv_def list_all_iff is_live_iff)

definition empty_storage :: local_storage where
  "empty_storage = \<lparr>dismissals_item = None, can_read = True, can_write = True\<rparr>"

definition expiring_alert :: overview_alert where
  "expiring_alert = \<lparr>alert_type = js ''account_expiring'', 
     alert_message = backend_message (\<lambda>_. True) AccountExpiring (js ''main'') (js ''2026-05-01''), alert_pool_id = Some 3\<rparr>"

definition sample_overview :: overview where
  "sample_overview = \<lparr>pools_total = 1, pools_healthy = 1, accounts_total = 1, accounts_healthy = 1,
     models_total = 1, requests_today = 0, success_rate_today = 0, avg_latency_today = 0,
     overview_alerts = Some [expiring_alert]\<rparr>"

lemma expiring_alert_kind: "pa_kind (parseAlert expiring_alert) = AccountExpiring"
  by (simp add: parseAlert_def expiring_alert_def kind_of_type_def Let_def split: option.splits prod.splits)

theorem reachable_dismissed_live_witness:
  "let s = ov_step (ov_step (ov_mount empty_storage) (FirstOk (Some 0) sample_overview None))
        (Dismiss (fingerprint expiring_alert (parseAlert expiring_alert)))
   in ov_dismissed s \<noteq> [] \<and> set (ov_dismissed s) \<subseteq> JStr ` set (live_fingerprints (alerts_of s))"
proof -
  define s1 where "s1 = ov_step (ov_mount empty_storage) (FirstOk (Some 0) sample_overview None)"
  let ?e = "Dismiss (fingerprint expiring_alert (parseAlert expiring_alert))"
  have sig: "ov_signal (ov_mount empty_storage) = 0" "ov_dismissed (ov_mount empty_storage) = []"
    by (simp_all add: ov_mount_def ov_initial_def start_load_def alerts_of_def is_live_iff live_fingerprints_def)
  have d1: "ov_dismissed s1 = []" "ov_overview s1 = Some sample_overview"
    by (simp_all add: s1_def ov_step_def ov_renders_def not_cancelled_def alerts_renewed_def Let_def sig)
  have a1: "alerts_of s1 = [expiring_alert]"
    by (simp add: alerts_of_def d1 sample_overview_def ensureArray_def)
  have e1: "enabled_event s1 ?e"
    by (simp add: enabled_event_def filterVisible_def a1 d1 set_has_def expiring_alert_kind)
  have "ov_reachable empty_storage s1"
    unfolding s1_def by (rule ov_reachable.stepped [OF ov_reachable.mounted]) (simp add: enabled_event_def)
  from ov_reachable.stepped [OF this e1]
  have r: "ov_reachable empty_storage (ov_step s1 ?e)" .
  have "ov_dismissed (ov_step s1 ?e) \<noteq> []"
    by (simp add: ov_step_def ov_renders_def alerts_renewed_def Let_def d1 sample_overview_def set_add_def)
  with reachable_dismissed_live [OF r] show ?thesis
    by (simp add: s1_def Let_def)
qed

text \<open>
  The tone of the moon is honest about dismissals: it is critical exactly when the overview holds
  an account error or an unhealthy pool, whatever was dismissed, and calm exactly when every alert is
  a dismissed expiry alert.
\<close>

theorem moonTone_spec:
  "(moonTone s = Critical \<longleftrightarrow>
      (\<exists>a. a \<in> set (alerts_of s) \<and> pa_kind (parseAlert a) \<in> {AccountError, PoolUnhealthy})) \<and>
   (moonTone s = Calm \<longleftrightarrow>
      set (alerts_of s) \<subseteq>
        {a. pa_kind (parseAlert a) = AccountExpiring \<and> JStr (fingerprint a (parseAlert a)) \<in> set (ov_dismissed s)})"
proof -
  have vis: "a \<in> set (visibleAlerts s) \<longleftrightarrow>
      a \<in> set (alerts_of s) \<and> (pa_kind (parseAlert a) = AccountExpiring \<longrightarrow>
        JStr (fingerprint a (parseAlert a)) \<notin> set (ov_dismissed s))" for a
    by (auto simp: visibleAlerts_def filterVisible_def set_has_def image_iff)
  have "visibleAlerts s = [] \<longleftrightarrow> (\<forall>a. a \<notin> set (visibleAlerts s))"
    by (metis last_in_set list.set_cases list.distinct(1) list.set_intros(1) neq_Nil_conv empty_iff list.set(1))
  then show ?thesis
    unfolding moonTone_def getMoonTone_def list_ex_iff by (auto simp: vis)
qed

text \<open>
  Dismissals do not survive a page load. The pruning effect runs once before the first answer
  arrives, when the list of alerts is still empty, so it drops every stored dismissal and, where
  storage can be written, overwrites the stored set with the empty one.
\<close>

theorem mount_forgets_dismissals:
  "ov_dismissed (ov_mount st) = [] \<and>
   dismissals_item (ov_storage (ov_mount st)) =
     (if loadDismissed st \<noteq> [] \<and> can_write st then Some (js ''[]'') else dismissals_item st)"
proof -
  have "is_live [] j = False" for j
    by (simp add: is_live_iff live_fingerprints_def)
  then show ?thesis
    by (auto simp: ov_mount_def ov_prune_def ov_initial_def start_load_def alerts_of_def saveDismissed_def js_def Let_def)
qed

text \<open>
  Once the shared data has changed and a newer load is out, the answers to an older load of the
  page, in whatever order and between whatever other events they arrive, change nothing.
\<close>

theorem overview_superseded_loads:
  assumes "i < ov_signal s"
  shows "foldl ov_step s es = foldl ov_step s (filter (\<lambda>e. answer_signal e \<noteq> Some i) es)"
  using assms by (rule ovl.superseded_answers_ignored)

theorem overview_superseded_loads_witness:
  "foldl ov_step (ov_step (ov_mount empty_storage) DataVersion)
      [FirstOk (Some 0) sample_overview None, MoonClick 5, FirstFail (Some 0) None] =
   foldl ov_step (ov_step (ov_mount empty_storage) DataVersion) [MoonClick 5]"
proof -
  have "ov_signal (ov_step (ov_mount empty_storage) DataVersion) = 1"
    by (simp add: ov_step_def ov_renders_def Let_def ov_mount_def ov_initial_def start_load_def)
  then show ?thesis
    using overview_superseded_loads [of 0 "ov_step (ov_mount empty_storage) DataVersion"
        "[FirstOk (Some 0) sample_overview None, MoonClick 5, FirstFail (Some 0) None]"]
    by (simp add: answer_signal_def)
qed

text \<open>
  A load started by the retry button is never cancelled: when the shared data changes while it
  runs, its older answer, arriving last, replaces the overview that the newer load had stored.
\<close>

theorem retry_overwrites_newer_overview:
  "let s = foldl ov_step (ov_mount st) [FirstFail (Some 0) m, Retry, DataVersion, FirstOk (Some 1) new ps] in
   ov_overview s = Some new \<and> ov_overview (ov_step s (FirstOk None old qs)) = Some old"
proof -
  have ok: "ov_overview (ov_step s (FirstOk sig ov ps)) = Some ov" if "not_cancelled sig s" for s sig ov ps
    using that by (simp add: ov_step_def Let_def)
  have s0: "ov_signal (ov_mount st) = 0"
    by (simp add: ov_mount_def ov_initial_def start_load_def)
  have sig: "ov_signal (ov_step s e) = ov_signal (ov_handle s e)" for s e
    by (simp add: ov_step_def Let_def)
  have "ov_signal (foldl ov_step (ov_mount st) [FirstFail (Some 0) m, Retry, DataVersion]) = 1"
    by (simp add: sig start_load_def not_cancelled_def s0)
  then show ?thesis
    by (simp add: ok not_cancelled_def)
qed

end
