(* ===== verification/TokenCodec.thy ===== *)
theory TokenCodec
  imports LunePrelude
begin

text \<open>
  Replacing the tokens of a text by other tokens and back with \<open>split\<close> and \<open>join\<close>, as the editor of the
  notification templates does. Locale \<open>token_codec\<close> states what the two families of tokens must
  satisfy, and proves that decoding undoes encoding; the templates interpret it in both directions.
\<close>

section \<open>Replacing tokens there and back\<close>

text \<open>
  A text editor that stores its text with every token \<open>P\<close> replaced by a token \<open>Q\<close>, one pair after the
  other, and shows it with every \<open>Q\<close> replaced by its \<open>P\<close>.
\<close>

definition encode_tokens :: "(jstr \<times> jstr) list \<Rightarrow> jstr \<Rightarrow> jstr" where
  "encode_tokens toks t = foldl (\<lambda>s (p, q). replace_all p q s) t toks"

definition decode_tokens :: "(jstr \<times> jstr) list \<Rightarrow> jstr \<Rightarrow> jstr" where
  "decode_tokens toks t = foldl (\<lambda>s (p, q). replace_all q p s) t toks"

lemma replace_all_append_tl:
  assumes "a \<noteq> []" and "v \<noteq> [] \<Longrightarrow> hd v \<notin> set (tl a)"
  shows "replace_all a b (u @ v) = replace_all a b u @ replace_all a b v"
proof (induction u rule: measure_induct_rule [of length])
  case (less u)
  show ?case
  proof (cases "startsWith (u @ v) a \<and> u \<noteq> []")
    case True
    then obtain r where r: "u @ v = a @ r" by (auto simp: startsWith_iff)
    have "length a \<le> length u"
    proof (rule ccontr)
      assume n: "\<not> length a \<le> length u"
      then have "v \<noteq> []" using r by (metis append_Nil2 length_append le_add1)
      have "v ! 0 = a ! length u"
        using n r by (metis append_Nil2 nth_append nth_append_length_plus add.right_neutral not_le)
      moreover have "a ! length u \<in> set (tl a)"
        using n True by (cases a; cases "length u") auto
      ultimately have "hd v \<in> set (tl a)" using \<open>v \<noteq> []\<close> by (simp add: hd_conv_nth)
      with \<open>v \<noteq> []\<close> assms(2) show False by simp
    qed
    then obtain u' where u: "u = a @ u'" "r = u' @ v"
      using r by (metis append_eq_append_conv_if append_take_drop_id append.assoc same_append_eq)
    have "length u' < length u" using u assms(1) by (cases a) auto
    with less.IH have "replace_all a b (u' @ v) = replace_all a b u' @ replace_all a b v" by blast
    then show ?thesis using u assms(1) by (simp add: replace_all_match)
  next
    case False
    show ?thesis
    proof (cases u)
      case (Cons c u')
      then have "\<not> startsWith (u @ v) a" using False by simp
      moreover from this have "\<not> startsWith (c # u') a" using Cons by (metis append.assoc startsWith_iff)
      ultimately show ?thesis
        using less.IH [of u'] assms(1) Cons by (simp add: replace_all_skip)
    qed (simp add: assms(1))
  qed
qed

lemma replace_all_append:
  assumes "a \<noteq> []" and "v \<noteq> [] \<Longrightarrow> hd v \<notin> set a"
  shows "replace_all a b (u @ v) = replace_all a b u @ replace_all a b v"
  using assms by (intro replace_all_append_tl) (auto dest: list.set_sel(2))

lemma replace_all_skip_word:
  assumes "a \<noteq> []" and "\<And>j. j < length w \<Longrightarrow> \<not> startsWith (drop j w @ s) a"
  shows "replace_all a b (w @ s) = w @ replace_all a b s"
  using assms(2)
proof (induction w)
  case (Cons c w)
  have "\<not> startsWith (c # w @ s) a" using Cons.prems [of 0] by simp
  moreover have "\<not> startsWith (drop j w @ s) a" if "j < length w" for j
    using Cons.prems [of "Suc j"] that by simp
  ultimately show ?case using Cons.IH assms(1) by (simp add: replace_all_skip)
qed simp

text \<open>A text cut at its tokens; \<open>shown\<close> says which of them stand in their first form.\<close>

type_synonym cut_text = "jstr \<times> ((jstr \<times> jstr) \<times> jstr) list"

definition glue :: "(jstr \<times> jstr) set \<Rightarrow> cut_text \<Rightarrow> jstr" where
  "glue shown x =
     fst x @ concat (map (\<lambda>((p, q), v). (if (p, q) \<in> shown then p else q) @ v) (snd x))"

locale token_codec =
  fixes toks :: "(jstr \<times> jstr) list" and mark :: nat
  assumes nonempty: "(p, q) \<in> set toks \<Longrightarrow> p \<noteq> [] \<and> q \<noteq> []"
    and marked: "(p, q) \<in> set toks \<Longrightarrow> hd q = mark"
    and unmarked: "(p, q) \<in> set toks \<Longrightarrow> mark \<notin> set p"
    and no_token_inside: "(p, q) \<in> set toks \<Longrightarrow> (p', q') \<in> set toks \<Longrightarrow> hd p \<notin> set q'"
    and no_overlap: "(p, q) \<in> set toks \<Longrightarrow> (p', q') \<in> set toks \<Longrightarrow> j < length q \<Longrightarrow>
      startsWith (drop j q @ r) q' \<Longrightarrow> j = 0 \<and> (p', q') = (p, q)"
begin

definition cut_ok :: "cut_text \<Rightarrow> bool" where
  "cut_ok x \<longleftrightarrow> mark \<notin> set (fst x) \<and> (\<forall>(t, v) \<in> set (snd x). t \<in> set toks \<and> mark \<notin> set v)"

lemma cut_literal:
  assumes "(p, q) \<in> set toks" and "mark \<notin> set u"
  shows "\<exists>x. cut_ok x \<and> glue {} x = replace_all p q u \<and> glue (set toks) x = u"
  using assms(2)
proof (induction u rule: measure_induct_rule [of length])
  case (less u)
  have p: "p \<noteq> []" using nonempty [OF assms(1)] by simp
  show ?case
  proof (cases u)
    case Nil
    then show ?thesis
      using p by (intro exI [of _ "([], [])"]) (simp add: cut_ok_def glue_def)
  next
    case (Cons c u')
    show ?thesis
    proof (cases "startsWith u p")
      case True
      then obtain r where r: "u = p @ r" by (auto simp: startsWith_iff)
      then have "length r < length u" "mark \<notin> set r"
        using p less.prems by auto
      then obtain x where "cut_ok x" "glue {} x = replace_all p q r" "glue (set toks) x = r"
        using less.IH by blast
      then show ?thesis
        using assms(1) p r
        by (intro exI [of _ "([], ((p, q), fst x) # snd x)"])
           (auto simp: cut_ok_def glue_def replace_all_match)
    next
      case False
      have "length u' < length u" "mark \<notin> set u'" "c \<noteq> mark"
        using Cons less.prems by auto
      then obtain x where "cut_ok x" "glue {} x = replace_all p q u'" "glue (set toks) x = u'"
        using less.IH by blast
      then show ?thesis
        using False Cons p \<open>c \<noteq> mark\<close>
        by (intro exI [of _ "(c # fst x, snd x)"]) (auto simp: cut_ok_def glue_def replace_all_skip)
    qed
  qed
qed

lemma encode_one:
  assumes pq: "(p, q) \<in> set toks" and "cut_ok (u, ts)"
  shows "\<exists>y. cut_ok y \<and> glue {} y = replace_all p q (glue {} (u, ts)) \<and>
    glue (set toks) y = glue (set toks) (u, ts)"
  using assms(2)
proof (induction ts arbitrary: u)
  case Nil
  then show ?case using cut_literal [OF pq, of u] by (simp add: cut_ok_def glue_def)
next
  case (Cons tv ts)
  obtain p' q' v where tv: "tv = ((p', q'), v)" by (cases tv) auto
  have ok: "(p', q') \<in> set toks" "mark \<notin> set u" "cut_ok (v, ts)"
    using Cons.prems by (auto simp: tv cut_ok_def)
  obtain y where y: "cut_ok y" "glue {} y = replace_all p q (glue {} (v, ts))"
      "glue (set toks) y = glue (set toks) (v, ts)"
    using Cons.IH [OF ok(3)] by blast
  obtain x where x: "cut_ok x" "glue {} x = replace_all p q u" "glue (set toks) x = u"
    using cut_literal [OF pq ok(2)] by blast
  have ne: "p \<noteq> []" "q' \<noteq> []" using nonempty pq ok(1) by auto
  have "hd q' \<notin> set p" using marked [OF ok(1)] unmarked [OF pq] by simp
  then have "replace_all p q (u @ q' @ glue {} (v, ts)) =
      replace_all p q u @ replace_all p q (q' @ glue {} (v, ts))"
    using ne by (intro replace_all_append) auto
  also have "replace_all p q (q' @ glue {} (v, ts)) = q' @ replace_all p q (glue {} (v, ts))"
    using no_token_inside [OF pq ok(1)] ne by (intro replace_all_no_head) auto
  finally show ?case
    using x y ok(1)
    by (intro exI [of _ "(fst x, snd x @ ((p', q'), fst y) # snd y)"])
       (auto simp: tv cut_ok_def glue_def)
qed

lemma encode_cut:
  assumes "set ts \<subseteq> set toks" and "cut_ok x"
  shows "\<exists>y. cut_ok y \<and> glue {} y = encode_tokens ts (glue {} x) \<and> glue (set toks) y = glue (set toks) x"
  using assms
proof (induction ts arbitrary: x)
  case Nil
  then show ?case by (intro exI [of _ x]) (simp add: encode_tokens_def)
next
  case (Cons t ts)
  obtain p q where t: "t = (p, q)" by (cases t)
  then obtain y where "cut_ok y" "glue {} y = replace_all p q (glue {} x)"
      "glue (set toks) y = glue (set toks) x"
    using encode_one [of p q "fst x" "snd x"] Cons.prems by auto
  moreover obtain z where "cut_ok z" "glue {} z = encode_tokens ts (glue {} y)"
      "glue (set toks) z = glue (set toks) y"
    using Cons.IH [OF _ \<open>cut_ok y\<close>] Cons.prems by auto
  ultimately show ?case
    by (intro exI [of _ z]) (simp add: t encode_tokens_def)
qed

lemma decode_one:
  assumes pq: "(p, q) \<in> set toks" and "cut_ok (u, ts)"
  shows "replace_all q p (glue shown (u, ts)) = glue (insert (p, q) shown) (u, ts)"
  using assms(2)
proof (induction ts arbitrary: u)
  case Nil
  then show ?case
    using nonempty [OF pq] marked [OF pq] replace_all_no_head [of q u p "[]"]
    by (simp add: glue_def cut_ok_def)
next
  case (Cons tv ts)
  obtain p' q' v where tv: "tv = ((p', q'), v)" by (cases tv) auto
  have ok: "(p', q') \<in> set toks" "mark \<notin> set u" "cut_ok (v, ts)"
    using Cons.prems by (auto simp: tv cut_ok_def)
  have ne: "q \<noteq> []" "hd q = mark" using nonempty [OF pq] marked [OF pq] by auto
  let ?s = "glue shown (v, ts)"
  have IH: "replace_all q p ?s = glue (insert (p, q) shown) (v, ts)"
    by (rule Cons.IH [OF ok(3)])
  have "replace_all q p ((if (p', q') \<in> shown then p' else q') @ ?s) =
      (if (p', q') \<in> insert (p, q) shown then p' else q') @ replace_all q p ?s"
  proof (cases "(p', q') \<in> shown")
    case True
    then show ?thesis
      using ne unmarked [OF ok(1)] by (simp add: replace_all_no_head)
  next
    case False
    show ?thesis
    proof (cases "(p', q') = (p, q)")
      case True
      then show ?thesis using ne False by (simp add: replace_all_match)
    next
      case ne': False
      have "\<not> startsWith (drop j q' @ ?s) q" if "j < length q'" for j
        using no_overlap [OF ok(1) pq that] ne' by auto
      then show ?thesis
        using False ne' ne by (auto simp: replace_all_skip_word)
    qed
  qed
  then show ?case
    using ne ok(2) IH replace_all_no_head [of q u p] by (simp add: tv glue_def)
qed

lemma decode_cut:
  assumes "set ts \<subseteq> set toks" and "cut_ok x"
  shows "decode_tokens ts (glue shown x) = glue (shown \<union> set ts) x"
  using assms
proof (induction ts arbitrary: shown)
  case (Cons t ts)
  then show ?case
    using decode_one [of "fst t" "snd t" "fst x" "snd x" shown]
    by (cases t) (simp add: decode_tokens_def)
qed (simp add: decode_tokens_def)

lemma decode_encode:
  assumes "mark \<notin> set t"
  shows "decode_tokens toks (encode_tokens toks t) = t"
proof -
  have "cut_ok (t, [])" "glue {} (t, []) = t" "glue (set toks) (t, []) = t"
    using assms by (simp_all add: cut_ok_def glue_def)
  then obtain y where "cut_ok y" "glue {} y = encode_tokens toks t" "glue (set toks) y = t"
    using encode_cut [of toks "(t, [])"] by auto
  then show ?thesis using decode_cut [of toks y "{}"] by simp
qed

end

text \<open>
  Where moreover a token starts only at its first unit and none begins another, a token that is put
  between two texts is encoded for itself: it neither joins with a half token beside it nor hides one.
\<close>

locale insert_codec = token_codec +
  assumes inner: "(p, q) \<in> set toks \<Longrightarrow> (p', q') \<in> set toks \<Longrightarrow> hd p \<notin> set (tl p')"
    and prefix_free: "(p, q) \<in> set toks \<Longrightarrow> (p', q') \<in> set toks \<Longrightarrow> startsWith (p @ r) p' \<Longrightarrow> (p', q') = (p, q)"
    and distinct_toks: "distinct toks"
begin

lemma replace_around_encoded:
  assumes pq: "(p, q) \<in> set toks" and dt: "(d, t) \<in> set toks"
  shows "replace_all p q (u @ t @ v) = replace_all p q u @ t @ replace_all p q v"
proof -
  have ne: "p \<noteq> []" "t \<noteq> []" using nonempty [OF pq] nonempty [OF dt] by auto
  have "replace_all p q (u @ t @ v) = replace_all p q u @ replace_all p q (t @ v)"
    using ne marked [OF dt] unmarked [OF pq] by (intro replace_all_append) auto
  also have "replace_all p q (t @ v) = t @ replace_all p q v"
    using ne no_token_inside [OF pq dt] by (intro replace_all_no_head) auto
  finally show ?thesis .
qed

lemma replace_around_token:
  assumes pq: "(p, q) \<in> set toks" and dt: "(d, t) \<in> set toks"
  shows "replace_all p q (u @ d @ v) =
    replace_all p q u @ (if (p, q) = (d, t) then t else d) @ replace_all p q v"
proof -
  have ne: "p \<noteq> []" "d \<noteq> []" using nonempty [OF pq] nonempty [OF dt] by auto
  have "replace_all p q (u @ d @ v) = replace_all p q u @ replace_all p q (d @ v)"
    using ne inner [OF dt pq] by (intro replace_all_append_tl) auto
  also have "replace_all p q (d @ v) = (if (p, q) = (d, t) then t else d) @ replace_all p q v"
  proof (cases "(p, q) = (d, t)")
    case False
    have "\<not> startsWith (drop j d @ v) p" if j: "j < length d" for j
    proof (cases j)
      case 0
      then show ?thesis using prefix_free [OF dt pq] False by auto
    next
      case (Suc k)
      have "hd (drop j d @ v) \<in> set (tl d)"
        using j Suc by (simp add: drop_Suc) (metis drop_eq_Nil hd_append2 hd_in_set in_set_dropD length_tl
            diff_Suc_1 less_diff_conv not_le Suc_eq_plus1)
      then show ?thesis using inner [OF pq dt] ne by (auto simp: startsWith_iff)
    qed
    then show ?thesis using False ne by (auto simp: replace_all_skip_word)
  qed (use ne in \<open>simp add: replace_all_match\<close>)
  finally show ?thesis .
qed

lemma encode_around_encoded:
  assumes "set ts \<subseteq> set toks" and "(d, t) \<in> set toks"
  shows "encode_tokens ts (u @ t @ v) = encode_tokens ts u @ t @ encode_tokens ts v"
  using assms(1)
proof (induction ts arbitrary: u v)
  case (Cons x ts)
  then show ?case
    using assms(2) replace_around_encoded [of "fst x" "snd x" d t u v]
    by (cases x) (simp add: encode_tokens_def)
qed (simp add: encode_tokens_def)

lemma encode_some_around_token:
  assumes "set ts \<subseteq> set toks" and "distinct ts" and "(d, t) \<in> set toks"
  shows "encode_tokens ts (u @ d @ v) =
    encode_tokens ts u @ (if (d, t) \<in> set ts then t else d) @ encode_tokens ts v"
  using assms(1,2)
proof (induction ts arbitrary: u v)
  case (Cons x ts)
  obtain p q where x: "x = (p, q)" by (cases x)
  have step: "encode_tokens (x # ts) w = encode_tokens ts (replace_all p q w)" for w
    by (simp add: encode_tokens_def x)
  have "encode_tokens (x # ts) (u @ d @ v) =
      encode_tokens ts (replace_all p q u @ (if (p, q) = (d, t) then t else d) @ replace_all p q v)"
    using Cons.prems assms(3) by (simp only: step) (simp add: replace_around_token [of p q d t] x)
  also have "\<dots> = encode_tokens ts (replace_all p q u) @ (if (d, t) \<in> set (x # ts) then t else d) @
      encode_tokens ts (replace_all p q v)"
  proof (cases "(p, q) = (d, t)")
    case True
    then show ?thesis
      using encode_around_encoded [OF _ assms(3), of ts] Cons.prems by (auto simp: x)
  next
    case False
    then show ?thesis
      using Cons.IH Cons.prems by (auto simp: x)
  qed
  finally show ?case by (simp only: step)
qed (simp add: encode_tokens_def)

lemma encode_around_token:
  "(d, t) \<in> set toks \<Longrightarrow> encode_tokens toks (u @ d @ v) = encode_tokens toks u @ t @ encode_tokens toks v"
  using encode_some_around_token [of toks d t u v] distinct_toks by simp

end

end
