(* ===== verification/Templates.thy ===== *)
theory Templates
  imports TokenCodec Json Copy Format
begin

text \<open>
  \<^verbatim>\<open>web/src/pages/SettingsPage/notifications/types.ts\<close>: the fields a notification template may
  insert, and the two forms of a template. The user edits a text with display tokens in lenticular
  brackets; the server stores a text with Go template actions.
\<close>

record notification_event_type =
  nt_event :: jstr
  nt_label :: jstr
  nt_default_severity :: jstr
  nt_default_body_template :: jstr
  nt_sample_vars :: "(jstr \<times> json) list option"

record placeholder_meta =
  ph_display :: jstr
  ph_template :: jstr
  ph_sample :: jstr

record event_placeholder_spec =
  es_display :: jstr
  es_template :: jstr
  es_sampleKey :: jstr

text \<open>\<open>/^\d{11}$/\<close>.\<close>

definition MOBILE_PATTERN :: "jstr \<Rightarrow> bool" where
  "MOBILE_PATTERN s \<longleftrightarrow> length s = 11 \<and> list_all is_digit s"

definition GENERIC_PLACEHOLDERS :: "placeholder_meta list" where
  "GENERIC_PLACEHOLDERS =
     [\<lparr>ph_display = c_ph_event, ph_template = js ''{{ .Event }}'', ph_sample = []\<rparr>,
      \<lparr>ph_display = c_ph_severity, ph_template = js ''{{ .Severity }}'', ph_sample = []\<rparr>,
      \<lparr>ph_display = c_ph_time, ph_template = js ''{{ .TriggeredAt }}'', ph_sample = []\<rparr>]"

definition EVENT_PLACEHOLDERS :: "jstr \<Rightarrow> event_placeholder_spec list option" where
  "EVENT_PLACEHOLDERS event =
     map_of
       [(js ''account_expiring'',
          [\<lparr>es_display = c_ph_account, es_template = js ''{{ .Vars.account_label }}'',
            es_sampleKey = js ''account_label''\<rparr>,
           \<lparr>es_display = c_ph_expires, es_template = js ''{{ .Vars.expires_at }}'',
            es_sampleKey = js ''expires_at''\<rparr>]),
        (js ''cpa_credential_error'',
          [\<lparr>es_display = c_ph_account, es_template = js ''{{ .Vars.account_label }}'',
            es_sampleKey = js ''account_label''\<rparr>,
           \<lparr>es_display = c_ph_invalid_reason, es_template = js ''{{ .Vars.last_error }}'',
            es_sampleKey = js ''last_error''\<rparr>]),
        (js ''account_error'',
          [\<lparr>es_display = c_ph_account, es_template = js ''{{ .Vars.account_label }}'',
            es_sampleKey = js ''account_label''\<rparr>,
           \<lparr>es_display = c_ph_last_error, es_template = js ''{{ .Vars.last_error }}'',
            es_sampleKey = js ''last_error''\<rparr>]),
        (js ''cpa_service_error'',
          [\<lparr>es_display = c_ph_service, es_template = js ''{{ .Vars.service_label }}'',
            es_sampleKey = js ''service_label''\<rparr>,
           \<lparr>es_display = c_ph_last_error, es_template = js ''{{ .Vars.last_error }}'',
            es_sampleKey = js ''last_error''\<rparr>]),
        (js ''test'',
          [\<lparr>es_display = c_ph_instance, es_template = js ''{{ .Vars.instance_id }}'',
            es_sampleKey = js ''instance_id''\<rparr>,
           \<lparr>es_display = c_ph_admin, es_template = js ''{{ .Vars.admin_url }}'',
            es_sampleKey = js ''admin_url''\<rparr>])] event"

definition EVENT_TRIGGER_DESCRIPTION :: "jstr \<Rightarrow> jstr option" where
  "EVENT_TRIGGER_DESCRIPTION event =
     map_of
       [(js ''account_expiring'', c_trig_expiring),
        (js ''cpa_credential_error'', c_trig_credential),
        (js ''account_error'', c_trig_account_error),
        (js ''cpa_service_error'', c_trig_service),
        (js ''test'', c_trig_test)] event"

text \<open>\<open>new Date().toISOString()\<close>, for the years 0 to 9999, and the removal of its milliseconds.\<close>

definition toISOString :: "int \<Rightarrow> jstr" where
  "toISOString t =
     (let (y, m, d) = civil_from_days (t div ms_per_day); r = t mod ms_per_day in
      padStart 4 48 (show_int y) @ js ''-'' @ pad2 m @ js ''-'' @ pad2 d @ js ''T'' @
      pad2 (r div ms_per_hour) @ js '':'' @ pad2 (r mod ms_per_hour div 60000) @ js '':'' @
      pad2 (r mod 60000 div 1000) @ js ''.'' @ padStart 3 48 (show_int (r mod 1000)) @ js ''Z'')"

definition strip_fraction :: "jstr \<Rightarrow> jstr" where
  "strip_fraction s =
     (if s = [] \<or> last s \<noteq> 90 then s
      else (let r = rev (butlast s); ds = takeWhile is_digit r; rest = dropWhile is_digit r in
            if ds \<noteq> [] \<and> rest \<noteq> [] \<and> hd rest = 46 then rev (tl rest) @ [90] else s))"

definition sampleTimestamp :: "host \<Rightarrow> jstr" where
  "sampleTimestamp h = strip_fraction (toISOString (now_ms h))"

definition generic_sample :: "host \<Rightarrow> notification_event_type \<Rightarrow> placeholder_meta \<Rightarrow> placeholder_meta" where
  "generic_sample h event item =
     (if ph_template item = js ''{{ .Event }}'' then item\<lparr>ph_sample := nt_event event\<rparr>
      else if ph_template item = js ''{{ .Severity }}'' then item\<lparr>ph_sample := nt_default_severity event\<rparr>
      else if ph_template item = js ''{{ .TriggeredAt }}'' then item\<lparr>ph_sample := sampleTimestamp h\<rparr>
      else item)"

definition placeholdersForEvent :: "host \<Rightarrow> notification_event_type \<Rightarrow> placeholder_meta list" where
  "placeholdersForEvent h event =
     (let sampleVars = nullish (nt_sample_vars event) [];
          generic = map (generic_sample h event) GENERIC_PLACEHOLDERS;
          perEvent = map (\<lambda>spec. \<lparr>ph_display = es_display spec, ph_template = es_template spec,
                             ph_sample = json_string (json_nullish (map_of sampleVars (es_sampleKey spec)) (JStr []))\<rparr>)
                       (nullish (EVENT_PLACEHOLDERS (nt_event event)) [])
      in generic @ perEvent)"

definition toStorage :: "jstr \<Rightarrow> placeholder_meta list \<Rightarrow> jstr" where
  "toStorage display placeholders =
     foldl (\<lambda>result item. if ph_display item = ph_template item then result
                          else replace_all (ph_display item) (ph_template item) result) display placeholders"

definition toDisplay :: "jstr \<Rightarrow> placeholder_meta list \<Rightarrow> jstr" where
  "toDisplay storage placeholders =
     foldl (\<lambda>result item. if ph_display item = ph_template item then result
                          else replace_all (ph_template item) (ph_display item) result) storage placeholders"

definition renderPreview :: "jstr \<Rightarrow> placeholder_meta list \<Rightarrow> jstr" where
  "renderPreview display placeholders =
     foldl (\<lambda>result item. replace_all (ph_display item) (ph_sample item) result) display placeholders"

definition severityTone :: "jstr \<Rightarrow> jstr" where
  "severityTone severity =
     (if severity = js ''critical'' then js ''bg-status-red/12 text-status-red''
      else if severity = js ''warning'' then js ''bg-status-yellow/16 text-status-yellow''
      else js ''bg-moon-100/90 text-moon-500'')"

section \<open>The tokens of an event\<close>

definition token_pairs :: "jstr \<Rightarrow> (jstr \<times> jstr) list" where
  "token_pairs event =
     map (\<lambda>p. (ph_display p, ph_template p)) GENERIC_PLACEHOLDERS @
     map (\<lambda>s. (es_display s, es_template s)) (nullish (EVENT_PLACEHOLDERS event) [])"

lemma generic_sample_tokens [simp]:
  "ph_display (generic_sample h e p) = ph_display p" "ph_template (generic_sample h e p) = ph_template p"
  by (simp_all add: generic_sample_def)

lemma placeholders_tokens:
  "map (\<lambda>p. (ph_display p, ph_template p)) (placeholdersForEvent h e) = token_pairs (nt_event e)"
  by (simp add: placeholdersForEvent_def token_pairs_def Let_def comp_def)

text \<open>
  Every token is bracketed: a display token by the two lenticular brackets, a template by doubled
  braces, with no opening bracket of either kind inside.
\<close>

definition display_token :: "jstr \<Rightarrow> bool" where
  "display_token d \<longleftrightarrow> d \<noteq> [] \<and> hd d = 0x3010 \<and> takeWhile (\<lambda>c. c \<noteq> 0x3011) d @ [0x3011] = d \<and>
     0x3010 \<notin> set (tl d) \<and> 123 \<notin> set d"

definition template_token :: "jstr \<Rightarrow> bool" where
  "template_token t \<longleftrightarrow> take 2 t = [123, 123] \<and> takeWhile (\<lambda>c. c \<noteq> 125) t @ [125, 125] = t \<and>
     123 \<notin> set (drop 2 t) \<and> 0x3010 \<notin> set t"

definition utc_host :: host where
  "utc_host = \<lparr>now_ms = 0, tz_ms = 0, date_fallback = (\<lambda>_. None)\<rparr>"

definition account_error_event :: notification_event_type where
  "account_error_event =
     \<lparr>nt_event = js ''account_error'', nt_label = [], nt_default_severity = js ''critical'',
      nt_default_body_template = [], nt_sample_vars = None\<rparr>"

section \<open>Lemmas\<close>

lemma EVENT_PLACEHOLDERS_cases:
  "EVENT_PLACEHOLDERS e = None \<or>
   e \<in> {js ''account_expiring'', js ''cpa_credential_error'', js ''account_error'',
        js ''cpa_service_error'', js ''test''}"
  by (auto simp: EVENT_PLACEHOLDERS_def)

lemma token_pairs_bracketed:
  "list_all (\<lambda>(d, t). display_token d \<and> template_token t) (token_pairs e)"
proof -
  have g: "list_all (\<lambda>p. display_token (ph_display p) \<and> template_token (ph_template p)) GENERIC_PLACEHOLDERS"
    by (simp add: GENERIC_PLACEHOLDERS_def display_token_def template_token_def copy_defs js_def)
  have "list_all (\<lambda>p. display_token (es_display p) \<and> template_token (es_template p))
      (nullish (EVENT_PLACEHOLDERS e) [])"
    using EVENT_PLACEHOLDERS_cases [of e]
    by (elim disjE insertE; simp add: EVENT_PLACEHOLDERS_def)
       (simp_all add: display_token_def template_token_def copy_defs js_def)
  with g show ?thesis by (simp add: token_pairs_def list_all_iff) blast
qed

lemma token_pairs_distinct:
  "distinct (map fst (token_pairs e)) \<and> distinct (map snd (token_pairs e))"
  using EVENT_PLACEHOLDERS_cases [of e]
  by (elim disjE insertE; simp add: token_pairs_def GENERIC_PLACEHOLDERS_def EVENT_PLACEHOLDERS_def copy_defs)

lemma closed_prefix_unique:
  assumes "takeWhile (\<lambda>x. x \<noteq> c) q @ cl = q" and "takeWhile (\<lambda>x. x \<noteq> c) q' @ cl = q'"
    and "cl \<noteq> []" and "hd cl = c" and "q @ r = q' @ s"
  shows "q' = q"
proof -
  have tw: "takeWhile (\<lambda>x. x \<noteq> c) (w @ r) = takeWhile (\<lambda>x. x \<noteq> c) w"
    if "takeWhile (\<lambda>x. x \<noteq> c) w @ cl = w" for w r
  proof -
    have "c \<in> set w" using that assms(3,4) by (metis hd_in_set in_set_conv_decomp append_Cons Un_iff set_append)
    then show ?thesis by (subst takeWhile_append1) auto
  qed
  show ?thesis using tw [OF assms(1), of r] tw [OF assms(2), of s] assms(1,2,5) by metis
qed

lemma template_no_overlap:
  assumes q: "template_token q" and q': "template_token q'" and j: "j < length q"
    and sw: "startsWith (drop j q @ r) q'"
  shows "j = 0 \<and> q' = q"
proof -
  obtain s where s: "drop j q @ r = q' @ s" using sw by (auto simp: startsWith_iff)
  obtain w where w: "q = 123 # 123 # w" "w \<noteq> []" "123 \<notin> set w"
    using q by (cases q; cases "tl q") (auto simp: template_token_def)
  obtain w' where w': "q' = 123 # 123 # w'"
    using q' by (cases q'; cases "tl q'") (auto simp: template_token_def)
  have "j = 0"
  proof (rule ccontr)
    assume "j \<noteq> 0"
    then consider "j = 1" | k where "j = Suc (Suc k)" by (metis One_nat_def not0_implies_Suc)
    then show False
    proof cases
      case 1
      then show False using s w w' by (cases w) auto
    next
      case (2 k)
      then have "drop k w \<noteq> []" using j w by simp
      then have "hd (drop k w @ r) \<in> set w" by (metis hd_append2 hd_in_set in_set_dropD)
      then show False using s w w' 2 by auto
    qed
  qed
  moreover have "q' = q" if "j = 0"
    using closed_prefix_unique [of 125 q "[125, 125]" q' r s] q q' s that by (simp add: template_token_def)
  ultimately show ?thesis by simp
qed

lemma display_no_overlap:
  assumes q: "display_token q" and q': "display_token q'" and j: "j < length q"
    and sw: "startsWith (drop j q @ r) q'"
  shows "j = 0 \<and> q' = q"
proof -
  obtain s where s: "drop j q @ r = q' @ s" using sw by (auto simp: startsWith_iff)
  obtain w where w: "q = 0x3010 # w" "0x3010 \<notin> set w"
    using q by (cases q) (auto simp: display_token_def)
  obtain w' where w': "q' = 0x3010 # w'"
    using q' by (cases q') (auto simp: display_token_def)
  have "j = 0"
  proof (cases j)
    case (Suc k)
    then have "drop k w \<noteq> []" using j w by simp
    then have "hd (drop k w @ r) \<in> set w" by (metis hd_append2 hd_in_set in_set_dropD)
    then show ?thesis using s w w' Suc by auto
  qed simp
  moreover have "q' = q" if "j = 0"
    using closed_prefix_unique [of "0x3011" q "[0x3011]" q' r s] q q' s that by (simp add: display_token_def)
  ultimately show ?thesis by simp
qed

lemma token_pairsD:
  assumes "(d, t) \<in> set (token_pairs e)"
  shows "display_token d" "template_token t"
  using token_pairs_bracketed [of e] assms by (auto simp: list_all_iff)

lemma token_pairs_unique:
  assumes "(d, t) \<in> set (token_pairs e)" "(d', t') \<in> set (token_pairs e)"
  shows "d = d' \<longleftrightarrow> t = t'"
  using token_pairs_distinct [of e] assms by (metis eq_key_imp_eq_value snd_conv distinct_map inj_onD prod.inject)

lemma bracket_heads:
  "display_token d \<Longrightarrow> d \<noteq> [] \<and> hd d = 0x3010 \<and> 123 \<notin> set d"
  "template_token t \<Longrightarrow> t \<noteq> [] \<and> hd t = 123 \<and> 0x3010 \<notin> set t"
  by (auto simp: display_token_def template_token_def hd_conv_nth take_Suc_conv_app_nth numeral_2_eq_2)
     (cases t; simp)+

interpretation to_storage: token_codec "token_pairs e" 123 for e
proof
  fix p q p' q' j r
  assume pq: "(p, q) \<in> set (token_pairs e)"
  note P = token_pairsD [OF pq]
  show "p \<noteq> [] \<and> q \<noteq> []" "hd q = 123" "123 \<notin> set p"
    using bracket_heads(1) [OF P(1)] bracket_heads(2) [OF P(2)] by auto
  assume pq': "(p', q') \<in> set (token_pairs e)"
  show "hd p \<notin> set q'"
    using bracket_heads(1) [OF P(1)] bracket_heads(2) [OF token_pairsD(2) [OF pq']] by auto
  assume "j < length q" "startsWith (drop j q @ r) q'"
  then show "j = 0 \<and> (p', q') = (p, q)"
    using template_no_overlap [OF P(2) token_pairsD(2) [OF pq']] token_pairs_unique [OF pq pq'] by auto
qed

interpretation to_display: token_codec "map prod.swap (token_pairs e)" "0x3010" for e
proof
  fix p q p' q' j r
  assume "(p, q) \<in> set (map prod.swap (token_pairs e))"
  then have pq: "(q, p) \<in> set (token_pairs e)" by auto
  note P = token_pairsD [OF pq]
  show "p \<noteq> [] \<and> q \<noteq> []" "hd q = 0x3010" "0x3010 \<notin> set p"
    using bracket_heads(1) [OF P(1)] bracket_heads(2) [OF P(2)] by auto
  assume "(p', q') \<in> set (map prod.swap (token_pairs e))"
  then have pq': "(q', p') \<in> set (token_pairs e)" by auto
  show "hd p \<notin> set q'"
    using bracket_heads(2) [OF P(2)] bracket_heads(1) [OF token_pairsD(1) [OF pq']] by auto
  assume "j < length q" "startsWith (drop j q @ r) q'"
  then show "j = 0 \<and> (p', q') = (p, q)"
    using display_no_overlap [OF P(1) token_pairsD(1) [OF pq']] token_pairs_unique [OF pq pq'] by auto
qed

lemma toStorage_eq:
  assumes "map (\<lambda>p. (ph_display p, ph_template p)) ps = token_pairs e"
  shows "toStorage t ps = encode_tokens (token_pairs e) t"
    and "toDisplay t ps = decode_tokens (token_pairs e) t"
proof -
  have ne: "ph_display p \<noteq> ph_template p" if "p \<in> set ps" for p
  proof -
    have "(ph_display p, ph_template p) \<in> set (token_pairs e)"
      unfolding assms [symmetric] using that by auto
    then show ?thesis using token_pairsD bracket_heads by (metis hd_in_set)
  qed
  show "toStorage t ps = encode_tokens (token_pairs e) t"
    unfolding assms [symmetric] toStorage_def encode_tokens_def foldl_map
    using ne by (intro foldl_cong) auto
  show "toDisplay t ps = decode_tokens (token_pairs e) t"
    unfolding assms [symmetric] toDisplay_def decode_tokens_def foldl_map
    using ne by (intro foldl_cong) auto
qed

lemma encode_swap: "encode_tokens (map prod.swap ts) t = decode_tokens ts t"
    "decode_tokens (map prod.swap ts) t = encode_tokens ts t"
  by (simp_all add: encode_tokens_def decode_tokens_def foldl_map case_prod_unfold)

text \<open>
  C19: Saving a notification template and opening it again shows the text the user typed: for every
  event and every text without an opening brace, whatever brackets and half tokens it holds,
  \<open>toDisplay\<close> undoes \<open>toStorage\<close>.
\<close>

theorem toDisplay_toStorage:
  assumes "123 \<notin> set t"
  shows "toDisplay (toStorage t (placeholdersForEvent h e)) (placeholdersForEvent h e) = t"
  using to_storage.decode_encode [OF assms] toStorage_eq [OF placeholders_tokens] by metis

theorem toDisplay_toStorage_witness:
  "toDisplay (toStorage (c_ph_account @ js '' down: '' @ [0x3010] @ c_ph_last_error)
       (placeholdersForEvent utc_host account_error_event)) (placeholdersForEvent utc_host account_error_event) =
   c_ph_account @ js '' down: '' @ [0x3010] @ c_ph_last_error"
  by (rule toDisplay_toStorage) (simp add: c_ph_account_def c_ph_last_error_def js_def)

text \<open>
  Opening a stored template and saving it unchanged stores the same text: \<open>toStorage\<close> undoes
  \<open>toDisplay\<close> on every text without an opening lenticular bracket, unknown template actions included.
\<close>

theorem toStorage_toDisplay:
  assumes "0x3010 \<notin> set t"
  shows "toStorage (toDisplay t (placeholdersForEvent h e)) (placeholdersForEvent h e) = t"
  using to_display.decode_encode [OF assms] toStorage_eq [OF placeholders_tokens] encode_swap by metis

theorem toStorage_toDisplay_witness:
  "toStorage (toDisplay (js ''{{ .Vars.account_label }}: {{ .Vars.other }}'') (placeholdersForEvent utc_host account_error_event))
     (placeholdersForEvent utc_host account_error_event) = js ''{{ .Vars.account_label }}: {{ .Vars.other }}''"
  by (rule toStorage_toDisplay) (simp add: js_def)

end
