(* ===== verification/Router.thy ===== *)
theory Router
  imports RouteHealth
begin

text \<open>
  \<^verbatim>\<open>web/src/lib/router.tsx\<close>, the page choice of \<^verbatim>\<open>web/src/App.tsx\<close> and the shared interface
  state of \<^verbatim>\<open>web/src/components/AdminUI.tsx\<close>. The router's state is its \<open>pathname\<close> together with
  the browser's session history, a zipper of the addresses; an address is an absolute path with an
  optional query and fragment, which is all the console navigates to.
\<close>

section \<open>Paths\<close>

definition normalizePath :: "jstr \<Rightarrow> jstr" where
  "normalizePath pathname = (let n = strip_slash pathname in if n = [] then js ''/admin'' else n)"

datatype uri_error = URIError

text \<open>\<open>%XX\<close> at the head of a text.\<close>

definition hex_val :: "nat \<Rightarrow> nat option" where
  "hex_val c =
     (if is_digit c then Some (c - 48) else if 65 \<le> c \<and> c \<le> 70 then Some (c - 55)
      else if 97 \<le> c \<and> c \<le> 102 then Some (c - 87) else None)"

fun pct_byte :: "jstr \<Rightarrow> (nat \<times> jstr) option" where
  "pct_byte (p # a # b # r) =
     (if p = 37 then
        (case (hex_val a, hex_val b) of (Some x, Some y) \<Rightarrow> Some (16 * x + y, r) | _ \<Rightarrow> None)
      else None)"
| "pct_byte _ = None"

text \<open>\<open>n\<close> continuation bytes, each contributing six bits.\<close>

fun pct_continuation :: "nat \<Rightarrow> nat \<Rightarrow> jstr \<Rightarrow> (nat \<times> jstr) option" where
  "pct_continuation 0 v s = Some (v, s)"
| "pct_continuation (Suc n) v s =
     (case pct_byte s of
        None \<Rightarrow> None
      | Some (b, r) \<Rightarrow>
          if 0x80 \<le> b \<and> b < 0xC0 then pct_continuation n (64 * v + (b - 0x80)) r else None)"

text \<open>The code point of a UTF-8 sequence: overlong forms, surrogates and values above U+10FFFF are invalid.\<close>

definition pct_point :: "nat \<Rightarrow> jstr \<Rightarrow> (nat \<times> jstr) option" where
  "pct_point b r =
     (let check = (\<lambda>lo x. case x of None \<Rightarrow> None
                           | Some (v, t) \<Rightarrow>
                               if lo \<le> v \<and> v \<le> 0x10FFFF \<and> \<not> (0xD800 \<le> v \<and> v \<le> 0xDFFF)
                               then Some (v, t) else None)
      in if b < 0x80 then Some (b, r)
         else if 0xC0 \<le> b \<and> b < 0xE0 then check 0x80 (pct_continuation 1 (b - 0xC0) r)
         else if 0xE0 \<le> b \<and> b < 0xF0 then check 0x800 (pct_continuation 2 (b - 0xE0) r)
         else if 0xF0 \<le> b \<and> b < 0xF8 then check 0x10000 (pct_continuation 3 (b - 0xF0) r)
         else None)"

definition utf16 :: "nat \<Rightarrow> jstr" where
  "utf16 v = (if v < 0x10000 then [v]
              else [0xD800 + (v - 0x10000) div 0x400, 0xDC00 + (v - 0x10000) mod 0x400])"

lemma pct_byte_shorter: "pct_byte s = Some (b, r) \<Longrightarrow> length r < length s"
  by (induction s rule: pct_byte.induct) (auto split: if_splits option.splits)

lemma pct_continuation_shorter: "pct_continuation n v s = Some (w, r) \<Longrightarrow> length r \<le> length s"
proof (induction n arbitrary: v s)
  case (Suc n)
  then show ?case
    using pct_byte_shorter [of s] by (fastforce split: option.splits if_splits prod.splits)
qed simp

lemma pct_point_shorter: "pct_point b s = Some (v, r) \<Longrightarrow> length r \<le> length s"
  using pct_continuation_shorter
  by (auto simp: pct_point_def Let_def simp del: pct_continuation.simps split: if_splits option.splits)

function decodeURIComponent :: "jstr \<Rightarrow> uri_error + jstr" where
  "decodeURIComponent s =
     (case s of
        [] \<Rightarrow> Inr []
      | c # s' \<Rightarrow>
          if c \<noteq> 37 then map_sum id (Cons c) (decodeURIComponent s')
          else
            (case pct_byte s of
               None \<Rightarrow> Inl URIError
             | Some (b, r) \<Rightarrow>
                 (case pct_point b r of
                    None \<Rightarrow> Inl URIError
                  | Some (v, t) \<Rightarrow> map_sum id ((@) (utf16 v)) (decodeURIComponent t))))"
  by pat_completeness auto
termination
proof (relation "measure length"; clarsimp)
  fix c s' b r v t
  assume "pct_byte (c # s') = Some (b, r)" "pct_point b r = Some (v, t)"
  then show "length t < Suc (length s')"
    using pct_byte_shorter [of "c # s'" b r] pct_point_shorter [of b r v t] by simp
qed

declare decodeURIComponent.simps [simp del]

text \<open>
  \<open>matchPath\<close>: the inner option is the result, parameters in order; the outer sum is the exception of
  \<open>decodeURIComponent\<close>.
\<close>

fun match_parts :: "jstr list \<Rightarrow> jstr list \<Rightarrow> (jstr, jstr) jmap \<Rightarrow> uri_error + (jstr, jstr) jmap option" where
  "match_parts (expected # ps) (actual # as) params =
     (if startsWith expected (js '':'') then
        (case decodeURIComponent actual of
           Inl e \<Rightarrow> Inl e
         | Inr v \<Rightarrow> match_parts ps as (map_set (slice_from 1 expected) v params))
      else if expected \<noteq> actual then Inr None
      else match_parts ps as params)"
| "match_parts _ _ params = Inr (Some params)"

definition matchPath :: "jstr \<Rightarrow> jstr \<Rightarrow> uri_error + (jstr, jstr) jmap option" where
  "matchPath pattern pathname =
     (let patternParts = split_on (js ''/'') (normalizePath pattern);
          pathParts = split_on (js ''/'') (normalizePath pathname)
      in if length patternParts \<noteq> length pathParts then Inr None
         else match_parts patternParts pathParts [])"

section \<open>Pages\<close>

datatype page = PoolDetailPage "(jstr, jstr) jmap" | ActivityPage | SettingsPage | OverviewPage

definition PageRouter :: "jstr \<Rightarrow> uri_error + page" where
  "PageRouter path =
     (case matchPath (js ''/admin/pools/:id'') path of
        Inl e \<Rightarrow> Inl e
      | Inr (Some m) \<Rightarrow> Inr (PoolDetailPage m)
      | Inr None \<Rightarrow>
          Inr (if path = js ''/admin/activity'' then ActivityPage
               else if path = js ''/admin/settings'' then SettingsPage
               else OverviewPage))"

section \<open>Navigation\<close>

record router_state =
  pathname :: jstr
  hist_back :: "jstr list"
  hist_cur :: jstr
  hist_fwd :: "jstr list"

text \<open>\<open>window.location.pathname\<close> of an address.\<close>

definition location_pathname :: "jstr \<Rightarrow> jstr" where
  "location_pathname href = takeWhile (\<lambda>c. c \<noteq> 63 \<and> c \<noteq> 35) href"

definition router_init :: "jstr \<Rightarrow> router_state" where
  "router_init href =
     \<lparr>pathname = normalizePath (location_pathname href), hist_back = [], hist_cur = href, hist_fwd = []\<rparr>"

definition history_write :: "bool \<Rightarrow> jstr \<Rightarrow> router_state \<Rightarrow> router_state" where
  "history_write replace href s =
     (if replace then s\<lparr>hist_cur := href\<rparr>
      else s\<lparr>hist_back := hist_cur s # hist_back s, hist_cur := href, hist_fwd := []\<rparr>)"

definition navigate :: "router_state \<Rightarrow> jstr \<Rightarrow> bool \<Rightarrow> router_state" where
  "navigate s href replace =
     (let next = normalizePath href in
      if next = pathname s then s else (history_write replace href s)\<lparr>pathname := next\<rparr>)"

record click_event =
  defaultPrevented :: bool
  button :: int
  metaKey :: bool
  ctrlKey :: bool
  shiftKey :: bool
  altKey :: bool
  link_target :: jstr

text \<open>The result is the new state and whether \<open>preventDefault\<close> was called.\<close>

definition onLinkClick :: "router_state \<Rightarrow> click_event \<Rightarrow> jstr \<Rightarrow> bool \<Rightarrow> router_state \<times> bool" where
  "onLinkClick s ev href replace =
     (if defaultPrevented ev \<or> button ev \<noteq> 0 \<or> metaKey ev \<or> ctrlKey ev \<or> shiftKey ev \<or> altKey ev
      then (s, False)
      else if link_target ev \<noteq> [] \<and> link_target ev \<noteq> js ''_self'' then (s, False)
      else if hist_cur s = href then (s, True)
      else ((history_write replace href s)\<lparr>pathname := normalizePath href\<rparr>, True))"

text \<open>The browser's back and forward buttons, each with the \<open>popstate\<close> handler.\<close>

definition handlePopState :: "router_state \<Rightarrow> router_state" where
  "handlePopState s = s\<lparr>pathname := normalizePath (location_pathname (hist_cur s))\<rparr>"

definition go_back :: "router_state \<Rightarrow> router_state" where
  "go_back s =
     (case hist_back s of
        [] \<Rightarrow> s
      | h # t \<Rightarrow> handlePopState (s\<lparr>hist_back := t, hist_cur := h, hist_fwd := hist_cur s # hist_fwd s\<rparr>))"

definition go_forward :: "router_state \<Rightarrow> router_state" where
  "go_forward s =
     (case hist_fwd s of
        [] \<Rightarrow> s
      | h # t \<Rightarrow> handlePopState (s\<lparr>hist_fwd := t, hist_cur := h, hist_back := hist_cur s # hist_back s\<rparr>))"

datatype nav_event = Navigate jstr bool | LinkClick click_event jstr bool | Back | Forward

fun nav_step :: "router_state \<Rightarrow> nav_event \<Rightarrow> router_state" where
  "nav_step s (Navigate href r) = navigate s href r"
| "nav_step s (LinkClick ev href r) = fst (onLinkClick s ev href r)"
| "nav_step s Back = go_back s"
| "nav_step s Forward = go_forward s"

section \<open>Shared interface state\<close>

record admin_ui =
  addAccountOpen :: bool
  createPoolOpen :: bool
  preferredPoolId :: "int option"
  dataVersion :: int
  poolSnapshots :: "int \<rightharpoonup> pool_snapshot"

definition admin_ui_init :: admin_ui where
  "admin_ui_init =
     \<lparr>addAccountOpen = False, createPoolOpen = False, preferredPoolId = None, dataVersion = 0,
      poolSnapshots = Map.empty\<rparr>"

definition openAddAccount :: "int option \<Rightarrow> admin_ui \<Rightarrow> admin_ui" where
  "openAddAccount poolId u = u\<lparr>preferredPoolId := poolId, addAccountOpen := True\<rparr>"

definition closeAddAccount :: "admin_ui \<Rightarrow> admin_ui" where
  "closeAddAccount u = u\<lparr>addAccountOpen := False\<rparr>"

definition openCreatePool :: "admin_ui \<Rightarrow> admin_ui" where
  "openCreatePool u = u\<lparr>createPoolOpen := True\<rparr>"

definition closeCreatePool :: "admin_ui \<Rightarrow> admin_ui" where
  "closeCreatePool u = u\<lparr>createPoolOpen := False\<rparr>"

definition refreshData :: "admin_ui \<Rightarrow> admin_ui" where
  "refreshData u = u\<lparr>dataVersion := dataVersion u + 1\<rparr>"

definition setPoolSnapshots :: "(int \<rightharpoonup> pool_snapshot) \<Rightarrow> admin_ui \<Rightarrow> admin_ui" where
  "setPoolSnapshots m u = u\<lparr>poolSnapshots := m\<rparr>"

section \<open>Lemmas\<close>

lemma normalizePath_nonempty [simp]: "normalizePath p \<noteq> []"
  by (simp add: normalizePath_def Let_def)

text \<open>An address without query and fragment.\<close>

definition plain_href :: "jstr \<Rightarrow> bool" where
  "plain_href href \<longleftrightarrow> 63 \<notin> set href \<and> 35 \<notin> set href"

lemma location_plain: "plain_href href \<Longrightarrow> location_pathname href = href"
  by (auto simp: plain_href_def location_pathname_def takeWhile_eq_all_conv)

fun plain_event :: "nav_event \<Rightarrow> bool" where
  "plain_event (Navigate href _) = plain_href href"
| "plain_event (LinkClick _ href _) = plain_href href"
| "plain_event _ = True"

definition router_sync :: "router_state \<Rightarrow> bool" where
  "router_sync s \<longleftrightarrow> pathname s = normalizePath (location_pathname (hist_cur s))"

lemma router_sync_step:
  "router_sync s \<Longrightarrow> plain_event e \<Longrightarrow> router_sync (nav_step s e)"
  by (cases e)
     (auto simp: router_sync_def navigate_def onLinkClick_def history_write_def go_back_def go_forward_def
       handlePopState_def Let_def location_plain split: list.splits)

text \<open>
  C24: The shown page and the address bar agree: after any sequence of navigations, link clicks (with
  any modifier keys, targets and replace options) and moves through the history, the router's path is
  that of the current address, provided the visited addresses have no query and no fragment.
\<close>

theorem router_stays_in_sync:
  assumes "list_all plain_event es"
  shows "router_sync (foldl nav_step (router_init href) es)"
  using assms
proof (induction es rule: rev_induct)
  case Nil
  then show ?case by (simp add: router_sync_def router_init_def)
next
  case (snoc e es)
  then show ?case using router_sync_step by simp
qed

theorem router_stays_in_sync_witness:
  "router_sync (foldl nav_step (router_init (js ''/admin/''))
     [Navigate (js ''/admin/activity'') False, Navigate (js ''/admin/settings/'') True, Back, Forward])"
  by (rule router_stays_in_sync) (simp add: plain_href_def js_def)

text \<open>
  A link with a query leaves the two apart: the router keeps the query in its path, so the
  activity page's own address with a query shows the overview page until the next history move.
\<close>

theorem query_link_shows_overview:
  "let s = navigate (router_init (js ''/admin'')) (js ''/admin/activity?page=2'') False in
   PageRouter (pathname s) = Inr OverviewPage \<and>
   PageRouter (pathname (handlePopState s)) = Inr ActivityPage"
  by code_simp

text \<open>
  Back undoes a navigation: after a navigation to another page that was not a replacement, the
  back button returns to the path the router had before and forward to the one it went to.
\<close>

theorem back_undoes_navigate:
  assumes "router_sync s" and "plain_href href" and "normalizePath href \<noteq> pathname s"
  shows "pathname (go_back (navigate s href False)) = pathname s \<and>
    hist_cur (go_back (navigate s href False)) = hist_cur s \<and>
    pathname (go_forward (go_back (navigate s href False))) = normalizePath href"
  using assms
  by (simp add: router_sync_def navigate_def history_write_def go_back_def go_forward_def handlePopState_def
      Let_def location_plain)

theorem back_undoes_navigate_witness:
  "pathname (go_back (navigate (router_init (js ''/admin/'')) (js ''/admin/settings'') False)) = js ''/admin''"
proof -
  have p: "pathname (router_init (js ''/admin/'')) = js ''/admin''"
    by code_simp
  have "router_sync (router_init (js ''/admin/''))"
    by (simp add: router_sync_def router_init_def)
  moreover have "normalizePath (js ''/admin/settings'') \<noteq> js ''/admin''" "plain_href (js ''/admin/settings'')"
    by (code_simp, simp add: plain_href_def js_def)
  ultimately show ?thesis
    using back_undoes_navigate [of "router_init (js ''/admin/'')" "js ''/admin/settings''"] p by simp
qed

lemma decodeURIComponent_plain: "37 \<notin> set s \<Longrightarrow> decodeURIComponent s = Inr s"
  by (induction s) (simp_all add: decodeURIComponent.simps)

lemma matchPath_pool:
  assumes "s \<noteq> []" and "47 \<notin> set s"
  shows "matchPath (js ''/admin/pools/:id'') (js ''/admin/pools/'' @ s) =
    map_sum id (\<lambda>v. Some [(js ''id'', v)]) (decodeURIComponent s)"
proof -
  have n: "normalizePath (js ''/admin/pools/'' @ s) = js ''/admin/pools/'' @ s"
    using assms by (cases s rule: rev_cases) (auto simp: normalizePath_def strip_slash_def)
  have p: "split_on (js ''/'') (normalizePath (js ''/admin/pools/:id'')) =
      [[], js ''admin'', js ''pools'', js '':id'']"
    by code_simp
  have a: "47 \<notin> set (js ''admin'')" "47 \<notin> set (js ''pools'')"
    by (simp_all add: js_def)
  have "js ''/admin/pools/'' @ s = [] @ 47 # js ''admin'' @ 47 # js ''pools'' @ 47 # s"
    by (simp add: js_def)
  then have "split_on (js ''/'') (normalizePath (js ''/admin/pools/'' @ s)) =
      split_on [47] ([] @ 47 # js ''admin'' @ 47 # js ''pools'' @ 47 # s)"
    unfolding n by (simp add: js_def [of "''/''"])
  also have "\<dots> = [[], js ''admin'', js ''pools'', s]"
    using a assms(2) by (subst split_on_unit) (simp_all add: split_on_unit split_on_unit_none)
  finally have "split_on (js ''/'') (normalizePath (js ''/admin/pools/'' @ s)) =
      [[], js ''admin'', js ''pools'', s]" .
  moreover have "match_parts [[], js ''admin'', js ''pools'', js '':id''] [[], js ''admin'', js ''pools'', s] [] =
      map_sum id (\<lambda>v. Some [(js ''id'', v)]) (decodeURIComponent s)"
    by (simp add: startsWith_def slice_from_def clamp_index_def map_set_def js_def split: sum.splits)
  ultimately show ?thesis
    by (simp add: matchPath_def Let_def p del: match_parts.simps)
qed

text \<open>
  Every pool link leads to its pool: the path \<open>/admin/pools/n\<close> that the sidebar, the orbit and the
  alerts navigate to opens the pool page with exactly the parameter \<open>n\<close>, for every identifier.
\<close>

theorem pool_link_opens_pool:
  "PageRouter (pathname (navigate s (js ''/admin/pools/'' @ show_int n) r)) =
     Inr (PoolDetailPage [(js ''id'', show_int n)])"
proof -
  have d: "47 \<notin> set (show_int n)" "37 \<notin> set (show_int n)"
    using nat_digits_all [of 47] nat_digits_all [of 37] by (auto simp: show_int_def is_digit_def)
  have "pathname (navigate s (js ''/admin/pools/'' @ show_int n) r) =
      normalizePath (js ''/admin/pools/'' @ show_int n)"
    by (simp add: navigate_def history_write_def Let_def)
  also have "\<dots> = js ''/admin/pools/'' @ show_int n"
    using d(1) by (cases "show_int n" rule: rev_cases) (auto simp: normalizePath_def strip_slash_def)
  finally show ?thesis
    using matchPath_pool [OF show_int_nonempty d(1)] decodeURIComponent_plain [OF d(2)]
    by (simp add: PageRouter_def)
qed

end
