(* ===== verification/DragSort.thy ===== *)
theory DragSort
  imports AdminTypes
begin

text \<open>
  \<^verbatim>\<open>web/src/components/DragSortArea.tsx\<close>: reordering the members of a pool by drag and drop, with
  an active and a disabled zone. The drag library is a parameter: the hit lists that \<open>pointerWithin\<close>
  and \<open>rectIntersection\<close> return, and its \<open>arrayMove\<close>, of which the properties assume only that it moves
  the item at the first index to the second (\<open>moves_item\<close>).
\<close>

datatype zone = ZEnabled | ZDisabled

text \<open>The callbacks a drop fires, in order.\<close>

datatype drag_call =
    OnReorder "int list"
  | OnToggleEnabled pool_member bool
  | OnCrossZoneMove pool_member bool "int list"

abbreviation member_key :: "pool_member \<Rightarrow> jstr" where
  "member_key m \<equiv> show_int (member_id m)"

definition enabledMembers :: "pool_member list \<Rightarrow> pool_member list" where
  "enabledMembers ms = filter member_enabled ms"

definition disabledMembers :: "pool_member list \<Rightarrow> pool_member list" where
  "disabledMembers ms = filter (\<lambda>m. \<not> member_enabled m) ms"

definition zone_members :: "zone \<Rightarrow> pool_member list \<Rightarrow> pool_member list" where
  "zone_members z ms = (if z = ZEnabled then enabledMembers ms else disabledMembers ms)"

text \<open>\<open>findIndex\<close>, with \<open>-1\<close> for no match.\<close>

fun findIndex :: "('a \<Rightarrow> bool) \<Rightarrow> 'a list \<Rightarrow> int" where
  "findIndex P [] = -1"
| "findIndex P (x # xs) = (if P x then 0 else (let i = findIndex P xs in if i < 0 then -1 else i + 1))"

definition activePriorityIndex :: "pool_member list \<Rightarrow> jstr option \<Rightarrow> int option" where
  "activePriorityIndex ms activeId =
     (case activeId of
        None \<Rightarrow> None
      | Some k \<Rightarrow>
          (case (if k = [] then None else find (\<lambda>m. member_key m = k) ms) of
             None \<Rightarrow> None
           | Some m \<Rightarrow>
               if \<not> member_enabled m then None
               else (let idx = findIndex (\<lambda>x. member_id x = member_id m) (enabledMembers ms)
                     in if idx \<ge> 0 then Some (idx + 1) else None)))"

definition is_drop_zone :: "jstr \<Rightarrow> bool" where
  "is_drop_zone k \<longleftrightarrow> k = js ''enabled-drop'' \<or> k = js ''disabled-drop''"

definition collisionDetection :: "pool_member list \<Rightarrow> jstr list \<Rightarrow> jstr list \<Rightarrow> jstr list" where
  "collisionDetection ms pointerHits rectHits =
     (case find is_drop_zone pointerHits of
        Some zoneHit \<Rightarrow>
          (let zoneMembers = (if zoneHit = js ''enabled-drop'' then enabledMembers ms else disabledMembers ms);
               memberIds = map member_key zoneMembers;
               itemHits = filter (\<lambda>h. h \<in> set memberIds) pointerHits
           in if itemHits \<noteq> [] then itemHits else [zoneHit])
      | None \<Rightarrow> if pointerHits \<noteq> [] then pointerHits else rectHits)"

definition findZone :: "pool_member list \<Rightarrow> jstr \<Rightarrow> zone option" where
  "findZone ms k =
     (if list_ex (\<lambda>m. member_key m = k) (enabledMembers ms) then Some ZEnabled
      else if list_ex (\<lambda>m. member_key m = k) (disabledMembers ms) then Some ZDisabled
      else if k = js ''enabled-drop'' then Some ZEnabled
      else if k = js ''disabled-drop'' then Some ZDisabled
      else None)"

definition cross_zone_ids :: "pool_member list \<Rightarrow> zone \<Rightarrow> zone \<Rightarrow> pool_member \<Rightarrow> jstr \<Rightarrow> int list" where
  "cross_zone_ids ms sourceZone targetZone sourceMember overId =
     (let remainingSource = filter (\<lambda>m. member_id m \<noteq> member_id sourceMember) (zone_members sourceZone ms);
          targetList = zone_members targetZone ms;
          overIndex = findIndex (\<lambda>m. member_key m = overId) targetList;
          insertAt = (if overIndex \<ge> 0 then overIndex else int (length targetList));
          nextTarget = slice 0 insertAt targetList @ [sourceMember] @ slice_from insertAt targetList;
          nextEnabled = (if targetZone = ZEnabled then nextTarget else remainingSource);
          nextDisabled = (if targetZone = ZDisabled then nextTarget else remainingSource)
      in map member_id (nextEnabled @ nextDisabled))"

definition same_zone_calls ::
    "(pool_member list \<Rightarrow> nat \<Rightarrow> nat \<Rightarrow> pool_member list) \<Rightarrow> pool_member list \<Rightarrow> zone \<Rightarrow> jstr \<Rightarrow> jstr \<Rightarrow> drag_call list"
  where
  "same_zone_calls arrayMove ms z activeId overId =
     (let zoneMembers = zone_members z ms;
          oldIndex = findIndex (\<lambda>m. member_key m = activeId) zoneMembers;
          newIndex = findIndex (\<lambda>m. member_key m = overId) zoneMembers
      in if oldIndex < 0 \<or> newIndex < 0 \<or> oldIndex = newIndex then []
         else
           (let reorderedZone = arrayMove zoneMembers (nat oldIndex) (nat newIndex);
                nextEnabled = (if z = ZEnabled then reorderedZone else enabledMembers ms);
                nextDisabled = (if z = ZDisabled then reorderedZone else disabledMembers ms)
            in [OnReorder (map member_id (nextEnabled @ nextDisabled))]))"

text \<open>\<open>single\<close> says whether the parent gave an \<open>onCrossZoneMove\<close>.\<close>

definition handleDragEnd ::
    "(pool_member list \<Rightarrow> nat \<Rightarrow> nat \<Rightarrow> pool_member list) \<Rightarrow> bool \<Rightarrow> pool_member list \<Rightarrow> jstr \<Rightarrow> jstr option \<Rightarrow>
     drag_call list" where
  "handleDragEnd arrayMove single ms activeId over =
     (let overId = (case over of Some k \<Rightarrow> k | None \<Rightarrow> []) in
      if overId = [] then []
      else case (findZone ms activeId, findZone ms overId) of
        (Some sourceZone, Some targetZone) \<Rightarrow>
          (case find (\<lambda>m. member_key m = activeId) ms of
             None \<Rightarrow> []
           | Some sourceMember \<Rightarrow>
               if sourceZone \<noteq> targetZone then
                 (let orderedIds = cross_zone_ids ms sourceZone targetZone sourceMember overId in
                  if single then [OnCrossZoneMove sourceMember (targetZone = ZEnabled) orderedIds]
                  else [OnToggleEnabled sourceMember (targetZone = ZEnabled), OnReorder orderedIds])
               else same_zone_calls arrayMove ms sourceZone activeId overId)
      | _ \<Rightarrow> [])"

section \<open>What a drop asks for\<close>

definition moves_item :: "('a list \<Rightarrow> nat \<Rightarrow> nat \<Rightarrow> 'a list) \<Rightarrow> bool" where
  "moves_item f \<longleftrightarrow>
     (\<forall>xs i j. i < length xs \<longrightarrow> j < length xs \<longrightarrow>
        f xs i j = (let ys = take i xs @ drop (Suc i) xs in take j ys @ [xs ! i] @ drop j ys))"

fun call_ids :: "drag_call \<Rightarrow> int list option" where
  "call_ids (OnReorder ids) = Some ids"
| "call_ids (OnToggleEnabled _ _) = None"
| "call_ids (OnCrossZoneMove _ _ ids) = Some ids"

text \<open>The abstract drop into the other zone: before the item it was dropped on, else at the end.\<close>

fun insert_before :: "int \<Rightarrow> jstr \<Rightarrow> int list \<Rightarrow> int list" where
  "insert_before x k [] = [x]"
| "insert_before x k (y # ys) = (if show_int y = k then x # y # ys else y # insert_before x k ys)"

section \<open>Lemmas\<close>

lemma findIndex_bounds: "findIndex P xs < int (length xs) \<and> -1 \<le> findIndex P xs"
  by (induction xs) (auto simp: Let_def)

lemma findIndex_nth: "0 \<le> findIndex P xs \<Longrightarrow> P (xs ! nat (findIndex P xs))"
  by (induction xs) (auto simp: Let_def nat_add_distrib split: if_splits)

lemma zone_split: "mset (enabledMembers ms @ disabledMembers ms) = mset ms"
  by (simp add: enabledMembers_def disabledMembers_def)

lemma slice_split:
  "0 \<le> i \<Longrightarrow> i \<le> int (length xs) \<Longrightarrow> slice 0 i xs = take (nat i) xs \<and> slice_from i xs = drop (nat i) xs"
  by (auto simp: slice_def slice_from_def clamp_index_def)

lemma mset_insert_at: "mset (take j ys @ x # drop j ys) = add_mset x (mset ys)"
proof -
  have "mset (take j ys @ x # drop j ys) = add_mset x (mset (take j ys @ drop j ys))"
    by (simp only: mset_append mset.simps union_mset_add_mset_right)
  then show ?thesis by (simp only: append_take_drop_id)
qed

lemma mset_moves_item:
  assumes "moves_item f" "i < length xs" "j < length xs"
  shows "mset (f xs i j) = mset xs"
proof -
  define ys where "ys = take i xs @ drop (Suc i) xs"
  have "f xs i j = take j ys @ xs ! i # drop j ys"
    using assms(1) [unfolded moves_item_def Let_def, rule_format, OF assms(2,3)] by (simp only: ys_def append_Cons append_Nil)
  then have "mset (f xs i j) = add_mset (xs ! i) (mset ys)"
    by (simp only: mset_insert_at)
  also have "\<dots> = mset (take i xs @ xs ! i # drop (Suc i) xs)"
    by (simp add: ys_def)
  finally show ?thesis
    using assms(2) by (simp only: id_take_nth_drop [symmetric])
qed

lemma mset_remove_id:
  assumes "distinct (map member_id ms)" "m \<in> set ms"
  shows "add_mset m (mset (filter (\<lambda>x. member_id x \<noteq> member_id m) ms)) = mset ms"
  using assms
proof (induction ms)
  case (Cons x ms)
  show ?case
  proof (cases "x = m")
    case True
    then have "filter (\<lambda>x. member_id x \<noteq> member_id m) ms = ms"
      using Cons.prems by (intro filter_True) (auto simp: image_iff)
    with True show ?thesis by simp
  next
    case False
    then have "member_id x \<noteq> member_id m"
      using Cons.prems by (auto simp: image_iff)
    with False Cons show ?thesis by auto
  qed
qed simp

lemma distinct_zone: "distinct (map member_id ms) \<Longrightarrow> distinct (map member_id (zone_members z ms))"
  by (simp add: zone_members_def enabledMembers_def disabledMembers_def distinct_map_filter)

lemma findZone_member:
  assumes "distinct (map member_id ms)" "find (\<lambda>m. member_key m = k) ms = Some m" "findZone ms k = Some z"
  shows "m \<in> set (zone_members z ms)"
proof -
  have m: "m \<in> set ms" "member_key m = k"
    using assms(2) by (auto simp: find_Some_iff)
  have u: "x = m" if "x \<in> set ms" "member_key x = k" for x
    using that m assms(1) by (metis distinct_map inj_onD show_int_inject)
  show ?thesis
  proof (cases "member_enabled m")
    case True
    then have "m \<in> set (enabledMembers ms)" using m(1) by (simp add: enabledMembers_def)
    then show ?thesis
      using assms(3) m(2) by (auto simp: findZone_def zone_members_def list_ex_iff split: if_splits)
  next
    case False
    then have "\<not> list_ex (\<lambda>x. member_key x = k) (enabledMembers ms)" "m \<in> set (disabledMembers ms)"
      using m(1) u by (auto simp: enabledMembers_def disabledMembers_def list_ex_iff simp del: show_int_inject)
    then show ?thesis
      using assms(3) m(2) by (auto simp: findZone_def zone_members_def list_ex_iff split: if_splits)
  qed
qed

lemma cross_zone_ids_eq:
  assumes "s \<noteq> t"
  shows "\<exists>i. 0 \<le> i \<and> i \<le> int (length (zone_members t ms)) \<and>
    mset (cross_zone_ids ms s t m k) =
      image_mset member_id (mset (slice 0 i (zone_members t ms) @ [m] @ slice_from i (zone_members t ms)) +
        mset (filter (\<lambda>x. member_id x \<noteq> member_id m) (zone_members s ms)))"
proof -
  let ?T = "zone_members t ms"
  let ?i = "if findIndex (\<lambda>m. member_key m = k) ?T \<ge> 0 then findIndex (\<lambda>m. member_key m = k) ?T
            else int (length ?T)"
  have "0 \<le> ?i" "?i \<le> int (length ?T)"
    using findIndex_bounds [of "\<lambda>m. member_key m = k" ?T] by auto
  moreover have "mset (cross_zone_ids ms s t m k) =
      image_mset member_id (mset (slice 0 ?i ?T @ [m] @ slice_from ?i ?T) +
        mset (filter (\<lambda>x. member_id x \<noteq> member_id m) (zone_members s ms)))"
    using assms by (cases t) (simp_all only: cross_zone_ids_def Let_def zone.distinct if_True if_False
        mset_map mset_append image_mset_union union_ac simp_thms)
  ultimately show ?thesis by blast
qed

lemma mset_cross_zone_ids:
  assumes d: "distinct (map member_id ms)" and m: "m \<in> set (zone_members s ms)" and st: "s \<noteq> t"
  shows "mset (cross_zone_ids ms s t m k) = mset (map member_id ms)"
proof -
  let ?T = "zone_members t ms" and ?S = "zone_members s ms"
  let ?R = "filter (\<lambda>x. member_id x \<noteq> member_id m) ?S"
  obtain i where i: "0 \<le> i" "i \<le> int (length ?T)"
    and eq: "mset (cross_zone_ids ms s t m k) =
      image_mset member_id (mset (slice 0 i ?T @ [m] @ slice_from i ?T) + mset ?R)"
    using cross_zone_ids_eq [OF st] by blast
  have "mset (slice 0 i ?T @ [m] @ slice_from i ?T) + mset ?R = mset ?T + add_mset m (mset ?R)"
    using slice_split [OF i] mset_insert_at [of "nat i" ?T m] by simp
  also have "add_mset m (mset ?R) = mset ?S"
    by (rule mset_remove_id [OF distinct_zone [OF d] m])
  also have "mset ?T + mset ?S = mset ms"
    using st zone_split [of ms] by (cases s; cases t) (auto simp: zone_members_def union_commute)
  finally show ?thesis using eq by simp
qed

lemma same_zone_mset:
  assumes mv: "moves_item mv" and c: "c \<in> set (same_zone_calls mv ms z a k)" and ids: "call_ids c = Some ids"
  shows "mset ids = mset (map member_id ms)"
proof -
  let ?Z = "zone_members z ms"
  let ?o = "findIndex (\<lambda>m. member_key m = a) ?Z" and ?n = "findIndex (\<lambda>m. member_key m = k) ?Z"
  have b: "\<not> (?o < 0 \<or> ?n < 0 \<or> ?o = ?n)"
    using c by (auto simp: same_zone_calls_def Let_def split: if_splits)
  then have lt: "nat ?o < length ?Z" "nat ?n < length ?Z"
    using findIndex_bounds [of "\<lambda>m. member_key m = a" ?Z] findIndex_bounds [of "\<lambda>m. member_key m = k" ?Z]
    by linarith+
  have "c = OnReorder (map member_id ((if z = ZEnabled then mv ?Z (nat ?o) (nat ?n) else enabledMembers ms) @
      (if z = ZDisabled then mv ?Z (nat ?o) (nat ?n) else disabledMembers ms)))"
    using b c by (simp add: same_zone_calls_def Let_def)
  moreover have "mset (mv ?Z (nat ?o) (nat ?n)) = mset ?Z"
    by (rule mset_moves_item [OF mv lt])
  ultimately show ?thesis
    using ids zone_split [of ms] by (cases z) (auto simp: zone_members_def simp flip: image_mset_union)
qed

lemma drag_calls_permute:
  assumes "distinct (map member_id ms)" and "moves_item mv"
    and "c \<in> set (handleDragEnd mv single ms activeId over)" and "call_ids c = Some ids"
  shows "mset ids = mset (map member_id ms)"
proof -
  define k where "k = (case over of Some k \<Rightarrow> k | None \<Rightarrow> [])"
  obtain s where s: "findZone ms activeId = Some s"
    using assms(3) by (cases "findZone ms activeId") (simp_all add: handleDragEnd_def Let_def split: if_splits)
  obtain t where t: "findZone ms k = Some t"
    using assms(3) s
    by (cases "findZone ms k") (simp_all add: handleDragEnd_def Let_def flip: k_def split: if_splits)
  obtain m where m: "find (\<lambda>m. member_key m = activeId) ms = Some m"
    using assms(3) s t
    by (cases "find (\<lambda>m. member_key m = activeId) ms")
       (simp_all add: handleDragEnd_def Let_def flip: k_def split: if_splits)
  have c: "c \<in> set (if s \<noteq> t then
        (if single then [OnCrossZoneMove m (t = ZEnabled) (cross_zone_ids ms s t m k)]
         else [OnToggleEnabled m (t = ZEnabled), OnReorder (cross_zone_ids ms s t m k)])
        else same_zone_calls mv ms s activeId k)"
    using assms(3) s t m
    by (simp add: handleDragEnd_def Let_def flip: k_def split: if_split_asm)
  show ?thesis
  proof (cases "s = t")
    case True
    then show ?thesis using same_zone_mset [OF assms(2) _ assms(4)] c by auto
  next
    case False
    then have "ids = cross_zone_ids ms s t m k"
      using c assms(4) by (auto split: if_splits)
    then show ?thesis
      using mset_cross_zone_ids [OF assms(1) findZone_member [OF assms(1) m s] False] by simp
  qed
qed

text \<open>
  A drop never loses and never duplicates a member: whatever was dragged over whatever target, every
  order the drop sends to the server is a permutation of the pool's members.
\<close>

theorem drag_end_permutes:
  assumes "distinct (map member_id ms)" and "moves_item mv"
    and "c \<in> set (handleDragEnd mv single ms activeId over)" and "call_ids c = Some ids"
  shows "mset ids = mset (map member_id ms)"
  using assms by (rule drag_calls_permute)

definition sample_member :: "int \<Rightarrow> bool \<Rightarrow> pool_member" where
  "sample_member n en =
     \<lparr>member_id = n, member_pool_id = 1, member_account_id = n, member_position = 0, member_enabled = en,
      member_account = None\<rparr>"

definition splice_move :: "'a list \<Rightarrow> nat \<Rightarrow> nat \<Rightarrow> 'a list" where
  "splice_move xs i j = (let ys = take i xs @ drop (Suc i) xs in take j ys @ [xs ! i] @ drop j ys)"

lemma moves_item_splice: "moves_item splice_move"
  by (simp add: moves_item_def splice_move_def)

definition sample_members :: "pool_member list" where
  "sample_members = [sample_member 7 True, sample_member 8 True, sample_member 9 True, sample_member 12 False]"

lemma sample_same_zone:
  "handleDragEnd splice_move True sample_members (js ''7'') (Some (js ''9'')) = [OnReorder [8, 9, 7, 12]]"
  by code_simp

theorem drag_end_permutes_witness: "mset [8, 9, 7, 12] = mset (map member_id sample_members)"
proof (rule drag_end_permutes [OF _ moves_item_splice])
  show "distinct (map member_id sample_members)"
    by code_simp
  show "OnReorder [8, 9, 7, 12] \<in> set (handleDragEnd splice_move True sample_members (js ''7'') (Some (js ''9'')))"
    by (simp add: sample_same_zone)
qed simp

lemma insert_before_slice:
  "map member_id (slice 0 i T @ [m] @ slice_from i T) = insert_before (member_id m) k (map member_id T)"
  if "i = (if findIndex (\<lambda>m. member_key m = k) T \<ge> 0 then findIndex (\<lambda>m. member_key m = k) T
           else int (length T))"
proof -
  let ?f = "findIndex (\<lambda>m. member_key m = k)"
  have "map member_id (take (nat (if ?f T \<ge> 0 then ?f T else int (length T))) T @ m #
      drop (nat (if ?f T \<ge> 0 then ?f T else int (length T))) T) =
    insert_before (member_id m) k (map member_id T)"
  proof (induction T)
    case (Cons x T)
    then show ?case
      using findIndex_bounds [of "\<lambda>m. member_key m = k" T]
      by (auto simp: Let_def nat_add_distrib)
  qed simp
  moreover have "0 \<le> i" "i \<le> int (length T)"
    using that findIndex_bounds [of "\<lambda>m. member_key m = k" T] by auto
  ultimately show ?thesis
    using slice_split [of i T] that by simp
qed

lemma map_remove_id:
  assumes "distinct (map member_id xs)"
  shows "map member_id (filter (\<lambda>x. member_id x \<noteq> i) xs) = remove1 i (map member_id xs)"
  using assms by (simp add: distinct_remove1_removeAll removeAll_filter_not_eq filter_map comp_def)
    (metis (mono_tags, lifting) filter_cong)

lemma findZone_of_member:
  assumes "distinct (map member_id ms)" "m \<in> set ms"
  shows "findZone ms (member_key m) = Some (if member_enabled m then ZEnabled else ZDisabled) \<and>
    find (\<lambda>x. member_key x = member_key m) ms = Some m"
proof -
  have u: "x = m" if "x \<in> set ms" "member_id x = member_id m" for x
    using that assms by (metis distinct_map inj_onD)
  have "find (\<lambda>x. member_key x = member_key m) ms \<noteq> None"
    using assms(2) by (auto simp: find_None_iff)
  then have "find (\<lambda>x. member_key x = member_key m) ms = Some m"
    using u by (auto simp: find_Some_iff) (metis nth_mem)
  moreover have "findZone ms (member_key m) = Some (if member_enabled m then ZEnabled else ZDisabled)"
    using assms(2) u by (auto simp: findZone_def enabledMembers_def disabledMembers_def list_ex_iff)
  ultimately show ?thesis by blast
qed

lemma cross_zone_ids_spec:
  assumes "distinct (map member_id ms)"
  shows "cross_zone_ids ms ZEnabled ZDisabled m k =
      remove1 (member_id m) (map member_id (enabledMembers ms)) @
      insert_before (member_id m) k (map member_id (disabledMembers ms))"
    and "cross_zone_ids ms ZDisabled ZEnabled m k =
      insert_before (member_id m) k (map member_id (enabledMembers ms)) @
      remove1 (member_id m) (map member_id (disabledMembers ms))"
  unfolding cross_zone_ids_def Let_def zone_members_def zone.distinct if_True if_False simp_thms map_append
    insert_before_slice [OF refl, unfolded map_append]
  using distinct_zone [OF assms, of ZEnabled] distinct_zone [OF assms, of ZDisabled]
  by (simp_all add: map_remove_id zone_members_def)

text \<open>
  C17: A drop into the other zone fires one call with the right order: the dragged member leaves its own
  zone, is placed in the target zone just before the member it was dropped on (at the end when it was
  dropped on the zone itself), every other member keeps its place, and active members come first.
\<close>

theorem cross_zone_drop:
  assumes "distinct (map member_id ms)" and "m \<in> set ms"
    and "findZone ms over = Some (if member_enabled m then ZDisabled else ZEnabled)"
  shows "handleDragEnd mv True ms (member_key m) (Some over) =
    [OnCrossZoneMove m (\<not> member_enabled m)
       (let E = map member_id (enabledMembers ms); D = map member_id (disabledMembers ms) in
        if member_enabled m then remove1 (member_id m) E @ insert_before (member_id m) over D
        else insert_before (member_id m) over E @ remove1 (member_id m) D)]"
proof -
  have "over \<noteq> []"
    using assms(3) by (auto simp: findZone_def list_ex_iff split: if_splits)
  note z = findZone_of_member [OF assms(1,2)]
  show ?thesis
    using z assms(3) \<open>over \<noteq> []\<close>
    by (cases "member_enabled m") (simp_all add: handleDragEnd_def Let_def cross_zone_ids_spec [OF assms(1)])
qed

theorem cross_zone_drop_witness:
  "handleDragEnd splice_move True sample_members (js ''8'') (Some (js ''12'')) =
     [OnCrossZoneMove (sample_member 8 True) False [7, 9, 8, 12]]"
proof -
  have "member_key (sample_member 8 True) = js ''8''" by code_simp
  moreover have "distinct (map member_id sample_members)" by code_simp
  moreover have "sample_member 8 True \<in> set sample_members" by (simp add: sample_members_def)
  moreover have "findZone sample_members (js ''12'') = Some ZDisabled" by code_simp
  moreover have "remove1 8 (map member_id (enabledMembers sample_members)) @
      insert_before 8 (js ''12'') (map member_id (disabledMembers sample_members)) = [7, 9, 8, 12]"
    by code_simp
  moreover have "member_enabled (sample_member 8 True)" "member_id (sample_member 8 True) = 8"
    by (simp_all add: sample_member_def)
  ultimately show ?thesis
    using cross_zone_drop [of sample_members "sample_member 8 True" "js ''12''" splice_move] by (simp add: Let_def)
qed

lemma drop_zone_not_member: "is_drop_zone k \<Longrightarrow> k \<noteq> show_int n"
proof -
  have "100 \<notin> set (show_int n)"
    using nat_digits_all [of 100] by (auto simp: show_int_def is_digit_def)
  then show "is_drop_zone k \<Longrightarrow> k \<noteq> show_int n"
    by (auto simp: is_drop_zone_def js_def)
qed

text \<open>
  While the pointer is inside a zone, a drop lands in that zone: every target that the collision
  detection reports then belongs to the zone under the pointer, whatever other cards the pointer hits.
\<close>

theorem collision_stays_in_zone:
  assumes "distinct (map member_id ms)" and "find is_drop_zone hits = Some zoneHit"
    and "k \<in> set (collisionDetection ms hits rects)"
  shows "findZone ms k = Some (if zoneHit = js ''enabled-drop'' then ZEnabled else ZDisabled)"
proof -
  have zh: "is_drop_zone zoneHit" using assms(2) by (auto simp: find_Some_iff)
  have "k = zoneHit \<or> (\<exists>m \<in> set (if zoneHit = js ''enabled-drop'' then enabledMembers ms else disabledMembers ms).
      k = member_key m)"
    using assms(2,3) by (auto simp: collisionDetection_def Let_def split: if_splits)
  then show ?thesis
  proof
    assume k: "k = zoneHit"
    have "\<not> list_ex (\<lambda>m. member_key m = zoneHit) xs" for xs
      using drop_zone_not_member [OF zh] by (metis (mono_tags, lifting) list_ex_iff)
    then show ?thesis
      using zh k by (auto simp: findZone_def is_drop_zone_def)
  next
    assume "\<exists>m \<in> set (if zoneHit = js ''enabled-drop'' then enabledMembers ms else disabledMembers ms).
      k = member_key m"
    then obtain m where "m \<in> set ms" "k = member_key m" "member_enabled m \<longleftrightarrow> zoneHit = js ''enabled-drop''"
      by (auto simp: enabledMembers_def disabledMembers_def split: if_splits)
    then show ?thesis using findZone_of_member [OF assms(1)] by auto
  qed
qed

theorem collision_stays_in_zone_witness:
  "findZone sample_members (js ''8'') = Some ZEnabled \<and>
   js ''8'' \<in> set (collisionDetection sample_members [js ''12'', js ''enabled-drop'', js ''8''] [])"
proof
  show "js ''8'' \<in> set (collisionDetection sample_members [js ''12'', js ''enabled-drop'', js ''8''] [])"
    by code_simp
  moreover have "distinct (map member_id sample_members)" by code_simp
  ultimately show "findZone sample_members (js ''8'') = Some ZEnabled"
    using collision_stays_in_zone [of sample_members "[js ''12'', js ''enabled-drop'', js ''8'']" "js ''enabled-drop''"
        "js ''8''" "[]"]
    by (simp add: is_drop_zone_def)
qed

end
