(* ===== verification/ActivityCharts.thy ===== *)
theory ActivityCharts
  imports Format Json AdminTypes
begin

text \<open>
  The aggregations behind the charts of \<^verbatim>\<open>web/src/pages/ActivityPage.tsx\<close>: the trend buckets, the top
  errors, the latency percentiles and the flow diagram. Dates are local dates of a host whose offset
  from UTC does not change within the window (no change of summer time). Coordinates are exact
  rationals.
\<close>

section \<open>Log helpers\<close>

definition parseAdminDate :: "host \<Rightarrow> jstr \<Rightarrow> int option" where
  "parseAdminDate h s = (if s = [] then None else date_parse h (normalizeUTC s))"

definition getRequestTokens :: "request_log \<Rightarrow> int" where
  "getRequestTokens lg = nullish (input_tokens lg) 0 + nullish (output_tokens lg) 0"

definition hasTrustedTokenAccounting :: "request_log \<Rightarrow> bool" where
  "hasTrustedTokenAccounting lg \<longleftrightarrow>
     log_source_kind lg \<noteq> js ''cpa'' \<or> runtime_binding_status lg = js ''confirmed''"

definition runtimeBindingLabel :: "request_log \<Rightarrow> jstr option" where
  "runtimeBindingLabel lg =
     (if log_source_kind lg \<noteq> js ''cpa'' then None
      else if runtime_binding_status lg = js ''confirmed'' then
        Some (if runtime_auth_index lg \<noteq> [] then runtime_auth_index lg
              else if runtime_auth_id lg \<noteq> [] then runtime_auth_id lg
              else if runtime_account_key lg \<noteq> [] then runtime_account_key lg
              else js ''confirmed'')
      else if runtime_binding_status lg = js ''failed'' then Some (js ''binding failed'')
      else Some (js ''binding unknown''))"

definition within_hours :: "host \<Rightarrow> request_log \<Rightarrow> int \<Rightarrow> bool" where
  "within_hours h lg hoursAgo =
     (case parseAdminDate h (log_created_at lg) of
        None \<Rightarrow> False
      | Some ts \<Rightarrow> ts \<ge> now_ms h - hoursAgo * 3600000)"

definition isOrdinaryUsageLog :: "request_log \<Rightarrow> bool" where
  "isOrdinaryUsageLog lg \<longleftrightarrow>
     traffic_kind lg \<noteq> Some (js ''diagnostic'') \<and> traffic_kind lg \<noteq> Some (js ''stateful_probe'') \<and>
     diagnostic lg \<noteq> Some True \<and> stateful_probe lg \<noteq> Some True"

section \<open>Trend buckets\<close>

datatype trend_range = R24h | R7d | R30d

record trend_bucket =
  tb_key :: jstr
  tb_label :: jstr
  tb_total :: int
  tb_success :: int
  tb_fail :: int

definition bucket_count :: "trend_range \<Rightarrow> nat" where
  "bucket_count r = (case r of R24h \<Rightarrow> 24 | R7d \<Rightarrow> 7 | R30d \<Rightarrow> 30)"

text \<open>\<open>start\<close>: the local hour, or the local midnight, so many units back.\<close>

definition bucket_start :: "host \<Rightarrow> trend_range \<Rightarrow> int" where
  "bucket_start h r =
     (let now = now_ms h in
      if r = R24h then now - local_ms h now mod ms_per_hour - 23 * ms_per_hour
      else now - local_ms h now mod ms_per_day - (if r = R7d then 6 else 29) * ms_per_day)"

definition empty_bucket :: "host \<Rightarrow> trend_range \<Rightarrow> nat \<Rightarrow> trend_bucket" where
  "empty_bucket h r index =
     (if r = R24h then
        (let date = bucket_start h r + int index * ms_per_hour in
         \<lparr>tb_key = show_int (getHours h date), tb_label = pad2 (getHours h date) @ js '':00'',
          tb_total = 0, tb_success = 0, tb_fail = 0\<rparr>)
      else
        (let date = bucket_start h r + int index * ms_per_day in
         \<lparr>tb_key = show_int (getMonth h date + 1) @ js ''-'' @ show_int (getDate h date),
          tb_label = show_int (getMonth h date + 1) @ js ''/'' @ show_int (getDate h date),
          tb_total = 0, tb_success = 0, tb_fail = 0\<rparr>))"

definition bucket_index :: "host \<Rightarrow> trend_range \<Rightarrow> int \<Rightarrow> int" where
  "bucket_index h r d =
     (if r = R24h then (d - bucket_start h r) div ms_per_hour
      else (d - local_ms h d mod ms_per_day - bucket_start h r) div ms_per_day)"

definition bump_bucket :: "request_log \<Rightarrow> trend_bucket \<Rightarrow> trend_bucket" where
  "bump_bucket lg b =
     (if log_success lg then b\<lparr>tb_total := tb_total b + 1, tb_success := tb_success b + 1\<rparr>
      else b\<lparr>tb_total := tb_total b + 1, tb_fail := tb_fail b + 1\<rparr>)"

text \<open>The bucket that a log is counted in, if any.\<close>

definition log_bucket :: "host \<Rightarrow> trend_range \<Rightarrow> request_log \<Rightarrow> nat option" where
  "log_bucket h r lg =
     (case parseAdminDate h (log_created_at lg) of
        None \<Rightarrow> None
      | Some d \<Rightarrow>
          if d < bucket_start h r \<or> d > now_ms h then None
          else (let i = bucket_index h r d in
                if i < 0 \<or> i \<ge> int (bucket_count r) then None else Some (nat i)))"

definition count_log :: "host \<Rightarrow> trend_range \<Rightarrow> trend_bucket list \<Rightarrow> request_log \<Rightarrow> trend_bucket list" where
  "count_log h r buckets lg =
     (case log_bucket h r lg of
        None \<Rightarrow> buckets
      | Some i \<Rightarrow> buckets[i := bump_bucket lg (buckets ! i)])"

definition buildBuckets :: "host \<Rightarrow> request_log list \<Rightarrow> trend_range \<Rightarrow> trend_bucket list" where
  "buildBuckets h logs r = foldl (count_log h r) (map (empty_bucket h r) [0..<bucket_count r]) logs"

section \<open>Percentiles\<close>

definition percentile :: "int list \<Rightarrow> rat \<Rightarrow> int" where
  "percentile values p =
     (if values = [] then 0
      else values ! nat (min (int (length values) - 1) (max 0 \<lfloor>rat_of_int (int (length values) - 1) * p\<rfloor>)))"

definition success_latencies :: "request_log list \<Rightarrow> int list" where
  "success_latencies logs = map latency_ms (filter (\<lambda>l. log_success l \<and> latency_ms l > 0) logs)"

record latency_percentiles =
  lp_count :: int
  lp_p50 :: int
  lp_p95 :: int
  lp_p99 :: int

definition LatencyPercentiles :: "request_log list \<Rightarrow> latency_percentiles" where
  "LatencyPercentiles logs =
     (let values = sort (success_latencies logs) in
      \<lparr>lp_count = int (length values), lp_p50 = percentile values (1/2), lp_p95 = percentile values (19/20),
       lp_p99 = percentile values (99/100)\<rparr>)"

section \<open>Top errors\<close>

record error_row =
  er_statusCode :: int
  er_message :: jstr
  er_count :: int
  er_sample :: request_log

definition failure_message :: "request_log \<Rightarrow> jstr" where
  "failure_message lg = or_str (error_message lg) (js ''HTTP '' @ show_int (status_code lg))"

definition failure_key :: "request_log \<Rightarrow> jstr" where
  "failure_key lg = show_int (status_code lg) @ js '':'' @ slice 0 120 (failure_message lg)"

definition error_buckets :: "request_log list \<Rightarrow> error_row list" where
  "error_buckets logs =
     map snd (group_by failure_key (\<lambda>r. r\<lparr>er_count := er_count r + 1\<rparr>)
       (\<lambda>lg. \<lparr>er_statusCode = status_code lg, er_message = failure_message lg, er_count = 1,
               er_sample = lg\<rparr>)
       (filter (\<lambda>lg. \<not> log_success lg) logs))"

definition TopErrors :: "request_log list \<Rightarrow> error_row list" where
  "TopErrors logs = slice 0 6 (sort_desc er_count (error_buckets logs))"

section \<open>Flow diagram\<close>

record sankey_node =
  sn_id :: jstr
  sn_label :: jstr
  sn_value :: int

record sankey_link =
  sl_source :: jstr
  sl_target :: jstr
  sl_value :: int

record sankey_graph =
  sg_pools :: "sankey_node list"
  sg_accounts :: "sankey_node list"
  sg_models :: "sankey_node list"
  sg_poolAccountLinks :: "sankey_link list"
  sg_accountModelLinks :: "sankey_link list"
  sg_excludedUnrouted :: int

definition model_name :: "request_log \<Rightarrow> jstr" where
  "model_name lg =
     (if model_actual lg \<noteq> [] then model_actual lg
      else if model_requested lg \<noteq> [] then model_requested lg else js ''unknown'')"

definition pool_key :: "request_log \<Rightarrow> jstr" where
  "pool_key lg = js ''pool:'' @ show_int (log_pool_id lg)"

definition account_key :: "request_log \<Rightarrow> jstr" where
  "account_key lg = js ''account:'' @ show_int (log_account_id lg)"

definition model_key :: "request_log \<Rightarrow> jstr" where
  "model_key lg = js ''model:'' @ model_name lg"

text \<open>\<open>addLink\<close> over all logs.\<close>

definition sankey_links ::
    "(request_log \<Rightarrow> jstr) \<Rightarrow> (request_log \<Rightarrow> jstr) \<Rightarrow> request_log list \<Rightarrow> sankey_link list" where
  "sankey_links source target logs =
     map snd (group_by (\<lambda>lg. stringify_strings [source lg, target lg])
       (\<lambda>l. l\<lparr>sl_value := sl_value l + 1\<rparr>)
       (\<lambda>lg. \<lparr>sl_source = source lg, sl_target = target lg, sl_value = 1\<rparr>) logs)"

definition is_routed :: "request_log \<Rightarrow> bool" where
  "is_routed lg \<longleftrightarrow> \<not> log_account_id lg \<le> 0"

text \<open>
  A node key ends in the printed identifier; reading it back with \<open>Number\<close> gives the identifier, so
  the label is looked up with the identifier itself.
\<close>

definition sankey_nodes :: "(request_log \<Rightarrow> jstr) \<Rightarrow> (jstr \<Rightarrow> jstr) \<Rightarrow> request_log list \<Rightarrow> sankey_node list" where
  "sankey_nodes key label logs =
     sort_desc sn_value
       (map (\<lambda>(k, v). \<lparr>sn_id = k, sn_label = label k, sn_value = v\<rparr>) (tally (map key logs)))"

definition key_number :: "nat \<Rightarrow> jstr \<Rightarrow> int option" where
  "key_number n k =
     (case string_to_number (drop n k) of Num x \<Rightarrow> if of_int \<lfloor>x\<rfloor> = x then Some \<lfloor>x\<rfloor> else None | _ \<Rightarrow> None)"

definition pool_label_of :: "(int \<rightharpoonup> jstr) \<Rightarrow> jstr \<Rightarrow> jstr" where
  "pool_label_of poolMap k =
     (case key_number 5 k of
        None \<Rightarrow> js ''Pool #NaN''
      | Some i \<Rightarrow> (case poolMap i of Some l \<Rightarrow> l | None \<Rightarrow> js ''Pool #'' @ show_int i))"

definition account_label_of :: "request_log list \<Rightarrow> jstr \<Rightarrow> jstr" where
  "account_label_of logs k =
     (case key_number 8 k of
        None \<Rightarrow> js ''#NaN''
      | Some i \<Rightarrow>
          (case find (\<lambda>lg. log_account_id lg = i) logs of
             None \<Rightarrow> js ''#'' @ show_int i
           | Some lg \<Rightarrow>
               if log_account_label lg \<noteq> [] then js ''#'' @ show_int i @ js '' '' @ log_account_label lg
               else js ''#'' @ show_int i))"

definition SankeyDiagram :: "request_log list \<Rightarrow> (int \<rightharpoonup> jstr) \<Rightarrow> sankey_graph" where
  "SankeyDiagram logs poolMap =
     (let routed = filter is_routed logs in
      \<lparr>sg_pools = sankey_nodes pool_key (pool_label_of poolMap) routed,
       sg_accounts = sankey_nodes account_key (account_label_of logs) routed,
       sg_models = sankey_nodes model_key (drop 6) routed,
       sg_poolAccountLinks = sankey_links pool_key account_key routed,
       sg_accountModelLinks = sankey_links account_key model_key routed,
       sg_excludedUnrouted = int (length (filter (\<lambda>lg. \<not> is_routed lg) logs))\<rparr>)"

record sankey_position =
  sp_id :: jstr
  sp_x :: rat
  sp_y :: rat
  sp_h :: rat
  sp_label :: jstr
  sp_value :: int

definition layout_height :: "sankey_graph \<Rightarrow> rat" where
  "layout_height g =
     max 220 (of_nat (max (length (sg_pools g)) (max (length (sg_accounts g)) (length (sg_models g)))) * 34 + 40)"

abbreviation (input) paddingY :: rat where "paddingY \<equiv> 34"
abbreviation (input) nodeGap :: rat where "nodeGap \<equiv> 10"
abbreviation (input) minNodeHeight :: rat where "minNodeHeight \<equiv> 6"

text \<open>\<open>nodes.reduce((sum, n) => sum + n.value, 0) || 1\<close>.\<close>

definition total_or_one :: "sankey_node list \<Rightarrow> int" where
  "total_or_one nodes = (let t = sum_list (map sn_value nodes) in if t = 0 then 1 else t)"

fun place_nodes :: "rat \<Rightarrow> rat \<Rightarrow> rat \<Rightarrow> rat \<Rightarrow> sankey_node list \<Rightarrow> sankey_position list" where
  "place_nodes x tot space y [] = []"
| "place_nodes x tot space y (n # ns) =
     (let h = minNodeHeight + (of_int (sn_value n) / tot) * space in
      \<lparr>sp_id = sn_id n, sp_x = x, sp_y = y, sp_h = h, sp_label = sn_label n, sp_value = sn_value n\<rparr> #
      place_nodes x tot space (y + (h + nodeGap)) ns)"

definition computeColumn :: "rat \<Rightarrow> sankey_node list \<Rightarrow> rat \<Rightarrow> rat \<Rightarrow> sankey_position list" where
  "computeColumn height nodes x tot =
     (let innerHeight = height - paddingY * 2;
          available = innerHeight - (of_int (int (length nodes) - 1)) * nodeGap;
          minTotal = of_nat (length nodes) * minNodeHeight;
          proportionalSpace = max 0 (available - minTotal)
      in place_nodes x tot proportionalSpace paddingY nodes)"

definition poolPositions :: "sankey_graph \<Rightarrow> sankey_position list" where
  "poolPositions g = computeColumn (layout_height g) (sg_pools g) 90 (of_int (total_or_one (sg_pools g)))"

definition accountPositions :: "sankey_graph \<Rightarrow> sankey_position list" where
  "accountPositions g = computeColumn (layout_height g) (sg_accounts g) 410 (of_int (total_or_one (sg_accounts g)))"

definition modelPositions :: "sankey_graph \<Rightarrow> sankey_position list" where
  "modelPositions g = computeColumn (layout_height g) (sg_models g) 790 (of_int (total_or_one (sg_models g)))"

definition truncateLabel :: "jstr \<Rightarrow> nat \<Rightarrow> jstr" where
  "truncateLabel label maxLength =
     (if length label \<le> maxLength then label else slice 0 (int maxLength - 1) label @ [0x2026])"

definition nodeLabel :: "jstr \<Rightarrow> sankey_graph \<Rightarrow> jstr" where
  "nodeLabel i g =
     (let look = (\<lambda>ps. map_option sp_label (find (\<lambda>p. sp_id p = i) ps)) in
      nullish (look (poolPositions g)) (nullish (look (accountPositions g)) (nullish (look (modelPositions g)) i)))"

section \<open>Buckets\<close>

lemma length_count_log [simp]: "length (count_log h r bs lg) = length bs"
  by (simp add: count_log_def split: option.splits)

lemma length_foldl_count [simp]: "length (foldl (count_log h r) bs logs) = length bs"
  by (induction logs arbitrary: bs) auto

lemma log_bucket_less: "log_bucket h r lg = Some i \<Longrightarrow> i < bucket_count r"
  by (auto simp: log_bucket_def Let_def split: option.splits if_splits)

lemma bump_bucket_simps [simp]:
  "tb_total (bump_bucket lg b) = tb_total b + 1" "tb_key (bump_bucket lg b) = tb_key b"
  "tb_success (bump_bucket lg b) = tb_success b + (if log_success lg then 1 else 0)"
  "tb_fail (bump_bucket lg b) = tb_fail b + (if log_success lg then 0 else 1)"
  by (simp_all add: bump_bucket_def)

lemma count_log_nth:
  "i < length bs \<Longrightarrow>
   count_log h r bs lg ! i = (if log_bucket h r lg = Some i then bump_bucket lg (bs ! i) else bs ! i)"
  by (cases "log_bucket h r lg") (auto simp: count_log_def nth_list_update)

lemma foldl_count_nth:
  assumes "i < length bs"
  shows "tb_total (foldl (count_log h r) bs logs ! i) =
      tb_total (bs ! i) + int (length (filter (\<lambda>lg. log_bucket h r lg = Some i) logs))"
    and "tb_success (foldl (count_log h r) bs logs ! i) =
      tb_success (bs ! i) + int (length (filter (\<lambda>lg. log_bucket h r lg = Some i \<and> log_success lg) logs))"
    and "tb_fail (foldl (count_log h r) bs logs ! i) =
      tb_fail (bs ! i) + int (length (filter (\<lambda>lg. log_bucket h r lg = Some i \<and> \<not> log_success lg) logs))"
    and "tb_key (foldl (count_log h r) bs logs ! i) = tb_key (bs ! i)"
  using assms
  by (induction logs rule: rev_induct)
     (simp_all add: count_log_nth)

lemma empty_bucket_zero [simp]:
  "tb_total (empty_bucket h r i) = 0" "tb_success (empty_bucket h r i) = 0" "tb_fail (empty_bucket h r i) = 0"
  by (simp_all add: empty_bucket_def Let_def)

lemma length_buildBuckets [simp]: "length (buildBuckets h logs r) = bucket_count r"
  by (simp add: buildBuckets_def)

lemma buildBuckets_nth:
  assumes "i < bucket_count r"
  shows "tb_total (buildBuckets h logs r ! i) = int (length (filter (\<lambda>lg. log_bucket h r lg = Some i) logs))"
    and "tb_success (buildBuckets h logs r ! i) =
      int (length (filter (\<lambda>lg. log_bucket h r lg = Some i \<and> log_success lg) logs))"
    and "tb_fail (buildBuckets h logs r ! i) =
      int (length (filter (\<lambda>lg. log_bucket h r lg = Some i \<and> \<not> log_success lg) logs))"
    and "tb_key (buildBuckets h logs r ! i) = tb_key (empty_bucket h r i)"
  using assms by (simp_all add: buildBuckets_def foldl_count_nth)

definition in_window :: "host \<Rightarrow> trend_range \<Rightarrow> request_log \<Rightarrow> bool" where
  "in_window h r lg =
     (case parseAdminDate h (log_created_at lg) of
        None \<Rightarrow> False
      | Some d \<Rightarrow> bucket_start h r \<le> d \<and> d \<le> now_ms h)"

lemma floor_unit_mono: "0 < u \<Longrightarrow> a \<le> b \<Longrightarrow> a - a mod u \<le> b - b mod (u :: int)"
  by (simp add: minus_mod_eq_mult_div zdiv_mono1)

lemma bucket_index_range:
  assumes "bucket_start h r \<le> d" "d \<le> now_ms h"
  shows "0 \<le> bucket_index h r d \<and> bucket_index h r d < int (bucket_count r)"
proof (cases "r = R24h")
  case True
  have m: "0 \<le> local_ms h (now_ms h) mod ms_per_hour" "local_ms h (now_ms h) mod ms_per_hour < ms_per_hour"
    by simp_all
  have "0 \<le> d - bucket_start h r" "d - bucket_start h r < 24 * ms_per_hour"
    using assms m by (simp_all add: True bucket_start_def Let_def)
  then have "0 \<le> (d - bucket_start h r) div ms_per_hour" "(d - bucket_start h r) div ms_per_hour < 24"
    by (simp_all add: zdiv_int pos_imp_zdiv_nonneg_iff div_less_dividend)
  then show ?thesis by (simp add: True bucket_index_def bucket_count_def)
next
  case False
  let ?k = "if r = R7d then 6 else 29 :: int"
  have f: "d - local_ms h d mod ms_per_day \<le> now_ms h - local_ms h (now_ms h) mod ms_per_day"
    using floor_unit_mono [of ms_per_day "local_ms h d" "local_ms h (now_ms h)"] assms(2)
    by (simp add: local_ms_def)
  have "local_ms h (bucket_start h r) mod ms_per_day = 0"
  proof -
    have "local_ms h (bucket_start h r) =
        (local_ms h (now_ms h) - local_ms h (now_ms h) mod ms_per_day) - ?k * ms_per_day"
      using False by (simp add: bucket_start_def local_ms_def Let_def)
    also have "\<dots> = (local_ms h (now_ms h) div ms_per_day - ?k) * ms_per_day"
      by (simp add: minus_mod_eq_mult_div algebra_simps)
    finally show ?thesis by (metis mod_mult_self2_is_0)
  qed
  then have "bucket_start h r \<le> d - local_ms h d mod ms_per_day"
    using floor_unit_mono [of ms_per_day "local_ms h (bucket_start h r)" "local_ms h d"] assms(1)
    by (simp add: local_ms_def)
  moreover have "d - local_ms h d mod ms_per_day - bucket_start h r \<le> ?k * ms_per_day"
    using f False by (simp add: bucket_start_def Let_def)
  ultimately have "0 \<le> bucket_index h r d" "bucket_index h r d \<le> ?k"
    using False zdiv_mono1 [of "d - local_ms h d mod ms_per_day - bucket_start h r" "?k * ms_per_day" ms_per_day]
    by (simp_all add: bucket_index_def pos_imp_zdiv_nonneg_iff)
  then show ?thesis using False by (cases r) (simp_all add: bucket_count_def)
qed

lemma log_bucket_iff_window: "(\<exists>i. log_bucket h r lg = Some i) \<longleftrightarrow> in_window h r lg"
proof (cases "parseAdminDate h (log_created_at lg)")
  case (Some d)
  then show ?thesis
    using bucket_index_range [of h r d]
    by (cases "bucket_start h r \<le> d \<and> d \<le> now_ms h") (auto simp: log_bucket_def in_window_def Let_def)
qed (simp add: log_bucket_def in_window_def)

lemma sum_filter_classes:
  assumes "\<And>x i. x \<in> set xs \<Longrightarrow> f x = Some i \<Longrightarrow> i < (n :: nat)"
  shows "(\<Sum>i<n. length (filter (\<lambda>x. f x = Some i) xs)) = length (filter (\<lambda>x. \<exists>i. f x = Some i) xs)"
  using assms
proof (induction xs)
  case (Cons x xs)
  have IH: "(\<Sum>i<n. length (filter (\<lambda>x. f x = Some i) xs)) = length (filter (\<lambda>x. \<exists>i. f x = Some i) xs)"
    using Cons.IH Cons.prems by (meson list.set_intros(2))
  show ?case
  proof (cases "f x")
    case None
    then show ?thesis using IH by simp
  next
    case (Some j)
    then have j: "j < n" using Cons.prems by (meson list.set_intros(1))
    have "(\<Sum>i<n. length (filter (\<lambda>x. f x = Some i) (x # xs))) =
        (\<Sum>i<n. length (filter (\<lambda>x. f x = Some i) xs) + (if i = j then 1 else 0))"
      using Some by (intro sum.cong) auto
    also have "\<dots> = (\<Sum>i<n. length (filter (\<lambda>x. f x = Some i) xs)) + (\<Sum>i<n. if i = j then 1 else 0)"
      by (rule sum.distrib)
    also have "(\<Sum>i<n. if i = j then 1 else 0) = (1 :: nat)"
      using j by (subst sum.delta) auto
    finally show ?thesis using IH Some by simp
  qed
qed simp
text \<open>
  The trend charts count every request once: the totals of the buckets add up to the number of logs
  whose time lies between the start of the first bucket and now, and in each bucket the total is the
  successes plus the failures. A log without a readable time is left out.
\<close>

theorem buckets_count_window:
  "sum_list (map tb_total (buildBuckets h logs r)) = int (length (filter (in_window h r) logs)) \<and>
   map tb_total (buildBuckets h logs r) = map (\<lambda>b. tb_success b + tb_fail b) (buildBuckets h logs r)"
proof
  have "sum_list (map tb_total (buildBuckets h logs r)) =
      (\<Sum>i<bucket_count r. tb_total (buildBuckets h logs r ! i))"
    by (simp add: sum_list_sum_nth atLeast0LessThan)
  also have "\<dots> = int (\<Sum>i<bucket_count r. length (filter (\<lambda>lg. log_bucket h r lg = Some i) logs))"
    by (simp add: buildBuckets_nth)
  also have "\<dots> = int (length (filter (in_window h r) logs))"
    using sum_filter_classes [of logs "log_bucket h r" "bucket_count r"] log_bucket_less
    by (simp add: log_bucket_iff_window)
  finally show "sum_list (map tb_total (buildBuckets h logs r)) = int (length (filter (in_window h r) logs))" .
  have "tb_total (buildBuckets h logs r ! i) = tb_success (buildBuckets h logs r ! i) + tb_fail (buildBuckets h logs r ! i)"
    if "i < bucket_count r" for i
  proof -
    have "length (filter (\<lambda>lg. log_bucket h r lg = Some i \<and> log_success lg) logs) +
        length (filter (\<lambda>lg. log_bucket h r lg = Some i \<and> \<not> log_success lg) logs) =
        length (filter (\<lambda>lg. log_bucket h r lg = Some i) logs)"
      by (induction logs) auto
    then show ?thesis using that by (simp add: buildBuckets_nth flip: of_nat_add)
  qed
  then show "map tb_total (buildBuckets h logs r) = map (\<lambda>b. tb_success b + tb_fail b) (buildBuckets h logs r)"
    by (intro nth_equalityI) simp_all
qed

lemma getHours_eq: "getHours h t = local_ms h t div ms_per_hour mod 24"
proof -
  have "local_ms h t mod (ms_per_hour * 24) =
      ms_per_hour * (local_ms h t div ms_per_hour mod 24) + local_ms h t mod ms_per_hour"
    by (rule zmod_zmult2_eq) simp
  then have "local_ms h t mod ms_per_day div ms_per_hour =
      (local_ms h t mod ms_per_hour + ms_per_hour * (local_ms h t div ms_per_hour mod 24)) div ms_per_hour"
    by (simp add: add.commute)
  also have "\<dots> = local_ms h t div ms_per_hour mod 24"
    by (subst div_mult_self2) simp_all
  finally show ?thesis by (simp add: getHours_def)
qed

lemma bucket_start_hour: "ms_per_hour dvd local_ms h (bucket_start h R24h)"
proof -
  have "local_ms h (bucket_start h R24h) =
      (local_ms h (now_ms h) - local_ms h (now_ms h) mod ms_per_hour) - 23 * ms_per_hour"
    by (simp add: bucket_start_def local_ms_def Let_def)
  also have "\<dots> = ms_per_hour * (local_ms h (now_ms h) div ms_per_hour - 23)"
    by (simp add: minus_mod_eq_mult_div algebra_simps)
  finally show ?thesis by simp
qed

text \<open>
  A request is shown at the hour at which it happened: in the 24-hour chart, the bucket a log is
  counted in carries as its key the local hour of the log's own time, so the bar drawn at 14:00 holds
  the requests made between 14:00 and 15:00, at whatever minute the page is opened.
\<close>

theorem bucket_hour_is_local_hour:
  assumes "parseAdminDate h (log_created_at lg) = Some t" and "log_bucket h R24h lg = Some i"
  shows "tb_key (buildBuckets h logs R24h ! i) = show_int (getHours h t)"
proof -
  let ?s = "bucket_start h R24h"
  have i: "int i = (t - ?s) div ms_per_hour" "i < bucket_count R24h"
    using assms log_bucket_less [OF assms(2)]
    by (auto simp: log_bucket_def bucket_index_def Let_def split: if_splits)
  obtain q where q: "local_ms h ?s = ms_per_hour * q" using bucket_start_hour by blast
  have "local_ms h t = (t - ?s) + ms_per_hour * q"
    using q by (simp add: local_ms_def)
  then have "local_ms h t div ms_per_hour = q + int i"
    by (simp add: i(1))
  moreover have "local_ms h (?s + int i * ms_per_hour) = ms_per_hour * (q + int i)"
    using q by (simp add: local_ms_def algebra_simps)
  then have "local_ms h (?s + int i * ms_per_hour) div ms_per_hour = q + int i"
    by simp
  ultimately have "getHours h t = getHours h (?s + int i * ms_per_hour)"
    by (simp add: getHours_eq)
  then show ?thesis
    using i(2) by (simp add: buildBuckets_nth empty_bucket_def Let_def)
qed

definition noon_host :: host where
  "noon_host = \<lparr>now_ms = 100 * 3600000, tz_ms = 0, date_fallback = (\<lambda>_. Some 358200000)\<rparr>"

definition blank_log :: request_log where
  "blank_log =
     \<lparr>log_id = 1, request_id = [], access_token_name = [], model_requested = [], model_actual = [],
      log_pool_id = 1, log_account_id = 1, log_account_label = [], status_code = 200, latency_ms = 10,
      input_tokens = None, output_tokens = None, log_stream = False, request_ip = [], log_success = True,
      error_message = None, log_source_kind = [], attempt_count = 1, diagnostic = None, force_account = None,
      stateful_probe = None, traffic_kind = None, runtime_auth_index = [], runtime_auth_id = [],
      runtime_account_key = [], runtime_binding_status = [], runtime_binding_reason = [],
      log_created_at = js ''noon''\<rparr>"

theorem bucket_hour_is_local_hour_witness:
  "tb_key (buildBuckets noon_host [blank_log] R24h ! 22) = js ''3''"
proof -
  have p: "parseAdminDate noon_host (log_created_at blank_log) = Some 358200000"
    by code_simp
  have n: "now_ms noon_host = 360000000" "tz_ms noon_host = 0"
    by (simp_all add: noon_host_def)
  then have s: "bucket_start noon_host R24h = 277200000"
    by (simp add: bucket_start_def local_ms_def)
  have "log_bucket noon_host R24h blank_log = Some 22"
    by (simp add: log_bucket_def p s n bucket_index_def bucket_count_def)
  moreover have "show_int (getHours noon_host 358200000) = js ''3''"
    by code_simp
  ultimately show ?thesis
    using bucket_hour_is_local_hour [OF p, of 22 "[blank_log]"] by simp
qed

section \<open>Percentiles\<close>

lemma percentile_index:
  assumes "vs \<noteq> []" "0 \<le> p" "p \<le> 1"
  shows "\<exists>k. int k = \<lfloor>rat_of_int (int (length vs) - 1) * p\<rfloor> \<and> k < length vs \<and> percentile vs p = vs ! k"
proof -
  let ?n = "int (length vs) - 1"
  have n: "0 \<le> ?n" using assms(1) by (cases vs) auto
  then have N: "0 \<le> rat_of_int ?n" by (metis of_int_0_le_iff)
  have b: "0 \<le> rat_of_int ?n * p" "rat_of_int ?n * p \<le> rat_of_int ?n"
    using mult_nonneg_nonneg [OF N assms(2)] mult_left_le [OF assms(3) N] by blast+
  then have f: "0 \<le> \<lfloor>rat_of_int ?n * p\<rfloor>" "\<lfloor>rat_of_int ?n * p\<rfloor> \<le> ?n"
    using floor_mono [OF b(1)] floor_mono [OF b(2)] by simp_all
  then show ?thesis
    using assms(1) by (intro exI [of _ "nat \<lfloor>rat_of_int ?n * p\<rfloor>"]) (auto simp: percentile_def nat_less_iff)
qed

lemma sorted_count_le:
  assumes "sorted xs" "k < length xs"
  shows "Suc k \<le> length (filter (\<lambda>x. x \<le> xs ! k) xs) \<and> length xs - k \<le> length (filter (\<lambda>x. xs ! k \<le> x) xs)"
proof -
  have "\<forall>x \<in> set (take (Suc k) xs). x \<le> xs ! k"
    using assms by (auto simp: in_set_conv_nth sorted_iff_nth_mono)
  then have "filter (\<lambda>x. x \<le> xs ! k) (take (Suc k) xs) = take (Suc k) xs"
    by (simp add: filter_id_conv)
  moreover have "length (filter (\<lambda>x. x \<le> xs ! k) xs) =
      length (filter (\<lambda>x. x \<le> xs ! k) (take (Suc k) xs)) + length (filter (\<lambda>x. x \<le> xs ! k) (drop (Suc k) xs))"
    by (metis append_take_drop_id filter_append length_append)
  moreover have "\<forall>x \<in> set (drop k xs). xs ! k \<le> x"
    using assms by (auto simp: in_set_conv_nth sorted_iff_nth_mono)
  then have "filter (\<lambda>x. xs ! k \<le> x) (drop k xs) = drop k xs"
    by (simp add: filter_id_conv)
  moreover have "length (filter (\<lambda>x. xs ! k \<le> x) xs) =
      length (filter (\<lambda>x. xs ! k \<le> x) (take k xs)) + length (filter (\<lambda>x. xs ! k \<le> x) (drop k xs))"
    by (metis append_take_drop_id filter_append length_append)
  ultimately show ?thesis using assms(2) by simp
qed

text \<open>
  The latency percentiles are order statistics: on a non-empty sample and for a fraction \<open>p\<close>
  between 0 and 1 the reported value is one of the sample; with \<open>k = \<lfloor>(n - 1) p\<rfloor>\<close> at least \<open>k + 1\<close>
  requests were no slower and at least \<open>n - k\<close> no faster.
\<close>

theorem percentile_rank:
  assumes "vs \<noteq> []" and "0 \<le> p" and "p \<le> 1"
  shows "let v = percentile (sort vs) p; k = nat \<lfloor>rat_of_int (int (length vs) - 1) * p\<rfloor> in
    v \<in> set vs \<and> k < length (filter (\<lambda>x. x \<le> v) vs) \<and>
    length vs - k \<le> length (filter (\<lambda>x. v \<le> x) vs)"
proof -
  have ne: "sort vs \<noteq> []" using assms(1) by (metis length_0_conv length_sort)
  obtain k where k: "int k = \<lfloor>rat_of_int (int (length vs) - 1) * p\<rfloor>" "k < length vs"
      "percentile (sort vs) p = sort vs ! k"
    using percentile_index [OF ne assms(2,3)] by auto
  have "length (filter P (sort vs)) = length (filter P vs)" for P
    by (metis filter_sort length_sort)
  then show ?thesis
    using sorted_count_le [of "sort vs" k] k by (auto simp: Let_def nat_eq_iff2 simp flip: k(1))
       (metis length_sort nth_mem set_sort)
qed

theorem percentile_rank_witness:
  "let v = percentile (sort [900, 120, 340]) (1/2) in v \<in> {900, 120, 340} \<and> v = 340"
proof -
  have "percentile (sort [900, 120, 340]) (1/2) = 340" by code_simp
  moreover have "[900, 120, 340 :: int] \<noteq> []" "(0 :: rat) \<le> 1/2" "(1/2 :: rat) \<le> 1" by simp_all
  note percentile_rank [OF this]
  ultimately show ?thesis by (simp add: Let_def)
qed

text \<open>
  With two successful requests the reported 99th percentile is the faster of the two, because the
  index is rounded down; the page labels the value as the slowest one percent.
\<close>

theorem p99_of_two_is_the_faster:
  "percentile (sort [x, y]) (99/100) = min x y"
  by (auto simp: percentile_def)

section \<open>Flow diagram\<close>

lemma funpow_link:
  "((\<lambda>l. l\<lparr>sl_value := sl_value l + 1\<rparr>) ^^ n) l = l\<lparr>sl_value := sl_value l + int n\<rparr>"
  by (induction n) auto

lemma link_sums:
  "sum_list (map (\<lambda>l. if sl_source l = a then sl_value l else 0) (sankey_links source target logs)) =
     int (length (filter (\<lambda>lg. source lg = a) logs))"
  "sum_list (map (\<lambda>l. if sl_target l = a then sl_value l else 0) (sankey_links source target logs)) =
     int (length (filter (\<lambda>lg. target lg = a) logs))"
  unfolding sankey_links_def by (rule sum_group_by; simp add: funpow_link)+

lemma sankey_node_value:
  assumes "n \<in> set (sankey_nodes key label logs)"
  shows "sn_value n = int (length (filter (\<lambda>lg. key lg = sn_id n) logs))"
proof -
  have c: "int (count_list (map key logs) k) = int (length (filter (\<lambda>lg. key lg = k) logs))" for k
    by (induction logs) auto
  obtain k v where "(k, v) \<in> set (tally (map key logs))" "sn_id n = k" "sn_value n = v"
    using assms by (auto simp: sankey_nodes_def)
  then show ?thesis by (simp add: in_tally_iff c)
qed

lemma sankey_nodes_total: "sum_list (map sn_value (sankey_nodes key label logs)) = int (length logs)"
proof -
  have "sum_list (map sn_value (sankey_nodes key label logs)) =
      sum_mset (image_mset sn_value (mset (sankey_nodes key label logs)))"
    by (simp flip: sum_mset_sum_list)
  also have "mset (sankey_nodes key label logs) =
      mset (map (\<lambda>(k, v). \<lparr>sn_id = k, sn_label = label k, sn_value = v\<rparr>) (tally (map key logs)))"
    by (simp only: sankey_nodes_def sd.mset_srt)
  also have "sum_mset (image_mset sn_value \<dots>) = sum_list (map snd (tally (map key logs)))"
    by (simp add: case_prod_unfold multiset.map_comp comp_def flip: sum_mset_sum_list)
  finally show ?thesis by (simp add: sum_list_tally)
qed

definition ribbon_sum :: "(sankey_link \<Rightarrow> jstr) \<Rightarrow> jstr \<Rightarrow> sankey_link list \<Rightarrow> int" where
  "ribbon_sum side a links = sum_list (map (\<lambda>l. if side l = a then sl_value l else 0) links)"

text \<open>
  C36: The flow diagram conserves requests: the three columns count the same requests, all those routed
  to an account, and with the excluded ones they are all the logs; at each account the ribbons coming
  in from the pools and those going out to the models both add up to the account's own count.
\<close>

theorem sankey_conserves_requests:
  "list_all (\<lambda>n. ribbon_sum sl_target (sn_id n) (sg_poolAccountLinks (SankeyDiagram logs poolMap)) = sn_value n \<and>
       ribbon_sum sl_source (sn_id n) (sg_accountModelLinks (SankeyDiagram logs poolMap)) = sn_value n)
     (sg_accounts (SankeyDiagram logs poolMap)) \<and>
    sum_list (map sn_value (sg_pools (SankeyDiagram logs poolMap))) =
      sum_list (map sn_value (sg_accounts (SankeyDiagram logs poolMap))) \<and>
    sum_list (map sn_value (sg_accounts (SankeyDiagram logs poolMap))) =
      sum_list (map sn_value (sg_models (SankeyDiagram logs poolMap))) \<and>
    sum_list (map sn_value (sg_accounts (SankeyDiagram logs poolMap))) +
      sg_excludedUnrouted (SankeyDiagram logs poolMap) = int (length logs)"
proof -
  have "length (filter is_routed logs) + length (filter (\<lambda>lg. \<not> is_routed lg) logs) = length logs"
    by (rule sum_length_filter_compl)
  then have e: "int (length (filter is_routed logs)) + int (length (filter (\<lambda>lg. \<not> is_routed lg) logs)) =
      int (length logs)"
    by linarith
  show ?thesis
    using e
    by (auto simp: SankeyDiagram_def Let_def ribbon_sum_def link_sums sankey_node_value sankey_nodes_total list_all_iff
        simp del: filter_filter)
qed

lemma place_nodes_bottom:
  assumes "ns \<noteq> []" "tot = of_int (sum_list (map sn_value ms))" "tot \<noteq> 0"
  shows "place_nodes x tot space y ns \<noteq> [] \<and>
    sp_y (last (place_nodes x tot space y ns)) + sp_h (last (place_nodes x tot space y ns)) =
      y + 6 * of_nat (length ns) + 10 * (of_nat (length ns) - 1) + of_int (sum_list (map sn_value ns)) / tot * space"
  using assms(1)
proof (induction ns arbitrary: y)
  case (Cons n ns)
  show ?case
  proof (cases "ns = []")
    case False
    with Cons.IH [of "y + (6 + of_int (sn_value n) / tot * space + 10)"] show ?thesis
      by (simp add: Let_def algebra_simps add_divide_distrib)
  qed (simp add: Let_def)
qed simp

definition column_bottom :: "sankey_position list \<Rightarrow> rat" where
  "column_bottom ps = sp_y (last ps) + sp_h (last ps)"

lemma computeColumn_bottom:
  assumes "ns \<noteq> []" and "of_nat (length ns) * 34 + 40 \<le> H" and "total_or_one ns = sum_list (map sn_value ns)"
  shows "column_bottom (computeColumn H ns x (of_int (total_or_one ns))) = H - 34"
proof -
  let ?t = "of_int (total_or_one ns) :: rat"
  have t: "?t \<noteq> 0" by (simp add: total_or_one_def Let_def)
  have n: "1 \<le> rat_of_nat (length ns)" using assms(1) by (cases ns) auto
  let ?s = "max 0 (H - 34 * 2 - of_int (int (length ns) - 1) * 10 - of_nat (length ns) * 6)"
  have s: "?s = H - 58 - 16 * of_nat (length ns)"
    using assms(2) n by (auto simp: algebra_simps)
  have "column_bottom (computeColumn H ns x ?t) =
      34 + 6 * of_nat (length ns) + 10 * (of_nat (length ns) - 1) + of_int (sum_list (map sn_value ns)) / ?t * ?s"
    using place_nodes_bottom [OF assms(1), of ?t ns x ?s 34] assms(3) t
    by (simp add: column_bottom_def computeColumn_def Let_def)
  also have "of_int (sum_list (map sn_value ns)) / ?t = 1"
    using t assms(3) by (simp)
  finally show ?thesis unfolding s by (simp add: algebra_simps)
qed

text \<open>
  The flow diagram fits its canvas: whenever a request was routed, in each of the three columns the
  nodes, placed one below the other with a gap of 10 and each at least 6 high, end exactly at the lower
  padding, however many nodes there are and however uneven their counts.
\<close>

theorem columns_fill_canvas:
  assumes "list_ex is_routed logs"
  shows "let g = SankeyDiagram logs poolMap in
    column_bottom (poolPositions g) = layout_height g - 34 \<and>
    column_bottom (accountPositions g) = layout_height g - 34 \<and>
    column_bottom (modelPositions g) = layout_height g - 34"
proof -
  let ?g = "SankeyDiagram logs poolMap" and ?r = "filter is_routed logs"
  have ne: "?r \<noteq> []" using assms by (auto simp: list_ex_iff filter_empty_conv)
  have N: "sankey_nodes key label ?r \<noteq> []" for key label
    using ne by (simp add: sankey_nodes_def)
  have T: "total_or_one (sankey_nodes key label ?r) = sum_list (map sn_value (sankey_nodes key label ?r))" for key label
    using ne by (simp add: total_or_one_def sankey_nodes_total Let_def)
  have H: "rat_of_nat (length ns) * 34 + 40 \<le> layout_height ?g"
    if "length ns \<le> max (length (sg_pools ?g)) (max (length (sg_accounts ?g)) (length (sg_models ?g)))"
    for ns :: "sankey_node list"
  proof -
    have "rat_of_nat (length ns) \<le>
        of_nat (max (length (sg_pools ?g)) (max (length (sg_accounts ?g)) (length (sg_models ?g))))"
      using that by (simp only: of_nat_le_iff)
    then show ?thesis unfolding layout_height_def by linarith
  qed
  show ?thesis
    unfolding Let_def poolPositions_def accountPositions_def modelPositions_def
    using N T by (intro conjI computeColumn_bottom H) (simp_all add: SankeyDiagram_def Let_def)
qed

theorem columns_fill_canvas_witness:
  "column_bottom (modelPositions (SankeyDiagram [blank_log] (\<lambda>_. None))) = 186"
proof -
  have "layout_height (SankeyDiagram [blank_log] (\<lambda>_. None)) = 220"
    by (simp add: layout_height_def SankeyDiagram_def sankey_nodes_def blank_log_def is_routed_def sort_desc_def
        tally_def map_set_def Let_def)
  moreover have "list_ex is_routed [blank_log]"
    by (simp add: is_routed_def blank_log_def)
  ultimately show ?thesis
    using columns_fill_canvas [of "[blank_log]" "\<lambda>_. None"] by (simp add: Let_def)
qed

end
