(* ===== verification/ActivityDigest.thy ===== *)
theory ActivityDigest
  imports ActivityCharts Copy
begin

unbundle bit_operations_syntax

text \<open>
  The daily digest of \<^verbatim>\<open>web/src/pages/ActivityPage.tsx\<close>: the facts computed from the logs of the
  last 24 and 48 hours, and the one to three sentences built from them. A sentence is the text content
  of the React node. \<open>NaN\<close> in a rate is \<open>None\<close>.
\<close>

section \<open>Facts\<close>

record digest_error =
  de_statusCode :: int
  de_message :: jstr
  de_count :: int

record digest_pool =
  dp_id :: int
  dp_label :: jstr
  dp_count :: int
  dp_share :: rat

record digest_model =
  dm_name :: jstr
  dm_count :: int
  dm_share :: rat

record digest_facts =
  df_total :: int
  df_success :: int
  df_failed :: int
  df_successRate :: "rat option"
  df_avgLatencyMs :: rat
  df_p95LatencyMs :: int
  df_streamCount :: int
  df_retriesSaved :: int
  df_routeRejected :: int
  df_busiestHour :: "(int \<times> int) option"
  df_quietHours :: int
  df_topError :: "digest_error option"
  df_topPool :: "digest_pool option"
  df_topModel :: "digest_model option"
  df_prevTotal :: int
  df_prevSuccessRate :: "rat option"
  df_prevAvgLatencyMs :: rat
  df_prevP95LatencyMs :: int

abbreviation (input) DIGEST_MIN_SAMPLES :: int where "DIGEST_MIN_SAMPLES \<equiv> 5"
abbreviation (input) SUCCESS_GREEN :: rat where "SUCCESS_GREEN \<equiv> 98/100"
abbreviation (input) SUCCESS_YELLOW :: rat where "SUCCESS_YELLOW \<equiv> 9/10"
abbreviation (input) CONCENTRATION_THRESHOLD :: rat where "CONCENTRATION_THRESHOLD \<equiv> 6/10"
abbreviation (input) BUSY_HOUR_THRESHOLD :: rat where "BUSY_HOUR_THRESHOLD \<equiv> 4/10"
abbreviation (input) LATENCY_SLOW_MS :: int where "LATENCY_SLOW_MS \<equiv> 8000"
abbreviation (input) LATENCY_IMPROVE_RATIO :: rat where "LATENCY_IMPROVE_RATIO \<equiv> 8/10"

text \<open>The loop that sorts the logs into the two windows.\<close>

definition in_today :: "host \<Rightarrow> request_log \<Rightarrow> bool" where
  "in_today h lg =
     (case parseAdminDate h (log_created_at lg) of
        None \<Rightarrow> False
      | Some ts \<Rightarrow> ts \<ge> now_ms h - 24 * 3600000 \<and> ts \<le> now_ms h)"

definition in_yesterday :: "host \<Rightarrow> request_log \<Rightarrow> bool" where
  "in_yesterday h lg =
     (case parseAdminDate h (log_created_at lg) of
        None \<Rightarrow> False
      | Some ts \<Rightarrow> \<not> (ts \<ge> now_ms h - 24 * 3600000 \<and> ts \<le> now_ms h) \<and>
                   ts \<ge> now_ms h - 48 * 3600000 \<and> ts < now_ms h - 24 * 3600000)"

definition average :: "int list \<Rightarrow> rat" where
  "average xs = (if length xs > 0 then of_int (sum_list xs) / of_nat (length xs) else 0)"

definition busiest :: "trend_bucket list \<Rightarrow> (int \<times> int) option" where
  "busiest buckets =
     (case foldl (\<lambda>b x. case b of
                    None \<Rightarrow> Some (int (digits_val (tb_key x)), tb_total x)
                  | Some (hr, c) \<Rightarrow>
                      if tb_total x > c then Some (int (digits_val (tb_key x)), tb_total x) else Some (hr, c))
            None buckets of
        None \<Rightarrow> None
      | Some (hr, c) \<Rightarrow> if c = 0 then None else Some (hr, c))"

definition digest_error_buckets :: "request_log list \<Rightarrow> digest_error list" where
  "digest_error_buckets logs =
     map snd (group_by failure_key (\<lambda>r. r\<lparr>de_count := de_count r + 1\<rparr>)
       (\<lambda>lg. \<lparr>de_statusCode = status_code lg, de_message = failure_message lg, de_count = 1\<rparr>)
       (filter (\<lambda>lg. \<not> log_success lg) logs))"

definition top_error :: "request_log list \<Rightarrow> digest_error option" where
  "top_error logs =
     (let bs = digest_error_buckets logs in
      if bs \<noteq> [] then Some (hd (sort_desc de_count bs)) else None)"

definition top_pool :: "request_log list \<Rightarrow> (int \<rightharpoonup> jstr) \<Rightarrow> digest_pool option" where
  "top_pool today poolMap =
     (let counts = tally (map log_pool_id today); n = length today in
      if counts \<noteq> [] \<and> n > 0 then
        (let (i, c) = hd (sort_desc snd counts); share = of_int c / of_nat n in
         if share \<ge> CONCENTRATION_THRESHOLD
         then Some \<lparr>dp_id = i, dp_label = nullish (poolMap i) (js ''Pool #'' @ show_int i), dp_count = c,
                    dp_share = share\<rparr>
         else None)
      else None)"

definition top_model :: "request_log list \<Rightarrow> digest_model option" where
  "top_model today =
     (let counts = tally (map model_name today); n = length today in
      if counts \<noteq> [] \<and> n > 0 then
        (let (i, c) = hd (sort_desc snd counts); share = of_int c / of_nat n in
         if share \<ge> CONCENTRATION_THRESHOLD then Some \<lparr>dm_name = i, dm_count = c, dm_share = share\<rparr> else None)
      else None)"

definition computeDigestFacts :: "host \<Rightarrow> request_log list \<Rightarrow> (int \<rightharpoonup> jstr) \<Rightarrow> digest_facts" where
  "computeDigestFacts h logs30d poolMap =
     (let today = filter (in_today h) logs30d;
          yesterday = filter (in_yesterday h) logs30d;
          n = int (length today);
          success = int (length (filter log_success today));
          prevN = int (length yesterday);
          prevSuccess = int (length (filter log_success yesterday));
          buckets = buildBuckets h today R24h
      in \<lparr>df_total = n, df_success = success, df_failed = n - success,
          df_successRate = (if n > 0 then Some (of_int success / of_int n) else None),
          df_avgLatencyMs = average (success_latencies today),
          df_p95LatencyMs = percentile (sort (success_latencies today)) (95/100),
          df_streamCount = int (length (filter log_stream today)),
          df_retriesSaved = int (length (filter (\<lambda>l. log_success l \<and> attempt_count l > 1) today)),
          df_routeRejected = int (length (filter (\<lambda>l. \<not> log_success l \<and> attempt_count l = 0) today)),
          df_busiestHour = busiest buckets,
          df_quietHours = int (length (filter (\<lambda>b. tb_total b = 0) buckets)),
          df_topError = top_error today,
          df_topPool = top_pool today poolMap,
          df_topModel = top_model today,
          df_prevTotal = prevN,
          df_prevSuccessRate = (if prevN \<ge> DIGEST_MIN_SAMPLES then Some (of_int prevSuccess / of_int prevN) else None),
          df_prevAvgLatencyMs = average (success_latencies yesterday),
          df_prevP95LatencyMs = percentile (sort (success_latencies yesterday)) (95/100)\<rparr>)"

section \<open>Wording\<close>

text \<open>
  The djb2 hash on 32-bit integers: \<open><<\<close> and \<open>^\<close> convert to them, and the sum in between wraps when
  \<open>^\<close> reads it.
\<close>

definition djb2 :: "jstr \<Rightarrow> 32 word" where
  "djb2 seed = foldl (\<lambda>h c. (push_bit 5 h + h) XOR of_nat c) 5381 seed"

definition pickVariant :: "jstr \<Rightarrow> 'a list \<Rightarrow> 'a" where
  "pickVariant seed variants = variants ! (nat \<bar>sint (djb2 seed)\<bar> mod length variants)"

record digest_line =
  dl_key :: jstr
  dl_priority :: int
  dl_text :: jstr

definition buildGreeting :: "host \<Rightarrow> jstr" where
  "buildGreeting h =
     (let hr = getHours h (now_ms h) in
      if hr < 5 then c_dg_late_night else if hr < 11 then c_dg_morning else if hr < 14 then c_dg_noon
      else if hr < 18 then c_dg_afternoon else if hr < 22 then c_dg_evening else c_dg_night)"

definition deltaNote :: "digest_facts \<Rightarrow> jstr \<Rightarrow> jstr option" where
  "deltaNote f seed =
     (let diff = df_total f - df_prevTotal f;
          ratio = rat_of_int (df_total f) / rat_of_int (max (df_prevTotal f) 1);
          prev = compact (df_prevTotal f)
      in if df_prevTotal f < DIGEST_MIN_SAMPLES then None
         else if \<bar>diff\<bar> < 3 then None
         else if ratio \<ge> 3/2 then
           Some (pickVariant (seed @ js ''vol-up'') [c_dg_up1 @ prev @ c_dg_rparen, c_dg_up2 @ prev @ c_dg_rparen])
         else if ratio \<le> 6/10 then
           Some (pickVariant (seed @ js ''vol-down'') [c_dg_down1 @ prev @ c_dg_rparen, c_dg_down2 @ prev @ c_dg_rparen])
         else None)"

text \<open>\<open>cond ? `,note` : ""\<close> with the full-width comma.\<close>

definition comma_note :: "jstr option \<Rightarrow> jstr" where
  "comma_note n = (case n of None \<Rightarrow> [] | Some t \<Rightarrow> c_dg_comma @ t)"

definition buildVolumeNode :: "digest_facts \<Rightarrow> jstr \<Rightarrow> jstr \<Rightarrow> jstr" where
  "buildVolumeNode f greeting seed =
     greeting @ c_dg_ran @ js '' '' @ compact (df_total f) @ js '' '' @ c_dg_requests @
     (if df_avgLatencyMs f > 0 then c_dg_avg @ js '' '' @ latency (df_avgLatencyMs f) else []) @
     (if df_streamCount f > 0 then c_dg_of_which @ compact (df_streamCount f) @ c_dg_streamed else []) @
     comma_note (deltaNote f seed) @ c_dg_period"

definition buildRouteRejectedLine :: "digest_facts \<Rightarrow> jstr \<Rightarrow> digest_line option" where
  "buildRouteRejectedLine f seed =
     (if df_routeRejected f = 0 then None
      else
        (let n = compact (df_routeRejected f);
             msg = pickVariant (seed @ js ''route'')
               [c_dg_route1a @ n @ c_dg_route1b, n @ c_dg_route2, c_dg_route3a @ n @ c_dg_route3b]
         in Some \<lparr>dl_key = js ''route-rejected'', dl_priority = 100, dl_text = msg @ c_dg_route_tail\<rparr>))"

definition rate_diffNote :: "digest_facts \<Rightarrow> rat \<Rightarrow> jstr \<Rightarrow> jstr option" where
  "rate_diffNote f rate seed =
     (case df_prevSuccessRate f of
        None \<Rightarrow> None
      | Some prev \<Rightarrow>
          (let diff = rate - prev in
           if diff \<ge> 5/100 then Some (pickVariant (seed @ js ''rate-up'') [c_dg_rate_up1, c_dg_rate_up2])
           else if diff \<le> - 5/100 then Some (pickVariant (seed @ js ''rate-down'') [c_dg_rate_down1, c_dg_rate_down2])
           else None))"

text \<open>\<open>facts.total\<close> is at least five here, so the rate is a number.\<close>

definition buildSuccessRateLine :: "digest_facts \<Rightarrow> jstr \<Rightarrow> digest_line option" where
  "buildSuccessRateLine f seed =
     (if df_total f < DIGEST_MIN_SAMPLES then None
      else case df_successRate f of
        None \<Rightarrow> None
      | Some r \<Rightarrow>
          (let rate = pct r; note = comma_note (rate_diffNote f r seed) in
           if r \<ge> SUCCESS_GREEN then
             Some \<lparr>dl_key = js ''success-rate'', dl_priority = 40,
                   dl_text = c_dg_rate @ js '' '' @ rate @ c_dg_comma @
                     pickVariant (seed @ js ''rate-green'') [c_dg_green1, c_dg_green2, c_dg_green3] @ note @ c_dg_period\<rparr>
           else if r \<ge> SUCCESS_YELLOW then
             Some \<lparr>dl_key = js ''success-rate'', dl_priority = 60,
                   dl_text = c_dg_rate @ js '' '' @ rate @
                     (if df_failed f > 0 then c_dg_with @ compact (df_failed f) @ c_dg_final_failed else []) @
                     note @ c_dg_see_top\<rparr>
           else
             Some \<lparr>dl_key = js ''success-rate'', dl_priority = 95,
                   dl_text = c_dg_rate_fell @ js '' '' @ rate @
                     (if df_failed f > 0 then c_dg_comma @ compact (df_failed f) @ c_dg_dropped else []) @
                     note @ c_dg_top_first\<rparr>))"

definition buildTopErrorLine :: "digest_facts \<Rightarrow> jstr \<Rightarrow> digest_line option" where
  "buildTopErrorLine f seed =
     (case df_topError f of
        None \<Rightarrow> None
      | Some e \<Rightarrow>
          if df_failed f < 2 then None
          else
            (let label = (if de_statusCode e = 0 then c_dg_network else js ''HTTP '' @ show_int (de_statusCode e));
                 trimmed = (if length (de_message e) > 52 then slice 0 52 (de_message e) @ c_dg_ellipsis
                            else de_message e);
                 frame = pickVariant (seed @ js ''top-err'') [c_dg_err1 @ label, c_dg_err2 @ label, c_dg_err3 @ label]
             in Some \<lparr>dl_key = js ''top-error'', dl_priority = 70,
                      dl_text = frame @ c_dg_lparen @ compact (de_count e) @ c_dg_times @
                        c_lb_corner @ trimmed @ c_rb_corner @ c_dg_period\<rparr>))"

definition buildLatencyLine :: "digest_facts \<Rightarrow> jstr \<Rightarrow> digest_line option" where
  "buildLatencyLine f seed =
     (if df_p95LatencyMs f > 0 \<and> df_p95LatencyMs f \<ge> LATENCY_SLOW_MS then
        Some \<lparr>dl_key = js ''latency'', dl_priority = 50,
              dl_text = pickVariant (seed @ js ''lat-slow'') [c_dg_slow1, c_dg_slow2] @ c_dg_p95_at @ js '' '' @
                latency (of_int (df_p95LatencyMs f)) @ c_dg_slow_tail\<rparr>
      else if df_p95LatencyMs f > 0 \<and> df_prevP95LatencyMs f > 0 \<and> df_prevTotal f \<ge> DIGEST_MIN_SAMPLES \<and>
              rat_of_int (df_p95LatencyMs f) < rat_of_int (df_prevP95LatencyMs f) * LATENCY_IMPROVE_RATIO then
        Some \<lparr>dl_key = js ''latency'', dl_priority = 30,
              dl_text = pickVariant (seed @ js ''lat-fast'') [c_dg_fast1, c_dg_fast2] @ c_dg_p95_from @
                latency (of_int (df_prevP95LatencyMs f)) @ c_dg_p95_to @ js '' '' @
                latency (of_int (df_p95LatencyMs f)) @ c_dg_period\<rparr>
      else None)"

definition buildConcentrationLine :: "digest_facts \<Rightarrow> jstr \<Rightarrow> digest_line option" where
  "buildConcentrationLine f seed =
     (case df_topPool f of
        Some p \<Rightarrow>
          (let share = pct (dp_share p) in
           Some \<lparr>dl_key = js ''concentration'', dl_priority = 25,
                 dl_text = pickVariant (seed @ js ''conc-pool'')
                     [c_dg_pool1a @ dp_label p @ c_dg_pool1b @ share, dp_label p @ c_dg_pool2a @ share @ c_dg_pool2b] @
                   (if dp_share p \<ge> 85/100 then c_dg_asleep else []) @ c_dg_period\<rparr>)
      | None \<Rightarrow>
          (case df_topModel f of
             Some m \<Rightarrow>
               (let share = pct (dm_share m) in
                Some \<lparr>dl_key = js ''concentration'', dl_priority = 20,
                      dl_text = pickVariant (seed @ js ''conc-model'')
                        [dm_name m @ c_dg_model1 @ share, share @ c_dg_model2a @ dm_name m @ c_dg_model2b] @ c_dg_period\<rparr>)
           | None \<Rightarrow> None))"

definition buildBusyHourLine :: "digest_facts \<Rightarrow> jstr \<Rightarrow> digest_line option" where
  "buildBusyHourLine f seed =
     (case df_busiestHour f of
        None \<Rightarrow> None
      | Some (hour, c) \<Rightarrow>
          if df_total f = 0 then None
          else
            (let share = rat_of_int c / rat_of_int (df_total f); hh = show_int hour @ js '':00'' in
             if share < BUSY_HOUR_THRESHOLD then None
             else Some \<lparr>dl_key = js ''busy-hour'', dl_priority = 15,
                        dl_text = pickVariant (seed @ js ''busy'')
                          [hh @ c_dg_busy1 @ pct share, c_dg_busy2a @ hh @ c_dg_busy2b @ pct share] @ c_dg_period\<rparr>))"

definition buildRetriesLine :: "digest_facts \<Rightarrow> jstr \<Rightarrow> digest_line option" where
  "buildRetriesLine f seed =
     (if df_retriesSaved f = 0 then None
      else
        (let n = compact (df_retriesSaved f) in
         Some \<lparr>dl_key = js ''retries'', dl_priority = 10,
               dl_text = pickVariant (seed @ js ''retry'')
                   [c_dg_retry1a @ n @ c_dg_retry1b, n @ c_dg_retry2, c_dg_retry3a @ n @ c_dg_retry3b] @
                 c_dg_retry_tail\<rparr>))"

section \<open>The digest\<close>

definition digest_seed :: "digest_facts \<Rightarrow> jstr" where
  "digest_seed f =
     show_int (df_total f) @ js '':'' @ show_int (df_success f) @ js '':'' @ show_int (df_failed f) @ js '':'' @
     show_int (math_round (nullish (df_successRate f) 0 * 1000))"

definition digest_candidates :: "digest_facts \<Rightarrow> jstr \<Rightarrow> digest_line list" where
  "digest_candidates f seed =
     concat (map (\<lambda>x. case x of None \<Rightarrow> [] | Some l \<Rightarrow> [l])
       [buildRouteRejectedLine f seed, buildSuccessRateLine f seed, buildTopErrorLine f seed,
        buildLatencyLine f seed, buildConcentrationLine f seed, buildBusyHourLine f seed,
        buildRetriesLine f seed])"

text \<open>The lines of the digest, as pairs of key and text.\<close>

definition digest_lines :: "digest_facts \<Rightarrow> jstr \<Rightarrow> (jstr \<times> jstr) list" where
  "digest_lines f greeting =
     (let seed = digest_seed f in
      if df_total f = 0 then [(js ''idle'', greeting @ c_dg_idle)]
      else (js ''volume'', buildVolumeNode f greeting seed) #
           map (\<lambda>l. (dl_key l, dl_text l)) (slice 0 2 (sort_desc dl_priority (digest_candidates f seed))))"

definition DailyDigest :: "host \<Rightarrow> request_log list \<Rightarrow> (int \<rightharpoonup> jstr) \<Rightarrow> (jstr \<times> jstr) list" where
  "DailyDigest h logs30d poolMap = digest_lines (computeDigestFacts h logs30d poolMap) (buildGreeting h)"

section \<open>Lemmas\<close>

lemma pickVariant_in: "vs \<noteq> [] \<Longrightarrow> pickVariant seed vs \<in> set vs"
  by (simp add: pickVariant_def)

lemma slice_two: "slice 0 2 xs = take 2 xs"
  using slice_take [of 2 xs] by simp

text \<open>The candidates by priority: only the route line and a failing success rate rank at 95 or more.\<close>

lemma low_priorities:
  "buildTopErrorLine f seed = Some l \<Longrightarrow> dl_priority l < 95"
  "buildLatencyLine f seed = Some l \<Longrightarrow> dl_priority l < 95"
  "buildConcentrationLine f seed = Some l \<Longrightarrow> dl_priority l < 95"
  "buildBusyHourLine f seed = Some l \<Longrightarrow> dl_priority l < 95"
  "buildRetriesLine f seed = Some l \<Longrightarrow> dl_priority l < 95"
proof -
  show "buildTopErrorLine f seed = Some l \<Longrightarrow> dl_priority l < 95"
    by (auto simp: buildTopErrorLine_def Let_def split: option.splits if_split_asm)
  show "buildLatencyLine f seed = Some l \<Longrightarrow> dl_priority l < 95"
    by (auto simp: buildLatencyLine_def split: if_split_asm)
  show "buildConcentrationLine f seed = Some l \<Longrightarrow> dl_priority l < 95"
    unfolding buildConcentrationLine_def Let_def by (cases "df_topPool f"; cases "df_topModel f") auto
  show "buildBusyHourLine f seed = Some l \<Longrightarrow> dl_priority l < 95"
    by (auto simp: buildBusyHourLine_def Let_def split: option.splits if_split_asm)
  show "buildRetriesLine f seed = Some l \<Longrightarrow> dl_priority l < 95"
    by (auto simp: buildRetriesLine_def Let_def split: if_split_asm)
qed

lemma high_candidates:
  "length (filter (\<lambda>l. dl_priority l \<ge> 95) (digest_candidates f seed)) \<le> 2"
proof -
  have h: "\<not> dl_priority l \<ge> 95"
    if "l \<in> set (concat (map (\<lambda>x. case x of None \<Rightarrow> [] | Some l \<Rightarrow> [l])
       [buildTopErrorLine f seed, buildLatencyLine f seed, buildConcentrationLine f seed, buildBusyHourLine f seed,
        buildRetriesLine f seed]))" for l
  proof -
    have "Some l \<in> {buildTopErrorLine f seed, buildLatencyLine f seed, buildConcentrationLine f seed,
        buildBusyHourLine f seed, buildRetriesLine f seed}"
      using that by (auto split: option.splits)
    then show ?thesis using low_priorities [of f seed l] by auto
  qed
  let ?high = "concat (map (\<lambda>x. case x of None \<Rightarrow> [] | Some l \<Rightarrow> [l])
      [buildRouteRejectedLine f seed, buildSuccessRateLine f seed])"
  let ?low = "concat (map (\<lambda>x. case x of None \<Rightarrow> [] | Some l \<Rightarrow> [l])
       [buildTopErrorLine f seed, buildLatencyLine f seed, buildConcentrationLine f seed, buildBusyHourLine f seed,
        buildRetriesLine f seed])"
  have "digest_candidates f seed = ?high @ ?low" by (simp add: digest_candidates_def)
  moreover have "filter (\<lambda>l. dl_priority l \<ge> 95) ?low = []"
    using h by (simp only: filter_empty_conv) blast
  moreover have "length ?high \<le> 2" by (simp split: option.splits)
  then have "length (filter (\<lambda>l. dl_priority l \<ge> 95) ?high) \<le> 2"
    using length_filter_le order_trans by blast
  ultimately show ?thesis by (simp only: filter_append append_Nil2)
qed

text \<open>
  C38: The digest stays within three lines and never leaves out an alarm: whatever else happened in the
  day, requests rejected by the router are reported, and so is a success rate below 90% of at least
  five requests.
\<close>

theorem digest_reports_alarms:
  "length (digest_lines f greeting) \<le> 3 \<and>
   (df_total f \<noteq> 0 \<and> df_routeRejected f \<noteq> 0 \<longrightarrow>
      js ''route-rejected'' \<in> set (map fst (digest_lines f greeting))) \<and>
   (df_successRate f = Some r \<and> df_total f \<ge> 5 \<and> r < 9/10 \<longrightarrow>
      js ''success-rate'' \<in> set (map fst (digest_lines f greeting)))"
proof (intro conjI impI)
  let ?seed = "digest_seed f"
  have shown: "dl_key l \<in> set (map fst (digest_lines f greeting))"
    if "l \<in> set (digest_candidates f ?seed)" "95 \<le> dl_priority l" "df_total f \<noteq> 0" for l
    using high_rank_shown [OF that(1,2) high_candidates] that(3)
    by (force simp: digest_lines_def Let_def slice_two)
  show "length (digest_lines f greeting) \<le> 3"
    by (simp add: digest_lines_def Let_def slice_two)
  show "js ''route-rejected'' \<in> set (map fst (digest_lines f greeting))"
    if "df_total f \<noteq> 0 \<and> df_routeRejected f \<noteq> 0"
  proof -
    have "\<exists>l. buildRouteRejectedLine f ?seed = Some l \<and> dl_key l = js ''route-rejected'' \<and> dl_priority l = 100"
      using that by (simp add: buildRouteRejectedLine_def Let_def)
    then obtain l where l: "buildRouteRejectedLine f ?seed = Some l" "dl_key l = js ''route-rejected''" "dl_priority l = 100"
      by blast
    then have "l \<in> set (digest_candidates f ?seed)" by (simp add: digest_candidates_def)
    from shown [OF this] l that show ?thesis by simp
  qed
  show "js ''success-rate'' \<in> set (map fst (digest_lines f greeting))"
    if "df_successRate f = Some r \<and> df_total f \<ge> 5 \<and> r < 9/10"
  proof -
    have "\<exists>l. buildSuccessRateLine f ?seed = Some l \<and> dl_key l = js ''success-rate'' \<and> dl_priority l = 95"
      using that by (simp add: buildSuccessRateLine_def Let_def)
    then obtain l where l: "buildSuccessRateLine f ?seed = Some l" "dl_key l = js ''success-rate''" "dl_priority l = 95"
      by blast
    then have "l \<in> set (digest_candidates f ?seed)" by (simp add: digest_candidates_def)
    from shown [OF this] l that show ?thesis by simp
  qed
qed

definition not_future :: "host \<Rightarrow> request_log \<Rightarrow> bool" where
  "not_future h lg =
     (case parseAdminDate h (log_created_at lg) of None \<Rightarrow> True | Some ts \<Rightarrow> ts \<le> now_ms h)"

definition error_of_row :: "error_row \<Rightarrow> digest_error" where
  "error_of_row r = \<lparr>de_statusCode = er_statusCode r, de_message = er_message r, de_count = er_count r\<rparr>"

lemma digest_error_buckets_eq: "digest_error_buckets logs = map error_of_row (error_buckets logs)"
proof -
  have "digest_error_buckets logs =
      map snd (map (apsnd error_of_row) (group_by failure_key (\<lambda>r. r\<lparr>er_count := er_count r + 1\<rparr>)
       (\<lambda>lg. \<lparr>er_statusCode = status_code lg, er_message = failure_message lg, er_count = 1, er_sample = lg\<rparr>)
       (filter (\<lambda>lg. \<not> log_success lg) logs)))"
    unfolding digest_error_buckets_def
    by (subst group_by_map_snd [where g = error_of_row, symmetric]) (simp_all add: error_of_row_def)
  then show ?thesis by (simp add: error_buckets_def)
qed

text \<open>
  The digest and the error list agree: as long as no log is dated in the future, the error that the
  digest names as the most frequent is the first row of the list, with the same status code, message
  and count, and the digest names none exactly when the list is empty.
\<close>

theorem top_error_agrees:
  assumes "list_all (not_future h) logs"
  shows "df_topError (computeDigestFacts h logs poolMap) =
    (case TopErrors (filter (\<lambda>lg. within_hours h lg 24) logs) of [] \<Rightarrow> None | r # _ \<Rightarrow> Some (error_of_row r))"
proof -
  have "filter (in_today h) logs = filter (\<lambda>lg. within_hours h lg 24) logs"
    using assms
    by (intro filter_cong) (auto simp: in_today_def within_hours_def not_future_def list_all_iff split: option.splits)
  moreover define ls where "ls = filter (\<lambda>lg. within_hours h lg 24) logs"
  ultimately have t: "df_topError (computeDigestFacts h logs poolMap) = top_error ls"
    by (simp add: computeDigestFacts_def Let_def)
  have "sort_desc de_count (map error_of_row rs) = map error_of_row (sort_desc er_count rs)" for rs
    by (simp add: sort_desc_def sort_key_map error_of_row_def)
  then have "top_error ls = (case sort_desc er_count (error_buckets ls) of [] \<Rightarrow> None | r # _ \<Rightarrow> Some (error_of_row r))"
    using sd.srt_eq_Nil [of er_count "error_buckets ls"]
    by (cases "sort_desc er_count (error_buckets ls)") (simp_all add: top_error_def Let_def digest_error_buckets_eq)
  moreover have "TopErrors ls = take 6 (sort_desc er_count (error_buckets ls))"
    using slice_take [of 6 "sort_desc er_count (error_buckets ls)"] by (simp add: TopErrors_def)
  ultimately show ?thesis
    unfolding t ls_def [symmetric] by (auto split: list.splits)
qed

lemma success_line_prompts:
  assumes "df_total f \<ge> 5" and "df_successRate f = Some r" and "r < 98/100"
  shows "\<exists>l t. buildSuccessRateLine f seed = Some l \<and> (dl_text l = t @ c_dg_see_top \<or> dl_text l = t @ c_dg_top_first)"
  using assms by (cases "9/10 \<le> r") (auto simp: buildSuccessRateLine_def Let_def)

text \<open>
  After a single failed request the digest sends the reader to an error line that it does not show:
  with at least five and fewer than fifty requests the success line ends with the prompt to look at the
  top errors, and the line naming the error is left out, since it asks for two failures.
\<close>

theorem single_failure_prompt_without_error_line:
  assumes "df_total f = int n" and "5 \<le> n" and "n < 50" and "df_failed f = 1"
    and "df_successRate f = Some (of_int (int n - 1) / of_int (int n))"
  shows "buildTopErrorLine f seed = None \<and>
    (\<exists>l t. buildSuccessRateLine f seed = Some l \<and> (dl_text l = t @ c_dg_see_top \<or> dl_text l = t @ c_dg_top_first))"
proof
  have "(of_int (int n - 1) / of_int (int n) :: rat) < 98/100"
    using assms(2,3) by (simp add: field_simps)
  then show "\<exists>l t. buildSuccessRateLine f seed = Some l \<and>
      (dl_text l = t @ c_dg_see_top \<or> dl_text l = t @ c_dg_top_first)"
    using assms(1,2) success_line_prompts [OF _ assms(5)] by simp
  show "buildTopErrorLine f seed = None"
    using assms(4) by (cases "df_topError f") (simp_all add: buildTopErrorLine_def)
qed

definition sample_facts :: "int \<Rightarrow> int \<Rightarrow> int \<Rightarrow> digest_facts" where
  "sample_facts n failed rejected =
     \<lparr>df_total = n, df_success = n - failed, df_failed = failed,
      df_successRate = Some (of_int (n - failed) / of_int n), df_avgLatencyMs = 0, df_p95LatencyMs = 0,
      df_streamCount = 0, df_retriesSaved = 0, df_routeRejected = rejected, df_busiestHour = None,
      df_quietHours = 0, df_topError = None, df_topPool = None, df_topModel = None, df_prevTotal = 0,
      df_prevSuccessRate = None, df_prevAvgLatencyMs = 0, df_prevP95LatencyMs = 0\<rparr>"

theorem single_failure_prompt_without_error_line_witness:
  "buildTopErrorLine (sample_facts 8 1 0) [] = None"
  using single_failure_prompt_without_error_line [of "sample_facts 8 1 0" 8 "[]"]
  by (simp add: sample_facts_def)

theorem digest_reports_alarms_witness:
  "js ''route-rejected'' \<in> set (map fst (digest_lines (sample_facts 10 6 2) [])) \<and>
   js ''success-rate'' \<in> set (map fst (digest_lines (sample_facts 10 6 2) []))"
proof -
  have "df_total (sample_facts 10 6 2) = 10" "df_routeRejected (sample_facts 10 6 2) = 2"
      "df_successRate (sample_facts 10 6 2) = Some (2/5)"
    by (simp_all add: sample_facts_def)
  then show ?thesis
    using digest_reports_alarms [of "sample_facts 10 6 2" "[]" "2/5"] by simp
qed

theorem top_error_agrees_witness:
  "df_topError (computeDigestFacts noon_host [blank_log\<lparr>log_success := False\<rparr>] (\<lambda>_. None)) =
     (case TopErrors (filter (\<lambda>lg. within_hours noon_host lg 24) [blank_log\<lparr>log_success := False\<rparr>]) of
        [] \<Rightarrow> None | r # _ \<Rightarrow> Some (error_of_row r))"
proof (rule top_error_agrees)
  have "parseAdminDate noon_host (js ''noon'') = Some 358200000" by code_simp
  then show "list_all (not_future noon_host) [blank_log\<lparr>log_success := False\<rparr>]"
    by (simp add: not_future_def blank_log_def noon_host_def)
qed

end
