(* ===== verification/Activity.thy ===== *)
theory Activity
  imports ActivityDigest Requests Templates
begin

text \<open>
  The page of \<^verbatim>\<open>web/src/pages/ActivityPage.tsx\<close>: loading the logs page by page, the filters and the
  pagination of the request table, the jump to one request, and the page's state machine with its
  numbered loads.
\<close>

section \<open>Row texts\<close>

definition tokenSummary :: "request_log \<Rightarrow> jstr" where
  "tokenSummary lg =
     (if \<not> hasTrustedTokenAccounting lg then c_act_unconfirmed
      else if getRequestTokens lg > 0 then compact (getRequestTokens lg) else c_act_dash)"

definition tokenDetail :: "request_log \<Rightarrow> jstr" where
  "tokenDetail lg =
     (if \<not> hasTrustedTokenAccounting lg then c_act_binding_unconfirmed
      else c_act_input @ compact (nullish (input_tokens lg) 0) @ c_act_output @
           compact (nullish (output_tokens lg) 0))"

section \<open>Loading\<close>

abbreviation (input) PAGE_SIZE :: nat where "PAGE_SIZE \<equiv> 200"
abbreviation (input) MAX_PAGES :: int where "MAX_PAGES \<equiv> 12"
abbreviation (input) LOGS_PER_PAGE :: int where "LOGS_PER_PAGE \<equiv> 5"

text \<open>An answer of \<^verbatim>\<open>/usage\<close>: \<open>logs?.items\<close> and \<open>logs?.total\<close> may be missing.\<close>

record usage_answer =
  ua_summary :: usage_stats
  ua_items :: "request_log list option"
  ua_total :: "int option"

record usage_bundle =
  ub_summary :: usage_stats
  ub_logs :: "request_log list"
  ub_total :: int
  ub_truncated :: bool

fun all_ok :: "('e + 'a) list \<Rightarrow> 'e + 'a list" where
  "all_ok [] = Inr []"
| "all_ok (r # rs) =
     (case r of Inl e \<Rightarrow> Inl e | Inr a \<Rightarrow> map_sum id (Cons a) (all_ok rs))"

definition ceil_div :: "int \<Rightarrow> int \<Rightarrow> int" where
  "ceil_div a b = - ((- a) div b)"

text \<open>\<open>get n\<close> is the answer to the request for page \<open>n\<close>.\<close>

definition loadUsage30d :: "(nat \<Rightarrow> 'e + usage_answer) \<Rightarrow> 'e + usage_bundle" where
  "loadUsage30d get =
     (case get 1 of
        Inl e \<Rightarrow> Inl e
      | Inr firstPage \<Rightarrow>
          (let firstLogs = nullish (ua_items firstPage) [];
               tot = nullish (ua_total firstPage) (int (length firstLogs));
               totalPages = ceil_div tot (int PAGE_SIZE);
               pagesToFetch = min totalPages MAX_PAGES
           in if pagesToFetch \<le> 1 then
                Inr \<lparr>ub_summary = ua_summary firstPage, ub_logs = firstLogs, ub_total = tot,
                     ub_truncated = (totalPages > MAX_PAGES)\<rparr>
              else
                (case all_ok (map (\<lambda>index. get (index + 2)) [0..<nat (pagesToFetch - 1)]) of
                   Inl e \<Rightarrow> Inl e
                 | Inr pages \<Rightarrow>
                     Inr \<lparr>ub_summary = ua_summary firstPage,
                          ub_logs = firstLogs @ concat (map (\<lambda>p. nullish (ua_items p) []) pages),
                          ub_total = tot, ub_truncated = (totalPages > MAX_PAGES)\<rparr>)))"

section \<open>Filters and pages\<close>

record log_filters =
  filterPool :: jstr
  filterStatus :: jstr
  filterModel :: jstr
  searchRequestId :: jstr

definition log_matches :: "log_filters \<Rightarrow> request_log \<Rightarrow> bool" where
  "log_matches f lg =
     (let trimmed = toLowerCase (trim (searchRequestId f)) in
      if filterPool f \<noteq> js ''all'' \<and> show_int (log_pool_id lg) \<noteq> filterPool f then False
      else if filterStatus f = js ''success'' \<and> \<not> log_success lg then False
      else if filterStatus f = js ''error'' \<and> log_success lg then False
      else if filterModel f \<noteq> js ''all'' \<and> model_actual lg \<noteq> filterModel f \<and> model_requested lg \<noteq> filterModel f
      then False
      else if trimmed \<noteq> [] \<and> \<not> str_includes (toLowerCase (request_id lg)) trimmed then False
      else True)"

definition filteredLogs :: "log_filters \<Rightarrow> request_log list \<Rightarrow> request_log list" where
  "filteredLogs f logs = filter (log_matches f) logs"

definition modelOptions :: "request_log list \<Rightarrow> jstr list" where
  "modelOptions logs =
     sort (remdups (filter (\<lambda>m. m \<noteq> [])
       (map (\<lambda>lg. if model_actual lg \<noteq> [] then model_actual lg else model_requested lg) logs)))"

definition totalPages :: "'a list \<Rightarrow> int" where
  "totalPages xs = max 1 (ceil_div (int (length xs)) LOGS_PER_PAGE)"

definition clampedPage :: "int \<Rightarrow> 'a list \<Rightarrow> int" where
  "clampedPage currentPage xs = min (max 1 currentPage) (totalPages xs)"

definition page_slice :: "int \<Rightarrow> 'a list \<Rightarrow> 'a list" where
  "page_slice p xs = slice ((p - 1) * LOGS_PER_PAGE) (p * LOGS_PER_PAGE) xs"

definition pagedLogs :: "int \<Rightarrow> 'a list \<Rightarrow> 'a list" where
  "pagedLogs currentPage xs = page_slice (clampedPage currentPage xs) xs"

section \<open>The page\<close>

record activity_state =
  act_pools :: "pool list"
  act_usage :: "usage_bundle option"
  act_loading :: bool
  act_error :: "jstr option"
  act_lastUpdated :: "jstr option"
  act_filters :: log_filters
  act_expandedRowId :: "int option"
  act_highlighted :: "jstr option"
  act_currentPage :: int
  act_loadRequestId :: nat
  act_truncated :: bool
  act_hash :: jstr
  act_hashHandled :: "jstr option"
  act_toasts :: "jstr list"

text \<open>
  The events: a load is started by the first effect, by the timer and by the refresh and retry buttons;
  its answer carries the number it was given. \<open>HighlightTimeout\<close> is the 2.6 s timer.
\<close>

datatype activity_event =
    StartLoad
  | LoadOk nat "pool list option" usage_bundle int
  | LoadFail nat "jstr option"
  | SetFilters log_filters
  | SetPage int
  | ToggleRow int
  | JumpToLog jstr
  | HighlightTimeout

definition no_filters :: log_filters where
  "no_filters = \<lparr>filterPool = js ''all'', filterStatus = js ''all'', filterModel = js ''all'', searchRequestId = []\<rparr>"

definition logs30d :: "activity_state \<Rightarrow> request_log list" where
  "logs30d s = (case act_usage s of None \<Rightarrow> [] | Some u \<Rightarrow> ub_logs u)"

text \<open>The effect that returns to page 1 when a filter changed.\<close>

definition set_filters :: "log_filters \<Rightarrow> activity_state \<Rightarrow> activity_state" where
  "set_filters f s =
     (if f = act_filters s then s else s\<lparr>act_filters := f, act_currentPage := 1\<rparr>)"

definition jumpToLog :: "jstr \<Rightarrow> activity_state \<Rightarrow> activity_state" where
  "jumpToLog rid s =
     (case find (\<lambda>lg. request_id lg = rid) (logs30d s) of
        None \<Rightarrow>
          s\<lparr>act_toasts := act_toasts s @ [if act_truncated s then c_act_truncated else c_act_not_found]\<rparr>
      | Some target \<Rightarrow>
          (set_filters (no_filters\<lparr>searchRequestId := rid\<rparr>) s)
            \<lparr>act_expandedRowId := Some (log_id target), act_highlighted := Some rid,
             act_hash := js ''#logs-'' @ rid\<rparr>)"

text \<open>\<open>/^#logs-([A-Za-z0-9_-]+)$/\<close>.\<close>

definition is_slug_unit :: "nat \<Rightarrow> bool" where
  "is_slug_unit c \<longleftrightarrow> 65 \<le> c \<and> c \<le> 90 \<or> 97 \<le> c \<and> c \<le> 122 \<or> is_digit c \<or> c = 95 \<or> c = 45"

definition hash_request :: "jstr \<Rightarrow> jstr option" where
  "hash_request h =
     (if startsWith h (js ''#logs-'') \<and> drop 6 h \<noteq> [] \<and> list_all is_slug_unit (drop 6 h)
      then Some (drop 6 h) else None)"

definition deep_link :: "activity_state \<Rightarrow> activity_state" where
  "deep_link s =
     (if act_loading s \<or> act_usage s = None then s
      else case hash_request (act_hash s) of
        None \<Rightarrow> s
      | Some rid \<Rightarrow>
          if act_hashHandled s = Some rid then s
          else jumpToLog rid (s\<lparr>act_hashHandled := Some rid\<rparr>))"

text \<open>
  \<open>load\<close>: the handlers of its promise run \<open>finally\<close> after either outcome, so each answer also clears
  \<open>loading\<close>; the deep-link effect runs after the answer is stored.
\<close>

fun act_step :: "activity_state \<Rightarrow> activity_event \<Rightarrow> activity_state" where
  "act_step s StartLoad =
     s\<lparr>act_loadRequestId := Suc (act_loadRequestId s), act_loading := True, act_error := None\<rparr>"
| "act_step s (LoadOk n ps u now) =
     (if n \<noteq> act_loadRequestId s then s
      else deep_link (s\<lparr>act_pools := nullish ps [], act_usage := Some u, act_truncated := ub_truncated u,
                        act_lastUpdated := Some (toISOString now), act_loading := False\<rparr>))"
| "act_step s (LoadFail n msg) =
     (if n \<noteq> act_loadRequestId s then s
      else deep_link (s\<lparr>act_error := Some (nullish msg c_act_failed), act_loading := False\<rparr>))"
| "act_step s (SetFilters f) = set_filters f s"
| "act_step s (SetPage p) = s\<lparr>act_currentPage := p\<rparr>"
| "act_step s (ToggleRow i) =
     s\<lparr>act_expandedRowId := (if act_expandedRowId s = Some i then None else Some i)\<rparr>"
| "act_step s (JumpToLog rid) = jumpToLog rid s"
| "act_step s HighlightTimeout = s\<lparr>act_highlighted := None\<rparr>"

definition act_initial :: "jstr \<Rightarrow> activity_state" where
  "act_initial h =
     \<lparr>act_pools = [], act_usage = None, act_loading = True, act_error = None, act_lastUpdated = None,
      act_filters = no_filters, act_expandedRowId = None, act_highlighted = None, act_currentPage = 1,
      act_loadRequestId = 0, act_truncated = False, act_hash = h, act_hashHandled = None, act_toasts = []\<rparr>"

definition prev_page :: "activity_state \<Rightarrow> activity_event" where
  "prev_page s =
     SetPage (max 1 (clampedPage (act_currentPage s) (filteredLogs (act_filters s) (logs30d s)) - 1))"

definition next_page :: "activity_state \<Rightarrow> activity_event" where
  "next_page s =
     (let xs = filteredLogs (act_filters s) (logs30d s) in
      SetPage (min (totalPages xs) (clampedPage (act_currentPage s) xs + 1)))"

definition shown_rows :: "activity_state \<Rightarrow> request_log list" where
  "shown_rows s = pagedLogs (act_currentPage s) (filteredLogs (act_filters s) (logs30d s))"

section \<open>Lemmas\<close>

lemma ceil_div_bounds:
  assumes "0 < b"
  shows "a \<le> ceil_div a b * b" "(ceil_div a b - 1) * b < a"
proof -
  have d: "b * ((- a) div b) + (- a) mod b = - a" by (rule mult_div_mod_eq)
  have m: "0 \<le> (- a) mod b" "(- a) mod b < b" using assms by simp_all
  have c: "ceil_div a b * b = - (b * ((- a) div b))" by (simp add: ceil_div_def mult.commute)
  show "a \<le> ceil_div a b * b" using c d m by linarith
  have "(ceil_div a b - 1) * b = ceil_div a b * b - b" by (simp add: algebra_simps)
  then show "(ceil_div a b - 1) * b < a" using c d m by linarith
qed

lemma concat_chunks: "concat (map (\<lambda>k. take n (drop (k * n) xs)) [0..<m]) = take (m * n) xs"
proof (induction m)
  case (Suc m)
  have "take (Suc m * n) xs = take (m * n) xs @ take n (drop (m * n) xs)"
    by (metis add.commute mult_Suc take_add)
  with Suc show ?case by simp
qed simp

lemma all_ok_map: "(\<And>x. x \<in> set xs \<Longrightarrow> f x = Inr (g x)) \<Longrightarrow> all_ok (map f xs) = Inr (map g xs)"
  by (induction xs) auto

text \<open>
  C32: Loading the month's logs is complete up to its limit: against a server that pages a fixed list of
  logs by 200, the page ends up with the first 2400 of them in order, the server's own total, and the
  truncation mark exactly when there are more than 2400.
\<close>

theorem loadUsage30d_complete:
  assumes "\<And>n. get n = Inr \<lparr>ua_summary = st, ua_items = Some (take 200 (drop ((n - 1) * 200) all)),
      ua_total = Some (int (length all))\<rparr>"
  shows "loadUsage30d get =
    Inr \<lparr>ub_summary = st, ub_logs = take 2400 all, ub_total = int (length all), ub_truncated = (length all > 2400)\<rparr>"
proof -
  define t where "t = ceil_div (int (length all)) 200"
  define k where "k = min t 12"
  have b: "int (length all) \<le> t * 200" "(t - 1) * 200 < int (length all)"
    using ceil_div_bounds [of 200 "int (length all)"] by (simp_all add: t_def)
  have "t > 12 \<longleftrightarrow> int (length all) > 2400"
  proof
    assume "t > 12"
    then have "2400 \<le> (t - 1) * 200" by simp
    with b(2) show "int (length all) > 2400" by simp
  next
    assume "int (length all) > 2400"
    with b(1) have "2400 < t * 200" by simp
    then show "t > 12" by simp
  qed
  then have trunc: "t > 12 \<longleftrightarrow> length all > 2400" by simp
  have all: "take (nat k * 200) all = take 2400 all"
    using b by (cases "t \<le> 12") (auto simp: k_def min_def)
  show ?thesis
  proof (cases "k \<le> 1")
    case True
    then have "length all \<le> 200" using b by (simp add: k_def split: if_splits)
    then show ?thesis
      using True trunc by (simp add: loadUsage30d_def assms Let_def flip: t_def k_def)
  next
    case False
    then obtain m where m: "nat k = Suc m" "nat (k - 1) = m" by (cases "nat k") auto
    have "concat (map (\<lambda>j. take 200 (drop (j * 200) all)) [0..<Suc m]) = take 2400 all"
      using concat_chunks [of 200 all "Suc m"] all m by simp
    moreover have "[0..<Suc m] = 0 # map Suc [0..<m]"
      by (simp add: upt_conv_Cons map_Suc_upt del: upt_Suc)
    ultimately have "concat (map (\<lambda>j. take 200 (drop (j * 200) all)) (0 # map Suc [0..<m])) = take 2400 all"
      by metis
    then have "take 200 all @ concat (map (\<lambda>j. take 200 (drop ((j + 1) * 200) all)) [0..<m]) = take 2400 all"
      by (simp add: comp_def)
    moreover have "all_ok (map (\<lambda>i. get (i + 2)) [0..<m]) =
        Inr (map (\<lambda>j. \<lparr>ua_summary = st, ua_items = Some (take 200 (drop ((j + 1) * 200) all)),
          ua_total = Some (int (length all))\<rparr>) [0..<m])"
      by (rule all_ok_map) (simp add: assms)
    ultimately show ?thesis
      using False trunc m by (simp add: loadUsage30d_def assms Let_def comp_def flip: t_def k_def)
  qed
qed

lemma page_slice_take:
  assumes "1 \<le> p"
  shows "page_slice p xs = take 5 (drop (nat (p - 1) * 5) xs)"
proof -
  define q where "q = nat (p - 1)"
  have p: "p = int q + 1" using assms by (simp add: q_def)
  have "clamp_index (int q * 5) xs = min (q * 5) (length xs)" "clamp_index ((int q + 1) * 5) xs = min (q * 5 + 5) (length xs)"
    by (simp_all add: clamp_index_def Let_def min_def nat_mult_distrib nat_add_distrib)
  then show ?thesis
    unfolding page_slice_def slice_def p q_def [symmetric]
    by (cases "q * 5 \<le> length xs") (auto simp: p min_def take_all_iff)
qed

lemma totalPages_cover: "length xs \<le> nat (totalPages xs) * 5" "xs \<noteq> [] \<Longrightarrow> nat (totalPages xs - 1) * 5 < length xs"
proof -
  have b: "int (length xs) \<le> ceil_div (int (length xs)) 5 * 5"
      "(ceil_div (int (length xs)) 5 - 1) * 5 < int (length xs)"
    using ceil_div_bounds [of 5 "int (length xs)"] by simp_all
  have t: "totalPages xs = max 1 (ceil_div (int (length xs)) 5)" by (simp add: totalPages_def)
  have "ceil_div (int (length xs)) 5 \<le> totalPages xs" "int (nat (totalPages xs)) = totalPages xs"
    unfolding t by simp_all
  then have "int (length xs) \<le> int (nat (totalPages xs)) * 5" using b(1) by linarith
  then show "length xs \<le> nat (totalPages xs) * 5" by linarith
  show "xs \<noteq> [] \<Longrightarrow> nat (totalPages xs - 1) * 5 < length xs"
    using b by (cases xs) (auto simp: totalPages_def max_def)
qed

text \<open>
  Paging the request table neither hides nor repeats a row: the pages from the first to the last,
  one after the other, are exactly the filtered logs; whatever page number the state holds, the page
  shown is one of them, has at most five rows, and is empty only when nothing matches the filters.
\<close>

theorem pages_partition:
  "concat (map (\<lambda>i. page_slice (int i + 1) xs) [0..<nat (totalPages xs)]) = xs \<and>
   1 \<le> clampedPage p xs \<and> clampedPage p xs \<le> totalPages xs \<and>
   length (pagedLogs p xs) \<le> 5 \<and> (pagedLogs p xs = [] \<longleftrightarrow> xs = [])"
proof -
  have one: "1 \<le> totalPages xs" by (simp add: totalPages_def)
  then have c: "1 \<le> clampedPage p xs" "clampedPage p xs \<le> totalPages xs" by (simp_all add: clampedPage_def)
  have "map (\<lambda>i. page_slice (int i + 1) xs) [0..<nat (totalPages xs)] =
      map (\<lambda>i. take 5 (drop (i * 5) xs)) [0..<nat (totalPages xs)]"
    by (simp add: page_slice_take)
  then have "concat (map (\<lambda>i. page_slice (int i + 1) xs) [0..<nat (totalPages xs)]) = xs"
    using totalPages_cover(1) [of xs] by (simp only: concat_chunks take_all)
  moreover have "pagedLogs p xs = take 5 (drop (nat (clampedPage p xs - 1) * 5) xs)"
    using c by (simp add: pagedLogs_def page_slice_take)
  moreover have "nat (clampedPage p xs - 1) * 5 < length xs" if "xs \<noteq> []"
  proof -
    have "nat (clampedPage p xs - 1) \<le> nat (totalPages xs - 1)" using c by simp
    then show ?thesis using totalPages_cover(2) [OF that] by linarith
  qed
  ultimately show ?thesis using c by (cases "xs = []") auto
qed

definition sample_server :: "nat \<Rightarrow> unit + usage_answer" where
  "sample_server n =
     Inr \<lparr>ua_summary = \<lparr>total_requests = 0, success_rate = 0, total_input_tokens = 0, total_output_tokens = 0,
            by_account = [], by_token = []\<rparr>,
          ua_items = Some (take 200 (drop ((n - 1) * 200) (replicate 2500 blank_log))),
          ua_total = Some (int (length (replicate 2500 blank_log)))\<rparr>"

theorem loadUsage30d_complete_witness:
  "\<exists>b. loadUsage30d sample_server = Inr b \<and> ub_logs b = replicate 2400 blank_log \<and> ub_truncated b"
  using loadUsage30d_complete [of sample_server _ "replicate 2500 blank_log", OF sample_server_def] by simp

section \<open>Jumping to a request\<close>

lemma toLowerCase_append: "toLowerCase (a @ b) = toLowerCase a @ toLowerCase b"
  by (simp add: toLowerCase_def)

lemma trim_infix: "\<exists>a b. s = a @ trim s @ b"
proof -
  let ?d = "dropWhile is_js_space s"
  have s: "s = takeWhile is_js_space s @ ?d" by simp
  have "rev ?d = takeWhile is_js_space (rev ?d) @ dropWhile is_js_space (rev ?d)" by simp
  then have "?d = rev (dropWhile is_js_space (rev ?d)) @ rev (takeWhile is_js_space (rev ?d))"
    by (metis rev_append rev_rev_ident)
  with s show ?thesis unfolding trim_def by metis
qed

lemma search_finds_itself: "log_matches (no_filters\<lparr>searchRequestId := request_id lg\<rparr>) lg"
proof -
  obtain a b where "request_id lg = a @ trim (request_id lg) @ b" using trim_infix by blast
  then have "str_includes (toLowerCase (request_id lg)) (toLowerCase (trim (request_id lg)))"
    unfolding str_includes_iff by (metis toLowerCase_append)
  then show ?thesis by (simp add: log_matches_def no_filters_def Let_def)
qed

text \<open>
  Jumping to a request shows it: when the loaded logs hold the request, then after the jump,
  whatever filters and page were set before, its row is expanded and highlighted and is among the rows
  on the screen, provided at most five logs match its identifier.
\<close>

theorem jump_shows_target:
  assumes "find (\<lambda>lg. request_id lg = rid) (logs30d s) = Some target"
    and "length (filter (log_matches (no_filters\<lparr>searchRequestId := rid\<rparr>)) (logs30d s)) \<le> 5"
  shows "target \<in> set (shown_rows (jumpToLog rid s)) \<and>
    act_expandedRowId (jumpToLog rid s) = Some (log_id target) \<and> act_highlighted (jumpToLog rid s) = Some rid"
proof -
  let ?f = "no_filters\<lparr>searchRequestId := rid\<rparr>"
  let ?xs = "filteredLogs ?f (logs30d s)"
  have t: "target \<in> set (logs30d s)" "request_id target = rid"
    using assms(1) by (auto simp: find_Some_iff)
  then have m: "target \<in> set ?xs"
    using search_finds_itself [of target] by (simp add: filteredLogs_def)
  have "act_filters (jumpToLog rid s) = ?f" "logs30d (jumpToLog rid s) = logs30d s"
    using assms(1) by (simp_all add: jumpToLog_def set_filters_def logs30d_def)
  then have "shown_rows (jumpToLog rid s) = pagedLogs (act_currentPage (jumpToLog rid s)) ?xs"
    by (simp add: shown_rows_def)
  moreover have "totalPages ?xs = 1"
    using assms(2) ceil_div_bounds(2) [of 5 "int (length ?xs)"] by (simp add: totalPages_def filteredLogs_def)
  then have "pagedLogs p ?xs = take 5 ?xs" for p
    by (simp add: pagedLogs_def clampedPage_def page_slice_take)
  ultimately show ?thesis
    using m assms by (simp add: jumpToLog_def filteredLogs_def)
qed

definition jump_state :: activity_state where
  "jump_state = (act_initial [])\<lparr>act_usage := Some
     \<lparr>ub_summary = \<lparr>total_requests = 0, success_rate = 0, total_input_tokens = 0, total_output_tokens = 0,
        by_account = [], by_token = []\<rparr>,
      ub_logs = [blank_log\<lparr>request_id := js ''a'', log_id := 1\<rparr>, blank_log\<lparr>request_id := js ''b'', log_id := 2\<rparr>],
      ub_total = 2, ub_truncated = False\<rparr>, act_currentPage := 3\<rparr>"

theorem jump_shows_target_witness:
  "blank_log\<lparr>request_id := js ''b'', log_id := 2\<rparr> \<in> set (shown_rows (jumpToLog (js ''b'') jump_state)) \<and>
   act_expandedRowId (jumpToLog (js ''b'') jump_state) = Some 2"
proof -
  have l: "logs30d jump_state =
      [blank_log\<lparr>request_id := js ''a'', log_id := 1\<rparr>, blank_log\<lparr>request_id := js ''b'', log_id := 2\<rparr>]"
    by (simp add: jump_state_def logs30d_def)
  have "find (\<lambda>lg. request_id lg = js ''b'') (logs30d jump_state) = Some (blank_log\<lparr>request_id := js ''b'', log_id := 2\<rparr>)"
    unfolding l by (simp add: js_def)
  moreover have "length (filter (log_matches (no_filters\<lparr>searchRequestId := js ''b''\<rparr>)) (logs30d jump_state)) \<le> 5"
    unfolding l by simp
  ultimately show ?thesis using jump_shows_target by fastforce
qed

definition act_answer :: "activity_event \<Rightarrow> nat option" where
  "act_answer e = (case e of LoadOk n _ _ _ \<Rightarrow> Some n | LoadFail n _ \<Rightarrow> Some n | _ \<Rightarrow> None)"

lemma jumpToLog_number [simp]: "act_loadRequestId (jumpToLog rid s) = act_loadRequestId s"
  by (simp add: jumpToLog_def set_filters_def split: option.splits)

lemma deep_link_number [simp]: "act_loadRequestId (deep_link s) = act_loadRequestId s"
  by (simp add: deep_link_def split: option.splits)

interpretation actl: latest_wins act_step act_loadRequestId act_answer
proof
  fix e i s
  show "act_answer e = Some i \<Longrightarrow> i \<noteq> act_loadRequestId s \<Longrightarrow> act_step s e = s"
    by (cases e) (auto simp: act_answer_def)
next
  fix s e
  show "act_loadRequestId s \<le> act_loadRequestId (act_step s e)"
    by (cases e) (auto simp: set_filters_def)
qed

text \<open>
  A slow answer cannot overwrite a newer one: once another load of the activity page has been
  started, by the timer or by hand, the answers to all earlier loads, successful or not and in whatever
  order they arrive, leave the page as it is.
\<close>

theorem activity_superseded_loads:
  "foldl act_step s es =
     foldl act_step s (filter (\<lambda>e. case act_answer e of None \<Rightarrow> True | Some i \<Rightarrow> act_loadRequestId s \<le> i) es)"
proof -
  have "(\<lambda>e. case act_answer e of None \<Rightarrow> True | Some i \<Rightarrow> act_loadRequestId s \<le> i) =
      (\<lambda>e. \<forall>i. act_answer e = Some i \<longrightarrow> act_loadRequestId s \<le> i)"
    by (auto split: option.splits)
  then show ?thesis using actl.all_superseded_answers_ignored [of s es] by simp
qed

end
