(* ===== verification/AuthImport.thy ===== *)
theory AuthImport
  imports Copy Json Format AdminTypes
begin

text \<open>
  The parts of \<^verbatim>\<open>web/src/components/AddAccountDrawer.tsx\<close> that do not touch the drawer's state: the
  provider tables of \<^verbatim>\<open>web/src/copy/admin.ts\<close>, the login session's labels and countdown, the labels
  of a batch import, and the check of an uploaded auth file. Its lemmas show that the summary shown of
  an auth file does not depend on the credential in it and that the countdown is the remaining time.
\<close>

section \<open>Providers\<close>

record provider_option =
  po_value :: jstr
  po_label :: jstr
  po_base_url :: jstr

definition PROVIDER_POOL_RECOMMENDATION :: "jstr \<Rightarrow> jstr option" where
  "PROVIDER_POOL_RECOMMENDATION p =
     map_of
       [(js ''codex'', js ''OpenAI''), (js ''openai'', js ''OpenAI''), (js ''claude'', js ''Claude''),
        (js ''gemini'', js ''Gemini''), (js ''gemini-cli'', js ''Gemini''), (js ''vertex'', js ''Gemini''),
        (js ''aistudio'', js ''Gemini'')] p"

definition DIRECT_PROVIDER_TEMPLATES :: "provider_option list" where
  "DIRECT_PROVIDER_TEMPLATES =
     [\<lparr>po_value = js ''openai'', po_label = js ''OpenAI'', po_base_url = js ''https://api.openai.com/v1''\<rparr>,
      \<lparr>po_value = js ''anthropic'', po_label = js ''Anthropic'',
       po_base_url = js ''https://api.anthropic.com/v1''\<rparr>,
      \<lparr>po_value = js ''google'', po_label = js ''Google Gemini'',
       po_base_url = js ''https://generativelanguage.googleapis.com/v1beta/openai/''\<rparr>,
      \<lparr>po_value = js ''deepseek'', po_label = js ''DeepSeek'', po_base_url = js ''https://api.deepseek.com/v1''\<rparr>,
      \<lparr>po_value = js ''openrouter'', po_label = js ''OpenRouter'',
       po_base_url = js ''https://openrouter.ai/api/v1''\<rparr>,
      \<lparr>po_value = js ''custom'', po_label = c_custom_template, po_base_url = []\<rparr>]"

definition cpa_option :: "jstr \<Rightarrow> jstr \<Rightarrow> provider_option" where
  "cpa_option v l = \<lparr>po_value = v, po_label = l, po_base_url = []\<rparr>"

definition CPA_PROVIDERS :: "provider_option list" where
  "CPA_PROVIDERS =
     [cpa_option (js ''codex'') (js ''Codex''), cpa_option (js ''claude'') (js ''Claude''),
      cpa_option (js ''gemini'') (js ''Gemini''), cpa_option (js ''gemini-cli'') (js ''Gemini CLI''),
      cpa_option (js ''vertex'') (js ''Vertex AI''), cpa_option (js ''aistudio'') (js ''AI Studio'')]"

definition drawer_provider_label :: "provider_option list \<Rightarrow> jstr \<Rightarrow> jstr" where
  "drawer_provider_label options v =
     or_str (map_option po_label (find (\<lambda>item. po_value item = v) options)) v"

definition STATUS_LABELS_ZH :: "jstr \<Rightarrow> jstr option" where
  "STATUS_LABELS_ZH s =
     map_of
       [(js ''unknown'', c_st_unknown), (js ''healthy'', c_st_healthy), (js ''degraded'', c_st_degraded),
        (js ''error'', c_st_error), (js ''disabled'', c_st_disabled)] s"

definition sourceKindLabelZh :: "jstr \<Rightarrow> jstr" where
  "sourceKindLabelZh kind = (if kind = js ''cpa'' then js ''CPA'' else c_openai_compat)"

section \<open>Login sessions\<close>

definition active_status :: "jstr \<Rightarrow> bool" where
  "active_status st \<longleftrightarrow> st = js ''pending'' \<or> st = js ''authorized''"

definition isActiveLoginSession :: "login_session option \<Rightarrow> bool" where
  "isActiveLoginSession session = (case session of None \<Rightarrow> False | Some s \<Rightarrow> active_status (ls_status s))"

definition getLoginStatusLabel :: "jstr \<Rightarrow> jstr" where
  "getLoginStatusLabel st =
     (if st = js ''failed'' then c_aa_failed
      else if st = js ''expired'' then c_aa_expired
      else if st = js ''authorized'' then c_aa_authorized
      else if st = js ''cancelled'' then c_aa_cancelled
      else if st = js ''succeeded'' then c_aa_succeeded
      else c_aa_waiting)"

definition getLoginStatusHint :: "jstr \<Rightarrow> jstr" where
  "getLoginStatusHint st =
     (if st = js ''authorized'' then c_aa_authorized_hint
      else if st = js ''failed'' then c_aa_failed_hint
      else if st = js ''expired'' then c_aa_expired_hint
      else if st = js ''cancelled'' then c_aa_cancelled_hint
      else if st = js ''succeeded'' then c_aa_succeeded_hint
      else c_aa_waiting_hint)"

text \<open>\<open>Math.ceil(ms / 1000)\<close> of whole milliseconds, and the countdown it is printed as.\<close>

definition remaining_seconds :: "int \<Rightarrow> int" where
  "remaining_seconds ms = max 0 (- ((- ms) div 1000))"

definition formatCountdown :: "int \<Rightarrow> jstr" where
  "formatCountdown ms =
     (let totalSeconds = remaining_seconds ms in
      pad2 (totalSeconds div 60) @ js '':'' @ pad2 (totalSeconds mod 60))"

definition remainingMs :: "host \<Rightarrow> login_session option \<Rightarrow> int \<Rightarrow> int option" where
  "remainingMs h session nowTick =
     (case session of
        None \<Rightarrow> Some 0
      | Some s \<Rightarrow>
          if \<not> truthy_str (ls_expires_at s) then Some 0
          else map_option (\<lambda>t. max 0 (t - nowTick)) (date_parse h (or_str (ls_expires_at s) [])))"

definition formatExpiryTime :: "host \<Rightarrow> jstr option \<Rightarrow> jstr" where
  "formatExpiryTime h expiresAt =
     (if \<not> truthy_str expiresAt then js ''--:--''
      else case date_parse h (or_str expiresAt []) of
        None \<Rightarrow> js ''--:--''
      | Some t \<Rightarrow> pad2 (getHours h t) @ js '':'' @ pad2 (getMinutes h t))"

section \<open>Batch import\<close>

record batch_item =
  bi_client_file_name :: jstr
  bi_status :: jstr
  bi_action :: "jstr option"
  bi_account_id :: "int option"
  bi_runtime_sync :: "jstr option"
  bi_masked_email :: "jstr option"
  bi_account_key_hash :: "jstr option"
  bi_error_message :: "jstr option"

record batch_response =
  ba_batch_id :: "jstr option"
  ba_pool_id :: int
  ba_created :: int
  ba_updated :: int
  ba_skipped :: int
  ba_failed :: int
  ba_items :: "batch_item list"

definition batchStatusLabel :: "batch_item \<Rightarrow> jstr" where
  "batchStatusLabel item =
     (if bi_status item = js ''preview'' then or_str (bi_action item) c_aa_to_confirm
      else if bi_status item = js ''created'' then c_aa_created
      else if bi_status item = js ''updated'' then c_aa_updated
      else if bi_status item = js ''skipped'' then c_aa_skipped
      else c_aa_item_failed)"

definition runtimeSyncLabel :: "jstr option \<Rightarrow> jstr" where
  "runtimeSyncLabel v =
     (if v = Some (js ''synced'') then c_aa_synced
      else if v = Some (js ''pending'') then c_aa_sync_pending
      else if v = Some (js ''failed'') then c_aa_sync_failed
      else c_aa_not_applicable)"

section \<open>Auth files\<close>

text \<open>
  A chosen file: its name and its text, or the message with which reading it fails. A
  \<open>SyntaxError\<close> of \<open>JSON.parse\<close> carries the engine's own message: the parameter \<open>syntax_message\<close>.
\<close>

record auth_file =
  file_name :: jstr
  file_text :: "jstr + jstr"

record auth_summary =
  as_provider :: jstr
  as_email :: jstr
  as_account_id :: jstr
  as_plan_type :: jstr
  as_expired_at :: jstr
  as_disabled :: bool

text \<open>\<open>typeof v === "string" ? v : other\<close>.\<close>

definition string_or :: "json option \<Rightarrow> jstr \<Rightarrow> jstr" where
  "string_or v other = (case v of Some (JStr s) \<Rightarrow> s | _ \<Rightarrow> other)"

definition auth_provider :: "json \<Rightarrow> jstr" where
  "auth_provider parsed =
     string_or (json_get parsed (js ''type'')) (string_or (json_get parsed (js ''provider'')) [])"

definition check_auth_json :: "jstr \<Rightarrow> json \<Rightarrow> jstr + auth_summary" where
  "check_auth_json name parsed =
     (case parsed of
        JObj _ \<Rightarrow>
          if json_get parsed (js ''sessions'') \<noteq> None \<or> name = js ''.login-sessions.json'' then Inl c_aa_not_sessions
          else if string_or (json_get parsed (js ''refresh_token'')) [] = [] then Inl c_aa_no_refresh
          else if auth_provider parsed \<noteq> [] \<and> toLowerCase (auth_provider parsed) \<noteq> js ''codex''
          then Inl (c_aa_unsupported @ auth_provider parsed)
          else
            (let email = string_or (json_get parsed (js ''email'')) [];
                 accountId = string_or (json_get parsed (js ''account_id'')) [] in
             if email = [] \<and> accountId = [] then Inl c_aa_no_identity
             else Inr \<lparr>as_provider = or_str (Some (auth_provider parsed)) (js ''codex''), as_email = email,
                       as_account_id = accountId,
                       as_plan_type = string_or (json_get parsed (js ''plan_type'')) [],
                       as_expired_at = string_or (json_get parsed (js ''expired'')) [],
                       as_disabled = json_bool (json_get parsed (js ''disabled''))\<rparr>)
      | _ \<Rightarrow> Inl c_aa_not_auth_json)"

text \<open>
  The verdict on the chosen files: nothing for no file, else the error or the summary of the first
  file. Only the first file is read; the others are checked by their names alone.
\<close>

definition judge_auth_files :: "(jstr \<Rightarrow> jstr) \<Rightarrow> auth_file list \<Rightarrow> (jstr + auth_summary) option" where
  "judge_auth_files syntax_message files =
     (case files of
        [] \<Rightarrow> None
      | f # _ \<Rightarrow>
          if list_ex (\<lambda>x. \<not> endsWith (toLowerCase (file_name x)) (js ''.json'')) files then Some (Inl c_aa_choose_json)
          else Some (case file_text f of
             Inl msg \<Rightarrow> Inl msg
           | Inr text \<Rightarrow>
               (case json_parse text of
                  None \<Rightarrow> Inl (syntax_message text)
                | Some parsed \<Rightarrow> check_auth_json (file_name f) parsed)))"

section \<open>Lemmas\<close>

text \<open>The seconds shown are the remaining time rounded up: never early, never more than a second late.\<close>

lemma remaining_seconds_bounds:
  assumes "0 < ms"
  shows "ms \<le> remaining_seconds ms * 1000" "(remaining_seconds ms - 1) * 1000 < ms"
proof -
  have d: "1000 * ((- ms) div 1000) + (- ms) mod 1000 = - ms" by (rule mult_div_mod_eq)
  have m: "0 \<le> (- ms) mod 1000" "(- ms) mod 1000 < 1000" by simp_all
  have "0 \<le> - ((- ms) div 1000)" using d m assms by linarith
  then have r: "remaining_seconds ms = - ((- ms) div 1000)" by (simp add: remaining_seconds_def)
  show "ms \<le> remaining_seconds ms * 1000" unfolding r using d m by linarith
  have "(- ((- ms) div 1000) - 1) * 1000 = - (1000 * ((- ms) div 1000)) - 1000" by simp
  then show "(remaining_seconds ms - 1) * 1000 < ms" unfolding r using d m by linarith
qed

lemma remaining_seconds_zero [simp]: "ms \<le> 0 \<Longrightarrow> remaining_seconds ms = 0"
  by (simp add: remaining_seconds_def)

lemma json_get_other_key:
  "k \<noteq> k' \<Longrightarrow> json_get (JObj (xs @ (k, v) # ys)) k' = json_get (JObj (xs @ (k, w) # ys)) k'"
  by (simp add: json_get_def map_add_def split: option.splits)

lemma json_get_same_key:
  "json_get (JObj (xs @ (k, v) # ys)) k = (case json_get (JObj ys) k of Some w \<Rightarrow> Some w | None \<Rightarrow> Some v)"
  by (simp add: json_get_def map_add_def split: option.splits)

text \<open>
  C35: The summary shown before an import never depends on the credential: replacing the refresh token of
  an auth file by any other non-empty one gives the same verdict, the same error or the same summary,
  whatever else the file holds.
\<close>

theorem auth_summary_hides_token:
  assumes "t \<noteq> []" and "t' \<noteq> []"
  shows "check_auth_json name (JObj (xs @ (js ''refresh_token'', JStr t) # ys)) =
    check_auth_json name (JObj (xs @ (js ''refresh_token'', JStr t') # ys))"
proof -
  let ?a = "JObj (xs @ (js ''refresh_token'', JStr t) # ys)"
  let ?b = "JObj (xs @ (js ''refresh_token'', JStr t') # ys)"
  have same: "json_get ?a (js ''type'') = json_get ?b (js ''type'')"
    "json_get ?a (js ''provider'') = json_get ?b (js ''provider'')"
    "json_get ?a (js ''sessions'') = json_get ?b (js ''sessions'')"
    "json_get ?a (js ''email'') = json_get ?b (js ''email'')"
    "json_get ?a (js ''account_id'') = json_get ?b (js ''account_id'')"
    "json_get ?a (js ''plan_type'') = json_get ?b (js ''plan_type'')"
    "json_get ?a (js ''expired'') = json_get ?b (js ''expired'')"
    "json_get ?a (js ''disabled'') = json_get ?b (js ''disabled'')"
    by (rule json_get_other_key; simp add: js_def)+
  then have "auth_provider ?a = auth_provider ?b" by (simp add: auth_provider_def)
  moreover have "string_or (json_get ?a (js ''refresh_token'')) [] = [] \<longleftrightarrow>
      string_or (json_get ?b (js ''refresh_token'')) [] = []"
    using assms by (simp add: json_get_same_key string_or_def split: option.splits)
  ultimately show ?thesis using same by (simp add: check_auth_json_def Let_def)
qed

theorem auth_summary_hides_token_witness:
  "check_auth_json (js ''a.json'') (JObj ([] @ (js ''refresh_token'', JStr (js ''s'')) # [(js ''email'', JStr (js ''m''))])) =
   check_auth_json (js ''a.json'') (JObj ([] @ (js ''refresh_token'', JStr (js ''t'')) # [(js ''email'', JStr (js ''m''))])) \<and>
   (\<exists>sm. check_auth_json (js ''a.json'') (JObj [(js ''refresh_token'', JStr (js ''t'')), (js ''email'', JStr (js ''m''))]) = Inr sm)"
  using auth_summary_hides_token [of "js ''s''" "js ''t''" "js ''a.json''" "[]" "[(js ''email'', JStr (js ''m''))]"]
  by (simp add: js_def check_auth_json_def json_get_def string_or_def auth_provider_def)

end
