(* ===== verification/AddAccount.thy ===== *)
theory AddAccount
  imports AuthImport Router Requests
begin

text \<open>
  The drawer that adds an account, \<^verbatim>\<open>web/src/components/AddAccountDrawer.tsx\<close>: a wizard of four
  steps over a record of its React state, the shared interface state it opens and closes through
  (\<^verbatim>\<open>AdminUI\<close>), the stored login session, and the polling of a login session.

  Every handler is a function from the state (and the server's answers, as arguments) to the state;
  a handler that awaits runs \<open>flush\<close> at each await, which performs the effects of the renders in
  between: the reset on closing, the recommended pool, the prefilled form and the polling. The
  handlers of one request are atomic; the requests of the polling are not: a poll carries the values
  its closure captured, is answered by an event of its own, and other events may come in between.

  Its lemmas show which runs the wizard allows: an invariant of the reachable states, when the polling
  keeps going, what a submission sends, and the runs in which the drawer goes astray.
\<close>

section \<open>State\<close>

datatype drawer_source = SrcCpa | SrcDirect
datatype entry_mode = EntryLogin | EntryImport
datatype batch_stage = StagePreview | StageImported

record direct_form =
  fm_label :: jstr
  fm_provider :: jstr
  fm_base_url :: jstr
  fm_api_key :: jstr
  fm_notes :: jstr

record result_state =
  re_poolId :: int
  re_poolLabel :: jstr
  re_label :: jstr
  re_source :: jstr
  re_batch :: "batch_response option"

record pending_cpa_flow =
  pf_poolId :: int
  pf_poolLabel :: jstr
  pf_providerLabel :: jstr

record stored_cpa_session =
  sc_poolId :: int
  sc_poolLabel :: jstr
  sc_providerLabel :: jstr
  sc_sessionId :: jstr
  sc_provider :: jstr
  sc_serviceId :: int

text \<open>The storage item: absent, a text that is no JSON, or a session; and whether storage works.\<close>

datatype cpa_item = NoItem | BadItem | SessionItem stored_cpa_session

record cpa_slot =
  slot_item :: cpa_item
  slot_usable :: bool

text \<open>What the drawer sent to the server.\<close>

datatype drawer_request =
    PostPool jstr int
  | PostAccount int direct_form
  | DiscoverModels int
  | GetActiveSession int
  | PostSession int int jstr
  | GetSession jstr
  | CancelSession jstr
  | PreviewImport int "auth_file list"
  | ConfirmImport int "auth_file list"

text \<open>
  A run of the polling effect: its number and the values its closure captured. The timer is the one of
  \<open>pollRef\<close>: it fetches the session, or, after a failed fetch, starts the effect again.
\<close>

record poll =
  pl_run :: nat
  pl_session :: login_session
  pl_service :: "cpa_service option"
  pl_flow :: "pending_cpa_flow option"
  pl_preferred :: "int option"
  pl_provider :: jstr
  pl_options :: "provider_option list"
  pl_pools :: "pool list"
  pl_newPoolLabel :: jstr

datatype poll_timer = FetchTimer poll | RetryTimer poll

text \<open>
  The drawer. \<open>dr_poolsV\<close> and \<open>dr_pollV\<close> count the assignments of the pool list and of the objects the
  polling effect depends on, which React compares by identity. \<open>dr_fetching\<close> are the polls whose
  request is out, \<open>dr_finishing\<close> those that have seen a finished login and await the refresh of the
  new account, and \<open>dr_previewsOut\<close> and \<open>dr_loadsOut\<close> count the import previews and the loads not yet answered.
\<close>

record drawer =
  dr_ui :: admin_ui
  dr_router :: router_state
  dr_step :: int
  dr_sourceKind :: "drawer_source option"
  dr_provider :: jstr
  dr_pools :: "pool list"
  dr_poolsV :: nat
  dr_poolLoadFailed :: bool
  dr_cpaService :: "cpa_service option"
  dr_selectedPoolId :: jstr
  dr_newPoolLabel :: jstr
  dr_directForm :: direct_form
  dr_loading :: bool
  dr_loginSession :: "login_session option"
  dr_result :: "result_state option"
  dr_pendingCpaFlow :: "pending_cpa_flow option"
  dr_restoredSession :: bool
  dr_cpaEntryMode :: entry_mode
  dr_authJSONFiles :: "auth_file list"
  dr_authJSONSummary :: "auth_summary option"
  dr_authJSONError :: "jstr option"
  dr_authJSONPreview :: "batch_response option"
  dr_authJSONBatchStage :: "batch_stage option"
  dr_slot :: cpa_slot
  dr_pollV :: nat
  dr_pollRun :: nat
  dr_timer :: "poll_timer option"
  dr_fetching :: "poll list"
  dr_finishing :: "(poll \<times> login_session) list"
  dr_previewsOut :: nat
  dr_loadsOut :: nat
  dr_toasts :: "jstr list"
  dr_sent :: "drawer_request list"

abbreviation (input) NEW_POOL_VALUE :: jstr where "NEW_POOL_VALUE \<equiv> js ''__new_pool__''"

definition EMPTY_DIRECT_FORM :: direct_form where
  "EMPTY_DIRECT_FORM = \<lparr>fm_label = [], fm_provider = [], fm_base_url = [], fm_api_key = [], fm_notes = []\<rparr>"

definition STEP_META :: "int \<Rightarrow> (jstr \<times> jstr) option" where
  "STEP_META n =
     map_of [(1, c_aa_step1, c_aa_step1_detail), (2, c_aa_step2, c_aa_step2_detail),
       (3, c_aa_step3, c_aa_step3_detail), (4, c_aa_step4, c_aa_step4_detail)] n"

section \<open>The stored session\<close>

definition readStoredCpaSession :: "cpa_slot \<Rightarrow> stored_cpa_session option" where
  "readStoredCpaSession sl =
     (if \<not> slot_usable sl then None else case slot_item sl of SessionItem x \<Rightarrow> Some x | _ \<Rightarrow> None)"

definition writeStoredCpaSession :: "stored_cpa_session \<Rightarrow> drawer \<Rightarrow> drawer" where
  "writeStoredCpaSession x s =
     (if slot_usable (dr_slot s) then s\<lparr>dr_slot := (dr_slot s)\<lparr>slot_item := SessionItem x\<rparr>\<rparr> else s)"

definition clearStoredCpaSession :: "drawer \<Rightarrow> drawer" where
  "clearStoredCpaSession s =
     (if slot_usable (dr_slot s) then s\<lparr>dr_slot := (dr_slot s)\<lparr>slot_item := NoItem\<rparr>\<rparr> else s)"

section \<open>Setters\<close>

definition toast :: "jstr \<Rightarrow> drawer \<Rightarrow> drawer" where
  "toast msg s = s\<lparr>dr_toasts := dr_toasts s @ [msg]\<rparr>"

definition send :: "drawer_request \<Rightarrow> drawer \<Rightarrow> drawer" where
  "send rq s = s\<lparr>dr_sent := dr_sent s @ [rq]\<rparr>"

definition set_pools :: "pool list \<Rightarrow> drawer \<Rightarrow> drawer" where
  "set_pools ps s = s\<lparr>dr_pools := ps, dr_poolsV := Suc (dr_poolsV s)\<rparr>"

definition set_session :: "login_session option \<Rightarrow> drawer \<Rightarrow> drawer" where
  "set_session x s =
     (if x = None \<and> dr_loginSession s = None then s
      else s\<lparr>dr_loginSession := x, dr_pollV := Suc (dr_pollV s)\<rparr>)"

definition set_flow :: "pending_cpa_flow option \<Rightarrow> drawer \<Rightarrow> drawer" where
  "set_flow x s =
     (if x = None \<and> dr_pendingCpaFlow s = None then s
      else s\<lparr>dr_pendingCpaFlow := x, dr_pollV := Suc (dr_pollV s)\<rparr>)"

definition set_service :: "cpa_service option \<Rightarrow> drawer \<Rightarrow> drawer" where
  "set_service x s =
     (if x = None \<and> dr_cpaService s = None then s
      else s\<lparr>dr_cpaService := x, dr_pollV := Suc (dr_pollV s)\<rparr>)"

definition preferred_text :: "drawer \<Rightarrow> jstr" where
  "preferred_text s =
     (case preferredPoolId (dr_ui s) of None \<Rightarrow> [] | Some n \<Rightarrow> if n = 0 then [] else show_int n)"

definition providerOptions :: "drawer \<Rightarrow> provider_option list" where
  "providerOptions s = (if dr_sourceKind s = Some SrcCpa then CPA_PROVIDERS else DIRECT_PROVIDER_TEMPLATES)"

definition pool_label_in :: "pool list \<Rightarrow> jstr \<Rightarrow> int \<Rightarrow> jstr" where
  "pool_label_in pools newLabel n =
     or_str (map_option pool_label (find (\<lambda>p. pool_id p = n) pools))
       (or_str (Some (trim newLabel)) c_aa_unnamed_pool)"

definition getPoolLabel :: "drawer \<Rightarrow> int \<Rightarrow> jstr" where
  "getPoolLabel s n = pool_label_in (dr_pools s) (dr_newPoolLabel s) n"

section \<open>Effects\<close>

text \<open>The reset when the drawer closes, and the pool it was opened for.\<close>

definition reset_on_close :: "drawer \<Rightarrow> drawer" where
  "reset_on_close s =
     (set_session None (set_flow None s))
       \<lparr>dr_step := 1, dr_sourceKind := None, dr_provider := [], dr_directForm := EMPTY_DIRECT_FORM,
        dr_result := None, dr_restoredSession := False, dr_selectedPoolId := [], dr_newPoolLabel := [],
        dr_poolLoadFailed := False, dr_cpaEntryMode := EntryLogin, dr_authJSONFiles := [],
        dr_authJSONSummary := None, dr_authJSONError := None, dr_authJSONPreview := None,
        dr_timer := None\<rparr>"

definition open_effect :: "drawer \<Rightarrow> drawer" where
  "open_effect s =
     (if \<not> addAccountOpen (dr_ui s) then reset_on_close s
      else if preferred_text s \<noteq> [] then s\<lparr>dr_selectedPoolId := preferred_text s\<rparr>
      else s)"

definition recommend_effect :: "drawer \<Rightarrow> drawer" where
  "recommend_effect s =
     (if dr_provider s = [] then s
      else if dr_poolLoadFailed s then s\<lparr>dr_selectedPoolId := [], dr_newPoolLabel := []\<rparr>
      else
        (let recommended = nullish (PROVIDER_POOL_RECOMMENDATION (dr_provider s)) [];
             matched = find (\<lambda>p. pool_label p = recommended) (dr_pools s) in
         if preferred_text s \<noteq> [] then s\<lparr>dr_selectedPoolId := preferred_text s\<rparr>
         else s\<lparr>dr_selectedPoolId :=
                  (case matched of
                     Some p \<Rightarrow> show_int (pool_id p)
                   | None \<Rightarrow> if recommended \<noteq> [] then NEW_POOL_VALUE else []),
                dr_newPoolLabel := recommended\<rparr>))"

definition prefill_effect :: "drawer \<Rightarrow> drawer" where
  "prefill_effect s =
     (if dr_sourceKind s \<noteq> Some SrcDirect \<or> dr_provider s = [] then s
      else case find (\<lambda>item. po_value item = dr_provider s) DIRECT_PROVIDER_TEMPLATES of
        None \<Rightarrow> s
      | Some template \<Rightarrow>
          s\<lparr>dr_directForm := (dr_directForm s)
              \<lparr>fm_provider := dr_provider s, fm_base_url := po_base_url template,
               fm_label := (if fm_label (dr_directForm s) \<noteq> [] then fm_label (dr_directForm s)
                            else if po_label template = c_custom_template then []
                            else js ''My '' @ po_label template)\<rparr>\<rparr>)"

text \<open>
  The cleanup of the polling effect and its next run, which starts a timer for an active session. The
  run captures the values of the render \<open>c\<close> it belongs to.
\<close>

definition poll_of :: "nat \<Rightarrow> login_session \<Rightarrow> drawer \<Rightarrow> poll" where
  "poll_of n session c =
     \<lparr>pl_run = n, pl_session = session, pl_service = dr_cpaService c, pl_flow = dr_pendingCpaFlow c,
      pl_preferred = preferredPoolId (dr_ui c), pl_provider = dr_provider c,
      pl_options = providerOptions c, pl_pools = dr_pools c, pl_newPoolLabel = dr_newPoolLabel c\<rparr>"

definition poll_effect :: "drawer \<Rightarrow> drawer \<Rightarrow> drawer" where
  "poll_effect c s =
     (let n = Suc (dr_pollRun s) in
      s\<lparr>dr_pollRun := n,
        dr_timer :=
          (case dr_loginSession c of
             Some session \<Rightarrow> if isActiveLoginSession (Some session) then Some (FetchTimer (poll_of n session c)) else None
           | None \<Rightarrow> None)\<rparr>)"

text \<open>
  The renders after an update from \<open>old\<close> to \<open>new\<close>: each effect runs when a value it depends on
  changed. Closing clears the provider and the source in a second render, on which the
  recommendation and the prefilling do nothing.
\<close>

definition poll_deps_changed :: "drawer \<Rightarrow> drawer \<Rightarrow> bool" where
  "poll_deps_changed a b \<longleftrightarrow>
     dr_pollV a \<noteq> dr_pollV b \<or> preferredPoolId (dr_ui a) \<noteq> preferredPoolId (dr_ui b) \<or>
     dr_provider a \<noteq> dr_provider b \<or> (dr_sourceKind a = Some SrcCpa) \<noteq> (dr_sourceKind b = Some SrcCpa)"

definition run_open_effect :: "drawer \<Rightarrow> drawer \<Rightarrow> drawer" where
  "run_open_effect old s =
     (if addAccountOpen (dr_ui old) \<noteq> addAccountOpen (dr_ui s) \<or> preferredPoolId (dr_ui old) \<noteq> preferredPoolId (dr_ui s)
      then open_effect s else s)"

definition run_recommend_effect :: "drawer \<Rightarrow> drawer \<Rightarrow> drawer" where
  "run_recommend_effect old s =
     (if dr_poolsV old \<noteq> dr_poolsV s \<or> preferredPoolId (dr_ui old) \<noteq> preferredPoolId (dr_ui s) \<or>
         dr_provider old \<noteq> dr_provider s then recommend_effect s else s)"

definition run_prefill_effect :: "drawer \<Rightarrow> drawer \<Rightarrow> drawer" where
  "run_prefill_effect old s =
     (if dr_provider old \<noteq> dr_provider s \<or> dr_sourceKind old \<noteq> dr_sourceKind s then prefill_effect s else s)"

definition run_effects :: "drawer \<Rightarrow> drawer \<Rightarrow> drawer" where
  "run_effects old new = run_prefill_effect old (run_recommend_effect old (run_open_effect old new))"

definition flush :: "drawer \<Rightarrow> drawer \<Rightarrow> drawer" where
  "flush old new =
     (let s = run_effects old new in
      if poll_deps_changed new s then poll_effect s s
      else if poll_deps_changed old new then poll_effect new s
      else s)"

section \<open>Loading and restoring\<close>

text \<open>\<open>refreshAfterAccountCreate\<close>: whether the discovery request succeeds does not matter.\<close>

definition refreshAfterAccountCreate :: "int option \<Rightarrow> drawer \<Rightarrow> drawer" where
  "refreshAfterAccountCreate accountId s =
     (let s1 = (case accountId of None \<Rightarrow> s | Some n \<Rightarrow> if n = 0 then s else send (DiscoverModels n) s)
      in s1\<lparr>dr_ui := refreshData (dr_ui s1)\<rparr>)"

definition truthy_id :: "int option \<Rightarrow> bool" where
  "truthy_id n \<longleftrightarrow> n \<noteq> None \<and> n \<noteq> Some 0"

definition account_label_or :: "login_session \<Rightarrow> jstr" where
  "account_label_or session = nullish (map_option acc_label (ls_account session)) (js ''CPA account'')"

definition stored_session :: "login_session \<Rightarrow> jstr \<Rightarrow> pending_cpa_flow \<Rightarrow> cpa_service \<Rightarrow> stored_cpa_session" where
  "stored_session session prov flow svc =
     \<lparr>sc_poolId = pf_poolId flow, sc_poolLabel = pf_poolLabel flow, sc_providerLabel = pf_providerLabel flow,
      sc_sessionId = ls_id session, sc_provider = prov, sc_serviceId = svc_id svc\<rparr>"

text \<open>
  \<open>restoreBySession\<close> with the answer of its request; \<open>safePools\<close> and \<open>svc\<close> are captured. The result says
  whether the session was restored.
\<close>

definition restored_flow ::
    "pool list \<Rightarrow> stored_cpa_session option \<Rightarrow> login_session \<Rightarrow> pending_cpa_flow \<times> jstr" where
  "restored_flow safePools fallback restored =
     (let poolId = nullish (ls_pool_id restored) (nullish (map_option sc_poolId fallback) 0);
          prov = nullish (ls_provider restored) (nullish (map_option sc_provider fallback) (js ''codex''))
      in (\<lparr>pf_poolId = poolId,
           pf_poolLabel = or_str (map_option pool_label (find (\<lambda>p. pool_id p = poolId) safePools))
             (or_str (map_option sc_poolLabel fallback) c_aa_unnamed_pool),
           pf_providerLabel = drawer_provider_label CPA_PROVIDERS prov\<rparr>, prov))"

definition show_restored :: "pending_cpa_flow \<Rightarrow> jstr \<Rightarrow> login_session \<Rightarrow> drawer \<Rightarrow> drawer" where
  "show_restored flow prov restored s =
     (set_session (Some restored) (set_flow (Some flow) s))
       \<lparr>dr_sourceKind := Some SrcCpa, dr_provider := prov, dr_selectedPoolId := show_int (pf_poolId flow),
        dr_step := 3, dr_restoredSession := isActiveLoginSession (Some restored)\<rparr>"

definition finish_restored :: "pending_cpa_flow \<Rightarrow> login_session \<Rightarrow> drawer \<Rightarrow> drawer" where
  "finish_restored flow restored s =
     clearStoredCpaSession
       ((refreshAfterAccountCreate (ls_account_id restored) s)
         \<lparr>dr_result := Some \<lparr>re_poolId = pf_poolId flow, re_poolLabel = pf_poolLabel flow,
            re_label = account_label_or restored, re_source = c_aa_cpa_source @ pf_providerLabel flow, re_batch = None\<rparr>,
          dr_step := 4\<rparr>)"

definition store_restored :: "cpa_service \<Rightarrow> jstr \<Rightarrow> pending_cpa_flow \<Rightarrow> login_session \<Rightarrow> drawer \<Rightarrow> drawer" where
  "store_restored svc prov flow restored s =
     (if \<not> isActiveLoginSession (Some restored) then clearStoredCpaSession s
      else writeStoredCpaSession (stored_session restored prov flow svc) s)"

definition restoreBySession ::
    "pool list \<Rightarrow> cpa_service \<Rightarrow> jstr \<Rightarrow> stored_cpa_session option \<Rightarrow> call_failure + login_session \<Rightarrow>
     drawer \<Rightarrow> bool \<times> drawer" where
  "restoreBySession safePools svc sessionId fallback answer s0 =
     (let s = send (GetSession sessionId) s0 in
      case answer of
        Inl _ \<Rightarrow> (False, s)
      | Inr restored \<Rightarrow>
          (let (flow, prov) = restored_flow safePools fallback restored; s1 = show_restored flow prov restored s
           in (True,
               if ls_status restored = js ''succeeded'' \<and> truthy_id (ls_account_id restored)
               then (let s2 = flush s s1 in flush s2 (store_restored svc prov flow restored (finish_restored flow restored s2)))
               else flush s (store_restored svc prov flow restored s1))))"

text \<open>
  The effect that runs when the drawer opens, in two parts: the requests go out, and their answers
  arrive. \<open>sessionAnswer\<close> answers the request for the session that is restored, \<open>activeAnswer\<close> the one
  for the service's active session.
\<close>

definition start_open_load :: "drawer \<Rightarrow> drawer" where
  "start_open_load s = s\<lparr>dr_loading := True, dr_poolLoadFailed := False, dr_loadsOut := Suc (dr_loadsOut s)\<rparr>"

definition open_loaded ::
    "call_failure + pool list option \<Rightarrow> call_failure + cpa_service option \<Rightarrow>
     call_failure + login_session \<Rightarrow> call_failure + login_session \<Rightarrow> drawer \<Rightarrow> drawer" where
  "open_loaded poolResult serviceResult sessionAnswer activeAnswer s =
     (let safePools = (case poolResult of Inl _ \<Rightarrow> [] | Inr ps \<Rightarrow> nullish ps []);
          s1 = (set_pools safePools s)
            \<lparr>dr_poolLoadFailed := (case poolResult of Inl _ \<Rightarrow> True | Inr _ \<Rightarrow> False)\<rparr>;
          service = (case serviceResult of Inl _ \<Rightarrow> None | Inr v \<Rightarrow> v);
          s2 = flush s (set_service service s1);
          s3 = (case service of
             None \<Rightarrow> s2
           | Some svc \<Rightarrow>
               (let plain =
                  (let s3 = send (GetActiveSession (svc_id svc)) s2 in
                   case activeAnswer of
                     Inl _ \<Rightarrow> s3
                   | Inr active \<Rightarrow> snd (restoreBySession safePools svc (ls_id active) None sessionAnswer s3)) in
                case readStoredCpaSession (dr_slot s2) of
                  None \<Rightarrow> plain
                | Some stored \<Rightarrow>
                    if sc_serviceId stored = svc_id svc then
                      (let (ok, s3) = restoreBySession safePools svc (sc_sessionId stored) (Some stored) sessionAnswer s2
                       in if ok then s3 else clearStoredCpaSession s3)
                    else plain))
      in s3\<lparr>dr_loading := False, dr_loadsOut := dr_loadsOut s - 1\<rparr>)"

section \<open>Choosing and submitting\<close>

definition chooseSourceKind :: "drawer_source \<Rightarrow> drawer \<Rightarrow> drawer" where
  "chooseSourceKind kind s =
     (let s1 = s\<lparr>dr_sourceKind := Some kind, dr_provider := []\<rparr> in
      if kind = SrcCpa
      then s1\<lparr>dr_directForm := EMPTY_DIRECT_FORM, dr_restoredSession := False, dr_cpaEntryMode := EntryLogin\<rparr>
      else (set_flow None (set_session None s1))\<lparr>dr_restoredSession := False\<rparr>)"

text \<open>\<open>c\<close> is the render whose values the function captured, \<open>s\<close> the state it updates.\<close>

definition ensurePool :: "call_failure + pool \<Rightarrow> drawer \<Rightarrow> drawer \<Rightarrow> (call_failure + int) \<times> drawer" where
  "ensurePool answer c s =
     (if dr_selectedPoolId c \<noteq> [] \<and> dr_selectedPoolId c \<noteq> NEW_POOL_VALUE then (Inr (read_int (dr_selectedPoolId c)), s)
      else if trim (dr_newPoolLabel c) = [] then (Inl (throw_error c_aa_need_pool_label), s)
      else
        (let s1 = send (PostPool (trim (dr_newPoolLabel c)) (int (length (dr_pools c)) + 1)) s in
         case answer of
           Inl f \<Rightarrow> (Inl f, s1)
         | Inr created \<Rightarrow>
             (Inr (pool_id created),
              (set_pools (dr_pools s1 @ [created]) s1)\<lparr>dr_selectedPoolId := show_int (pool_id created)\<rparr>)))"

definition trimmed_form :: "direct_form \<Rightarrow> direct_form" where
  "trimmed_form f =
     f\<lparr>fm_label := trim (fm_label f), fm_base_url := trim (fm_base_url f), fm_api_key := trim (fm_api_key f),
       fm_notes := trim (fm_notes f)\<rparr>"

definition submitDirect :: "call_failure + pool \<Rightarrow> call_failure + account \<Rightarrow> drawer \<Rightarrow> drawer" where
  "submitDirect poolAnswer accountAnswer c =
     (let (made, s1) = ensurePool poolAnswer c (c\<lparr>dr_loading := True\<rparr>); s2 = flush c s1 in
      case made of
        Inl f \<Rightarrow> (toast (failure_text f c_aa_create_failed) s2)\<lparr>dr_loading := False\<rparr>
      | Inr poolId \<Rightarrow>
          (let form = trimmed_form (dr_directForm c); s3 = send (PostAccount poolId form) s2 in
           case accountAnswer of
             Inl f \<Rightarrow> (toast (failure_text f c_aa_create_failed) s3)\<lparr>dr_loading := False\<rparr>
           | Inr created \<Rightarrow>
               (refreshAfterAccountCreate (Some (acc_id created)) s3)
                 \<lparr>dr_result := Some \<lparr>re_poolId = poolId, re_poolLabel = getPoolLabel c poolId, re_label = fm_label form,
                    re_source = c_aa_direct @ drawer_provider_label DIRECT_PROVIDER_TEMPLATES (fm_provider form),
                    re_batch = None\<rparr>,
                  dr_step := 4, dr_loading := False\<rparr>))"

section \<open>Logging in\<close>

definition login_failed :: "call_failure \<Rightarrow> drawer \<Rightarrow> drawer" where
  "login_failed f s = (toast (failure_text f c_aa_login_failed) (set_flow None s))\<lparr>dr_loading := False\<rparr>"

text \<open>Taking over the login session that is already active.\<close>

definition adopt_session :: "cpa_service \<Rightarrow> login_session \<Rightarrow> drawer \<Rightarrow> drawer \<Rightarrow> drawer" where
  "adopt_session svc active c s =
     (let prov = nullish (ls_provider active) (dr_provider c);
          poolId = nullish (ls_pool_id active) 0;
          flow = \<lparr>pf_poolId = poolId,
                  pf_poolLabel = (if poolId \<noteq> 0 then getPoolLabel c poolId else c_aa_unnamed_pool),
                  pf_providerLabel = drawer_provider_label CPA_PROVIDERS prov\<rparr>;
          s1 = set_session (Some active) (set_flow (Some flow) (s\<lparr>dr_sourceKind := Some SrcCpa, dr_provider := prov\<rparr>));
          s2 = (if poolId \<noteq> 0 then s1\<lparr>dr_selectedPoolId := show_int poolId\<rparr> else s1)
      in writeStoredCpaSession (stored_session active prov flow svc)
           (s2\<lparr>dr_step := 3, dr_restoredSession := True, dr_loading := False\<rparr>))"

definition begin_session :: "cpa_service \<Rightarrow> int \<Rightarrow> login_session \<Rightarrow> drawer \<Rightarrow> drawer \<Rightarrow> drawer" where
  "begin_session svc poolId session c s =
     (let effectivePoolId = nullish (ls_pool_id session) poolId;
          effectiveProvider = nullish (ls_provider session) (dr_provider c);
          flow = \<lparr>pf_poolId = effectivePoolId, pf_poolLabel = getPoolLabel c effectivePoolId,
                  pf_providerLabel = drawer_provider_label CPA_PROVIDERS effectiveProvider\<rparr>;
          s1 = (set_session (Some session) (set_flow (Some flow) s))
            \<lparr>dr_selectedPoolId := show_int effectivePoolId, dr_provider := effectiveProvider, dr_step := 3,
             dr_restoredSession := False, dr_loading := False\<rparr>
      in if isActiveLoginSession (Some session)
         then writeStoredCpaSession (stored_session session effectiveProvider flow svc) s1 else s1)"

definition startCpaLogin ::
    "call_failure + login_session \<Rightarrow> call_failure + pool \<Rightarrow> call_failure + login_session \<Rightarrow> drawer \<Rightarrow> drawer" where
  "startCpaLogin activeAnswer poolAnswer loginAnswer c =
     (case dr_cpaService c of
        None \<Rightarrow> toast c_aa_no_service c
      | Some svc \<Rightarrow>
          if dr_provider c = [] then toast c_aa_no_provider c
          else
            (let s = send (GetActiveSession (svc_id svc)) (c\<lparr>dr_loading := True\<rparr>) in
             case activeAnswer of
               Inr active \<Rightarrow> flush s (adopt_session svc active c s)
             | Inl f \<Rightarrow>
                 if cf_status f \<noteq> Some 404 then flush s (login_failed f s)
                 else
                   (let (made, s1) = ensurePool poolAnswer c s; s2 = flush s s1 in
                    case made of
                      Inl g \<Rightarrow> flush s2 (login_failed g s2)
                    | Inr poolId \<Rightarrow>
                        (let flow = \<lparr>pf_poolId = poolId, pf_poolLabel = getPoolLabel c poolId,
                                     pf_providerLabel = drawer_provider_label CPA_PROVIDERS (dr_provider c)\<rparr>;
                             s3 = flush s2 (send (PostSession (svc_id svc) poolId (dr_provider c)) (set_flow (Some flow) s2))
                         in case loginAnswer of
                              Inl g \<Rightarrow> flush s3 (login_failed g s3)
                            | Inr session \<Rightarrow> flush s3 (begin_session svc poolId session c s3)))))"

definition cancelCpaLogin :: "call_failure + unit \<Rightarrow> drawer \<Rightarrow> drawer" where
  "cancelCpaLogin answer c =
     (case dr_loginSession c of
        None \<Rightarrow> c
      | Some session \<Rightarrow>
          (let s = send (CancelSession (ls_id session)) c in
           case answer of
             Inl f \<Rightarrow> (toast (failure_text f c_aa_cancel_failed) s)\<lparr>dr_loading := False\<rparr>
           | Inr _ \<Rightarrow>
               flush s
                 (toast c_aa_login_cancelled
                   ((set_session (Some (session\<lparr>ls_status := js ''cancelled''\<rparr>)) (clearStoredCpaSession (s\<lparr>dr_timer := None\<rparr>)))
                     \<lparr>dr_restoredSession := False, dr_loading := False\<rparr>))))"

section \<open>Importing\<close>

definition chooseAuthJSONFiles :: "(jstr \<Rightarrow> jstr) \<Rightarrow> auth_file list \<Rightarrow> drawer \<Rightarrow> drawer" where
  "chooseAuthJSONFiles syntax_message files s =
     s\<lparr>dr_authJSONFiles := files, dr_authJSONPreview := None, dr_authJSONBatchStage := None,
       dr_authJSONSummary :=
         (case judge_auth_files syntax_message files of Some (Inr sm) \<Rightarrow> Some sm | _ \<Rightarrow> None),
       dr_authJSONError :=
         (case judge_auth_files syntax_message files of Some (Inl msg) \<Rightarrow> Some msg | _ \<Rightarrow> None)\<rparr>"

text \<open>The guards that the preview and the import share; \<open>None\<close> lets the request through.\<close>

definition import_blocked :: "drawer \<Rightarrow> jstr option" where
  "import_blocked s =
     (if dr_cpaService s = None then Some c_aa_no_service
      else if dr_authJSONFiles s = [] \<or> truthy_str (dr_authJSONError s)
      then Some (or_str (dr_authJSONError s) c_aa_choose_first)
      else None)"

definition requireExistingPoolForPreview :: "drawer \<Rightarrow> call_failure + int" where
  "requireExistingPoolForPreview s =
     (if dr_selectedPoolId s \<noteq> [] \<and> dr_selectedPoolId s \<noteq> NEW_POOL_VALUE then Inr (read_int (dr_selectedPoolId s))
      else Inl (throw_error c_aa_need_pool))"

definition previewAuthJSONImport :: "drawer \<Rightarrow> drawer" where
  "previewAuthJSONImport s =
     (case import_blocked s of
        Some msg \<Rightarrow> toast msg s
      | None \<Rightarrow>
          (case requireExistingPoolForPreview s of
             Inl f \<Rightarrow> (toast (failure_text f c_aa_preview_failed) s)\<lparr>dr_loading := False\<rparr>
           | Inr poolId \<Rightarrow>
               (send (PreviewImport poolId (dr_authJSONFiles s)) s)
                 \<lparr>dr_loading := True, dr_previewsOut := Suc (dr_previewsOut s)\<rparr>))"

definition preview_answered :: "call_failure + batch_response \<Rightarrow> drawer \<Rightarrow> drawer" where
  "preview_answered answer s0 =
     (let s = s0\<lparr>dr_previewsOut := dr_previewsOut s0 - 1, dr_loading := False\<rparr> in
      case answer of
        Inl f \<Rightarrow> toast (failure_text f c_aa_preview_failed) s
      | Inr preview \<Rightarrow>
          toast (if ba_failed preview > 0 then c_aa_preview_partial else c_aa_preview_done)
            (s\<lparr>dr_authJSONPreview := Some preview, dr_authJSONBatchStage := Some StagePreview\<rparr>))"

definition confirmAuthJSONImport ::
    "call_failure + pool \<Rightarrow> call_failure + batch_response \<Rightarrow> drawer \<Rightarrow> drawer" where
  "confirmAuthJSONImport poolAnswer importAnswer c =
     (case import_blocked c of
        Some msg \<Rightarrow> toast msg c
      | None \<Rightarrow>
          if dr_authJSONPreview c = None \<or> dr_authJSONBatchStage c \<noteq> Some StagePreview then toast c_aa_preview_needed c
          else
            (let (made, s1) = ensurePool poolAnswer c (c\<lparr>dr_loading := True\<rparr>); s2 = flush c s1 in
             case made of
               Inl f \<Rightarrow> (toast (failure_text f c_aa_import_failed) s2)\<lparr>dr_loading := False\<rparr>
             | Inr poolId \<Rightarrow>
                 (let s3 = send (ConfirmImport poolId (dr_authJSONFiles c)) s2 in
                  case importAnswer of
                    Inl f \<Rightarrow> (toast (failure_text f c_aa_import_failed) s3)\<lparr>dr_loading := False\<rparr>
                  | Inr imported \<Rightarrow>
                      (let firstSuccess =
                             find (\<lambda>item. bi_status item = js ''created'' \<or> bi_status item = js ''updated'') (ba_items imported);
                           s4 = (case firstSuccess of
                                   None \<Rightarrow> s3
                                 | Some item \<Rightarrow>
                                     if truthy_id (bi_account_id item) then refreshAfterAccountCreate (bi_account_id item) s3
                                     else s3)
                       in toast c_aa_imported
                            (s4\<lparr>dr_result := Some \<lparr>re_poolId = poolId, re_poolLabel = getPoolLabel c poolId,
                                  re_label = show_int (ba_created imported + ba_updated imported) @ c_aa_accounts,
                                  re_source = c_aa_batch_source, re_batch = Some imported\<rparr>,
                                dr_step := 4, dr_authJSONFiles := [], dr_authJSONSummary := None,
                                dr_authJSONError := None, dr_authJSONPreview := Some imported,
                                dr_authJSONBatchStage := Some StageImported, dr_loading := False\<rparr>)))))"

section \<open>Polling\<close>

definition disposed :: "poll \<Rightarrow> drawer \<Rightarrow> bool" where
  "disposed p s \<longleftrightarrow> pl_run p \<noteq> dr_pollRun s"

definition delayMs :: "login_session \<Rightarrow> int" where
  "delayMs session = max 1000 (nullish (ls_poll_interval_seconds session) 3 * 1000)"

definition timer_fires :: "drawer \<Rightarrow> drawer" where
  "timer_fires s =
     (case dr_timer s of
        None \<Rightarrow> s
      | Some (FetchTimer p) \<Rightarrow>
          send (GetSession (ls_id (pl_session p))) (s\<lparr>dr_timer := None, dr_fetching := dr_fetching s @ [p]\<rparr>)
      | Some (RetryTimer p) \<Rightarrow>
          (let s1 = s\<lparr>dr_timer := None\<rparr> in
           if disposed p s then s1
           else case dr_loginSession s of
             None \<Rightarrow> s1
           | Some session \<Rightarrow>
               if ls_id session = ls_id (pl_session p) then flush s1 (set_session (Some session) s1) else s1))"

definition ended_status :: "jstr \<Rightarrow> bool" where
  "ended_status st \<longleftrightarrow> st = js ''failed'' \<or> st = js ''expired'' \<or> st = js ''cancelled''"

definition drop_nth :: "nat \<Rightarrow> 'a list \<Rightarrow> 'a list" where
  "drop_nth i xs = take i xs @ drop (Suc i) xs"

definition poll_stored :: "poll \<Rightarrow> login_session \<Rightarrow> drawer \<Rightarrow> drawer" where
  "poll_stored p session s =
     (case (pl_service p, pl_flow p) of
        (Some svc, Some flow) \<Rightarrow>
          if isActiveLoginSession (Some session)
          then writeStoredCpaSession (stored_session session (pl_provider p) flow svc) s else s
      | _ \<Rightarrow> s)"

definition poll_got :: "poll \<Rightarrow> login_session \<Rightarrow> drawer \<Rightarrow> drawer" where
  "poll_got p session s =
     (let s1 = poll_stored p session (set_session (Some session) s) in
      if ls_status session = js ''succeeded'' \<and> truthy_id (ls_account_id session) then
        send (DiscoverModels (nullish (ls_account_id session) 0))
          ((clearStoredCpaSession s1)
            \<lparr>dr_timer := None, dr_restoredSession := False, dr_finishing := dr_finishing s1 @ [(p, session)]\<rparr>)
      else if ended_status (ls_status session) then
        (clearStoredCpaSession s1)\<lparr>dr_restoredSession := False, dr_timer := None\<rparr>
      else s1)"

definition poll_answered :: "nat \<Rightarrow> call_failure + login_session \<Rightarrow> drawer \<Rightarrow> drawer" where
  "poll_answered i answer s0 =
     (if i \<ge> length (dr_fetching s0) then s0
      else
        (let p = dr_fetching s0 ! i; s = s0\<lparr>dr_fetching := drop_nth i (dr_fetching s0)\<rparr> in
         case answer of
           Inl _ \<Rightarrow>
             s\<lparr>dr_timer := (if \<not> disposed p s \<and> isActiveLoginSession (Some (pl_session p)) then Some (RetryTimer p) else None)\<rparr>
         | Inr session \<Rightarrow> flush s (poll_got p session s)))"

text \<open>The continuation after the refresh of the new account.\<close>

definition poll_refreshed :: "nat \<Rightarrow> drawer \<Rightarrow> drawer" where
  "poll_refreshed i s0 =
     (if i \<ge> length (dr_finishing s0) then s0
      else
        (let (p, session) = dr_finishing s0 ! i;
             s = s0\<lparr>dr_finishing := drop_nth i (dr_finishing s0), dr_ui := refreshData (dr_ui s0)\<rparr>;
             poolId = (case pl_flow p of Some flow \<Rightarrow> pf_poolId flow | None \<Rightarrow> nullish (pl_preferred p) 0)
         in if disposed p s then s
            else s\<lparr>dr_result := Some
                     \<lparr>re_poolId = poolId,
                      re_poolLabel = or_str (map_option pf_poolLabel (pl_flow p))
                        (pool_label_in (pl_pools p) (pl_newPoolLabel p) poolId),
                      re_label = account_label_or session,
                      re_source = c_aa_cpa_source @ or_str (map_option pf_providerLabel (pl_flow p))
                        (drawer_provider_label (pl_options p) (pl_provider p)),
                      re_batch = None\<rparr>,
                   dr_step := 4\<rparr>))"

section \<open>The wizard\<close>

definition resetForNextAccount :: "drawer \<Rightarrow> drawer" where
  "resetForNextAccount s =
     clearStoredCpaSession
       ((set_flow None (set_session None s))
         \<lparr>dr_step := 1, dr_sourceKind := None, dr_provider := [], dr_directForm := EMPTY_DIRECT_FORM,
          dr_result := None, dr_restoredSession := False, dr_selectedPoolId := [], dr_newPoolLabel := [],
          dr_cpaEntryMode := EntryLogin, dr_authJSONFiles := [], dr_authJSONSummary := None,
          dr_authJSONError := None, dr_authJSONPreview := None, dr_authJSONBatchStage := None\<rparr>)"

definition complete :: "drawer \<Rightarrow> drawer" where
  "complete s =
     (let s1 = s\<lparr>dr_ui := closeAddAccount (dr_ui s)\<rparr> in
      case dr_result s of
        None \<Rightarrow> s1
      | Some r \<Rightarrow> s1\<lparr>dr_router := navigate (dr_router s) (js ''/admin/pools/'' @ show_int (re_poolId r)) False\<rparr>)"

definition retry_pools :: "call_failure + pool list option \<Rightarrow> drawer \<Rightarrow> drawer" where
  "retry_pools answer s =
     (case answer of
        Inl _ \<Rightarrow> s\<lparr>dr_poolLoadFailed := True, dr_loading := False\<rparr>
      | Inr ps \<Rightarrow> (set_pools (nullish ps []) s)\<lparr>dr_poolLoadFailed := False, dr_loading := False\<rparr>)"

definition canContinueStepOne :: "drawer \<Rightarrow> bool" where
  "canContinueStepOne s \<longleftrightarrow> dr_sourceKind s \<noteq> None \<and> dr_provider s \<noteq> []"

definition canContinueStepTwo :: "drawer \<Rightarrow> bool" where
  "canContinueStepTwo s \<longleftrightarrow>
     \<not> dr_poolLoadFailed s \<and>
     (dr_selectedPoolId s \<noteq> [] \<and> dr_selectedPoolId s \<noteq> NEW_POOL_VALUE \<or> trim (dr_newPoolLabel s) \<noteq> [])"

definition canSubmitDirect :: "drawer \<Rightarrow> bool" where
  "canSubmitDirect s \<longleftrightarrow>
     trim (fm_label (dr_directForm s)) \<noteq> [] \<and> trim (fm_base_url (dr_directForm s)) \<noteq> [] \<and>
     trim (fm_api_key (dr_directForm s)) \<noteq> []"

definition session_status :: "drawer \<Rightarrow> jstr option" where
  "session_status s = map_option ls_status (dr_loginSession s)"

text \<open>The buttons of the footer that can be pressed.\<close>

datatype footer_button =
    BLater | BCancel | BBack | BNextAccount | BContinue | BConfirmPool | BSubmitDirect | BStart
  | BRestart | BPreview | BConfirmImport | BGoToPool

definition footer_left :: "drawer \<Rightarrow> footer_button list" where
  "footer_left s =
     (let active = isActiveLoginSession (dr_loginSession s) in
      if dr_step s = 3 \<and> dr_sourceKind s = Some SrcCpa \<and> active then
        BLater # (if dr_loading s \<or> session_status s \<noteq> Some (js ''pending'') then [] else [BCancel])
      else if dr_step s > 1 \<and> dr_step s < 4 \<and> \<not> active then [BBack]
      else if dr_step s = 4 then [BNextAccount]
      else [])"

definition footer_right :: "drawer \<Rightarrow> footer_button list" where
  "footer_right s =
     (let cpa3 = (dr_step s = 3 \<and> dr_sourceKind s = Some SrcCpa);
          login3 = (cpa3 \<and> dr_cpaEntryMode s = EntryLogin \<and> \<not> dr_loading s \<and> dr_cpaService s \<noteq> None) in
      (if dr_step s = 1 \<and> canContinueStepOne s then [BContinue] else []) @
      (if dr_step s = 2 \<and> canContinueStepTwo s then [BConfirmPool] else []) @
      (if dr_step s = 3 \<and> dr_sourceKind s = Some SrcDirect \<and> \<not> dr_loading s \<and> canSubmitDirect s
       then [BSubmitDirect] else []) @
      (if login3 \<and> dr_loginSession s = None then [BStart] else []) @
      (if login3 \<and> (case session_status s of None \<Rightarrow> False | Some st \<Rightarrow> ended_status st) then [BRestart] else []) @
      (if cpa3 \<and> dr_cpaEntryMode s = EntryImport \<and> \<not> dr_loading s \<and> dr_cpaService s \<noteq> None \<and>
          dr_authJSONFiles s \<noteq> [] \<and> \<not> truthy_str (dr_authJSONError s)
       then [if dr_authJSONBatchStage s = Some StagePreview then BConfirmImport else BPreview] else []) @
      (if dr_step s = 4 then [BGoToPool] else []))"

text \<open>
  The events: opening and closing through the shared interface state, the user's inputs, the answers of
  the server, and the timer.
\<close>

datatype drawer_event =
    Open "int option"
  | Close
  | OpenLoaded "call_failure + pool list option" "call_failure + cpa_service option"
      "call_failure + login_session" "call_failure + login_session"
  | ChooseSource drawer_source
  | ChooseProvider jstr
  | SelectPool jstr
  | TypePoolLabel jstr
  | EditForm direct_form
  | ChooseMode entry_mode
  | ChooseFiles "auth_file list"
  | RetryPools "call_failure + pool list option"
  | PressBack
  | PressContinue
  | PressConfirmPool
  | PressSubmitDirect "call_failure + pool" "call_failure + account"
  | PressStart "call_failure + login_session" "call_failure + pool" "call_failure + login_session"
  | PressCancel "call_failure + unit"
  | PressPreview
  | PreviewAnswered "call_failure + batch_response"
  | PressConfirmImport "call_failure + pool" "call_failure + batch_response"
  | PressNextAccount
  | PressGoToPool
  | TimerFires
  | PollAnswered nat "call_failure + login_session"
  | PollRefreshed nat

fun dr_handle :: "(jstr \<Rightarrow> jstr) \<Rightarrow> drawer \<Rightarrow> drawer_event \<Rightarrow> drawer" where
  "dr_handle syn s (Open poolId) =
     (let s1 = s\<lparr>dr_ui := openAddAccount poolId (dr_ui s)\<rparr> in
      if addAccountOpen (dr_ui s) then s1 else start_open_load s1)"
| "dr_handle syn s Close = s\<lparr>dr_ui := closeAddAccount (dr_ui s)\<rparr>"
| "dr_handle syn s (OpenLoaded ps svc ses act) = open_loaded ps svc ses act s"
| "dr_handle syn s (ChooseSource k) = chooseSourceKind k s"
| "dr_handle syn s (ChooseProvider v) = s\<lparr>dr_provider := v\<rparr>"
| "dr_handle syn s (SelectPool v) = s\<lparr>dr_selectedPoolId := v\<rparr>"
| "dr_handle syn s (TypePoolLabel v) = s\<lparr>dr_newPoolLabel := v\<rparr>"
| "dr_handle syn s (EditForm f) = s\<lparr>dr_directForm := f\<rparr>"
| "dr_handle syn s (ChooseMode m) = s\<lparr>dr_cpaEntryMode := m\<rparr>"
| "dr_handle syn s (ChooseFiles fs) = chooseAuthJSONFiles syn fs s"
| "dr_handle syn s (RetryPools ps) = retry_pools ps s"
| "dr_handle syn s PressBack = s\<lparr>dr_step := dr_step s - 1\<rparr>"
| "dr_handle syn s PressContinue = s\<lparr>dr_step := 2\<rparr>"
| "dr_handle syn s PressConfirmPool = s\<lparr>dr_step := 3\<rparr>"
| "dr_handle syn s (PressSubmitDirect p a) = submitDirect p a s"
| "dr_handle syn s (PressStart a p l) = startCpaLogin a p l s"
| "dr_handle syn s (PressCancel a) = cancelCpaLogin a s"
| "dr_handle syn s PressPreview = previewAuthJSONImport s"
| "dr_handle syn s (PreviewAnswered a) = preview_answered a s"
| "dr_handle syn s (PressConfirmImport p a) = confirmAuthJSONImport p a s"
| "dr_handle syn s PressNextAccount = resetForNextAccount s"
| "dr_handle syn s PressGoToPool = complete s"
| "dr_handle syn s TimerFires = timer_fires s"
| "dr_handle syn s (PollAnswered i a) = poll_answered i a s"
| "dr_handle syn s (PollRefreshed i) = poll_refreshed i s"

text \<open>The handlers with awaits have performed the effects of their own renders.\<close>

fun flushes_itself :: "drawer_event \<Rightarrow> bool" where
  "flushes_itself (OpenLoaded _ _ _ _) = True"
| "flushes_itself (PressSubmitDirect _ _) = True"
| "flushes_itself (PressStart _ _ _) = True"
| "flushes_itself (PressCancel _) = True"
| "flushes_itself (PressConfirmImport _ _) = True"
| "flushes_itself TimerFires = True"
| "flushes_itself (PollAnswered _ _) = True"
| "flushes_itself _ = False"

definition drawer_step :: "(jstr \<Rightarrow> jstr) \<Rightarrow> drawer \<Rightarrow> drawer_event \<Rightarrow> drawer" where
  "drawer_step syn s e = (if flushes_itself e then dr_handle syn s e else flush s (dr_handle syn s e))"

text \<open>What the user can do, and which answers can arrive.\<close>

fun possible :: "drawer \<Rightarrow> drawer_event \<Rightarrow> bool" where
  "possible s (OpenLoaded _ _ _ _) = (dr_loadsOut s > 0)"
| "possible s (ChooseSource _) = (dr_step s = 1)"
| "possible s (ChooseProvider v) = (dr_step s = 1 \<and> v \<in> po_value ` set (providerOptions s))"
| "possible s (SelectPool v) =
     (dr_step s = 2 \<and> (v = NEW_POOL_VALUE \<or> v \<in> (\<lambda>p. show_int (pool_id p)) ` set (dr_pools s)))"
| "possible s (TypePoolLabel _) = (dr_step s = 2)"
| "possible s (EditForm _) = (dr_step s = 3 \<and> dr_sourceKind s = Some SrcDirect)"
| "possible s (ChooseMode _) = (dr_step s = 3 \<and> dr_sourceKind s = Some SrcCpa)"
| "possible s (ChooseFiles _) = (dr_step s = 3 \<and> dr_sourceKind s = Some SrcCpa \<and> dr_cpaEntryMode s = EntryImport)"
| "possible s (RetryPools _) = (dr_step s = 2 \<and> dr_poolLoadFailed s)"
| "possible s PressBack = (BBack \<in> set (footer_left s))"
| "possible s PressContinue = (BContinue \<in> set (footer_right s))"
| "possible s PressConfirmPool = (BConfirmPool \<in> set (footer_right s))"
| "possible s (PressSubmitDirect _ _) = (BSubmitDirect \<in> set (footer_right s))"
| "possible s (PressStart _ _ _) = (BStart \<in> set (footer_right s) \<or> BRestart \<in> set (footer_right s))"
| "possible s (PressCancel _) = (BCancel \<in> set (footer_left s))"
| "possible s PressPreview = (BPreview \<in> set (footer_right s))"
| "possible s (PreviewAnswered _) = (dr_previewsOut s > 0)"
| "possible s (PressConfirmImport _ _) = (BConfirmImport \<in> set (footer_right s))"
| "possible s PressNextAccount = (BNextAccount \<in> set (footer_left s))"
| "possible s PressGoToPool = (BGoToPool \<in> set (footer_right s))"
| "possible s (PollAnswered i _) = (i < length (dr_fetching s))"
| "possible s (PollRefreshed i) = (i < length (dr_finishing s))"
| "possible s _ = True"

definition drawer_initial :: "cpa_slot \<Rightarrow> admin_ui \<Rightarrow> router_state \<Rightarrow> drawer" where
  "drawer_initial sl ui r =
     \<lparr>dr_ui = ui, dr_router = r, dr_step = 1, dr_sourceKind = None, dr_provider = [], dr_pools = [],
      dr_poolsV = 0, dr_poolLoadFailed = False, dr_cpaService = None, dr_selectedPoolId = [],
      dr_newPoolLabel = [], dr_directForm = EMPTY_DIRECT_FORM, dr_loading = False, dr_loginSession = None,
      dr_result = None, dr_pendingCpaFlow = None, dr_restoredSession = False, dr_cpaEntryMode = EntryLogin,
      dr_authJSONFiles = [], dr_authJSONSummary = None, dr_authJSONError = None, dr_authJSONPreview = None,
      dr_authJSONBatchStage = None, dr_slot = sl, dr_pollV = 0, dr_pollRun = 0, dr_timer = None,
      dr_fetching = [], dr_finishing = [], dr_previewsOut = 0, dr_loadsOut = 0, dr_toasts = [], dr_sent = []\<rparr>"

text \<open>The runs of the drawer in which every event satisfies \<open>ok\<close>.\<close>

inductive drawer_runs :: "(jstr \<Rightarrow> jstr) \<Rightarrow> (drawer \<Rightarrow> drawer_event \<Rightarrow> bool) \<Rightarrow> drawer \<Rightarrow> bool" for syn ok where
  initial: "\<not> addAccountOpen ui \<Longrightarrow> drawer_runs syn ok (drawer_initial sl ui r)"
| event: "drawer_runs syn ok s \<Longrightarrow> possible s e \<Longrightarrow> ok s e \<Longrightarrow> drawer_runs syn ok (drawer_step syn s e)"

text \<open>No poll is answered after the effect run it belongs to was superseded.\<close>

fun timely :: "drawer \<Rightarrow> drawer_event \<Rightarrow> bool" where
  "timely s (PollAnswered i _) = (\<not> disposed (dr_fetching s ! i) s)"
| "timely s _ = True"

end
