(* ===== verification/AddAccountRuns.thy ===== *)
theory AddAccountRuns
  imports AddAccount
begin

text \<open>
  What the runs of the "add account" drawer keep: its polling discipline, its wizard, what it sends, and
  the histories in which a late answer or an effect undoes what the user did. The state and the handlers
  are in \<open>AddAccount\<close>; nothing here models code.
\<close>

section \<open>Lemmas\<close>

text \<open>What the effects leave alone.\<close>

lemma open_effect_frame [simp]:
  "dr_ui (open_effect s) = dr_ui s" "dr_router (open_effect s) = dr_router s" "dr_slot (open_effect s) = dr_slot s"
  "dr_fetching (open_effect s) = dr_fetching s" "dr_finishing (open_effect s) = dr_finishing s"
  "dr_pools (open_effect s) = dr_pools s" "dr_poolsV (open_effect s) = dr_poolsV s" "dr_sent (open_effect s) = dr_sent s"
  "dr_pollRun (open_effect s) = dr_pollRun s"
  "dr_step (open_effect s) = (if addAccountOpen (dr_ui s) then dr_step s else 1)"
  "dr_result (open_effect s) = (if addAccountOpen (dr_ui s) then dr_result s else None)"
  "dr_timer (open_effect s) = (if addAccountOpen (dr_ui s) then dr_timer s else None)"
  "dr_loginSession (open_effect s) = (if addAccountOpen (dr_ui s) then dr_loginSession s else None)"
  by (simp_all add: open_effect_def reset_on_close_def set_session_def set_flow_def)

lemma recommend_effect_frame [simp]:
  "dr_ui (recommend_effect s) = dr_ui s" "dr_router (recommend_effect s) = dr_router s"
  "dr_slot (recommend_effect s) = dr_slot s" "dr_fetching (recommend_effect s) = dr_fetching s"
  "dr_finishing (recommend_effect s) = dr_finishing s" "dr_pools (recommend_effect s) = dr_pools s"
  "dr_sent (recommend_effect s) = dr_sent s" "dr_pollRun (recommend_effect s) = dr_pollRun s"
  "dr_step (recommend_effect s) = dr_step s" "dr_result (recommend_effect s) = dr_result s"
  "dr_timer (recommend_effect s) = dr_timer s" "dr_loginSession (recommend_effect s) = dr_loginSession s"
  "dr_pollV (recommend_effect s) = dr_pollV s" "dr_provider (recommend_effect s) = dr_provider s"
  "dr_sourceKind (recommend_effect s) = dr_sourceKind s"
  by (simp_all add: recommend_effect_def Let_def)

lemma prefill_effect_frame [simp]:
  "dr_ui (prefill_effect s) = dr_ui s" "dr_router (prefill_effect s) = dr_router s"
  "dr_slot (prefill_effect s) = dr_slot s" "dr_fetching (prefill_effect s) = dr_fetching s"
  "dr_finishing (prefill_effect s) = dr_finishing s" "dr_pools (prefill_effect s) = dr_pools s"
  "dr_sent (prefill_effect s) = dr_sent s" "dr_pollRun (prefill_effect s) = dr_pollRun s"
  "dr_step (prefill_effect s) = dr_step s" "dr_result (prefill_effect s) = dr_result s"
  "dr_timer (prefill_effect s) = dr_timer s" "dr_loginSession (prefill_effect s) = dr_loginSession s"
  "dr_pollV (prefill_effect s) = dr_pollV s" "dr_provider (prefill_effect s) = dr_provider s"
  "dr_sourceKind (prefill_effect s) = dr_sourceKind s" "dr_selectedPoolId (prefill_effect s) = dr_selectedPoolId s"
  "dr_newPoolLabel (prefill_effect s) = dr_newPoolLabel s"
  by (simp_all add: prefill_effect_def split: option.split)

lemma poll_effect_frame [simp]:
  "dr_ui (poll_effect c s) = dr_ui s" "dr_router (poll_effect c s) = dr_router s"
  "dr_slot (poll_effect c s) = dr_slot s" "dr_fetching (poll_effect c s) = dr_fetching s"
  "dr_finishing (poll_effect c s) = dr_finishing s" "dr_pools (poll_effect c s) = dr_pools s"
  "dr_sent (poll_effect c s) = dr_sent s" "dr_pollRun (poll_effect c s) = Suc (dr_pollRun s)"
  "dr_step (poll_effect c s) = dr_step s" "dr_result (poll_effect c s) = dr_result s"
  "dr_loginSession (poll_effect c s) = dr_loginSession s" "dr_pollV (poll_effect c s) = dr_pollV s"
  "dr_provider (poll_effect c s) = dr_provider s" "dr_selectedPoolId (poll_effect c s) = dr_selectedPoolId s"
  "dr_newPoolLabel (poll_effect c s) = dr_newPoolLabel s"
  by (simp_all add: poll_effect_def Let_def)

definition closes :: "drawer \<Rightarrow> drawer \<Rightarrow> bool" where
  "closes old new \<longleftrightarrow> (addAccountOpen (dr_ui old) \<noteq> addAccountOpen (dr_ui new) \<or>
     preferredPoolId (dr_ui old) \<noteq> preferredPoolId (dr_ui new)) \<and> \<not> addAccountOpen (dr_ui new)"

lemma run_open_effect_frame [simp]:
  "dr_ui (run_open_effect old s) = dr_ui s"
  "dr_router (run_open_effect old s) = dr_router s"
  "dr_slot (run_open_effect old s) = dr_slot s"
  "dr_fetching (run_open_effect old s) = dr_fetching s"
  "dr_finishing (run_open_effect old s) = dr_finishing s"
  "dr_pools (run_open_effect old s) = dr_pools s"
  "dr_sent (run_open_effect old s) = dr_sent s"
  "dr_pollRun (run_open_effect old s) = dr_pollRun s"
  "dr_step (run_open_effect old s) = (if closes old s then 1 else dr_step s)"
  "dr_result (run_open_effect old s) = (if closes old s then None else dr_result s)"
  "dr_loginSession (run_open_effect old s) = (if closes old s then None else dr_loginSession s)"
  "dr_timer (run_open_effect old s) = (if closes old s then None else dr_timer s)"
  by (simp_all add: run_open_effect_def closes_def)

lemma run_recommend_effect_frame [simp]:
  "dr_ui (run_recommend_effect old s) = dr_ui s"
  "dr_router (run_recommend_effect old s) = dr_router s"
  "dr_slot (run_recommend_effect old s) = dr_slot s"
  "dr_fetching (run_recommend_effect old s) = dr_fetching s"
  "dr_finishing (run_recommend_effect old s) = dr_finishing s"
  "dr_pools (run_recommend_effect old s) = dr_pools s"
  "dr_sent (run_recommend_effect old s) = dr_sent s"
  "dr_pollRun (run_recommend_effect old s) = dr_pollRun s"
  "dr_step (run_recommend_effect old s) = dr_step s"
  "dr_result (run_recommend_effect old s) = dr_result s"
  "dr_loginSession (run_recommend_effect old s) = dr_loginSession s"
  "dr_timer (run_recommend_effect old s) = dr_timer s"
  "dr_pollV (run_recommend_effect old s) = dr_pollV s"
  "dr_provider (run_recommend_effect old s) = dr_provider s"
  "dr_sourceKind (run_recommend_effect old s) = dr_sourceKind s"
  by (simp_all add: run_recommend_effect_def)

lemma run_prefill_effect_frame [simp]:
  "dr_ui (run_prefill_effect old s) = dr_ui s"
  "dr_router (run_prefill_effect old s) = dr_router s"
  "dr_slot (run_prefill_effect old s) = dr_slot s"
  "dr_fetching (run_prefill_effect old s) = dr_fetching s"
  "dr_finishing (run_prefill_effect old s) = dr_finishing s"
  "dr_pools (run_prefill_effect old s) = dr_pools s"
  "dr_sent (run_prefill_effect old s) = dr_sent s"
  "dr_pollRun (run_prefill_effect old s) = dr_pollRun s"
  "dr_step (run_prefill_effect old s) = dr_step s"
  "dr_result (run_prefill_effect old s) = dr_result s"
  "dr_loginSession (run_prefill_effect old s) = dr_loginSession s"
  "dr_timer (run_prefill_effect old s) = dr_timer s"
  "dr_pollV (run_prefill_effect old s) = dr_pollV s"
  "dr_provider (run_prefill_effect old s) = dr_provider s"
  "dr_sourceKind (run_prefill_effect old s) = dr_sourceKind s"
  "dr_selectedPoolId (run_prefill_effect old s) = dr_selectedPoolId s"
  "dr_newPoolLabel (run_prefill_effect old s) = dr_newPoolLabel s"
  by (simp_all add: run_prefill_effect_def)

lemma run_effects_frame [simp]:
  "dr_ui (run_effects old s) = dr_ui s"
  "dr_router (run_effects old s) = dr_router s"
  "dr_slot (run_effects old s) = dr_slot s"
  "dr_fetching (run_effects old s) = dr_fetching s"
  "dr_finishing (run_effects old s) = dr_finishing s"
  "dr_pools (run_effects old s) = dr_pools s"
  "dr_sent (run_effects old s) = dr_sent s"
  "dr_pollRun (run_effects old s) = dr_pollRun s"
  "dr_step (run_effects old s) = (if closes old s then 1 else dr_step s)"
  "dr_result (run_effects old s) = (if closes old s then None else dr_result s)"
  "dr_loginSession (run_effects old s) = (if closes old s then None else dr_loginSession s)"
  "dr_timer (run_effects old s) = (if closes old s then None else dr_timer s)"
  "dr_pollV (run_effects old s) = dr_pollV (run_open_effect old s)"
  by (simp_all add: run_effects_def)

lemma flush_frame [simp]:
  "dr_ui (flush old new) = dr_ui new" "dr_router (flush old new) = dr_router new"
  "dr_slot (flush old new) = dr_slot new" "dr_fetching (flush old new) = dr_fetching new"
  "dr_finishing (flush old new) = dr_finishing new" "dr_pools (flush old new) = dr_pools new"
  "dr_sent (flush old new) = dr_sent new"
  "dr_step (flush old new) = (if closes old new then 1 else dr_step new)"
  "dr_result (flush old new) = (if closes old new then None else dr_result new)"
  "dr_loginSession (flush old new) = (if closes old new then None else dr_loginSession new)"
  by (simp_all add: flush_def Let_def)

text \<open>
  The polling invariant: the polls that are out belong to a past or the current run, the timer to the
  current one, the current run watches the session that is shown, and a poll that has seen a finished
  login belongs to a past run.
\<close>

fun timer_poll :: "poll_timer \<Rightarrow> poll" where
  "timer_poll (FetchTimer p) = p"
| "timer_poll (RetryTimer p) = p"

definition poll_ok :: "drawer \<Rightarrow> bool" where
  "poll_ok s \<longleftrightarrow>
     (\<forall>p \<in> set (dr_fetching s). pl_run p \<le> dr_pollRun s \<and> active_status (ls_status (pl_session p)) \<and>
        (pl_run p = dr_pollRun s \<longrightarrow> dr_loginSession s = Some (pl_session p))) \<and>
     (\<forall>x \<in> set (dr_finishing s). pl_run (fst x) < dr_pollRun s) \<and>
     (\<forall>tm. dr_timer s = Some tm \<longrightarrow> pl_run (timer_poll tm) = dr_pollRun s \<and>
        active_status (ls_status (pl_session (timer_poll tm))) \<and> dr_loginSession s = Some (pl_session (timer_poll tm)))"

text \<open>An update before its render: what happened to the polling since \<open>old\<close>.\<close>

definition poll_pre :: "drawer \<Rightarrow> drawer \<Rightarrow> bool" where
  "poll_pre old new \<longleftrightarrow>
     dr_pollV old = dr_pollV new \<and> poll_ok new \<or>
     dr_pollV old \<noteq> dr_pollV new \<and>
     (\<forall>p \<in> set (dr_fetching new). pl_run p \<le> dr_pollRun new \<and> active_status (ls_status (pl_session p))) \<and>
     (\<forall>x \<in> set (dr_finishing new). pl_run (fst x) \<le> dr_pollRun new)"

lemma poll_ok_poll_effect:
  assumes "\<forall>p \<in> set (dr_fetching s). pl_run p \<le> dr_pollRun s \<and> active_status (ls_status (pl_session p))"
    and "\<forall>x \<in> set (dr_finishing s). pl_run (fst x) \<le> dr_pollRun s"
    and "dr_loginSession c = dr_loginSession s"
  shows "poll_ok (poll_effect c s)"
  using assms unfolding poll_ok_def
  by (auto simp: poll_effect_def Let_def poll_of_def isActiveLoginSession_def less_Suc_eq_le le_Suc_eq
      split: option.splits if_splits)

lemma closes_pollV: "closes old new \<Longrightarrow> dr_pollV (run_open_effect old new) = dr_pollV new \<Longrightarrow> dr_loginSession new = None"
  by (auto simp: closes_def run_open_effect_def open_effect_def reset_on_close_def set_session_def set_flow_def
      split: if_splits)

lemma deps_session: "\<not> poll_deps_changed new (run_effects old new) \<Longrightarrow>
    dr_loginSession (run_effects old new) = dr_loginSession new"
  using closes_pollV [of old new] by (simp add: poll_deps_changed_def)

lemma flush_poll_ok:
  assumes "poll_pre old new"
  shows "poll_ok (flush old new)"
proof -
  let ?s = "run_effects old new"
  have w: "\<forall>p \<in> set (dr_fetching ?s). pl_run p \<le> dr_pollRun ?s \<and> active_status (ls_status (pl_session p))"
    "\<forall>x \<in> set (dr_finishing ?s). pl_run (fst x) \<le> dr_pollRun ?s"
    using assms by (auto simp: poll_pre_def poll_ok_def intro: less_imp_le)
  show ?thesis
  proof (cases "poll_deps_changed new ?s \<or> poll_deps_changed old new")
    case True
    then show ?thesis
      using poll_ok_poll_effect [OF w] deps_session [of new old] by (auto simp: flush_def Let_def)
  next
    case False
    then have "poll_ok new" using assms by (auto simp: poll_pre_def poll_deps_changed_def)
    then have "poll_ok ?s"
      using deps_session [of new old] False by (auto simp: poll_ok_def split: if_splits)
    with False show ?thesis by (simp add: flush_def Let_def)
  qed
qed

text \<open>An update that starts no poll and answers none.\<close>

definition quiet :: "drawer \<Rightarrow> drawer \<Rightarrow> bool" where
  "quiet s s' \<longleftrightarrow>
     dr_pollRun s' = dr_pollRun s \<and> dr_fetching s' = dr_fetching s \<and> dr_finishing s' = dr_finishing s \<and>
     dr_pollV s \<le> dr_pollV s' \<and>
     (dr_pollV s' = dr_pollV s \<longrightarrow> dr_loginSession s' = dr_loginSession s \<and> dr_timer s' = dr_timer s)"

lemma quiet_ok: "quiet s s' \<Longrightarrow> dr_pollV s' = dr_pollV s \<Longrightarrow> poll_ok s \<Longrightarrow> poll_ok s'"
  by (auto simp: quiet_def poll_ok_def)

lemma quiet_pre: "poll_ok s \<Longrightarrow> quiet s s' \<Longrightarrow> poll_pre s s'"
  using quiet_ok [of s s'] by (auto simp: quiet_def poll_ok_def poll_pre_def less_imp_le)

lemma quiet_flush: "poll_ok s \<Longrightarrow> quiet s s' \<Longrightarrow> poll_ok (flush s s')"
  by (rule flush_poll_ok [OF quiet_pre])

lemma quiet_refl [simp]: "quiet s s"
  by (simp add: quiet_def)

lemma quiet_trans: "quiet s t \<Longrightarrow> quiet t u \<Longrightarrow> quiet s u"
  by (auto simp: quiet_def)

lemmas setter_defs = toast_def send_def set_pools_def set_session_def set_flow_def set_service_def
  writeStoredCpaSession_def clearStoredCpaSession_def

lemma quiet_setters [simp]:
  "quiet s (toast m s)" "quiet s (send r s)" "quiet s (set_pools ps s)" "quiet s (set_session x s)"
  "quiet s (set_flow f s)" "quiet s (set_service v s)" "quiet s (writeStoredCpaSession c s)"
  "quiet s (clearStoredCpaSession s)" "quiet s (refreshAfterAccountCreate n s)"
  by (simp_all add: quiet_def setter_defs refreshAfterAccountCreate_def Let_def split: option.split)

lemma quiet_ensurePool: "quiet t s \<Longrightarrow> quiet t (snd (ensurePool a c s))"
  by (simp add: ensurePool_def Let_def quiet_def setter_defs split: sum.split)

lemma pollV_ensurePool [simp]: "dr_pollV (snd (ensurePool a c s)) = dr_pollV s"
  by (simp add: ensurePool_def Let_def setter_defs split: sum.split)

lemma pollV_setters [simp]:
  "dr_pollV (toast m s) = dr_pollV s" "dr_pollV (send r s) = dr_pollV s" "dr_pollV (set_pools ps s) = dr_pollV s"
  "dr_pollV (writeStoredCpaSession c s) = dr_pollV s" "dr_pollV (clearStoredCpaSession s) = dr_pollV s"
  "dr_pollV (refreshAfterAccountCreate n s) = dr_pollV s"
  by (simp_all add: setter_defs refreshAfterAccountCreate_def Let_def split: option.split)

lemma submitDirect_poll_ok:
  assumes "poll_ok c"
  shows "poll_ok (submitDirect p a c)"
proof -
  obtain made s1 where e: "ensurePool p c (c\<lparr>dr_loading := True\<rparr>) = (made, s1)" by fastforce
  have "quiet c s1" using quiet_ensurePool [of c "c\<lparr>dr_loading := True\<rparr>" p c] by (simp add: e quiet_def)
  then have "poll_ok (flush c s1)" by (rule quiet_flush [OF assms])
  then show ?thesis
    by (auto simp: submitDirect_def e Let_def poll_ok_def setter_defs refreshAfterAccountCreate_def split: sum.split)
qed

lemma confirm_poll_ok:
  assumes "poll_ok c"
  shows "poll_ok (confirmAuthJSONImport p a c)"
proof -
  obtain made s1 where e: "ensurePool p c (c\<lparr>dr_loading := True\<rparr>) = (made, s1)" by fastforce
  have "quiet c s1" using quiet_ensurePool [of c "c\<lparr>dr_loading := True\<rparr>" p c] by (simp add: e quiet_def)
  then have "poll_ok (flush c s1)" by (rule quiet_flush [OF assms])
  then show ?thesis using assms
    by (auto simp: confirmAuthJSONImport_def e Let_def poll_ok_def setter_defs refreshAfterAccountCreate_def
        split: sum.split option.split)
qed

lemma quiet_login:
  "quiet s (login_failed f s)" "quiet s (adopt_session svc a c s)" "quiet s (begin_session svc n x c s)"
  by (simp_all add: login_failed_def adopt_session_def begin_session_def Let_def quiet_def setter_defs)

lemma quiet_send_flow: "quiet s (send r (set_flow f s))"
  by (rule quiet_trans [OF quiet_setters(5) quiet_setters(2)])

lemma startCpaLogin_poll_ok:
  assumes "poll_ok c"
  shows "poll_ok (startCpaLogin a p l c)"
proof (cases "dr_cpaService c")
  case None
  then show ?thesis using quiet_ok [OF quiet_setters(1)] assms by (simp add: startCpaLogin_def)
next
  case (Some svc)
  let ?s = "send (GetActiveSession (svc_id svc)) (c\<lparr>dr_loading := True\<rparr>)"
  have s: "poll_ok ?s" using assms by (rule quiet_ok [rotated 2]) (simp_all add: quiet_def setter_defs)
  obtain made s1 where e: "ensurePool p c ?s = (made, s1)" by fastforce
  have "quiet ?s s1" using quiet_ensurePool [of ?s ?s p c] by (simp add: e)
  then have s2: "poll_ok (flush ?s s1)" by (rule quiet_flush [OF s])
  have t: "poll_ok (toast m c)" for m using quiet_ok [OF quiet_setters(1)] assms by simp
  show ?thesis
    using t s s2
    by (auto simp: startCpaLogin_def Some e Let_def intro!: quiet_flush quiet_login quiet_send_flow split: sum.split)
qed

lemma quiet_restore:
  "quiet s (show_restored flow prov x s)" "quiet s (finish_restored flow x s)" "quiet s (store_restored svc prov flow x s)"
  by (simp_all add: quiet_def show_restored_def finish_restored_def store_restored_def setter_defs
      refreshAfterAccountCreate_def Let_def split: option.split)

lemma restore_poll_ok:
  assumes "poll_ok s"
  shows "poll_ok (snd (restoreBySession ps svc i fb answer s))"
proof -
  have s: "poll_ok (send r s)" for r using quiet_ok [OF quiet_setters(2)] assms by simp
  have q: "quiet t (store_restored svc prov flow x (show_restored flow prov x t))"
    "quiet t (store_restored svc prov flow x (finish_restored flow x t))" for t prov flow x
    by (rule quiet_trans [OF quiet_restore(1) quiet_restore(3)], rule quiet_trans [OF quiet_restore(2) quiet_restore(3)])
  show ?thesis
    using s by (auto simp: restoreBySession_def Let_def intro!: quiet_flush quiet_restore q split: sum.split prod.split)
qed

lemma open_loaded_poll_ok:
  assumes "poll_ok s"
  shows "poll_ok (open_loaded a b c d s)"
proof -
  define sp where "sp = (case a of Inl _ \<Rightarrow> [] | Inr ps \<Rightarrow> nullish ps [])"
  define sv where "sv = (case b of Inl _ \<Rightarrow> None | Inr v \<Rightarrow> v)"
  define s2 where "s2 = flush s (set_service sv ((set_pools sp s)
     \<lparr>dr_poolLoadFailed := (case a of Inl _ \<Rightarrow> True | Inr _ \<Rightarrow> False)\<rparr>))"
  have "quiet s (set_service sv ((set_pools sp s)\<lparr>dr_poolLoadFailed := (case a of Inl _ \<Rightarrow> True | Inr _ \<Rightarrow> False)\<rparr>))"
    by (simp add: quiet_def setter_defs)
  then have s2: "poll_ok s2" unfolding s2_def by (rule quiet_flush [OF assms])
  have snd: "poll_ok (send r s2)" for r using quiet_ok [OF quiet_setters(2)] s2 by simp
  have clr: "poll_ok (clearStoredCpaSession t)" if "poll_ok t" for t using quiet_ok [OF quiet_setters(8)] that by simp
  have rest: "poll_ok t' " if "poll_ok t" "restoreBySession ps svc i fb x t = (ok, t')" for ps svc i fb x t ok t'
    using restore_poll_ok [OF that(1), of ps svc i fb x] that(2) by simp
  have fin: "poll_ok (t\<lparr>dr_loading := False, dr_loadsOut := n\<rparr>)" if "poll_ok t" for t n
    using that by (simp add: poll_ok_def)
  show ?thesis
    unfolding open_loaded_def Let_def sp_def [symmetric] sv_def [symmetric] s2_def [symmetric]
    by (rule fin) (auto intro: s2 snd clr rest restore_poll_ok split: option.split sum.split prod.split)
qed

lemma cancel_poll_ok:
  assumes "poll_ok c"
  shows "poll_ok (cancelCpaLogin a c)"
proof -
  have "poll_ok (send r c)" for r using quiet_ok [OF quiet_setters(2)] assms by simp
  moreover have "quiet (send r c) (toast m ((set_session (Some x) (clearStoredCpaSession ((send r c)\<lparr>dr_timer := None\<rparr>)))
      \<lparr>dr_restoredSession := False, dr_loading := False\<rparr>))" for r m x
    by (simp add: quiet_def setter_defs)
  ultimately show ?thesis
    using assms by (auto simp: cancelCpaLogin_def Let_def intro!: quiet_flush split: option.split sum.split)
      (auto simp: poll_ok_def setter_defs)
qed

lemma set_drop_nth: "x \<in> set (drop_nth i xs) \<Longrightarrow> x \<in> set xs"
  by (auto simp: drop_nth_def dest: in_set_takeD in_set_dropD)

lemma timer_poll_ok:
  assumes "poll_ok s"
  shows "poll_ok (timer_fires s)"
proof (cases "dr_timer s")
  case None
  then show ?thesis using assms by (simp add: timer_fires_def)
next
  case (Some tm)
  have q: "poll_ok (s\<lparr>dr_timer := None\<rparr>)" using assms by (auto simp: poll_ok_def)
  show ?thesis
  proof (cases tm)
    case (FetchTimer p)
    with Some assms show ?thesis by (auto simp: timer_fires_def poll_ok_def send_def)
  next
    case (RetryTimer p)
    with Some q show ?thesis
      by (auto simp: timer_fires_def Let_def intro!: quiet_flush split: option.split)
  qed
qed

lemma poll_got_fields [simp]:
  "dr_pollRun (poll_got p x s) = dr_pollRun s" "dr_fetching (poll_got p x s) = dr_fetching s"
  "set (dr_finishing (poll_got p x s)) \<subseteq> insert (p, x) (set (dr_finishing s))"
  "dr_pollV (poll_got p x s) = Suc (dr_pollV s)"
  by (auto simp: poll_got_def poll_stored_def Let_def setter_defs split: option.split)

lemma poll_answered_poll_ok:
  assumes "poll_ok s"
  shows "poll_ok (poll_answered i a s)"
proof (cases "i < length (dr_fetching s)")
  case True
  let ?p = "dr_fetching s ! i"
  let ?s = "s\<lparr>dr_fetching := drop_nth i (dr_fetching s)\<rparr>"
  have p: "?p \<in> set (dr_fetching s)" using True by simp
  show ?thesis
  proof (cases a)
    case (Inl f)
    with True show ?thesis using assms p
      by (auto simp: poll_answered_def Let_def poll_ok_def disposed_def isActiveLoginSession_def dest: set_drop_nth)
  next
    case (Inr x)
    have "pl_run (fst y) \<le> dr_pollRun s" if "y \<in> set (dr_finishing (poll_got ?p x ?s))" for y
    proof -
      have "y = (?p, x) \<or> y \<in> set (dr_finishing s)" using poll_got_fields(3) [of ?p x ?s] that by auto
      then show ?thesis using assms p by (auto simp: poll_ok_def intro: less_imp_le)
    qed
    moreover have "pl_run q \<le> dr_pollRun s \<and> active_status (ls_status (pl_session q))"
      if "q \<in> set (drop_nth i (dr_fetching s))" for q
      using set_drop_nth [OF that] assms by (auto simp: poll_ok_def)
    ultimately have "poll_pre ?s (poll_got ?p x ?s)" by (simp add: poll_pre_def)
    then show ?thesis using True Inr by (simp add: poll_answered_def Let_def flush_poll_ok)
  qed
qed (simp add: poll_answered_def assms)

lemma poll_refreshed_poll_ok: "poll_ok s \<Longrightarrow> poll_ok (poll_refreshed i s)"
  by (auto simp: poll_refreshed_def Let_def poll_ok_def split: prod.split dest: set_drop_nth)

lemma drawer_step_poll_ok:
  assumes "poll_ok s"
  shows "poll_ok (drawer_step syn s e)"
proof (cases "flushes_itself e")
  case True
  then show ?thesis using assms
    by (cases e) (auto simp: drawer_step_def open_loaded_poll_ok submitDirect_poll_ok startCpaLogin_poll_ok
        cancel_poll_ok confirm_poll_ok timer_poll_ok poll_answered_poll_ok)
next
  case False
  show ?thesis
  proof (cases "\<exists>i. e = PollRefreshed i")
    case True
    then obtain i where e: "e = PollRefreshed i" by blast
    have "dr_pollV (poll_refreshed i s) = dr_pollV s"
      by (simp add: poll_refreshed_def Let_def split: prod.split)
    then have "poll_pre s (poll_refreshed i s)"
      using poll_refreshed_poll_ok [OF assms, of i] by (simp add: poll_pre_def)
    with False e show ?thesis by (simp add: drawer_step_def flush_poll_ok)
  next
    case other: False
    have "quiet s (dr_handle syn s e)"
      using False other
      by (cases e) (auto simp: quiet_def Let_def start_open_load_def chooseSourceKind_def chooseAuthJSONFiles_def
          retry_pools_def previewAuthJSONImport_def preview_answered_def resetForNextAccount_def complete_def setter_defs
          split: option.split sum.split)
    with False assms show ?thesis by (simp add: drawer_step_def quiet_flush)
  qed
qed

lemma runs_poll_ok: "drawer_runs syn ok s \<Longrightarrow> poll_ok s"
proof (induction rule: drawer_runs.induct)
  case (initial ui sl r)
  then show ?case by (simp add: poll_ok_def drawer_initial_def)
qed (rule drawer_step_poll_ok)

section \<open>The steps of the wizard\<close>

definition wizard_ok :: "drawer \<Rightarrow> bool" where
  "wizard_ok s \<longleftrightarrow> 1 \<le> dr_step s \<and> dr_step s \<le> 4 \<and> (dr_step s = 4 \<longrightarrow> dr_result s \<noteq> None)"

lemma flush_wizard_ok: "wizard_ok new \<Longrightarrow> wizard_ok (flush old new)"
  by (simp add: wizard_ok_def)

lemma ensurePool_step [simp]:
  "dr_step (snd (ensurePool a c s)) = dr_step s" "dr_result (snd (ensurePool a c s)) = dr_result s"
  by (simp_all add: ensurePool_def Let_def setter_defs split: sum.split)

lemma setters_wizard [simp]:
  "wizard_ok (toast m s) = wizard_ok s" "wizard_ok (send r s) = wizard_ok s" "wizard_ok (set_pools ps s) = wizard_ok s"
  "wizard_ok (set_session x s) = wizard_ok s" "wizard_ok (set_flow f s) = wizard_ok s"
  "wizard_ok (set_service v s) = wizard_ok s" "wizard_ok (writeStoredCpaSession w s) = wizard_ok s"
  "wizard_ok (clearStoredCpaSession s) = wizard_ok s" "wizard_ok (refreshAfterAccountCreate n s) = wizard_ok s"
  "wizard_ok (snd (ensurePool a c s)) = wizard_ok s" "wizard_ok (s\<lparr>dr_loading := b\<rparr>) = wizard_ok s"
  by (simp_all add: wizard_ok_def setter_defs refreshAfterAccountCreate_def Let_def split: option.split)

lemma wizard_submits:
  assumes "wizard_ok c"
  shows "wizard_ok (submitDirect p a c)" "wizard_ok (confirmAuthJSONImport p b c)"
proof -
  obtain made s1 where e: "ensurePool p c (c\<lparr>dr_loading := True\<rparr>) = (made, s1)" by fastforce
  have "wizard_ok s1" using setters_wizard(10) [of p c "c\<lparr>dr_loading := True\<rparr>"] assms by (simp add: e)
  then have "wizard_ok (flush c s1)" by (rule flush_wizard_ok)
  then show "wizard_ok (submitDirect p a c)" "wizard_ok (confirmAuthJSONImport p b c)"
    using assms unfolding submitDirect_def confirmAuthJSONImport_def e
    by (auto simp: Let_def split: sum.split option.split) (simp_all add: wizard_ok_def setter_defs)
qed

lemma wizard_logins:
  "wizard_ok s \<Longrightarrow> wizard_ok (login_failed f s)" "wizard_ok (adopt_session svc x c s)" "wizard_ok (begin_session svc n x c s)"
  "wizard_ok (show_restored flow prov x s)" "wizard_ok (finish_restored flow x s)"
  "wizard_ok (store_restored svc prov flow x s) = wizard_ok s"
  by (simp_all add: login_failed_def adopt_session_def begin_session_def show_restored_def finish_restored_def
      store_restored_def Let_def) (simp_all add: wizard_ok_def setter_defs)

lemma wizard_start: "wizard_ok c \<Longrightarrow> wizard_ok (startCpaLogin a p l c)"
  unfolding startCpaLogin_def
  by (auto simp: Let_def intro!: flush_wizard_ok wizard_logins split: option.split sum.split prod.split)
    (metis setters_wizard(10,11,2) snd_conv)+

lemma wizard_restore: "wizard_ok s \<Longrightarrow> wizard_ok (snd (restoreBySession ps svc i fb x s))"
  by (auto simp: restoreBySession_def Let_def wizard_logins intro!: flush_wizard_ok split: sum.split prod.split)

lemma wizard_open_loaded:
  assumes "wizard_ok s"
  shows "wizard_ok (open_loaded a b c d s)"
proof -
  have fin: "wizard_ok (t\<lparr>dr_loading := False, dr_loadsOut := n\<rparr>) = wizard_ok t" for t n by (simp add: wizard_ok_def)
  have fl: "wizard_ok (t\<lparr>dr_poolLoadFailed := x\<rparr>) = wizard_ok t" for t x by (simp add: wizard_ok_def)
  have rest: "wizard_ok t' " if "wizard_ok t" "restoreBySession ps svc i fb x t = (ok, t')" for ps svc i fb x t ok t'
    using wizard_restore [OF that(1), of ps svc i fb x] that(2) by simp
  show ?thesis unfolding open_loaded_def Let_def fin
    by (auto simp: assms fl intro!: flush_wizard_ok wizard_restore split: option.split sum.split prod.split)
      (auto simp: assms fl intro!: flush_wizard_ok elim!: rest [rotated])
qed

lemma wizard_polls:
  assumes "wizard_ok s"
  shows "wizard_ok (timer_fires s)" "wizard_ok (poll_answered i a s)" "wizard_ok (poll_refreshed j s)" "wizard_ok (cancelCpaLogin b s)"
proof -
  have g: "wizard_ok (poll_got p x t) = wizard_ok t" for p x t
    by (simp add: poll_got_def poll_stored_def Let_def wizard_ok_def setter_defs split: option.split)
  show "wizard_ok (poll_answered i a s)"
    using assms by (auto simp: poll_answered_def Let_def g intro!: flush_wizard_ok split: sum.split) (auto simp: wizard_ok_def)
  show "wizard_ok (timer_fires s)"
    using assms by (auto simp: timer_fires_def Let_def intro!: flush_wizard_ok split: option.split poll_timer.split)
      (auto simp: wizard_ok_def)
  show "wizard_ok (poll_refreshed j s)"
    using assms by (auto simp: poll_refreshed_def Let_def wizard_ok_def split: prod.split)
  show "wizard_ok (cancelCpaLogin b s)"
    using assms by (auto simp: cancelCpaLogin_def Let_def intro!: flush_wizard_ok split: option.split sum.split)
      (auto simp: wizard_ok_def setter_defs)
qed

lemma drawer_step_wizard_ok:
  assumes "wizard_ok s" and "possible s e"
  shows "wizard_ok (drawer_step syn s e)"
proof (cases "flushes_itself e")
  case True
  then show ?thesis using assms
    by (cases e) (auto simp: drawer_step_def wizard_open_loaded wizard_submits wizard_start wizard_polls)
next
  case False
  have "wizard_ok (dr_handle syn s e)"
    using assms False
    by (cases e) (auto simp: wizard_polls wizard_ok_def Let_def start_open_load_def chooseSourceKind_def chooseAuthJSONFiles_def
        retry_pools_def previewAuthJSONImport_def preview_answered_def resetForNextAccount_def complete_def setter_defs
        footer_left_def poll_refreshed_def split: option.split sum.split prod.split if_splits)
  with False show ?thesis by (simp add: drawer_step_def flush_wizard_ok)
qed

lemma runs_wizard_ok: "drawer_runs syn ok s \<Longrightarrow> wizard_ok s"
proof (induction rule: drawer_runs.induct)
  case (initial ui sl r)
  then show ?case by (simp add: wizard_ok_def drawer_initial_def)
qed (rule drawer_step_wizard_ok)

text \<open>
  C8: The wizard stays on its rails: in every reachable state the step is one of its four, the last one
  is shown only with a result, and the polling timer runs only while a login is pending or authorized.
\<close>

theorem drawer_invariant:
  assumes "drawer_runs syn ok s"
  shows "1 \<le> dr_step s \<and> dr_step s \<le> 4 \<and> (dr_step s = 4 \<longrightarrow> dr_result s \<noteq> None) \<and>
    (dr_timer s \<noteq> None \<longrightarrow> isActiveLoginSession (dr_loginSession s))"
  using runs_wizard_ok [OF assms] runs_poll_ok [OF assms]
  by (auto simp: wizard_ok_def poll_ok_def isActiveLoginSession_def)

section \<open>The polling goes on\<close>

definition poll_live :: "drawer \<Rightarrow> bool" where
  "poll_live s \<longleftrightarrow> (isActiveLoginSession (dr_loginSession s) \<longrightarrow>
     dr_timer s \<noteq> None \<or> (\<exists>p \<in> set (dr_fetching s). pl_run p = dr_pollRun s))"

lemma poll_live_poll_effect: "dr_loginSession c = dr_loginSession s \<Longrightarrow> poll_live (poll_effect c s)"
  by (auto simp: poll_live_def poll_effect_def Let_def isActiveLoginSession_def split: option.splits)

lemma flush_poll_live:
  assumes "dr_pollV old = dr_pollV new \<Longrightarrow> poll_live new"
  shows "poll_live (flush old new)"
proof (cases "poll_deps_changed new (run_effects old new) \<or> poll_deps_changed old new")
  case True
  then show ?thesis
    using poll_live_poll_effect deps_session [of new old] by (auto simp: flush_def Let_def)
next
  case False
  then have "poll_live new" using assms by (simp add: poll_deps_changed_def)
  then have "poll_live (run_effects old new)"
    using deps_session [of new old] False by (auto simp: poll_live_def isActiveLoginSession_def split: if_splits)
  with False show ?thesis by (simp add: flush_def Let_def)
qed

lemma quiet_live: "quiet s s' \<Longrightarrow> dr_pollV s' = dr_pollV s \<Longrightarrow> poll_live s \<Longrightarrow> poll_live s'"
  by (auto simp: quiet_def poll_live_def)

lemma quiet_flush_live: "quiet s s' \<Longrightarrow> poll_live s \<Longrightarrow> poll_live (flush s s')"
  using quiet_live by (intro flush_poll_live) metis

lemma live_updates [simp]:
  "poll_live (s\<lparr>dr_loading := x0\<rparr>) = poll_live s"
  "poll_live (s\<lparr>dr_step := x1\<rparr>) = poll_live s"
  "poll_live (s\<lparr>dr_result := x2\<rparr>) = poll_live s"
  "poll_live (s\<lparr>dr_authJSONFiles := x3\<rparr>) = poll_live s"
  "poll_live (s\<lparr>dr_authJSONSummary := x4\<rparr>) = poll_live s"
  "poll_live (s\<lparr>dr_authJSONError := x5\<rparr>) = poll_live s"
  "poll_live (s\<lparr>dr_authJSONPreview := x6\<rparr>) = poll_live s"
  "poll_live (s\<lparr>dr_authJSONBatchStage := x7\<rparr>) = poll_live s"
  by (simp_all add: poll_live_def)

lemma live_setters [simp]:
  "poll_live (toast m s) = poll_live s" "poll_live (send r s) = poll_live s" "poll_live (set_pools ps s) = poll_live s"
  "poll_live (writeStoredCpaSession w s) = poll_live s" "poll_live (clearStoredCpaSession s) = poll_live s"
  "poll_live (refreshAfterAccountCreate n s) = poll_live s"
  by (simp_all add: poll_live_def setter_defs refreshAfterAccountCreate_def Let_def split: option.split)

lemma live_submits:
  assumes "poll_live c"
  shows "poll_live (submitDirect p a c)" "poll_live (confirmAuthJSONImport p b c)"
proof -
  obtain made s1 where e: "ensurePool p c (c\<lparr>dr_loading := True\<rparr>) = (made, s1)" by fastforce
  have "quiet c s1" using quiet_ensurePool [of c "c\<lparr>dr_loading := True\<rparr>" p c] by (simp add: e quiet_def)
  then have "poll_live (flush c s1)" using assms by (rule quiet_flush_live)
  then show "poll_live (submitDirect p a c)" "poll_live (confirmAuthJSONImport p b c)"
    using assms unfolding submitDirect_def confirmAuthJSONImport_def e
    by (auto simp: Let_def split: sum.split option.split)
qed

lemma quiet_ensurePoolI: "ensurePool p c s = (m, t) \<Longrightarrow> quiet s t"
  using quiet_ensurePool [of s s p c] by simp

lemma live_start: "poll_live c \<Longrightarrow> poll_live (startCpaLogin a p l c)"
  unfolding startCpaLogin_def
  by (auto simp: Let_def intro!: quiet_flush_live quiet_login quiet_send_flow dest: quiet_ensurePoolI
      split: option.split sum.split prod.split)

lemma live_restore: "poll_live s \<Longrightarrow> poll_live (snd (restoreBySession ps svc i fb x s))"
proof -
  assume s: "poll_live s"
  have q: "quiet t (store_restored svc prov flow x (show_restored flow prov x t))"
    "quiet t (store_restored svc prov flow x (finish_restored flow x t))" for t prov flow x
    by (rule quiet_trans [OF quiet_restore(1) quiet_restore(3)], rule quiet_trans [OF quiet_restore(2) quiet_restore(3)])
  show ?thesis
    by (auto simp: s restoreBySession_def Let_def intro!: quiet_flush_live quiet_restore q split: sum.split prod.split)
qed

lemma live_open_loaded:
  assumes "poll_live s"
  shows "poll_live (open_loaded a b c d s)"
proof -
  have fin: "poll_live (t\<lparr>dr_loading := False, dr_loadsOut := n\<rparr>) = poll_live t" for t n by (simp add: poll_live_def)
  have q: "quiet s (set_service sv ((set_pools sp s)\<lparr>dr_poolLoadFailed := x\<rparr>))" for sv sp x
    by (simp add: quiet_def setter_defs)
  have s2: "poll_live (flush s (set_service sv ((set_pools sp s)\<lparr>dr_poolLoadFailed := x\<rparr>)))" for sv sp x
    by (rule quiet_flush_live [OF q assms])
  have rest: "poll_live t' " if "poll_live t" "restoreBySession ps svc i fb x t = (ok, t')" for ps svc i fb x t ok t'
    using live_restore [OF that(1), of ps svc i fb x] that(2) by simp
  show ?thesis unfolding open_loaded_def Let_def fin
    by (auto simp: s2 intro!: live_restore split: option.split sum.split prod.split) (auto simp: s2 elim!: rest [rotated])
qed

lemma live_timer:
  assumes "poll_ok s" and "poll_live s"
  shows "poll_live (timer_fires s)"
proof (cases "dr_timer s")
  case None
  then show ?thesis using assms by (simp add: timer_fires_def)
next
  case (Some tm)
  then have tm: "pl_run (timer_poll tm) = dr_pollRun s" "dr_loginSession s = Some (pl_session (timer_poll tm))"
    using assms(1) by (simp_all add: poll_ok_def)
  show ?thesis
  proof (cases tm)
    case (FetchTimer p)
    with Some tm show ?thesis by (auto simp: timer_fires_def poll_live_def send_def)
  next
    case (RetryTimer p)
    with Some tm show ?thesis
      by (auto simp: timer_fires_def Let_def disposed_def set_session_def intro!: flush_poll_live)
  qed
qed

lemma live_answer:
  assumes "poll_ok s" and "poll_live s" and "i < length (dr_fetching s)" and "\<not> disposed (dr_fetching s ! i) s"
  shows "poll_live (poll_answered i a s)"
proof -
  have "dr_fetching s ! i \<in> set (dr_fetching s)" using assms(3) by simp
  then have act: "active_status (ls_status (pl_session (dr_fetching s ! i)))" using assms(1) by (simp add: poll_ok_def)
  show ?thesis
  proof (cases a)
    case (Inl f)
    with assms act show ?thesis
      by (simp add: poll_answered_def Let_def poll_live_def disposed_def isActiveLoginSession_def)
  next
    case (Inr x)
    with assms show ?thesis by (auto simp: poll_answered_def Let_def intro!: flush_poll_live)
  qed
qed

lemma drawer_step_poll_live:
  assumes "poll_ok s" and "poll_live s" and "possible s e" and "timely s e"
  shows "poll_live (drawer_step syn s e)"
proof (cases "flushes_itself e")
  case True
  have c: "poll_live (cancelCpaLogin a s)" for a
    using assms(2) by (auto simp: cancelCpaLogin_def Let_def set_session_def intro!: flush_poll_live split: option.split sum.split)
  with True assms show ?thesis
    by (cases e) (auto simp: drawer_step_def live_open_loaded live_submits live_start live_timer intro: live_answer)
next
  case False
  have "quiet s (dr_handle syn s e) \<or> dr_pollV s = dr_pollV (dr_handle syn s e) \<and> poll_live (dr_handle syn s e)"
    using False assms(2)
    by (cases e) (auto simp: quiet_def poll_live_def Let_def start_open_load_def chooseSourceKind_def chooseAuthJSONFiles_def
        retry_pools_def previewAuthJSONImport_def preview_answered_def resetForNextAccount_def complete_def setter_defs
        poll_refreshed_def split: option.split sum.split prod.split)
  then show ?thesis using False assms(2) by (auto simp: drawer_step_def intro: quiet_flush_live flush_poll_live)
qed

lemma timely_runs_live: "drawer_runs syn timely s \<Longrightarrow> poll_live s"
proof (induction rule: drawer_runs.induct)
  case (initial ui sl r)
  then show ?case by (simp add: poll_live_def drawer_initial_def isActiveLoginSession_def)
next
  case (event s e)
  then show ?case by (intro drawer_step_poll_live runs_poll_ok) auto
qed

text \<open>
  C9: A pending login is never left unwatched: as long as no poll is answered after the effect run it
  belongs to was superseded, in every reachable state with a pending or authorized login either the
  polling timer is armed or a poll of the current run is out, failed polls included.
\<close>

theorem pending_login_is_polled:
  assumes "drawer_runs syn timely s" and "isActiveLoginSession (dr_loginSession s)"
  shows "dr_timer s \<noteq> None \<or> (\<exists>p \<in> set (dr_fetching s). \<not> disposed p s)"
  using timely_runs_live [OF assms(1)] assms(2) by (auto simp: poll_live_def disposed_def)

section \<open>A run\<close>

text \<open>The drawer is opened, finds a pending login of the service, and its first poll is out.\<close>

definition sample_service :: cpa_service where
  "sample_service =
     \<lparr>svc_id = 1, svc_label = [], svc_base_url = [], svc_api_key_set = True, svc_api_key_masked = [], svc_enabled = True,
      svc_status = js ''healthy'', svc_last_checked_at = None, svc_last_error = [], svc_created_at = [],
      svc_updated_at = [], svc_runtime_mode = None, svc_auth_dir = None, svc_image_pinned_version = None,
      svc_running_version = None, svc_current_version = None, svc_latest_version = None, svc_update_available = None,
      svc_provider_pinning_supported = True, svc_provider_pinning_state = None\<rparr>"

definition sample_session :: login_session where
  "sample_session =
     \<lparr>ls_id = js ''s1'', ls_service_id = Some 1, ls_pool_id = Some 7, ls_provider = Some (js ''codex''),
      ls_status = js ''pending'', ls_verification_uri = None, ls_user_code = None, ls_expires_at = None,
      ls_poll_interval_seconds = None, ls_account_id = None, ls_account = None, ls_error_code = None,
      ls_error_message = None\<rparr>"

definition drawer0 :: drawer where
  "drawer0 = drawer_initial \<lparr>slot_item = NoItem, slot_usable = True\<rparr> admin_ui_init (router_init (js ''/admin''))"

definition drawer_opened :: drawer where
  "drawer_opened = drawer_step id drawer0 (Open None)"

definition drawer_loaded :: drawer where
  "drawer_loaded = drawer_step id drawer_opened
     (OpenLoaded (Inr (Some [])) (Inr (Some sample_service)) (Inr sample_session) (Inr sample_session))"

definition drawer_polling :: drawer where
  "drawer_polling = drawer_step id drawer_loaded TimerFires"

lemmas drawer_eval = drawer_step_def flush_def run_effects_def run_open_effect_def run_recommend_effect_def
  run_prefill_effect_def open_effect_def recommend_effect_def prefill_effect_def poll_effect_def poll_of_def
  poll_deps_changed_def reset_on_close_def setter_defs open_loaded_def restoreBySession_def restored_flow_def
  show_restored_def store_restored_def start_open_load_def openAddAccount_def closeAddAccount_def
  readStoredCpaSession_def isActiveLoginSession_def active_status_def preferred_text_def truthy_id_def

lemma opened_eq: "drawer_opened = drawer0\<lparr>dr_ui := openAddAccount None admin_ui_init, dr_loading := True, dr_loadsOut := 1\<rparr>"
  by (simp add: drawer_opened_def drawer0_def drawer_initial_def drawer_eval admin_ui_init_def)

lemmas sample_defs = drawer0_def drawer_initial_def admin_ui_init_def

lemma flush_new_timer:
  assumes "dr_pollV old \<noteq> dr_pollV new" "\<not> closes old new" "dr_loginSession new = Some x" "isActiveLoginSession (Some x)"
  shows "\<exists>p. dr_timer (flush old new) = Some (FetchTimer p) \<and> pl_session p = x \<and> pl_run p = dr_pollRun (flush old new)"
  using assms by (auto simp: flush_def Let_def poll_deps_changed_def poll_effect_def poll_of_def)

lemma open_effect_view [simp]:
  "addAccountOpen (dr_ui s) \<Longrightarrow> dr_sourceKind (open_effect s) = dr_sourceKind s"
  "addAccountOpen (dr_ui s) \<Longrightarrow> dr_cpaEntryMode (open_effect s) = dr_cpaEntryMode s"
  "addAccountOpen (dr_ui s) \<Longrightarrow> dr_authJSONFiles (open_effect s) = dr_authJSONFiles s"
  "addAccountOpen (dr_ui s) \<Longrightarrow> dr_authJSONError (open_effect s) = dr_authJSONError s"
  "dr_cpaService (open_effect s) = dr_cpaService s"
  "dr_loading (open_effect s) = dr_loading s"
  "dr_authJSONBatchStage (open_effect s) = dr_authJSONBatchStage s"
  by (simp_all add: open_effect_def reset_on_close_def set_session_def set_flow_def)

lemma recommend_effect_view [simp]:
  "dr_sourceKind (recommend_effect s) = dr_sourceKind s"
  "dr_cpaEntryMode (recommend_effect s) = dr_cpaEntryMode s"
  "dr_authJSONFiles (recommend_effect s) = dr_authJSONFiles s"
  "dr_authJSONError (recommend_effect s) = dr_authJSONError s"
  "dr_cpaService (recommend_effect s) = dr_cpaService s"
  "dr_loading (recommend_effect s) = dr_loading s"
  "dr_authJSONBatchStage (recommend_effect s) = dr_authJSONBatchStage s"
  by (simp_all add: recommend_effect_def Let_def)

lemma prefill_effect_view [simp]:
  "dr_sourceKind (prefill_effect s) = dr_sourceKind s"
  "dr_cpaEntryMode (prefill_effect s) = dr_cpaEntryMode s"
  "dr_authJSONFiles (prefill_effect s) = dr_authJSONFiles s"
  "dr_authJSONError (prefill_effect s) = dr_authJSONError s"
  "dr_cpaService (prefill_effect s) = dr_cpaService s"
  "dr_loading (prefill_effect s) = dr_loading s"
  "dr_authJSONBatchStage (prefill_effect s) = dr_authJSONBatchStage s"
  by (simp_all add: prefill_effect_def split: option.split)

lemma poll_effect_view [simp]:
  "dr_sourceKind (poll_effect c s) = dr_sourceKind s"
  "dr_cpaEntryMode (poll_effect c s) = dr_cpaEntryMode s"
  "dr_authJSONFiles (poll_effect c s) = dr_authJSONFiles s"
  "dr_authJSONError (poll_effect c s) = dr_authJSONError s"
  "dr_cpaService (poll_effect c s) = dr_cpaService s"
  "dr_loading (poll_effect c s) = dr_loading s"
  "dr_authJSONBatchStage (poll_effect c s) = dr_authJSONBatchStage s"
  by (simp_all add: poll_effect_def Let_def)

lemma run_effects_view [simp]:
  "\<not> closes old s \<Longrightarrow> dr_sourceKind (run_effects old s) = dr_sourceKind s"
  "\<not> closes old s \<Longrightarrow> dr_cpaEntryMode (run_effects old s) = dr_cpaEntryMode s"
  "\<not> closes old s \<Longrightarrow> dr_authJSONFiles (run_effects old s) = dr_authJSONFiles s"
  "\<not> closes old s \<Longrightarrow> dr_authJSONError (run_effects old s) = dr_authJSONError s"
  "dr_cpaService (run_effects old s) = dr_cpaService s"
  "dr_loading (run_effects old s) = dr_loading s"
  "dr_authJSONBatchStage (run_effects old s) = dr_authJSONBatchStage s"
  by (auto simp: run_effects_def run_open_effect_def run_recommend_effect_def run_prefill_effect_def closes_def)

lemma flush_view [simp]:
  "\<not> closes old s \<Longrightarrow> dr_sourceKind (flush old s) = dr_sourceKind s"
  "\<not> closes old s \<Longrightarrow> dr_cpaEntryMode (flush old s) = dr_cpaEntryMode s"
  "\<not> closes old s \<Longrightarrow> dr_authJSONFiles (flush old s) = dr_authJSONFiles s"
  "\<not> closes old s \<Longrightarrow> dr_authJSONError (flush old s) = dr_authJSONError s"
  "dr_cpaService (flush old s) = dr_cpaService s"
  "dr_loading (flush old s) = dr_loading s"
  "dr_authJSONBatchStage (flush old s) = dr_authJSONBatchStage s"
  by (simp_all add: flush_def Let_def)

definition sample_flow :: pending_cpa_flow where
  "sample_flow = fst (restored_flow [] None sample_session)"

lemma sample_restored: "restored_flow [] None sample_session = (sample_flow, js ''codex'')"
  by (simp add: sample_flow_def restored_flow_def sample_session_def Let_def)

lemma loaded_eq:
  "\<exists>s. drawer_loaded =
      (flush s (store_restored sample_service (js ''codex'') sample_flow sample_session
         (show_restored sample_flow (js ''codex'') sample_session s)))\<lparr>dr_loading := False, dr_loadsOut := 0\<rparr> \<and>
     dr_fetching s = [] \<and> dr_finishing s = [] \<and> dr_result s = None \<and> dr_cpaEntryMode s = EntryLogin"
proof -
  define s2 where "s2 = flush drawer_opened
    (set_service (Some sample_service) ((set_pools [] drawer_opened)\<lparr>dr_poolLoadFailed := False\<rparr>))"
  have c: "\<not> closes drawer_opened (set_service (Some sample_service) ((set_pools [] drawer_opened)\<lparr>dr_poolLoadFailed := False\<rparr>))"
    by (simp add: closes_def setter_defs)
  have r: "readStoredCpaSession (dr_slot (set_service (Some sample_service) ((set_pools [] drawer_opened)\<lparr>dr_poolLoadFailed := False\<rparr>))) = None"
      "dr_loadsOut drawer_opened = 1"
    by (simp_all add: setter_defs opened_eq sample_defs readStoredCpaSession_def)
  have f: "dr_fetching s2 = []" "dr_finishing s2 = []" "dr_result s2 = None" "dr_cpaEntryMode s2 = EntryLogin"
    unfolding s2_def by (simp_all add: c) (simp_all add: setter_defs opened_eq sample_defs)
  have st: "ls_status sample_session = js ''pending''" "ls_id sample_session = js ''s1''" "svc_id sample_service = 1"
    by (simp_all add: sample_session_def sample_service_def)
  have n: "js ''pending'' \<noteq> js ''succeeded''" by (simp add: js_def)
  define s where "s = send (GetSession (js ''s1'')) (send (GetActiveSession 1) s2)"
  have "drawer_loaded =
      (flush s (store_restored sample_service (js ''codex'') sample_flow sample_session
         (show_restored sample_flow (js ''codex'') sample_session s)))\<lparr>dr_loading := False, dr_loadsOut := 0\<rparr>"
    by (simp add: drawer_loaded_def drawer_step_def s_def s2_def open_loaded_def Let_def r restoreBySession_def
        sample_restored st n)
  then show ?thesis using f by (intro exI [of _ s]) (simp add: s_def send_def)
qed

lemma loaded_facts:
  "dr_step drawer_loaded = 3" "dr_sourceKind drawer_loaded = Some SrcCpa" "dr_loginSession drawer_loaded = Some sample_session"
  "dr_fetching drawer_loaded = []" "dr_finishing drawer_loaded = []" "dr_result drawer_loaded = None"
  "dr_cpaEntryMode drawer_loaded = EntryLogin"
  "\<exists>p. dr_timer drawer_loaded = Some (FetchTimer p) \<and> pl_session p = sample_session \<and> pl_run p = dr_pollRun drawer_loaded"
proof -
  obtain s where e: "drawer_loaded =
      (flush s (store_restored sample_service (js ''codex'') sample_flow sample_session
         (show_restored sample_flow (js ''codex'') sample_session s)))\<lparr>dr_loading := False, dr_loadsOut := 0\<rparr>"
    and s: "dr_fetching s = []" "dr_finishing s = []" "dr_result s = None" "dr_cpaEntryMode s = EntryLogin"
    using loaded_eq by blast
  define t where "t = store_restored sample_service (js ''codex'') sample_flow sample_session
         (show_restored sample_flow (js ''codex'') sample_session s)"
  have e: "drawer_loaded = (flush s t)\<lparr>dr_loading := False, dr_loadsOut := 0\<rparr>"
    by (simp add: e t_def)
  have a: "isActiveLoginSession (Some sample_session)"
    by (simp add: isActiveLoginSession_def active_status_def sample_session_def)
  have c: "\<not> closes s t"
    by (simp add: closes_def t_def store_restored_def show_restored_def setter_defs)
  have t: "dr_step t = 3" "dr_sourceKind t = Some SrcCpa" "dr_loginSession t = Some sample_session" "dr_fetching t = []"
    "dr_finishing t = []" "dr_result t = None" "dr_pollV s \<noteq> dr_pollV t" "dr_cpaEntryMode t = EntryLogin"
    by (simp_all add: t_def store_restored_def show_restored_def setter_defs s)
  show "dr_step drawer_loaded = 3" "dr_sourceKind drawer_loaded = Some SrcCpa" "dr_loginSession drawer_loaded = Some sample_session"
    "dr_fetching drawer_loaded = []" "dr_finishing drawer_loaded = []" "dr_result drawer_loaded = None"
    "dr_cpaEntryMode drawer_loaded = EntryLogin"
    using c t by (simp_all add: e)
  show "\<exists>p. dr_timer drawer_loaded = Some (FetchTimer p) \<and> pl_session p = sample_session \<and> pl_run p = dr_pollRun drawer_loaded"
    using flush_new_timer [OF t(7) c t(3) a] by (simp add: e)
qed

lemma polling_facts:
  "dr_step drawer_polling = 3" "dr_sourceKind drawer_polling = Some SrcCpa" "dr_result drawer_polling = None"
  "dr_cpaEntryMode drawer_polling = EntryLogin" "dr_finishing drawer_polling = []"
  "dr_loginSession drawer_polling = Some sample_session"
  "\<exists>p. dr_fetching drawer_polling = [p]"
  using loaded_facts by (auto simp: drawer_polling_def drawer_step_def timer_fires_def send_def)

lemma sample_runs: "drawer_runs id timely drawer_polling"
proof -
  have "drawer_runs id timely drawer0"
    unfolding drawer0_def by (rule drawer_runs.initial) (simp add: admin_ui_init_def)
  then have "drawer_runs id timely drawer_opened"
    unfolding drawer_opened_def by (rule drawer_runs.event) simp_all
  moreover have "dr_loadsOut drawer_opened = 1" by (simp add: opened_eq)
  ultimately have "drawer_runs id timely drawer_loaded"
    unfolding drawer_loaded_def by (intro drawer_runs.event) simp_all
  then show ?thesis unfolding drawer_polling_def by (rule drawer_runs.event) simp_all
qed

theorem drawer_invariant_witness: "dr_step drawer_polling = 3 \<and> 1 \<le> dr_step drawer_polling \<and> dr_step drawer_polling \<le> 4"
  using drawer_invariant [OF sample_runs] polling_facts(1) by simp

theorem pending_login_is_polled_witness:
  "isActiveLoginSession (dr_loginSession drawer_polling) \<and> dr_timer drawer_polling = None \<and>
   (\<exists>p. p \<in> set (dr_fetching drawer_polling) \<and> \<not> disposed p drawer_polling)"
proof -
  have "isActiveLoginSession (dr_loginSession drawer_polling)"
    by (simp add: polling_facts isActiveLoginSession_def active_status_def sample_session_def)
  moreover have "dr_timer drawer_polling = None"
    using loaded_facts by (auto simp: drawer_polling_def drawer_step_def timer_fires_def send_def)
  ultimately show ?thesis using pending_login_is_polled [OF sample_runs] by auto
qed

section \<open>Runs that go astray\<close>

lemma poll_got_succeeded:
  assumes "ls_status x = js ''succeeded''" and "truthy_id (ls_account_id x)"
  shows "dr_finishing (poll_got p x s) = dr_finishing s @ [(p, x)]" "dr_loginSession (poll_got p x s) = Some x"
    "dr_sent (poll_got p x s) = dr_sent s @ [DiscoverModels (nullish (ls_account_id x) 0)]"
    "dr_ui (poll_got p x s) = dr_ui s" "dr_step (poll_got p x s) = dr_step s" "dr_result (poll_got p x s) = dr_result s"
    "dr_sourceKind (poll_got p x s) = dr_sourceKind s" "dr_cpaEntryMode (poll_got p x s) = dr_cpaEntryMode s"
  using assms by (auto simp: poll_got_def poll_stored_def Let_def setter_defs split: option.split)

lemma closes_same_ui: "dr_ui new = dr_ui old \<Longrightarrow> \<not> closes old new"
  by (simp add: closes_def)

text \<open>
  A login that finishes while it is polled never reaches the last step. The first effect of the
  answer is a new session object, whose render disposes the polling run before its refresh of the new
  account is done, and the disposed run returns early: the drawer stays on the third step with no
  result, and its footer offers nothing but the way back.
\<close>

theorem polled_login_never_completes:
  assumes "drawer_runs syn ok s" and "dr_step s = 3" and "dr_sourceKind s = Some SrcCpa" and "dr_cpaEntryMode s = EntryLogin"
    and "i < length (dr_fetching s)" and "ls_status x = js ''succeeded''" and "truthy_id (ls_account_id x)"
  defines "s1 \<equiv> drawer_step syn s (PollAnswered i (Inr x))"
  defines "s2 \<equiv> drawer_step syn s1 (PollRefreshed (length (dr_finishing s)))"
  shows "dr_step s2 = 3 \<and> dr_result s2 = dr_result s \<and> footer_left s2 = [BBack] \<and> footer_right s2 = [] \<and>
    dr_finishing s2 = dr_finishing s"
proof -
  let ?t = "s\<lparr>dr_fetching := drop_nth i (dr_fetching s)\<rparr>" and ?p = "dr_fetching s ! i"
  note g = poll_got_succeeded [OF assms(6,7), of ?p ?t]
  have s1: "s1 = flush ?t (poll_got ?p x ?t)"
    using assms(5) by (simp add: s1_def drawer_step_def poll_answered_def Let_def)
  have c: "\<not> closes ?t (poll_got ?p x ?t)" by (rule closes_same_ui) (simp add: g)
  have "poll_ok s1"
    unfolding s1_def by (rule drawer_step_poll_ok [OF runs_poll_ok [OF assms(1)]])
  moreover have f1: "dr_finishing s1 = dr_finishing s @ [(?p, x)]" by (simp add: s1 g)
  ultimately have d: "disposed ?p (s1\<lparr>dr_finishing := fs, dr_ui := u\<rparr>)" for fs u by (auto simp: poll_ok_def disposed_def)
  define t where "t = s1\<lparr>dr_finishing := dr_finishing s, dr_ui := refreshData (dr_ui s1)\<rparr>"
  have "dr_handle syn s1 (PollRefreshed (length (dr_finishing s))) = t"
    using d by (simp add: poll_refreshed_def f1 Let_def drop_nth_def t_def)
  then have s2: "s2 = flush s1 t" by (simp add: s2_def drawer_step_def)
  have c2: "\<not> closes s1 t" by (simp add: closes_def t_def refreshData_def)
  have st: "session_status s2 = Some (js ''succeeded'')" "dr_loginSession s2 = Some x"
    using c c2 assms(6) by (simp_all add: s2 t_def s1 g session_status_def)
  have na: "\<not> isActiveLoginSession (dr_loginSession s2)" "\<not> ended_status (js ''succeeded'')"
    using assms(6) st by (simp_all add: isActiveLoginSession_def active_status_def ended_status_def js_def)
  have v: "dr_step s2 = 3" "dr_result s2 = dr_result s" "dr_sourceKind s2 = Some SrcCpa" "dr_cpaEntryMode s2 = EntryLogin"
    "dr_finishing s2 = dr_finishing s"
    using c c2 assms(2-4) by (simp_all add: s2 t_def s1 g)
  then show ?thesis using na st by (simp add: footer_left_def footer_right_def Let_def)
qed

theorem polled_login_never_completes_witness:
  "let x = sample_session\<lparr>ls_status := js ''succeeded'', ls_account_id := Some 9\<rparr>;
       s2 = drawer_step id (drawer_step id drawer_polling (PollAnswered 0 (Inr x))) (PollRefreshed 0)
   in dr_step s2 = 3 \<and> dr_result s2 = None \<and> footer_left s2 = [BBack] \<and> footer_right s2 = []"
  using polled_login_never_completes [OF sample_runs polling_facts(1,2,4), of 0
      "sample_session\<lparr>ls_status := js ''succeeded'', ls_account_id := Some 9\<rparr>"] polling_facts
  by (auto simp: truthy_id_def Let_def)

text \<open>
  A late failure disarms the timer of the current run: the handler of a failed poll clears whatever
  timer is set, also when the poll belongs to an earlier run.
\<close>

lemma late_poll_failure_disarms:
  assumes "i < length (dr_fetching s)" and "disposed (dr_fetching s ! i) s"
  shows "dr_timer (drawer_step syn s (PollAnswered i (Inl f))) = None"
    "dr_loginSession (drawer_step syn s (PollAnswered i (Inl f))) = dr_loginSession s"
  using assms by (simp_all add: drawer_step_def poll_answered_def Let_def disposed_def)

text \<open>A poll that is answered after the login was cancelled brings the login and its polling back.\<close>

lemma late_poll_revives_cancelled_login:
  fixes syn :: "jstr \<Rightarrow> jstr"
  assumes "i < length (dr_fetching s)" and "dr_loginSession s = Some y" and "isActiveLoginSession (Some x)"
  defines "s1 \<equiv> drawer_step syn s (PressCancel (Inr ()))"
  defines "s2 \<equiv> drawer_step syn s1 (PollAnswered i (Inr x))"
  shows "session_status s1 = Some (js ''cancelled'') \<and> dr_loginSession s2 = Some x \<and> dr_timer s2 \<noteq> None"
proof -
  let ?a = "send (CancelSession (ls_id y)) s"
  let ?b = "toast c_aa_login_cancelled ((set_session (Some (y\<lparr>ls_status := js ''cancelled''\<rparr>))
      (clearStoredCpaSession (?a\<lparr>dr_timer := None\<rparr>)))\<lparr>dr_restoredSession := False, dr_loading := False\<rparr>)"
  have s1: "s1 = flush ?a ?b" using assms(2) by (simp add: s1_def drawer_step_def cancelCpaLogin_def Let_def)
  have c: "\<not> closes ?a ?b" by (rule closes_same_ui) (simp add: setter_defs)
  have l1: "dr_loginSession s1 = Some (y\<lparr>ls_status := js ''cancelled''\<rparr>)" "dr_fetching s1 = dr_fetching s"
    using c by (simp_all add: s1) (simp_all add: setter_defs)
  let ?t = "s1\<lparr>dr_fetching := drop_nth i (dr_fetching s)\<rparr>" and ?p = "dr_fetching s ! i"
  have s2: "s2 = flush ?t (poll_got ?p x ?t)"
    using assms(1) by (simp add: s2_def drawer_step_def poll_answered_def l1 Let_def)
  have g: "dr_ui (poll_got ?p x ?t) = dr_ui ?t" "dr_loginSession (poll_got ?p x ?t) = Some x"
    by (auto simp: poll_got_def poll_stored_def Let_def setter_defs split: option.split)
  have "\<not> closes ?t (poll_got ?p x ?t)" by (rule closes_same_ui) (rule g)
  then show ?thesis
    using flush_new_timer [of ?t "poll_got ?p x ?t" x] g assms(3) l1 by (auto simp: s2 session_status_def)
qed

section \<open>Submitting\<close>

definition pool_chosen :: "drawer \<Rightarrow> bool" where
  "pool_chosen c \<longleftrightarrow> dr_selectedPoolId c \<noteq> [] \<and> dr_selectedPoolId c \<noteq> NEW_POOL_VALUE"

lemma ensurePool_spec:
  "ensurePool answer c s =
     (if pool_chosen c then (Inr (read_int (dr_selectedPoolId c)), s)
      else if trim (dr_newPoolLabel c) = [] then (Inl (throw_error c_aa_need_pool_label), s)
      else case answer of
        Inl f \<Rightarrow> (Inl f, send (PostPool (trim (dr_newPoolLabel c)) (int (length (dr_pools c)) + 1)) s)
      | Inr created \<Rightarrow>
          (Inr (pool_id created),
           (set_pools (dr_pools s @ [created]) (send (PostPool (trim (dr_newPoolLabel c)) (int (length (dr_pools c)) + 1)) s))
             \<lparr>dr_selectedPoolId := show_int (pool_id created)\<rparr>))"
  by (auto simp: ensurePool_def pool_chosen_def Let_def send_def split: sum.split)

text \<open>The requests that follow once the pool is known.\<close>

definition account_requests :: "call_failure + account \<Rightarrow> direct_form \<Rightarrow> int \<Rightarrow> drawer_request list" where
  "account_requests a form n =
     PostAccount n form #
     (case a of Inl _ \<Rightarrow> [] | Inr created \<Rightarrow> if acc_id created = 0 then [] else [DiscoverModels (acc_id created)])"

lemma sent_setters [simp]:
  "dr_sent (toast m s) = dr_sent s" "dr_sent (send r s) = dr_sent s @ [r]" "dr_sent (set_pools ps s) = dr_sent s"
  "dr_sent (set_session x s) = dr_sent s" "dr_sent (set_flow f s) = dr_sent s"
  "dr_sent (clearStoredCpaSession s) = dr_sent s" "dr_sent (writeStoredCpaSession w s) = dr_sent s"
  by (simp_all add: setter_defs)

lemma submitDirect_sent:
  "dr_sent (submitDirect p a c) = dr_sent c @
     (if pool_chosen c then account_requests a (trimmed_form (dr_directForm c)) (read_int (dr_selectedPoolId c))
      else if trim (dr_newPoolLabel c) = [] then []
      else PostPool (trim (dr_newPoolLabel c)) (int (length (dr_pools c)) + 1) #
        (case p of Inl _ \<Rightarrow> []
         | Inr created \<Rightarrow> account_requests a (trimmed_form (dr_directForm c)) (pool_id created)))" (is ?sent)
  and submitDirect_step:
  "dr_step (submitDirect p a c) =
      (if (pool_chosen c \<or> trim (dr_newPoolLabel c) \<noteq> [] \<and> \<not> isl p) \<and> \<not> isl a then 4 else dr_step c)" (is ?step)
  and submitDirect_result:
  "(pool_chosen c \<or> trim (dr_newPoolLabel c) \<noteq> [] \<and> \<not> isl p) \<and> \<not> isl a \<longrightarrow>
      map_option re_poolId (dr_result (submitDirect p a c)) =
        Some (if pool_chosen c then read_int (dr_selectedPoolId c) else pool_id (projr p))" (is ?result)
proof -
  have c: "\<not> closes c (c\<lparr>dr_loading := True\<rparr>)"
    "\<not> closes c (send r (c\<lparr>dr_loading := True\<rparr>))"
    "\<not> closes c ((set_pools ps (send r (c\<lparr>dr_loading := True\<rparr>)))\<lparr>dr_selectedPoolId := v\<rparr>)" for r ps v
    by (rule closes_same_ui; simp add: setter_defs)+
  have st: "dr_step (toast m s) = dr_step s" "dr_step (send r s) = dr_step s" "dr_step (set_pools ps s) = dr_step s" for m r ps s
    by (simp_all add: setter_defs)
  show ?sent ?step ?result
    by (cases p; cases a;
      auto simp: submitDirect_def ensurePool_spec Let_def account_requests_def refreshAfterAccountCreate_def c st)+
qed

text \<open>
  C16: A direct account is posted once, into the right pool: the submission first creates the named pool
  if none is chosen, then posts the trimmed form to exactly that pool, then discovers the models of the
  new account; it stops at the first failure, and it shows the last step, with that pool, exactly when
  the account was created (for a drawer not already on the last step).
\<close>

theorem submitDirect_requests:
  "dr_sent (submitDirect p a c) = dr_sent c @
     (if pool_chosen c then account_requests a (trimmed_form (dr_directForm c)) (read_int (dr_selectedPoolId c))
      else if trim (dr_newPoolLabel c) = [] then []
      else PostPool (trim (dr_newPoolLabel c)) (int (length (dr_pools c)) + 1) #
        (case p of Inl _ \<Rightarrow> []
         | Inr created \<Rightarrow> account_requests a (trimmed_form (dr_directForm c)) (pool_id created))) \<and>
   (dr_step (submitDirect p a c) =
      (if (pool_chosen c \<or> trim (dr_newPoolLabel c) \<noteq> [] \<and> \<not> isl p) \<and> \<not> isl a then 4 else dr_step c)) \<and>
   ((pool_chosen c \<or> trim (dr_newPoolLabel c) \<noteq> [] \<and> \<not> isl p) \<and> \<not> isl a \<longrightarrow>
      map_option re_poolId (dr_result (submitDirect p a c)) =
        Some (if pool_chosen c then read_int (dr_selectedPoolId c) else pool_id (projr p)))"
  by (intro conjI submitDirect_sent submitDirect_step submitDirect_result)

theorem submitDirect_requests_witness:
  "map_option re_poolId (dr_result (submitDirect (Inl (throw_error [])) (Inr blank_account) (drawer0\<lparr>dr_selectedPoolId := show_int 5\<rparr>))) = Some 5"
proof -
  have "pool_chosen (drawer0\<lparr>dr_selectedPoolId := show_int 5\<rparr>)"
    by (simp add: pool_chosen_def show_int_def nat_digits.simps js_def)
  then show ?thesis
    using submitDirect_requests [of "Inl (throw_error [])" "Inr blank_account" "drawer0\<lparr>dr_selectedPoolId := show_int 5\<rparr>"] by simp
qed

lemma recommended_nonempty: "PROVIDER_POOL_RECOMMENDATION v = Some r \<Longrightarrow> r \<noteq> [] \<and> v \<noteq> []"
  by (auto simp: PROVIDER_POOL_RECOMMENDATION_def js_def split: if_splits)

text \<open>
  A failed submission forgets the pool it has just created. Creating the pool changes the pool list,
  whose effect recomputes the recommendation and overwrites the choice of the new pool: unless the new
  pool has the recommended name, the drawer asks for a new pool again, now with the recommended name,
  and the next submission creates a second one.
\<close>

theorem failed_submit_forgets_new_pool:
  fixes f :: call_failure
  assumes "dr_selectedPoolId c = NEW_POOL_VALUE" and "trim (dr_newPoolLabel c) \<noteq> []"
    and "PROVIDER_POOL_RECOMMENDATION (dr_provider c) = Some r" and "preferred_text c = []" and "\<not> dr_poolLoadFailed c"
    and "\<forall>p \<in> set (dr_pools c @ [created]). pool_label p \<noteq> r" and "trim r = r"
  defines "s \<equiv> submitDirect (Inr created) (Inl f) c"
  shows "dr_selectedPoolId s = NEW_POOL_VALUE \<and> dr_newPoolLabel s = r \<and>
    dr_sent (submitDirect (Inl g) a s) = dr_sent c @
      [PostPool (trim (dr_newPoolLabel c)) (int (length (dr_pools c)) + 1),
       PostAccount (pool_id created) (trimmed_form (dr_directForm c)),
       PostPool r (int (length (dr_pools c)) + 2)]"
proof -
  have r: "r \<noteq> []" "dr_provider c \<noteq> []" using recommended_nonempty [OF assms(3)] by simp_all
  have nc: "\<not> pool_chosen c" using assms(1) by (simp add: pool_chosen_def)
  have no: "find (\<lambda>p. pool_label p = r) (dr_pools c @ [created]) = None"
    using assms(6) by (auto simp: find_None_iff)
  define t where "t = (set_pools (dr_pools c @ [created])
      (send (PostPool (trim (dr_newPoolLabel c)) (int (length (dr_pools c)) + 1)) (c\<lparr>dr_loading := True\<rparr>)))
      \<lparr>dr_selectedPoolId := show_int (pool_id created)\<rparr>"
  have t: "dr_provider t = dr_provider c" "dr_ui t = dr_ui c" "dr_pools t = dr_pools c @ [created]" "dr_poolsV t = Suc (dr_poolsV c)"
      "dr_poolLoadFailed t = dr_poolLoadFailed c" "dr_sourceKind t = dr_sourceKind c" "dr_pollV t = dr_pollV c"
    by (simp_all add: t_def setter_defs)
  have p: "preferred_text t = []" using assms(4) by (simp add: preferred_text_def t)
  have "run_effects c t = recommend_effect t"
    by (simp add: run_effects_def run_open_effect_def run_recommend_effect_def run_prefill_effect_def t)
  moreover have "\<not> poll_deps_changed t (recommend_effect t)" "\<not> poll_deps_changed c t"
    by (simp_all add: poll_deps_changed_def t)
  ultimately have fl: "flush c t = t\<lparr>dr_selectedPoolId := NEW_POOL_VALUE, dr_newPoolLabel := r\<rparr>"
    using r p assms(3,5) no by (simp add: flush_def Let_def recommend_effect_def t)
  have s: "s = (toast (failure_text f c_aa_create_failed)
      (send (PostAccount (pool_id created) (trimmed_form (dr_directForm c))) (flush c t)))\<lparr>dr_loading := False\<rparr>"
    using nc assms(2) by (simp add: s_def submitDirect_def ensurePool_spec Let_def t_def)
  have v: "dr_selectedPoolId s = NEW_POOL_VALUE" "dr_newPoolLabel s = r" "dr_pools s = dr_pools c @ [created]"
    "dr_sent s = dr_sent c @ [PostPool (trim (dr_newPoolLabel c)) (int (length (dr_pools c)) + 1),
       PostAccount (pool_id created) (trimmed_form (dr_directForm c))]"
    by (simp_all add: s fl) (simp_all add: t_def setter_defs)
  moreover have "\<not> pool_chosen s" using v by (simp add: pool_chosen_def)
  ultimately show ?thesis
    using submitDirect_sent [of "Inl g" a s] r(1) assms(7) by simp
qed

text \<open>A drawer whose recommended pool does not exist: the provider is OpenAI and the user names another pool.\<close>

definition drawer_naming :: drawer where
  "drawer_naming = drawer0\<lparr>dr_provider := js ''openai'', dr_selectedPoolId := NEW_POOL_VALUE,
     dr_newPoolLabel := js ''mine'', dr_poolLoadFailed := False\<rparr>"

definition pool_mine :: pool where
  "pool_mine = \<lparr>pool_id = 7, pool_label = js ''mine'', pool_priority = 0, pool_enabled = True,
     routing_policy = [], account_count = 0, healthy_account_count = 0, routable_account_count = 0,
     pool_models = [], pool_created_at = [], pool_updated_at = []\<rparr>"

theorem failed_submit_forgets_new_pool_witness:
  "dr_sent (submitDirect (Inl (throw_error [])) (Inl (throw_error []))
       (submitDirect (Inr pool_mine) (Inl (throw_error [])) drawer_naming)) =
     [PostPool (js ''mine'') 1, PostAccount 7 (trimmed_form EMPTY_DIRECT_FORM), PostPool (js ''OpenAI'') 2]"
proof -
  have d: "dr_selectedPoolId drawer_naming = NEW_POOL_VALUE" "dr_newPoolLabel drawer_naming = js ''mine''"
    "dr_provider drawer_naming = js ''openai''" "\<not> dr_poolLoadFailed drawer_naming" "dr_pools drawer_naming = []"
    "dr_sent drawer_naming = []" "dr_directForm drawer_naming = EMPTY_DIRECT_FORM" "preferred_text drawer_naming = []"
    by (simp_all add: drawer_naming_def drawer0_def drawer_initial_def preferred_text_def admin_ui_init_def)
  have t: "trim (js ''mine'') = js ''mine''" "trim (js ''OpenAI'') = js ''OpenAI''"
    by (rule trim_id; simp add: js_def is_js_space_def)+
  have "PROVIDER_POOL_RECOMMENDATION (js ''openai'') = Some (js ''OpenAI'')"
    by (simp add: PROVIDER_POOL_RECOMMENDATION_def js_def)
  moreover have "js ''mine'' \<noteq> js ''OpenAI''" "js ''mine'' \<noteq> []" by (simp_all add: js_def)
  ultimately show ?thesis
    using failed_submit_forgets_new_pool [of drawer_naming "js ''OpenAI''" pool_mine "throw_error []" "throw_error []" "Inl (throw_error [])"]
    by (simp add: d t pool_mine_def)
qed

end
