(* ===== verification/SelfCheck.thy ===== *)
theory SelfCheck
  imports AdminTypes Copy JsCollections JsNumber Json
begin

text \<open>
  The self check of \<^verbatim>\<open>web/src/pages/PoolDetailPage.tsx\<close>, less the page's state: which model an account is
  probed with (\<open>latestModel\<close>), the requests of a probe, the verdict over the answers and the report. The
  answers of the gateway are arguments. Model scores are exact rationals.
\<close>

section \<open>The newest model\<close>

text \<open>The first position at which a pattern matches.\<close>

fun first_match :: "(jstr \<Rightarrow> 'a option) \<Rightarrow> jstr \<Rightarrow> 'a option" where
  "first_match f [] = f []"
| "first_match f (c # cs) = (case f (c # cs) of Some x \<Rightarrow> Some x | None \<Rightarrow> first_match f cs)"

text \<open>\<open>gpt-?(\d+(?:\.\d+)?)\<close> at the head of a text, its group.\<close>

definition version_group :: "jstr \<Rightarrow> jstr option" where
  "version_group s =
     (let ip = takeWhile is_digit s; r = dropWhile is_digit s;
          fp = (if r \<noteq> [] \<and> hd r = 46 then takeWhile is_digit (tl r) else [])
      in if ip = [] then None else if fp = [] then Some ip else Some (ip @ 46 # fp))"

definition family_group :: "jstr \<Rightarrow> jstr option" where
  "family_group s =
     (if startsWith s (js ''gpt'') then
        (let r = drop 3 s in version_group (if r \<noteq> [] \<and> hd r = 45 then tl r else r))
      else None)"

text \<open>\<open>(\d{4})[-_]?(\d{2})[-_]?(\d{2})(?:$|[-_])\<close> at the head of a text, its groups joined.\<close>

definition is_sep :: "nat \<Rightarrow> bool" where
  "is_sep c \<longleftrightarrow> c = 45 \<or> c = 95"

definition skip_sep :: "jstr \<Rightarrow> jstr" where
  "skip_sep s = (if s \<noteq> [] \<and> is_sep (hd s) then tl s else s)"

definition take_digits :: "nat \<Rightarrow> jstr \<Rightarrow> (jstr \<times> jstr) option" where
  "take_digits n s = (if n \<le> length s \<and> list_all is_digit (take n s) then Some (take n s, drop n s) else None)"

definition date_group :: "jstr \<Rightarrow> jstr option" where
  "date_group s =
     (case take_digits 4 s of
        None \<Rightarrow> None
      | Some (y, r1) \<Rightarrow>
          (case take_digits 2 (skip_sep r1) of
             None \<Rightarrow> None
           | Some (m, r2) \<Rightarrow>
               (case take_digits 2 (skip_sep r2) of
                  None \<Rightarrow> None
                | Some (d, r3) \<Rightarrow> if r3 = [] \<or> is_sep (hd r3) then Some (y @ m @ d) else None)))"

definition date_match :: "jstr \<Rightarrow> jstr option" where
  "date_match s =
     (case date_group s of
        Some d \<Rightarrow> Some d
      | None \<Rightarrow> first_match (\<lambda>t. if t \<noteq> [] \<and> is_sep (hd t) then date_group (tl t) else None) s)"

definition group_value :: "jstr option \<Rightarrow> rat" where
  "group_value g = (case g of None \<Rightarrow> 0 | Some d \<Rightarrow> nullish (decimal_value d) 0)"

definition scoreModel :: "jstr \<Rightarrow> rat" where
  "scoreModel model =
     (let normalized = toLowerCase model;
          family = group_value (first_match family_group normalized) * 1000;
          codexBonus = (if str_includes normalized (js ''codex'') then 120 else 0);
          dateScore = group_value (date_match normalized) / 100000
      in family + codexBonus + dateScore)"

text \<open>\<open>Array.from(new Set(xs))\<close> keeps the first of equal values.\<close>

definition unique_values :: "'a list \<Rightarrow> 'a list" where
  "unique_values xs = rev (remdups (rev xs))"

text \<open>
  The comparison puts the higher score first and, of equal scores, the later index: a stable sort of the
  reversed list.
\<close>

definition latestModel :: "jstr list \<Rightarrow> jstr" where
  "latestModel models =
     (let unique = unique_values (filter (\<lambda>m. m \<noteq> []) models) in
      if unique = [] then js ''gpt-5.5'' else hd (sort_desc scoreModel (rev unique)))"

section \<open>Targets\<close>

definition defaultPoolModel :: jstr where
  "defaultPoolModel = js ''gpt-5.5''"

definition target_models :: "pool_member \<Rightarrow> jstr list" where
  "target_models m =
     (let accountModels = (case member_account m of None \<Rightarrow> [] | Some a \<Rightarrow> nullish (acc_models a) []);
          configured = (case member_account m of None \<Rightarrow> [] | Some a \<Rightarrow> probe_models a);
          fallback = latestModel (if accountModels \<noteq> [] then accountModels else [defaultPoolModel])
      in if configured \<noteq> [] then configured else if fallback \<noteq> [] then [fallback] else [])"

definition check_targets :: "pool_member list \<Rightarrow> (pool_member \<times> jstr list) list" where
  "check_targets ms = filter (\<lambda>t. snd t \<noteq> []) (map (\<lambda>m. (m, target_models m)) ms)"

section \<open>Probing\<close>

text \<open>One request to the gateway, past the admin API.\<close>

record probe_request =
  pr_authorization :: jstr
  pr_account_id :: jstr
  pr_probe_mode :: jstr
  pr_body :: jstr

definition probe_call :: "jstr \<Rightarrow> pool_member \<Rightarrow> jstr \<Rightarrow> probe_request" where
  "probe_call token m model =
     \<lparr>pr_authorization = js ''Bearer '' @ token, pr_account_id = show_int (member_account_id m),
      pr_probe_mode = js ''stateful'',
      pr_body = json_stringify (JObj
        [(js ''model'', JStr model),
         (js ''messages'', JArr [JObj [(js ''role'', JStr (js ''user'')),
            (js ''content'', JStr c_pd_self_check_message)]]),
         (js ''stream'', JBool False)])\<rparr>"

text \<open>
  What came back: a good status; another status with the text of its body, if that could be read; or an
  exception (the abort after the timeout included) with its message, if it is an \<open>Error\<close>.
\<close>

datatype probe_answer = ProbeOk | ProbeStatus int "jstr option" | ProbeThrown "jstr option"

definition attempt_error :: "probe_answer \<Rightarrow> jstr option" where
  "attempt_error a =
     (case a of
        ProbeOk \<Rightarrow> None
      | ProbeStatus code body \<Rightarrow>
          Some (if or_str body [] \<noteq> [] then slice 0 240 (or_str body []) else js ''HTTP '' @ show_int code)
      | ProbeThrown msg \<Rightarrow> Some (nullish msg (js ''request failed'')))"

text \<open>The attempts of one account, each model with its answer, and what is stored about them.\<close>

definition probe_passed :: "(jstr \<times> probe_answer) list \<Rightarrow> bool" where
  "probe_passed attempts \<longleftrightarrow> find (\<lambda>a. attempt_error (snd a) = None) attempts \<noteq> None"

definition probe_status :: "(jstr \<times> probe_answer) list \<Rightarrow> jstr" where
  "probe_status attempts = (if probe_passed attempts then js ''healthy'' else js ''error'')"

definition probe_last_error :: "(jstr \<times> probe_answer) list \<Rightarrow> jstr" where
  "probe_last_error attempts =
     (if probe_passed attempts then []
      else join_with (js '' | '')
        (map (\<lambda>a. fst a @ js '': '' @ or_str (attempt_error (snd a)) (js ''failed''))
          (filter (\<lambda>a. attempt_error (snd a) \<noteq> None) attempts)))"

definition check_report :: "bool list \<Rightarrow> jstr" where
  "check_report results =
     (let successCount = length (filter id results); failCount = length results - successCount;
          ratio = show_int (int successCount) @ js ''/'' @ show_int (int (length results))
      in if failCount = 0 then c_pd_check_passed @ ratio @ c_pd_check_paren
         else c_pd_check_done @ ratio @ c_pd_check_success @ show_int (int failCount) @ c_pd_check_failed)"

section \<open>Lemmas\<close>

lemma set_unique_values [simp]: "set (unique_values xs) = set xs"
  by (simp add: unique_values_def)

lemma unique_values_eq_Nil [simp]: "unique_values xs = [] \<longleftrightarrow> xs = []"
  by (metis set_empty set_unique_values)

text \<open>
  The probed model is the best one: a named model of the account such that no other scores higher,
  and the built-in default exactly if the account names none.
\<close>

theorem latestModel_best:
  "if \<exists>m. m \<in> set models \<and> m \<noteq> []
   then latestModel models \<in> set models \<and> latestModel models \<noteq> [] \<and>
     (\<forall>m. m \<in> set models \<and> m \<noteq> [] \<longrightarrow> scoreModel m \<le> scoreModel (latestModel models))
   else latestModel models = js ''gpt-5.5''"
proof (cases "filter (\<lambda>m. m \<noteq> []) models = []")
  case True
  then show ?thesis by (auto simp: latestModel_def filter_empty_conv)
next
  case False
  then have "rev (unique_values (filter (\<lambda>m. m \<noteq> []) models)) \<noteq> []" by simp
  from sd.hd_srt_max [OF this, of scoreModel] False show ?thesis
    by (auto simp: latestModel_def Let_def filter_empty_conv)
qed

lemma latestModel_nonempty: "latestModel models \<noteq> []"
  using latestModel_best [of models] by (auto simp: js_def split: if_splits)

text \<open>
  Every member is probed, each with at least one model: the filter for members without a model and the
  message for a pool without targets are never reached.
\<close>

theorem check_targets_complete:
  "map fst (check_targets ms) = ms \<and> (\<forall>m models. (m, models) \<in> set (check_targets ms) \<longrightarrow> models \<noteq> [])"
proof -
  have "target_models m \<noteq> []" for m by (simp add: target_models_def Let_def latestModel_nonempty)
  then show ?thesis by (auto simp: check_targets_def comp_def)
qed

text \<open>
  The fallback prefers the Codex model, which the comment beside the targets says is rejected for such
  accounts: of the two models of a new Codex account the plain chat model scores lower.
\<close>

theorem codex_model_preferred:
  "latestModel [js ''gpt-5-codex'', js ''gpt-5''] = js ''gpt-5-codex''"
proof -
  have "scoreModel (js ''gpt-5-codex'') = 5120" "scoreModel (js ''gpt-5'') = 5000"
    by (simp_all add: scoreModel_def toLowerCase_def lower_unit_def js_def family_group_def version_group_def is_digit_def
        startsWith_def group_value_def decimal_value_def exponent_part_def digits_val_def pow10_def nullish_def
        date_match_def date_group_def take_digits_def is_sep_def Let_def)
  then show ?thesis
    by (simp add: latestModel_def unique_values_def js_def sort_desc_def)
qed

lemma probe_passed_iff: "probe_passed attempts \<longleftrightarrow> ProbeOk \<in> snd ` set attempts"
proof -
  have "attempt_error a = None \<longleftrightarrow> a = ProbeOk" for a by (cases a) (simp_all add: attempt_error_def)
  then show ?thesis by (force simp: probe_passed_def find_None_iff)
qed

end
