(* ===== verification/PoolDetail.thy ===== *)
theory PoolDetail
  imports SelfCheck Router DragSort Requests
begin

text \<open>
  The page of one pool, \<^verbatim>\<open>web/src/pages/PoolDetailPage.tsx\<close>: its loads, the token it reveals, the handlers
  of the member cards, the self check and the dialog of the pool's settings.

  The state is the page's React state and refs, with the router and the shared interface state it
  reads. A handler runs to its first \<open>await\<close>; what follows is an event of its own, so that other events
  come between: a load is answered by its number, a request of a handler by its place among the pending
  ones, a revealed token by its id. \<open>pd_flush\<close> runs the effects of the render after an event. The page
  component lives as long as the address is that of a pool, whichever pool it is.
\<close>

section \<open>State\<close>

datatype flash = FlashSuccess | FlashError

record account_stats =
  st_requests :: int
  st_successRate :: "rat option"
  st_inputTokens :: int
  st_outputTokens :: int

datatype pool_request =
    GetPoolDetail int
  | RevealToken int
  | PutReorder jsnum "int list"
  | PutMember jsnum int bool
  | PutPool jsnum jstr int bool jstr
  | PostDiscover int
  | DeleteAccountRequest int
  | ProbeRequest probe_request
  | ProbeResult int jstr jstr
  | PostPoolStatus int bool
  | DeletePoolRequest int
  | GetPools

text \<open>What waits for the answer of a request, with what its closure holds.\<close>

datatype pending =
    PReorder
  | PToggle bool
  | PPolicy jsnum jstr
  | PCrossEnable jsnum bool "int list"
  | PCrossReorder bool
  | PRefresh pool_member
  | PDelete

text \<open>Who waits for a token: the effect that reveals it (its run), a handler, or the account sheet.\<close>

datatype waiter = WAuto nat | WSetup | WCheck "pool_member list" | WSheet

record check_run =
  ck_token :: jstr
  ck_left :: "(pool_member \<times> jstr list) list"
  ck_results :: "bool list"

text \<open>The answer of \<open>discover-models\<close>; an absent flag is falsy, an absent error is empty.\<close>

record refresh_result =
  rr_quota_refreshed :: bool
  rr_quota_pending :: bool
  rr_quota_error :: jstr
  rr_subscription_refreshed :: bool
  rr_subscription_pending :: bool
  rr_subscription_error :: jstr

record pool_page =
  pd_router :: router_state
  pd_ui :: admin_ui
  pd_detail :: "pool_detail_response option"
  pd_loading :: bool
  pd_error :: "jstr option"
  pd_deleteTarget :: "pool_member option"
  pd_detailMemberId :: "int option"
  pd_connectTokenValue :: "jstr option"
  pd_revealedTokenCache :: "(int, jstr) jmap"
  pd_setupOpen :: bool
  pd_dialogToken :: jstr
  pd_selfChecking :: bool
  pd_flashMap :: "(int, flash option) jmap"
  pd_refreshingAccountIds :: "int list"
  pd_routingPolicySaving :: bool
  pd_settingsOpen :: bool
  pd_loadSeq :: nat
  pd_hasLoaded :: bool
  pd_flashTimers :: "int list"
  pd_refreshingRef :: "int list"
  pd_revealInFlight :: "int list"
  pd_waiting :: "(int \<times> waiter) list"
  pd_autoRun :: nat
  pd_pending :: "pending list"
  pd_leaving :: "int list"
  pd_check :: "check_run option"
  pd_loads :: "int list"
  pd_toasts :: "jstr list"
  pd_sent :: "pool_request list"

text \<open>\<open>pd_loads\<close> is a history variable: the pool that load number \<open>n + 1\<close> asked for is its \<open>n\<close>-th item.\<close>

definition pd_toast :: "jstr \<Rightarrow> pool_page \<Rightarrow> pool_page" where
  "pd_toast m s = s\<lparr>pd_toasts := pd_toasts s @ [m]\<rparr>"

definition pd_send :: "pool_request \<Rightarrow> pool_page \<Rightarrow> pool_page" where
  "pd_send r s = s\<lparr>pd_sent := pd_sent s @ [r]\<rparr>"

definition pd_refresh :: "pool_page \<Rightarrow> pool_page" where
  "pd_refresh s = s\<lparr>pd_ui := refreshData (pd_ui s)\<rparr>"

definition pd_wait :: "pending \<Rightarrow> pool_page \<Rightarrow> pool_page" where
  "pd_wait p s = s\<lparr>pd_pending := pd_pending s @ [p]\<rparr>"

section \<open>What the page derives from its state\<close>

definition page_pool_id :: "jstr \<Rightarrow> jsnum" where
  "page_pool_id path =
     (case matchPath (js ''/admin/pools/:id'') path of
        Inr (Some params) \<Rightarrow>
          (case map_get params (js ''id'') of Some v \<Rightarrow> string_to_number v | None \<Rightarrow> NaN)
      | _ \<Rightarrow> NaN)"

definition pd_poolId :: "pool_page \<Rightarrow> jsnum" where
  "pd_poolId s = page_pool_id (pathname (pd_router s))"

text \<open>\<open>hasValidPoolId\<close>, with the number.\<close>

definition valid_pool_id :: "jsnum \<Rightarrow> int option" where
  "valid_pool_id n =
     (case n of Num r \<Rightarrow> if of_int \<lfloor>r\<rfloor> = r \<and> r > 0 then Some \<lfloor>r\<rfloor> else None | _ \<Rightarrow> None)"

definition pd_members :: "pool_page \<Rightarrow> pool_member list" where
  "pd_members s = (case pd_detail s of None \<Rightarrow> [] | Some d \<Rightarrow> nullish (detail_members d) [])"

definition poolTokens :: "pool_page \<Rightarrow> access_token list" where
  "poolTokens s = (case pd_detail s of None \<Rightarrow> [] | Some d \<Rightarrow> detail_tokens d)"

definition primaryPoolTokenId :: "pool_page \<Rightarrow> int option" where
  "primaryPoolTokenId s = (case poolTokens s of [] \<Rightarrow> None | t # _ \<Rightarrow> Some (token_id t))"

definition poolTokenCacheKey :: "pool_page \<Rightarrow> jstr" where
  "poolTokenCacheKey s = join_with (js ''|'') (map (\<lambda>t. show_int (token_id t)) (poolTokens s))"

definition stats_entry :: "usage_by_account \<Rightarrow> account_stats" where
  "stats_entry row =
     \<lparr>st_requests = by_account_requests row,
      st_successRate = (if by_account_requests row > 0 then Some (by_account_success_rate row) else None),
      st_inputTokens = by_account_input_tokens row, st_outputTokens = by_account_output_tokens row\<rparr>"

definition accountStatsMap :: "pool_page \<Rightarrow> (int, account_stats) jmap" where
  "accountStatsMap s =
     foldl (\<lambda>m row. map_set (by_account_id row) (stats_entry row) m) []
       (case pd_detail s of None \<Rightarrow> [] | Some d \<Rightarrow> by_account (detail_stats d))"

definition pd_enabledMembers :: "pool_page \<Rightarrow> pool_member list" where
  "pd_enabledMembers s = filter member_enabled (pd_members s)"

definition priorityIndexMap :: "pool_page \<Rightarrow> (int, nat) jmap" where
  "priorityIndexMap s =
     foldl (\<lambda>m (i, x). map_set (member_id x) (i + 1) m) [] (enumerate 0 (pd_enabledMembers s))"

definition detailMember :: "pool_page \<Rightarrow> pool_member option" where
  "detailMember s =
     (case pd_detailMemberId s of
        None \<Rightarrow> None
      | Some i \<Rightarrow> find (\<lambda>m. member_id m = i) (pd_members s))"

definition no_stats :: account_stats where
  "no_stats = \<lparr>st_requests = 0, st_successRate = None, st_inputTokens = 0, st_outputTokens = 0\<rparr>"

definition detailMemberStats :: "pool_page \<Rightarrow> account_stats" where
  "detailMemberStats s =
     (case detailMember s of
        None \<Rightarrow> no_stats
      | Some m \<Rightarrow> nullish (map_get (accountStatsMap s) (member_account_id m)) no_stats)"

definition detailPriorityIndex :: "pool_page \<Rightarrow> nat option" where
  "detailPriorityIndex s =
     (case detailMember s of None \<Rightarrow> None | Some m \<Rightarrow> map_get (priorityIndexMap s) (member_id m))"

definition cached_token :: "pool_page \<Rightarrow> int \<Rightarrow> jstr option" where
  "cached_token s t =
     (case map_get (pd_revealedTokenCache s) t of
        Some v \<Rightarrow> if v = [] then None else Some v
      | None \<Rightarrow> None)"

definition primaryTokenDisplay :: "pool_page \<Rightarrow> jstr" where
  "primaryTokenDisplay s =
     (case poolTokens s of
        [] \<Rightarrow> c_pd_no_token
      | t # _ \<Rightarrow>
          nullish (if token_id t \<noteq> 0 then map_get (pd_revealedTokenCache s) (token_id t) else None) (token_masked t))"

text \<open>What is on the screen.\<close>

datatype pool_view = ShowSkeleton | ShowError jstr | ShowPool pool_detail_response

definition pool_view_of :: "pool_page \<Rightarrow> pool_view" where
  "pool_view_of s =
     (if pd_loading s then ShowSkeleton
      else case pd_error s of
        Some m \<Rightarrow> if m \<noteq> [] then ShowError m else
          (case pd_detail s of None \<Rightarrow> ShowError c_pd_gone | Some d \<Rightarrow> ShowPool d)
      | None \<Rightarrow> (case pd_detail s of None \<Rightarrow> ShowError c_pd_gone | Some d \<Rightarrow> ShowPool d))"

section \<open>Loading\<close>

text \<open>\<open>load\<close> of the render whose pool number is \<open>n\<close>: a handler that awaits keeps the one it started with.\<close>

definition pd_load :: "jsnum \<Rightarrow> pool_page \<Rightarrow> pool_page" where
  "pd_load n s =
     (case valid_pool_id n of
        None \<Rightarrow> s\<lparr>pd_loading := False, pd_error := Some c_pd_invalid\<rparr>
      | Some k \<Rightarrow>
          pd_send (GetPoolDetail k)
            (s\<lparr>pd_loadSeq := Suc (pd_loadSeq s), pd_loads := pd_loads s @ [k],
               pd_loading := (if pd_hasLoaded s then pd_loading s else True), pd_error := None\<rparr>))"

definition load_answered :: "nat \<Rightarrow> call_failure + pool_detail_response \<Rightarrow> pool_page \<Rightarrow> pool_page" where
  "load_answered seq answer s =
     (if seq \<noteq> pd_loadSeq s then s
      else case answer of
        Inr d \<Rightarrow> s\<lparr>pd_hasLoaded := True, pd_detail := Some d, pd_loading := False\<rparr>
      | Inl f \<Rightarrow> s\<lparr>pd_error := Some (failure_text f c_pd_load_failed), pd_loading := False\<rparr>)"

section \<open>Flashes\<close>

text \<open>A timer is armed for at most one flash of a member; \<open>pd_flashTimers\<close> lists the members that have one.\<close>

definition setFlash :: "int \<Rightarrow> flash option \<Rightarrow> pool_page \<Rightarrow> pool_page" where
  "setFlash i st s =
     s\<lparr>pd_flashMap := map_set i st (pd_flashMap s),
       pd_flashTimers := filter (\<lambda>j. j \<noteq> i) (pd_flashTimers s) @ (if st = None then [] else [i])\<rparr>"

definition flash_timeout :: "int \<Rightarrow> pool_page \<Rightarrow> pool_page" where
  "flash_timeout i s =
     (if i \<in> set (pd_flashTimers s) then
        s\<lparr>pd_flashMap := filter (\<lambda>e. fst e \<noteq> i) (pd_flashMap s),
          pd_flashTimers := filter (\<lambda>j. j \<noteq> i) (pd_flashTimers s)\<rparr>
      else s)"

section \<open>The self check\<close>

definition end_check :: "pool_page \<Rightarrow> pool_page" where
  "end_check s = s\<lparr>pd_selfChecking := False, pd_check := None\<rparr>"

text \<open>\<open>runSelfCheck\<close> once it has a token; \<open>ms\<close> are the enabled members of the render it was started in.\<close>

definition begin_check :: "pool_member list \<Rightarrow> jstr \<Rightarrow> pool_page \<Rightarrow> pool_page" where
  "begin_check ms token s =
     (if token = [] then end_check (pd_toast c_pd_check_no_token s)
      else
        (let targets = check_targets ms in
         if targets = [] then end_check (pd_toast c_pd_check_no_model s)
         else
           s\<lparr>pd_flashMap := foldl (\<lambda>m t. map_set (member_id (fst t)) None m) [] targets,
             pd_check := Some \<lparr>ck_token = token, ck_left = targets, ck_results = []\<rparr>,
             pd_sent := pd_sent s @
               concat (map (\<lambda>t. map (\<lambda>model. ProbeRequest (probe_call token (fst t) model)) (snd t)) targets)\<rparr>))"

text \<open>All attempts of the target at place \<open>i\<close> have ended; the last target closes the check.\<close>

definition finish_check :: "bool list \<Rightarrow> pool_page \<Rightarrow> pool_page" where
  "finish_check results s = end_check (pd_toast (check_report results) (pd_refresh s))"

definition probed :: "nat \<Rightarrow> probe_answer list \<Rightarrow> pool_page \<Rightarrow> pool_page" where
  "probed i answers s =
     (case pd_check s of
        None \<Rightarrow> s
      | Some run \<Rightarrow>
          if i \<ge> length (ck_left run) then s
          else
            (let (m, models) = ck_left run ! i; attempts = zip models answers; ok = probe_passed attempts;
                 left = take i (ck_left run) @ drop (Suc i) (ck_left run);
                 results = ck_results run @ [ok];
                 s1 = pd_send (ProbeResult (member_account_id m) (probe_status attempts) (probe_last_error attempts))
                        (setFlash (member_id m) (Some (if ok then FlashSuccess else FlashError)) s);
                 s2 = s1\<lparr>pd_check := Some (run\<lparr>ck_left := left, ck_results := results\<rparr>)\<rparr>
             in if left = [] then finish_check results s2 else s2))"

section \<open>The pool token\<close>

definition setup_with :: "jstr \<Rightarrow> pool_page \<Rightarrow> pool_page" where
  "setup_with token s =
     (if token = [] then pd_toast c_pd_setup_no_token s else s\<lparr>pd_dialogToken := token, pd_setupOpen := True\<rparr>)"

text \<open>The caller of \<open>getTokenForConnect\<close> goes on.\<close>

definition resume :: "waiter \<Rightarrow> jstr \<Rightarrow> pool_page \<Rightarrow> pool_page" where
  "resume w token s =
     (case w of
        WSetup \<Rightarrow> setup_with token s
      | WCheck ms \<Rightarrow> begin_check ms token s
      | _ \<Rightarrow> s)"

definition reveal :: "int \<Rightarrow> waiter \<Rightarrow> pool_page \<Rightarrow> pool_page" where
  "reveal t w s =
     (let s1 = s\<lparr>pd_waiting := pd_waiting s @ [(t, w)]\<rparr> in
      if t \<in> set (pd_revealInFlight s) then s1
      else pd_send (RevealToken t) (s1\<lparr>pd_revealInFlight := pd_revealInFlight s @ [t]\<rparr>))"

definition getTokenForConnect :: "waiter \<Rightarrow> pool_page \<Rightarrow> pool_page" where
  "getTokenForConnect w s =
     (if or_str (pd_connectTokenValue s) [] \<noteq> [] then resume w (or_str (pd_connectTokenValue s) []) s
      else case primaryPoolTokenId s of
        None \<Rightarrow> resume w [] s
      | Some t \<Rightarrow>
          if t = 0 then resume w [] s
          else (case cached_token s t of
                  Some v \<Rightarrow> resume w v (s\<lparr>pd_connectTokenValue := Some v\<rparr>)
                | None \<Rightarrow> reveal t w s))"

text \<open>One caller of a reveal that was answered.\<close>

definition settle :: "call_failure + jstr \<Rightarrow> pool_page \<Rightarrow> waiter \<Rightarrow> pool_page" where
  "settle answer s w =
     (case answer of
        Inr v \<Rightarrow> (case w of WAuto _ \<Rightarrow> s | _ \<Rightarrow> resume w v (s\<lparr>pd_connectTokenValue := Some v\<rparr>))
      | Inl f \<Rightarrow>
          (case w of
             WAuto n \<Rightarrow> if n = pd_autoRun s then pd_toast (failure_text f c_pd_reveal_failed) s else s
           | WSetup \<Rightarrow> pd_toast (failure_text f c_pd_reveal_failed) s
           | WCheck ms \<Rightarrow> begin_check ms [] s
           | WSheet \<Rightarrow> s))"

definition reveal_answered :: "int \<Rightarrow> call_failure + jstr \<Rightarrow> pool_page \<Rightarrow> pool_page" where
  "reveal_answered t answer s =
     (if t \<notin> set (pd_revealInFlight s) then s
      else
        (let callers = map snd (filter (\<lambda>x. fst x = t) (pd_waiting s));
             s1 = s\<lparr>pd_revealInFlight := filter (\<lambda>u. u \<noteq> t) (pd_revealInFlight s),
                    pd_waiting := filter (\<lambda>x. fst x \<noteq> t) (pd_waiting s),
                    pd_revealedTokenCache :=
                      (case answer of Inr v \<Rightarrow> map_set t v (pd_revealedTokenCache s)
                       | Inl _ \<Rightarrow> pd_revealedTokenCache s)\<rparr>
         in foldl (settle answer) s1 callers))"

section \<open>Effects\<close>

definition auto_reveal :: "pool_page \<Rightarrow> pool_page" where
  "auto_reveal s0 =
     (let s = s0\<lparr>pd_autoRun := Suc (pd_autoRun s0)\<rparr> in
      case primaryPoolTokenId s of
        None \<Rightarrow> s
      | Some t \<Rightarrow>
          if t = 0 then s
          else if cached_token s t \<noteq> None then s
          else reveal t (WAuto (pd_autoRun s)) s)"

definition forget_pool :: "pool_page \<Rightarrow> pool_page" where
  "forget_pool s = s\<lparr>pd_hasLoaded := False, pd_refreshingRef := [], pd_refreshingAccountIds := []\<rparr>"

definition pd_flush :: "pool_page \<Rightarrow> pool_page \<Rightarrow> pool_page" where
  "pd_flush old s =
     (let moved = (pd_poolId old \<noteq> pd_poolId s);
          s1 = (if moved then forget_pool s else s);
          s2 = (if moved \<or> dataVersion (pd_ui old) \<noteq> dataVersion (pd_ui s) then pd_load (pd_poolId s) s1 else s1);
          s3 = (if poolTokenCacheKey old \<noteq> poolTokenCacheKey s then s2\<lparr>pd_connectTokenValue := None\<rparr> else s2)
      in if primaryPoolTokenId old \<noteq> primaryPoolTokenId s then auto_reveal s3 else s3)"

section \<open>Handlers of the members\<close>

definition reorderMembers :: "int list \<Rightarrow> pool_page \<Rightarrow> pool_page" where
  "reorderMembers ids s = pd_wait PReorder (pd_send (PutReorder (pd_poolId s) ids) s)"

definition toggleMember :: "pool_member \<Rightarrow> bool \<Rightarrow> pool_page \<Rightarrow> pool_page" where
  "toggleMember m enabled s = pd_wait (PToggle enabled) (pd_send (PutMember (pd_poolId s) (member_id m) enabled) s)"

definition handleCrossZoneMove :: "pool_member \<Rightarrow> bool \<Rightarrow> int list \<Rightarrow> pool_page \<Rightarrow> pool_page" where
  "handleCrossZoneMove m enabled ids s =
     pd_wait (PCrossEnable (pd_poolId s) enabled ids) (pd_send (PutMember (pd_poolId s) (member_id m) enabled) s)"

definition toggleRoutingPolicy :: "pool_page \<Rightarrow> pool_page" where
  "toggleRoutingPolicy s =
     (case pd_detail s of
        None \<Rightarrow> s
      | Some d \<Rightarrow>
          if pd_routingPolicySaving s then s
          else
            (let p = detail_pool d;
                 next = (if routing_policy p = js ''ordered'' then js ''health_first'' else js ''ordered'')
             in pd_wait (PPolicy (pd_poolId s) next)
                  (pd_send (PutPool (pd_poolId s) (pool_label p) (pool_priority p) (pool_enabled p) next)
                    (s\<lparr>pd_routingPolicySaving := True\<rparr>))))"

definition add_id :: "int \<Rightarrow> int list \<Rightarrow> int list" where
  "add_id i xs = (if i \<in> set xs then xs else xs @ [i])"

definition drop_id :: "int \<Rightarrow> int list \<Rightarrow> int list" where
  "drop_id i xs = filter (\<lambda>j. j \<noteq> i) xs"

definition refreshAccount :: "pool_member \<Rightarrow> pool_page \<Rightarrow> pool_page" where
  "refreshAccount m s =
     (if member_account_id m \<in> set (pd_refreshingRef s) then s
      else
        pd_wait (PRefresh m) (pd_send (PostDiscover (member_account_id m))
          (s\<lparr>pd_refreshingRef := add_id (member_account_id m) (pd_refreshingRef s),
             pd_refreshingAccountIds := add_id (member_account_id m) (pd_refreshingAccountIds s)\<rparr>)))"

definition deleteAccount :: "pool_page \<Rightarrow> pool_page" where
  "deleteAccount s =
     (case pd_deleteTarget s of
        None \<Rightarrow> s
      | Some m \<Rightarrow> pd_wait PDelete (pd_send (DeleteAccountRequest (member_account_id m)) s))"

definition runSelfCheck :: "pool_page \<Rightarrow> pool_page" where
  "runSelfCheck s =
     (if pd_selfChecking s \<or> pd_enabledMembers s = [] then s
      else getTokenForConnect (WCheck (pd_enabledMembers s)) (s\<lparr>pd_selfChecking := True\<rparr>))"

definition openSetupWithToken :: "pool_page \<Rightarrow> pool_page" where
  "openSetupWithToken s = getTokenForConnect WSetup s"

section \<open>Their answers\<close>

definition refresh_errors :: "refresh_result \<Rightarrow> jstr list" where
  "refresh_errors r = filter (\<lambda>e. e \<noteq> []) [rr_quota_error r, rr_subscription_error r]"

definition named_parts :: "bool \<Rightarrow> bool \<Rightarrow> jstr list" where
  "named_parts quota subscription =
     filter (\<lambda>e. e \<noteq> []) [if quota then c_pd_quota else [], if subscription then c_pd_subscription else []]"

definition refresh_text :: "refresh_result \<Rightarrow> jstr" where
  "refresh_text r =
     (if refresh_errors r \<noteq> [] then c_pd_partial @ join_with c_pd_sep_semicolon (refresh_errors r)
      else if rr_quota_pending r \<or> rr_subscription_pending r then
        c_pd_refreshed_comma @
        join_with c_pd_sep_comma (named_parts (rr_quota_pending r) (rr_subscription_pending r)) @ c_pd_pending_tail
      else
        (let extras = named_parts (rr_quota_refreshed r) (rr_subscription_refreshed r) in
         if extras \<noteq> [] then c_pd_models_head @ join_with c_pd_sep_comma extras @ c_pd_refreshed_tail
         else c_pd_refreshed))"

definition refresh_settled :: "pool_member \<Rightarrow> pool_page \<Rightarrow> pool_page" where
  "refresh_settled m s =
     s\<lparr>pd_refreshingRef := drop_id (member_account_id m) (pd_refreshingRef s),
       pd_refreshingAccountIds := drop_id (member_account_id m) (pd_refreshingAccountIds s)\<rparr>"

definition continue_with :: "pending \<Rightarrow> call_failure + refresh_result \<Rightarrow> pool_page \<Rightarrow> pool_page" where
  "continue_with p answer s =
     (case p of
        PReorder \<Rightarrow>
          pd_refresh (pd_toast (case answer of Inr _ \<Rightarrow> c_pd_reordered | Inl f \<Rightarrow> failure_text f c_pd_reorder_failed) s)
      | PToggle enabled \<Rightarrow>
          pd_refresh (pd_toast
            (case answer of Inr _ \<Rightarrow> if enabled then c_pd_enabled else c_pd_disabled
             | Inl f \<Rightarrow> failure_text f c_pd_toggle_failed) s)
      | PPolicy n next \<Rightarrow>
          (case answer of
             Inr _ \<Rightarrow> pd_refresh (pd_toast (if next = js ''ordered'' then c_pd_ordered else c_pd_health_first) s)
           | Inl f \<Rightarrow> pd_load n (pd_toast (failure_text f c_pd_policy_failed) s))
            \<lparr>pd_routingPolicySaving := False\<rparr>
      | PCrossEnable n enabled ids \<Rightarrow>
          (case answer of
             Inr _ \<Rightarrow> pd_wait (PCrossReorder enabled) (pd_send (PutReorder n ids) s)
           | Inl f \<Rightarrow> pd_refresh (pd_toast (failure_text f c_pd_update_failed) s))
      | PCrossReorder enabled \<Rightarrow>
          pd_refresh (pd_toast
            (case answer of Inr _ \<Rightarrow> if enabled then c_pd_enabled else c_pd_disabled
             | Inl f \<Rightarrow> failure_text f c_pd_update_failed) s)
      | PRefresh m \<Rightarrow>
          refresh_settled m
            (case answer of
               Inr r \<Rightarrow>
                 pd_refresh (setFlash (member_id m) (Some (if refresh_errors r \<noteq> [] then FlashError else FlashSuccess))
                   (pd_toast (refresh_text r) s))
             | Inl f \<Rightarrow>
                 pd_toast (failure_text f c_pd_refresh_failed) (setFlash (member_id m) (Some FlashError) s))
      | PDelete \<Rightarrow>
          (case answer of
             Inr _ \<Rightarrow> pd_refresh ((pd_toast c_pd_deleted s)\<lparr>pd_deleteTarget := None\<rparr>)
           | Inl f \<Rightarrow> pd_toast (failure_text f c_pd_delete_failed) s))"

definition answered :: "nat \<Rightarrow> call_failure + refresh_result \<Rightarrow> pool_page \<Rightarrow> pool_page" where
  "answered i answer s =
     (if i \<ge> length (pd_pending s) then s
      else continue_with (pd_pending s ! i) answer
        (s\<lparr>pd_pending := take i (pd_pending s) @ drop (Suc i) (pd_pending s)\<rparr>))"

section \<open>After the pool was deleted\<close>

definition pool_href :: "int \<Rightarrow> jstr" where
  "pool_href i = js ''/admin/pools/'' @ show_int i"

text \<open>\<open>onDeleted\<close> for the pool \<open>k\<close>, and its continuation when the list of pools has come.\<close>

definition onDeleted :: "int \<Rightarrow> pool_page \<Rightarrow> pool_page" where
  "onDeleted k s =
     pd_send GetPools (pd_refresh (s\<lparr>pd_settingsOpen := False, pd_leaving := pd_leaving s @ [k]\<rparr>))"

definition next_href :: "int \<Rightarrow> call_failure + pool list option \<Rightarrow> jstr" where
  "next_href k answer =
     (case answer of
        Inl _ \<Rightarrow> js ''/admin''
      | Inr pools \<Rightarrow>
          (case find (\<lambda>p. pool_id p \<noteq> k) (nullish pools []) of
             Some p \<Rightarrow> pool_href (pool_id p)
           | None \<Rightarrow> js ''/admin''))"

definition pools_listed :: "call_failure + pool list option \<Rightarrow> pool_page \<Rightarrow> pool_page" where
  "pools_listed answer s =
     (case pd_leaving s of
        [] \<Rightarrow> s
      | k # ks \<Rightarrow> s\<lparr>pd_leaving := ks, pd_router := navigate (pd_router s) (next_href k answer) False\<rparr>)"

section \<open>Steps\<close>

datatype pool_event =
    Nav nav_event
  | DataChanged
  | LoadAnswered nat "call_failure + pool_detail_response"
  | PressRetry
  | SheetUpdated jsnum
  | RevealAnswered int "call_failure + jstr"
  | PressSetup
  | CloseSetup
  | SheetToken
  | PressSelfCheck
  | Probed nat "probe_answer list"
  | Drag drag_call
  | CardToggle pool_member
  | CardRefresh pool_member
  | CardDelete pool_member
  | CardDetails int
  | CloseDetails
  | CancelDelete
  | ConfirmDelete
  | PressPolicy
  | Answered nat "call_failure + refresh_result"
  | FlashTimeout int
  | OpenSettings bool
  | PoolDeleted int
  | PoolsListed "call_failure + pool list option"

fun drag_handler :: "drag_call \<Rightarrow> pool_page \<Rightarrow> pool_page" where
  "drag_handler (OnReorder ids) s = reorderMembers ids s"
| "drag_handler (OnToggleEnabled m enabled) s = toggleMember m enabled s"
| "drag_handler (OnCrossZoneMove m enabled ids) s = handleCrossZoneMove m enabled ids s"

fun pd_handle :: "pool_page \<Rightarrow> pool_event \<Rightarrow> pool_page" where
  "pd_handle s (Nav e) = s\<lparr>pd_router := nav_step (pd_router s) e\<rparr>"
| "pd_handle s DataChanged = pd_refresh s"
| "pd_handle s (LoadAnswered n a) = load_answered n a s"
| "pd_handle s PressRetry = pd_load (pd_poolId s) s"
| "pd_handle s (SheetUpdated n) = pd_load n s"
| "pd_handle s (RevealAnswered t a) = reveal_answered t a s"
| "pd_handle s PressSetup = openSetupWithToken s"
| "pd_handle s CloseSetup = s\<lparr>pd_setupOpen := False\<rparr>"
| "pd_handle s SheetToken = getTokenForConnect WSheet s"
| "pd_handle s PressSelfCheck = runSelfCheck s"
| "pd_handle s (Probed i as) = probed i as s"
| "pd_handle s (Drag c) = drag_handler c s"
| "pd_handle s (CardToggle m) = toggleMember m (\<not> member_enabled m) s"
| "pd_handle s (CardRefresh m) = refreshAccount m s"
| "pd_handle s (CardDelete m) = s\<lparr>pd_deleteTarget := Some m\<rparr>"
| "pd_handle s (CardDetails i) = s\<lparr>pd_detailMemberId := Some i\<rparr>"
| "pd_handle s CloseDetails = s\<lparr>pd_detailMemberId := None\<rparr>"
| "pd_handle s CancelDelete = s\<lparr>pd_deleteTarget := None\<rparr>"
| "pd_handle s ConfirmDelete = deleteAccount s"
| "pd_handle s PressPolicy = toggleRoutingPolicy s"
| "pd_handle s (Answered i a) = answered i a s"
| "pd_handle s (FlashTimeout i) = flash_timeout i s"
| "pd_handle s (OpenSettings b) = s\<lparr>pd_settingsOpen := b\<rparr>"
| "pd_handle s (PoolDeleted k) = onDeleted k s"
| "pd_handle s (PoolsListed a) = pools_listed a s"

text \<open>The page is mounted while the address is that of a pool; once it is left, its run is over.\<close>

definition pd_mounted :: "pool_page \<Rightarrow> bool" where
  "pd_mounted s \<longleftrightarrow> (case PageRouter (pathname (pd_router s)) of Inr (PoolDetailPage _) \<Rightarrow> True | _ \<Rightarrow> False)"

definition pd_step :: "pool_page \<Rightarrow> pool_event \<Rightarrow> pool_page" where
  "pd_step s e =
     (if \<not> pd_mounted s then s
      else (let s' = pd_handle s e in if pd_mounted s' then pd_flush s s' else s'))"

text \<open>The first render and its effects: every effect runs.\<close>

definition pd_blank :: "router_state \<Rightarrow> admin_ui \<Rightarrow> pool_page" where
  "pd_blank r ui =
     \<lparr>pd_router = r, pd_ui = ui, pd_detail = None, pd_loading = True, pd_error = None, pd_deleteTarget = None,
      pd_detailMemberId = None, pd_connectTokenValue = None, pd_revealedTokenCache = [], pd_setupOpen = False,
      pd_dialogToken = [], pd_selfChecking = False, pd_flashMap = [], pd_refreshingAccountIds = [],
      pd_routingPolicySaving = False, pd_settingsOpen = False, pd_loadSeq = 0, pd_hasLoaded = False,
      pd_flashTimers = [], pd_refreshingRef = [], pd_revealInFlight = [], pd_waiting = [], pd_autoRun = 0,
      pd_pending = [], pd_leaving = [], pd_check = None, pd_loads = [], pd_toasts = [], pd_sent = []\<rparr>"

definition pd_mount :: "router_state \<Rightarrow> admin_ui \<Rightarrow> pool_page" where
  "pd_mount r ui = auto_reveal (pd_load (page_pool_id (pathname r)) (pd_blank r ui))"

text \<open>
  The runs in which every event satisfies \<open>ok\<close>. A load is answered after it was started, and the server
  answers it with the pool it asked for.
\<close>

fun pd_possible :: "pool_page \<Rightarrow> pool_event \<Rightarrow> bool" where
  "pd_possible s (LoadAnswered n a) \<longleftrightarrow>
     0 < n \<and> n \<le> pd_loadSeq s \<and> (case a of Inr d \<Rightarrow> pool_id (detail_pool d) = pd_loads s ! (n - 1) | Inl _ \<Rightarrow> True)"
| "pd_possible s _ = True"

inductive pd_runs :: "(pool_page \<Rightarrow> pool_event \<Rightarrow> bool) \<Rightarrow> pool_page \<Rightarrow> bool" for ok where
  mount: "pd_runs ok (pd_mount r ui)"
| event: "pd_runs ok s \<Longrightarrow> pd_possible s e \<Longrightarrow> ok s e \<Longrightarrow> pd_runs ok (pd_step s e)"

text \<open>No reload of a pool that the page has left.\<close>

fun current_reloads :: "pool_page \<Rightarrow> pool_event \<Rightarrow> bool" where
  "current_reloads s (SheetUpdated n) \<longleftrightarrow> n = pd_poolId s"
| "current_reloads s (Answered i (Inl f)) \<longleftrightarrow>
     (\<forall>n next. i < length (pd_pending s) \<longrightarrow> pd_pending s ! i = PPolicy n next \<longrightarrow> n = pd_poolId s)"
| "current_reloads s _ = True"

end
