(* ===== verification/PoolDetailRuns.thy ===== *)
theory PoolDetailRuns
  imports PoolDetail
begin

text \<open>
  What the runs of the pool page keep: the pool on the screen is the one of the address, superseded
  loads are ignored, a token is asked for once at a time, the self check ends, and every drop sends a
  permutation of the members. The last section has the histories in which the page goes wrong.
\<close>

section \<open>What a handler leaves alone\<close>

text \<open>The part of the state that the loads own.\<close>

definition load_part :: "pool_page \<Rightarrow>
    router_state \<times> pool_detail_response option \<times> bool \<times> jstr option \<times> int list \<times> nat \<times> bool" where
  "load_part s =
     (pd_router s, pd_detail s, pd_loading s, pd_error s, pd_loads s, pd_loadSeq s, pd_hasLoaded s)"

lemmas pd_setters = pd_toast_def pd_send_def pd_refresh_def pd_wait_def

lemma load_part_setters [simp]:
  "load_part (pd_toast m s) = load_part s" "load_part (pd_send r s) = load_part s"
  "load_part (pd_refresh s) = load_part s" "load_part (pd_wait p s) = load_part s"
  "load_part (end_check s) = load_part s" "load_part (setFlash i st s) = load_part s"
  "load_part (flash_timeout i s) = load_part s" "load_part (refresh_settled mb s) = load_part s"
  "load_part (s\<lparr>pd_connectTokenValue := c\<rparr>) = load_part s" "load_part (s\<lparr>pd_autoRun := n\<rparr>) = load_part s"
  "load_part (s\<lparr>pd_pending := ps\<rparr>) = load_part s" "load_part (s\<lparr>pd_deleteTarget := t\<rparr>) = load_part s"
  "load_part (s\<lparr>pd_check := k\<rparr>) = load_part s" "load_part (s\<lparr>pd_selfChecking := b\<rparr>) = load_part s"
  "load_part (s\<lparr>pd_routingPolicySaving := b\<rparr>) = load_part s" "load_part (s\<lparr>pd_settingsOpen := b\<rparr>) = load_part s"
  "load_part (s\<lparr>pd_detailMemberId := d\<rparr>) = load_part s" "load_part (s\<lparr>pd_setupOpen := b\<rparr>) = load_part s"
  by (simp_all add: load_part_def pd_setters end_check_def setFlash_def flash_timeout_def refresh_settled_def)

lemma load_part_check [simp]:
  "load_part (begin_check ms v s) = load_part s" "load_part (probed i as s) = load_part s"
  by (auto simp: begin_check_def probed_def finish_check_def Let_def split: option.split prod.split)
    (simp_all add: load_part_def)

lemma load_part_token [simp]:
  "load_part (resume w v s) = load_part s" "load_part (reveal t w s) = load_part s"
  "load_part (settle a s w) = load_part s"
  by (auto simp: resume_def setup_with_def reveal_def settle_def Let_def split: waiter.split sum.split)
    (simp_all add: load_part_def)

lemma load_part_getToken [simp]: "load_part (getTokenForConnect w s) = load_part s"
  by (auto simp: getTokenForConnect_def split: option.split)

lemma load_part_settles [simp]: "load_part (foldl (settle a) s ws) = load_part s"
  by (induction ws arbitrary: s) simp_all

lemma load_part_reveal_answered [simp]: "load_part (reveal_answered t a s) = load_part s"
  by (simp add: reveal_answered_def Let_def) (simp add: load_part_def)

lemma load_part_auto_reveal [simp]: "load_part (auto_reveal s) = load_part s"
  by (simp add: auto_reveal_def Let_def split: option.split)

lemma load_part_handlers [simp]:
  "load_part (drag_handler c s) = load_part s" "load_part (toggleMember m b s) = load_part s"
  "load_part (toggleRoutingPolicy s) = load_part s"
  "load_part (refreshAccount m s) = load_part s" "load_part (deleteAccount s) = load_part s"
  "load_part (runSelfCheck s) = load_part s" "load_part (openSetupWithToken s) = load_part s"
  "load_part (onDeleted k s) = load_part s"
  by (cases c; simp add: reorderMembers_def toggleMember_def handleCrossZoneMove_def)
    (auto simp: toggleMember_def toggleRoutingPolicy_def refreshAccount_def deleteAccount_def runSelfCheck_def
      openSetupWithToken_def onDeleted_def Let_def split: option.split, (simp add: load_part_def)+)

lemma load_part_continue:
  "load_part (continue_with p a s) =
     (case (p, a) of (PPolicy n _, Inl _) \<Rightarrow> load_part (pd_load n s) | _ \<Rightarrow> load_part s)"
  by (auto simp: continue_with_def pd_load_def split: pending.split sum.split option.split)
    (simp_all add: load_part_def pd_setters)

text \<open>Every event but those below leaves that part alone.\<close>

fun touches_load :: "pool_event \<Rightarrow> bool" where
  "touches_load (Nav _) = True"
| "touches_load (LoadAnswered _ _) = True"
| "touches_load PressRetry = True"
| "touches_load (SheetUpdated _) = True"
| "touches_load (Answered _ _) = True"
| "touches_load (PoolsListed _) = True"
| "touches_load _ = False"

lemma load_part_handle: "\<not> touches_load e \<Longrightarrow> load_part (pd_handle s e) = load_part s"
  by (cases e) simp_all

section \<open>The pool on the screen\<close>

definition detail_of_pool :: "pool_page \<Rightarrow> int \<Rightarrow> bool" where
  "detail_of_pool s k \<longleftrightarrow> (\<exists>d. pd_detail s = Some d \<and> pool_id (detail_pool d) = k)"

definition load_ok :: "pool_page \<Rightarrow> bool" where
  "load_ok s \<longleftrightarrow>
     length (pd_loads s) = pd_loadSeq s \<and> pd_error s \<noteq> Some [] \<and>
     (case valid_pool_id (pd_poolId s) of
        None \<Rightarrow> \<not> pd_loading s \<and> pd_error s \<noteq> None
      | Some k \<Rightarrow>
          pd_loads s \<noteq> [] \<and> last (pd_loads s) = k \<and>
          (pd_loading s \<or> pd_error s \<noteq> None \<or> detail_of_pool s k) \<and> (pd_hasLoaded s \<longrightarrow> detail_of_pool s k))"

lemma load_part_eqD:
  assumes "load_part s = load_part t"
  shows "pd_router s = pd_router t" "pd_detail s = pd_detail t" "pd_loading s = pd_loading t" "pd_error s = pd_error t"
    "pd_loads s = pd_loads t" "pd_loadSeq s = pd_loadSeq t" "pd_hasLoaded s = pd_hasLoaded t"
  using assms by (simp_all add: load_part_def)

lemma load_ok_cong_id:
  assumes "snd (load_part s) = snd (load_part t)" and "pd_poolId s = pd_poolId t"
  shows "load_ok s = load_ok t"
  using assms by (cases "valid_pool_id (pd_poolId t)") (simp_all add: load_ok_def detail_of_pool_def load_part_def)

lemma load_ok_cong: "load_part s = load_part t \<Longrightarrow> load_ok s = load_ok t"
  by (rule load_ok_cong_id) (simp_all add: pd_poolId_def load_part_def)

lemma pd_load_cong:
  assumes "load_part s = load_part t"
  shows "load_part (pd_load n s) = load_part (pd_load n t)"
  using load_part_eqD [OF assms] by (simp add: load_part_def pd_load_def pd_send_def split: option.split)

text \<open>Starting a load of the current pool: it needs only that a detail kept on the screen is that pool's.\<close>

lemma pd_load_ok:
  assumes "length (pd_loads s) = pd_loadSeq s"
    and "\<And>k. valid_pool_id (pd_poolId s) = Some k \<Longrightarrow> pd_hasLoaded s \<Longrightarrow> detail_of_pool s k"
  shows "load_ok (pd_load (pd_poolId s) s)"
  using assms
  by (auto simp: load_ok_def pd_load_def pd_send_def pd_poolId_def detail_of_pool_def c_pd_invalid_def js_def
      split: option.split)

lemma load_ok_reload: "load_ok s \<Longrightarrow> load_ok (pd_load (pd_poolId s) s)"
  by (rule pd_load_ok) (auto simp: load_ok_def split: option.splits)

lemma pd_load_frame [simp]:
  "pd_router (pd_load n s) = pd_router s" "pd_detail (pd_load n s) = pd_detail s"
  "pd_poolId (pd_load n s) = pd_poolId s" "pd_ui (pd_load n s) = pd_ui s"
  by (simp_all add: pd_load_def pd_send_def pd_poolId_def split: option.split)

lemma forget_pool_frame [simp]:
  "pd_router (forget_pool s) = pd_router s" "pd_poolId (forget_pool s) = pd_poolId s"
  "pd_loads (forget_pool s) = pd_loads s" "pd_loadSeq (forget_pool s) = pd_loadSeq s" "\<not> pd_hasLoaded (forget_pool s)"
  by (simp_all add: forget_pool_def pd_poolId_def)

lemma pd_flush_ok:
  assumes "length (pd_loads s) = pd_loadSeq s" and "pd_poolId old = pd_poolId s \<Longrightarrow> load_ok s"
  shows "load_ok (pd_flush old s)"
proof -
  define moved where "moved \<longleftrightarrow> pd_poolId old \<noteq> pd_poolId s"
  define s1 where "s1 = (if moved then forget_pool s else s)"
  define s2 where "s2 = (if moved \<or> dataVersion (pd_ui old) \<noteq> dataVersion (pd_ui s) then pd_load (pd_poolId s) s1 else s1)"
  have "load_ok s2"
    using pd_load_ok [of "forget_pool s"] load_ok_reload [of s] assms by (auto simp: s2_def s1_def moved_def)
  moreover have "load_part (pd_flush old s) = load_part s2"
    by (simp add: pd_flush_def s2_def s1_def moved_def Let_def)
  ultimately show ?thesis using load_ok_cong by blast
qed

lemma load_answered_ok:
  assumes "load_ok s" and "pd_possible s (LoadAnswered n a)" and "\<And>f. a = Inl f \<Longrightarrow> cf_message f \<noteq> Some []"
  shows "load_ok (load_answered n a s)"
proof (cases "n = pd_loadSeq s")
  case True
  then have "pd_loads s ! (n - 1) = last (pd_loads s)"
    using assms(1,2) last_conv_nth [of "pd_loads s"] by (cases "pd_loads s = []") (auto simp: load_ok_def)
  then show ?thesis
    using assms True
    by (auto simp: load_answered_def load_ok_def detail_of_pool_def pd_poolId_def failure_text_def nullish_def
        c_pd_load_failed_def js_def split: sum.split option.splits)
qed (use assms(1) in \<open>simp add: load_answered_def\<close>)

text \<open>Reloads are of the current pool, and a failed load comes with a message.\<close>

fun orderly :: "pool_page \<Rightarrow> pool_event \<Rightarrow> bool" where
  "orderly s (LoadAnswered _ (Inl f)) \<longleftrightarrow> cf_message f \<noteq> Some []"
| "orderly s e \<longleftrightarrow> current_reloads s e"

lemma answered_load_part:
  assumes "current_reloads s (Answered i a)"
  shows "load_part (answered i a s) = load_part s \<or> load_part (answered i a s) = load_part (pd_load (pd_poolId s) s)"
proof (cases "i < length (pd_pending s)")
  case True
  let ?s = "s\<lparr>pd_pending := take i (pd_pending s) @ drop (Suc i) (pd_pending s)\<rparr>"
  have l: "load_part (pd_load n ?s) = load_part (pd_load n s)" for n by (rule pd_load_cong) simp
  show ?thesis
    using assms True
    by (cases "pd_pending s ! i"; cases a) (simp_all add: answered_def load_part_continue l)
qed (simp add: answered_def)

lemma pd_handle_ok:
  assumes "load_ok s" and "pd_possible s e" and "orderly s e"
  shows "length (pd_loads (pd_handle s e)) = pd_loadSeq (pd_handle s e) \<and>
    (pd_poolId s = pd_poolId (pd_handle s e) \<longrightarrow> load_ok (pd_handle s e))"
proof -
  have len: "load_ok t \<Longrightarrow> length (pd_loads t) = pd_loadSeq t" for t by (simp add: load_ok_def)
  note eq = load_ok_cong [OF load_part_handle, of e s]
  consider (quiet) "\<not> touches_load e" | (nav) "(\<exists>x. e = Nav x) \<or> (\<exists>x. e = PoolsListed x)"
    | (answer) n a where "e = LoadAnswered n a" | (reload) "e = PressRetry \<or> (\<exists>n. e = SheetUpdated n)"
    | (reply) i a where "e = Answered i a"
    by (cases e) auto
  then show ?thesis
  proof cases
    case quiet
    then show ?thesis using eq assms(1) len by blast
  next
    case nav
    then have "snd (load_part (pd_handle s e)) = snd (load_part s)"
      by (cases "pd_leaving s") (auto simp: pools_listed_def load_part_def)
    then show ?thesis
      using load_ok_cong_id [of "pd_handle s e" s] assms(1) by (auto simp: load_part_def load_ok_def)
  next
    case (answer n a)
    moreover have "load_ok (load_answered n a s)"
      using assms answer by (intro load_answered_ok) (auto split: sum.splits)
    ultimately show ?thesis using len by simp
  next
    case reload
    then have "load_ok (pd_handle s e)" using load_ok_reload [OF assms(1)] assms(3) by auto
    then show ?thesis using len by blast
  next
    case (reply i a)
    then have "load_ok (answered i a s)"
      using answered_load_part [of s i a] assms load_ok_reload [OF assms(1)] by (auto dest: load_ok_cong)
    with reply show ?thesis using len by simp
  qed
qed

lemma pd_step_ok:
  assumes "load_ok s" and "pd_possible s e" and "orderly s e" and "pd_mounted (pd_step s e)"
  shows "load_ok (pd_step s e)"
  using pd_handle_ok [OF assms(1-3)] pd_flush_ok [of "pd_handle s e" s] assms(1,4)
  by (auto simp: pd_step_def Let_def split: if_splits)

lemma auto_reveal_ok [simp]: "load_ok (auto_reveal s) = load_ok s"
  by (rule load_ok_cong) simp

lemma pd_mount_ok: "load_ok (pd_mount r ui)"
proof -
  have "load_ok (pd_load (pd_poolId (pd_blank r ui)) (pd_blank r ui))"
    by (rule pd_load_ok) (simp_all add: pd_blank_def)
  then show ?thesis by (simp add: pd_mount_def pd_poolId_def pd_blank_def)
qed

lemma pd_unmounted_step: "\<not> pd_mounted s \<Longrightarrow> pd_step s e = s"
  by (simp add: pd_step_def)

lemma orderly_runs_ok: "pd_runs orderly s \<Longrightarrow> pd_mounted s \<Longrightarrow> load_ok s"
proof (induction rule: pd_runs.induct)
  case (event s e)
  then have "pd_mounted s" using pd_unmounted_step by metis
  with event show ?case by (intro pd_step_ok) simp_all
qed (rule pd_mount_ok)

text \<open>
  C3: The page shows the pool of its address: whatever the order in which loads, navigations between
  pools, refreshes and answers come, if every reload is of the current pool and every failure has a
  message, then a pool on the screen is the one the address names, and an address that names none shows
  an error.
\<close>

theorem shown_pool_is_current:
  assumes "pd_runs orderly s" and "pd_mounted s"
  shows "case pool_view_of s of
      ShowPool d \<Rightarrow> valid_pool_id (pd_poolId s) = Some (pool_id (detail_pool d))
    | ShowSkeleton \<Rightarrow> valid_pool_id (pd_poolId s) \<noteq> None
    | ShowError _ \<Rightarrow> True"
  using orderly_runs_ok [OF assms]
  by (auto simp: load_ok_def pool_view_of_def detail_of_pool_def split: option.splits)

section \<open>The newest load wins\<close>

definition pd_answer :: "pool_event \<Rightarrow> nat option" where
  "pd_answer e = (case e of LoadAnswered n _ \<Rightarrow> Some n | _ \<Rightarrow> None)"

lemma pd_flush_same [simp]: "pd_flush s s = s"
  by (simp add: pd_flush_def Let_def)

lemma loadSeq_mono:
  "pd_loadSeq s \<le> pd_loadSeq (pd_load n s)" "pd_loadSeq s \<le> pd_loadSeq (pd_flush old s)"
  "pd_loadSeq s \<le> pd_loadSeq (pd_handle s e)"
proof -
  have load: "pd_loadSeq t \<le> pd_loadSeq (pd_load m t)" for m t
    by (simp add: pd_load_def pd_send_def split: option.split)
  then show "pd_loadSeq s \<le> pd_loadSeq (pd_load n s)" .
  have auto: "pd_loadSeq (auto_reveal t) = pd_loadSeq t" for t by (rule load_part_eqD) simp
  show "pd_loadSeq s \<le> pd_loadSeq (pd_flush old s)"
    using load [of s "pd_poolId s"] load [of "forget_pool s" "pd_poolId s"] by (simp add: pd_flush_def Let_def auto)
  show "pd_loadSeq s \<le> pd_loadSeq (pd_handle s e)"
  proof (cases "touches_load e")
    case False
    then show ?thesis using load_part_eqD(6) [OF load_part_handle] by (metis order_refl)
  next
    case True
    have "pd_loadSeq s \<le> pd_loadSeq (continue_with p a (s\<lparr>pd_pending := ps\<rparr>))" for p a ps
      using load_part_eqD(6) [of "continue_with p a (s\<lparr>pd_pending := ps\<rparr>)"] load_part_continue [of p a "s\<lparr>pd_pending := ps\<rparr>"]
        load [of "s\<lparr>pd_pending := ps\<rparr>"]
      by (cases p; cases a) (auto simp: load_part_def)
    with True load show ?thesis
      by (cases e) (auto simp: load_answered_def answered_def pools_listed_def split: sum.split list.split)
  qed
qed

interpretation pdl: latest_wins pd_step pd_loadSeq pd_answer
proof
  fix e i s
  show "pd_answer e = Some i \<Longrightarrow> i \<noteq> pd_loadSeq s \<Longrightarrow> pd_step s e = s"
    by (cases e) (auto simp: pd_answer_def pd_step_def load_answered_def)
next
  fix s e
  show "pd_loadSeq s \<le> pd_loadSeq (pd_step s e)"
    using loadSeq_mono(2) [of "pd_handle s e" s] loadSeq_mono(3) [of s e]
    by (auto simp: pd_step_def Let_def)
qed

text \<open>
  A slow answer cannot overwrite a newer one on the pool page: once another load has been started,
  by a refresh, a retry or a move to another pool, the answers to all earlier loads leave the page as it
  is, in whatever order they arrive.
\<close>

theorem pool_superseded_loads:
  "foldl pd_step s es =
     foldl pd_step s (filter (\<lambda>e. case pd_answer e of None \<Rightarrow> True | Some i \<Rightarrow> pd_loadSeq s \<le> i) es)"
proof -
  have "(\<lambda>e. case pd_answer e of None \<Rightarrow> True | Some i \<Rightarrow> pd_loadSeq s \<le> i) =
      (\<lambda>e. \<forall>i. pd_answer e = Some i \<longrightarrow> pd_loadSeq s \<le> i)"
    by (auto split: option.splits)
  then show ?thesis using pdl.all_superseded_answers_ignored [of s es] by simp
qed

section \<open>Cards, tokens and the self check\<close>

definition card_ok :: "pool_page \<Rightarrow> bool" where
  "card_ok s \<longleftrightarrow> pd_refreshingAccountIds s = pd_refreshingRef s \<and>
     (\<forall>i f. (i, Some f) \<in> set (pd_flashMap s) \<longrightarrow> i \<in> set (pd_flashTimers s))"

definition token_ok :: "pool_page \<Rightarrow> bool" where
  "token_ok s \<longleftrightarrow> distinct (pd_revealInFlight s) \<and> fst ` set (pd_waiting s) \<subseteq> set (pd_revealInFlight s)"

definition is_check :: "waiter \<Rightarrow> bool" where
  "is_check w \<longleftrightarrow> (case w of WCheck _ \<Rightarrow> True | _ \<Rightarrow> False)"

text \<open>How many self checks are under way: waiting for a token, or probing.\<close>

definition checks :: "pool_page \<Rightarrow> nat" where
  "checks s = length (filter (\<lambda>x. is_check (snd x)) (pd_waiting s)) + (if pd_check s = None then 0 else 1)"

definition check_ok :: "nat \<Rightarrow> pool_page \<Rightarrow> bool" where
  "check_ok n s \<longleftrightarrow> checks s + n = (if pd_selfChecking s then 1 else 0) \<and>
     (\<forall>run. pd_check s = Some run \<longrightarrow> ck_left run \<noteq> [])"

definition page_ok :: "nat \<Rightarrow> pool_page \<Rightarrow> bool" where
  "page_ok n s \<longleftrightarrow> card_ok s \<and> token_ok s \<and> check_ok n s"

lemmas page_ok_defs = page_ok_def card_ok_def token_ok_def check_ok_def checks_def

text \<open>The part of the state these are about.\<close>

definition page_part :: "pool_page \<Rightarrow> int list \<times> int list \<times> (int, flash option) jmap \<times> int list \<times> int list \<times>
    (int \<times> waiter) list \<times> check_run option \<times> bool" where
  "page_part s =
     (pd_refreshingAccountIds s, pd_refreshingRef s, pd_flashMap s, pd_flashTimers s, pd_revealInFlight s,
      pd_waiting s, pd_check s, pd_selfChecking s)"

lemma page_ok_cong: "page_part s = page_part t \<Longrightarrow> page_ok n s = page_ok n t"
  by (simp add: page_ok_defs page_part_def)

lemma page_part_frame [simp]:
  "page_part (pd_toast m s) = page_part s" "page_part (pd_send r s) = page_part s"
  "page_part (pd_refresh s) = page_part s" "page_part (pd_wait p s) = page_part s"
  "page_part (s\<lparr>pd_connectTokenValue := c\<rparr>) = page_part s" "page_part (s\<lparr>pd_autoRun := k\<rparr>) = page_part s"
  "page_part (s\<lparr>pd_pending := ps\<rparr>) = page_part s" "page_part (s\<lparr>pd_deleteTarget := t\<rparr>) = page_part s"
  "page_part (s\<lparr>pd_routingPolicySaving := b\<rparr>) = page_part s" "page_part (s\<lparr>pd_settingsOpen := b\<rparr>) = page_part s"
  "page_part (s\<lparr>pd_detailMemberId := d\<rparr>) = page_part s" "page_part (s\<lparr>pd_setupOpen := b\<rparr>) = page_part s"
  "page_part (s\<lparr>pd_router := rt\<rparr>) = page_part s" "page_part (s\<lparr>pd_leaving := l\<rparr>) = page_part s"
  "page_part (s\<lparr>pd_sent := sn\<rparr>) = page_part s" "page_part (s\<lparr>pd_dialogToken := dt\<rparr>) = page_part s"
  "page_part (pd_load pn s) = page_part s" "page_part (load_answered i a s) = page_part s"
  by (simp_all add: page_part_def pd_setters pd_load_def load_answered_def split: option.split sum.split)

lemma page_ok_frame [simp]:
  "page_ok n (pd_toast m s) = page_ok n s"
  "page_ok n (pd_send r s) = page_ok n s"
  "page_ok n (pd_refresh s) = page_ok n s"
  "page_ok n (pd_wait p s) = page_ok n s"
  "page_ok n (s\<lparr>pd_connectTokenValue := c\<rparr>) = page_ok n s"
  "page_ok n (s\<lparr>pd_autoRun := k\<rparr>) = page_ok n s"
  "page_ok n (s\<lparr>pd_pending := ps\<rparr>) = page_ok n s"
  "page_ok n (s\<lparr>pd_deleteTarget := t\<rparr>) = page_ok n s"
  "page_ok n (s\<lparr>pd_routingPolicySaving := b\<rparr>) = page_ok n s"
  "page_ok n (s\<lparr>pd_settingsOpen := b\<rparr>) = page_ok n s"
  "page_ok n (s\<lparr>pd_detailMemberId := d\<rparr>) = page_ok n s"
  "page_ok n (s\<lparr>pd_setupOpen := b\<rparr>) = page_ok n s"
  "page_ok n (s\<lparr>pd_router := rt\<rparr>) = page_ok n s"
  "page_ok n (s\<lparr>pd_leaving := l\<rparr>) = page_ok n s"
  "page_ok n (s\<lparr>pd_sent := sn\<rparr>) = page_ok n s"
  "page_ok n (s\<lparr>pd_dialogToken := dt\<rparr>) = page_ok n s"
  "page_ok n (pd_load pn s) = page_ok n s"
  "page_ok n (load_answered i a s) = page_ok n s"
  by (rule page_ok_cong, simp)+

lemma set_map_set: "set (map_set k v m) \<subseteq> insert (k, v) (set m)"
  unfolding map_set_def by (induction m) auto

lemma page_ok_cards [simp]:
  "page_ok n s \<Longrightarrow> page_ok n (setFlash i (Some f) s)" "page_ok n s \<Longrightarrow> page_ok n (flash_timeout i s)"
  "page_ok n s \<Longrightarrow> page_ok n (refresh_settled mb s)" "page_ok n s \<Longrightarrow> page_ok n (forget_pool s)"
  "page_ok n s \<Longrightarrow> page_ok n (refreshAccount mb s)"
  using set_map_set [of i "Some f" "pd_flashMap s"]
  by (auto simp: page_ok_defs setFlash_def flash_timeout_def refresh_settled_def forget_pool_def refreshAccount_def pd_setters)

text \<open>A caller of the token that was counted apart goes on.\<close>

lemma page_ok_begin:
  assumes "page_ok (Suc n) s"
  shows "page_ok n (begin_check ms v s)"
proof -
  have "checks s = 0" "n = 0" "pd_selfChecking s" using assms by (auto simp: page_ok_defs split: if_splits)
  moreover have "(i, Some f) \<notin> set (foldl (\<lambda>m t. map_set (member_id (fst t)) None m) acc ts)"
    if "(i, Some f) \<notin> set acc" for i acc and f :: flash and ts :: "(pool_member \<times> jstr list) list"
    using that
  proof (induction ts arbitrary: acc)
    case (Cons t ts)
    then show ?case using set_map_set [of "member_id (fst t)" "None :: flash option" acc] by (auto intro!: Cons.IH)
  qed simp
  ultimately show ?thesis
    using assms by (auto simp: begin_check_def end_check_def pd_toast_def Let_def page_ok_defs)
qed

definition caller_load :: "waiter \<Rightarrow> nat" where
  "caller_load w = (if is_check w then 1 else 0)"

lemma page_ok_resume: "page_ok (n + caller_load w) s \<Longrightarrow> page_ok n (resume w v s)"
  by (cases w) (auto simp: resume_def setup_with_def caller_load_def is_check_def page_ok_begin)

lemma page_ok_settle: "page_ok (n + caller_load w) s \<Longrightarrow> page_ok n (settle a s w)"
  using page_ok_resume [of n w] by (cases w; cases a) (auto simp: settle_def caller_load_def is_check_def page_ok_begin)

lemma page_ok_settles:
  "page_ok (sum_list (map caller_load ws)) s \<Longrightarrow> page_ok 0 (foldl (settle a) s ws)"
proof (induction ws arbitrary: s)
  case (Cons w ws)
  then show ?case using page_ok_settle [of "sum_list (map caller_load ws)" w s a] by (simp add: add.commute)
qed simp

lemma page_ok_reveal: "page_ok (n + caller_load w) s \<Longrightarrow> page_ok n (reveal t w s)"
  by (auto simp: reveal_def pd_send_def Let_def page_ok_defs caller_load_def split: if_splits)

lemma page_ok_getToken: "page_ok (n + caller_load w) s \<Longrightarrow> page_ok n (getTokenForConnect w s)"
  by (auto simp: getTokenForConnect_def intro!: page_ok_resume page_ok_reveal split: option.split)

lemma checks_split:
  "length (filter (\<lambda>x. is_check (snd x)) ws) =
     length (filter (\<lambda>x. is_check (snd x)) (filter (\<lambda>x. fst x \<noteq> t) ws)) +
     sum_list (map caller_load (map snd (filter (\<lambda>x. fst x = t) ws)))"
  by (induction ws) (auto simp: caller_load_def)

lemma page_ok_reveal_answered:
  assumes "page_ok 0 s"
  shows "page_ok 0 (reveal_answered t a s)"
proof -
  let ?ws = "map snd (filter (\<lambda>x. fst x = t) (pd_waiting s))"
  have "page_ok (sum_list (map caller_load ?ws))
      (s\<lparr>pd_revealInFlight := filter (\<lambda>u. u \<noteq> t) (pd_revealInFlight s),
         pd_waiting := filter (\<lambda>x. fst x \<noteq> t) (pd_waiting s), pd_revealedTokenCache := c\<rparr>)" for c
    using assms checks_split [of "pd_waiting s" t]
    unfolding page_ok_def card_ok_def token_ok_def check_ok_def checks_def by fastforce
  then show ?thesis using assms by (simp add: reveal_answered_def Let_def page_ok_settles del: map_map)
qed

lemma page_ok_probed: "page_ok 0 s \<Longrightarrow> page_ok 0 (probed i as s)"
proof (cases "\<exists>run. pd_check s = Some run \<and> i < length (ck_left run)")
  case True
  assume ok: "page_ok 0 s"
  from True obtain run m models where run: "pd_check s = Some run" "i < length (ck_left run)"
    and mm: "ck_left run ! i = (m, models)" by (metis surj_pair)
  have "page_ok 0 (t\<lparr>pd_check := Some run'\<rparr>)" if "page_ok 0 t" "pd_check t \<noteq> None" "ck_left run' \<noteq> []" for t run'
    using that by (auto simp: page_ok_defs)
  moreover have "page_ok 0 (finish_check rs (t\<lparr>pd_check := c\<rparr>))" if "page_ok 0 t" "pd_check t \<noteq> None" for t rs c
    using that by (auto simp: finish_check_def end_check_def pd_setters page_ok_defs split: if_splits)
  moreover have "pd_check (pd_send r (setFlash j st s)) \<noteq> None" for r j st
    using run by (simp add: setFlash_def pd_send_def)
  ultimately show ?thesis using ok run by (simp add: probed_def mm Let_def)
qed (auto simp: probed_def split: option.split)

lemma page_ok_auto_reveal: "page_ok 0 s \<Longrightarrow> page_ok 0 (auto_reveal s)"
  by (auto simp: auto_reveal_def Let_def caller_load_def is_check_def intro!: page_ok_reveal split: option.split)

lemma page_ok_flush: "page_ok 0 s \<Longrightarrow> page_ok 0 (pd_flush old s)"
  by (auto simp: pd_flush_def Let_def intro!: page_ok_auto_reveal)

lemma page_ok_continue: "page_ok 0 s \<Longrightarrow> page_ok 0 (continue_with p a s)"
  by (cases p; cases a) (auto simp: continue_with_def)

lemma page_ok_handle:
  assumes "page_ok 0 s"
  shows "page_ok 0 (pd_handle s e)"
proof -
  have "page_ok 0 (getTokenForConnect w s)" if "\<not> is_check w" for w
    using assms that by (intro page_ok_getToken) (simp add: caller_load_def)
  then have tokens: "page_ok 0 (getTokenForConnect WSetup s)" "page_ok 0 (getTokenForConnect WSheet s)"
    by (simp_all add: is_check_def)
  have "page_ok (Suc 0) (s\<lparr>pd_selfChecking := True\<rparr>)" if "\<not> pd_selfChecking s"
    using assms that by (simp add: page_ok_defs)
  then have check: "page_ok 0 (runSelfCheck s)"
    using assms page_ok_getToken [of 0 "WCheck (pd_enabledMembers s)" "s\<lparr>pd_selfChecking := True\<rparr>"]
    by (auto simp: runSelfCheck_def caller_load_def is_check_def)
  have "page_ok 0 (drag_handler c s)" for c
    using assms by (cases c) (simp_all add: reorderMembers_def toggleMember_def handleCrossZoneMove_def)
  then show ?thesis
    using assms tokens check
    by (cases e)
      (auto simp: openSetupWithToken_def toggleMember_def deleteAccount_def toggleRoutingPolicy_def answered_def onDeleted_def
        pools_listed_def Let_def intro: page_ok_reveal_answered page_ok_probed page_ok_continue split: option.split list.split)
qed

lemma runs_page_ok: "pd_runs ok s \<Longrightarrow> page_ok 0 s"
proof (induction rule: pd_runs.induct)
  case (mount r ui)
  have "page_ok 0 (pd_blank r ui)" by (simp add: page_ok_defs pd_blank_def)
  then show ?case by (simp add: pd_mount_def page_ok_auto_reveal)
next
  case (event s e)
  then show ?case using page_ok_handle page_ok_flush by (simp add: pd_step_def Let_def)
qed

text \<open>
  C13: The pool page never gets stuck: in every run, whatever the answers and their order, a card that
  flashes has a timer that ends it, the accounts shown as refreshing are exactly those the guard locks,
  a token is being revealed at most once at a time and every caller that waits for it is answered by that
  request, and a self check that is marked as running has a caller waiting for the token or a target
  still to be probed.
\<close>

theorem pool_page_not_stuck:
  assumes "pd_runs ok s"
  shows "(\<forall>i f. (i, Some f) \<in> set (pd_flashMap s) \<longrightarrow> i \<in> set (pd_flashTimers s)) \<and>
    pd_refreshingAccountIds s = pd_refreshingRef s \<and>
    distinct (pd_revealInFlight s) \<and> (\<forall>t w. (t, w) \<in> set (pd_waiting s) \<longrightarrow> t \<in> set (pd_revealInFlight s)) \<and>
    (pd_selfChecking s \<longrightarrow> (\<exists>t ms. (t, WCheck ms) \<in> set (pd_waiting s)) \<or>
       (\<exists>run. pd_check s = Some run \<and> ck_left run \<noteq> []))"
proof -
  have ok: "page_ok 0 s" using assms by (rule runs_page_ok)
  have "\<exists>t ms. (t, WCheck ms) \<in> set (pd_waiting s)" if "pd_selfChecking s" "pd_check s = None"
  proof -
    have "filter (\<lambda>x. is_check (snd x)) (pd_waiting s) \<noteq> []"
      using ok that by (auto simp: page_ok_def check_ok_def checks_def)
    then obtain t w where "(t, w) \<in> set (pd_waiting s)" "is_check w" by (auto simp: filter_empty_conv)
    then show ?thesis by (cases w) (auto simp: is_check_def)
  qed
  then show ?thesis using ok by (auto simp: page_ok_def card_ok_def token_ok_def check_ok_def)
qed

section \<open>Drops\<close>

text \<open>
  What the page needs of the area that sorts the members: every order it hands over is a permutation of
  the members it was given.
\<close>

locale reorder_source =
  fixes drop_calls :: "pool_member list \<Rightarrow> drag_call list"
  assumes permutes: "distinct (map member_id ms) \<Longrightarrow> c \<in> set (drop_calls ms) \<Longrightarrow> call_ids c = Some ids \<Longrightarrow>
    mset ids = mset (map member_id ms)"
begin

text \<open>The page after a drop.\<close>

definition dropped :: "pool_page \<Rightarrow> pool_page" where
  "dropped s = foldl (\<lambda>t c. drag_handler c t) s (drop_calls (pd_members s))"

lemma calls_effect:
  "pd_poolId (foldl (\<lambda>t c. drag_handler c t) s cs) = pd_poolId s \<and>
   pd_sent (foldl (\<lambda>t c. drag_handler c t) s cs) = pd_sent s @ map (\<lambda>c. case c of
       OnReorder ids \<Rightarrow> PutReorder (pd_poolId s) ids
     | OnToggleEnabled m b \<Rightarrow> PutMember (pd_poolId s) (member_id m) b
     | OnCrossZoneMove m b ids \<Rightarrow> PutMember (pd_poolId s) (member_id m) b) cs \<and>
   pd_pending (foldl (\<lambda>t c. drag_handler c t) s cs) = pd_pending s @ map (\<lambda>c. case c of
       OnReorder ids \<Rightarrow> PReorder
     | OnToggleEnabled m b \<Rightarrow> PToggle b
     | OnCrossZoneMove m b ids \<Rightarrow> PCrossEnable (pd_poolId s) b ids) cs"
proof (induction cs arbitrary: s)
  case (Cons c cs)
  have "pd_poolId (drag_handler c s) = pd_poolId s"
    by (cases c) (simp_all add: reorderMembers_def toggleMember_def handleCrossZoneMove_def pd_setters pd_poolId_def)
  with Cons.IH [of "drag_handler c s"] show ?case
    by (cases c) (simp_all add: reorderMembers_def toggleMember_def handleCrossZoneMove_def pd_setters)
qed simp

lemma orders_sent:
  assumes "distinct (map member_id (pd_members s))"
  shows "PutReorder n ids \<in> set (drop (length (pd_sent s)) (pd_sent (dropped s))) \<or>
      PCrossEnable n b ids \<in> set (drop (length (pd_pending s)) (pd_pending (dropped s))) \<Longrightarrow>
    n = pd_poolId s \<and> mset ids = mset (map member_id (pd_members s))"
  using permutes [OF assms] calls_effect [of s "drop_calls (pd_members s)"]
  by (fastforce simp: dropped_def split: drag_call.splits)

end

text \<open>The drag area of the console, with the one \<open>arrayMove\<close> that the contract of the drag library allows.\<close>

lemma drag_area_reorders: "moves_item mv \<Longrightarrow> reorder_source (\<lambda>ms. handleDragEnd mv single ms k over)"
  by unfold_locales (rule drag_calls_permute)

interpretation drag_area: reorder_source "\<lambda>ms. handleDragEnd splice_move True ms k over" for k over
  by (rule drag_area_reorders) (rule moves_item_splice)

text \<open>
  C6: Reordering is safe end to end: whatever member is dropped on whatever target, every order that the
  page sends at once or keeps to send after the enabling request goes to the current pool and is a
  permutation of the members on the screen.
\<close>

theorem drop_sends_permutation:
  assumes "moves_item mv" and "distinct (map member_id (pd_members s))"
    and "s' = foldl (\<lambda>t c. drag_handler c t) s (handleDragEnd mv single (pd_members s) k over)"
    and "PutReorder n ids \<in> set (drop (length (pd_sent s)) (pd_sent s')) \<or>
      PCrossEnable n b ids \<in> set (drop (length (pd_pending s)) (pd_pending s'))"
  shows "n = pd_poolId s \<and> mset ids = mset (map member_id (pd_members s))"
  using reorder_source.orders_sent [OF drag_area_reorders [OF assms(1)], of s n ids single k over b] assms
  by (simp add: reorder_source.dropped_def [OF drag_area_reorders [OF assms(1)]])

section \<open>A self check to its end\<close>

text \<open>
  The targets answer in some order: \<open>(i, as)\<close> is the target at place \<open>i\<close> of those left, with its answers.
  \<open>probe_log\<close> is the account and the attempts of each, \<open>full_order\<close> that every target answers once.
\<close>

fun probe_log :: "(pool_member \<times> jstr list) list \<Rightarrow> (nat \<times> probe_answer list) list \<Rightarrow>
    (int \<times> (jstr \<times> probe_answer) list) list" where
  "probe_log left [] = []"
| "probe_log left ((i, as) # ps) =
     (member_account_id (fst (left ! i)), zip (snd (left ! i)) as) #
     probe_log (take i left @ drop (Suc i) left) ps"

fun full_order :: "nat \<Rightarrow> (nat \<times> probe_answer list) list \<Rightarrow> bool" where
  "full_order n [] \<longleftrightarrow> n = 0"
| "full_order n (p # ps) \<longleftrightarrow> fst p < n \<and> full_order (n - 1) ps"

lemma probe_log_accounts:
  "full_order (length left) ps \<Longrightarrow> mset (map fst (probe_log left ps)) = mset (map (member_account_id \<circ> fst) left)"
proof (induction left ps rule: probe_log.induct)
  case (2 left i as ps)
  then have i: "i < length left" "full_order (length (take i left @ drop (Suc i) left)) ps" by auto
  have "mset left = add_mset (left ! i) (mset (take i left @ drop (Suc i) left))"
    using i(1) by (metis id_take_nth_drop mset_append mset.simps(2) union_mset_add_mset_right)
  then show ?case using "2.IH" [OF i(2)] by simp
qed simp

definition probe_all :: "(nat \<times> probe_answer list) list \<Rightarrow> pool_page \<Rightarrow> pool_page" where
  "probe_all ps s = foldl (\<lambda>t p. probed (fst p) (snd p) t) s ps"

definition log_request :: "int \<times> (jstr \<times> probe_answer) list \<Rightarrow> pool_request" where
  "log_request x = ProbeResult (fst x) (probe_status (snd x)) (probe_last_error (snd x))"

lemma probe_all_ends:
  assumes "pd_check s = Some run" and "ck_left run \<noteq> []" and "full_order (length (ck_left run)) ps"
  shows "pd_sent (probe_all ps s) = pd_sent s @ map log_request (probe_log (ck_left run) ps) \<and>
    pd_toasts (probe_all ps s) = pd_toasts s @
      [check_report (ck_results run @ map (\<lambda>x. probe_passed (snd x)) (probe_log (ck_left run) ps))] \<and>
    \<not> pd_selfChecking (probe_all ps s) \<and> pd_check (probe_all ps s) = None"
  using assms
proof (induction ps arbitrary: s run)
  case (Cons p ps)
  obtain i as where p: "p = (i, as)" by (cases p)
  obtain m models where m: "ck_left run ! i = (m, models)" by (cases "ck_left run ! i")
  define left where "left = take i (ck_left run) @ drop (Suc i) (ck_left run)"
  have i: "i < length (ck_left run)" "full_order (length left) ps" using Cons.prems by (auto simp: p left_def)
  show ?case
  proof (cases "left = []")
    case True
    with i(2) have "ps = []" by (cases ps) auto
    then show ?thesis
      using Cons.prems i True
      by (simp add: probe_all_def p probed_def m Let_def flip: left_def) (simp add: finish_check_def end_check_def pd_setters setFlash_def log_request_def)
  next
    case False
    let ?run = "run\<lparr>ck_left := left, ck_results := ck_results run @ [probe_passed (zip models as)]\<rparr>"
    let ?s = "probed i as s"
    have s: "pd_check ?s = Some ?run" "pd_toasts ?s = pd_toasts s"
      "pd_sent ?s = pd_sent s @ [log_request (member_account_id m, zip models as)]"
      using Cons.prems i False by (simp_all add: probed_def m Let_def flip: left_def) (simp_all add: pd_send_def setFlash_def log_request_def)
    show ?thesis using Cons.IH [OF s(1)] False i(2) by (simp add: probe_all_def p m s flip: left_def)
  qed
qed simp

text \<open>
  C14: The self check reports every member once: from the moment it has a token, whatever the order in
  which the targets answer, it posts one verdict for each enabled member, healthy exactly if some model
  of it answered well, then reports the number of good verdicts out of all members and unlocks.
\<close>

theorem self_check_reports_every_member:
  fixes s :: pool_page
  assumes "token \<noteq> []" and "ms \<noteq> []" and "full_order (length ms) ps"
  defines "s0 \<equiv> begin_check ms token s" and "pl \<equiv> probe_log (check_targets ms) ps"
  shows "pd_sent (probe_all ps s0) = pd_sent s0 @
      map (\<lambda>x. ProbeResult (fst x) (if ProbeOk \<in> snd ` set (snd x) then js ''healthy'' else js ''error'')
        (probe_last_error (snd x))) pl \<and>
    mset (map fst pl) = mset (map member_account_id ms) \<and>
    pd_toasts (probe_all ps s0) = pd_toasts s @ [check_report (map (\<lambda>x. ProbeOk \<in> snd ` set (snd x)) pl)] \<and>
    \<not> pd_selfChecking (probe_all ps s0)"
proof -
  have t: "map fst (check_targets ms) = ms" using check_targets_complete [of ms] by simp
  then have len: "length (check_targets ms) = length ms" by (metis length_map)
  then have ne: "check_targets ms \<noteq> []" using assms(2) by auto
  have s0: "pd_check s0 = Some \<lparr>ck_token = token, ck_left = check_targets ms, ck_results = []\<rparr>" "pd_toasts s0 = pd_toasts s"
    using assms(1) ne by (simp_all add: s0_def begin_check_def Let_def)
  have r: "log_request = (\<lambda>x. ProbeResult (fst x) (if ProbeOk \<in> snd ` set (snd x) then js ''healthy'' else js ''error'')
        (probe_last_error (snd x)))"
    by (auto simp: log_request_def probe_status_def probe_passed_iff)
  have "mset (map fst pl) = mset (map member_account_id (map fst (check_targets ms)))"
    using probe_log_accounts [of "check_targets ms" ps] assms(3) len by (simp add: pl_def)
  then show ?thesis
    using probe_all_ends [OF s0(1), of ps] ne assms(3) len
    by (simp add: t r s0(2) pl_def probe_passed_iff)
qed

section \<open>A run\<close>

definition pool_of :: "int \<Rightarrow> pool" where
  "pool_of i =
     \<lparr>pool_id = i, pool_label = [], pool_priority = 0, pool_enabled = True, routing_policy = js ''ordered'',
      account_count = 0, healthy_account_count = 0, routable_account_count = 0, pool_models = [],
      pool_created_at = [], pool_updated_at = []\<rparr>"

definition token_of :: "int \<Rightarrow> access_token" where
  "token_of i =
     \<lparr>token_id = i, token_name = [], token_value = None, token_masked = [], token_pool_id = i, token_pool_label = None,
      token_enabled = True, token_created_at = [], token_updated_at = [], token_last_used_at = None\<rparr>"

definition detail_with :: "int \<Rightarrow> pool_detail_response" where
  "detail_with i =
     \<lparr>detail_pool = pool_of i, detail_members = None, detail_tokens = [token_of i], detail_models = [],
      detail_stats = \<lparr>total_requests = 0, success_rate = 0, total_input_tokens = 0, total_output_tokens = 0,
        by_account = [], by_token = []\<rparr>\<rparr>"

text \<open>The page of pool 5, mounted and loaded; its token is being revealed.\<close>

definition page0 :: pool_page where
  "page0 = pd_mount (router_init (js ''/admin/pools/5'')) admin_ui_init"

definition page1 :: pool_page where
  "page1 = pd_step page0 (LoadAnswered 1 (Inr (detail_with 5)))"

lemma digit_number: "string_to_number (js ''5'') = Num 5" "string_to_number (js ''6'') = Num 6"
  by (simp_all add: string_to_number_def js_def trim_def is_js_space_def toLowerCase_def lower_unit_def
      decimal_value_def is_digit_def exponent_part_def digits_val_def pow10_def to_double_def Let_def)

lemma sample_match:
  "matchPath (js ''/admin/pools/:id'') (js ''/admin/pools/5'') = Inr (Some [(js ''id'', js ''5'')])"
  "matchPath (js ''/admin/pools/:id'') (js ''/admin/pools/6'') = Inr (Some [(js ''id'', js ''6'')])"
  by code_simp+

lemma sample_paths [simp]:
  "pathname (router_init (js ''/admin/pools/5'')) = js ''/admin/pools/5''"
  "pathname (router_init (js ''/admin/pools/6'')) = js ''/admin/pools/6''"
  "page_pool_id (js ''/admin/pools/5'') = Num 5" "page_pool_id (js ''/admin/pools/6'') = Num 6"
  "PageRouter (js ''/admin/pools/5'') = Inr (PoolDetailPage [(js ''id'', js ''5'')])"
  "PageRouter (js ''/admin/pools/6'') = Inr (PoolDetailPage [(js ''id'', js ''6'')])"
proof -
  show "pathname (router_init (js ''/admin/pools/5'')) = js ''/admin/pools/5''" by code_simp
  show "pathname (router_init (js ''/admin/pools/6'')) = js ''/admin/pools/6''" by code_simp
qed (simp_all add: page_pool_id_def PageRouter_def sample_match map_get_def digit_number)

lemma valid_numbers [simp]: "valid_pool_id (Num 5) = Some 5" "valid_pool_id (Num 6) = Some 6"
  by (simp_all add: valid_pool_id_def)

lemma page0_eq:
  "page0 = (pd_blank (router_init (js ''/admin/pools/5'')) admin_ui_init)
     \<lparr>pd_loadSeq := 1, pd_loads := [5], pd_sent := [GetPoolDetail 5], pd_autoRun := 1\<rparr>"
  by (simp add: page0_def pd_mount_def pd_load_def pd_send_def pd_blank_def auto_reveal_def Let_def
      primaryPoolTokenId_def poolTokens_def)

lemma page1_eq:
  "page1 = page0\<lparr>pd_hasLoaded := True, pd_detail := Some (detail_with 5), pd_loading := False, pd_autoRun := 2,
     pd_revealInFlight := [5], pd_waiting := [(5, WAuto 2)], pd_sent := [GetPoolDetail 5, RevealToken 5]\<rparr>"
  by (simp add: page1_def page0_eq pd_step_def pd_mounted_def pd_blank_def load_answered_def pd_flush_def Let_def
      pd_poolId_def poolTokenCacheKey_def poolTokens_def primaryPoolTokenId_def detail_with_def token_of_def
      show_int_def nat_digits.simps auto_reveal_def cached_token_def map_get_def reveal_def pd_send_def)

lemma page1_runs: "pd_runs orderly page1"
proof -
  have "pd_runs orderly page0" unfolding page0_def by (rule pd_runs.mount)
  moreover have "pd_possible page0 (LoadAnswered 1 (Inr (detail_with 5)))"
    by (simp add: page0_eq detail_with_def pool_of_def)
  ultimately show ?thesis unfolding page1_def by (rule pd_runs.event) simp
qed

lemma page1_facts:
  "pd_mounted page1" "pd_poolId page1 = Num 5" "pool_view_of page1 = ShowPool (detail_with 5)"
  "pd_detail page1 = Some (detail_with 5)" "pd_hasLoaded page1" "pd_loadSeq page1 = 1" "pd_pending page1 = []"
  by (simp_all add: page1_eq page0_eq pd_blank_def pd_mounted_def pd_poolId_def pool_view_of_def)

theorem shown_pool_is_current_witness:
  "pool_view_of page1 = ShowPool (detail_with 5) \<and> valid_pool_id (pd_poolId page1) = Some (pool_id (detail_pool (detail_with 5)))"
  using shown_pool_is_current [OF page1_runs page1_facts(1)] page1_facts(3) by simp

theorem pool_page_not_stuck_witness:
  "pd_waiting page1 = [(5, WAuto 2)] \<and> 5 \<in> set (pd_revealInFlight page1)"
proof -
  have "pd_waiting page1 = [(5, WAuto 2)]" by (simp add: page1_eq)
  then show ?thesis using pool_page_not_stuck [OF page1_runs] by simp
qed

section \<open>Where the page goes wrong\<close>

lemma pd_flush_quiet:
  assumes "pd_poolId old = pd_poolId s" and "pd_ui old = pd_ui s" and "pd_detail old = pd_detail s"
  shows "pd_flush old s = s"
proof -
  have "poolTokens old = poolTokens s" using assms(3) by (simp add: poolTokens_def)
  then show ?thesis
    using assms by (simp add: pd_flush_def Let_def poolTokenCacheKey_def primaryPoolTokenId_def)
qed

lemma pd_flush_loaded:
  assumes "pd_poolId old = pd_poolId s" and "pd_ui old = pd_ui s"
  shows "load_part (pd_flush old s) = load_part s"
  using assms by (simp add: pd_flush_def Let_def)

lemma pool_view_cong:
  assumes "load_part s = load_part t"
  shows "pool_view_of s = pool_view_of t" "pd_poolId s = pd_poolId t"
  by (simp_all only: pool_view_of_def pd_poolId_def load_part_eqD [OF assms])

text \<open>The newest load is answered.\<close>

lemma newest_load_shown:
  assumes "pd_mounted s" and "pd_error s = None"
  shows "pool_view_of (pd_step s (LoadAnswered (pd_loadSeq s) (Inr d))) = ShowPool d"
    "pd_poolId (pd_step s (LoadAnswered (pd_loadSeq s) (Inr d))) = pd_poolId s"
proof -
  let ?s = "load_answered (pd_loadSeq s) (Inr d) s"
  have l: "?s = s\<lparr>pd_hasLoaded := True, pd_detail := Some d, pd_loading := False\<rparr>"
    by (simp add: load_answered_def)
  have "load_part (pd_flush s ?s) = load_part ?s"
    by (rule pd_flush_loaded) (simp_all add: l pd_poolId_def)
  then have "pool_view_of (pd_flush s ?s) = pool_view_of ?s" "pd_poolId (pd_flush s ?s) = pd_poolId ?s"
    by (rule pool_view_cong)+
  moreover have "pd_mounted ?s" using assms(1) by (simp add: l pd_mounted_def)
  ultimately show "pool_view_of (pd_step s (LoadAnswered (pd_loadSeq s) (Inr d))) = ShowPool d"
    "pd_poolId (pd_step s (LoadAnswered (pd_loadSeq s) (Inr d))) = pd_poolId s"
    using assms by (simp_all add: pd_step_def Let_def l pool_view_of_def pd_poolId_def)
qed

text \<open>
  A late failure brings another pool back. The handler of the routing policy reloads with the
  \<open>load\<close> of the render it was started in: if its request fails after the page has moved on to another
  pool, the reload of the old pool is the newest one, its answer is accepted, and the page shows the old
  pool under the address of the new one.
\<close>

theorem late_policy_failure_shows_other_pool:
  fixes f :: call_failure
  assumes "pd_mounted s" and "i < length (pd_pending s)" and "pd_pending s ! i = PPolicy n next"
    and "valid_pool_id n = Some a" and "valid_pool_id (pd_poolId s) = Some b" and "pool_id (detail_pool d) = a"
  defines "s1 \<equiv> pd_step s (Answered i (Inl f))"
  defines "s2 \<equiv> pd_step s1 (LoadAnswered (pd_loadSeq s1) (Inr d))"
  shows "pd_sent s1 = pd_sent s @ [GetPoolDetail a] \<and> pool_view_of s2 = ShowPool d \<and>
    pool_id (detail_pool d) = a \<and> valid_pool_id (pd_poolId s2) = Some b"
proof -
  define h where "h = answered i (Inl f) s"
  have h: "pd_router h = pd_router s" "pd_ui h = pd_ui s" "pd_detail h = pd_detail s" "pd_error h = None"
    "pd_sent h = pd_sent s @ [GetPoolDetail a]"
    using assms(2-4) by (simp_all add: h_def answered_def continue_with_def pd_load_def pd_toast_def pd_send_def)
  have "pd_mounted h" "pd_poolId h = pd_poolId s" using assms(1) h by (simp_all add: pd_mounted_def pd_poolId_def)
  moreover from this have "s1 = h"
    using assms(1) h pd_flush_quiet [of s h] by (simp add: s1_def pd_step_def h_def)
  ultimately show ?thesis
    using newest_load_shown [of h d] h assms(5,6) by (simp add: s2_def)
qed

definition page_left :: pool_page where
  "page_left = (pd_blank (router_init (js ''/admin/pools/5'')) admin_ui_init)
     \<lparr>pd_loading := False, pd_hasLoaded := True, pd_detail := Some (detail_with 5), pd_pending := [PPolicy (Num 6) (js ''ordered'')]\<rparr>"

theorem late_policy_failure_shows_other_pool_witness:
  "\<exists>s. valid_pool_id (pd_poolId s) = Some 5 \<and> pool_view_of s = ShowPool (detail_with 6)"
proof -
  have "pd_mounted page_left" "pd_poolId page_left = Num 5" "pd_pending page_left = [PPolicy (Num 6) (js ''ordered'')]"
    by (simp_all add: page_left_def pd_blank_def pd_mounted_def pd_poolId_def)
  moreover have "pool_id (detail_pool (detail_with 6)) = 6" by (simp add: detail_with_def pool_of_def)
  ultimately show ?thesis
    using late_policy_failure_shows_other_pool [of page_left 0 "Num 6" "js ''ordered''" 6 5 "detail_with 6"]
    by auto
qed

text \<open>
  A token that arrives late is handed to another pool: a caller waits for the token of the pool it was
  started on, and no check ties the answer to the pool that is on the screen when it comes.
\<close>

lemma settle_keeps:
  "pd_router (settle a s w) = pd_router s" "pd_detail (settle a s w) = pd_detail s"
  by (rule load_part_eqD, simp)+

lemma settle_connect:
  "v \<noteq> [] \<Longrightarrow> pd_connectTokenValue s = Some v \<Longrightarrow> pd_connectTokenValue (settle (Inr v) s w) = Some v"
  "v \<noteq> [] \<Longrightarrow> pd_setupOpen s \<and> pd_dialogToken s = v \<Longrightarrow>
     pd_setupOpen (settle (Inr v) s w) \<and> pd_dialogToken (settle (Inr v) s w) = v"
  by (cases w; simp add: settle_def resume_def setup_with_def begin_check_def end_check_def pd_toast_def Let_def)+

lemma settles_connect:
  "v \<noteq> [] \<Longrightarrow> pd_connectTokenValue s = Some v \<and> pd_setupOpen s \<and> pd_dialogToken s = v \<Longrightarrow>
     (let t = foldl (settle (Inr v)) s ws in pd_connectTokenValue t = Some v \<and> pd_setupOpen t \<and> pd_dialogToken t = v)"
  by (induction ws arbitrary: s) (simp_all add: settle_connect)

lemma settles_setup:
  assumes "v \<noteq> []" and "WSetup \<in> set ws"
  shows "let t = foldl (settle (Inr v)) s ws in pd_connectTokenValue t = Some v \<and> pd_setupOpen t \<and> pd_dialogToken t = v"
proof -
  obtain us vs where ws: "ws = us @ WSetup # vs" using assms(2) by (meson split_list)
  let ?s = "settle (Inr v) (foldl (settle (Inr v)) s us) WSetup"
  have "pd_connectTokenValue ?s = Some v \<and> pd_setupOpen ?s \<and> pd_dialogToken ?s = v"
    using assms(1) by (simp add: settle_def resume_def setup_with_def)
  then show ?thesis using settles_connect [OF assms(1)] by (simp add: ws)
qed

lemma ui_of_settle:
  "pd_ui (settle a s w) = pd_ui s" "pd_ui (foldl (settle a) s ws) = pd_ui s"
proof -
  show one: "pd_ui (settle a t w) = pd_ui t" for t w
    by (cases w; cases a)
      (simp_all add: settle_def resume_def setup_with_def begin_check_def end_check_def pd_toast_def Let_def)
  show "pd_ui (foldl (settle a) s ws) = pd_ui s" by (induction ws arbitrary: s) (simp_all add: one)
qed

text \<open>
  A late token opens the setup of another pool: whoever pressed for the setup of a pool whose token
  was still being revealed, and then went to another pool with another token, gets the dialog of the new
  pool with the token of the old one, and the page goes on using that token for the new pool.
\<close>

theorem late_token_connects_other_pool:
  assumes "pd_mounted s" and "t \<in> set (pd_revealInFlight s)" and "(t, WSetup) \<in> set (pd_waiting s)"
    and "primaryPoolTokenId s = Some u" and "u \<noteq> t" and "v \<noteq> []"
  defines "s1 \<equiv> pd_step s (RevealAnswered t (Inr v))"
  shows "pd_setupOpen s1 \<and> pd_dialogToken s1 = v \<and> primaryPoolTokenId s1 = Some u \<and>
    getTokenForConnect WSetup s1 = setup_with v s1"
proof -
  define h where "h = reveal_answered t (Inr v) s"
  have "WSetup \<in> set (map snd (filter (\<lambda>x. fst x = t) (pd_waiting s)))" using assms(3) by force
  from settles_setup [OF assms(6) this] have c: "pd_connectTokenValue h = Some v" "pd_setupOpen h" "pd_dialogToken h = v"
    using assms(2) by (simp_all add: h_def reveal_answered_def Let_def)
  have l: "load_part h = load_part s" by (simp add: h_def)
  have ui: "pd_ui h = pd_ui s" by (simp add: h_def reveal_answered_def Let_def ui_of_settle)
  have "pd_mounted h" using assms(1) load_part_eqD(1) [OF l] by (simp add: pd_mounted_def)
  moreover have "pd_flush s h = h"
    by (rule pd_flush_quiet) (simp_all add: pd_poolId_def load_part_eqD [OF l] ui)
  ultimately have "s1 = h" using assms(1) by (simp add: s1_def pd_step_def h_def)
  moreover have "primaryPoolTokenId h = Some u"
    using assms(4) by (simp add: primaryPoolTokenId_def poolTokens_def load_part_eqD(2) [OF l])
  ultimately show ?thesis using c assms(6) by (simp add: getTokenForConnect_def resume_def or_str_def)
qed

definition page_waiting :: pool_page where
  "page_waiting = page1\<lparr>pd_router := router_init (js ''/admin/pools/6''), pd_detail := Some (detail_with 6),
     pd_waiting := [(5, WSetup)]\<rparr>"

theorem late_token_connects_other_pool_witness:
  "\<exists>s. pd_setupOpen s \<and> pd_dialogToken s = js ''five'' \<and> primaryPoolTokenId s = Some 6"
proof -
  have "pd_mounted page_waiting" "5 \<in> set (pd_revealInFlight page_waiting)" "(5, WSetup) \<in> set (pd_waiting page_waiting)"
    "primaryPoolTokenId page_waiting = Some 6"
    by (simp_all add: page_waiting_def page1_eq page0_eq pd_blank_def pd_mounted_def primaryPoolTokenId_def poolTokens_def
        detail_with_def token_of_def)
  from late_token_connects_other_pool [OF this, of "js ''five''"] show ?thesis by (auto simp: js_def)
qed

text \<open>
  A failure without a message is taken for none: the old pool stays on the screen. Such a failure comes
  from an answer whose body is not JSON and whose status has no text.
\<close>

lemma empty_failure_shows_old_pool:
  assumes "pd_mounted s" and "pd_detail s = Some d" and "cf_message f = Some []"
  shows "pool_view_of (pd_step s (LoadAnswered (pd_loadSeq s) (Inl f))) = ShowPool d"
proof -
  let ?s = "load_answered (pd_loadSeq s) (Inl f) s"
  have l: "?s = s\<lparr>pd_error := Some [], pd_loading := False\<rparr>"
    using assms(3) by (simp add: load_answered_def failure_text_def nullish_def)
  have "pd_flush s ?s = ?s" by (rule pd_flush_quiet) (simp_all add: l pd_poolId_def)
  moreover have "pd_mounted ?s" using assms(1) by (simp add: l pd_mounted_def)
  ultimately show ?thesis using assms by (simp add: pd_step_def l pool_view_of_def)
qed

text \<open>A pool with the four members of the drag area's sample.\<close>

definition page_sorted :: pool_page where
  "page_sorted = page1\<lparr>pd_detail := Some ((detail_with 5)\<lparr>detail_members := Some sample_members\<rparr>)\<rparr>"

theorem drop_sends_permutation_witness:
  "mset [8, 9, 7, 12 :: int] = mset (map member_id (pd_members page_sorted))"
proof -
  have m: "pd_members page_sorted = sample_members" by (simp add: page_sorted_def pd_members_def nullish_def)
  have "distinct (map member_id sample_members)" by code_simp
  then show ?thesis
    using drop_sends_permutation [OF moves_item_splice, of page_sorted
        "foldl (\<lambda>t c. drag_handler c t) page_sorted [OnReorder [8, 9, 7, 12]]" True "js ''7''" "Some (js ''9'')"
        "pd_poolId page_sorted" "[8, 9, 7, 12]" False]
    by (simp add: m sample_same_zone reorderMembers_def pd_setters)
qed

theorem self_check_reports_every_member_witness:
  "\<not> pd_selfChecking (probe_all [(1, [ProbeOk]), (0, [ProbeStatus 500 None])]
      (begin_check [sample_member 7 True, sample_member 8 True] (js ''t'') page1))"
  using self_check_reports_every_member [of "js ''t''" "[sample_member 7 True, sample_member 8 True]"
      "[(1, [ProbeOk]), (0, [ProbeStatus 500 None])]" page1]
  by (simp add: js_def)

end
