(* ===== verification/PoolDialogs.thy ===== *)
theory PoolDialogs
  imports PoolDetail
begin

text \<open>
  The dialogs around a pool: \<open>PoolSettingsDialog\<close> of \<^verbatim>\<open>web/src/pages/PoolDetailPage.tsx\<close>, which renames,
  enables, disables and deletes the pool it is given, and \<^verbatim>\<open>web/src/components/PoolCreateDialog.tsx\<close>, which
  creates one. The answer of the server is an argument of each handler; a handler also returns what it
  sent, what it announced and which callbacks of its parent it called.
\<close>

section \<open>The settings of a pool\<close>

record settings_dialog =
  sd_open :: bool
  sd_label :: jstr
  sd_savingLabel :: bool
  sd_statusSaving :: bool
  sd_deleteSaving :: bool
  sd_disableConfirmOpen :: bool
  sd_deleteConfirmOpen :: bool

record dialog_effects =
  de_sent :: "pool_request list"
  de_toasts :: "jstr list"
  de_changed :: bool
  de_deleted :: bool

definition no_effects :: dialog_effects where
  "no_effects = \<lparr>de_sent = [], de_toasts = [], de_changed = False, de_deleted = False\<rparr>"

definition dialog_initial :: "pool \<Rightarrow> settings_dialog" where
  "dialog_initial p =
     \<lparr>sd_open = False, sd_label = pool_label p, sd_savingLabel = False, sd_statusSaving = False,
      sd_deleteSaving = False, sd_disableConfirmOpen = False, sd_deleteConfirmOpen = False\<rparr>"

text \<open>The effect on \<open>open\<close> and \<open>pool.label\<close>: while the dialog is open it starts over with the pool's name.\<close>

definition dialog_reset :: "pool \<Rightarrow> settings_dialog \<Rightarrow> settings_dialog" where
  "dialog_reset p d = (if sd_open d then (dialog_initial p)\<lparr>sd_open := True\<rparr> else d)"

definition dialog_render :: "pool \<Rightarrow> settings_dialog \<Rightarrow> pool \<Rightarrow> settings_dialog \<Rightarrow> settings_dialog" where
  "dialog_render p0 d0 p d =
     (if sd_open d0 \<noteq> sd_open d \<or> pool_label p0 \<noteq> pool_label p then dialog_reset p d else d)"

definition saveLabel :: "pool \<Rightarrow> call_failure + unit \<Rightarrow> settings_dialog \<Rightarrow> settings_dialog \<times> dialog_effects" where
  "saveLabel p answer d =
     (let nextLabel = trim (sd_label d) in
      if nextLabel = [] then (d, no_effects\<lparr>de_toasts := [c_pd_need_label]\<rparr>)
      else
        (let e = no_effects\<lparr>de_sent :=
               [PutPool (Num (of_int (pool_id p))) nextLabel (pool_priority p) (pool_enabled p) (routing_policy p)]\<rparr> in
         (d\<lparr>sd_savingLabel := False\<rparr>,
          case answer of
            Inr _ \<Rightarrow> e\<lparr>de_toasts := [c_pd_label_saved], de_changed := True\<rparr>
          | Inl f \<Rightarrow> e\<lparr>de_toasts := [failure_text f c_pd_label_failed]\<rparr>)))"

definition save_enabled :: "pool \<Rightarrow> settings_dialog \<Rightarrow> bool" where
  "save_enabled p d \<longleftrightarrow> \<not> (sd_savingLabel d \<or> trim (sd_label d) = pool_label p)"

definition setPoolEnabled ::
    "pool \<Rightarrow> bool \<Rightarrow> call_failure + unit \<Rightarrow> settings_dialog \<Rightarrow> settings_dialog \<times> dialog_effects" where
  "setPoolEnabled p enabled answer d =
     (let e = no_effects\<lparr>de_sent := [PostPoolStatus (pool_id p) enabled]\<rparr> in
      case answer of
        Inr _ \<Rightarrow>
          (d\<lparr>sd_disableConfirmOpen := False, sd_statusSaving := False\<rparr>,
           e\<lparr>de_toasts := [if enabled then c_pd_pool_enabled else c_pd_pool_disabled], de_changed := True\<rparr>)
      | Inl f \<Rightarrow> (d\<lparr>sd_statusSaving := False\<rparr>, e\<lparr>de_toasts := [failure_text f c_pd_status_failed]\<rparr>))"

definition deletePool :: "pool \<Rightarrow> call_failure + unit \<Rightarrow> settings_dialog \<Rightarrow> settings_dialog \<times> dialog_effects" where
  "deletePool p answer d =
     (let e = no_effects\<lparr>de_sent := [DeletePoolRequest (pool_id p)]\<rparr> in
      (d\<lparr>sd_deleteSaving := False\<rparr>,
       case answer of
         Inr _ \<Rightarrow> e\<lparr>de_toasts := [c_pd_pool_deleted], de_deleted := True\<rparr>
       | Inl f \<Rightarrow> e\<lparr>de_toasts := [failure_text f c_pd_pool_delete_failed]\<rparr>))"

text \<open>The page carries out the effects: \<open>onChanged\<close> refreshes the data, \<open>onDeleted\<close> leaves the pool.\<close>

definition settings_done :: "pool \<Rightarrow> dialog_effects \<Rightarrow> pool_page \<Rightarrow> pool_page" where
  "settings_done p e s =
     (let s1 = s\<lparr>pd_sent := pd_sent s @ de_sent e, pd_toasts := pd_toasts s @ de_toasts e\<rparr>;
          s2 = (if de_changed e then pd_refresh s1 else s1)
      in if de_deleted e then onDeleted (pool_id p) s2 else s2)"

section \<open>Creating a pool\<close>

definition POOL_NAME_SUGGESTIONS :: "jstr list" where
  "POOL_NAME_SUGGESTIONS = [js ''OpenAI'', js ''Claude'', js ''Gemini'', js ''Codex'']"

datatype create_request = ListPools | CreatePool jstr int

record create_dialog =
  cd_ui :: admin_ui
  cd_router :: router_state
  cd_label :: jstr
  cd_saving :: bool
  cd_sent :: "create_request list"
  cd_toasts :: "jstr list"

definition create_initial :: "admin_ui \<Rightarrow> router_state \<Rightarrow> create_dialog" where
  "create_initial ui r = \<lparr>cd_ui = ui, cd_router = r, cd_label = [], cd_saving = False, cd_sent = [], cd_toasts = []\<rparr>"

text \<open>The effect on \<open>createPoolOpen\<close>.\<close>

definition create_render :: "create_dialog \<Rightarrow> create_dialog \<Rightarrow> create_dialog" where
  "create_render d0 d =
     (if createPoolOpen (cd_ui d0) \<noteq> createPoolOpen (cd_ui d) \<and> createPoolOpen (cd_ui d)
      then d\<lparr>cd_label := [], cd_saving := False\<rparr> else d)"

definition create_enabled :: "create_dialog \<Rightarrow> bool" where
  "create_enabled d \<longleftrightarrow> \<not> (cd_saving d \<or> trim (cd_label d) = [])"

definition create_failed :: "call_failure \<Rightarrow> create_dialog \<Rightarrow> create_dialog" where
  "create_failed f d = d\<lparr>cd_toasts := cd_toasts d @ [failure_text f c_pc_failed], cd_saving := False\<rparr>"

definition createPool ::
    "call_failure + pool list option \<Rightarrow> call_failure + pool \<Rightarrow> create_dialog \<Rightarrow> create_dialog" where
  "createPool existing created d =
     (let nextLabel = trim (cd_label d) in
      if nextLabel = [] then d\<lparr>cd_toasts := cd_toasts d @ [c_pc_need_label]\<rparr>
      else
        (let d1 = d\<lparr>cd_sent := cd_sent d @ [ListPools]\<rparr> in
         case existing of
           Inl f \<Rightarrow> create_failed f d1
         | Inr ps \<Rightarrow>
             (let d2 = d1\<lparr>cd_sent := cd_sent d1 @ [CreatePool nextLabel (int (length (nullish ps [])) + 1)]\<rparr> in
              case created of
                Inl f \<Rightarrow> create_failed f d2
              | Inr p \<Rightarrow>
                  d2\<lparr>cd_toasts := cd_toasts d2 @ [c_pc_created],
                     cd_ui := refreshData (closeCreatePool (cd_ui d2)),
                     cd_router := navigate (cd_router d2) (pool_href (pool_id p)) False,
                     cd_saving := False\<rparr>)))"

section \<open>Lemmas\<close>

lemma show_int_inj: "show_int a = show_int b \<Longrightarrow> a = b"
  by (metis read_show_int)

text \<open>
  Deleting a pool leaves it: the page asks for the list of pools and goes to the first other pool of the
  answer, or to the overview if there is none or the list cannot be read; never back to the deleted one.
\<close>

theorem deleted_pool_is_left:
  "next_href k answer \<noteq> pool_href k \<and>
   (next_href k answer = js ''/admin'' \<or>
    (\<exists>ps p. answer = Inr (Some ps) \<and> p \<in> set ps \<and> pool_id p \<noteq> k \<and> next_href k answer = pool_href (pool_id p)))"
proof -
  have "pool_href k \<noteq> js ''/admin''" by (simp add: pool_href_def js_def)
  then show ?thesis
    by (auto simp: next_href_def nullish_def pool_href_def find_Some_iff dest!: show_int_inj
        split: sum.splits option.splits) (metis nth_mem)+
qed

text \<open>
  Renaming changes nothing else: every request to save a name carries the pool's own priority, state and
  routing policy and a name that is trimmed and not empty.
\<close>

theorem saveLabel_keeps_rest:
  "PutPool n l pr en rp \<in> set (de_sent (snd (saveLabel p answer d))) \<longleftrightarrow>
     trim (sd_label d) \<noteq> [] \<and> n = Num (of_int (pool_id p)) \<and> l = trim (sd_label d) \<and> pr = pool_priority p \<and>
     en = pool_enabled p \<and> rp = routing_policy p"
  by (auto simp: saveLabel_def Let_def no_effects_def split: sum.split)

text \<open>A new pool goes to the end of the list it was counted in, and its page is opened.\<close>

theorem createPool_appends:
  "createPool (Inr ps) (Inr p) d =
     (if trim (cd_label d) = [] then d\<lparr>cd_toasts := cd_toasts d @ [c_pc_need_label]\<rparr>
      else d\<lparr>cd_sent := cd_sent d @ [ListPools, CreatePool (trim (cd_label d)) (int (length (nullish ps [])) + 1)],
             cd_toasts := cd_toasts d @ [c_pc_created], cd_ui := refreshData (closeCreatePool (cd_ui d)),
             cd_router := navigate (cd_router d) (pool_href (pool_id p)) False, cd_saving := False\<rparr>)"
  by (simp add: createPool_def Let_def)

end
