(* ===== verification/CodexSetup.thy ===== *)
theory CodexSetup
  imports LunePrelude
begin

text \<open>
  \<^verbatim>\<open>web/src/components/CodexSetupDialog.tsx\<close>: the shell lines and the configuration file with which a pool is
  set up in the Codex command line tool. A name chosen by the user becomes part of an environment variable,
  of a shell command and of a TOML file; the lemmas show that it arrives there unharmed. Unicode
  normalisation and the class of letters and numbers are data of the Unicode standard and arguments.
\<close>

record unicode =
  nfkd :: "jstr \<Rightarrow> jstr"
  letter_or_number :: "nat \<Rightarrow> bool"

section \<open>Names\<close>

text \<open>The iteration of a string: surrogate pairs are one code point.\<close>

fun code_points :: "jstr \<Rightarrow> nat list" where
  "code_points [] = []"
| "code_points [c] = [c]"
| "code_points (c # d # r) =
     (if 0xD800 \<le> c \<and> c < 0xDC00 \<and> 0xDC00 \<le> d \<and> d < 0xE000
      then (0x10000 + (c - 0xD800) * 0x400 + (d - 0xDC00)) # code_points r
      else c # code_points (d # r))"

fun hex_digits :: "nat \<Rightarrow> jstr" where
  "hex_digits n =
     (let d = n mod 16; c = (if d < 10 then 48 + d else 87 + d) in
      if n < 16 then [c] else hex_digits (n div 16) @ [c])"

declare hex_digits.simps [simp del]

definition ascii_alnum :: "nat \<Rightarrow> bool" where
  "ascii_alnum c \<longleftrightarrow> 48 \<le> c \<and> c \<le> 57 \<or> 65 \<le> c \<and> c \<le> 90 \<or> 97 \<le> c \<and> c \<le> 122"

definition ascii_lower1 :: "nat \<Rightarrow> nat" where
  "ascii_lower1 c = (if 65 \<le> c \<and> c \<le> 90 then c + 32 else c)"

text \<open>One character of the loop: the parts and whether a separator is due.\<close>

definition slug_step :: "unicode \<Rightarrow> jstr list \<times> bool \<Rightarrow> nat \<Rightarrow> jstr list \<times> bool" where
  "slug_step u st c =
     (let (parts, pendingSeparator) = st;
          sep = (if pendingSeparator \<and> parts \<noteq> [] then [js ''-''] else [])
      in if 0x300 \<le> c \<and> c \<le> 0x36F then st
         else if c = 0 then st
         else if ascii_alnum c then (parts @ sep @ [[ascii_lower1 c]], False)
         else if letter_or_number u c then (parts @ sep @ [js ''u'' @ hex_digits c], True)
         else (parts, parts \<noteq> []))"

fun collapse_dashes :: "jstr \<Rightarrow> jstr" where
  "collapse_dashes [] = []"
| "collapse_dashes [c] = [c]"
| "collapse_dashes (c # d # r) =
     (if c = 45 \<and> d = 45 then collapse_dashes (d # r) else c # collapse_dashes (d # r))"

definition strip_dashes :: "jstr \<Rightarrow> jstr" where
  "strip_dashes s = rev (dropWhile (\<lambda>c. c = 45) (rev (dropWhile (\<lambda>c. c = 45) s)))"

definition slug_parts :: "unicode \<Rightarrow> jstr \<Rightarrow> jstr list" where
  "slug_parts u poolLabel = fst (foldl (slug_step u) ([], False) (code_points (nfkd u (trim poolLabel))))"

definition poolSlug :: "unicode \<Rightarrow> jstr \<Rightarrow> jstr" where
  "poolSlug u poolLabel =
     or_str (Some (strip_dashes (collapse_dashes (concat (slug_parts u poolLabel))))) (js ''pool'')"

definition providerId :: "unicode \<Rightarrow> jstr \<Rightarrow> jstr" where
  "providerId u poolLabel = js ''lune-'' @ poolSlug u poolLabel"

text \<open>\<open>toUpperCase\<close> on a slug, whose letters are ASCII.\<close>

definition slug_upper :: "nat \<Rightarrow> nat" where
  "slug_upper c = (if 97 \<le> c \<and> c \<le> 122 then c - 32 else c)"

definition envKey :: "unicode \<Rightarrow> jstr \<Rightarrow> jstr" where
  "envKey u poolLabel =
     js ''LUNE_POOL_'' @ map slug_upper (map (\<lambda>c. if c = 45 then 95 else c) (poolSlug u poolLabel)) @ js ''_API_KEY''"

section \<open>Quoting\<close>

definition escapeTomlString :: "jstr \<Rightarrow> jstr" where
  "escapeTomlString value = replace_all [34] [92, 34] (replace_all [92] [92, 92] value)"

definition shellQuote :: "jstr \<Rightarrow> jstr" where
  "shellQuote value = [39] @ replace_all [39] [39, 92, 39, 39] value @ [39]"

section \<open>What the dialog offers\<close>

definition envLine :: "unicode \<Rightarrow> jstr \<Rightarrow> jstr \<Rightarrow> jstr" where
  "envLine u poolLabel token = js ''export '' @ envKey u poolLabel @ js ''='' @ shellQuote token"

definition bashrcLine :: "unicode \<Rightarrow> jstr \<Rightarrow> jstr \<Rightarrow> jstr" where
  "bashrcLine u poolLabel token =
     (let key = envKey u poolLabel in
      js ''touch ~/.bashrc && perl -0pi -e '' @ [39] @ js ''s/^export '' @ key @ js ''=.*'' @ [92] @
      js ''n?//mg'' @ [39] @ js '' ~/.bashrc && printf '' @ [34, 92] @ js ''nexport '' @ key @ js ''='' @ [39] @
      js ''%s'' @ [39, 92] @ js ''n'' @ [34] @ js '' '' @ shellQuote token @ js '' >> ~/.bashrc'')"

definition buildCodexConfig :: "unicode \<Rightarrow> jstr \<Rightarrow> jstr \<Rightarrow> jstr \<Rightarrow> jstr" where
  "buildCodexConfig u poolLabel baseUrl model = concat (map (\<lambda>l. l @ [10])
     [js ''model = '' @ [34] @ escapeTomlString model @ [34],
      js ''model_provider = '' @ [34] @ providerId u poolLabel @ [34],
      js ''profile = '' @ [34] @ js ''full'' @ [34],
      [],
      js ''model_reasoning_effort = '' @ [34] @ js ''medium'' @ [34],
      js ''model_reasoning_summary = '' @ [34] @ js ''concise'' @ [34],
      js ''model_verbosity = '' @ [34] @ js ''low'' @ [34],
      [],
      js ''approval_policy = '' @ [34] @ js ''never'' @ [34],
      js ''web_search = '' @ [34] @ js ''live'' @ [34],
      js ''personality = '' @ [34] @ js ''pragmatic'' @ [34],
      js ''disable_response_storage = true'',
      js ''suppress_unstable_features_warning = true'',
      [],
      js ''project_root_markers = ['' @ [34] @ js ''.git'' @ [34] @ js '']'',
      [],
      js ''[history]'',
      js ''persistence = '' @ [34] @ js ''save-all'' @ [34],
      [],
      js ''[tui]'',
      js ''notifications = true'',
      js ''notification_method = '' @ [34] @ js ''auto'' @ [34],
      js ''show_tooltips = false'',
      [],
      js ''[shell_environment_policy]'',
      js ''inherit = '' @ [34] @ js ''all'' @ [34],
      js ''ignore_default_excludes = false'',
      [],
      js ''[sandbox_workspace_write]'',
      js ''network_access = true'',
      [],
      js ''[tools]'',
      js ''view_image = true'',
      js ''web_search = true'',
      [],
      js ''[profiles.cli-auto]'',
      js ''approval_policy = '' @ [34] @ js ''never'' @ [34],
      js ''sandbox_mode = '' @ [34] @ js ''workspace-write'' @ [34],
      [],
      js ''[profiles.review]'',
      js ''approval_policy = '' @ [34] @ js ''on-request'' @ [34],
      js ''sandbox_mode = '' @ [34] @ js ''workspace-write'' @ [34],
      [],
      js ''[profiles.full]'',
      js ''approval_policy = '' @ [34] @ js ''never'' @ [34],
      js ''sandbox_mode = '' @ [34] @ js ''danger-full-access'' @ [34],
      [],
      js ''[model_providers.'' @ providerId u poolLabel @ js '']'',
      js ''name = '' @ [34] @ js ''Lune / '' @ escapeTomlString poolLabel @ [34],
      js ''base_url = '' @ [34] @ escapeTomlString baseUrl @ [34],
      js ''env_key = '' @ [34] @ envKey u poolLabel @ [34],
      js ''wire_api = '' @ [34] @ js ''responses'' @ [34],
      js ''request_max_retries = 4'',
      js ''stream_max_retries = 10'',
      js ''stream_idle_timeout_ms = 300000''])"

section \<open>Readers\<close>

text \<open>
  A POSIX shell reads a text as one word: between single quotes every character stands for itself, a
  backslash outside quotes makes the next one literal, and an unquoted blank or operator ends the word.
  The flag says whether the text starts inside quotes.
\<close>

definition sh_operator :: "nat \<Rightarrow> bool" where
  "sh_operator c \<longleftrightarrow> c \<in> set (js '' ;&|<>()$*?[#~=%!{}'') \<union> {9, 10, 13, 34, 96}"

fun sh_word :: "bool \<Rightarrow> jstr \<Rightarrow> jstr option" where
  "sh_word True [] = None"
| "sh_word False [] = Some []"
| "sh_word True (c # r) = (if c = 39 then sh_word False r else map_option (Cons c) (sh_word True r))"
| "sh_word False (c # r) =
     (if c = 39 then sh_word True r
      else if c = 92 then (case r of [] \<Rightarrow> None | d # r' \<Rightarrow> map_option (Cons d) (sh_word False r'))
      else if sh_operator c then None
      else map_option (Cons c) (sh_word False r))"

text \<open>
  A TOML reader inside a basic string: the value up to the closing quote and the rest. Control
  characters are not allowed; of the escapes only those of the quote and the backslash are read.
\<close>

fun toml_string :: "jstr \<Rightarrow> (jstr \<times> jstr) option" where
  "toml_string [] = None"
| "toml_string (c # r) =
     (if c = 34 then Some ([], r)
      else if c = 92 then
        (case r of
           [] \<Rightarrow> None
         | d # r' \<Rightarrow> if d = 34 \<or> d = 92 then map_option (apfst (Cons d)) (toml_string r') else None)
      else if c < 32 \<and> c \<noteq> 9 \<or> c = 127 then None
      else map_option (apfst (Cons c)) (toml_string r))"

section \<open>Lemmas\<close>

lemma replace_all_unit: "replace_all [c] t s = concat (map (\<lambda>x. if x = c then t else [x]) s)"
proof (induction s)
  case Nil
  then show ?case by (simp add: replace_all_def split_on.simps)
next
  case (Cons x s)
  have "split_on [c] s \<noteq> []" by (rule split_on_nonempty) simp
  then obtain p ps where p: "split_on [c] s = p # ps" by (cases "split_on [c] s") auto
  have "split_on [c] (x # s) = (if x = c then [] # p # ps else (x # p) # ps)"
    by (subst split_on.simps) (auto simp: startsWith_def p)
  with Cons.IH p show ?case by (cases ps) (auto simp: replace_all_def)
qed

lemma sh_word_quoted:
  "sh_word True (concat (map (\<lambda>x. if x = 39 then [39, 92, 39, 39] else [x]) v) @ [39]) = Some v"
  by (induction v) auto

text \<open>
  C26: No token can break out of the shell line: whatever characters it holds, a POSIX shell reads the
  quoted token as exactly one word, and that word is the token.
\<close>

theorem shellQuote_roundtrip: "sh_word False (shellQuote v) = Some v"
  using sh_word_quoted [of v] by (simp add: shellQuote_def replace_all_unit)

lemma escape_concat:
  "escapeTomlString v = concat (map (\<lambda>x. if x = 34 then [92, 34] else if x = 92 then [92, 92] else [x]) v)"
  by (induction v) (auto simp: escapeTomlString_def replace_all_unit)

text \<open>
  A value written into the configuration is read back: for every text without control characters, a
  TOML reader finds the end of the string where it was put and gets the text.
\<close>

theorem toml_escape_roundtrip:
  assumes "\<forall>c \<in> set v. \<not> (c < 32 \<and> c \<noteq> 9 \<or> c = 127)"
  shows "toml_string (escapeTomlString v @ 34 # rest) = Some (v, rest)"
  using assms by (induction v) (auto simp: escape_concat)

theorem toml_escape_roundtrip_witness:
  "toml_string (escapeTomlString [34, 92, 65] @ 34 # [10]) = Some ([34, 92, 65], [10])"
  by (rule toml_escape_roundtrip) simp

section \<open>Safe names\<close>

definition slug_char :: "nat \<Rightarrow> bool" where
  "slug_char c \<longleftrightarrow> 97 \<le> c \<and> c \<le> 122 \<or> 48 \<le> c \<and> c \<le> 57 \<or> c = 45"

lemma hex_digits_slug: "c \<in> set (hex_digits n) \<Longrightarrow> slug_char c"
proof (induction n rule: hex_digits.induct)
  case (1 n)
  have "n mod 16 < 16" by simp
  with 1 show ?case by (subst (asm) hex_digits.simps) (auto simp: Let_def slug_char_def split: if_splits)
qed

lemma slug_step_slug:
  "\<forall>p \<in> set (fst st). \<forall>x \<in> set p. slug_char x \<Longrightarrow> \<forall>p \<in> set (fst (slug_step u st c)). \<forall>x \<in> set p. slug_char x"
  by (cases st)
    (auto simp: slug_step_def Let_def js_def slug_char_def ascii_alnum_def ascii_lower1_def dest: hex_digits_slug)

lemma slug_parts_slug: "p \<in> set (slug_parts u l) \<Longrightarrow> x \<in> set p \<Longrightarrow> slug_char x"
proof -
  have "\<forall>p \<in> set (fst (foldl (slug_step u) st cs)). \<forall>x \<in> set p. slug_char x"
    if "\<forall>p \<in> set (fst st). \<forall>x \<in> set p. slug_char x" for st cs
    using that
  proof (induction cs arbitrary: st)
    case (Cons c cs)
    show ?case using Cons.IH [OF slug_step_slug [OF Cons.prems]] by simp
  qed simp
  from this [of "([], False)"] show "p \<in> set (slug_parts u l) \<Longrightarrow> x \<in> set p \<Longrightarrow> slug_char x"
    by (auto simp: slug_parts_def)
qed

lemma set_collapse: "set (collapse_dashes s) \<subseteq> set s"
  by (induction s rule: collapse_dashes.induct) auto

lemma strip_dashes_edges:
  assumes "strip_dashes s \<noteq> []"
  shows "set (strip_dashes s) \<subseteq> set s" "hd (strip_dashes s) \<noteq> 45" "last (strip_dashes s) \<noteq> 45"
proof -
  let ?d = "dropWhile (\<lambda>c. c = 45) s" and ?e = "dropWhile (\<lambda>c. c = 45) (rev (dropWhile (\<lambda>c. c = 45) s))"
  have e: "?e \<noteq> []" using assms by (simp add: strip_dashes_def)
  show "set (strip_dashes s) \<subseteq> set s" by (auto simp: strip_dashes_def dest!: set_dropWhileD)
  show "last (strip_dashes s) \<noteq> 45" using hd_dropWhile [OF e] e by (simp add: strip_dashes_def last_rev)
  obtain v where v: "rev ?d = v @ ?e" by (metis takeWhile_dropWhile_id)
  then have d: "?d = rev ?e @ rev v" by (metis rev_append rev_rev_ident)
  then have "?d \<noteq> []" using e by (metis append_is_Nil_conv rev_is_Nil_conv)
  from hd_dropWhile [OF this] show "hd (strip_dashes s) \<noteq> 45"
    using d e by (metis hd_append rev_is_Nil_conv strip_dashes_def)
qed

lemma poolSlug_chars:
  "poolSlug u l \<noteq> [] \<and> list_all slug_char (poolSlug u l) \<and> hd (poolSlug u l) \<noteq> 45 \<and> last (poolSlug u l) \<noteq> 45"
proof (cases "strip_dashes (collapse_dashes (concat (slug_parts u l))) = []")
  case True
  then show ?thesis by (simp add: poolSlug_def or_str_def js_def slug_char_def)
next
  case False
  then have eq: "poolSlug u l = strip_dashes (collapse_dashes (concat (slug_parts u l)))"
    by (simp add: poolSlug_def or_str_def)
  have "set (poolSlug u l) \<subseteq> set (concat (slug_parts u l))"
    unfolding eq using strip_dashes_edges(1) [OF False] set_collapse by blast
  then have "list_all slug_char (poolSlug u l)" using slug_parts_slug by (fastforce simp: list_all_iff)
  then show ?thesis using strip_dashes_edges(2,3) [OF False] False by (simp add: eq)
qed

text \<open>
  Every pool name gives safe names, whatever characters it holds and whatever the Unicode tables say:
  the provider id is a bare TOML key of lower case letters, digits and dashes, and the environment
  variable has only capitals, digits and underscores, so that it can stand unquoted in the shell
  command and in the pattern that removes the old line.
\<close>

theorem pool_names_safe:
  "list_all slug_char (providerId u l) \<and>
   list_all (\<lambda>c. 65 \<le> c \<and> c \<le> 90 \<or> 48 \<le> c \<and> c \<le> 57 \<or> c = 95) (envKey u l) \<and>
   sh_word False (envKey u l) = Some (envKey u l)"
proof -
  have key: "list_all (\<lambda>c. 65 \<le> c \<and> c \<le> 90 \<or> 48 \<le> c \<and> c \<le> 57 \<or> c = 95) (envKey u l)"
    using poolSlug_chars [of u l] by (auto simp: envKey_def js_def list_all_iff slug_char_def slug_upper_def)
  have "sh_word False k = Some k" if "list_all (\<lambda>c. 65 \<le> c \<and> c \<le> 90 \<or> 48 \<le> c \<and> c \<le> 57 \<or> c = 95) k" for k
    using that by (induction k) (auto simp: sh_operator_def js_def)
  with key show ?thesis
    using poolSlug_chars [of u l] by (simp add: providerId_def js_def slug_char_def)
qed

text \<open>
  Two pools can get the same names: punctuation, case and accents of the label are dropped, so the
  set-up of the second overwrites the variable of the first.
\<close>

theorem pools_share_variable:
  "envKey \<lparr>nfkd = id, letter_or_number = (\<lambda>_. False)\<rparr> (js ''team a'') =
   envKey \<lparr>nfkd = id, letter_or_number = (\<lambda>_. False)\<rparr> (js ''Team-A!'')"
proof -
  let ?u = "\<lparr>nfkd = id, letter_or_number = (\<lambda>_. False)\<rparr>"
  have "trim (js ''team a'') = js ''team a''" "trim (js ''Team-A!'') = js ''Team-A!''"
    by (rule trim_id; simp add: js_def is_js_space_def)+
  then have "slug_parts ?u (js ''team a'') = slug_parts ?u (js ''Team-A!'')"
    by (simp add: slug_parts_def js_def slug_step_def ascii_alnum_def ascii_lower1_def)
  then show ?thesis by (simp add: envKey_def poolSlug_def)
qed

end
