(* ===== verification/Cards.thy ===== *)
theory Cards
  imports RouteHealth Quota
begin

text \<open>
  What the card of an account shows: the chips of \<^verbatim>\<open>web/src/components/AccountCard.tsx\<close>, the request and
  success strip of \<^verbatim>\<open>web/src/components/DirectAccountSignal.tsx\<close> and the bars of
  \<^verbatim>\<open>web/src/components/CodexQuotaBars.tsx\<close>. A class name of the styling stands for the tone it encodes.
\<close>

section \<open>Chips\<close>

datatype chip_tone = ChipDefault | ChipWarning | ChipDanger | ChipProcessing | ChipBinding

record card_chip =
  chip_label :: jstr
  chip_detail :: "jstr option"
  chip_tone_of :: chip_tone

definition chipClass :: "chip_tone \<Rightarrow> jstr" where
  "chipClass t =
     (case t of
        ChipDanger \<Rightarrow> js ''bg-status-red/10 text-status-red''
      | ChipWarning \<Rightarrow> js ''bg-status-yellow/12 text-status-yellow''
      | ChipProcessing \<Rightarrow> js ''bg-fog-100 text-fog-500''
      | ChipBinding \<Rightarrow> js ''bg-lunar-100/85 text-lunar-700''
      | ChipDefault \<Rightarrow> js ''bg-moon-100/70 text-moon-500'')"

definition chip_of_tone :: "tone \<Rightarrow> chip_tone" where
  "chip_of_tone t = (case t of ToneDefault \<Rightarrow> ChipDefault | ToneWarning \<Rightarrow> ChipWarning | ToneDanger \<Rightarrow> ChipDanger)"

definition compactCredentialLabel :: "jstr \<Rightarrow> jstr" where
  "compactCredentialLabel l = (if l = c_card_relogin_long then c_card_relogin_short else l)"

text \<open>\<open>toUpperCase\<close> of one code unit: ASCII and Latin-1 letters.\<close>

definition upper_unit :: "nat \<Rightarrow> jstr" where
  "upper_unit c =
     (if 97 \<le> c \<and> c \<le> 122 then [c - 32]
      else if 0xE0 \<le> c \<and> c \<le> 0xFE \<and> c \<noteq> 0xF7 then [c - 32]
      else if c = 0xDF then [83, 83] else if c = 0xFF then [0x178] else if c = 0xB5 then [0x39C]
      else [c])"

definition plan_chip :: "jstr \<Rightarrow> chip_tone \<Rightarrow> card_chip" where
  "plan_chip l t = \<lparr>chip_label = l, chip_detail = None, chip_tone_of = t\<rparr>"

definition getPlanChip :: "account option \<Rightarrow> bool \<Rightarrow> card_chip option" where
  "getPlanChip acc isCodexCpa =
     (case acc of
        None \<Rightarrow> None
      | Some a \<Rightarrow>
          if \<not> isCodexCpa then None
          else
            (let plan = trim (cpa_plan_type a);
                 status = or_str (cpa_subscription_status a) (js ''unknown'')
             in if plan \<noteq> [] then Some (plan_chip (upper_unit (hd plan) @ slice_from 1 plan) ChipBinding)
                else if status = js ''active'' then Some (plan_chip (js ''Plus'') ChipBinding)
                else if status = js ''free'' then Some (plan_chip (js ''Free'') ChipBinding)
                else Some (plan_chip c_card_plan_unknown ChipProcessing)))"

definition compactQuotaChip :: "card_chip option \<Rightarrow> card_chip option" where
  "compactQuotaChip chip =
     (case chip of
        None \<Rightarrow> None
      | Some c \<Rightarrow> Some (if chip_label c = c_card_limited_long then c\<lparr>chip_label := c_card_limited_short\<rparr> else c))"

text \<open>A quota error serves as a chip.\<close>

definition quota_chip :: "quota_error_meta \<Rightarrow> card_chip" where
  "quota_chip q =
     \<lparr>chip_label = qm_label q, chip_detail = Some (qm_detail q), chip_tone_of = chip_of_tone (qm_tone q)\<rparr>"

definition blocking_credential :: "jstr \<Rightarrow> bool" where
  "blocking_credential status \<longleftrightarrow>
     status \<in> {js ''needs_login'', js ''refresh_failed'', js ''runtime_error'', js ''runtime_pending'', js ''unknown'', []}"

definition has_tone :: "tone \<Rightarrow> quota_error_meta option \<Rightarrow> bool" where
  "has_tone t q \<longleftrightarrow> (case q of None \<Rightarrow> False | Some m \<Rightarrow> qm_tone m = t)"

definition cooldown_chip :: "account \<Rightarrow> card_chip" where
  "cooldown_chip a =
     (let evidence = (if is_codex a then getCpaQuotaErrorMeta a else None) in
      if has_tone ToneWarning evidence then quota_chip (the evidence)
      else \<lparr>chip_label = c_card_cooldown, chip_detail = Some (or_str (last_error a) (or_str (cooldown_until a) [])),
            chip_tone_of = ChipProcessing\<rparr>)"

definition getMainIssueChip ::
    "host \<Rightarrow> account option \<Rightarrow> credential_meta option \<Rightarrow> quota_error_meta option \<Rightarrow> card_chip option" where
  "getMainIssueChip h acc credential quotaError =
     (case acc of
        None \<Rightarrow> None
      | Some a \<Rightarrow>
          (let credentialStatus = or_str (cpa_credential_status a) (js ''unknown'') in
           if hasRuntimeBindingIssue h acc then
             Some \<lparr>chip_label = c_card_binding, chip_detail = Some c_card_binding_detail, chip_tone_of = ChipBinding\<rparr>
           else if source_kind a = js ''cpa'' \<and> blocking_credential credentialStatus \<and> credential \<noteq> None then
             Some \<lparr>chip_label = compactCredentialLabel (cm_label (the credential)),
                   chip_detail = Some (cm_detail (the credential)),
                   chip_tone_of = (if credentialStatus = js ''runtime_pending'' then ChipProcessing
                                   else chip_of_tone (cm_tone (the credential)))\<rparr>
           else if has_tone ToneDanger quotaError then Some (quota_chip (the quotaError))
           else if serving_status a = Some (js ''cooldown'') then Some (cooldown_chip a)
           else if serving_status a = Some (js ''error'') then
             Some \<lparr>chip_label = c_card_serving_error,
                   chip_detail = (if truthy_str (last_error a) then last_error a else None), chip_tone_of = ChipDanger\<rparr>
           else if has_tone ToneWarning quotaError then Some (quota_chip (the quotaError))
           else if source_kind a = js ''cpa'' \<and> credentialStatus = js ''auth_suspect'' \<and> credential \<noteq> None then
             Some \<lparr>chip_label = compactCredentialLabel (cm_label (the credential)),
                   chip_detail = Some (cm_detail (the credential)), chip_tone_of = ChipWarning\<rparr>
           else None))"

definition requestChip :: "int \<Rightarrow> card_chip" where
  "requestChip requests =
     \<lparr>chip_label = c_card_today @ compact requests, chip_detail = None, chip_tone_of = ChipDefault\<rparr>"

definition cardChips :: "host \<Rightarrow> account option \<Rightarrow> int \<Rightarrow> card_chip list" where
  "cardChips h acc requests =
     (let credential = Option.bind acc getCpaCredentialMeta; quotaError = Option.bind acc getCpaQuotaErrorMeta in
      requestChip requests #
      (case compactQuotaChip (getMainIssueChip h acc credential quotaError) of None \<Rightarrow> [] | Some c \<Rightarrow> [c]))"

section \<open>The strip of a direct account\<close>

definition DOT_COUNT :: nat where
  "DOT_COUNT = 10"

definition REQUEST_DOT_THRESHOLDS :: "int list" where
  "REQUEST_DOT_THRESHOLDS = [1, 10, 50, 100, 500, 1000, 5000, 10000, 50000, 100000]"

fun count_reached :: "int \<Rightarrow> int list \<Rightarrow> nat" where
  "count_reached requests [] = 0"
| "count_reached requests (threshold # ts) = (if requests \<ge> threshold then Suc (count_reached requests ts) else 0)"

definition requestsToFilledDots :: "int \<Rightarrow> nat" where
  "requestsToFilledDots requests =
     (if requests \<le> 0 then 0 else min (count_reached requests REQUEST_DOT_THRESHOLDS) DOT_COUNT)"

datatype success_tone = SNone | SHealthy | SFine | SWarn | SBroken

record success_signal =
  sg_percent :: rat
  sg_label :: jstr
  sg_title :: jstr
  sg_tone :: success_tone

text \<open>\<open>toFixed(1)\<close> without a trailing \<open>.0\<close>.\<close>

definition formatSuccess :: "rat \<Rightarrow> jstr" where
  "formatSuccess percent =
     (if percent \<ge> 9995/100 then js ''100%''
      else if percent \<ge> 10 then toFixed 0 percent @ js ''%''
      else (let t = toFixed 1 percent in
            (if endsWith t (js ''.0'') then take (length t - 2) t else t) @ js ''%''))"

definition describeSuccess :: "int \<Rightarrow> rat option \<Rightarrow> success_signal" where
  "describeSuccess requests rate =
     (case (if requests \<le> 0 then None else rate) of
        None \<Rightarrow> \<lparr>sg_percent = 0, sg_label = c_sig_dash, sg_title = c_sig_none, sg_tone = SNone\<rparr>
      | Some r \<Rightarrow>
          (let percent = max 0 (min 1 r) * 100; label = formatSuccess percent in
           \<lparr>sg_percent = percent, sg_label = label,
            sg_title = c_sig_rate @ label @ c_sig_open @ show_int requests @ c_sig_close,
            sg_tone = (if percent \<ge> 99 then SHealthy else if percent \<ge> 95 then SFine
                       else if percent \<ge> 80 then SWarn else SBroken)\<rparr>))"

section \<open>The quota bars\<close>

definition clampPercent :: "jsnum \<Rightarrow> rat" where
  "clampPercent v = (case v of Num x \<Rightarrow> if x < 0 then 0 else if x > 100 then 100 else x | _ \<Rightarrow> 0)"

definition formatPercent :: "rat \<Rightarrow> jstr" where
  "formatPercent v =
     (if v = 0 then js ''0%'' else if v < 1 then toFixed 1 v @ js ''%'' else show_int (math_round v) @ js ''%'')"

text \<open>A row of the bars: what remains, what is used, and the tone unless the data is stale.\<close>

record quota_row =
  qr_remain :: rat
  qr_used :: rat
  qr_tone :: window_tone
  qr_text :: jstr

definition quota_bar :: "quota_window \<Rightarrow> bool \<Rightarrow> quota_row" where
  "quota_bar w stale =
     (let remain = clampPercent (Num (100 - usedPercent w)); used = clampPercent (Num (usedPercent w)) in
      \<lparr>qr_remain = remain, qr_used = used, qr_tone = (if stale then WOk else windowTone remain),
       qr_text = formatPercent remain\<rparr>)"

definition quota_blocked_notice :: "codex_quota \<Rightarrow> bool" where
  "quota_blocked_notice q \<longleftrightarrow> \<not> quota_allowed q \<or> limitReached q"

section \<open>Lemmas\<close>

text \<open>
  A green card shows no issue: whenever the route badge of an account is healthy, its card has no
  chip but the request count. The badge and the chip are computed by different code from different
  fields, so this is the agreement of the two.
\<close>

theorem healthy_card_has_no_issue:
  assumes "getRouteHealth h (Some a) me d = Healthy"
  shows "cardChips h (Some a) requests = [requestChip requests]"
proof -
  from assms have r: "isAccountRoutable h a" and p: "\<not> accountHasRoutePenalty (Some a)"
    and c: "serving_status a \<noteq> Some (js ''cooldown'')"
    by (simp_all add: Healthy_iff)
  have q: "\<not> has_tone t (getCpaQuotaErrorMeta a)" if "t \<noteq> ToneDefault" for t
  proof (cases "is_cpa a")
    case True
    have "cpa_quota_status a \<notin> {Some (js ''blocked''), Some (js ''error''), Some (js ''unknown'')}"
      using routable_cpa_facts(2) [OF r True] p True by (auto simp: accountHasRoutePenalty_def)
    then show ?thesis
      by (auto simp: has_tone_def getCpaQuotaErrorMeta_def Let_def or_str_def js_def split: option.splits if_splits)
  qed (simp add: has_tone_def getCpaQuotaErrorMeta_def)
  have b: "\<not> (source_kind a = js ''cpa'' \<and> blocking_credential (or_str (cpa_credential_status a) (js ''unknown'')))"
    using routable_cpa [OF r]
    by (auto simp: isCpaOtherwiseRoutable_def blocking_credential_def or_str_def split: if_splits option.splits)
  have a: "\<not> (source_kind a = js ''cpa'' \<and> or_str (cpa_credential_status a) (js ''unknown'') = js ''auth_suspect'')"
    using p by (auto simp: accountHasRoutePenalty_def or_str_def js_def split: option.splits if_splits)
  have "getMainIssueChip h (Some a) (getCpaCredentialMeta a) (getCpaQuotaErrorMeta a) = None"
    using routable_no_binding_issue [OF r] routable_serving_error [OF r] q [of ToneDanger] q [of ToneWarning] a b c
    by (auto simp: getMainIssueChip_def Let_def)
  then show ?thesis by (simp add: cardChips_def compactQuotaChip_def)
qed

theorem healthy_card_has_no_issue_witness:
  "getRouteHealth sample_host (Some (blank_account\<lparr>acc_status := js ''healthy''\<rparr>)) True None = Healthy \<and>
   cardChips sample_host (Some (blank_account\<lparr>acc_status := js ''healthy''\<rparr>)) 3 = [requestChip 3]"
proof -
  have "getRouteHealth sample_host (Some (blank_account\<lparr>acc_status := js ''healthy''\<rparr>)) True None = Healthy"
    by (simp add: route_eval blank_account_def)
  then show ?thesis using healthy_card_has_no_issue by blast
qed

text \<open>
  The dot strip counts the thresholds reached, so it never shrinks when the requests grow and is full
  exactly from the last threshold on.
\<close>

lemma count_reached_sorted:
  "sorted ts \<Longrightarrow> count_reached n ts = length (filter (\<lambda>t. t \<le> n) ts)"
  by (induction ts) (auto simp: filter_empty_conv)

theorem filled_dots_spec:
  "requestsToFilledDots n = length (filter (\<lambda>t. t \<le> n) REQUEST_DOT_THRESHOLDS) \<and>
   requestsToFilledDots n \<le> DOT_COUNT \<and> (requestsToFilledDots n = DOT_COUNT \<longleftrightarrow> 100000 \<le> n)"
proof -
  have "count_reached n REQUEST_DOT_THRESHOLDS = length (filter (\<lambda>t. t \<le> n) REQUEST_DOT_THRESHOLDS)"
    by (rule count_reached_sorted) (simp add: REQUEST_DOT_THRESHOLDS_def)
  moreover have "length (filter (\<lambda>t. t \<le> n) REQUEST_DOT_THRESHOLDS) \<le> DOT_COUNT"
    by (simp add: REQUEST_DOT_THRESHOLDS_def DOT_COUNT_def)
  moreover have "n \<le> 0 \<Longrightarrow> filter (\<lambda>t. t \<le> n) REQUEST_DOT_THRESHOLDS = []"
    by (simp add: REQUEST_DOT_THRESHOLDS_def)
  moreover have "length (filter (\<lambda>t. t \<le> n) REQUEST_DOT_THRESHOLDS) = DOT_COUNT \<longleftrightarrow> 100000 \<le> n"
    by (simp add: REQUEST_DOT_THRESHOLDS_def DOT_COUNT_def)
  ultimately show ?thesis by (auto simp: requestsToFilledDots_def)
qed

text \<open>
  A quota bar is always within its rail, and what it shows as used and as remaining add up, whatever
  percentage the payload claims.
\<close>

theorem quota_bar_bounds:
  "0 \<le> qr_remain (quota_bar w stale) \<and> qr_remain (quota_bar w stale) \<le> 100 \<and>
   qr_remain (quota_bar w stale) + qr_used (quota_bar w stale) = 100"
  by (simp add: quota_bar_def clampPercent_def Let_def)

text \<open>
  The label of a success rate claims a full hundred percent too early: the threshold for that text is
  99.95, but from 99.5 on the rounding of the branch below already prints it.
\<close>

theorem failures_shown_as_hundred_percent: "formatSuccess (996/10) = js ''100%'' \<and> (996/10 :: rat) < 9995/100"
proof -
  have "\<lfloor>1001 / 10 :: rat\<rfloor> = 100" by (rule floor_unique) simp_all
  then show ?thesis
    by (simp add: formatSuccess_def toFixed_def toFixed_pos_def math_round_def show_int_def nat_digits.simps js_def Let_def)
qed

end
