(* ===== verification/AccountSheet.thy ===== *)
theory AccountSheet
  imports Cards Requests CodexSetup
begin

text \<open>
  The sheet of one account, \<^verbatim>\<open>web/src/components/AccountDetailSheet.tsx\<close>: the latency meter, the connection
  form of a direct account, the models of the self check (with \<^verbatim>\<open>ProbeModelChipPicker.tsx\<close>), the playground
  and the diagnostic table. Each panel is a record of its state with its handlers; answers of the server
  are arguments, and an edit of the probe models waits for its answer among other edits.
\<close>

section \<open>Latency\<close>

datatype latency_state = LatLoading | LatReady "rat option" "rat option" | LatEmpty | LatError

text \<open>
  The panel asks again whenever the account or the pool changes; the number of the run stands for the
  \<open>cancelled\<close> flag of its effect.
\<close>

record latency_panel =
  lp_run :: nat
  lp_state :: latency_state

datatype latency_event =
    LatencyAsk
  | LatencyAnswer nat "call_failure + (rat option \<times> rat option) list option"

definition latency_of :: "(rat option \<times> rat option) list option \<Rightarrow> latency_state" where
  "latency_of buckets =
     (case buckets of
        None \<Rightarrow> LatEmpty
      | Some bs \<Rightarrow> if bs = [] then LatEmpty else LatReady (fst (last bs)) (snd (last bs)))"

fun latency_step :: "latency_panel \<Rightarrow> latency_event \<Rightarrow> latency_panel" where
  "latency_step s LatencyAsk = s\<lparr>lp_run := Suc (lp_run s), lp_state := LatLoading\<rparr>"
| "latency_step s (LatencyAnswer n a) =
     (if n \<noteq> lp_run s then s
      else s\<lparr>lp_state := (case a of Inr bs \<Rightarrow> latency_of bs | Inl _ \<Rightarrow> LatError)\<rparr>)"

definition latencyLabel :: "latency_state \<Rightarrow> jstr" where
  "latencyLabel s =
     (case s of
        LatReady (Some p) _ \<Rightarrow> latency p
      | LatLoading \<Rightarrow> c_sh_ellipsis
      | _ \<Rightarrow> c_sh_dash)"

definition latencyHint :: "latency_state \<Rightarrow> jstr" where
  "latencyHint s =
     (case s of
        LatReady _ (Some p) \<Rightarrow> js ''P95 '' @ latency p
      | LatEmpty \<Rightarrow> c_sh_no_sample
      | LatError \<Rightarrow> c_sh_read_failed
      | _ \<Rightarrow> c_sh_reading)"

definition formatSuccessRate :: "rat \<Rightarrow> jstr" where
  "formatSuccessRate value =
     (let percent = value * 100 in
      if percent \<ge> 9995/100 then js ''100%''
      else (let t = toFixed 1 percent in
            (if endsWith t (js ''.0'') then take (length t - 2) t else t) @ js ''%''))"

datatype meter_tone = MDefault | MSuccess | MWarning | MDanger

definition successTone :: "int \<Rightarrow> rat option \<Rightarrow> meter_tone" where
  "successTone requests rate =
     (case rate of
        None \<Rightarrow> MDefault
      | Some r \<Rightarrow>
          if requests = 0 then MDefault
          else if r \<ge> 99/100 then MSuccess
          else if r \<ge> 95/100 then MDefault
          else if r \<ge> 8/10 then MWarning
          else MDanger)"

section \<open>The connection of a direct account\<close>

record account_update =
  au_label :: jstr
  au_source_kind :: jstr
  au_base_url :: jstr
  au_api_key :: jstr
  au_provider :: jstr
  au_enabled :: bool
  au_notes :: jstr
  au_quota_display :: jstr

record connection_form =
  cn_account :: account
  cn_baseUrl :: jstr
  cn_apiKey :: jstr
  cn_saving :: bool
  cn_error :: "jstr option"
  cn_sent :: "(int \<times> account_update) list"
  cn_toasts :: "jstr list"
  cn_updated :: nat

definition connection_reset :: "connection_form \<Rightarrow> connection_form" where
  "connection_reset s = s\<lparr>cn_baseUrl := acc_base_url (cn_account s), cn_apiKey := [], cn_error := None\<rparr>"

text \<open>The effect on the account: a new id, address or masked key starts the form over.\<close>

definition connection_render :: "account \<Rightarrow> connection_form \<Rightarrow> connection_form" where
  "connection_render a s =
     (let s1 = s\<lparr>cn_account := a\<rparr> in
      if acc_id a \<noteq> acc_id (cn_account s) \<or> acc_base_url a \<noteq> acc_base_url (cn_account s) \<or>
         api_key_masked a \<noteq> api_key_masked (cn_account s)
      then connection_reset s1 else s1)"

definition connection_changed :: "connection_form \<Rightarrow> bool" where
  "connection_changed s \<longleftrightarrow>
     trim (cn_baseUrl s) \<noteq> trim (acc_base_url (cn_account s)) \<or> trim (cn_apiKey s) \<noteq> []"

definition canSave :: "connection_form \<Rightarrow> bool" where
  "canSave s \<longleftrightarrow> connection_changed s \<and> trim (cn_baseUrl s) \<noteq> [] \<and> \<not> cn_saving s"

definition connection_payload :: "connection_form \<Rightarrow> account_update" where
  "connection_payload s =
     (let a = cn_account s in
      \<lparr>au_label = acc_label a, au_source_kind = source_kind a, au_base_url = trim (cn_baseUrl s),
       au_api_key = trim (cn_apiKey s), au_provider = provider a, au_enabled = acc_enabled a, au_notes = acc_notes a,
       au_quota_display = quota_display a\<rparr>)"

text \<open>\<open>save\<close> up to its await, and what follows the answer.\<close>

definition save_connection :: "connection_form \<Rightarrow> connection_form" where
  "save_connection s =
     (if \<not> canSave s then s
      else s\<lparr>cn_saving := True, cn_error := None, cn_sent := cn_sent s @ [(acc_id (cn_account s), connection_payload s)]\<rparr>)"

definition save_connection_answered :: "call_failure + unit \<Rightarrow> connection_form \<Rightarrow> connection_form" where
  "save_connection_answered answer s =
     (case answer of
        Inr _ \<Rightarrow>
          s\<lparr>cn_toasts := cn_toasts s @ [c_sh_saved], cn_apiKey := [], cn_updated := Suc (cn_updated s),
            cn_saving := False\<rparr>
      | Inl f \<Rightarrow>
          s\<lparr>cn_error := Some (failure_text f c_sh_save_failed),
            cn_toasts := cn_toasts s @ [failure_text f c_sh_save_failed], cn_saving := False\<rparr>)"

section \<open>The models of the self check\<close>

definition remaining_models :: "jstr list \<Rightarrow> jstr list \<Rightarrow> jstr list" where
  "remaining_models value available = filter (\<lambda>m. m \<notin> set value) available"

definition add_model :: "jstr \<Rightarrow> jstr list \<Rightarrow> jstr list option" where
  "add_model model value = (if model = [] \<or> model \<in> set value then None else Some (value @ [model]))"

definition remove_model :: "nat \<Rightarrow> jstr list \<Rightarrow> jstr list" where
  "remove_model i value = take i value @ drop (Suc i) value"

text \<open>\<open>pb_server\<close> is what the server holds: the list of the last edit it accepted.\<close>

record probe_section =
  pb_prop :: "jstr list"
  pb_models :: "jstr list"
  pb_saving :: bool
  pb_error :: "jstr option"
  pb_pending :: "(jstr list \<times> jstr list) list"
  pb_server :: "jstr list"

definition probe_mount :: "jstr list \<Rightarrow> jstr list \<Rightarrow> probe_section" where
  "probe_mount prop server =
     \<lparr>pb_prop = prop, pb_models = prop, pb_saving = False, pb_error = None, pb_pending = [], pb_server = server\<rparr>"

text \<open>\<open>persist\<close>: an edit keeps the list it would go back to.\<close>

definition persist :: "jstr list \<Rightarrow> probe_section \<Rightarrow> probe_section" where
  "persist next s =
     s\<lparr>pb_models := next, pb_saving := True, pb_error := None, pb_pending := pb_pending s @ [(next, pb_models s)]\<rparr>"

definition persist_answered :: "nat \<Rightarrow> call_failure + unit \<Rightarrow> probe_section \<Rightarrow> probe_section" where
  "persist_answered i answer s =
     (if i \<ge> length (pb_pending s) then s
      else
        (let (next, prev) = pb_pending s ! i;
             s1 = s\<lparr>pb_pending := take i (pb_pending s) @ drop (Suc i) (pb_pending s), pb_saving := False\<rparr>
         in case answer of
              Inr _ \<Rightarrow> s1\<lparr>pb_server := next\<rparr>
            | Inl f \<Rightarrow> s1\<lparr>pb_models := prev, pb_error := Some (failure_text f c_sh_probe_failed)\<rparr>))"

section \<open>The playground\<close>

definition PRESET_MESSAGES :: "jstr list" where
  "PRESET_MESSAGES = [c_sh_preset_hello, c_sh_preset_model, []]"

record playground =
  pg_accountId :: int
  pg_models :: "jstr list"
  pg_disabled :: bool
  pg_selectedModel :: "jstr option"
  pg_message :: jstr
  pg_reply :: json
  pg_usageText :: jstr
  pg_durationMs :: "rat option"
  pg_error :: "jstr option"
  pg_loading :: bool
  pg_lastCurl :: "jstr option"

definition playground_mount :: "int \<Rightarrow> jstr list \<Rightarrow> bool \<Rightarrow> playground" where
  "playground_mount i ms disabled =
     \<lparr>pg_accountId = i, pg_models = ms, pg_disabled = disabled,
      pg_selectedModel = (case ms of [] \<Rightarrow> None | m # _ \<Rightarrow> Some m), pg_message = hd PRESET_MESSAGES,
      pg_reply = JStr [], pg_usageText = [], pg_durationMs = None, pg_error = None, pg_loading = False,
      pg_lastCurl = None\<rparr>"

text \<open>The effect that picks a model once there is one.\<close>

definition pick_model :: "playground \<Rightarrow> playground" where
  "pick_model s =
     (if or_str (pg_selectedModel s) [] = [] \<and> pg_models s \<noteq> []
      then s\<lparr>pg_selectedModel := Some (hd (pg_models s))\<rparr> else s)"

definition canSend :: "playground \<Rightarrow> bool" where
  "canSend s \<longleftrightarrow>
     \<not> pg_loading s \<and> \<not> pg_disabled s \<and> or_str (pg_selectedModel s) [] \<noteq> [] \<and> trim (pg_message s) \<noteq> []"

text \<open>What the gateway returned: a rejected call, or a status with the body as JSON if it is.\<close>

datatype chat_answer = ChatThrown "jstr option" | ChatResponse int "json option"

definition index0 :: "json option \<Rightarrow> json option" where
  "index0 v =
     (case v of
        Some (JArr (x # _)) \<Rightarrow> Some x
      | Some (JObj kvs) \<Rightarrow> json_get (JObj kvs) (js ''0'')
      | _ \<Rightarrow> None)"

definition reply_of :: "json option \<Rightarrow> json" where
  "reply_of data =
     json_nullish (opt_get (opt_get (index0 (opt_get data (js ''choices''))) (js ''message'')) (js ''content'')) (JStr [])"

definition usage_of :: "json option \<Rightarrow> jstr" where
  "usage_of data =
     (let u = opt_get data (js ''usage'');
          n = (\<lambda>k. json_string (json_nullish (opt_get u k) (JNum (Num 0)))) in
      if json_bool u then
        n (js ''prompt_tokens'') @ js '' in '' @ [0xB7] @ js '' '' @ n (js ''completion_tokens'') @ js '' out '' @ [0xB7] @
        js '' '' @ n (js ''total_tokens'') @ js '' total''
      else [])"

definition chat_body :: "jstr \<Rightarrow> jstr \<Rightarrow> bool \<Rightarrow> jstr" where
  "chat_body model content with_stream =
     json_stringify (JObj
       ([(js ''model'', JStr model),
         (js ''messages'', JArr [JObj [(js ''role'', JStr (js ''user'')), (js ''content'', JStr content)]])] @
        (if with_stream then [(js ''stream'', JBool False)] else [])))"

definition shell_body :: "jstr \<Rightarrow> jstr \<Rightarrow> jstr" where
  "shell_body model content = replace_all [39] [39, 92, 39, 39] (chat_body model content False)"

definition masked_token :: "jstr \<Rightarrow> jstr" where
  "masked_token token = (if token \<noteq> [] then slice 0 6 token @ c_sh_ellipsis else js ''<TOKEN>'')"

definition curl_line :: "jstr \<Rightarrow> int \<Rightarrow> jstr \<Rightarrow> jstr \<Rightarrow> jstr \<Rightarrow> jstr" where
  "curl_line origin i token model content =
     (let next = [92, 10] @ js ''  -H '' @ [39];
          close = [39] @ js '' ''
      in js ''curl '' @ origin @ js ''/v1/chat/completions '' @
         next @ js ''Authorization: Bearer '' @ masked_token token @ close @
         next @ js ''X-Lune-Account-Id: '' @ show_int i @ close @
         next @ js ''X-Lune-Probe-Mode: stateful'' @ close @
         next @ js ''Content-Type: application/json'' @ close @
         [92, 10] @ js ''  -d '' @ [39] @ shell_body model content @ [39])"

definition test_failed :: "jstr \<Rightarrow> jstr option \<Rightarrow> jstr \<Rightarrow> jstr \<times> jstr \<Rightarrow> playground \<Rightarrow> playground" where
  "test_failed origin msg token run s =
     s\<lparr>pg_error := Some (nullish msg c_sh_test_failed),
       pg_lastCurl := Some (curl_line origin (pg_accountId s) token (fst run) (snd run)),
       pg_loading := False\<rparr>"

definition error_message_of :: "int \<Rightarrow> json option \<Rightarrow> jstr" where
  "error_message_of code data =
     json_string (json_nullish (opt_get (opt_get data (js ''error'')) (js ''message''))
       (JStr (c_sh_request_failed @ show_int code @ js '')'')))"

text \<open>
  \<open>runTest\<close> up to its first await, returning the model and the text its closure keeps, and the rest of
  it once the token and the gateway's answer are there.
\<close>

definition runTest :: "jstr option \<Rightarrow> playground \<Rightarrow> playground \<times> (jstr \<times> jstr) option" where
  "runTest custom s =
     (let content = trim (nullish custom (pg_message s)) in
      if content = [] \<or> or_str (pg_selectedModel s) [] = [] \<or> pg_loading s \<or> pg_disabled s then (s, None)
      else
        (s\<lparr>pg_loading := True, pg_error := None, pg_reply := JStr [], pg_usageText := [], pg_durationMs := None,
           pg_lastCurl := None\<rparr>,
         Some (or_str (pg_selectedModel s) [], content)))"

definition runTest_answered ::
    "jstr \<Rightarrow> jstr \<times> jstr \<Rightarrow> call_failure + jstr \<Rightarrow> chat_answer \<Rightarrow> rat \<Rightarrow> playground \<Rightarrow> playground" where
  "runTest_answered origin run token answer elapsed s =
     (case token of
        Inl f \<Rightarrow> test_failed origin (cf_message f) [] run s
      | Inr t \<Rightarrow>
          if t = [] then test_failed origin (Some c_sh_no_token) [] run s
          else (case answer of
                  ChatThrown msg \<Rightarrow> test_failed origin msg t run s
                | ChatResponse code data \<Rightarrow>
                    if \<not> (200 \<le> code \<and> code \<le> 299) then
                      test_failed origin (Some (error_message_of code data)) t run s
                    else s\<lparr>pg_reply := reply_of data,
                           pg_usageText := (if json_bool (opt_get data (js ''usage'')) then usage_of data else pg_usageText s),
                           pg_durationMs := Some elapsed, pg_loading := False\<rparr>))"

section \<open>The sheet's answers\<close>

text \<open>The meter shows the answer to its newest question: the instance of \<open>latest_wins\<close> on its steps.\<close>

fun latency_answer :: "latency_event \<Rightarrow> nat option" where
  "latency_answer LatencyAsk = None"
| "latency_answer (LatencyAnswer n _) = Some n"

interpretation lat: latest_wins latency_step lp_run latency_answer
proof
  fix s e i
  show "latency_answer e = Some i \<Longrightarrow> i \<noteq> lp_run s \<Longrightarrow> latency_step s e = s" by (cases e) auto
  show "lp_run s \<le> lp_run (latency_step s e)" by (cases e) auto
qed

text \<open>
  The latency meter is not disturbed by answers about an account that is no longer open: every answer
  older than the newest question can be left out of the history.
\<close>

theorem latency_superseded:
  "foldl latency_step s es =
     foldl latency_step s (filter (\<lambda>e. \<forall>i. latency_answer e = Some i \<longrightarrow> lp_run s \<le> i) es)"
  by (rule lat.all_superseded_answers_ignored)

text \<open>
  Saving an address touches nothing else: the request carries the account's own label, kind, provider,
  state, notes and quota text, the trimmed address, and an empty key unless one was typed.
\<close>

lemma save_connection_sends:
  assumes "canSave s"
  shows "\<exists>p. cn_sent (save_connection s) = cn_sent s @ [(acc_id (cn_account s), p)] \<and>
     au_base_url p = trim (cn_baseUrl s) \<and> au_base_url p \<noteq> [] \<and>
     (au_base_url p \<noteq> trim (acc_base_url (cn_account s)) \<or> au_api_key p \<noteq> []) \<and>
     au_label p = acc_label (cn_account s) \<and> au_enabled p = acc_enabled (cn_account s) \<and>
     au_notes p = acc_notes (cn_account s) \<and> au_quota_display p = quota_display (cn_account s) \<and>
     \<not> canSave (save_connection s)"
  using assms by (auto simp: save_connection_def canSave_def connection_changed_def connection_payload_def Let_def)

section \<open>Edits of the probe models\<close>

text \<open>What the server holds after edits that are answered one by one.\<close>

definition accepted :: "jstr list \<Rightarrow> jstr list \<times> (call_failure + unit) \<Rightarrow> jstr list" where
  "accepted models e = (case snd e of Inr _ \<Rightarrow> fst e | Inl _ \<Rightarrow> models)"

definition edit_answered :: "probe_section \<Rightarrow> jstr list \<times> (call_failure + unit) \<Rightarrow> probe_section" where
  "edit_answered s e = persist_answered 0 (snd e) (persist (fst e) s)"

lemma edit_answered_sync:
  assumes "pb_pending s = []" and "pb_models s = pb_server s"
  shows "pb_pending (edit_answered s e) = []"
    and "pb_models (edit_answered s e) = accepted (pb_models s) e"
    and "pb_server (edit_answered s e) = accepted (pb_models s) e"
  using assms by (auto simp: edit_answered_def persist_def persist_answered_def accepted_def Let_def split: sum.splits)

text \<open>
  C21: One edit at a time, the chips always show what the server holds: after any sequence of edits, each
  answered before the next, the shown list and the server's list are both the last accepted edit. A
  refused edit is rolled back.
\<close>

theorem probe_edits_refine:
  assumes "pb_pending s = []" and "pb_models s = pb_server s"
  shows "pb_models (foldl edit_answered s es) = foldl accepted (pb_models s) es \<and>
     pb_server (foldl edit_answered s es) = foldl accepted (pb_models s) es"
  using assms
proof (induction es arbitrary: s)
  case (Cons e es)
  note sync = edit_answered_sync [OF Cons.prems, of e]
  with Cons.IH [of "edit_answered s e"] show ?case by simp
qed simp

theorem probe_edits_refine_witness:
  "pb_models (foldl edit_answered (probe_mount [] []) [([js ''a''], Inr ()), ([], Inl (throw_error []))]) = [js ''a'']"
  using probe_edits_refine [of "probe_mount [] []" "[([js ''a''], Inr ()), ([], Inl (throw_error []))]"]
  by (simp add: probe_mount_def accepted_def)

text \<open>
  Two edits at once can leave the chips wrong: with both edits on their way, the second accepted and the
  first refused afterwards, the roll-back of the first shows the list from before both, while the server
  holds the second.
\<close>

theorem overlapping_edits_diverge:
  "\<exists>s. s = persist_answered 0 (Inl (throw_error [])) (persist_answered 1 (Inr ())
        (persist [js ''a'', js ''b''] (persist [js ''a''] (probe_mount [] [])))) \<and>
     pb_pending s = [] \<and> pb_models s = [] \<and> pb_server s = [js ''a'', js ''b'']"
  by (simp add: persist_def persist_answered_def probe_mount_def)

text \<open>
  An accepted edit is not told to the page: the section is mounted again with the account's old list, so
  the chips forget it until the page reloads.
\<close>

lemma remount_forgets_edit:
  "pb_models (probe_mount (pb_prop s) (pb_server s)) = pb_prop s \<and>
   pb_prop (edit_answered s e) = pb_prop s"
  by (simp add: probe_mount_def edit_answered_def persist_def persist_answered_def Let_def split: sum.splits prod.splits)

lemma distinct_remove_model: "distinct v \<Longrightarrow> distinct (remove_model i v)"
  by (simp only: remove_model_def distinct_delete_at)

text \<open>
  The picker keeps the list free of duplicates: adding what it offers and removing by position both do,
  and it never offers a model that is already chosen.
\<close>

lemma picker_distinct:
  assumes "distinct v"
  shows "m \<in> set (remaining_models v av) \<Longrightarrow> m \<noteq> [] \<Longrightarrow> \<exists>v'. add_model m v = Some v' \<and> distinct v' \<and> set v' = insert m (set v)"
    and "distinct (remove_model i v)"
  using assms by (auto simp: remaining_models_def add_model_def distinct_remove_model)

section \<open>The playground's curl line\<close>

text \<open>
  The copied command does what the playground did: its data argument is one shell word whatever the
  model and the message hold, and that word is the JSON body with the same model and message.
\<close>

theorem curl_body_is_request:
  "sh_word False ([39] @ shell_body model content @ [39]) = Some (chat_body model content False) \<and>
   (\<exists>pre. curl_line origin i token model content = pre @ [39] @ shell_body model content @ [39])"
proof
  show "sh_word False ([39] @ shell_body model content @ [39]) = Some (chat_body model content False)"
    using sh_word_quoted [of "chat_body model content False"] by (simp add: shell_body_def replace_all_unit)
  show "\<exists>pre. curl_line origin i token model content = pre @ [39] @ shell_body model content @ [39]"
    unfolding curl_line_def Let_def by (metis append.assoc)
qed

text \<open>A finished run always frees the button, and shows a reply or an error, never both.\<close>

lemma runTest_answered_outcome:
  assumes "pg_error s = None"
  shows "\<not> pg_loading (runTest_answered origin run token answer elapsed s)"
    and "(pg_error (runTest_answered origin run token answer elapsed s) = None) \<longleftrightarrow>
           (\<exists>t code data. token = Inr t \<and> t \<noteq> [] \<and> answer = ChatResponse code data \<and> 200 \<le> code \<and> code \<le> 299)"
    and "(pg_lastCurl (runTest_answered origin run token answer elapsed (s\<lparr>pg_lastCurl := None\<rparr>)) = None) \<longleftrightarrow>
           (pg_error (runTest_answered origin run token answer elapsed s) = None)"
  using assms by (auto simp: runTest_answered_def test_failed_def split: sum.splits chat_answer.splits)

end
