(* ===== verification/Diagnostics.thy ===== *)
theory Diagnostics
  imports Cards Quota
begin

text \<open>
  The diagnostic table of an account, the lower half of \<^verbatim>\<open>web/src/components/AccountDetailSheet.tsx\<close>: one row
  per dimension with its state, reason, advice and tone. The lemmas relate the rows to the route badge
  of the same account.
\<close>

section \<open>Rows\<close>

record dimension =
  dm_title :: jstr
  dm_status :: jstr
  dm_checkedAt :: jstr
  dm_reason :: jstr
  dm_action :: jstr
  dm_tone :: tone

definition checked :: "host \<Rightarrow> jstr option \<Rightarrow> jstr" where
  "checked h t = or_str (Some (relativeTime h t)) (js ''--'')"

definition connectionDimension :: "host \<Rightarrow> account \<Rightarrow> dimension" where
  "connectionDimension h a =
     (let set = acc_base_url a \<noteq> [] in
      \<lparr>dm_title = js ''Connection'',
       dm_status = or_str (Some (acc_base_url a)) (js ''--''),
       dm_checkedAt = checked h (last_checked_at a),
       dm_reason = (if set then c_sh_conn_used else c_sh_conn_missing),
       dm_action = (if set then c_sh_conn_keep else c_sh_conn_add),
       dm_tone = (if set then ToneDefault else ToneWarning)\<rparr>)"

definition runtimeBindingDimension :: "host \<Rightarrow> account \<Rightarrow> dimension" where
  "runtimeBindingDimension h a =
     (if \<not> is_cpa a then
        \<lparr>dm_title = js ''Runtime Binding'', dm_status = c_sh_bind_direct, dm_checkedAt = checked h (last_checked_at a),
         dm_reason = c_sh_bind_direct_reason, dm_action = c_sh_bind_direct_do, dm_tone = ToneDefault\<rparr>
      else if hasRuntimeBindingIssue h (Some a) then
        \<lparr>dm_title = js ''Runtime Binding'', dm_status = c_sh_bind_open, dm_checkedAt = checked h (last_checked_at a),
         dm_reason = c_sh_bind_open_reason, dm_action = c_sh_bind_open_do, dm_tone = ToneDanger\<rparr>
      else
        \<lparr>dm_title = js ''Runtime Binding'', dm_status = c_sh_bind_ok, dm_checkedAt = checked h (last_checked_at a),
         dm_reason = c_sh_bind_ok_reason, dm_action = c_sh_watch, dm_tone = ToneDefault\<rparr>)"

text \<open>\<open>meta?.label || x\<close>.\<close>

definition meta_text :: "('m \<Rightarrow> jstr) \<Rightarrow> 'm option \<Rightarrow> jstr \<Rightarrow> jstr" where
  "meta_text field meta d = or_str (map_option field meta) d"

definition credentialDimension :: "host \<Rightarrow> account \<Rightarrow> dimension" where
  "credentialDimension h a =
     (if \<not> is_cpa a then
        \<lparr>dm_title = js ''Credential'',
         dm_status = (if api_key_set a then c_sh_key_set else c_sh_key_missing),
         dm_checkedAt = checked h (last_checked_at a),
         dm_reason = (if api_key_set a then c_sh_key_user else c_sh_key_none),
         dm_action = (if api_key_set a then c_sh_watch else c_sh_key_add),
         dm_tone = (if api_key_set a then ToneDefault else ToneDanger)\<rparr>
      else
        (let meta = getCpaCredentialMeta a;
             status = or_str (cpa_credential_status a) (js ''unknown'');
             healthy = (status = js ''ok'' \<or> status = js ''auth_suspect'')
         in
         \<lparr>dm_title = c_sh_credential,
          dm_status = meta_text cm_label meta (if status = js ''ok'' then c_sh_credential_ok else status),
          dm_checkedAt = checked h (cpa_credential_checked_at a),
          dm_reason = meta_text cm_detail meta (or_str (cpa_credential_reason a) c_sh_credential_none),
          dm_action =
            (if status = js ''needs_login'' \<or> status = js ''refresh_failed'' then c_sh_do_login
             else if status = js ''runtime_error'' then c_sh_do_runtime
             else if status = js ''runtime_pending'' then c_sh_do_later
             else if status = js ''auth_suspect'' then c_sh_do_direct_test
             else c_sh_watch),
          dm_tone = (if healthy then (if status = js ''auth_suspect'' then ToneWarning else ToneDefault) else ToneDanger)\<rparr>))"

definition routeDimension :: "host \<Rightarrow> account \<Rightarrow> jstr \<Rightarrow> dimension" where
  "routeDimension h a discoveryHealth =
     (let route = getRouteSummary h (Some a) True (Some discoveryHealth) in
      \<lparr>dm_title = js ''Route'',
       dm_status = rs_label route,
       dm_checkedAt = checked h (last_checked_at a),
       dm_reason = rs_reason route,
       dm_action = or_str (case rs_actions route of [] \<Rightarrow> None | x # _ \<Rightarrow> Some x) c_sh_watch,
       dm_tone = (if rs_status route = Error then ToneDanger
                  else if rs_status route = Degraded then ToneWarning else ToneDefault)\<rparr>)"

definition subscriptionStatusLabel :: "jstr \<Rightarrow> jstr" where
  "subscriptionStatusLabel status =
     (if status = js ''active'' then c_sh_sub_active
      else if status = js ''expired'' then c_sh_sub_expired
      else if status = js ''free'' then js ''Free''
      else if status = js ''pending'' then c_sh_sub_pending
      else if status = js ''error'' then c_sh_sub_error
      else c_sh_sub_unknown)"

definition subscriptionDimension :: "host \<Rightarrow> account \<Rightarrow> dimension" where
  "subscriptionDimension h a =
     (let status = or_str (cpa_subscription_status a) (js ''unknown'');
          active = (status = js ''active'')
      in
      \<lparr>dm_title = c_sh_subscription,
       dm_status = subscriptionStatusLabel status,
       dm_checkedAt = checked h (cpa_subscription_fetched_at a),
       dm_reason = or_str (cpa_subscription_last_error a) (or_str (cpa_subscription_expires_at a) c_sh_sub_snapshot),
       dm_action = (if active then c_sh_watch else if status = js ''pending'' then c_sh_sub_later else c_sh_sub_refresh),
       dm_tone =
         (if active then ToneDefault
          else if status = js ''pending'' \<or> status = js ''error'' \<or> status = js ''unknown'' then ToneWarning
          else ToneDanger)\<rparr>)"

definition quotaStatusLabel :: "jstr \<Rightarrow> jstr" where
  "quotaStatusLabel status =
     (if status = js ''ok'' then c_sh_quota_ok
      else if status = js ''blocked'' then c_sh_quota_blocked
      else if status = js ''pending'' then c_sh_quota_pending
      else if status = js ''error'' then c_sh_quota_error
      else c_sh_quota_unknown)"

definition quotaDimension :: "host \<Rightarrow> account \<Rightarrow> dimension" where
  "quotaDimension h a =
     (if \<not> is_cpa a then
        \<lparr>dm_title = c_sh_quota, dm_status = parseQuotaDisplay (quota_display a),
         dm_checkedAt = checked h (last_checked_at a), dm_reason = c_sh_quota_direct,
         dm_action = c_sh_quota_direct_do, dm_tone = ToneDefault\<rparr>
      else
        (let meta = getCpaQuotaErrorMeta a;
             status = or_str (cpa_quota_status a) (js ''unknown'')
         in
         \<lparr>dm_title = c_sh_quota,
          dm_status = meta_text qm_label meta (quotaStatusLabel status),
          dm_checkedAt = checked h (cpa_quota_checked_at a),
          dm_reason = meta_text qm_detail meta
            (if truthy_str (codex_quota_json a) then c_sh_quota_snapshot else c_sh_quota_no_snapshot),
          dm_action = (if status = js ''blocked'' then c_sh_quota_switch else c_sh_quota_refresh),
          dm_tone =
            (if status = js ''blocked'' then ToneDanger
             else if status = js ''error'' \<or> status = js ''unknown'' then ToneWarning else ToneDefault)\<rparr>))"

definition servingStatusLabel :: "jstr \<Rightarrow> jstr" where
  "servingStatusLabel status =
     (if status = js ''cooldown'' then c_sh_serving_cooldown
      else if status = js ''error'' then c_sh_serving_error
      else if status = js ''unknown'' then c_sh_serving_unknown
      else c_sh_serving_ok)"

definition servingDimension :: "host \<Rightarrow> account \<Rightarrow> jstr \<Rightarrow> dimension" where
  "servingDimension h a discoveryHealth =
     (let status = or_str (serving_status a) (js ''healthy'') in
      \<lparr>dm_title = js ''Serving'',
       dm_status = servingStatusLabel status,
       dm_checkedAt = checked h (last_checked_at a),
       dm_reason = or_str (last_error a) (c_sh_discovery @ discoveryHealth),
       dm_action =
         (if status = js ''healthy'' then c_sh_watch
          else if status = js ''cooldown'' then c_sh_wait_cooldown else c_sh_run_check),
       dm_tone =
         (if status = js ''error'' then ToneDanger
          else if status = js ''cooldown'' then ToneWarning else ToneDefault)\<rparr>)"

definition modelsDimension :: "host \<Rightarrow> account \<Rightarrow> dimension" where
  "modelsDimension h a =
     (let ms = ensureArray (acc_models a); found = ms \<noteq> [] in
      \<lparr>dm_title = js ''Models'',
       dm_status = (if found then show_int (int (length ms)) @ c_sh_models_unit else c_sh_models_none),
       dm_checkedAt = checked h (last_checked_at a),
       dm_reason = (if found then join_with (js '', '') ms else c_sh_models_reason),
       dm_action = (if found then c_sh_watch else c_sh_models_do),
       dm_tone = ToneDefault\<rparr>)"

definition buildDiagnosticDimensions :: "host \<Rightarrow> account \<Rightarrow> jstr \<Rightarrow> bool \<Rightarrow> dimension list" where
  "buildDiagnosticDimensions h a discoveryHealth isCodexCpa =
     (if \<not> is_cpa a then
        [connectionDimension h a, credentialDimension h a, routeDimension h a discoveryHealth,
         servingDimension h a discoveryHealth, modelsDimension h a]
      else
        [runtimeBindingDimension h a, credentialDimension h a] @
        (if isCodexCpa then [subscriptionDimension h a] else []) @
        [quotaDimension h a, servingDimension h a discoveryHealth])"

section \<open>The header and the raw fields\<close>

definition sheet_is_codex :: "account \<Rightarrow> bool" where
  "sheet_is_codex a \<longleftrightarrow> is_cpa a \<and> is_codex a"

text \<open>The chip after the status badge, and the expiry that is looked at.\<close>

definition sheet_plan :: "account \<Rightarrow> jstr" where
  "sheet_plan a =
     (if sheet_is_codex a then
        js ''Codex'' @ (if cpa_plan_type a \<noteq> [] then js '' '' @ [0xB7] @ js '' '' @ cpa_plan_type a else [])
      else parseQuotaDisplay (quota_display a))"

definition sheet_expiry :: "host \<Rightarrow> account \<Rightarrow> expiry_meta option" where
  "sheet_expiry h a = getExpiryMeta h (if sheet_is_codex a then cpa_subscription_expires_at a else cpa_expired_at a)"

definition sheet_base_url :: "account \<Rightarrow> jstr" where
  "sheet_base_url a =
     or_str (map_option rt_base_url (runtime a)) (or_str (Some (acc_base_url a)) (js ''--''))"

definition debug_rows :: "host \<Rightarrow> account \<Rightarrow> jstr \<Rightarrow> route_summary \<Rightarrow> (jstr \<times> jstr) list" where
  "debug_rows h a discoveryHealth summary =
     [(js ''Account ID'', show_int (acc_id a)),
      (js ''Source Kind'', source_kind a),
      (js ''Runtime Base URL'', sheet_base_url a)] @
     (if source_kind a = js ''openai_compat'' then
        [(js ''API Key'', if api_key_set a then api_key_masked a else js ''Missing'')] else []) @
     [(js ''Discovery Health'', discoveryHealth),
      (js ''Route Badge'', rs_label summary),
      (js ''Serving Status'', or_str (serving_status a) (js ''healthy'')),
      (js ''Failure Count'', show_int (nullish (failure_count a) 0)),
      (js ''Cooldown Until'', or_str (cooldown_until a) (js ''--'')),
      (js ''Last Checked'', checked h (last_checked_at a)),
      (js ''Last Error'', or_str (last_error a) (js ''--''))] @
     (if is_cpa a then
        [(js ''CPA Account Key'', or_str (Some (cpa_account_key a)) (js ''--'')),
         (js ''Provider'', or_str (Some (cpa_provider a)) (js ''--'')),
         (js ''Raw Credential Status'', or_str (cpa_credential_status a) (js ''--'')),
         (js ''Raw Credential Reason'', or_str (cpa_credential_reason a) (js ''--'')),
         (js ''Raw Quota Status'', or_str (cpa_quota_status a) (js ''unknown'')),
         (js ''Raw Subscription Status'', or_str (cpa_subscription_status a) (js ''unknown''))]
      else [])"

section \<open>The rows and the badge\<close>

lemma healthy_quota_tone:
  "isAccountRoutable h a \<Longrightarrow> dm_tone (quotaDimension h a) \<noteq> ToneDanger"
  using routable_cpa_facts(2) [of h a]
  by (auto simp: quotaDimension_def Let_def or_str_def js_def split: option.splits if_splits)

lemma routable_serving_tone:
  "isAccountRoutable h a \<Longrightarrow> dm_tone (servingDimension h a d) \<noteq> ToneDanger"
  using routable_serving_error [of h a]
  by (auto simp: servingDimension_def Let_def or_str_def js_def split: option.splits if_splits)

lemma routable_binding_tone:
  "isAccountRoutable h a \<Longrightarrow> dm_tone (runtimeBindingDimension h a) = ToneDefault"
  using routable_no_binding_issue [of h a] by (auto simp: runtimeBindingDimension_def)

text \<open>
  Under a green badge the table raises no alarm about routing: when the route of an enabled member is
  healthy, no row about the connection, the binding, the route, the quota, the service or the models is
  red. Only the credential and the subscription, which routing does not read in full, can be.
\<close>

theorem healthy_badge_rows:
  assumes "getRouteHealth h (Some a) True (Some d) = Healthy"
    and "r \<in> set (buildDiagnosticDimensions h a d (sheet_is_codex a))"
    and "dm_tone r = ToneDanger"
  shows "r = credentialDimension h a \<or> r = subscriptionDimension h a"
proof -
  from assms(1) have rt: "isAccountRoutable h a" by (rule Healthy_imp_routable)
  have "dm_tone (routeDimension h a d) = ToneDefault"
    using assms(1) by (simp add: routeDimension_def getRouteHealth_def Let_def)
  then show ?thesis
    using assms(2,3) healthy_quota_tone [OF rt] routable_serving_tone [OF rt, of d] routable_binding_tone [OF rt]
    by (auto simp: buildDiagnosticDimensions_def connectionDimension_def modelsDimension_def Let_def split: if_splits)
qed

definition keyless :: account where
  "keyless = blank_account\<lparr>acc_status := js ''healthy'', api_key_set := False\<rparr>"

theorem healthy_badge_rows_witness:
  "getRouteHealth sample_host (Some keyless) True (Some (js ''healthy'')) = Healthy \<and>
   dm_tone (credentialDimension sample_host keyless) = ToneDanger \<and>
   (credentialDimension sample_host keyless = credentialDimension sample_host keyless \<or>
    credentialDimension sample_host keyless = subscriptionDimension sample_host keyless)"
proof -
  have h: "getRouteHealth sample_host (Some keyless) True (Some (js ''healthy'')) = Healthy"
    by (simp add: route_eval blank_account_def keyless_def)
  have t: "dm_tone (credentialDimension sample_host keyless) = ToneDanger"
    by (simp add: credentialDimension_def keyless_def blank_account_def js_def)
  have "credentialDimension sample_host keyless \<in>
      set (buildDiagnosticDimensions sample_host keyless (js ''healthy'') (sheet_is_codex keyless))"
    by (simp add: buildDiagnosticDimensions_def)
  from healthy_badge_rows [OF h this t] h t show ?thesis by blast
qed

text \<open>
  A red badge without a reason in the table: a Codex account whose access is ineligible cannot be routed,
  yet every row of its table has the ordinary tone, since no row is about access.
\<close>

theorem ineligible_access_not_diagnosed:
  fixes a
  defines "a \<equiv> sample_cpa\<lparr>cpa_access_status := Some (js ''ineligible''), cpa_subscription_status := Some (js ''active''),
    cpa_quota_status := Some (js ''ok''), cpa_credential_status := Some (js ''ok'')\<rparr>"
  shows "getRouteHealth sample_host (Some a) True (Some (js ''healthy'')) = Error \<and>
     map dm_tone (buildDiagnosticDimensions sample_host a (js ''healthy'') (sheet_is_codex a)) = replicate 5 ToneDefault"
  unfolding a_def
  by (simp add: route_eval sample_cpa_def blank_account_def buildDiagnosticDimensions_def sheet_is_codex_def
      runtimeBindingDimension_def credentialDimension_def subscriptionDimension_def quotaDimension_def
      servingDimension_def Let_def numeral_eq_Suc)

end
