(* ===== verification/GatewaySettings.thy ===== *)
theory GatewaySettings
  imports Requests JsNumber Copy
begin

text \<open>
  The numeric settings of \<^verbatim>\<open>web/src/pages/SettingsPage.tsx\<close>: the input row that keeps a draft and commits whole
  numbers, the form of the gateway, and \<open>saveSetting\<close>, which saves one field at a time under a sequence
  number per field. \<open>gs_server\<close> is not state of the page: it is what the server holds, and changes when
  it accepts a save.
\<close>

section \<open>Data\<close>

datatype setting_field =
  RequestTimeout | MaxRetryAttempts | GatewayMaxBodyMb | GatewayMemoryBodyMb | HealthCheckInterval | DataRetentionDays

record system_settings =
  admin_token_masked :: jstr
  health_check_interval :: int
  request_timeout :: int
  max_retry_attempts :: int
  gateway_max_body_mb :: int
  gateway_memory_body_mb :: int
  notification_expiring_days :: int
  data_retention_days :: int

record gateway_form =
  gf_request_timeout :: int
  gf_max_retry_attempts :: int
  gf_max_body_mb :: int
  gf_memory_body_mb :: int
  gf_health_check_interval :: int

definition initial_form :: gateway_form where
  "initial_form =
     \<lparr>gf_request_timeout = 120, gf_max_retry_attempts = 3, gf_max_body_mb = 100, gf_memory_body_mb = 8,
      gf_health_check_interval = 60\<rparr>"

definition form_of :: "system_settings \<Rightarrow> gateway_form" where
  "form_of d =
     \<lparr>gf_request_timeout = request_timeout d, gf_max_retry_attempts = max_retry_attempts d,
      gf_max_body_mb = gateway_max_body_mb d, gf_memory_body_mb = gateway_memory_body_mb d,
      gf_health_check_interval = health_check_interval d\<rparr>"

text \<open>\<open>settings[field]\<close>, \<open>{ ...settings, [field]: v }\<close> and the same for the form.\<close>

fun get_setting :: "setting_field \<Rightarrow> system_settings \<Rightarrow> int" where
  "get_setting RequestTimeout d = request_timeout d"
| "get_setting MaxRetryAttempts d = max_retry_attempts d"
| "get_setting GatewayMaxBodyMb d = gateway_max_body_mb d"
| "get_setting GatewayMemoryBodyMb d = gateway_memory_body_mb d"
| "get_setting HealthCheckInterval d = health_check_interval d"
| "get_setting DataRetentionDays d = data_retention_days d"

fun set_setting :: "setting_field \<Rightarrow> int \<Rightarrow> system_settings \<Rightarrow> system_settings" where
  "set_setting RequestTimeout v d = d\<lparr>request_timeout := v\<rparr>"
| "set_setting MaxRetryAttempts v d = d\<lparr>max_retry_attempts := v\<rparr>"
| "set_setting GatewayMaxBodyMb v d = d\<lparr>gateway_max_body_mb := v\<rparr>"
| "set_setting GatewayMemoryBodyMb v d = d\<lparr>gateway_memory_body_mb := v\<rparr>"
| "set_setting HealthCheckInterval v d = d\<lparr>health_check_interval := v\<rparr>"
| "set_setting DataRetentionDays v d = d\<lparr>data_retention_days := v\<rparr>"

fun set_form :: "setting_field \<Rightarrow> int \<Rightarrow> gateway_form \<Rightarrow> gateway_form" where
  "set_form RequestTimeout v d = d\<lparr>gf_request_timeout := v\<rparr>"
| "set_form MaxRetryAttempts v d = d\<lparr>gf_max_retry_attempts := v\<rparr>"
| "set_form GatewayMaxBodyMb v d = d\<lparr>gf_max_body_mb := v\<rparr>"
| "set_form GatewayMemoryBodyMb v d = d\<lparr>gf_memory_body_mb := v\<rparr>"
| "set_form HealthCheckInterval v d = d\<lparr>gf_health_check_interval := v\<rparr>"
| "set_form DataRetentionDays v d = d"

section \<open>The input row\<close>

record numeric_row =
  nr_value :: int
  nr_draft :: jstr
  nr_committed :: int

definition row_mount :: "int \<Rightarrow> numeric_row" where
  "row_mount v = \<lparr>nr_value = v, nr_draft = show_int v, nr_committed = v\<rparr>"

text \<open>A render with the value \<open>v\<close>: the effect runs when the value differs from the last one.\<close>

definition row_render :: "int \<Rightarrow> numeric_row \<Rightarrow> numeric_row" where
  "row_render v r =
     (if v = nr_value r then r
      else if v = nr_committed r then r\<lparr>nr_value := v\<rparr>
      else r\<lparr>nr_value := v, nr_committed := v, nr_draft := show_int v\<rparr>)"

text \<open>\<open>commit\<close>, with the value handed to \<open>onCommit\<close> if it is called.\<close>

definition row_commit :: "int \<Rightarrow> numeric_row \<Rightarrow> numeric_row \<times> int option" where
  "row_commit lo r =
     (let trimmed = trim (nr_draft r); parsed = string_to_number trimmed;
          back = (r\<lparr>nr_draft := show_int (nr_committed r)\<rparr>, None)
      in case parsed of
           Num x \<Rightarrow>
             if trimmed = [] \<or> x < of_int lo then back
             else (let normalized = \<lfloor>x\<rfloor>; r1 = r\<lparr>nr_draft := show_int normalized\<rparr> in
                   if normalized = nr_committed r then (r1, None)
                   else (r1\<lparr>nr_committed := normalized\<rparr>, Some normalized))
         | _ \<Rightarrow> back)"

section \<open>Saving a field\<close>

datatype save_stage = AwaitPut | AwaitSummary

record pending_save =
  ps_field :: setting_field
  ps_value :: int
  ps_prev :: "system_settings option"
  ps_seq :: nat
  ps_stage :: save_stage

record settings_state =
  gs_settings :: "system_settings option"
  gs_form :: gateway_form
  gs_savingField :: "setting_field option"
  gs_seq :: "setting_field \<Rightarrow> nat"
  gs_pending :: "pending_save list"
  gs_toasts :: "jstr list"
  gs_server :: system_settings

text \<open>
  \<open>saveSetting\<close> up to its request. \<open>prev\<close> is what \<open>settingsRef\<close> holds, the settings of the last render. Every
  caller passes a whole number, so the value goes out as it is.
\<close>

definition saveSetting :: "system_settings option \<Rightarrow> setting_field \<Rightarrow> int \<Rightarrow> settings_state \<Rightarrow> settings_state" where
  "saveSetting prev field value s =
     (let seq = gs_seq s field + 1 in
      s\<lparr>gs_seq := (gs_seq s)(field := seq), gs_savingField := Some field,
        gs_pending := gs_pending s @ [\<lparr>ps_field = field, ps_value = value, ps_prev = prev, ps_seq = seq, ps_stage = AwaitPut\<rparr>]\<rparr>)"

definition is_newest :: "pending_save \<Rightarrow> settings_state \<Rightarrow> bool" where
  "is_newest p s \<longleftrightarrow> gs_seq s (ps_field p) = ps_seq p"

definition save_finally :: "pending_save \<Rightarrow> settings_state \<Rightarrow> settings_state" where
  "save_finally p s = (if is_newest p s then s\<lparr>gs_savingField := None\<rparr> else s)"

definition save_rollback :: "pending_save \<Rightarrow> settings_state \<Rightarrow> settings_state" where
  "save_rollback p s =
     (case ps_prev p of
        None \<Rightarrow> s
      | Some d \<Rightarrow>
          if ps_field p = DataRetentionDays
          then s\<lparr>gs_settings := map_option (set_setting DataRetentionDays (data_retention_days d)) (gs_settings s)\<rparr>
          else s\<lparr>gs_form := set_form (ps_field p) (get_setting (ps_field p) d) (gs_form s)\<rparr>)"

definition save_catch :: "pending_save \<Rightarrow> call_failure \<Rightarrow> settings_state \<Rightarrow> settings_state" where
  "save_catch p f s =
     (if \<not> is_newest p s then s
      else save_rollback p (s\<lparr>gs_toasts := gs_toasts s @ [failure_text f c_set_save_failed]\<rparr>))"

definition save_succeeded :: "pending_save \<Rightarrow> settings_state \<Rightarrow> settings_state" where
  "save_succeeded p s = save_finally p (s\<lparr>gs_toasts := gs_toasts s @ [c_set_updated]\<rparr>)"

definition drop_pending :: "nat \<Rightarrow> settings_state \<Rightarrow> settings_state" where
  "drop_pending i s = s\<lparr>gs_pending := take i (gs_pending s) @ drop (Suc i) (gs_pending s)\<rparr>"

text \<open>
  The answer to what save \<open>i\<close> waits for: its request, or for the retention days the summary that is
  loaded afterwards.
\<close>

definition save_answered :: "nat \<Rightarrow> call_failure + unit \<Rightarrow> settings_state \<Rightarrow> settings_state" where
  "save_answered i answer s =
     (if i \<ge> length (gs_pending s) then s
      else
        (let p = gs_pending s ! i; done = drop_pending i s in
         case (ps_stage p, answer) of
           (AwaitPut, Inr _) \<Rightarrow>
             (let set = set_setting (ps_field p) (ps_value p);
                  accepted = (\<lambda>t. t\<lparr>gs_server := set (gs_server t)\<rparr>)
              in if \<not> is_newest p s then accepted done
                 else if ps_field p = DataRetentionDays then
                   accepted (s\<lparr>gs_settings := map_option set (gs_settings s),
                               gs_pending := (gs_pending s)[i := p\<lparr>ps_stage := AwaitSummary\<rparr>]\<rparr>)
                 else save_succeeded p (accepted (done\<lparr>gs_settings := map_option set (gs_settings s)\<rparr>)))
         | (AwaitSummary, Inr _) \<Rightarrow> save_succeeded p done
         | (_, Inl f) \<Rightarrow> save_finally p (save_catch p f done)))"

text \<open>The \<open>onCommit\<close> of each row.\<close>

definition commit_field :: "setting_field \<Rightarrow> int \<Rightarrow> settings_state \<Rightarrow> settings_state" where
  "commit_field field v s =
     (case field of
        GatewayMaxBodyMb \<Rightarrow>
          saveSetting (gs_settings s) field v
            (s\<lparr>gs_form := (gs_form s)\<lparr>gf_max_body_mb := v, gf_memory_body_mb := min (gf_memory_body_mb (gs_form s)) v\<rparr>\<rparr>)
      | GatewayMemoryBodyMb \<Rightarrow>
          (let next = min v (gf_max_body_mb (gs_form s)) in
           saveSetting (gs_settings s) field next (s\<lparr>gs_form := (gs_form s)\<lparr>gf_memory_body_mb := next\<rparr>\<rparr>))
      | DataRetentionDays \<Rightarrow>
          saveSetting (gs_settings s) field v (s\<lparr>gs_settings := map_option (set_setting field v) (gs_settings s)\<rparr>)
      | _ \<Rightarrow> saveSetting (gs_settings s) field v (s\<lparr>gs_form := set_form field v (gs_form s)\<rparr>))"

section \<open>The row commits what it shows\<close>

text \<open>
  Leaving the field always leaves it showing the committed number, and only whole numbers from the
  minimum up that differ from the last committed one are handed on.
\<close>

theorem row_commit_spec:
  fixes lo :: int and r :: numeric_row
  defines "r' \<equiv> fst (row_commit lo r)" and "out \<equiv> snd (row_commit lo r)"
  shows "nr_draft r' = show_int (nr_committed r') \<and> nr_value r' = nr_value r \<and>
     (case out of
        None \<Rightarrow> nr_committed r' = nr_committed r
      | Some v \<Rightarrow> lo \<le> v \<and> v \<noteq> nr_committed r \<and> nr_committed r' = v)"
proof (cases "string_to_number (trim (nr_draft r))")
  case (Num x)
  then show ?thesis
    by (cases "trim (nr_draft r) = []"; cases "x < of_int lo"; cases "\<lfloor>x\<rfloor> = nr_committed r")
       (simp_all add: r'_def out_def row_commit_def Let_def le_floor_iff)
qed (simp_all add: r'_def out_def row_commit_def Let_def)

text \<open>
  The memory row can keep a number that was never saved: with the threshold at the maximum of 100,
  entering 500 saves 100, the form's value stays 100, so the row is not told and goes on showing 500.
\<close>

definition sample_settings :: system_settings where
  "sample_settings =
     \<lparr>admin_token_masked = [], health_check_interval = 60, request_timeout = 120, max_retry_attempts = 3,
      gateway_max_body_mb = 100, gateway_memory_body_mb = 100, notification_expiring_days = 7, data_retention_days = 30\<rparr>"

definition settings_loaded :: "system_settings \<Rightarrow> settings_state" where
  "settings_loaded d =
     \<lparr>gs_settings = Some d, gs_form = form_of d, gs_savingField = None, gs_seq = (\<lambda>_. 0), gs_pending = [],
      gs_toasts = [], gs_server = d\<rparr>"

theorem memory_row_keeps_unsaved_number:
  fixes r :: "numeric_row \<times> int option" and s :: settings_state
  defines "r \<equiv> row_commit 1 ((row_mount 100)\<lparr>nr_draft := js ''500''\<rparr>)"
    and "s \<equiv> save_answered 0 (Inr ()) (commit_field GatewayMemoryBodyMb 500 (settings_loaded sample_settings))"
  shows "snd r = Some 500 \<and> gf_memory_body_mb (gs_form s) = 100 \<and> gateway_memory_body_mb (gs_server s) = 100 \<and>
     gs_pending s = [] \<and> nr_draft (row_render (gf_memory_body_mb (gs_form s)) (fst r)) = show_int 500"
proof -
  have "trim (js ''500'') = js ''500''" "js ''500'' \<noteq> []" by (simp_all add: trim_def is_js_space_def js_def)
  moreover have "string_to_number (js ''500'') = Num 500"
    by (simp add: string_to_number_def js_def trim_def is_js_space_def toLowerCase_def lower_unit_def
        decimal_value_def is_digit_def exponent_part_def digits_val_def pow10_def to_double_def Let_def)
  ultimately have "r = ((row_mount 100)\<lparr>nr_draft := show_int 500, nr_committed := 500\<rparr>, Some 500)"
    by (simp add: r_def row_commit_def row_mount_def)
  moreover have "gs_form s = form_of sample_settings" "gs_pending s = []" "gs_server s = sample_settings"
    by (simp_all add: s_def commit_field_def settings_loaded_def saveSetting_def save_answered_def Let_def is_newest_def
        save_succeeded_def save_finally_def drop_pending_def form_of_def sample_settings_def)
  ultimately show ?thesis
    by (simp add: row_render_def row_mount_def form_of_def sample_settings_def)
qed

section \<open>One save at a time\<close>

text \<open>A save with the answers it gets: to its request and, for the retention days, to the summary.\<close>

type_synonym save_case = "setting_field \<times> int \<times> (call_failure + unit) \<times> (call_failure + unit)"

definition settle_save :: "settings_state \<Rightarrow> save_case \<Rightarrow> settings_state" where
  "settle_save s c = (case c of (f, v, a, b) \<Rightarrow> save_answered 0 b (save_answered 0 a (commit_field f v s)))"

definition accept :: "system_settings \<Rightarrow> save_case \<Rightarrow> system_settings" where
  "accept d c =
     (case c of
        (_, _, Inl _, _) \<Rightarrow> d
      | (f, v, Inr _, _) \<Rightarrow> set_setting f (if f = GatewayMemoryBodyMb then min v (gateway_max_body_mb d) else v) d)"

definition plain :: "system_settings \<Rightarrow> save_case \<Rightarrow> bool" where
  "plain d c \<longleftrightarrow>
     (case c of (f, v, a, b) \<Rightarrow>
        (f = GatewayMaxBodyMb \<longrightarrow> gateway_memory_body_mb d \<le> v) \<and> (f = DataRetentionDays \<longrightarrow> \<not> isl a \<longrightarrow> \<not> isl b))"

fun plain_run :: "system_settings \<Rightarrow> save_case list \<Rightarrow> bool" where
  "plain_run d [] = True"
| "plain_run d (c # cs) = (plain d c \<and> plain_run (accept d c) cs)"

definition synced :: "settings_state \<Rightarrow> bool" where
  "synced s \<longleftrightarrow> gs_pending s = [] \<and> gs_settings s = Some (gs_server s) \<and> gs_form s = form_of (gs_server s)"

lemmas save_defs = settle_save_def accept_def commit_field_def saveSetting_def save_answered_def is_newest_def
  save_succeeded_def save_finally_def drop_pending_def save_catch_def save_rollback_def Let_def

lemma set_form_of: "set_form f v (form_of d) = form_of (set_setting f v d)"
  by (cases f) (simp_all add: form_of_def)

lemma set_setting_get: "set_setting f (get_setting f d) d = d"
  by (cases f) simp_all

lemma settle_save_synced:
  assumes "synced s" and "plain (gs_server s) c"
  shows "synced (settle_save s c) \<and> gs_server (settle_save s c) = accept (gs_server s) c"
proof -
  obtain f v a b where c: "c = (f, v, a, b)" by (metis prod_cases4)
  show ?thesis
    using assms
    by (cases f; cases a; cases b)
       (simp_all add: c synced_def plain_def save_defs form_of_def)
qed

text \<open>
  C2: Saved one by one, the page and the server agree: after any sequence of saves, each answered before
  the next, the settings and the form of the page are the server's, which are the accepted saves applied
  in order. The two cases left out are a maximum below the memory threshold and a retention whose
  summary fails to load.
\<close>

theorem saves_refine_server:
  assumes "synced s" and "plain_run (gs_server s) cs"
  shows "gs_settings (foldl settle_save s cs) = Some (foldl accept (gs_server s) cs) \<and>
     gs_form (foldl settle_save s cs) = form_of (foldl accept (gs_server s) cs) \<and>
     gs_server (foldl settle_save s cs) = foldl accept (gs_server s) cs"
  using assms
proof (induction cs arbitrary: s)
  case Nil
  then show ?case by (simp add: synced_def)
next
  case (Cons c cs)
  with settle_save_synced [of s c] show ?case by simp
qed

theorem saves_refine_server_witness:
  "gs_form (foldl settle_save (settings_loaded sample_settings)
      [(RequestTimeout, 30, Inr (), Inr ()), (GatewayMaxBodyMb, 200, Inl (throw_error []), Inr ())]) =
     (form_of sample_settings)\<lparr>gf_request_timeout := 30\<rparr>"
  using saves_refine_server [of "settings_loaded sample_settings"
      "[(RequestTimeout, 30, Inr (), Inr ()), (GatewayMaxBodyMb, 200, Inl (throw_error []), Inr ())]"]
  by (simp add: synced_def plain_def accept_def settings_loaded_def sample_settings_def form_of_def)

section \<open>Saves that overlap\<close>

text \<open>
  A slow answer never overwrites a newer save of the same field: the answer to a save that is not the
  newest of its field leaves the settings, the form and the spinner as they are.
\<close>

theorem stale_save_ignored:
  assumes "i < length (gs_pending s)" and "\<not> is_newest (gs_pending s ! i) s"
  shows "gs_settings (save_answered i a s) = gs_settings s \<and> gs_form (save_answered i a s) = gs_form s \<and>
     gs_savingField (save_answered i a s) = gs_savingField s"
  using assms by (cases "ps_stage (gs_pending s ! i)"; cases a) (simp_all add: save_defs)

theorem stale_save_ignored_witness:
  "gs_form (save_answered 0 (Inl (throw_error [])) (commit_field RequestTimeout 20 (commit_field RequestTimeout 10
      (settings_loaded sample_settings)))) = (form_of sample_settings)\<lparr>gf_request_timeout := 20\<rparr>"
  using stale_save_ignored [of 0 "commit_field RequestTimeout 20 (commit_field RequestTimeout 10
      (settings_loaded sample_settings))" "Inl (throw_error [])"]
  by (simp add: commit_field_def saveSetting_def settings_loaded_def Let_def is_newest_def form_of_def)

text \<open>
  The price of dropping the older answer: of two saves of one field, the first accepted and the second
  refused, the page goes back to the value from before both, and the server holds the first.
\<close>

theorem refused_save_hides_accepted:
  fixes s
  defines "s \<equiv> save_answered 0 (Inl (throw_error [])) (save_answered 0 (Inr ())
     (commit_field RequestTimeout 20 (commit_field RequestTimeout 10 (settings_loaded sample_settings))))"
  shows "gs_pending s = [] \<and> gf_request_timeout (gs_form s) = 120 \<and> request_timeout (gs_server s) = 10 \<and>
     gs_settings s = Some sample_settings"
  unfolding s_def by (simp add: save_defs settings_loaded_def sample_settings_def form_of_def)

text \<open>
  A retention period that was saved is shown as not saved when only the summary cannot be loaded: the
  page announces an error and goes back to the old period.
\<close>

theorem saved_retention_rolled_back:
  fixes s
  defines "s \<equiv> settle_save (settings_loaded sample_settings) (DataRetentionDays, 7, Inr (), Inl (throw_error (js ''down'')))"
  shows "map_option data_retention_days (gs_settings s) = Some 30 \<and> data_retention_days (gs_server s) = 7 \<and>
     gs_toasts s = [js ''down'']"
  unfolding s_def by (simp add: save_defs settings_loaded_def sample_settings_def failure_text_def throw_error_def nullish_def)

text \<open>
  Lowering the maximum body size below the memory threshold lowers the threshold on the page only; it
  is not sent, so the server keeps the larger one.
\<close>

theorem lowered_threshold_not_saved:
  fixes s
  defines "s \<equiv> settle_save (settings_loaded sample_settings) (GatewayMaxBodyMb, 50, Inr (), Inr ())"
  shows "gf_memory_body_mb (gs_form s) = 50 \<and> gateway_memory_body_mb (gs_server s) = 100 \<and> gs_pending s = []"
  unfolding s_def by (simp add: save_defs settings_loaded_def sample_settings_def form_of_def)

end
