(* ===== verification/DataTransfer.thy ===== *)
theory DataTransfer
  imports GatewaySettings Format Json
begin

text \<open>
  The two sections of the settings page that work on the stored data: the retention of logs
  (\<^verbatim>\<open>web/src/pages/SettingsPage/data-retention\<close>) with its preview, its pruning and its usage card, and the transfer
  of the configuration (\<^verbatim>\<open>config-transfer\<close>). Each is a state with the events a user or the server can cause; an
  event whose control is not on the screen or is disabled changes nothing. The locale's way of printing
  a number is an argument.
\<close>

section \<open>Data retention\<close>

record retention_summary =
  dr_retention_days :: int
  database_size_bytes :: int
  database_wal_size_bytes :: int
  database_shm_size_bytes :: int
  total_logs :: int
  oldest_log_at :: "jstr option"
  newest_log_at :: "jstr option"
  logs_size_bytes :: int
  total_notification_deliveries :: int
  deliveries_oldest_at :: "jstr option"
  deliveries_newest_at :: "jstr option"
  total_notification_outbox :: int
  outbox_pending_count :: int
  outbox_dropped_count :: int
  last_prune_at :: "jstr option"
  last_prune_deleted_logs :: int
  last_prune_deleted_deliveries :: int
  last_prune_deleted_outbox :: int

record retention_preview =
  pv_retention_days :: int
  logs_to_delete :: int
  logs_to_delete_size_bytes :: int
  deliveries_to_delete :: int
  outbox_to_delete :: int
  outbox_safety_days :: int

text \<open>\<open>pr_days\<close> is the page's retention; \<open>pr_pruned\<close> lists the days in force when a prune was asked for.\<close>

record prune_panel =
  pr_days :: int
  pr_preview :: "retention_preview option"
  pr_previewOpen :: bool
  pr_previewLoading :: bool
  pr_pruning :: bool
  pr_toasts :: "jstr list"
  pr_pruned :: "int list"

definition prune_mount :: "int \<Rightarrow> prune_panel" where
  "prune_mount days =
     \<lparr>pr_days = days, pr_preview = None, pr_previewOpen = False, pr_previewLoading = False, pr_pruning = False,
      pr_toasts = [], pr_pruned = []\<rparr>"

definition close_preview :: "prune_panel \<Rightarrow> prune_panel" where
  "close_preview s = s\<lparr>pr_previewOpen := False, pr_preview := None\<rparr>"

text \<open>The effect on the retention and the preview.\<close>

definition prune_effect :: "prune_panel \<Rightarrow> prune_panel" where
  "prune_effect s = (if pr_days s \<le> 0 \<and> pr_previewOpen s then close_preview s else s)"

definition openPreview :: "prune_panel \<Rightarrow> prune_panel" where
  "openPreview s = s\<lparr>pr_previewLoading := True\<rparr>"

definition openPreview_answered :: "call_failure + retention_preview \<Rightarrow> prune_panel \<Rightarrow> prune_panel" where
  "openPreview_answered answer s =
     (case answer of
        Inr data \<Rightarrow> s\<lparr>pr_preview := Some data, pr_previewOpen := True, pr_previewLoading := False\<rparr>
      | Inl f \<Rightarrow> s\<lparr>pr_toasts := pr_toasts s @ [failure_text f c_dr_preview_failed], pr_previewLoading := False\<rparr>)"

definition totalToDelete :: "prune_panel \<Rightarrow> int" where
  "totalToDelete s =
     (case pr_preview s of
        None \<Rightarrow> 0
      | Some p \<Rightarrow> logs_to_delete p + deliveries_to_delete p + outbox_to_delete p)"

definition confirmPrune :: "prune_panel \<Rightarrow> prune_panel" where
  "confirmPrune s = s\<lparr>pr_pruning := True, pr_pruned := pr_pruned s @ [pr_days s]\<rparr>"

text \<open>The answer to the prune, with the counts it deleted, and to the reload that follows it.\<close>

definition confirmPrune_answered :: "call_failure + int \<times> int \<times> int \<Rightarrow> call_failure + unit \<Rightarrow> prune_panel \<Rightarrow> prune_panel" where
  "confirmPrune_answered answer reload s =
     (let failed = (\<lambda>f. s\<lparr>pr_toasts := pr_toasts s @ [failure_text f c_dr_prune_failed], pr_pruning := False\<rparr>) in
      case answer of
        Inl f \<Rightarrow> failed f
      | Inr (logs, deliveries, outbox) \<Rightarrow>
          (case reload of
             Inl f \<Rightarrow> failed f
           | Inr _ \<Rightarrow>
               (let total = logs + deliveries + outbox in
                (close_preview s)\<lparr>pr_toasts := pr_toasts s @ [if total > 0 then c_dr_pruned @ show_int total @ c_dr_items
                                                            else c_dr_pruned_none],
                                  pr_pruning := False\<rparr>)))"

datatype prune_event =
    DaysChanged int
  | PreviewClicked
  | PreviewAnswer "call_failure + retention_preview"
  | CancelClicked
  | ConfirmClicked
  | PruneAnswer "call_failure + int \<times> int \<times> int" "call_failure + unit"

text \<open>The controls of \<open>ManualPruneCard\<close>, each followed by the effect of the render.\<close>

fun prune_step :: "prune_panel \<Rightarrow> prune_event \<Rightarrow> prune_panel" where
  "prune_step s (DaysChanged d) = prune_effect (s\<lparr>pr_days := d\<rparr>)"
| "prune_step s PreviewClicked =
     (if \<not> pr_previewOpen s \<and> pr_days s > 0 \<and> \<not> pr_previewLoading s then prune_effect (openPreview s) else s)"
| "prune_step s (PreviewAnswer a) =
     (if pr_previewLoading s then prune_effect (openPreview_answered a s) else s)"
| "prune_step s CancelClicked =
     (if pr_previewOpen s \<and> \<not> pr_pruning s then prune_effect (close_preview s) else s)"
| "prune_step s ConfirmClicked =
     (if pr_previewOpen s \<and> \<not> pr_pruning s \<and> totalToDelete s \<noteq> 0 then prune_effect (confirmPrune s) else s)"
| "prune_step s (PruneAnswer a r) =
     (if pr_pruning s then prune_effect (confirmPrune_answered a r s) else s)"

text \<open>\<open>AutoPruneCard\<close>: the field of the retention days, and the line about the last prune.\<close>

definition autoprune_commit :: "numeric_row \<Rightarrow> numeric_row \<times> int option" where
  "autoprune_commit r = row_commit 0 r"

definition lastDeleted :: "retention_summary option \<Rightarrow> int" where
  "lastDeleted summary =
     (case summary of
        None \<Rightarrow> 0
      | Some m \<Rightarrow> last_prune_deleted_logs m + last_prune_deleted_deliveries m + last_prune_deleted_outbox m)"

definition last_prune_text :: "host \<Rightarrow> (int \<Rightarrow> jstr) \<Rightarrow> retention_summary option \<Rightarrow> jstr \<times> jstr" where
  "last_prune_text h toLocaleString summary =
     ((case Option.bind summary last_prune_at of
         Some t \<Rightarrow> if t \<noteq> [] then relativeTime h (Some t) else c_dr_never
       | None \<Rightarrow> c_dr_never),
      if lastDeleted summary > 0 then toLocaleString (lastDeleted summary) @ c_dr_items else c_dr_zero)"

text \<open>\<open>CurrentUsageCard\<close>.\<close>

definition formatRange :: "host \<Rightarrow> jstr option \<Rightarrow> jstr option \<Rightarrow> jstr" where
  "formatRange h oldest newest =
     (if \<not> truthy_str oldest \<and> \<not> truthy_str newest then c_dr_no_record
      else if truthy_str oldest \<and> truthy_str newest then
        (if oldest = newest then shortDate h (nullish oldest [])
         else shortDate h (nullish oldest []) @ c_dr_arrow @ shortDate h (nullish newest []))
      else shortDate h (case oldest of Some t \<Rightarrow> t | None \<Rightarrow> nullish newest []))"

definition outbox_line :: "(int \<Rightarrow> jstr) \<Rightarrow> retention_summary option \<Rightarrow> jstr \<times> jstr" where
  "outbox_line toLocaleString summary =
     (let pending = (case summary of None \<Rightarrow> 0 | Some m \<Rightarrow> outbox_pending_count m);
          dropped = (case summary of None \<Rightarrow> 0 | Some m \<Rightarrow> outbox_dropped_count m);
          total = pending + dropped
      in (toLocaleString total @ c_dr_items,
          if total > 0 then c_dr_waiting @ toLocaleString pending @ c_dr_dropped @ toLocaleString dropped
          else c_dr_no_backlog))"

section \<open>Configuration transfer\<close>

datatype export_mode = Masked | Full

definition export_url :: "export_mode \<Rightarrow> jstr" where
  "export_url mode =
     js ''/admin/api/export'' @ (case mode of Full \<Rightarrow> js ''?include_secrets=true'' | Masked \<Rightarrow> [])"

record import_preview =
  schema_version :: jstr
  source_host :: jstr
  exported_at :: jstr
  include_secrets :: bool
  iv_created_pools :: int
  iv_updated_pools :: int
  iv_created_tokens :: int
  iv_skipped_tokens :: int
  iv_updated_settings :: int
  ignored_accounts :: int
  ignored_services :: int

record import_result =
  ir_created_pools :: int
  ir_updated_pools :: int
  ir_created_tokens :: int
  ir_skipped_tokens :: int
  ir_updated_settings :: int

text \<open>\<open>im_previews\<close> and \<open>im_imports\<close> record what was previewed with which answer, and what was imported.\<close>

record import_card =
  im_fileName :: "jstr option"
  im_rawPayload :: "json option"
  im_preview :: "import_preview option"
  im_previewing :: bool
  im_importing :: bool
  im_toasts :: "jstr list"
  im_previews :: "(json \<times> import_preview) list"
  im_imports :: "json list"

definition import_mount :: import_card where
  "import_mount =
     \<lparr>im_fileName = None, im_rawPayload = None, im_preview = None, im_previewing = False, im_importing = False,
      im_toasts = [], im_previews = [], im_imports = []\<rparr>"

definition import_reset :: "import_card \<Rightarrow> import_card" where
  "import_reset s = s\<lparr>im_fileName := None, im_rawPayload := None, im_preview := None\<rparr>"

definition handleFileChange :: "jstr option \<Rightarrow> import_card \<Rightarrow> import_card" where
  "handleFileChange file s =
     (case file of
        None \<Rightarrow> s
      | Some name \<Rightarrow> (import_reset s)\<lparr>im_fileName := Some name, im_previewing := True\<rparr>)"

definition file_failed :: "call_failure \<Rightarrow> import_card \<Rightarrow> import_card" where
  "file_failed f s =
     (import_reset s)\<lparr>im_toasts := im_toasts s @ [failure_text f c_im_read_failed], im_previewing := False\<rparr>"

text \<open>\<open>typeof v !== "object" || v === null\<close> fails for objects and arrays only.\<close>

definition is_object :: "json \<Rightarrow> bool" where
  "is_object v = (case v of JObj _ \<Rightarrow> True | JArr _ \<Rightarrow> True | _ \<Rightarrow> False)"

text \<open>The text of the file has been read; \<open>syntax\<close> is the message of the engine's \<open>SyntaxError\<close>.\<close>

definition file_read :: "(jstr \<Rightarrow> jstr) \<Rightarrow> call_failure + jstr \<Rightarrow> import_card \<Rightarrow> import_card" where
  "file_read syntax text s =
     (case text of
        Inl f \<Rightarrow> file_failed f s
      | Inr t \<Rightarrow>
          (case json_parse t of
             None \<Rightarrow> file_failed (throw_error (syntax t)) s
           | Some v \<Rightarrow> if is_object v then s\<lparr>im_rawPayload := Some v\<rparr> else file_failed (throw_error c_im_format) s))"

definition import_preview_answered :: "call_failure + import_preview \<Rightarrow> import_card \<Rightarrow> import_card" where
  "import_preview_answered answer s =
     (case (answer, im_rawPayload s) of
        (Inr p, Some v) \<Rightarrow>
          s\<lparr>im_preview := Some p, im_previewing := False, im_previews := im_previews s @ [(v, p)]\<rparr>
      | (Inl f, _) \<Rightarrow> file_failed f s
      | (Inr _, None) \<Rightarrow> s)"

definition confirmImport :: "import_card \<Rightarrow> import_card" where
  "confirmImport s =
     (case im_rawPayload s of
        None \<Rightarrow> s
      | Some v \<Rightarrow> s\<lparr>im_importing := True, im_imports := im_imports s @ [v]\<rparr>)"

definition import_toast :: "import_result \<Rightarrow> jstr" where
  "import_toast r =
     c_im_done @ show_int (ir_created_pools r) @ js '' Pool / '' @ show_int (ir_created_tokens r) @ c_im_skipped @
     show_int (ir_skipped_tokens r) @ c_im_items"

text \<open>
  After the import the page reloads; \<open>importing\<close> ends when that is done, which is the second event. The
  page's reload reports its own errors and never fails here.
\<close>

definition import_answered :: "call_failure + import_result \<Rightarrow> import_card \<Rightarrow> import_card" where
  "import_answered answer s =
     (case answer of
        Inr r \<Rightarrow> (import_reset s)\<lparr>im_toasts := im_toasts s @ [import_toast r]\<rparr>
      | Inl f \<Rightarrow> s\<lparr>im_toasts := im_toasts s @ [failure_text f c_im_failed], im_importing := False\<rparr>)"

definition import_reloaded :: "import_card \<Rightarrow> import_card" where
  "import_reloaded s = s\<lparr>im_importing := False\<rparr>"

datatype import_event =
    FileChosen "jstr option"
  | FileText "jstr \<Rightarrow> jstr" "call_failure + jstr"
  | ImportPreviewed "call_failure + import_preview"
  | ImportCancelled
  | ImportConfirmed
  | ImportAnswer "call_failure + import_result"
  | ImportReloaded

fun import_step :: "import_card \<Rightarrow> import_event \<Rightarrow> import_card" where
  "import_step s (FileChosen f) = (if im_preview s = None \<and> \<not> im_previewing s then handleFileChange f s else s)"
| "import_step s (FileText syntax t) =
     (if im_previewing s \<and> im_rawPayload s = None then file_read syntax t s else s)"
| "import_step s (ImportPreviewed a) =
     (if im_previewing s \<and> im_rawPayload s \<noteq> None then import_preview_answered a s else s)"
| "import_step s ImportCancelled = (if im_preview s \<noteq> None \<and> \<not> im_importing s then import_reset s else s)"
| "import_step s ImportConfirmed = (if im_preview s \<noteq> None \<and> \<not> im_importing s then confirmImport s else s)"
| "import_step s (ImportAnswer a) = (if im_importing s \<and> im_preview s \<noteq> None then import_answered a s else s)"
| "import_step s ImportReloaded = (if im_importing s then import_reloaded s else s)"

definition buildWritePlan :: "import_preview \<Rightarrow> (jstr \<times> jstr) list" where
  "buildWritePlan p =
     [(c_im_pools, show_int (iv_created_pools p) @ js '' / '' @ show_int (iv_updated_pools p)),
      (c_im_tokens, show_int (iv_created_tokens p) @ js '' / '' @ show_int (iv_skipped_tokens p)),
      (c_im_settings, show_int (iv_updated_settings p) @ c_im_items)]"

section \<open>What a prune was previewed for\<close>

definition prune_ok :: "prune_panel \<Rightarrow> bool" where
  "prune_ok s \<longleftrightarrow> (pr_previewOpen s \<longrightarrow> pr_days s > 0 \<and> pr_preview s \<noteq> None) \<and> (\<forall>d \<in> set (pr_pruned s). d > 0)"

lemma prune_step_ok: "prune_ok s \<Longrightarrow> prune_ok (prune_step s e)"
  by (cases e)
     (auto simp: prune_ok_def prune_effect_def close_preview_def openPreview_def openPreview_answered_def confirmPrune_def
        confirmPrune_answered_def Let_def split: sum.splits prod.splits)

lemma prune_run_ok: "prune_ok s \<Longrightarrow> prune_ok (foldl prune_step s es)"
  by (induction es arbitrary: s) (simp_all add: prune_step_ok)

text \<open>
  C22: Nothing is pruned by hand while retention is off: whatever happens in whichever order, an open preview
  has its numbers and a positive retention, and every prune that was asked for had one.
\<close>

theorem prune_needs_retention:
  "prune_ok (foldl prune_step (prune_mount days) es)"
  by (rule prune_run_ok) (simp add: prune_ok_def prune_mount_def)

text \<open>
  The preview is not tied to what is pruned: with the preview of 30 days open, the retention can be
  set to one day and the prune confirmed, which then removes far more than was shown.
\<close>

theorem prune_beyond_preview:
  fixes p :: retention_preview and s :: prune_panel
  defines "p \<equiv> \<lparr>pv_retention_days = 30, logs_to_delete = 5, logs_to_delete_size_bytes = 0, deliveries_to_delete = 0,
      outbox_to_delete = 0, outbox_safety_days = 30\<rparr>"
    and "s \<equiv> foldl prune_step (prune_mount 30) [PreviewClicked, PreviewAnswer (Inr p), DaysChanged 1, ConfirmClicked]"
  shows "pr_pruned s = [1] \<and> pr_preview s = Some p \<and> pv_retention_days p = 30"
  unfolding s_def p_def
  by (simp add: prune_mount_def prune_effect_def openPreview_def openPreview_answered_def confirmPrune_def totalToDelete_def)

text \<open>
  A prune that worked is announced as failed when only the reload of the summary fails, and its preview
  stays open for a second confirmation.
\<close>

theorem successful_prune_reported_failed:
  fixes s :: prune_panel
  assumes "pr_pruning s" and "prune_ok s"
  shows "pr_toasts (prune_step s (PruneAnswer (Inr counts) (Inl (throw_error m)))) = pr_toasts s @ [m] \<and>
     pr_previewOpen (prune_step s (PruneAnswer (Inr counts) (Inl (throw_error m)))) = pr_previewOpen s"
  using assms
  by (auto simp: prune_ok_def prune_effect_def confirmPrune_answered_def failure_text_def throw_error_def nullish_def Let_def
      split: prod.splits)

section \<open>What is imported was previewed\<close>

definition import_ok :: "import_card \<Rightarrow> bool" where
  "import_ok s \<longleftrightarrow>
     (\<forall>p. im_preview s = Some p \<longrightarrow> \<not> im_previewing s \<and> (\<exists>v. im_rawPayload s = Some v \<and> (v, p) \<in> set (im_previews s))) \<and>
     set (im_imports s) \<subseteq> fst ` set (im_previews s)"

lemma import_step_ok: "import_ok s \<Longrightarrow> import_ok (import_step s e)"
  by (cases e)
     (auto simp: import_ok_def handleFileChange_def import_reset_def file_read_def file_failed_def import_preview_answered_def
        confirmImport_def import_answered_def import_reloaded_def image_iff split: option.splits sum.splits prod.splits
      intro: rev_bexI)

lemma import_run_ok: "import_ok s \<Longrightarrow> import_ok (foldl import_step s es)"
  by (induction es arbitrary: s) (simp_all add: import_step_ok)

text \<open>
  C7: The import writes what was shown: in every history of the card, each payload sent to be imported had
  been sent to the preview before and answered, and the preview on the screen is the answer for the
  payload that a click on confirm would send.
\<close>

theorem import_sends_previewed:
  "import_ok (foldl import_step import_mount es)"
  by (rule import_run_ok) (simp add: import_ok_def import_mount_def)

end
