(* ===== verification/Credentials.thy ===== *)
theory Credentials
  imports RouteHealth Requests Templates
begin

text \<open>
  The pool credentials of \<^verbatim>\<open>web/src/pages/SettingsPage.tsx\<close>: the tokens of the pools, the cache of revealed values
  and the rows that show them, and the handlers that copy, reveal, rename, replace and regenerate a
  token. Requests wait for their answers, so that they can overlap. \<open>cr_server\<close> is what the server holds.
\<close>

section \<open>State\<close>

datatype reveal_use = ForCopy | ForShow

text \<open>A reveal on its way carries the value the server read for it.\<close>

record reveal_call =
  rv_token :: access_token
  rv_use :: reveal_use
  rv_value :: jstr

record credentials =
  cr_tokens :: "access_token list"
  cr_revealed :: "int \<Rightarrow> jstr option"
  cr_visible :: "int list"
  cr_renaming :: "access_token option"
  cr_nameValue :: jstr
  cr_savingName :: bool
  cr_replacing :: "access_token option"
  cr_draft :: jstr
  cr_savingValue :: bool
  cr_regenerate :: "access_token option"
  cr_reveals :: "reveal_call list"
  cr_clipboard :: "jstr list"
  cr_toasts :: "jstr list"
  cr_server :: "int \<Rightarrow> jstr"

definition cr_toast :: "jstr \<Rightarrow> credentials \<Rightarrow> credentials" where
  "cr_toast m s = s\<lparr>cr_toasts := cr_toasts s @ [m]\<rparr>"

text \<open>The token shown with each pool is the first one of that pool.\<close>

definition poolCredentials :: "pool list \<Rightarrow> access_token list \<Rightarrow> (pool \<times> access_token option) list" where
  "poolCredentials pools tokens = map (\<lambda>p. (p, find (\<lambda>t. token_pool_id t = pool_id p) tokens)) pools"

text \<open>\<open>tokens.map((t) => t.id === id ? f(t) : t)\<close>.\<close>

definition update_token :: "int \<Rightarrow> (access_token \<Rightarrow> access_token) \<Rightarrow> access_token list \<Rightarrow> access_token list" where
  "update_token i f ts = map (\<lambda>t. if token_id t = i then f t else t) ts"

definition displayToken :: "credentials \<Rightarrow> access_token option \<Rightarrow> jstr" where
  "displayToken s token =
     (case token of
        None \<Rightarrow> c_tk_not_ready
      | Some t \<Rightarrow>
          if token_id t \<in> set (cr_visible s) then nullish (cr_revealed s (token_id t)) (token_masked t)
          else token_masked t)"

section \<open>Revealing and copying\<close>

text \<open>
  \<open>revealTokenValue\<close>: a cached value is used at once, otherwise the server is asked. The two callers go
  on with \<open>with_value\<close> or, when the request fails, \<open>without_value\<close>.
\<close>

definition with_value :: "reveal_use \<Rightarrow> call_failure option \<Rightarrow> access_token \<Rightarrow> jstr \<Rightarrow> credentials \<Rightarrow> credentials" where
  "with_value use clipboard t value s =
     (case use of
        ForCopy \<Rightarrow>
          (case clipboard of
             None \<Rightarrow> cr_toast c_tk_copied (s\<lparr>cr_clipboard := cr_clipboard s @ [value]\<rparr>)
           | Some f \<Rightarrow> cr_toast (failure_text f c_tk_copy_failed) s)
      | ForShow \<Rightarrow> s\<lparr>cr_visible := cr_visible s @ [token_id t]\<rparr>)"

definition without_value :: "reveal_use \<Rightarrow> call_failure \<Rightarrow> credentials \<Rightarrow> credentials" where
  "without_value use f s =
     cr_toast (failure_text f (case use of ForCopy \<Rightarrow> c_tk_copy_failed | ForShow \<Rightarrow> c_tk_read_failed)) s"

definition revealTokenValue :: "reveal_use \<Rightarrow> call_failure option \<Rightarrow> access_token \<Rightarrow> credentials \<Rightarrow> credentials" where
  "revealTokenValue use clipboard t s =
     (let cached = nullish (cr_revealed s (token_id t)) [] in
      if cached \<noteq> [] then with_value use clipboard t cached s
      else s\<lparr>cr_reveals := cr_reveals s @ [\<lparr>rv_token = t, rv_use = use, rv_value = cr_server s (token_id t)\<rparr>]\<rparr>)"

definition copyToken :: "call_failure option \<Rightarrow> access_token \<Rightarrow> credentials \<Rightarrow> credentials" where
  "copyToken clipboard t s = revealTokenValue ForCopy clipboard t s"

definition toggleReveal :: "access_token \<Rightarrow> credentials \<Rightarrow> credentials" where
  "toggleReveal t s =
     (if token_id t \<in> set (cr_visible s)
      then s\<lparr>cr_visible := filter (\<lambda>i. i \<noteq> token_id t) (cr_visible s)\<rparr>
      else revealTokenValue ForShow None t s)"

definition token_reveal_answered :: "nat \<Rightarrow> call_failure option \<Rightarrow> call_failure option \<Rightarrow> credentials \<Rightarrow> credentials" where
  "token_reveal_answered i failure clipboard s =
     (if i \<ge> length (cr_reveals s) then s
      else
        (let c = cr_reveals s ! i; t = rv_token c;
             s1 = s\<lparr>cr_reveals := take i (cr_reveals s) @ drop (Suc i) (cr_reveals s)\<rparr>
         in case failure of
              Some f \<Rightarrow> without_value (rv_use c) f s1
            | None \<Rightarrow>
                with_value (rv_use c) clipboard t (rv_value c)
                  (s1\<lparr>cr_revealed := (cr_revealed s1)(token_id t := Some (rv_value c))\<rparr>)))"

section \<open>Renaming\<close>

definition open_rename :: "access_token \<Rightarrow> credentials \<Rightarrow> credentials" where
  "open_rename t s = s\<lparr>cr_renaming := Some t, cr_nameValue := token_name t\<rparr>"

definition close_rename :: "credentials \<Rightarrow> credentials" where
  "close_rename s = (if cr_savingName s then s else s\<lparr>cr_renaming := None, cr_nameValue := []\<rparr>)"

definition submitRename :: "credentials \<Rightarrow> credentials" where
  "submitRename s =
     (case cr_renaming s of
        None \<Rightarrow> s
      | Some t \<Rightarrow>
          if cr_savingName s then s
          else
            (let name = trim (cr_nameValue s) in
             if name = [] then cr_toast c_tk_name_empty s
             else s\<lparr>cr_savingName := True, cr_tokens := update_token (token_id t) (\<lambda>u. u\<lparr>token_name := name\<rparr>) (cr_tokens s)\<rparr>))"

definition rename_answered :: "access_token \<Rightarrow> call_failure option \<Rightarrow> credentials \<Rightarrow> credentials" where
  "rename_answered t failure s =
     (case failure of
        None \<Rightarrow> (cr_toast c_tk_renamed s)\<lparr>cr_renaming := None, cr_nameValue := [], cr_savingName := False\<rparr>
      | Some f \<Rightarrow>
          (cr_toast (failure_text f c_tk_rename_failed)
            (s\<lparr>cr_tokens := update_token (token_id t) (\<lambda>u. u\<lparr>token_name := token_name t\<rparr>) (cr_tokens s)\<rparr>))
          \<lparr>cr_savingName := False\<rparr>)"

section \<open>Replacing\<close>

definition open_replace :: "access_token \<Rightarrow> credentials \<Rightarrow> credentials" where
  "open_replace t s = s\<lparr>cr_replacing := Some t, cr_draft := []\<rparr>"

definition close_replace :: "credentials \<Rightarrow> credentials" where
  "close_replace s = (if cr_savingValue s then s else s\<lparr>cr_replacing := None, cr_draft := []\<rparr>)"

definition submitTokenReplace :: "int \<Rightarrow> credentials \<Rightarrow> credentials" where
  "submitTokenReplace now s =
     (case cr_replacing s of
        None \<Rightarrow> s
      | Some t \<Rightarrow>
          if cr_savingValue s then s
          else
            (let v = trim (cr_draft s) in
             if v = [] then (cr_toast c_tk_kept s)\<lparr>cr_replacing := None, cr_draft := []\<rparr>
             else s\<lparr>cr_savingValue := True,
                    cr_tokens := update_token (token_id t)
                      (\<lambda>u. u\<lparr>token_masked := maskToken v, token_updated_at := toISOString now\<rparr>) (cr_tokens s)\<rparr>))"

text \<open>The answer to replacing \<open>t\<close> by \<open>v\<close>: the token as the server has it now.\<close>

definition replace_answered :: "access_token \<Rightarrow> jstr \<Rightarrow> call_failure + access_token \<Rightarrow> credentials \<Rightarrow> credentials" where
  "replace_answered t v answer s =
     (case answer of
        Inr u \<Rightarrow>
          (cr_toast c_tk_replaced s)
          \<lparr>cr_tokens := update_token (token_id u)
             (\<lambda>x. x\<lparr>token_name := token_name u, token_masked := or_str (Some (token_masked u)) (maskToken v),
                    token_updated_at := or_str (Some (token_updated_at u)) (token_updated_at x)\<rparr>) (cr_tokens s),
           cr_revealed := (cr_revealed s)(token_id u := None),
           cr_replacing := None, cr_draft := [], cr_savingValue := False,
           cr_server := (cr_server s)(token_id u := v)\<rparr>
      | Inl f \<Rightarrow>
          (cr_toast (failure_text f c_tk_replace_failed) (s\<lparr>cr_tokens := update_token (token_id t) (\<lambda>_. t) (cr_tokens s)\<rparr>))
          \<lparr>cr_savingValue := False\<rparr>)"

section \<open>Regenerating\<close>

definition nub_ids :: "int list \<Rightarrow> int list" where
  "nub_ids xs = foldl (\<lambda>acc x. if x \<in> set acc then acc else acc @ [x]) [] xs"

definition confirmRegenerateToken :: "int \<Rightarrow> call_failure + int \<times> jstr \<Rightarrow> credentials \<Rightarrow> credentials" where
  "confirmRegenerateToken now answer s =
     (case cr_regenerate s of
        None \<Rightarrow> s
      | Some t \<Rightarrow>
          (case answer of
             Inl f \<Rightarrow> cr_toast (failure_text f c_tk_regenerate_failed) s
           | Inr (i, v) \<Rightarrow>
               (cr_toast c_tk_regenerated s)
               \<lparr>cr_revealed := (cr_revealed s)(i := Some v),
                cr_visible := nub_ids (cr_visible s @ [i]),
                cr_tokens := update_token i (\<lambda>u. u\<lparr>token_masked := maskToken v, token_updated_at := toISOString now\<rparr>)
                  (cr_tokens s),
                cr_regenerate := None,
                cr_server := (cr_server s)(i := v)\<rparr>))"

section \<open>Lemmas on the list of tokens\<close>

lemma update_token_id: "(\<And>u. u \<in> set ts \<Longrightarrow> token_id u = i \<Longrightarrow> f u = u) \<Longrightarrow> update_token i f ts = ts"
  by (induction ts) (auto simp: update_token_def)

lemma update_token_twice:
  "(\<And>u. token_id (g u) = token_id u) \<Longrightarrow> update_token i f (update_token i g ts) = update_token i (f \<circ> g) ts"
  by (simp add: update_token_def)

lemma distinct_ids_same:
  "distinct (map token_id ts) \<Longrightarrow> t \<in> set ts \<Longrightarrow> u \<in> set ts \<Longrightarrow> token_id u = token_id t \<Longrightarrow> u = t"
  by (metis distinct_map inj_onD)

section \<open>What is shown and copied is current\<close>

datatype credential_event =
    CopyClicked "call_failure option" access_token
  | RevealClicked access_token
  | RevealAnswer nat "call_failure option" "call_failure option"
  | ReplaceAnswer access_token jstr "call_failure + access_token"
  | RegenerateDialog "access_token option"
  | RegenerateAnswer int "call_failure + int \<times> jstr"

fun cr_step :: "credentials \<Rightarrow> credential_event \<Rightarrow> credentials" where
  "cr_step s (CopyClicked c t) = copyToken c t s"
| "cr_step s (RevealClicked t) = toggleReveal t s"
| "cr_step s (RevealAnswer i f c) = token_reveal_answered i f c s"
| "cr_step s (ReplaceAnswer t v a) = replace_answered t v a s"
| "cr_step s (RegenerateDialog t) = s\<lparr>cr_regenerate := t\<rparr>"
| "cr_step s (RegenerateAnswer now a) = confirmRegenerateToken now a s"

text \<open>
  \<open>RegenerateDialog\<close> opens the confirmation of a token and, with \<open>None\<close>, closes it; \<open>RegenerateAnswer\<close> is
  its confirmation together with the answer. A history is calm when no token changes on the server while a
  reveal is on its way.
\<close>

fun changes_token :: "credential_event \<Rightarrow> bool" where
  "changes_token (ReplaceAnswer _ _ (Inr _)) = True"
| "changes_token (RegenerateAnswer _ (Inr _)) = True"
| "changes_token _ = False"

fun calm :: "credentials \<Rightarrow> credential_event list \<Rightarrow> bool" where
  "calm s [] = True"
| "calm s (e # es) = ((changes_token e \<longrightarrow> cr_reveals s = []) \<and> calm (cr_step s e) es)"

definition cache_current :: "credentials \<Rightarrow> bool" where
  "cache_current s \<longleftrightarrow>
     (\<forall>i v. cr_revealed s i = Some v \<longrightarrow> v = cr_server s i) \<and>
     (\<forall>c \<in> set (cr_reveals s). rv_value c = cr_server s (token_id (rv_token c)))"

lemmas reveal_defs = with_value_def without_value_def revealTokenValue_def copyToken_def toggleReveal_def cr_toast_def Let_def

lemma cache_current_step:
  assumes "cache_current s" and "changes_token e \<longrightarrow> cr_reveals s = []"
  shows "cache_current (cr_step s e)"
proof (cases e)
  case (RevealAnswer i f c)
  show ?thesis
  proof (cases "i < length (cr_reveals s)")
    case True
    then have "cr_reveals s ! i \<in> set (cr_reveals s)" by simp
    with RevealAnswer True assms(1) set_delete_at [of i "cr_reveals s"] show ?thesis
      by (auto simp: cache_current_def token_reveal_answered_def reveal_defs split: option.splits reveal_use.splits)
  qed (use RevealAnswer assms(1) in \<open>simp add: token_reveal_answered_def\<close>)
next
  case (ReplaceAnswer t v a)
  with assms show ?thesis by (cases a) (auto simp: cache_current_def replace_answered_def cr_toast_def)
next
  case (RegenerateAnswer now a)
  with assms show ?thesis
    by (cases a) (auto simp: cache_current_def confirmRegenerateToken_def cr_toast_def split: option.splits)
qed (use assms in \<open>auto simp: cache_current_def reveal_defs split: option.splits reveal_use.splits\<close>)

lemma cache_current_run: "cache_current s \<Longrightarrow> calm s es \<Longrightarrow> cache_current (foldl cr_step s es)"
  by (induction es arbitrary: s) (simp_all add: cache_current_step)

text \<open>
  C4: A cached token is the server's: as long as no token is replaced or regenerated while a reveal is on its
  way, every revealed value the page holds, and so every value it copies, is the one the server
  accepts at that moment, through any order of copies, reveals, replacements and regenerations.
\<close>

theorem revealed_tokens_current:
  assumes "cache_current s" and "calm s es" and "cr_revealed (foldl cr_step s es) i = Some v"
  shows "v = cr_server (foldl cr_step s es) i"
  using cache_current_run [OF assms(1,2)] assms(3) by (simp add: cache_current_def)

definition sample_token :: access_token where
  "sample_token =
     \<lparr>token_id = 7, token_name = js ''t'', token_value = None, token_masked = js ''sk-'', token_pool_id = 1,
      token_pool_label = None, token_enabled = True, token_created_at = [], token_updated_at = [], token_last_used_at = None\<rparr>"

definition sample_credentials :: credentials where
  "sample_credentials =
     \<lparr>cr_tokens = [sample_token], cr_revealed = (\<lambda>_. None), cr_visible = [], cr_renaming = None, cr_nameValue = [],
      cr_savingName = False, cr_replacing = None, cr_draft = [], cr_savingValue = False,
      cr_regenerate = Some sample_token, cr_reveals = [], cr_clipboard = [], cr_toasts = [], cr_server = (\<lambda>_. js ''old'')\<rparr>"

theorem revealed_tokens_current_witness:
  "cr_revealed (foldl cr_step sample_credentials [RevealClicked sample_token, RevealAnswer 0 None None]) 7 = Some (js ''old'') \<and>
   js ''old'' = cr_server (foldl cr_step sample_credentials [RevealClicked sample_token, RevealAnswer 0 None None]) 7"
proof -
  have "cr_revealed (foldl cr_step sample_credentials [RevealClicked sample_token, RevealAnswer 0 None None]) 7 = Some (js ''old'')"
    by (simp add: sample_credentials_def sample_token_def token_reveal_answered_def reveal_defs nullish_def)
  moreover have "cache_current sample_credentials" "calm sample_credentials [RevealClicked sample_token, RevealAnswer 0 None None]"
    by (simp_all add: cache_current_def sample_credentials_def)
  ultimately show ?thesis using revealed_tokens_current by blast
qed

section \<open>Refused edits leave no trace\<close>

text \<open>
  What may happen while an edit is out. The two dialogs are modal and cannot be closed while they save, so no
  answer to a replacement falls into a rename; a replacement puts back the whole token, so that a new value of
  the same token, if a regeneration of it is answered meanwhile, would be undone with it.
\<close>

fun beside_rename :: "credential_event \<Rightarrow> bool" where
  "beside_rename (ReplaceAnswer _ _ _) = False"
| "beside_rename _ = True"

fun beside_replace :: "int \<Rightarrow> credential_event \<Rightarrow> bool" where
  "beside_replace i (ReplaceAnswer _ _ _) = False"
| "beside_replace i (RegenerateAnswer _ (Inr (k, _))) = (k \<noteq> i)"
| "beside_replace i _ = True"

text \<open>The effect of an event on the list of tokens and on the open regeneration, which no other field decides.\<close>

fun tokens_after :: "credential_event \<Rightarrow> access_token option \<Rightarrow> access_token list \<Rightarrow> access_token list" where
  "tokens_after (RegenerateAnswer now (Inr (i, v))) (Some r) ts =
     update_token i (\<lambda>u. u\<lparr>token_masked := maskToken v, token_updated_at := toISOString now\<rparr>) ts"
| "tokens_after _ _ ts = ts"

fun regeneration_after :: "credential_event \<Rightarrow> access_token option \<Rightarrow> access_token option" where
  "regeneration_after (RegenerateAnswer now (Inr a)) _ = None"
| "regeneration_after (RegenerateDialog t) _ = t"
| "regeneration_after _ r = r"

lemma tokens_step:
  assumes "beside_rename e"
  shows "cr_tokens (cr_step s e) = tokens_after e (cr_regenerate s) (cr_tokens s)"
    and "cr_regenerate (cr_step s e) = regeneration_after e (cr_regenerate s)"
proof -
  have "cr_tokens (cr_step s e) = tokens_after e (cr_regenerate s) (cr_tokens s) \<and>
      cr_regenerate (cr_step s e) = regeneration_after e (cr_regenerate s)"
  proof (cases e)
    case (RegenerateAnswer now a)
    then show ?thesis
      by (cases a; cases "cr_regenerate s") (auto simp: confirmRegenerateToken_def cr_toast_def)
  qed (use assms in \<open>auto simp: token_reveal_answered_def reveal_defs split: option.splits reveal_use.splits\<close>)
  then show "cr_tokens (cr_step s e) = tokens_after e (cr_regenerate s) (cr_tokens s)"
    "cr_regenerate (cr_step s e) = regeneration_after e (cr_regenerate s)" by simp_all
qed

text \<open>A rollback that commutes with every event undoes a change made before them.\<close>

lemma undone_after_run:
  assumes "cr_regenerate x = cr_regenerate y" and "undo (cr_tokens x) = cr_tokens y"
    and "list_all (\<lambda>e. beside_rename e \<and> (\<forall>r ts. undo (tokens_after e r ts) = tokens_after e r (undo ts))) es"
  shows "undo (cr_tokens (foldl cr_step x es)) = cr_tokens (foldl cr_step y es)"
  using assms by (induction es arbitrary: x y) (simp_all add: tokens_step)

lemma rename_commutes:
  "update_token i (\<lambda>u. u\<lparr>token_name := n\<rparr>) (tokens_after e r ts) =
   tokens_after e r (update_token i (\<lambda>u. u\<lparr>token_name := n\<rparr>) ts)"
  by (cases "(e, r, ts)" rule: tokens_after.cases) (auto simp: update_token_def)

lemma replace_commutes:
  assumes "beside_replace (token_id t) e"
  shows "update_token (token_id t) (\<lambda>_. t) (tokens_after e r ts) = tokens_after e r (update_token (token_id t) (\<lambda>_. t) ts)"
  using assms by (cases "(e, r, ts)" rule: tokens_after.cases) (auto simp: update_token_def)

lemma beside_replace_rename: "beside_replace i e \<Longrightarrow> beside_rename e"
  by (cases "(i, e)" rule: beside_replace.cases) simp_all

lemma submits_undone:
  assumes "distinct (map token_id (cr_tokens s))" and "t \<in> set (cr_tokens s)"
  shows "cr_renaming s = Some t \<Longrightarrow>
      update_token (token_id t) (\<lambda>u. u\<lparr>token_name := token_name t\<rparr>) (cr_tokens (submitRename s)) = cr_tokens s"
    and "cr_replacing s = Some t \<Longrightarrow>
      update_token (token_id t) (\<lambda>_. t) (cr_tokens (submitTokenReplace now s)) = cr_tokens s"
proof -
  note same = distinct_ids_same [OF assms]
  have r: "update_token (token_id t) (\<lambda>u. u\<lparr>token_name := token_name t\<rparr>) (cr_tokens s) = cr_tokens s"
    by (rule update_token_id) (drule same, auto)
  have p: "update_token (token_id t) (\<lambda>_. t) (cr_tokens s) = cr_tokens s"
    by (rule update_token_id) (drule same, auto)
  show "cr_renaming s = Some t \<Longrightarrow>
      update_token (token_id t) (\<lambda>u. u\<lparr>token_name := token_name t\<rparr>) (cr_tokens (submitRename s)) = cr_tokens s"
    using r by (simp add: submitRename_def Let_def cr_toast_def update_token_twice comp_def)
  show "cr_replacing s = Some t \<Longrightarrow>
      update_token (token_id t) (\<lambda>_. t) (cr_tokens (submitTokenReplace now s)) = cr_tokens s"
    using p by (simp add: submitTokenReplace_def Let_def cr_toast_def update_token_twice comp_def)
qed

lemma submits_keep_regenerate:
  "cr_regenerate (submitRename s) = cr_regenerate s" "cr_regenerate (submitTokenReplace now s) = cr_regenerate s"
  by (simp_all add: submitRename_def submitTokenReplace_def Let_def cr_toast_def split: option.splits)

text \<open>
  C28: A refused edit leaves no trace in the list of tokens, which both edits change at once. While a rename is
  out, any copies, reveals and regenerations may be started and answered; when it is refused, the list is the
  one these would have left without the rename. The same holds for a refused replacement, as long as no
  regeneration of the same token succeeds meanwhile. Each needs only its own dialog, open on a token of
  the list, whose ids are distinct.
\<close>

theorem refused_edits_restore:
  assumes "distinct (map token_id (cr_tokens s))" and "t \<in> set (cr_tokens s)"
  shows "(cr_renaming s = Some t \<and> list_all beside_rename es \<longrightarrow>
       cr_tokens (rename_answered t (Some f) (foldl cr_step (submitRename s) es)) = cr_tokens (foldl cr_step s es)) \<and>
     (cr_replacing s = Some t \<and> list_all (beside_replace (token_id t)) es \<longrightarrow>
       cr_tokens (replace_answered t v (Inl f) (foldl cr_step (submitTokenReplace now s) es)) = cr_tokens (foldl cr_step s es))"
proof (intro conjI impI; elim conjE)
  assume d: "cr_renaming s = Some t" and es: "list_all beside_rename es"
  have "update_token (token_id t) (\<lambda>u. u\<lparr>token_name := token_name t\<rparr>) (cr_tokens (foldl cr_step (submitRename s) es)) =
      cr_tokens (foldl cr_step s es)"
    using es by (intro undone_after_run submits_undone(1) [OF assms d] submits_keep_regenerate)
      (simp add: list_all_iff rename_commutes)
  then show "cr_tokens (rename_answered t (Some f) (foldl cr_step (submitRename s) es)) = cr_tokens (foldl cr_step s es)"
    by (simp add: rename_answered_def cr_toast_def)
next
  assume d: "cr_replacing s = Some t" and es: "list_all (beside_replace (token_id t)) es"
  have "update_token (token_id t) (\<lambda>_. t) (cr_tokens (foldl cr_step (submitTokenReplace now s) es)) =
      cr_tokens (foldl cr_step s es)"
    using es by (intro undone_after_run submits_undone(2) [OF assms d] submits_keep_regenerate)
      (auto simp: list_all_iff replace_commutes beside_replace_rename)
  then show "cr_tokens (replace_answered t v (Inl f) (foldl cr_step (submitTokenReplace now s) es)) =
      cr_tokens (foldl cr_step s es)"
    by (simp add: replace_answered_def cr_toast_def)
qed

theorem refused_edits_restore_witness:
  "cr_tokens (rename_answered sample_token (Some (throw_error []))
     (foldl cr_step (submitRename (sample_credentials\<lparr>cr_renaming := Some sample_token, cr_nameValue := js ''new''\<rparr>))
        [RevealClicked sample_token, RevealAnswer 0 None None])) = [sample_token] \<and>
   cr_tokens (replace_answered sample_token (js ''fresh'') (Inl (throw_error []))
     (foldl cr_step (submitTokenReplace 0 (sample_credentials\<lparr>cr_replacing := Some sample_token, cr_draft := js ''fresh''\<rparr>))
        [CopyClicked None sample_token])) = [sample_token]"
  using refused_edits_restore [of "sample_credentials\<lparr>cr_renaming := Some sample_token, cr_nameValue := js ''new''\<rparr>"
      sample_token "[RevealClicked sample_token, RevealAnswer 0 None None]" "throw_error []"]
    refused_edits_restore [of "sample_credentials\<lparr>cr_replacing := Some sample_token, cr_draft := js ''fresh''\<rparr>"
      sample_token "[CopyClicked None sample_token]" "throw_error []" "js ''fresh''" 0]
  by (simp add: sample_credentials_def token_reveal_answered_def reveal_defs nullish_def)

text \<open>
  A reveal that is overtaken by a regeneration leaves the dead token in the cache: the row shows it and
  copying it, long after, puts it on the clipboard.
\<close>

theorem overtaken_reveal_keeps_dead_token:
  fixes s :: credentials
  defines "s \<equiv> foldl cr_step sample_credentials
      [RevealClicked sample_token, RegenerateAnswer 0 (Inr (7, js ''new'')), RevealAnswer 0 None None, CopyClicked None sample_token]"
  shows "displayToken s (Some sample_token) = js ''old'' \<and> cr_clipboard s = [js ''old''] \<and> cr_server s 7 = js ''new'' \<and>
     cr_reveals s = []"
  unfolding s_def
  by (simp add: sample_credentials_def sample_token_def displayToken_def token_reveal_answered_def confirmRegenerateToken_def
      reveal_defs nullish_def nub_ids_def js_def)

end
