(* ===== verification/SettingsHome.thy ===== *)
theory SettingsHome
  imports DataTransfer Credentials
begin

text \<open>
  The frame of \<^verbatim>\<open>web/src/pages/SettingsPage.tsx\<close>: loading the page, the readiness of the gateway, the links into the
  page, the state of the runtime in words, and the diagnostic texts it lets through. The page joins the
  gateway settings (\<open>GatewaySettings\<close>), the credentials (\<open>Credentials\<close>) and the retention summary
  (\<open>DataTransfer\<close>).
\<close>

section \<open>State\<close>

record readiness =
  rd_status :: jstr
  rd_message :: jstr

record settings_page =
  sp_service :: "cpa_service option"
  sp_gateway :: settings_state
  sp_credentials :: credentials
  sp_pools :: "pool list"
  sp_summary :: "retention_summary option"
  sp_readiness :: "readiness option"
  sp_loading :: bool
  sp_error :: "jstr option"
  sp_testing :: bool
  sp_highlighted :: "int option"
  sp_toasts :: "jstr list"

section \<open>Loading\<close>

datatype ready_answer = ReadyThrown "jstr option" | ReadyResponse int "(jstr option \<times> jstr option) option"

definition loadReadiness :: "ready_answer \<Rightarrow> settings_page \<Rightarrow> settings_page" where
  "loadReadiness answer s =
     s\<lparr>sp_readiness := Some
       (case answer of
          ReadyThrown msg \<Rightarrow> \<lparr>rd_status = js ''error'', rd_message = nullish msg (js ''readiness unavailable'')\<rparr>
        | ReadyResponse code payload \<Rightarrow>
            (let ok = (200 \<le> code \<and> code \<le> 299) in
             \<lparr>rd_status = or_str (Option.bind payload fst) (if ok then js ''ok'' else js ''error''),
              rd_message = or_str (Option.bind payload snd) (if ok then [] else js ''HTTP '' @ show_int code)\<rparr>))\<rparr>"

definition loadRetentionSummary :: "retention_summary \<Rightarrow> settings_page \<Rightarrow> settings_page" where
  "loadRetentionSummary m s = s\<lparr>sp_summary := Some m\<rparr>"

definition load :: "bool \<Rightarrow> settings_page \<Rightarrow> settings_page" where
  "load silent s = (if silent then s else s\<lparr>sp_loading := True\<rparr>)\<lparr>sp_error := None\<rparr>"

text \<open>All requests have been answered, or one of them was the first to fail.\<close>

definition settings_load_answered ::
    "call_failure + cpa_service option \<times> system_settings \<times> access_token list option \<times> pool list option \<Rightarrow>
       settings_page \<Rightarrow> settings_page" where
  "settings_load_answered answer s =
     (case answer of
        Inr (service, d, tokens, pools) \<Rightarrow>
          s\<lparr>sp_service := service,
            sp_gateway := (sp_gateway s)\<lparr>gs_settings := Some d, gs_form := form_of d\<rparr>,
            sp_credentials := (sp_credentials s)\<lparr>cr_tokens := nullish tokens []\<rparr>,
            sp_pools := nullish pools [], sp_loading := False\<rparr>
      | Inl f \<Rightarrow> s\<lparr>sp_error := Some (failure_text f c_sp_load_failed), sp_loading := False\<rparr>)"

text \<open>
  The retry button of \<open>ErrorState\<close> calls \<open>load\<close> as its click handler, so \<open>silent\<close> is the click event, which is
  truthy.
\<close>

definition retry_clicked :: "settings_page \<Rightarrow> settings_page" where
  "retry_clicked s = load True s"

datatype settings_view = SkeletonView | ErrorView jstr | ContentView

definition shown_view :: "settings_page \<Rightarrow> settings_view" where
  "shown_view s =
     (if sp_loading s then SkeletonView
      else if truthy_str (sp_error s) then ErrorView (nullish (sp_error s) [])
      else ContentView)"

section \<open>Links into the page\<close>

text \<open>\<open>hash.match(/^#access-token-(\d+)$/)\<close>.\<close>

definition token_hash :: "jstr \<Rightarrow> int option" where
  "token_hash hash =
     (let p = js ''#access-token-''; ds = drop (length p) hash in
      if startsWith hash p \<and> ds \<noteq> [] \<and> list_all is_digit ds then Some (int (digits_val ds)) else None)"

definition hash_target :: "jstr \<Rightarrow> jstr option" where
  "hash_target hash =
     (let wantsTokens = (hash = js ''#token-management'' \<or> token_hash hash \<noteq> None);
          wantsHistory = (hash = js ''#notification-history'')
      in if \<not> wantsTokens \<and> \<not> wantsHistory then None
         else Some (if wantsHistory then js ''notification-history'' else js ''token-management''))"

definition handleHash :: "jstr \<Rightarrow> settings_page \<Rightarrow> settings_page" where
  "handleHash hash s = (case token_hash hash of None \<Rightarrow> s | Some i \<Rightarrow> s\<lparr>sp_highlighted := Some i\<rparr>)"

definition highlight_over :: "settings_page \<Rightarrow> settings_page" where
  "highlight_over s = s\<lparr>sp_highlighted := None\<rparr>"

text \<open>
  \<open>tryScroll\<close>: \<open>present k\<close> says whether the section is there at the \<open>k\<close>-th attempt; the value is the attempt
  that scrolled, if one did.
\<close>

function tryScroll :: "(nat \<Rightarrow> bool) \<Rightarrow> nat \<Rightarrow> nat option" where
  "tryScroll present attempts =
     (if present attempts then Some attempts
      else if attempts < 20 then tryScroll present (attempts + 1) else None)"
  by pat_completeness auto
termination by (relation "measure (\<lambda>(_, k). 20 - k)") auto

declare tryScroll.simps [simp del]

section \<open>The runtime in words\<close>

definition runtime_ok :: "cpa_service \<Rightarrow> readiness option \<Rightarrow> bool" where
  "runtime_ok v r \<longleftrightarrow> svc_status v = js ''healthy'' \<and> map_option rd_status r = Some (js ''ok'')"

definition runtime_open :: "cpa_service \<Rightarrow> readiness option \<Rightarrow> bool" where
  "runtime_open v r \<longleftrightarrow> svc_status v = js ''unknown'' \<or> r = None \<or> map_option rd_status r = Some (js ''pending'')"

datatype runtime_tone = RuntimeOk | RuntimePending | RuntimeError

definition getRuntimeTone :: "cpa_service \<Rightarrow> readiness option \<Rightarrow> runtime_tone" where
  "getRuntimeTone v r = (if runtime_ok v r then RuntimeOk else if runtime_open v r then RuntimePending else RuntimeError)"

definition runtimeSummary :: "cpa_service \<Rightarrow> readiness option \<Rightarrow> jstr" where
  "runtimeSummary v r = (if runtime_ok v r then c_sp_ok else if runtime_open v r then c_sp_pending else c_sp_problem)"

definition runtimeModeLabel :: "jstr option \<Rightarrow> jstr" where
  "runtimeModeLabel mode =
     (let m = nullish mode [] in
      if m = [] \<or> m = js ''embedded'' then c_sp_mode_embedded
      else if m = js ''external'' then c_sp_mode_external else m)"

definition runtimeSummaryDetail :: "cpa_service \<Rightarrow> readiness option \<Rightarrow> jstr" where
  "runtimeSummaryDetail v r =
     (let version = or_str (svc_running_version v) (or_str (svc_current_version v) c_sp_no_version) in
      c_sp_version @ version @
      (if svc_last_error v \<noteq> [] then c_sp_detail_error
       else if truthy_str (map_option rd_message r) then c_sp_detail_ready else c_sp_detail_ok))"

text \<open>\<open>testService\<close>: the answer of the test, with the error it names, and the service read again afterwards.\<close>

definition testService_answered ::
    "call_failure + bool \<times> int \<times> jstr \<Rightarrow> call_failure + cpa_service option \<Rightarrow> settings_page \<Rightarrow> settings_page" where
  "testService_answered answer again s =
     (let say = (\<lambda>m t. t\<lparr>sp_toasts := sp_toasts t @ [m]\<rparr>);
          failed = (\<lambda>f t. (say (failure_text f c_sp_test_failed) t)\<lparr>sp_testing := False\<rparr>)
      in case answer of
           Inl f \<Rightarrow> failed f s
         | Inr (reachable, ms, err) \<Rightarrow>
             (let s1 = say (if reachable then c_sp_reachable @ show_int ms @ js ''ms''
                            else or_str (Some err) c_sp_unreachable) s
              in case again of
                   Inl f \<Rightarrow> failed f s1
                 | Inr v \<Rightarrow> s1\<lparr>sp_service := v, sp_testing := False\<rparr>))"

definition testService :: "settings_page \<Rightarrow> settings_page" where
  "testService s = (if sp_service s = None then s else s\<lparr>sp_testing := True\<rparr>)"

section \<open>Diagnostic texts\<close>

definition is_letter :: "nat \<Rightarrow> bool" where
  "is_letter c \<longleftrightarrow> 65 \<le> c \<and> c \<le> 90 \<or> 97 \<le> c \<and> c \<le> 122"

text \<open>\<open>\w\<close>, and \<open>\b\<close> between the unit before a position and the text from there on.\<close>

definition is_word :: "nat \<Rightarrow> bool" where
  "is_word c \<longleftrightarrow> is_letter c \<or> is_digit c \<or> c = 95"

definition at_boundary :: "nat option \<Rightarrow> jstr \<Rightarrow> bool" where
  "at_boundary prev s \<longleftrightarrow>
     (case prev of None \<Rightarrow> False | Some c \<Rightarrow> is_word c) \<noteq> (case s of [] \<Rightarrow> False | c # _ \<Rightarrow> is_word c)"

text \<open>A pattern without anchors matches at some position; \<open>P\<close> sees the unit before it and the rest.\<close>

fun match_at :: "(nat option \<Rightarrow> jstr \<Rightarrow> bool) \<Rightarrow> nat option \<Rightarrow> jstr \<Rightarrow> bool" where
  "match_at P prev [] = P prev []"
| "match_at P prev (c # s) = (P prev (c # s) \<or> match_at P (Some c) s)"

definition fold_case :: "nat \<Rightarrow> nat" where
  "fold_case c = (if 65 \<le> c \<and> c \<le> 90 then c + 32 else c)"

definition internal_word :: "nat option \<Rightarrow> jstr \<Rightarrow> bool" where
  "internal_word prev s \<longleftrightarrow>
     at_boundary prev s \<and>
     list_ex (\<lambda>w. startsWith (map fold_case s) w \<and> at_boundary (Some (last w)) (drop (length w) s))
       [js ''auth_dir'', js ''auth dir'', js ''cpa-auth'', js ''stack trace'', js ''traceback'']"

definition path_start :: "nat option \<Rightarrow> bool" where
  "path_start prev =
     (case prev of None \<Rightarrow> True | Some c \<Rightarrow> is_js_space c \<or> c = 34 \<or> c = 39 \<or> c = 61 \<or> c = 40)"

definition file_path :: "nat option \<Rightarrow> jstr \<Rightarrow> bool" where
  "file_path prev s \<longleftrightarrow>
     path_start prev \<and>
     (list_ex (\<lambda>d. startsWith s (47 # d) \<and>
          (let r = drop (Suc (length d)) s in startsWith r [47] \<or> at_boundary (Some (last d)) r))
        [js ''app'', js ''var'', js ''tmp'', js ''home'', js ''data'', js ''run'', js ''etc'', js ''usr'', js ''opt''] \<or>
      (case s of c # r \<Rightarrow> is_letter c \<and> startsWith r [58, 92] | [] \<Rightarrow> False))"

definition url_at :: "nat option \<Rightarrow> jstr \<Rightarrow> bool" where
  "url_at prev s \<longleftrightarrow>
     list_ex (\<lambda>p. startsWith s p \<and> (case drop (length p) s of [] \<Rightarrow> False | c # _ \<Rightarrow> \<not> is_js_space c))
       [js ''http://'', js ''https://'']"

definition stack_frame :: "nat option \<Rightarrow> jstr \<Rightarrow> bool" where
  "stack_frame prev s \<longleftrightarrow>
     at_boundary prev s \<and> startsWith s (js ''at'') \<and>
     (let r = drop 2 s; u = dropWhile is_js_space r; run = takeWhile (\<lambda>c. \<not> is_js_space c) u in
      u \<noteq> r \<and> list_ex (\<lambda>j. run ! j = 40 \<and> 41 \<in> set (drop (Suc j) u)) [1..<length run])"

definition includesInternalDetail :: "jstr \<Rightarrow> bool" where
  "includesInternalDetail t \<longleftrightarrow>
     length t > 96 \<or> str_includes t [10] \<or> str_includes t [92, 110] \<or> match_at internal_word None t \<or>
     match_at file_path None t \<or> match_at url_at None t \<or> match_at stack_frame None t"

definition friendlyDiagnostic :: "jstr option \<Rightarrow> jstr \<Rightarrow> jstr" where
  "friendlyDiagnostic value dflt =
     (let t = trim (nullish value []); lower = toLowerCase t in
      if t = [] then dflt
      else if lower = js ''ok'' then c_sp_none
      else if str_includes lower (js ''connection refused'') \<or> str_includes lower (js ''connect:'') then c_sp_refused
      else if str_includes lower (js ''timeout'') \<or> str_includes lower (js ''deadline exceeded'') then c_sp_timeout
      else if str_includes lower (js ''no such file'') \<or> str_includes lower (js ''permission denied'') then c_sp_files
      else if includesInternalDetail t then c_sp_internal
      else t)"

section \<open>What the page shows\<close>

lemma match_at_none:
  assumes "\<And>prev c u. 127 < c \<Longrightarrow> \<not> P prev (c # u)" and "\<And>prev. \<not> P prev []"
  shows "(\<And>c. c \<in> set t \<Longrightarrow> 127 < c) \<Longrightarrow> \<not> match_at P prev t"
  by (induction t arbitrary: prev) (auto simp: assms)

lemma wide_text_plain:
  assumes "list_all (\<lambda>c. 127 < c) t" and "length t \<le> 96"
  shows "\<not> includesInternalDetail t"
proof -
  have w: "c \<in> set t \<Longrightarrow> 127 < c" for c using assms(1) by (simp add: list_all_iff)
  have i: "\<not> str_includes t [10]" "\<not> str_includes t [92, 110]"
    using w [of 10] w [of 92] by (auto simp: str_includes_iff)
  have m: "\<not> match_at internal_word None t" "\<not> match_at file_path None t" "\<not> match_at url_at None t"
      "\<not> match_at stack_frame None t"
    by (rule match_at_none; use w in \<open>auto simp: internal_word_def file_path_def url_at_def stack_frame_def startsWith_def js_def
        fold_case_def is_letter_def split: if_splits\<close>)+
  show ?thesis using assms(2) i m by (simp add: includesInternalDetail_def)
qed

lemma fixed_texts:
  "\<not> includesInternalDetail c_sp_none" "\<not> includesInternalDetail c_sp_refused" "\<not> includesInternalDetail c_sp_timeout"
  "\<not> includesInternalDetail c_sp_files" "\<not> includesInternalDetail c_sp_internal"
  by (rule wide_text_plain; simp add: c_sp_none_def c_sp_refused_def c_sp_timeout_def c_sp_files_def c_sp_internal_def)+

lemma dashes_plain: "\<not> includesInternalDetail (js ''--'')"
  by (simp add: includesInternalDetail_def internal_word_def file_path_def url_at_def stack_frame_def startsWith_def js_def
      fold_case_def is_letter_def at_boundary_def is_word_def is_digit_def)

text \<open>
  What must not be seen, stated on the text itself and not by the code's own test: a text shows an address,
  a path, a drive, a word of the internals or a stack frame if it can be cut into pieces that do.
\<close>

definition piece_start :: "jstr \<Rightarrow> bool" where
  "piece_start a \<longleftrightarrow> a = [] \<or> is_js_space (last a) \<or> last a \<in> {34, 39, 61, 40}"

definition shows_address :: "jstr \<Rightarrow> bool" where
  "shows_address t \<longleftrightarrow>
     (\<exists>a p c b. t = a @ p @ c # b \<and> p \<in> {js ''http://'', js ''https://''} \<and> \<not> is_js_space c)"

definition shows_path :: "jstr \<Rightarrow> bool" where
  "shows_path t \<longleftrightarrow>
     (\<exists>a d b. t = a @ 47 # d @ b \<and> piece_start a \<and> (b = [] \<or> \<not> is_word (hd b)) \<and>
        d \<in> {js ''app'', js ''var'', js ''tmp'', js ''home'', js ''data'', js ''run'', js ''etc'', js ''usr'', js ''opt''})"

definition shows_drive :: "jstr \<Rightarrow> bool" where
  "shows_drive t \<longleftrightarrow> (\<exists>a c b. t = a @ [c, 58, 92] @ b \<and> piece_start a \<and> is_letter c)"

definition shows_internal_word :: "jstr \<Rightarrow> bool" where
  "shows_internal_word t \<longleftrightarrow>
     (\<exists>a w b. t = a @ w @ b \<and> (a = [] \<or> \<not> is_word (last a)) \<and> (b = [] \<or> \<not> is_word (hd b)) \<and>
        map fold_case w \<in> {js ''auth_dir'', js ''auth dir'', js ''cpa-auth'', js ''stack trace'', js ''traceback''})"

definition shows_frame :: "jstr \<Rightarrow> bool" where
  "shows_frame t \<longleftrightarrow>
     (\<exists>a sp f g b. t = a @ js ''at'' @ sp @ f @ [40] @ g @ [41] @ b \<and> (a = [] \<or> \<not> is_word (last a)) \<and>
        sp \<noteq> [] \<and> list_all is_js_space sp \<and> f \<noteq> [] \<and> list_all (\<lambda>c. \<not> is_js_space c) f)"

definition fit_to_show :: "jstr \<Rightarrow> bool" where
  "fit_to_show t \<longleftrightarrow>
     length t \<le> 96 \<and> 10 \<notin> set t \<and> (\<nexists>a b. t = a @ [92, 110] @ b) \<and> \<not> shows_address t \<and>
     \<not> shows_path t \<and> \<not> shows_drive t \<and> \<not> shows_internal_word t \<and> \<not> shows_frame t"

lemma match_at_pieces:
  "P (if a = [] then prev else Some (last a)) b \<Longrightarrow> match_at P prev (a @ b)"
proof (induction a arbitrary: prev)
  case Nil
  then show ?case by (cases b) simp_all
next
  case (Cons c a)
  then show ?case by (auto split: if_splits)
qed

lemma path_start_piece: "piece_start a \<Longrightarrow> path_start (if a = [] then None else Some (last a))"
  by (auto simp: piece_start_def path_start_def)

lemma address_matched: "shows_address t \<Longrightarrow> match_at url_at None t"
  unfolding shows_address_def by (auto simp: url_at_def startsWith_iff intro!: match_at_pieces)

lemma path_matched: "shows_path t \<Longrightarrow> match_at file_path None t"
proof -
  assume "shows_path t"
  then obtain a d b where t: "t = a @ 47 # d @ b" and a: "piece_start a" and b: "b = [] \<or> \<not> is_word (hd b)"
    and d: "d \<in> {js ''app'', js ''var'', js ''tmp'', js ''home'', js ''data'', js ''run'', js ''etc'', js ''usr'', js ''opt''}"
    unfolding shows_path_def by blast
  have l: "is_word (last d)" using d by (auto simp: js_def is_word_def is_letter_def)
  have "at_boundary (Some (last d)) b" using l b by (cases b) (auto simp: at_boundary_def)
  moreover have "startsWith (47 # d @ b) (47 # d)" "drop (Suc (length d)) (47 # d @ b) = b"
    by (simp_all add: startsWith_iff)
  ultimately have "file_path (if a = [] then None else Some (last a)) (47 # d @ b)"
    using d path_start_piece [OF a] unfolding file_path_def Let_def list_ex_iff by fastforce
  then show ?thesis unfolding t by (rule match_at_pieces)
qed

lemma drive_matched: "shows_drive t \<Longrightarrow> match_at file_path None t"
  unfolding shows_drive_def
  by (auto simp: file_path_def path_start_piece startsWith_iff intro!: match_at_pieces)

lemma internal_word_matched: "shows_internal_word t \<Longrightarrow> match_at internal_word None t"
proof -
  assume "shows_internal_word t"
  then obtain a w b where t: "t = a @ w @ b" and a: "a = [] \<or> \<not> is_word (last a)" and b: "b = [] \<or> \<not> is_word (hd b)"
    and w: "map fold_case w \<in> {js ''auth_dir'', js ''auth dir'', js ''cpa-auth'', js ''stack trace'', js ''traceback''}"
    unfolding shows_internal_word_def by blast
  let ?v = "map fold_case w"
  have ne: "w \<noteq> []" using w by (auto simp: js_def)
  have "is_letter (hd ?v)" "is_letter (last ?v)" using w by (auto simp: js_def is_letter_def)
  then have e: "is_word (hd w)" "is_word (last ?v)"
    using ne by (auto simp: is_word_def is_letter_def fold_case_def hd_map split: if_splits)
  have "at_boundary (if a = [] then None else Some (last a)) (w @ b)"
    using a e(1) ne by (cases w) (auto simp: at_boundary_def)
  moreover have "at_boundary (Some (last ?v)) (drop (length ?v) (w @ b))"
    using b e(2) by (cases b) (auto simp: at_boundary_def)
  moreover have "startsWith (map fold_case (w @ b)) ?v" by (simp add: startsWith_iff)
  moreover have "?v \<in> set [js ''auth_dir'', js ''auth dir'', js ''cpa-auth'', js ''stack trace'', js ''traceback'']"
    using w by simp
  ultimately have "internal_word (if a = [] then None else Some (last a)) (w @ b)"
    unfolding internal_word_def list_ex_iff by blast
  then show ?thesis unfolding t by (rule match_at_pieces)
qed

lemma frame_matched: "shows_frame t \<Longrightarrow> match_at stack_frame None t"
proof -
  assume "shows_frame t"
  then obtain a sp f g b where t: "t = a @ js ''at'' @ sp @ f @ [40] @ g @ [41] @ b" and a: "a = [] \<or> \<not> is_word (last a)"
    and sp: "sp \<noteq> []" "list_all is_js_space sp" and f: "f \<noteq> []" "list_all (\<lambda>c. \<not> is_js_space c) f"
    unfolding shows_frame_def by blast
  let ?u = "f @ 40 # g @ 41 # b" and ?s = "js ''at'' @ sp @ f @ 40 # g @ 41 # b"
  let ?run = "f @ 40 # takeWhile (\<lambda>c. \<not> is_js_space c) (g @ 41 # b)"
  have r: "drop 2 ?s = sp @ ?u" by (simp add: js_def)
  have u: "dropWhile is_js_space (sp @ ?u) = ?u"
    using sp(2) f by (cases f) (simp_all add: list_all_iff)
  have run: "takeWhile (\<lambda>c. \<not> is_js_space c) ?u = ?run"
    using f(2) by (subst takeWhile_append2) (auto simp: list_all_iff is_js_space_def)
  have "?run ! length f = 40" "41 \<in> set (drop (Suc (length f)) ?u)" "length f \<in> set [1..<length ?run]"
    using f(1) by (simp_all add: Suc_le_eq)
  then have "list_ex (\<lambda>j. ?run ! j = 40 \<and> 41 \<in> set (drop (Suc j) ?u)) [1..<length ?run]"
    unfolding list_ex_iff by blast
  moreover have "at_boundary (if a = [] then None else Some (last a)) ?s"
    using a by (auto simp: at_boundary_def js_def is_word_def is_letter_def)
  moreover have "startsWith ?s (js ''at'')" "?u \<noteq> sp @ ?u" using sp(1) by (simp_all add: startsWith_iff)
  ultimately have "stack_frame (if a = [] then None else Some (last a)) ?s"
    unfolding stack_frame_def Let_def r u run by blast
  then show ?thesis unfolding t by (intro match_at_pieces) simp
qed

lemma passed_is_fit:
  assumes "\<not> includesInternalDetail t"
  shows "fit_to_show t"
proof -
  have "length t \<le> 96" "10 \<notin> set t" "\<nexists>a b. t = a @ [92, 110] @ b"
    using assms str_includes_single [of t 10] str_includes_iff [of t "[92, 110]"]
    unfolding includesInternalDetail_def by (simp_all add: not_less del: append_Cons)
  then show ?thesis
    using assms address_matched path_matched drive_matched internal_word_matched frame_matched
    unfolding fit_to_show_def includesInternalDetail_def by blast
qed


lemma tryScroll_spec:
  assumes "k \<le> 20"
  shows "tryScroll present k = (if \<exists>j. k \<le> j \<and> j \<le> 20 \<and> present j then Some (LEAST j. k \<le> j \<and> present j) else None)"
  using assms
proof (induction "20 - k" arbitrary: k)
  case 0
  then have "k = 20" by simp
  have l: "(LEAST j. 20 \<le> j \<and> present j) = 20" if "present 20" by (rule Least_equality) (use that in auto)
  with \<open>k = 20\<close> show ?case by (subst tryScroll.simps) (auto simp: l dest: le_antisym)
next
  case (Suc m)
  then have k: "k < 20" by simp
  show ?case
  proof (cases "present k")
    case True
    then have "(LEAST j. k \<le> j \<and> present j) = k" by (intro Least_equality) auto
    with True k show ?thesis by (subst tryScroll.simps) (auto intro: exI [of _ k])
  next
    case False
    have "(\<lambda>j. k \<le> j \<and> present j) = (\<lambda>j. k + 1 \<le> j \<and> present j)"
      using False by (auto simp: fun_eq_iff) (metis Suc_leI le_neq_implies_less)
    moreover have "(\<exists>j. k \<le> j \<and> j \<le> 20 \<and> present j) \<longleftrightarrow> (\<exists>j. k + 1 \<le> j \<and> j \<le> 20 \<and> present j)"
      using False by (metis Suc_eq_plus1 Suc_leD Suc_leI le_neq_implies_less)
    ultimately show ?thesis
      using False k Suc by (subst tryScroll.simps) auto
  qed
qed

text \<open>
  C37: The search for a section to scroll to ends: it tries at most 21 times, scrolls at the first attempt at
  which the section is there, and gives up when it is at none of them.
\<close>

theorem scroll_retries_end:
  "tryScroll present 0 = (if \<exists>j\<le>20. present j then Some (LEAST j. present j) else None)"
  using tryScroll_spec [of 0 present] by simp

text \<open>
  Retrying after a failed first load shows settings nobody saved: the page is neither loading nor in
  error while the requests are out, so it shows the built-in form, 120 seconds and 3 attempts, as
  the current settings.
\<close>

definition settings_initial :: "system_settings \<Rightarrow> settings_page" where
  "settings_initial server =
     \<lparr>sp_service = None,
      sp_gateway = \<lparr>gs_settings = None, gs_form = initial_form, gs_savingField = None, gs_seq = (\<lambda>_. 0), gs_pending = [],
                    gs_toasts = [], gs_server = server\<rparr>,
      sp_credentials = sample_credentials\<lparr>cr_tokens := [], cr_regenerate := None\<rparr>,
      sp_pools = [], sp_summary = None, sp_readiness = None, sp_loading = True, sp_error = None, sp_testing = False,
      sp_highlighted = None, sp_toasts = []\<rparr>"

theorem retry_shows_builtin_settings:
  fixes s :: settings_page
  defines "s \<equiv> retry_clicked (settings_load_answered (Inl (throw_error (js ''down''))) (load False
      (settings_initial (sample_settings\<lparr>request_timeout := 30\<rparr>))))"
  shows "shown_view s = ContentView \<and> gs_form (sp_gateway s) = initial_form \<and>
     gf_request_timeout (gs_form (sp_gateway s)) = 120 \<and> request_timeout (gs_server (sp_gateway s)) = 30"
  unfolding s_def
  by (simp add: retry_clicked_def load_def settings_load_answered_def settings_initial_def shown_view_def sample_settings_def
      initial_form_def truthy_str_def)

end
