(* ===== verification/Notifications.thy ===== *)
theory Notifications
  imports Requests Templates GatewaySettings
begin

text \<open>
  The notification settings of \<^verbatim>\<open>web/src/pages/SettingsPage/notifications\<close>: the channel (\<open>NotificationsSection\<close>,
  \<open>SettingsForm\<close>, \<open>TestPanel\<close>), the rows of the subscriptions, the threshold of the expiry warning
  and the inputs for mobile numbers and days. Three kinds of save run at once, each with a sequence number of its own;
  every answer names the save it belongs to, and each kind is an instance of \<open>latest_wins\<close>.
\<close>

section \<open>The channel\<close>

record notification_settings =
  ns_enabled :: bool
  webhook_url :: jstr
  mention_mobile_list :: "jstr list"

record test_result =
  tr_ok :: bool
  tr_latency_ms :: int
  tr_code :: jstr
  tr_message :: jstr

text \<open>\<open>ch_prev n\<close> is the snapshot in the closure of the \<open>n\<close>-th commit; \<open>ch_sent\<close> and \<open>ch_tests\<close> what went out.\<close>

record channel_state =
  ch_settings :: "notification_settings option"
  ch_draft :: jstr
  ch_saving :: bool
  ch_urlError :: "jstr option"
  ch_seq :: nat
  ch_prev :: "nat \<Rightarrow> notification_settings option"
  ch_toasts :: "jstr list"
  ch_sent :: "notification_settings list"
  ch_testInFlight :: bool
  ch_testLoading :: bool
  ch_testResult :: "test_result option"
  ch_tests :: nat

definition commitSettings :: "notification_settings \<Rightarrow> channel_state \<Rightarrow> channel_state" where
  "commitSettings next s =
     (let seq = Suc (ch_seq s) in
      s\<lparr>ch_seq := seq, ch_prev := (ch_prev s)(seq := ch_settings s), ch_saving := True, ch_urlError := None,
        ch_sent := ch_sent s @ [next\<lparr>webhook_url := trim (webhook_url next)\<rparr>]\<rparr>)"

definition is_url_error :: "call_failure \<Rightarrow> jstr \<Rightarrow> bool" where
  "is_url_error f message \<longleftrightarrow>
     cf_status f = Some 400 \<and>
     (str_includes (toLowerCase message) (js ''webhook_url'') \<or> str_includes (toLowerCase message) (js ''webhook url''))"

definition commit_answered :: "nat \<Rightarrow> call_failure + notification_settings \<Rightarrow> channel_state \<Rightarrow> channel_state" where
  "commit_answered seq answer s =
     (if seq \<noteq> ch_seq s then s
      else case answer of
        Inr updated \<Rightarrow> s\<lparr>ch_settings := Some updated, ch_draft := webhook_url updated, ch_saving := False\<rparr>
      | Inl f \<Rightarrow>
          (let message = failure_text f c_nt_save_failed in
           s\<lparr>ch_urlError := (if is_url_error f message then Some message else ch_urlError s),
             ch_toasts := ch_toasts s @ [message],
             ch_settings := (case ch_prev s seq of Some p \<Rightarrow> Some p | None \<Rightarrow> ch_settings s),
             ch_saving := False\<rparr>))"

text \<open>
  The callers: the switch, the address field and the mobile numbers show the new settings at once; the
  handler still sees the old ones, so they are the snapshot.
\<close>

definition commit_shown :: "notification_settings \<Rightarrow> channel_state \<Rightarrow> channel_state" where
  "commit_shown next s = (commitSettings next s)\<lparr>ch_settings := Some next\<rparr>"

definition switch_changed :: "bool \<Rightarrow> channel_state \<Rightarrow> channel_state" where
  "switch_changed checked s =
     (case ch_settings s of
        None \<Rightarrow> s
      | Some d \<Rightarrow> if ch_saving s then s else commit_shown (d\<lparr>ns_enabled := checked, webhook_url := trim (ch_draft s)\<rparr>) s)"

definition commitUrl :: "channel_state \<Rightarrow> channel_state" where
  "commitUrl s =
     (case ch_settings s of
        None \<Rightarrow> s
      | Some d \<Rightarrow>
          (let trimmed = trim (ch_draft s) in
           if trimmed = webhook_url d then s else commit_shown (d\<lparr>webhook_url := trimmed\<rparr>) s))"

definition commit_mobiles :: "jstr list \<Rightarrow> channel_state \<Rightarrow> channel_state" where
  "commit_mobiles next s =
     (case ch_settings s of None \<Rightarrow> s | Some d \<Rightarrow> commit_shown (d\<lparr>mention_mobile_list := next\<rparr>) s)"

definition canTest :: "channel_state \<Rightarrow> bool" where
  "canTest s \<longleftrightarrow> (case ch_settings s of None \<Rightarrow> False | Some d \<Rightarrow> ns_enabled d) \<and> trim (ch_draft s) \<noteq> []"

definition testDisabledReason :: "channel_state \<Rightarrow> jstr option" where
  "testDisabledReason s =
     (if \<not> (case ch_settings s of None \<Rightarrow> False | Some d \<Rightarrow> ns_enabled d) then Some c_nt_need_switch
      else if trim (ch_draft s) = [] then Some c_nt_need_url else None)"

text \<open>
  \<open>runTest\<close> up to its first await: it sends the test, or first saves the typed address and waits for
  that save to settle.
\<close>

definition send_test :: "channel_state \<Rightarrow> channel_state" where
  "send_test s = s\<lparr>ch_tests := Suc (ch_tests s)\<rparr>"

definition run_test :: "channel_state \<Rightarrow> channel_state" where
  "run_test s =
     (if ch_testInFlight s then s
      else
        (let s1 = s\<lparr>ch_testInFlight := True, ch_testLoading := True\<rparr> in
         case ch_settings s of
           Some d \<Rightarrow>
             if trim (ch_draft s) \<noteq> webhook_url d
             then commitSettings (d\<lparr>webhook_url := trim (ch_draft s)\<rparr>) s1 else send_test s1
         | None \<Rightarrow> send_test s1))"

definition test_over :: "channel_state \<Rightarrow> channel_state" where
  "test_over s = s\<lparr>ch_testInFlight := False, ch_testLoading := False\<rparr>"

definition presave_settled :: "bool \<Rightarrow> channel_state \<Rightarrow> channel_state" where
  "presave_settled thrown s = (if thrown then test_over s else send_test s)"

definition test_answered :: "call_failure + test_result \<Rightarrow> channel_state \<Rightarrow> channel_state" where
  "test_answered answer s =
     test_over
       (case answer of
          Inr r \<Rightarrow>
            s\<lparr>ch_testResult := Some r,
              ch_toasts := ch_toasts s @ (if tr_ok r then [] else [or_str (Some (tr_message r)) c_nt_test_failed])\<rparr>
        | Inl f \<Rightarrow>
            if cf_status f = Some 409 then
              s\<lparr>ch_toasts := ch_toasts s @ [c_nt_disabled],
                ch_testResult := Some \<lparr>tr_ok = False, tr_latency_ms = 0, tr_code = js ''disabled'', tr_message = c_nt_disabled\<rparr>\<rparr>
            else
              (let message = failure_text f c_nt_test_failed in
               s\<lparr>ch_toasts := ch_toasts s @ [message],
                 ch_testResult := Some
                   \<lparr>tr_ok = False, tr_latency_ms = 0,
                    tr_code = (case cf_status f of Some n \<Rightarrow> js ''http '' @ show_int n | None \<Rightarrow> js ''network_error''),
                    tr_message = message\<rparr>\<rparr>))"

datatype channel_event =
    DraftTyped jstr
  | UrlBlurred
  | SwitchClicked bool
  | MobilesCommitted "jstr list"
  | TestClicked
  | CommitAnswer nat "call_failure + notification_settings"
  | PresaveSettled bool
  | TestAnswer "call_failure + test_result"

fun channel_step :: "channel_state \<Rightarrow> channel_event \<Rightarrow> channel_state" where
  "channel_step s (DraftTyped t) = (if ch_saving s then s else s\<lparr>ch_draft := t\<rparr>)"
| "channel_step s UrlBlurred = commitUrl s"
| "channel_step s (SwitchClicked b) = switch_changed b s"
| "channel_step s (MobilesCommitted ms) = commit_mobiles ms s"
| "channel_step s TestClicked = (if canTest s \<and> \<not> ch_testLoading s then run_test s else s)"
| "channel_step s (CommitAnswer n a) = commit_answered n a s"
| "channel_step s (PresaveSettled thrown) = presave_settled thrown s"
| "channel_step s (TestAnswer a) = test_answered a s"

section \<open>The subscriptions\<close>

record subscription =
  sub_event :: jstr
  subscribed :: bool
  body_template :: jstr

datatype sub_field = FSubscribed | FBody

record subscriptions_state =
  sb_subscriptions :: "subscription list"
  sb_seq :: "jstr \<Rightarrow> nat"
  sb_saving :: "jstr \<Rightarrow> sub_field option"
  sb_errors :: "jstr \<Rightarrow> jstr option"
  sb_banner :: "jstr option"
  sb_toasts :: "jstr list"
  sb_sent :: "(jstr \<times> bool \<times> jstr) list"

definition clearSingleFieldError :: "jstr \<Rightarrow> subscriptions_state \<Rightarrow> subscriptions_state" where
  "clearSingleFieldError event s = s\<lparr>sb_errors := (sb_errors s)(event := None)\<rparr>"

definition commitSubscription :: "jstr \<Rightarrow> sub_field \<Rightarrow> subscription \<Rightarrow> subscriptions_state \<Rightarrow> subscriptions_state" where
  "commitSubscription event field next s =
     (let body = trim (body_template next); seq = Suc (sb_seq s event) in
      if field = FBody \<and> body = [] then s\<lparr>sb_errors := (sb_errors s)(event := Some c_nt_body_empty)\<rparr>
      else if body = [] \<and> field = FSubscribed then s\<lparr>sb_banner := Some c_nt_body_first\<rparr>
      else s\<lparr>sb_errors := (sb_errors s)(event := None), sb_seq := (sb_seq s)(event := seq),
             sb_saving := (sb_saving s)(event := Some field),
             sb_sent := sb_sent s @ [(event, subscribed next, body_template next)]\<rparr>)"

definition subscription_answered ::
    "jstr \<Rightarrow> nat \<Rightarrow> sub_field \<Rightarrow> call_failure + subscription \<Rightarrow> subscriptions_state \<Rightarrow> subscriptions_state" where
  "subscription_answered event seq field answer s =
     (if seq \<noteq> sb_seq s event then s
      else case answer of
        Inr updated \<Rightarrow>
          s\<lparr>sb_subscriptions := map (\<lambda>i. if sub_event i = event then updated else i) (sb_subscriptions s),
            sb_banner := None, sb_saving := (sb_saving s)(event := None)\<rparr>
      | Inl f \<Rightarrow>
          (let message = failure_text f c_nt_sub_failed;
               s1 = (if cf_status f = Some 400 \<and> field = FBody
                     then s\<lparr>sb_errors := (sb_errors s)(event := Some message)\<rparr>
                     else s\<lparr>sb_banner := Some message\<rparr>)
           in s1\<lparr>sb_toasts := sb_toasts s @ [message], sb_saving := (sb_saving s)(event := None)\<rparr>))"

text \<open>The row of an event, which exists for every known event but the test, and its two controls.\<close>

definition subscription_row :: "notification_event_type \<Rightarrow> subscription list \<Rightarrow> subscription option" where
  "subscription_row et subs =
     (if nt_event et = js ''test'' then None else find (\<lambda>i. sub_event i = nt_event et) (rev subs))"

definition toggle_row :: "subscription \<Rightarrow> bool \<Rightarrow> subscriptions_state \<Rightarrow> subscriptions_state" where
  "toggle_row sub checked s =
     (if sb_saving s (sub_event sub) = Some FSubscribed then s
      else commitSubscription (sub_event sub) FSubscribed (sub\<lparr>subscribed := checked\<rparr>) s)"

definition commitBody :: "placeholder_meta list \<Rightarrow> subscription \<Rightarrow> jstr \<Rightarrow> subscriptions_state \<Rightarrow> subscriptions_state" where
  "commitBody ps sub bodyDisplay s =
     (let stored = toStorage bodyDisplay ps in
      if stored = body_template sub then s
      else commitSubscription (sub_event sub) FBody (sub\<lparr>body_template := stored\<rparr>) s)"

definition resetBody :: "notification_event_type \<Rightarrow> subscription \<Rightarrow> subscriptions_state \<Rightarrow> subscriptions_state" where
  "resetBody et sub s =
     (let s1 = clearSingleFieldError (sub_event sub) s in
      if nt_default_body_template et = body_template sub then s1
      else commitSubscription (sub_event sub) FBody (sub\<lparr>body_template := nt_default_body_template et\<rparr>) s1)"

text \<open>A new value from the server replaces the shown text unless it holds an edit.\<close>

definition sync_body :: "placeholder_meta list \<Rightarrow> subscription \<Rightarrow> jstr \<Rightarrow> jstr" where
  "sync_body ps sub current =
     (if toStorage current ps = body_template sub then toDisplay (body_template sub) ps else current)"

datatype subscription_event =
    SubCommit jstr sub_field subscription
  | SubAnswer jstr nat sub_field "call_failure + subscription"

fun subscriptions_step :: "subscriptions_state \<Rightarrow> subscription_event \<Rightarrow> subscriptions_state" where
  "subscriptions_step s (SubCommit e f next) = commitSubscription e f next s"
| "subscriptions_step s (SubAnswer e n f a) = subscription_answered e n f a s"

section \<open>The expiry threshold\<close>

record expiring_state =
  ex_days :: int
  ex_error :: "jstr option"
  ex_seq :: nat
  ex_prev :: "nat \<Rightarrow> int \<times> int"
  ex_page :: int
  ex_toasts :: "jstr list"

text \<open>\<open>ex_prev n\<close> holds the previous and the new value of the \<open>n\<close>-th save, \<open>ex_page\<close> the value in the page's settings.\<close>

definition saveExpiringDays :: "int \<Rightarrow> expiring_state \<Rightarrow> expiring_state" where
  "saveExpiringDays v s =
     (let seq = Suc (ex_seq s) in
      s\<lparr>ex_days := v, ex_error := None, ex_seq := seq, ex_prev := (ex_prev s)(seq := (ex_days s, v))\<rparr>)"

definition expiring_answered :: "nat \<Rightarrow> call_failure option \<Rightarrow> expiring_state \<Rightarrow> expiring_state" where
  "expiring_answered seq failure s =
     (if seq \<noteq> ex_seq s then s
      else case failure of
        None \<Rightarrow>
          (let v = snd (ex_prev s seq) in
           if v = ex_page s then s else s\<lparr>ex_page := v, ex_days := v\<rparr>)
      | Some f \<Rightarrow>
          (let message = failure_text f c_nt_days_failed in
           s\<lparr>ex_error := Some message, ex_days := fst (ex_prev s seq), ex_toasts := ex_toasts s @ [message]\<rparr>))"

datatype expiring_event = DaysCommitted int | DaysAnswer nat "call_failure option"

fun expiring_step :: "expiring_state \<Rightarrow> expiring_event \<Rightarrow> expiring_state" where
  "expiring_step s (DaysCommitted v) = saveExpiringDays v s"
| "expiring_step s (DaysAnswer n f) = expiring_answered n f s"

text \<open>\<open>ExpiringDaysInput\<close>.\<close>

definition parseDraft :: "jstr \<Rightarrow> int option" where
  "parseDraft t =
     (let trimmed = trim t in
      if trimmed \<noteq> [] \<and> list_all is_digit trimmed then
        (case string_to_number trimmed of Num n \<Rightarrow> if n \<le> 0 then None else Some \<lfloor>n\<rfloor> | _ \<Rightarrow> None)
      else None)"

definition days_commit :: "numeric_row \<Rightarrow> numeric_row \<times> int option" where
  "days_commit r =
     (case parseDraft (nr_draft r) of
        None \<Rightarrow> (r\<lparr>nr_draft := show_int (nr_committed r)\<rparr>, None)
      | Some n \<Rightarrow> if n = nr_committed r then (r, None) else (r\<lparr>nr_committed := n\<rparr>, Some n))"

definition days_render :: "int \<Rightarrow> numeric_row \<Rightarrow> numeric_row" where
  "days_render v r = row_render v r"

text \<open>
  Escape puts the committed number back and leaves the field; leaving it runs \<open>commit\<close> of the same
  render, which still sees the typed draft.
\<close>

definition days_escape :: "numeric_row \<Rightarrow> numeric_row \<times> int option" where
  "days_escape r = (let out = days_commit r in ((fst out)\<lparr>nr_draft := show_int (nr_committed r)\<rparr>, snd out))"

section \<open>Mobile numbers\<close>

definition MENTION_ALL :: jstr where
  "MENTION_ALL = js ''@all''"

record chip_input =
  mc_value :: "jstr list"
  mc_draft :: jstr
  mc_error :: "jstr option"

definition isValid :: "jstr \<Rightarrow> bool" where
  "isValid c \<longleftrightarrow> c = MENTION_ALL \<or> MOBILE_PATTERN c"

text \<open>\<open>commitDraft\<close> and its result, which is the list to save.\<close>

definition commitDraft :: "chip_input \<Rightarrow> chip_input \<times> jstr list option" where
  "commitDraft s =
     (let candidate = trim (mc_draft s) in
      if candidate = [] then (s\<lparr>mc_error := None\<rparr>, None)
      else if \<not> isValid candidate then (s\<lparr>mc_error := Some c_nt_mobile_bad\<rparr>, None)
      else if candidate \<in> set (mc_value s) then (s\<lparr>mc_draft := [], mc_error := None\<rparr>, None)
      else (s\<lparr>mc_value := mc_value s @ [candidate], mc_draft := [], mc_error := None\<rparr>, Some (mc_value s @ [candidate])))"

definition removeAt :: "nat \<Rightarrow> chip_input \<Rightarrow> chip_input \<times> jstr list option" where
  "removeAt i s =
     (let next = take i (mc_value s) @ drop (Suc i) (mc_value s) in (s\<lparr>mc_value := next\<rparr>, Some next))"

definition handleKeyDown :: "jstr \<Rightarrow> chip_input \<Rightarrow> chip_input \<times> jstr list option" where
  "handleKeyDown key s =
     (if key = js ''Enter'' \<or> key = js '','' then commitDraft s
      else if key = js ''Backspace'' \<and> mc_draft s = [] \<and> mc_value s \<noteq> [] then removeAt (length (mc_value s) - 1) s
      else (s, None))"

section \<open>The section as a whole\<close>

record notifications_page =
  np_channel :: channel_state
  np_subscriptions :: subscriptions_state
  np_expiring :: expiring_state
  np_eventTypes :: "notification_event_type list"
  np_loading :: bool
  np_error :: "jstr option"

definition reload_answered ::
    "call_failure + notification_settings \<times> subscription list option \<times> notification_event_type list option \<Rightarrow>
       notifications_page \<Rightarrow> notifications_page" where
  "reload_answered answer s =
     (case answer of
        Inr (d, subs, ets) \<Rightarrow>
          s\<lparr>np_channel := (np_channel s)\<lparr>ch_settings := Some d, ch_draft := webhook_url d\<rparr>,
            np_subscriptions := (np_subscriptions s)\<lparr>sb_subscriptions := nullish subs []\<rparr>,
            np_eventTypes := nullish ets [], np_error := None, np_loading := False\<rparr>
      | Inl f \<Rightarrow> s\<lparr>np_error := Some (failure_text f c_nt_load_failed), np_loading := False\<rparr>)"

text \<open>The effect on the page's own value of the threshold.\<close>

definition expiring_prop :: "int \<Rightarrow> notifications_page \<Rightarrow> notifications_page" where
  "expiring_prop v s =
     (if v = ex_page (np_expiring s) then s
      else s\<lparr>np_expiring := (np_expiring s)\<lparr>ex_page := v, ex_days := v\<rparr>\<rparr>)"

text \<open>The line beside the test button.\<close>

definition test_line :: "test_result \<Rightarrow> jstr" where
  "test_line r =
     (if tr_ok r then [0x2713] else [0x2717]) @ js '' '' @ or_str (Some (tr_code r)) (js ''unknown'') @
     js '' '' @ [0xB7] @ js '' '' @ toFixed 1 (of_int (tr_latency_ms r) / 1000) @ js ''s'' @
     (if tr_message r \<noteq> [] then js '' '' @ [0xB7] @ js '' '' @ tr_message r else [])"

section \<open>The newest save wins\<close>

fun channel_answer :: "channel_event \<Rightarrow> nat option" where
  "channel_answer (CommitAnswer n _) = Some n"
| "channel_answer _ = None"

fun subscription_answer :: "jstr \<Rightarrow> subscription_event \<Rightarrow> nat option" where
  "subscription_answer ev (SubAnswer e n _ _) = (if e = ev then Some n else None)"
| "subscription_answer ev (SubCommit _ _ _) = None"

fun expiring_answer :: "expiring_event \<Rightarrow> nat option" where
  "expiring_answer (DaysAnswer n _) = Some n"
| "expiring_answer (DaysCommitted _) = None"

lemma ch_seq_commit [simp]: "ch_seq (commitSettings next s) = Suc (ch_seq s)" "ch_seq (commit_shown next s) = Suc (ch_seq s)"
  by (simp_all add: commitSettings_def commit_shown_def)

interpretation chn: latest_wins channel_step ch_seq channel_answer
proof
  fix s e i
  show "channel_answer e = Some i \<Longrightarrow> i \<noteq> ch_seq s \<Longrightarrow> channel_step s e = s"
    by (cases e) (auto simp: commit_answered_def)
  show "ch_seq s \<le> ch_seq (channel_step s e)"
    by (cases e)
       (auto simp: commit_answered_def commitUrl_def switch_changed_def commit_mobiles_def run_test_def send_test_def
          presave_settled_def test_answered_def test_over_def Let_def split: option.splits sum.splits)
qed

interpretation subn: latest_wins subscriptions_step "\<lambda>s. sb_seq s ev" "subscription_answer ev" for ev
proof
  fix s e i
  show "subscription_answer ev e = Some i \<Longrightarrow> i \<noteq> sb_seq s ev \<Longrightarrow> subscriptions_step s e = s"
    by (cases e) (auto simp: subscription_answered_def split: if_splits)
  show "sb_seq s ev \<le> sb_seq (subscriptions_step s e) ev"
    by (cases e) (auto simp: commitSubscription_def subscription_answered_def Let_def split: sum.splits)
qed

interpretation exn: latest_wins expiring_step ex_seq expiring_answer
proof
  fix s e i
  show "expiring_answer e = Some i \<Longrightarrow> i \<noteq> ex_seq s \<Longrightarrow> expiring_step s e = s"
    by (cases e) (auto simp: expiring_answered_def)
  show "ex_seq s \<le> ex_seq (expiring_step s e)"
    by (cases e) (auto simp: saveExpiringDays_def expiring_answered_def Let_def split: option.splits)
qed

text \<open>An event is still open when it is no answer, or the answer to a save that nothing newer had replaced at the start.\<close>

definition still_open :: "nat \<Rightarrow> nat option \<Rightarrow> bool" where
  "still_open newest answer = (case answer of None \<Rightarrow> True | Some i \<Rightarrow> newest \<le> i)"

lemma still_open_eq: "still_open n a \<longleftrightarrow> (\<forall>i. a = Some i \<longrightarrow> n \<le> i)"
  by (cases a) (simp_all add: still_open_def)

text \<open>
  C20: No slow answer undoes a newer save: for the channel, for each subscription row and for the threshold,
  the answers to saves that a newer one has replaced can be left out of any history without changing
  the state it ends in.
\<close>

theorem notifications_superseded:
  "foldl channel_step c es = foldl channel_step c (filter (\<lambda>e. still_open (ch_seq c) (channel_answer e)) es) \<and>
   foldl subscriptions_step b fs =
     foldl subscriptions_step b (filter (\<lambda>e. still_open (sb_seq b ev) (subscription_answer ev e)) fs) \<and>
   foldl expiring_step x gs = foldl expiring_step x (filter (\<lambda>e. still_open (ex_seq x) (expiring_answer e)) gs)"
  using chn.all_superseded_answers_ignored [of c es] subn.all_superseded_answers_ignored [of b fs ev]
    exn.all_superseded_answers_ignored [of x gs] unfolding still_open_eq by blast

section \<open>Refused channel settings\<close>

text \<open>
  A refused address keeps what was typed: after the server rejects the commit of the address field, the
  settings are those from before it, the field still holds the typed text and can be edited, and the message
  stands under it exactly when the server blamed the address.
\<close>

theorem refused_url_restored:
  fixes f :: call_failure and s :: channel_state
  assumes "ch_settings s = Some d" and "trim (ch_draft s) \<noteq> webhook_url d"
  defines "s' \<equiv> commit_answered (ch_seq (commitUrl s)) (Inl f) (commitUrl s)"
  shows "ch_settings s' = Some d \<and> ch_draft s' = ch_draft s \<and> \<not> ch_saving s' \<and>
     (ch_urlError s' \<noteq> None) = is_url_error f (failure_text f c_nt_save_failed) \<and>
     ch_sent s' = ch_sent s @ [d\<lparr>webhook_url := trim (ch_draft s)\<rparr>]"
  unfolding s'_def
  using assms(1,2) by (simp add: commitUrl_def commit_shown_def commitSettings_def commit_answered_def Let_def)

definition sample_channel :: channel_state where
  "sample_channel =
     \<lparr>ch_settings = Some \<lparr>ns_enabled = True, webhook_url = js ''a'', mention_mobile_list = []\<rparr>, ch_draft = js ''b'',
      ch_saving = False, ch_urlError = None, ch_seq = 0, ch_prev = (\<lambda>_. None), ch_toasts = [], ch_sent = [],
      ch_testInFlight = False, ch_testLoading = False, ch_testResult = None, ch_tests = 0\<rparr>"

lemma trim_b: "trim (js ''b'') = js ''b''"
  by (simp add: trim_def is_js_space_def js_def)

theorem refused_url_restored_witness:
  "ch_draft (commit_answered (ch_seq (commitUrl sample_channel)) (Inl (throw_error [])) (commitUrl sample_channel)) = js ''b''"
  using refused_url_restored [of sample_channel "\<lparr>ns_enabled = True, webhook_url = js ''a'', mention_mobile_list = []\<rparr>" "throw_error []"]
  by (simp add: sample_channel_def trim_b)

text \<open>
  The test can run before the address it is meant to test: leaving the field to click the button starts
  the save and shows the address as saved, so the click finds nothing to save and sends the test
  while the save is still out.
\<close>

theorem test_overtakes_save:
  fixes s :: channel_state
  defines "s \<equiv> foldl channel_step sample_channel [UrlBlurred, TestClicked]"
  shows "ch_tests s = 1 \<and> ch_saving s \<and> ch_tests (foldl channel_step sample_channel [TestClicked]) = 0"
  unfolding s_def
  by (simp add: sample_channel_def commitUrl_def commit_shown_def commitSettings_def canTest_def run_test_def send_test_def
      Let_def trim_b)

section \<open>A lost toggle\<close>

definition sample_sub :: subscription where
  "sample_sub = \<lparr>sub_event = js ''e'', subscribed = False, body_template = js ''x''\<rparr>"

definition sample_subs :: subscriptions_state where
  "sample_subs =
     \<lparr>sb_subscriptions = [sample_sub], sb_seq = (\<lambda>_. 0), sb_saving = (\<lambda>_. None), sb_errors = (\<lambda>_. None), sb_banner = None,
      sb_toasts = [], sb_sent = []\<rparr>"

text \<open>
  The two controls of a row undo each other: while the switch is being saved the text can be, and its
  request carries the old switch. The row and the server both end with the switch as it was before.
\<close>

theorem toggle_lost_by_body:
  fixes s :: subscriptions_state
  defines "s \<equiv> subscription_answered (js ''e'') 2 FBody (Inr (sample_sub\<lparr>body_template := js ''b''\<rparr>))
      (subscription_answered (js ''e'') 1 FSubscribed (Inr (sample_sub\<lparr>subscribed := True\<rparr>))
        (commitBody [] sample_sub (js ''b'') (toggle_row sample_sub True sample_subs)))"
  shows "sb_sent s = [(js ''e'', True, js ''x''), (js ''e'', False, js ''b'')] \<and>
     sb_subscriptions s = [sample_sub\<lparr>body_template := js ''b''\<rparr>] \<and> \<not> subscribed (hd (sb_subscriptions s))"
  unfolding s_def
  by (simp add: sample_sub_def sample_subs_def commitBody_def toStorage_def toggle_row_def commitSubscription_def
      subscription_answered_def Let_def) (simp add: js_def trim_def is_js_space_def)

section \<open>Inputs\<close>

definition chips_ok :: "chip_input \<Rightarrow> bool" where
  "chips_ok s \<longleftrightarrow> distinct (mc_value s) \<and> list_all isValid (mc_value s)"

lemma chips_removeAt: "chips_ok s \<Longrightarrow> chips_ok (fst (removeAt i s))"
  using distinct_delete_at [of "mc_value s" i] set_delete_at [of i "mc_value s"]
  by (auto simp: chips_ok_def removeAt_def Let_def list_all_iff simp del: distinct_append)

text \<open>
  C30: The list of numbers to mention stays valid: whatever is typed, entered, removed or left, it holds no
  number twice, only eleven-digit numbers or \<open>@all\<close>, and what is sent to be saved is the list shown.
\<close>

theorem chips_valid:
  assumes "chips_ok s"
  shows "chips_ok (fst (commitDraft s)) \<and> chips_ok (fst (handleKeyDown key s)) \<and> chips_ok (fst (removeAt i s)) \<and>
     snd (handleKeyDown key s) \<in> {None, Some (mc_value (fst (handleKeyDown key s)))}"
proof -
  have c: "chips_ok (fst (commitDraft s))"
    using assms by (auto simp: chips_ok_def commitDraft_def Let_def)
  moreover have "chips_ok (fst (handleKeyDown key s))"
    using assms c chips_removeAt [OF assms] by (simp add: handleKeyDown_def)
  moreover have "snd (handleKeyDown key s) \<in> {None, Some (mc_value (fst (handleKeyDown key s)))}"
    by (auto simp: handleKeyDown_def commitDraft_def removeAt_def Let_def)
  ultimately show ?thesis using chips_removeAt [OF assms] by simp
qed

theorem chips_valid_witness:
  "chips_ok (fst (commitDraft \<lparr>mc_value = [MENTION_ALL], mc_draft = js ''@all'', mc_error = None\<rparr>))"
  using chips_valid [of "\<lparr>mc_value = [MENTION_ALL], mc_draft = js ''@all'', mc_error = None\<rparr>" "[]" 0]
  by (simp add: chips_ok_def isValid_def)

text \<open>The threshold that is saved is a positive number, and a rejected draft goes back to the saved one.\<close>

lemma parseDraft_positive: "parseDraft t = Some n \<Longrightarrow> 0 < n"
  by (auto simp: parseDraft_def Let_def string_to_number_digits to_double_def split: if_splits jsnum.splits)

lemma days_commit_spec:
  "case snd (days_commit r) of
     Some n \<Rightarrow> 0 < n \<and> n \<noteq> nr_committed r \<and> nr_committed (fst (days_commit r)) = n
   | None \<Rightarrow> nr_committed (fst (days_commit r)) = nr_committed r"
  by (cases "parseDraft (nr_draft r)") (auto simp: days_commit_def dest: parseDraft_positive)

text \<open>
  Escape saves what it should discard: with 7 days saved and 30 typed, the key hands 30 to be saved, and
  the field goes on showing 7 when the page has taken the 30 over.
\<close>

theorem escape_saves_draft:
  fixes r :: "numeric_row \<times> int option"
  defines "r \<equiv> days_escape ((row_mount 7)\<lparr>nr_draft := js ''30''\<rparr>)"
  shows "snd r = Some 30 \<and> nr_draft (days_render 30 (fst r)) = show_int 7"
proof -
  have d: "list_all is_digit (js ''30'')" "js ''30'' \<noteq> []" by (simp_all add: js_def is_digit_def)
  have "to_double 30 = Num 30" by (simp add: to_double_def)
  then have "string_to_number (js ''30'') = Num 30"
    using string_to_number_digits [OF d] by (simp add: js_def digits_val_def)
  then have "parseDraft (js ''30'') = Some 30"
    using d by (simp add: parseDraft_def Let_def trim_digits)
  then show ?thesis
    by (simp add: r_def days_escape_def days_commit_def days_render_def row_render_def row_mount_def Let_def)
qed

end
