(* ===== verification/NotificationHistory.thy ===== *)
theory NotificationHistory
  imports Requests Copy "HOL-Library.Multiset"
begin

text \<open>
  The list of past deliveries, \<^verbatim>\<open>web/src/pages/SettingsPage/notifications/NotificationHistorySection.tsx\<close>: its
  filters, its pages and the row that is open. The lemmas show that the filters split the deliveries and that the pages
  together show each matching delivery once.
\<close>

section \<open>State\<close>

datatype delivery_status = DSuccess | DFailed | DDropped

datatype status_filter = FilterAll | FilterStatus delivery_status | FilterTest

text \<open>\<open>dv_test\<close> says that \<open>triggered_by\<close> is \<open>"test"\<close> and not \<open>"system"\<close>.\<close>

record delivery =
  dv_id :: int
  dv_channel_id :: int
  dv_channel_name :: jstr
  dv_channel_type :: jstr
  dv_event :: jstr
  dv_severity :: jstr
  dv_title :: jstr
  dv_payload_summary :: jstr
  dv_status :: delivery_status
  dv_upstream_code :: jstr
  dv_upstream_message :: jstr
  dv_latency_ms :: int
  dv_attempt :: int
  dv_dedup_key :: jstr
  dv_test :: bool
  dv_created_at :: jstr

record history_state =
  hi_deliveries :: "delivery list"
  hi_filterEvent :: jstr
  hi_filterStatus :: status_filter
  hi_expandedId :: "int option"
  hi_error :: "jstr option"
  hi_truncated :: bool
  hi_currentPage :: nat

definition FETCH_LIMIT :: nat where
  "FETCH_LIMIT = 200"

definition HISTORY_PAGE_SIZE :: nat where
  "HISTORY_PAGE_SIZE = 5"

definition history_mount :: history_state where
  "history_mount =
     \<lparr>hi_deliveries = [], hi_filterEvent = js ''all'', hi_filterStatus = FilterAll, hi_expandedId = None, hi_error = None,
      hi_truncated = False, hi_currentPage = 1\<rparr>"

definition history_answered :: "call_failure + delivery list option \<Rightarrow> history_state \<Rightarrow> history_state" where
  "history_answered answer s =
     (case answer of
        Inr items \<Rightarrow>
          (let list = nullish items [] in
           s\<lparr>hi_deliveries := list, hi_truncated := (length list \<ge> FETCH_LIMIT)\<rparr>)
      | Inl f \<Rightarrow> s\<lparr>hi_error := Some (failure_text f c_nt_history_failed)\<rparr>)"

section \<open>Filters and pages\<close>

definition matches :: "jstr \<Rightarrow> status_filter \<Rightarrow> delivery \<Rightarrow> bool" where
  "matches filterEvent filterStatus item =
     (if filterEvent \<noteq> js ''all'' \<and> dv_event item \<noteq> filterEvent then False
      else case filterStatus of
        FilterAll \<Rightarrow> True
      | FilterTest \<Rightarrow> dv_test item
      | FilterStatus st \<Rightarrow> \<not> dv_test item \<and> dv_status item = st)"

definition filteredDeliveries :: "history_state \<Rightarrow> delivery list" where
  "filteredDeliveries s = filter (matches (hi_filterEvent s) (hi_filterStatus s)) (hi_deliveries s)"

definition historyPages :: "history_state \<Rightarrow> nat" where
  "historyPages s = max 1 ((length (filteredDeliveries s) + (HISTORY_PAGE_SIZE - 1)) div HISTORY_PAGE_SIZE)"

definition historyPage :: "history_state \<Rightarrow> nat" where
  "historyPage s = min (max 1 (hi_currentPage s)) (historyPages s)"

definition page_of :: "nat \<Rightarrow> history_state \<Rightarrow> delivery list" where
  "page_of k s = take HISTORY_PAGE_SIZE (drop ((k - 1) * HISTORY_PAGE_SIZE) (filteredDeliveries s))"

definition pagedDeliveries :: "history_state \<Rightarrow> delivery list" where
  "pagedDeliveries s = page_of (historyPage s) s"

datatype history_event =
    EventFilter "jstr option"
  | StatusFilter "status_filter option"
  | PreviousPage
  | NextPage
  | RowClicked int
  | HistoryAnswer "call_failure + delivery list option"

text \<open>A changed filter goes back to the first page, in the effect after the render.\<close>

definition set_history_filters :: "jstr \<Rightarrow> status_filter \<Rightarrow> history_state \<Rightarrow> history_state" where
  "set_history_filters ev st s =
     (let s1 = s\<lparr>hi_filterEvent := ev, hi_filterStatus := st\<rparr> in
      if ev = hi_filterEvent s \<and> st = hi_filterStatus s then s1 else s1\<lparr>hi_currentPage := 1\<rparr>)"

fun history_step :: "history_state \<Rightarrow> history_event \<Rightarrow> history_state" where
  "history_step s (EventFilter v) = set_history_filters (nullish v (js ''all'')) (hi_filterStatus s) s"
| "history_step s (StatusFilter v) = set_history_filters (hi_filterEvent s) (nullish v FilterAll) s"
| "history_step s PreviousPage =
     (if historyPage s \<le> 1 then s else s\<lparr>hi_currentPage := max 1 (historyPage s - 1)\<rparr>)"
| "history_step s NextPage =
     (if historyPage s \<ge> historyPages s then s else s\<lparr>hi_currentPage := min (historyPages s) (historyPage s + 1)\<rparr>)"
| "history_step s (RowClicked i) =
     s\<lparr>hi_expandedId := (if hi_expandedId s = Some i then None else Some i)\<rparr>"
| "history_step s (HistoryAnswer a) = history_answered a s"

text \<open>The label of a row, and the red panel of its detail.\<close>

definition status_text :: "delivery \<Rightarrow> jstr" where
  "status_text d =
     (if dv_test d then js ''test''
      else case dv_status d of DSuccess \<Rightarrow> js ''success'' | DFailed \<Rightarrow> js ''failed'' | DDropped \<Rightarrow> js ''dropped'')"

definition shows_upstream_error :: "delivery \<Rightarrow> bool" where
  "shows_upstream_error d \<longleftrightarrow>
     (dv_status d = DFailed \<or> dv_status d = DDropped) \<and> (dv_upstream_code d \<noteq> [] \<or> dv_upstream_message d \<noteq> [])"

section \<open>The filters split the list\<close>

text \<open>
  Every delivery is under exactly one of the four status filters: the lists of successes, failures, drops
  and tests together are the unfiltered list, whatever event is chosen, and each row shows the label of the filter it is under.
\<close>

theorem status_filters_partition:
  fixes s :: history_state
  defines "shown \<equiv> \<lambda>st. mset (filteredDeliveries (s\<lparr>hi_filterStatus := st\<rparr>))"
  shows "shown (FilterStatus DSuccess) + shown (FilterStatus DFailed) + shown (FilterStatus DDropped) + shown FilterTest =
     shown FilterAll"
proof -
  have "filter_mset (matches e (FilterStatus DSuccess)) M + filter_mset (matches e (FilterStatus DFailed)) M +
      filter_mset (matches e (FilterStatus DDropped)) M + filter_mset (matches e FilterTest) M =
      filter_mset (matches e FilterAll) M" for e M
  proof (rule multiset_eqI)
    fix d
    show "count (filter_mset (matches e (FilterStatus DSuccess)) M + filter_mset (matches e (FilterStatus DFailed)) M +
      filter_mset (matches e (FilterStatus DDropped)) M + filter_mset (matches e FilterTest) M) d =
      count (filter_mset (matches e FilterAll) M) d"
      by (cases "dv_status d"; cases "dv_test d") (simp_all add: matches_def)
  qed
  then show ?thesis by (simp add: shown_def filteredDeliveries_def)
qed

section \<open>The pages\<close>

lemma chunks_concat:
  assumes "0 < p"
  shows "concat (map (\<lambda>k. take p (drop (k * p) xs)) [0..<n]) = take (n * p) xs"
proof (induction n)
  case (Suc n)
  have "take (Suc n * p) xs = take (n * p) xs @ take p (drop (n * p) xs)"
    by (metis add.commute mult_Suc take_add)
  with Suc show ?case by simp
qed simp

lemma pages_enough: "length (filteredDeliveries s) \<le> historyPages s * HISTORY_PAGE_SIZE"
  unfolding historyPages_def HISTORY_PAGE_SIZE_def by presburger

lemma page_nonempty:
  assumes "1 \<le> k" and "k \<le> historyPages s" and "filteredDeliveries s \<noteq> []"
  shows "page_of k s \<noteq> []"
proof -
  have "(k - 1) * HISTORY_PAGE_SIZE < length (filteredDeliveries s)"
    using assms length_greater_0_conv [of "filteredDeliveries s"] unfolding historyPages_def HISTORY_PAGE_SIZE_def by presburger
  then show ?thesis by (simp add: page_of_def HISTORY_PAGE_SIZE_def)
qed

text \<open>
  Turning the pages shows each matching delivery once: the pages from the first to the last, put together,
  are the filtered list in its order; the page on the screen is always one of them, holds at most five
  rows, and is empty only when nothing matches.
\<close>

theorem pages_cover_history:
  "concat (map (\<lambda>k. page_of k s) [1..<Suc (historyPages s)]) = filteredDeliveries s \<and>
   1 \<le> historyPage s \<and> historyPage s \<le> historyPages s \<and> length (pagedDeliveries s) \<le> 5 \<and>
   (pagedDeliveries s = []) = (filteredDeliveries s = [])"
proof -
  have t: "1 \<le> historyPages s" by (simp add: historyPages_def)
  then have c: "1 \<le> historyPage s" "historyPage s \<le> historyPages s" by (simp_all add: historyPage_def)
  have "map (\<lambda>k. page_of k s) [1..<Suc (historyPages s)] =
      map (\<lambda>k. take HISTORY_PAGE_SIZE (drop (k * HISTORY_PAGE_SIZE) (filteredDeliveries s))) [0..<historyPages s]"
    by (rule nth_equalityI) (simp_all add: page_of_def del: upt_Suc)
  with chunks_concat [of HISTORY_PAGE_SIZE "filteredDeliveries s" "historyPages s"]
  have "concat (map (\<lambda>k. page_of k s) [1..<Suc (historyPages s)]) = filteredDeliveries s"
    using pages_enough [of s] by (simp add: HISTORY_PAGE_SIZE_def del: upt_Suc)
  moreover have "length (pagedDeliveries s) \<le> 5" by (simp add: pagedDeliveries_def page_of_def HISTORY_PAGE_SIZE_def)
  moreover have "(pagedDeliveries s = []) = (filteredDeliveries s = [])"
    using page_nonempty [OF c] by (cases "filteredDeliveries s = []") (simp_all add: pagedDeliveries_def page_of_def)
  ultimately show ?thesis using c by blast
qed

end
