(* ===== verification/TemplateEditing.thy ===== *)
theory TemplateEditing
  imports Notifications
begin

text \<open>
  \<^verbatim>\<open>web/src/pages/SettingsPage/notifications/TemplateEditor.tsx\<close>: the text area of a subscription's body, its
  menu of fields, the reset button and the preview, which follows the text after 150 ms without a change.
  The timer of the preview captures the text and the fields it was started with.
\<close>

section \<open>The editor\<close>

record template_editor =
  ed_value :: jstr
  ed_placeholders :: "placeholder_meta list"
  ed_preview :: jstr
  ed_timer :: "(jstr \<times> placeholder_meta list) option"

text \<open>The effect of the preview: the old timer is cleared and a new one started.\<close>

definition preview_effect :: "template_editor \<Rightarrow> template_editor" where
  "preview_effect s = s\<lparr>ed_timer := Some (ed_value s, ed_placeholders s)\<rparr>"

definition editor_mount :: "jstr \<Rightarrow> placeholder_meta list \<Rightarrow> template_editor" where
  "editor_mount v ps =
     preview_effect \<lparr>ed_value = v, ed_placeholders = ps, ed_preview = renderPreview v ps, ed_timer = None\<rparr>"

definition editor_props :: "jstr \<Rightarrow> placeholder_meta list \<Rightarrow> template_editor \<Rightarrow> template_editor" where
  "editor_props v ps s =
     (if v = ed_value s \<and> ps = ed_placeholders s then s
      else preview_effect (s\<lparr>ed_value := v, ed_placeholders := ps\<rparr>))"

definition preview_timer :: "template_editor \<Rightarrow> template_editor" where
  "preview_timer s =
     (case ed_timer s of
        None \<Rightarrow> s
      | Some (v, ps) \<Rightarrow> s\<lparr>ed_preview := renderPreview v ps, ed_timer := None\<rparr>)"

definition editor_unmount :: "template_editor \<Rightarrow> template_editor" where
  "editor_unmount s = s\<lparr>ed_timer := None\<rparr>"

definition canReset :: "jstr \<Rightarrow> jstr \<Rightarrow> bool" where
  "canReset v defaultValue \<longleftrightarrow> v \<noteq> defaultValue"

definition reset_disabled :: "bool \<Rightarrow> jstr \<Rightarrow> jstr \<Rightarrow> bool \<Rightarrow> bool" where
  "reset_disabled disabled v defaultValue has_onReset \<longleftrightarrow>
     disabled \<or> \<not> canReset v defaultValue \<or> \<not> has_onReset"

definition previewDisplay :: "template_editor \<Rightarrow> jstr" where
  "previewDisplay s = (if trim (ed_value s) = [] then c_tpl_empty else ed_preview s)"

text \<open>
  \<open>insertPlaceholder\<close>: the text handed to \<open>onChange\<close> and the position of the cursor in the next frame;
  \<open>None\<close> without a text area. The two ends of the selection are \<open>None\<close> where the element has none.
\<close>

definition insertPlaceholder ::
  "(nat option \<times> nat option) option \<Rightarrow> jstr \<Rightarrow> placeholder_meta \<Rightarrow> (jstr \<times> nat) option" where
  "insertPlaceholder el v meta =
     (case el of
        None \<Rightarrow> None
      | Some (selectionStart, selectionEnd) \<Rightarrow>
          (let start = nullish selectionStart (length v);
               fin = nullish selectionEnd (length v)
           in Some (slice 0 (int start) v @ ph_display meta @ slice_from (int fin) v,
                    start + length (ph_display meta))))"

datatype editor_event =
    EditorText jstr
  | EditorInsert "(nat option \<times> nat option) option" placeholder_meta
  | EditorFields "placeholder_meta list"
  | PreviewTimer

fun editor_step :: "template_editor \<Rightarrow> editor_event \<Rightarrow> template_editor" where
  "editor_step s (EditorText v) = editor_props v (ed_placeholders s) s"
| "editor_step s (EditorInsert el meta) =
     (case insertPlaceholder el (ed_value s) meta of
        None \<Rightarrow> s
      | Some (v, _) \<Rightarrow> editor_props v (ed_placeholders s) s)"
| "editor_step s (EditorFields ps) = editor_props (ed_value s) ps s"
| "editor_step s PreviewTimer = preview_timer s"

section \<open>Lemmas\<close>

text \<open>A timer that runs holds the current text, and without one the preview is up to date.\<close>

definition preview_inv :: "template_editor \<Rightarrow> bool" where
  "preview_inv s \<longleftrightarrow>
     (case ed_timer s of
        None \<Rightarrow> ed_preview s = renderPreview (ed_value s) (ed_placeholders s)
      | Some t \<Rightarrow> t = (ed_value s, ed_placeholders s))"

lemma preview_inv_props: "preview_inv s \<Longrightarrow> preview_inv (editor_props v ps s)"
  by (simp add: preview_inv_def editor_props_def preview_effect_def)

lemma preview_inv_step: "preview_inv s \<Longrightarrow> preview_inv (editor_step s e)"
proof (cases e)
  case PreviewTimer
  assume "preview_inv s"
  then show ?thesis by (auto simp: PreviewTimer preview_timer_def preview_inv_def split: option.splits)
qed (auto simp: preview_inv_props split: option.splits)

lemma preview_inv_mount: "preview_inv (editor_mount v ps)"
  by (simp add: preview_inv_def editor_mount_def preview_effect_def)

lemma preview_inv_run: "preview_inv s \<Longrightarrow> preview_inv (foldl editor_step s es)"
  by (induction es arbitrary: s) (auto simp: preview_inv_step)

text \<open>
  After any history of typing, insertions and changed fields, the timer brings the preview up to date.
\<close>

theorem preview_catches_up:
  "ed_preview (preview_timer (foldl editor_step (editor_mount v ps) es)) =
     (let s = foldl editor_step (editor_mount v ps) es in renderPreview (ed_value s) (ed_placeholders s))"
  using preview_inv_run [OF preview_inv_mount, of v ps es]
  by (auto simp: preview_inv_def preview_timer_def Let_def split: option.splits)

interpretation to_storage_insert: insert_codec "token_pairs e" 123 for e
proof unfold_locales
  fix p q p' q' r
  assume pq: "(p, q) \<in> set (token_pairs e)" and pq': "(p', q') \<in> set (token_pairs e)"
  note P = token_pairsD(1) [OF pq] token_pairsD(1) [OF pq']
  show "hd p \<notin> set (tl p')" using P by (simp add: display_token_def)
  assume "startsWith (p @ r) p'"
  then show "(p', q') = (p, q)"
    using display_no_overlap [OF P, of 0 r] bracket_heads(1) [OF P(1)] token_pairs_unique [OF pq pq'] by auto
next
  show "distinct (token_pairs e)"
    using token_pairs_distinct [of e] by (simp add: distinct_map)
qed

lemma toStorage_around_field:
  assumes "meta \<in> set (placeholdersForEvent h e)"
  shows "toStorage (u @ ph_display meta @ v) (placeholdersForEvent h e) =
    toStorage u (placeholdersForEvent h e) @ ph_template meta @ toStorage v (placeholdersForEvent h e)"
proof -
  have "(ph_display meta, ph_template meta) \<in> set (token_pairs (nt_event e))"
    unfolding placeholders_tokens [symmetric, of e h] using assms by auto
  then show ?thesis
    using to_storage_insert.encode_around_token toStorage_eq(1) [OF placeholders_tokens] by simp
qed

text \<open>
  C12: A field chosen from the menu is stored as its template action: whatever the text, and wherever the
  selection is, even inside or beside half a token, the saved template is the saved text before the
  selection, the field's action, and the saved text behind it; the cursor stands behind the field.
\<close>

theorem inserted_field_stored:
  assumes "meta \<in> set (placeholdersForEvent h e)" and "i \<le> j" and "j \<le> length v"
  shows "\<exists>next cursor. insertPlaceholder (Some (Some i, Some j)) v meta = Some (next, cursor) \<and>
    toStorage next (placeholdersForEvent h e) =
      toStorage (take i v) (placeholdersForEvent h e) @ ph_template meta @
      toStorage (drop j v) (placeholdersForEvent h e) \<and>
    take cursor next = take i v @ ph_display meta \<and> drop cursor next = drop j v"
proof -
  have "insertPlaceholder (Some (Some i, Some j)) v meta =
      Some (take i v @ ph_display meta @ drop j v, i + length (ph_display meta))"
    using assms(2,3)
    by (simp add: insertPlaceholder_def nullish_def slice_def slice_from_def clamp_index_def)
  then show ?thesis
    using assms toStorage_around_field [OF assms(1), of "take i v" "drop j v"] by auto
qed

theorem inserted_field_stored_witness:
  "\<exists>next cursor. insertPlaceholder (Some (Some 1, Some 1)) [0x3010] (hd (placeholdersForEvent utc_host account_error_event)) =
      Some (next, cursor) \<and>
    toStorage next (placeholdersForEvent utc_host account_error_event) = 0x3010 # js ''{{ .Event }}''"
proof -
  let ?ps = "placeholdersForEvent utc_host account_error_event"
  have m: "hd ?ps \<in> set ?ps" "ph_template (hd ?ps) = js ''{{ .Event }}''"
    by (simp_all add: placeholdersForEvent_def GENERIC_PLACEHOLDERS_def Let_def)
  have r: "replace_all a b [] = []" "replace_all a b [0x3010] = [0x3010]" if "2 \<le> length a" for a b
  proof -
    have "a \<noteq> []" "\<not> startsWith [0x3010] a" using that by (auto simp: startsWith_def)
    then show "replace_all a b [] = []" "replace_all a b [0x3010] = [0x3010]"
      by (simp_all add: replace_all_skip)
  qed
  have "foldl (\<lambda>s (p, q). replace_all p q s) w ts = w"
    if "\<forall>(p, q) \<in> set ts. 2 \<le> length p" "w = [] \<or> w = [0x3010]" for ts w
    using that by (induction ts) (auto simp: r)
  moreover have "\<forall>(p, q) \<in> set (token_pairs (js ''account_error'')). 2 \<le> length p"
    by (simp add: token_pairs_def GENERIC_PLACEHOLDERS_def EVENT_PLACEHOLDERS_def copy_defs js_def)
  ultimately have "toStorage [] ?ps = [] \<and> toStorage [0x3010] ?ps = [0x3010]"
    by (simp add: toStorage_eq(1) [OF placeholders_tokens] encode_tokens_def account_error_event_def)
  then show ?thesis
    using inserted_field_stored [OF m(1), of 1 1 "[0x3010]"] m(2) by fastforce
qed

end
