(* ===== verification/Shell.thy ===== *)
theory Shell
  imports PoolDetail
begin

text \<open>
  \<^verbatim>\<open>web/src/components/Shell.tsx\<close>, \<^verbatim>\<open>SideTOC.tsx\<close> and \<^verbatim>\<open>pages/SettingsPage/notifications/Tabs.tsx\<close>: the frame
  around the pages. The sidebar keeps the list of pools, whether it is unfolded, and the snapshots behind
  the coloured dots, which it shares with the pages through \<open>admin_ui\<close>. Its effect loads the pools and
  then their details whenever \<open>dataVersion\<close> changes; \<open>sh_run\<close> is the number of the newest run of the
  effect, the only one whose \<open>cancelled\<close> is false. An answer names the run it belongs to.
\<close>

section \<open>The sidebar\<close>

definition poolDot :: "pool_snapshot \<Rightarrow> jstr" where
  "poolDot snapshot =
     (case snap_health snapshot of
        Healthy \<Rightarrow> js ''bg-status-green''
      | Degraded \<Rightarrow> js ''bg-status-yellow''
      | Error \<Rightarrow> js ''bg-status-red''
      | _ \<Rightarrow> js ''bg-moon-300'')"

definition sidebar_href :: "int \<Rightarrow> jstr" where
  "sidebar_href i = js ''/admin/pools/'' @ show_int i"

text \<open>
  The match of \<open>path\<close> against \<open>^/admin/pools/(\d+)$\<close>. The value is exact for identifiers up to \<open>2\<^sup>5\<^sup>3\<close>.
\<close>

definition currentPoolId :: "jstr \<Rightarrow> int option" where
  "currentPoolId path =
     (let rest = drop (length (js ''/admin/pools/'')) path in
      if startsWith path (js ''/admin/pools/'') \<and> rest \<noteq> [] \<and> list_all is_digit rest
      then Some (int (digits_val rest)) else None)"

datatype nav_item = NavOverview | NavPools | NavSettings | NavActivity

fun nav_active :: "jstr \<Rightarrow> nav_item \<Rightarrow> bool" where
  "nav_active path NavOverview \<longleftrightarrow> path = js ''/admin''"
| "nav_active path NavPools \<longleftrightarrow> startsWith path (js ''/admin/pools/'')"
| "nav_active path NavSettings \<longleftrightarrow> path = js ''/admin/settings''"
| "nav_active path NavActivity \<longleftrightarrow> path = js ''/admin/activity''"

record shell_state =
  sh_router :: router_state
  sh_ui :: admin_ui
  sh_pools :: "pool list"
  sh_poolsExpanded :: bool
  sh_run :: nat

definition shell_init :: "router_state \<Rightarrow> admin_ui \<Rightarrow> shell_state" where
  "shell_init r u = \<lparr>sh_router = r, sh_ui = u, sh_pools = [], sh_poolsExpanded = True, sh_run = 0\<rparr>"

text \<open>
  \<open>Object.fromEntries\<close> over the pools of a run and the answers to their detail requests; the request of
  a pool that failed is \<open>None\<close>, and each snapshot is derived at the time its answer came.
\<close>

definition snapshot_entries :: "pool list \<Rightarrow> (host \<times> pool_detail_response option) list \<Rightarrow> (int \<times> pool_snapshot) list" where
  "snapshot_entries pools answers =
     map2 (\<lambda>p (h, detail). (pool_id p, derivePoolSnapshot h p detail)) pools answers"

definition fromEntries :: "(int \<times> 'a) list \<Rightarrow> (int \<rightharpoonup> 'a)" where
  "fromEntries es = foldl (\<lambda>m (k, v). m(k \<mapsto> v)) Map.empty es"

definition pools_loaded :: "nat \<Rightarrow> pool list option \<Rightarrow> shell_state \<Rightarrow> shell_state" where
  "pools_loaded i data s = (if i = sh_run s then s\<lparr>sh_pools := nullish data []\<rparr> else s)"

definition details_loaded ::
  "nat \<Rightarrow> (host \<times> pool_detail_response option) list \<Rightarrow> shell_state \<Rightarrow> shell_state" where
  "details_loaded i answers s =
     (if i = sh_run s
      then s\<lparr>sh_ui := setPoolSnapshots (fromEntries (snapshot_entries (sh_pools s) answers)) (sh_ui s)\<rparr>
      else s)"

definition pools_failed :: "nat \<Rightarrow> shell_state \<Rightarrow> shell_state" where
  "pools_failed i s =
     (if i = sh_run s
      then s\<lparr>sh_pools := [], sh_ui := setPoolSnapshots Map.empty (sh_ui s)\<rparr> else s)"

text \<open>The change of \<open>dataVersion\<close>, with which the effect starts its next run.\<close>

definition shell_refresh :: "shell_state \<Rightarrow> shell_state" where
  "shell_refresh s = s\<lparr>sh_ui := refreshData (sh_ui s), sh_run := Suc (sh_run s)\<rparr>"

definition shell_pool_id :: "shell_state \<Rightarrow> int option" where
  "shell_pool_id s = currentPoolId (pathname (sh_router s))"

text \<open>The menu entry Pools; \<open>!currentPoolId\<close> also holds for the identifier 0.\<close>

definition pools_button :: "shell_state \<Rightarrow> shell_state" where
  "pools_button s =
     (let s1 = s\<lparr>sh_poolsExpanded := \<not> sh_poolsExpanded s\<rparr> in
      if shell_pool_id s = None \<or> shell_pool_id s = Some 0 then
        (case sh_pools s of
           [] \<Rightarrow> s1
         | p # _ \<Rightarrow> s1\<lparr>sh_router := navigate (sh_router s) (sidebar_href (pool_id p)) False\<rparr>)
      else s1)"

definition create_pool_button :: "shell_state \<Rightarrow> shell_state" where
  "create_pool_button s = s\<lparr>sh_poolsExpanded := True, sh_ui := openCreatePool (sh_ui s)\<rparr>"

definition add_account_button :: "shell_state \<Rightarrow> shell_state" where
  "add_account_button s = s\<lparr>sh_ui := openAddAccount (shell_pool_id s) (sh_ui s)\<rparr>"

record sidebar_row =
  sr_id :: int
  sr_label :: jstr
  sr_active :: bool
  sr_dot :: jstr

definition sidebar_row_of :: "host \<Rightarrow> shell_state \<Rightarrow> pool \<Rightarrow> sidebar_row" where
  "sidebar_row_of h s p =
     (let snapshot = nullish (poolSnapshots (sh_ui s) (pool_id p)) (derivePoolSnapshot h p None) in
      \<lparr>sr_id = pool_id p, sr_label = pool_label p, sr_active = (shell_pool_id s = Some (pool_id p)),
       sr_dot = poolDot snapshot\<rparr>)"

definition sidebar_rows :: "host \<Rightarrow> shell_state \<Rightarrow> sidebar_row list" where
  "sidebar_rows h s = (if sh_poolsExpanded s then map (sidebar_row_of h s) (sh_pools s) else [])"

datatype shell_event =
    PoolsLoaded nat "pool list option"
  | DetailsLoaded nat "(host \<times> pool_detail_response option) list"
  | PoolsFailed nat
  | ShellRefresh
  | ShellNav nav_event
  | PoolsButton
  | CreatePoolButton
  | AddAccountButton

fun shell_step :: "shell_state \<Rightarrow> shell_event \<Rightarrow> shell_state" where
  "shell_step s (PoolsLoaded i data) = pools_loaded i data s"
| "shell_step s (DetailsLoaded i answers) = details_loaded i answers s"
| "shell_step s (PoolsFailed i) = pools_failed i s"
| "shell_step s ShellRefresh = shell_refresh s"
| "shell_step s (ShellNav e) = s\<lparr>sh_router := nav_step (sh_router s) e\<rparr>"
| "shell_step s PoolsButton = pools_button s"
| "shell_step s CreatePoolButton = create_pool_button s"
| "shell_step s AddAccountButton = add_account_button s"

fun shell_answer :: "shell_event \<Rightarrow> nat option" where
  "shell_answer (PoolsLoaded i _) = Some i"
| "shell_answer (DetailsLoaded i _) = Some i"
| "shell_answer (PoolsFailed i) = Some i"
| "shell_answer _ = None"

lemmas shell_defs =
  pools_loaded_def details_loaded_def pools_failed_def shell_refresh_def pools_button_def
  create_pool_button_def add_account_button_def

interpretation sh: latest_wins shell_step sh_run shell_answer
proof
  fix e i and s :: shell_state
  assume "shell_answer e = Some i" and "i \<noteq> sh_run s"
  then show "shell_step s e = s" by (cases e) (auto simp: shell_defs)
next
  fix e and s :: shell_state
  show "sh_run s \<le> sh_run (shell_step s e)"
    by (cases e) (auto simp: shell_defs Let_def split: list.splits)
qed

section \<open>The table of contents\<close>

record toc_entry =
  te_id :: jstr
  te_isIntersecting :: bool
  te_ratio :: rat

text \<open>The callback of the observer: the entries it gets are the sections whose visibility changed.\<close>

definition toc_observed :: "toc_entry list \<Rightarrow> jstr \<Rightarrow> jstr" where
  "toc_observed entries active =
     (case sort_desc te_ratio (filter te_isIntersecting entries) of
        [] \<Rightarrow> active
      | e # _ \<Rightarrow> te_id e)"

definition toc_initial :: "(jstr \<times> jstr) list \<Rightarrow> jstr" where
  "toc_initial sections = (case sections of [] \<Rightarrow> [] | (i, _) # _ \<Rightarrow> i)"

text \<open>
  The effect: nothing is observed before the page is ready, nor twice; of the sections those are observed
  whose element is in the document (\<open>present\<close>).
\<close>

record toc_state =
  toc_active :: jstr
  toc_mounted :: bool
  toc_watched :: "jstr list"

definition toc_effect :: "(jstr \<Rightarrow> bool) \<Rightarrow> (jstr \<times> jstr) list \<Rightarrow> bool \<Rightarrow> toc_state \<Rightarrow> toc_state" where
  "toc_effect present sections ready s =
     (if \<not> ready \<or> toc_mounted s then s
      else s\<lparr>toc_mounted := True, toc_watched := filter present (map fst sections)\<rparr>)"

definition toc_cleanup :: "toc_state \<Rightarrow> toc_state" where
  "toc_cleanup s = s\<lparr>toc_mounted := False, toc_watched := []\<rparr>"

text \<open>A click on a dot: the address after it, and whether the page scrolls.\<close>

definition toc_click :: "(jstr \<Rightarrow> bool) \<Rightarrow> jstr \<Rightarrow> router_state \<Rightarrow> router_state \<times> bool" where
  "toc_click present i r =
     (if present i then (r\<lparr>hist_cur := takeWhile (\<lambda>c. c \<noteq> 35) (hist_cur r) @ 35 # i\<rparr>, True) else (r, False))"

section \<open>Tabs\<close>

datatype tab_key = ArrowRight | ArrowLeft | HomeKey | EndKey | OtherKey

text \<open>\<open>findIndex\<close>; \<open>None\<close> is \<open>-1\<close>.\<close>

fun tab_index :: "('a \<Rightarrow> bool) \<Rightarrow> 'a list \<Rightarrow> nat option" where
  "tab_index P [] = None"
| "tab_index P (x # xs) = (if P x then Some 0 else map_option Suc (tab_index P xs))"

fun tab_target :: "nat \<Rightarrow> nat \<Rightarrow> tab_key \<Rightarrow> nat option" where
  "tab_target n idx ArrowRight = Some ((idx + 1) mod n)"
| "tab_target n idx ArrowLeft = Some (nat ((int idx - 1 + int n) mod int n))"
| "tab_target n idx HomeKey = Some 0"
| "tab_target n idx EndKey = Some (n - 1)"
| "tab_target n idx OtherKey = None"

text \<open>The key the tabs change to, which is also the one focused; \<open>None\<close> where the handler returns early.\<close>

definition tab_keydown :: "jstr list \<Rightarrow> jstr \<Rightarrow> tab_key \<Rightarrow> jstr option" where
  "tab_keydown keys active k =
     (case tab_index (\<lambda>t. t = active) keys of
        None \<Rightarrow> None
      | Some idx \<Rightarrow> map_option (\<lambda>i. keys ! i) (tab_target (length keys) idx k))"

definition tab_press :: "jstr list \<Rightarrow> jstr \<Rightarrow> tab_key \<Rightarrow> jstr" where
  "tab_press keys active k = nullish (tab_keydown keys active k) active"

definition panel_hidden :: "jstr \<Rightarrow> jstr \<Rightarrow> bool" where
  "panel_hidden active key \<longleftrightarrow> key \<noteq> active"

section \<open>Lemmas on the sidebar\<close>

text \<open>The menu never marks two entries.\<close>

lemma nav_active_unique: "nav_active path a \<Longrightarrow> nav_active path b \<Longrightarrow> a = b"
  by (cases a; cases b) (auto simp: startsWith_def js_def)

lemma show_int_nonneg: "0 \<le> i \<Longrightarrow> show_int i = nat_digits (nat i)"
  by (simp add: show_int_def)

lemma nat_digits_list_all [simp]: "list_all is_digit (nat_digits n)"
  by (auto simp: list_all_iff nat_digits_all)

lemma startsWith_drop: "startsWith s p \<Longrightarrow> s = p @ drop (length p) s"
  by (auto simp: startsWith_iff)

lemma currentPoolId_href: "currentPoolId (sidebar_href i) = (if 0 \<le> i then Some i else None)"
proof (cases "0 \<le> i")
  case True
  then show ?thesis
    by (simp add: currentPoolId_def sidebar_href_def show_int_nonneg)
next
  case False
  then show ?thesis
    by (simp add: currentPoolId_def sidebar_href_def show_int_def is_digit_def)
qed

lemma sidebar_href_path: "pathname (navigate r (sidebar_href i) False) = sidebar_href i"
proof -
  have d: "47 \<notin> set (show_int i)"
    using nat_digits_all [of 47] by (auto simp: show_int_def is_digit_def)
  have "pathname (navigate r (sidebar_href i) False) = normalizePath (sidebar_href i)"
    by (simp add: navigate_def history_write_def Let_def)
  also have "\<dots> = sidebar_href i"
    using d by (cases "show_int i" rule: rev_cases)
      (auto simp: sidebar_href_def normalizePath_def strip_slash_def)
  finally show ?thesis .
qed

text \<open>
  The first click on Pools, from a page that is not a pool's, opens the first pool and folds the list
  that was unfolded.
\<close>

lemma pools_button_folds:
  assumes "shell_pool_id s = None" and "sh_pools s = p # ps" and "sh_poolsExpanded s"
  shows "pathname (sh_router (pools_button s)) = sidebar_href (pool_id p) \<and> sidebar_rows h (pools_button s) = []"
  using assms by (simp add: pools_button_def Let_def sidebar_href_path sidebar_rows_def)

lemma fromEntries_nth:
  assumes "distinct (map fst es)" and "i < length es"
  shows "fromEntries es (fst (es ! i)) = Some (snd (es ! i))"
proof -
  have "foldl (\<lambda>m (k, v). m(k \<mapsto> v)) m es = m ++ map_of (rev es)" for m
    by (induction es arbitrary: m) (auto simp: map_add_def fun_eq_iff split: option.splits)
  then have "fromEntries es = map_of (rev es)" by (simp add: fromEntries_def)
  then show ?thesis
    using assms by (simp add: map_of_eq_Some_iff rev_map [symmetric])
qed

lemma fst_snapshot_entries:
  "length answers = length ps \<Longrightarrow> map fst (snapshot_entries ps answers) = map pool_id ps"
  by (simp add: snapshot_entries_def list_eq_iff_nth_eq split: prod.splits)

lemma snapshot_of_pool:
  assumes "distinct (map pool_id ps)" and "length answers = length ps" and "i < length ps"
  shows "fromEntries (snapshot_entries ps answers) (pool_id (ps ! i)) =
    Some (derivePoolSnapshot (fst (answers ! i)) (ps ! i) (snd (answers ! i)))"
proof -
  let ?es = "snapshot_entries ps answers"
  have "length ?es = length ps" using assms(2) by (simp add: snapshot_entries_def)
  then have "fromEntries ?es (fst (?es ! i)) = Some (snd (?es ! i))"
    using assms by (intro fromEntries_nth) (simp_all add: fst_snapshot_entries)
  then show ?thesis
    using assms by (simp add: snapshot_entries_def split_def)
qed

text \<open>Events that leave the newest run alone: clicks, navigation and answers of other runs.\<close>

definition other_run :: "nat \<Rightarrow> shell_event \<Rightarrow> bool" where
  "other_run n e \<longleftrightarrow> e \<noteq> ShellRefresh \<and> shell_answer e \<noteq> Some n"

lemma other_run_step:
  assumes "other_run (sh_run s) e"
  shows "sh_run (shell_step s e) = sh_run s \<and> sh_pools (shell_step s e) = sh_pools s \<and>
    poolSnapshots (sh_ui (shell_step s e)) = poolSnapshots (sh_ui s)"
  using assms
  by (cases e) (auto simp: other_run_def shell_defs Let_def openCreatePool_def openAddAccount_def split: list.splits)

lemma other_run_steps:
  "list_all (other_run (sh_run s)) es \<Longrightarrow>
   sh_run (foldl shell_step s es) = sh_run s \<and> sh_pools (foldl shell_step s es) = sh_pools s \<and>
   poolSnapshots (sh_ui (foldl shell_step s es)) = poolSnapshots (sh_ui s)"
proof (induction es arbitrary: s)
  case (Cons e es)
  then have "other_run (sh_run s) e" by simp
  note e = other_run_step [OF this]
  have "list_all (other_run (sh_run (shell_step s e))) es" using Cons.prems e by simp
  then show ?case using Cons.IH [of "shell_step s e"] e by simp
qed simp

text \<open>
  C39: The sidebar settles on the newest data: whatever answers to older loads, clicks and navigations come
  before, between and after the two answers of the newest load, the sidebar lists exactly the pools of
  that load, and each dot has the colour of the snapshot derived from that pool and its detail.
\<close>

theorem sidebar_shows_newest:
  fixes s :: shell_state
  defines "n \<equiv> sh_run s"
  assumes "list_all (other_run n) (before @ between @ after)"
    and "distinct (map pool_id ps)" and "length answers = length ps"
    and "t = foldl shell_step s (before @ PoolsLoaded n (Some ps) # between @ DetailsLoaded n answers # after)"
  shows "sh_pools t = ps \<and>
    map (sr_dot \<circ> sidebar_row_of h t) ps =
      map2 (\<lambda>p (g, detail). poolDot (derivePoolSnapshot g p detail)) ps answers"
proof -
  define s1 where "s1 = shell_step (foldl shell_step s before) (PoolsLoaded n (Some ps))"
  define s2 where "s2 = shell_step (foldl shell_step s1 between) (DetailsLoaded n answers)"
  have t: "t = foldl shell_step s2 after" using assms(5) by (simp add: s1_def s2_def)
  have "sh_run (foldl shell_step s before) = n"
    using other_run_steps [of s before] assms(2) by (simp add: n_def)
  then have s1: "sh_run s1 = n" "sh_pools s1 = ps"
    by (simp_all add: s1_def pools_loaded_def nullish_def)
  then have "sh_run (foldl shell_step s1 between) = n" "sh_pools (foldl shell_step s1 between) = ps"
    using other_run_steps [of s1 between] assms(2) by simp_all
  then have s2: "sh_run s2 = n" "sh_pools s2 = ps"
      "poolSnapshots (sh_ui s2) = fromEntries (snapshot_entries ps answers)"
    by (simp_all add: s2_def details_loaded_def setPoolSnapshots_def)
  then have T: "sh_pools t = ps" "poolSnapshots (sh_ui t) = fromEntries (snapshot_entries ps answers)"
    using other_run_steps [of s2 after] assms(2) by (simp_all add: t)
  have "sr_dot (sidebar_row_of h t (ps ! i)) =
      poolDot (derivePoolSnapshot (fst (answers ! i)) (ps ! i) (snd (answers ! i)))" if "i < length ps" for i
    using snapshot_of_pool [OF assms(3,4) that] by (simp add: sidebar_row_of_def Let_def T(2) nullish_def)
  then show ?thesis
    using T(1) assms(4) by (simp add: list_eq_iff_nth_eq split_def)
qed

definition sidebar_pool :: pool where
  "sidebar_pool = \<lparr>pool_id = 7, pool_label = js ''mine'', pool_priority = 0, pool_enabled = True,
     routing_policy = [], account_count = 0, healthy_account_count = 0, routable_account_count = 0,
     pool_models = [], pool_created_at = [], pool_updated_at = []\<rparr>"

definition shell1 :: shell_state where
  "shell1 = shell_refresh (shell_init (router_init (js ''/admin'')) admin_ui_init)"

theorem sidebar_shows_newest_witness:
  "sh_pools (foldl shell_step shell1 [PoolsFailed 0, PoolsLoaded 1 (Some [sidebar_pool]), PoolsButton,
     PoolsLoaded 0 None, DetailsLoaded 1 [(sample_host, None)], DetailsLoaded 0 []]) = [sidebar_pool]"
proof -
  have r: "sh_run shell1 = 1" by (simp add: shell1_def shell_refresh_def shell_init_def)
  then have "list_all (other_run (sh_run shell1))
      ([PoolsFailed 0] @ [PoolsButton, PoolsLoaded 0 None] @ [DetailsLoaded 0 []])"
    by (simp add: other_run_def)
  from conjunct1 [OF sidebar_shows_newest [OF this, of "[sidebar_pool]" "[(sample_host, None)]", OF _ _ refl]]
  show ?thesis by (simp only: r append.simps) simp
qed

lemma digits_path:
  assumes "currentPoolId path = Some n"
  obtains ds where "path = js ''/admin/pools/'' @ ds" "ds \<noteq> []" "list_all is_digit ds" "n = int (digits_val ds)"
  using assms startsWith_drop [of path "js ''/admin/pools/''"]
  by (auto simp: currentPoolId_def Let_def split: if_splits)

text \<open>
  The sidebar marks the pool on the screen: where the sidebar reads a pool's identifier in the address, the
  page reads the same identifier there. The exceptions, shown below, are addresses that only the page reads.
\<close>

theorem sidebar_marks_shown_pool:
  assumes "currentPoolId path = Some n" and "n \<noteq> 0" and "n < 2 ^ 53"
  shows "valid_pool_id (page_pool_id path) = Some n"
proof -
  obtain ds where ds: "path = js ''/admin/pools/'' @ ds" "ds \<noteq> []" "list_all is_digit ds" "n = int (digits_val ds)"
    using digits_path [OF assms(1)] .
  have "47 \<notin> set ds" "37 \<notin> set ds" using ds(3) by (auto simp: list_all_iff is_digit_def)
  then have "page_pool_id path = string_to_number ds"
    using matchPath_pool [OF ds(2)] decodeURIComponent_plain by (simp add: page_pool_id_def ds(1) map_get_def)
  also have "\<dots> = to_double (of_int n)"
    using string_to_number_digits [OF ds(3,2)] by (simp add: ds(4))
  also have "\<dots> = Num (of_int n)"
  proof -
    have "(of_int n :: rat) < of_int (2 ^ 53)" using assms(3) by (simp only: of_int_less_iff)
    moreover have "(0 :: rat) \<le> of_int n" using ds(4) by simp
    ultimately show ?thesis by (simp add: to_double_def)
  qed
  finally show ?thesis using assms(2) ds(4) by (simp add: valid_pool_id_def)
qed

theorem sidebar_marks_shown_pool_witness:
  "valid_pool_id (page_pool_id (sidebar_href 12)) = Some 12"
  using sidebar_marks_shown_pool [of "sidebar_href 12" 12] by (simp add: currentPoolId_href)

text \<open>A row whose link is followed becomes the marked one, and the only one.\<close>

lemma followed_link_is_marked:
  assumes "0 \<le> pool_id p" and "distinct (map pool_id (sh_pools s))" and "p \<in> set (sh_pools s)"
    and "t = s\<lparr>sh_router := navigate (sh_router s) (sidebar_href (pool_id p)) False\<rparr>"
    and "sh_poolsExpanded s"
  shows "filter sr_active (sidebar_rows h t) = [sidebar_row_of h t p]"
proof -
  have a: "sr_active (sidebar_row_of h t q) \<longleftrightarrow> pool_id q = pool_id p" for q
    using assms(1) by (auto simp: assms(4) sidebar_row_of_def Let_def shell_pool_id_def sidebar_href_path currentPoolId_href)
  obtain xs ys where xy: "sh_pools s = xs @ p # ys" using assms(3) by (meson split_list)
  then have "pool_id p \<notin> pool_id ` set xs" "pool_id p \<notin> pool_id ` set ys"
    using assms(2) by auto
  then have "filter (\<lambda>q. pool_id q = pool_id p) xs = []" "filter (\<lambda>q. pool_id q = pool_id p) ys = []"
    by (auto simp: filter_empty_conv image_iff)
  then show ?thesis
    using assms(5) by (simp add: sidebar_rows_def assms(4) filter_map comp_def a [unfolded assms(4)] xy)
qed

text \<open>The page reads addresses the sidebar does not: the pool is shown, but no row is marked.\<close>

lemma shown_but_not_marked:
  "currentPoolId (js ''/admin/pools/'' @ js ''+5'') = None"
  "valid_pool_id (page_pool_id (js ''/admin/pools/'' @ js ''+5'')) = Some 5"
proof -
  have n: "string_to_number (js ''+5'') = Num 5"
    by (simp add: string_to_number_def js_def trim_def is_js_space_def toLowerCase_def lower_unit_def
        Let_def decimal_value_def is_digit_def exponent_part_def digits_val_def pow10_def to_double_def)
  have m: "matchPath (js ''/admin/pools/:id'') (js ''/admin/pools/'' @ js ''+5'') = Inr (Some [(js ''id'', js ''+5'')])"
    by (subst matchPath_pool) (simp_all add: js_def decodeURIComponent_plain)
  show "currentPoolId (js ''/admin/pools/'' @ js ''+5'') = None"
    by (simp add: currentPoolId_def js_def is_digit_def)
  show "valid_pool_id (page_pool_id (js ''/admin/pools/'' @ js ''+5'')) = Some 5"
    by (simp only: page_pool_id_def m) (simp add: map_get_def n valid_pool_id_def)
qed

section \<open>Lemmas on the table of contents and the tabs\<close>

text \<open>The observer picks an intersecting section of the greatest ratio, the first one on a tie.\<close>

lemma toc_observed_max:
  assumes "filter te_isIntersecting entries \<noteq> []"
  shows "\<exists>e \<in> set entries. te_isIntersecting e \<and> toc_observed entries a = te_id e \<and>
    (\<forall>x \<in> set entries. te_isIntersecting x \<longrightarrow> te_ratio x \<le> te_ratio e)"
proof -
  let ?v = "filter te_isIntersecting entries"
  have "sort_desc te_ratio ?v \<noteq> []" using assms by (simp only: sd.srt_eq_Nil not_False_eq_True)
  then have "toc_observed entries a = te_id (hd (sort_desc te_ratio ?v))"
    by (cases "sort_desc te_ratio ?v") (auto simp: toc_observed_def)
  with hd_sort_desc_max [OF assms, of te_ratio] show ?thesis by auto
qed

lemma toc_observed_none: "filter te_isIntersecting entries = [] \<Longrightarrow> toc_observed entries a = a"
  by (simp add: toc_observed_def)

text \<open>The marked section is always one of the page's: entries come only from watched sections.\<close>

lemma toc_active_section:
  assumes "a \<in> set ids" and "te_id ` set entries \<subseteq> set ids"
  shows "toc_observed entries a \<in> set ids"
proof (cases "filter te_isIntersecting entries = []")
  case False
  then show ?thesis using toc_observed_max [of entries a] assms(2) by auto
qed (use assms in \<open>simp add: toc_observed_none\<close>)

text \<open>
  The callback sees only the sections whose visibility changed: a section that stays in full view loses
  the mark to one that enters with a small ratio.
\<close>

lemma toc_mark_follows_last_change:
  fixes r :: rat
  shows "toc_observed [\<lparr>te_id = b, te_isIntersecting = True, te_ratio = r\<rparr>]
     (toc_observed [\<lparr>te_id = a, te_isIntersecting = True, te_ratio = 1\<rparr>] z) = b"
  by (simp add: toc_observed_def sort_desc_def)

text \<open>
  The guard of the effect never holds a second run back: the cleanup that comes before it clears the flag,
  so the sections are observed again with the elements that are there by then.
\<close>

lemma toc_guard_reset:
  "toc_watched (toc_effect present sections True (toc_cleanup s)) = filter present (map fst sections)"
  by (simp add: toc_effect_def toc_cleanup_def)

text \<open>A click on a dot leaves the path of the address alone, so the router stays in step with it.\<close>

lemma toc_click_sync:
  assumes "router_sync r"
  shows "router_sync (fst (toc_click present i r))"
proof -
  have "location_pathname (takeWhile (\<lambda>c. c \<noteq> 35) a @ 35 # i) = location_pathname a" for a
    by (induction a) (auto simp: location_pathname_def)
  then show ?thesis using assms by (simp add: toc_click_def router_sync_def)
qed

lemma tab_index_Some: "tab_index P xs = Some i \<Longrightarrow> i < length xs \<and> P (xs ! i)"
  by (induction xs arbitrary: i) (auto split: if_splits)

lemma tab_index_None: "tab_index P xs = None \<longleftrightarrow> (\<forall>x \<in> set xs. \<not> P x)"
  by (induction xs) auto

lemma tab_index_nth: "distinct xs \<Longrightarrow> i < length xs \<Longrightarrow> tab_index (\<lambda>t. t = xs ! i) xs = Some i"
proof (induction xs arbitrary: i)
  case (Cons x xs)
  then show ?case by (cases i) auto
qed simp

lemma tab_target_less: "i < n \<Longrightarrow> tab_target n i k = Some j \<Longrightarrow> j < n"
  by (cases k) (auto simp: nat_less_iff)

text \<open>A key never leaves the tabs, and the tab it goes to is the one whose panel is shown.\<close>

lemma tab_press_in: "active \<in> set keys \<Longrightarrow> tab_press keys active k \<in> set keys"
  using tab_index_Some [of "\<lambda>t. t = active" keys] tab_target_less [of _ "length keys"]
  by (fastforce simp: tab_press_def tab_keydown_def nullish_def split: option.splits)

lemma tab_press_nth:
  assumes "distinct keys" and "i < length keys"
  shows "tab_press keys (keys ! i) k =
    keys ! (case tab_target (length keys) i k of None \<Rightarrow> i | Some j \<Rightarrow> j)"
  using assms by (simp add: tab_press_def tab_keydown_def tab_index_nth nullish_def split: option.splits)

text \<open>The arrow keys undo each other, round both ends, and turning through all tabs comes back.\<close>

lemma tab_arrows_inverse:
  assumes "distinct keys" and "active \<in> set keys"
  shows "tab_press keys (tab_press keys active ArrowRight) ArrowLeft = active"
    and "tab_press keys (tab_press keys active ArrowLeft) ArrowRight = active"
proof -
  let ?n = "length keys"
  obtain i where i: "i < ?n" "active = keys ! i" using assms(2) by (metis in_set_conv_nth)
  have r: "(i + 1) mod ?n < ?n" "nat ((int i - 1 + int ?n) mod int ?n) < ?n"
    using tab_target_less [OF i(1), of ArrowRight] tab_target_less [OF i(1), of ArrowLeft] by simp_all
  have "(int ((i + 1) mod ?n) - 1 + int ?n) mod int ?n = int i mod int ?n"
    by (simp add: zmod_int mod_simps)
  then have 1: "nat ((int ((i + 1) mod ?n) - 1 + int ?n) mod int ?n) = i" using i(1) by simp
  have "0 \<le> (int i - 1 + int ?n) mod int ?n" using i(1) by (intro pos_mod_sign) auto
  then have "int ((nat ((int i - 1 + int ?n) mod int ?n) + 1) mod ?n) = int i mod int ?n"
    by (simp add: zmod_int mod_simps)
  then have 2: "(nat ((int i - 1 + int ?n) mod int ?n) + 1) mod ?n = i" using i(1) by simp
  show "tab_press keys (tab_press keys active ArrowRight) ArrowLeft = active"
    using i 1 r by (simp add: tab_press_nth [OF assms(1)])
  show "tab_press keys (tab_press keys active ArrowLeft) ArrowRight = active"
    using i 2 r by (simp add: tab_press_nth [OF assms(1)])
qed

lemma one_panel_shown:
  "distinct keys \<Longrightarrow> active \<in> set keys \<Longrightarrow> filter (\<lambda>k. \<not> panel_hidden active k) keys = [active]"
proof (induction keys)
  case (Cons k keys)
  then show ?case
    by (cases "k = active") (auto simp: panel_hidden_def filter_empty_conv)
qed simp

end
