(* ===== verification/Chrome.thy ===== *)
theory Chrome
  imports Router AuthImport
begin

text \<open>
  The application frame and its shared parts: \<^verbatim>\<open>web/src/App.tsx\<close> with the two error boundaries of
  \<^verbatim>\<open>web/src/components/AppErrorBoundary.tsx\<close>, the state of the sidebar in \<^verbatim>\<open>web/src/components/ui/sidebar.tsx\<close> with
  \<^verbatim>\<open>web/src/hooks/use-mobile.ts\<close>, and \<^verbatim>\<open>CopyButton.tsx\<close> and \<^verbatim>\<open>StatusBadge.tsx\<close>.
\<close>

section \<open>Error boundaries\<close>

text \<open>
  One boundary is around the shell, one around the page inside it. \<open>throws\<close> says with which message a page
  throws when it is rendered, if it does; \<open>uri_message\<close> is the message of the exception that
  \<open>decodeURIComponent\<close> throws for a malformed address.
\<close>

record app_state =
  ap_router :: router_state
  ap_shell_error :: "jstr option"
  ap_page_error :: "jstr option"

datatype app_screen = WholeError jstr | PageError jstr | Showing page

text \<open>
  One render: the exception of \<open>PageRouter\<close> itself reaches the outer boundary, which unmounts the shell and
  the inner boundary with it; the exception of a page reaches the inner boundary.
\<close>

definition app_render :: "jstr \<Rightarrow> (page \<Rightarrow> jstr option) \<Rightarrow> app_state \<Rightarrow> app_state" where
  "app_render uri_message throws s =
     (if ap_shell_error s \<noteq> None then s
      else case PageRouter (pathname (ap_router s)) of
        Inl e \<Rightarrow> s\<lparr>ap_shell_error := Some uri_message, ap_page_error := None\<rparr>
      | Inr pg \<Rightarrow>
          (if ap_page_error s \<noteq> None then s else s\<lparr>ap_page_error := throws pg\<rparr>))"

definition boundary_text :: "jstr \<Rightarrow> jstr" where
  "boundary_text message = or_str (Some message) c_render_unknown"

definition app_screen_of :: "app_state \<Rightarrow> app_screen option" where
  "app_screen_of s =
     (case ap_shell_error s of
        Some m \<Rightarrow> Some (WholeError (boundary_text m))
      | None \<Rightarrow>
          (case ap_page_error s of
             Some m \<Rightarrow> Some (PageError (boundary_text m))
           | None \<Rightarrow>
               (case PageRouter (pathname (ap_router s)) of Inl _ \<Rightarrow> None | Inr pg \<Rightarrow> Some (Showing pg))))"

definition boundary_reset :: "bool \<Rightarrow> app_state \<Rightarrow> app_state" where
  "boundary_reset outer s = (if outer then s\<lparr>ap_shell_error := None\<rparr> else s\<lparr>ap_page_error := None\<rparr>)"

datatype app_event = AppNav nav_event | AppRetry bool

definition app_step :: "jstr \<Rightarrow> (page \<Rightarrow> jstr option) \<Rightarrow> app_state \<Rightarrow> app_event \<Rightarrow> app_state" where
  "app_step uri_message throws s e =
     app_render uri_message throws
       (case e of
          AppNav n \<Rightarrow> s\<lparr>ap_router := nav_step (ap_router s) n\<rparr>
        | AppRetry outer \<Rightarrow> boundary_reset outer s)"

definition app_start :: "jstr \<Rightarrow> (page \<Rightarrow> jstr option) \<Rightarrow> jstr \<Rightarrow> app_state" where
  "app_start uri_message throws href =
     app_render uri_message throws \<lparr>ap_router = router_init href, ap_shell_error = None, ap_page_error = None\<rparr>"

section \<open>The sidebar's provider\<close>

abbreviation (input) MOBILE_BREAKPOINT :: int where "MOBILE_BREAKPOINT \<equiv> 768"

record sidebar_ctx =
  sb_isMobile :: "bool option"
  sb_openMobile :: bool
  sb_open :: bool
  sb_openProp :: "bool option"
  sb_handled :: bool
  sb_calls :: "bool list"
  sb_cookie :: "bool option"

text \<open>\<open>sb_handled\<close>: an \<open>onOpenChange\<close> was passed, whose calls are \<open>sb_calls\<close>; \<open>sb_cookie\<close> is the cookie's value.\<close>

definition sidebar_mount :: "bool \<Rightarrow> bool option \<Rightarrow> bool \<Rightarrow> bool option \<Rightarrow> sidebar_ctx" where
  "sidebar_mount defaultOpen openProp handled cookie =
     \<lparr>sb_isMobile = None, sb_openMobile = False, sb_open = defaultOpen, sb_openProp = openProp,
      sb_handled = handled, sb_calls = [], sb_cookie = cookie\<rparr>"

text \<open>The effect of \<open>useIsMobile\<close> and its listener.\<close>

definition mobile_change :: "int \<Rightarrow> sidebar_ctx \<Rightarrow> sidebar_ctx" where
  "mobile_change innerWidth s = s\<lparr>sb_isMobile := Some (innerWidth < MOBILE_BREAKPOINT)\<rparr>"

definition useIsMobile :: "sidebar_ctx \<Rightarrow> bool" where
  "useIsMobile s = nullish (sb_isMobile s) False"

definition sidebar_open :: "sidebar_ctx \<Rightarrow> bool" where
  "sidebar_open s = nullish (sb_openProp s) (sb_open s)"

definition setOpen :: "(bool \<Rightarrow> bool) \<Rightarrow> sidebar_ctx \<Rightarrow> sidebar_ctx" where
  "setOpen f s =
     (let openState = f (sidebar_open s);
          s1 = (if sb_handled s then s\<lparr>sb_calls := sb_calls s @ [openState]\<rparr> else s\<lparr>sb_open := openState\<rparr>)
      in s1\<lparr>sb_cookie := Some openState\<rparr>)"

definition toggleSidebar :: "sidebar_ctx \<Rightarrow> sidebar_ctx" where
  "toggleSidebar s =
     (if useIsMobile s then s\<lparr>sb_openMobile := \<not> sb_openMobile s\<rparr> else setOpen Not s)"

text \<open>The shortcut: the key, and whether \<open>metaKey\<close> or \<open>ctrlKey\<close> is down; the result also says \<open>preventDefault\<close>.\<close>

definition sidebar_keydown :: "jstr \<Rightarrow> bool \<Rightarrow> bool \<Rightarrow> sidebar_ctx \<Rightarrow> sidebar_ctx \<times> bool" where
  "sidebar_keydown key meta ctrl s =
     (if key = js ''b'' \<and> (meta \<or> ctrl) then (toggleSidebar s, True) else (s, False))"

definition sidebar_state :: "sidebar_ctx \<Rightarrow> jstr" where
  "sidebar_state s = (if sidebar_open s then js ''expanded'' else js ''collapsed'')"

datatype sidebar_event = SbWidth int | SbToggle | SbKey jstr bool bool | SbMobile bool

fun sidebar_step :: "sidebar_ctx \<Rightarrow> sidebar_event \<Rightarrow> sidebar_ctx" where
  "sidebar_step s (SbWidth w) = mobile_change w s"
| "sidebar_step s SbToggle = toggleSidebar s"
| "sidebar_step s (SbKey k m c) = fst (sidebar_keydown k m c s)"
| "sidebar_step s (SbMobile b) = s\<lparr>sb_openMobile := b\<rparr>"

section \<open>The copy button and the status badge\<close>

record copy_button =
  cb_copied :: bool
  cb_timers :: nat
  cb_toasts :: "(jstr \<times> bool) list"

text \<open>\<open>handleCopy\<close> after the clipboard has answered; every success starts a timer and stops none.\<close>

definition handleCopy :: "bool \<Rightarrow> copy_button \<Rightarrow> copy_button" where
  "handleCopy ok s =
     (if ok then s\<lparr>cb_copied := True, cb_toasts := cb_toasts s @ [(c_cb_copied, False)], cb_timers := Suc (cb_timers s)\<rparr>
      else s\<lparr>cb_toasts := cb_toasts s @ [(c_cb_failed, True)]\<rparr>)"

definition copy_timer :: "copy_button \<Rightarrow> copy_button" where
  "copy_timer s = (if cb_timers s = 0 then s else s\<lparr>cb_copied := False, cb_timers := cb_timers s - 1\<rparr>)"

definition copy_caption :: "jstr option \<Rightarrow> copy_button \<Rightarrow> jstr option" where
  "copy_caption label s = (if truthy_str label then Some (if cb_copied s then c_cb_copied else or_str label []) else None)"

definition dotColor :: "jstr \<Rightarrow> jstr option" where
  "dotColor status =
     map_of [(js ''unknown'', js ''bg-moon-300''), (js ''healthy'', js ''bg-status-green''),
             (js ''degraded'', js ''bg-status-yellow animate-pulse''), (js ''error'', js ''bg-status-red''),
             (js ''disabled'', js ''bg-moon-400'')] status"

definition badgeStyle :: "jstr \<Rightarrow> jstr option" where
  "badgeStyle status =
     map_of [(js ''unknown'', js ''bg-moon-100/70 text-moon-500 border-moon-200/70''),
             (js ''healthy'', js ''bg-status-green/10 text-status-green border-status-green/20''),
             (js ''degraded'', js ''bg-status-yellow/10 text-status-yellow border-status-yellow/20''),
             (js ''error'', js ''bg-status-red/10 text-status-red border-status-red/20''),
             (js ''disabled'', js ''bg-moon-200/50 text-moon-400 border-moon-200'')] status"

text \<open>The style of the badge, that of its dot and its text.\<close>

definition StatusBadge :: "jstr \<Rightarrow> jstr option \<Rightarrow> jstr \<times> jstr \<times> jstr option" where
  "StatusBadge status label =
     (nullish (badgeStyle status) (nullish (badgeStyle (js ''disabled'')) []),
      nullish (dotColor status) (nullish (dotColor (js ''disabled'')) []),
      (case label of Some l \<Rightarrow> Some l | None \<Rightarrow> STATUS_LABELS_ZH status))"

section \<open>Lemmas on the error boundaries\<close>

definition good_address :: "router_state \<Rightarrow> bool" where
  "good_address r = (case PageRouter (pathname r) of Inl _ \<Rightarrow> False | Inr _ \<Rightarrow> True)"

text \<open>
  After every render the screen is defined, and a page on the screen is the page of the address.
\<close>

lemma app_render_screen:
  "(\<exists>x. app_screen_of (app_render u th s) = Some x) \<and>
   (app_screen_of (app_render u th s) = Some (Showing pg) \<longrightarrow>
      PageRouter (pathname (ap_router (app_render u th s))) = Inr pg \<and> (ap_page_error s = None \<longrightarrow> th pg = None))"
  by (auto simp: app_render_def app_screen_of_def split: option.splits sum.splits)

lemma page_error_step:
  assumes "ap_shell_error s = None" and "ap_page_error s = Some m" and "good_address (nav_step (ap_router s) n)"
  shows "app_step u th s (AppNav n) = s\<lparr>ap_router := nav_step (ap_router s) n\<rparr>"
  using assms by (auto simp: app_step_def app_render_def good_address_def split: sum.splits)

fun all_good :: "router_state \<Rightarrow> nav_event list \<Rightarrow> bool" where
  "all_good r [] = True"
| "all_good r (n # ns) = (good_address (nav_step r n) \<and> all_good (nav_step r n) ns)"

lemma page_error_run:
  assumes "ap_shell_error s = None" and "ap_page_error s = Some m" and "all_good (ap_router s) ns"
  shows "foldl (app_step u th) s (map AppNav ns) = s\<lparr>ap_router := foldl nav_step (ap_router s) ns\<rparr>"
  using assms
proof (induction ns arbitrary: s)
  case (Cons n ns)
  then show ?case
    using page_error_step [OF Cons.prems(1,2), of n u th] by simp
qed simp

text \<open>
  The error of one page covers the others: the inner boundary keeps its error over every navigation, so
  whatever page the user goes to, the first page's message stays on the screen; a retry there shows the
  page of the address, if that page can be rendered.
\<close>

theorem page_error_survives_navigation:
  assumes "ap_shell_error s = None" and "ap_page_error s = Some m" and "all_good (ap_router s) ns"
    and "PageRouter (pathname (foldl nav_step (ap_router s) ns)) = Inr pg" and "throws pg = None"
  shows "app_screen_of (foldl (app_step u throws) s (map AppNav ns)) = Some (PageError (boundary_text m)) \<and>
    app_screen_of (foldl (app_step u throws) s (map AppNav ns @ [AppRetry False])) = Some (Showing pg)"
  using assms(1,2,4,5) page_error_run [OF assms(1-3), of u throws]
  by (simp add: app_screen_of_def app_step_def boundary_reset_def app_render_def)

theorem page_error_survives_navigation_witness:
  "app_screen_of (foldl (app_step [] (\<lambda>_. None))
       \<lparr>ap_router = router_init (js ''/admin/activity''), ap_shell_error = None, ap_page_error = Some (js ''boom'')\<rparr>
       (map AppNav [Navigate (js ''/admin/settings'') False])) = Some (PageError (boundary_text (js ''boom'')))"
proof -
  let ?s = "\<lparr>ap_router = router_init (js ''/admin/activity''), ap_shell_error = None, ap_page_error = Some (js ''boom'')\<rparr>"
  have r: "PageRouter (pathname (nav_step (router_init (js ''/admin/activity'')) (Navigate (js ''/admin/settings'') False))) = Inr SettingsPage"
    by code_simp
  then have "all_good (ap_router ?s) [Navigate (js ''/admin/settings'') False]"
    by (simp add: good_address_def del: nav_step.simps)
  from conjunct1 [OF page_error_survives_navigation [OF _ _ this, of "js ''boom''" SettingsPage "\<lambda>_. None" "[]"]] r
  show ?thesis by (simp del: nav_step.simps)
qed

text \<open>
  A malformed address takes the whole console down: the message replaces the shell too, a retry brings it
  back, and so does every retry until the address changes.
\<close>

lemma malformed_address_takes_all:
  assumes "\<not> good_address (ap_router s)" and "ap_shell_error s = None"
  shows "app_screen_of (app_render u th s) = Some (WholeError (boundary_text u)) \<and>
    app_step u th (app_render u th s) (AppRetry True) = app_render u th s"
  using assms
  by (auto simp: app_render_def good_address_def app_step_def boundary_reset_def app_screen_of_def split: sum.splits)

section \<open>Lemmas on the sidebar\<close>

definition sidebar_inv :: "sidebar_ctx \<Rightarrow> bool" where
  "sidebar_inv s \<longleftrightarrow> sb_openProp s = None \<and> \<not> sb_handled s \<and> sb_calls s = []"

text \<open>Without control from outside, the cookie has the last state the sidebar was put in.\<close>

lemma setOpen_cookie:
  assumes "sidebar_inv s"
  shows "sb_cookie (setOpen f s) = Some (sidebar_open (setOpen f s)) \<and> sidebar_open (setOpen f s) = f (sidebar_open s)
    \<and> sidebar_inv (setOpen f s)"
  using assms by (simp add: setOpen_def sidebar_inv_def sidebar_open_def nullish_def Let_def)

lemma sidebar_step_inv:
  assumes "sidebar_inv s" and "sb_cookie s = None \<or> sb_cookie s = Some (sidebar_open s)"
  shows "sidebar_inv (sidebar_step s e) \<and>
    (sb_cookie (sidebar_step s e) = None \<or> sb_cookie (sidebar_step s e) = Some (sidebar_open (sidebar_step s e)))"
proof -
  have t: "sidebar_inv (toggleSidebar s) \<and>
      (sb_cookie (toggleSidebar s) = None \<or> sb_cookie (toggleSidebar s) = Some (sidebar_open (toggleSidebar s)))"
    using assms setOpen_cookie [OF assms(1), of Not]
    by (auto simp: toggleSidebar_def sidebar_inv_def sidebar_open_def)
  then show ?thesis
    using assms by (cases e) (auto simp: mobile_change_def sidebar_keydown_def sidebar_inv_def sidebar_open_def)
qed

text \<open>Toggling twice changes nothing but the cookie, and a toggle on a narrow window leaves the wide one alone.\<close>

lemma toggle_twice:
  assumes "sidebar_inv s"
  shows "sidebar_open (toggleSidebar (toggleSidebar s)) = sidebar_open s \<and>
    sb_openMobile (toggleSidebar (toggleSidebar s)) = sb_openMobile s"
  using assms
  by (simp add: toggleSidebar_def useIsMobile_def setOpen_def sidebar_open_def sidebar_inv_def nullish_def Let_def)

lemma toggle_mobile:
  "useIsMobile s \<Longrightarrow> sidebar_open (toggleSidebar s) = sidebar_open s \<and> sb_cookie (toggleSidebar s) = sb_cookie s"
  by (simp add: toggleSidebar_def sidebar_open_def)

text \<open>The cookie is written and never read: the application mounts the sidebar open, whatever it says.\<close>

lemma sidebar_forgets: "sidebar_state (sidebar_mount True None False cookie) = js ''expanded''"
  by (simp add: sidebar_state_def sidebar_mount_def sidebar_open_def nullish_def)

section \<open>Lemmas on the copy button and the badge\<close>

text \<open>Copied again before the first timer fires, the button drops its tick while the second timer still runs.\<close>

lemma second_copy_cut_short:
  assumes "s = copy_timer (handleCopy True (handleCopy True \<lparr>cb_copied = False, cb_timers = 0, cb_toasts = []\<rparr>))"
  shows "\<not> cb_copied s \<and> cb_timers s = 1"
  using assms by (simp add: handleCopy_def copy_timer_def)

text \<open>Each of the five states has its own dot, and an unknown text the one of a disabled account.\<close>

lemma StatusBadge_unknown:
  "badgeStyle status = None \<Longrightarrow> StatusBadge status None = (fst (StatusBadge (js ''disabled'') None), fst (snd (StatusBadge (js ''disabled'') None)), STATUS_LABELS_ZH status)"
  by (auto simp: StatusBadge_def badgeStyle_def dotColor_def nullish_def split: if_splits)

end
