(* ===== verification/AccountViews.thy ===== *)
theory AccountViews
  imports Diagnostics AccountSheet PoolDetail Chrome Templates
begin

text \<open>
  What the pool page puts on the screen: the card of an account in \<^verbatim>\<open>web/src/components/AccountCard.tsx\<close>, the
  bars of \<^verbatim>\<open>CodexQuotaBars.tsx\<close>, the sheet of \<^verbatim>\<open>AccountDetailSheet.tsx\<close> and the page of
  \<^verbatim>\<open>web/src/pages/PoolDetailPage.tsx\<close> around them. Each view is a function of the state, its values in the
  order of the markup. Reading the quota of an account can throw, and then the whole page throws.
\<close>

section \<open>Quota bars\<close>

fun toneFill :: "window_tone \<Rightarrow> jstr" where
  "toneFill WOk = js ''bg-status-green''"
| "toneFill WWarning = js ''bg-status-yellow''"
| "toneFill WDanger = js ''bg-status-red''"

fun toneTrack :: "window_tone \<Rightarrow> jstr" where
  "toneTrack WOk = js ''bg-moon-200/70''"
| "toneTrack WWarning = js ''bg-status-yellow/20''"
| "toneTrack WDanger = js ''bg-status-red/15''"

fun toneText :: "window_tone \<Rightarrow> jstr" where
  "toneText WOk = js ''text-status-green''"
| "toneText WWarning = js ''text-status-yellow''"
| "toneText WDanger = js ''text-status-red''"

text \<open>A line of the card: a bar is its track, its fill and its width; a line without a window has none.\<close>

record quota_line =
  ql_label :: jstr
  ql_title :: "jstr option"
  ql_bar :: "(jstr \<times> jstr \<times> rat) option"
  ql_text :: jstr
  ql_textClass :: jstr

definition bar_of :: "quota_row \<Rightarrow> bool \<Rightarrow> jstr \<times> jstr \<times> rat" where
  "bar_of row stale =
     (if stale then js ''bg-moon-200/50'' else toneTrack (qr_tone row),
      if stale then js ''bg-moon-300'' else toneFill (qr_tone row), qr_remain row)"

definition CompactRow :: "jstr \<Rightarrow> quota_window \<Rightarrow> bool \<Rightarrow> quota_line" where
  "CompactRow label w stale =
     (let row = quota_bar w stale in
      \<lparr>ql_label = label,
       ql_title = Some (label @ c_qb_window_used @ toFixed 1 (qr_used row) @ js ''% '' @ [0xB7] @ js '' '' @
         formatResetIn (Num (resetAfterSeconds w)) @ c_qb_resets),
       ql_bar = Some (bar_of row stale), ql_text = qr_text row,
       ql_textClass = (if stale then js ''text-moon-400'' else toneText (qr_tone row))\<rparr>)"

definition PendingCompactRow :: "jstr \<Rightarrow> quota_line" where
  "PendingCompactRow label =
     \<lparr>ql_label = label, ql_title = None, ql_bar = None, ql_text = js ''--'', ql_textClass = js ''text-moon-350''\<rparr>"

definition UnavailableCompactRow :: "jstr \<Rightarrow> weekly_meta \<Rightarrow> quota_line" where
  "UnavailableCompactRow label meta =
     \<lparr>ql_label = label, ql_title = Some (wm_detail meta), ql_bar = None, ql_text = wm_text meta,
      ql_textClass = js ''text-moon-350''\<rparr>"

definition CodexQuotaBarsCompact :: "codex_quota \<Rightarrow> bool \<Rightarrow> weekly_meta \<Rightarrow> quota_line list" where
  "CodexQuotaBarsCompact quota stale weeklyMeta =
     [CompactRow c_qb_short (quota_primary quota) stale,
      (case quota_secondary quota of
         Some w \<Rightarrow> CompactRow c_qb_week w stale
       | None \<Rightarrow> UnavailableCompactRow c_qb_week weeklyMeta)]"

definition CodexQuotaBarsPendingCompact :: "jstr \<Rightarrow> jstr option \<Rightarrow> quota_line list" where
  "CodexQuotaBarsPendingCompact planType quotaErrorLabel =
     [PendingCompactRow c_qb_short,
      UnavailableCompactRow c_qb_week (codexWeeklyWindowMeta (Some planType) quotaErrorLabel)]"

record window_view =
  wv_label :: jstr
  wv_text :: jstr
  wv_textClass :: jstr
  wv_bar :: "jstr \<times> jstr \<times> rat"
  wv_used :: jstr
  wv_resetAt :: "jstr option"

definition WindowRow :: "host \<Rightarrow> jstr \<Rightarrow> quota_window \<Rightarrow> bool \<Rightarrow> window_view" where
  "WindowRow h label w stale =
     (let row = quota_bar w stale; resetAbs = formatResetAt h (Num (resetAtMs w)) in
      \<lparr>wv_label = label, wv_text = qr_text row @ c_qb_left,
       wv_textClass = (if stale then js ''text-moon-500'' else toneText (qr_tone row)), wv_bar = bar_of row stale,
       wv_used = c_qb_used @ formatPercent (qr_used row) @ js '' '' @ [0xB7] @ js '' '' @
         formatResetIn (Num (resetAfterSeconds w)) @ c_qb_resets,
       wv_resetAt = (if resetAbs \<noteq> [] then Some resetAbs else None)\<rparr>)"

definition sqliteToISO :: "host \<Rightarrow> jstr \<Rightarrow> jstr" where
  "sqliteToISO h s = (case parseSqliteUTC h (Some s) of None \<Rightarrow> s | Some ms \<Rightarrow> toISOString ms)"

definition credits_text :: "quota_credits option \<Rightarrow> jstr option" where
  "credits_text credits =
     (case credits of
        None \<Rightarrow> None
      | Some c \<Rightarrow>
          if hasCredits c then
            Some (js ''balance '' @ balance c @ (if unlimited c then c_qb_unlimited else []) @
                  (if overageLimitReached c then c_qb_overage else []))
          else None)"

record quota_panel =
  qp_stale :: bool
  qp_blocked :: bool
  qp_primary :: window_view
  qp_secondary :: "weekly_meta + window_view"
  qp_credits :: "jstr option"
  qp_fetched :: jstr
  qp_plan :: "jstr option"

definition CodexQuotaBarsFull :: "host \<Rightarrow> codex_quota \<Rightarrow> jstr option \<Rightarrow> jstr \<Rightarrow> jstr option \<Rightarrow> quota_panel" where
  "CodexQuotaBarsFull h quota fetchedAt planType quotaErrorLabel =
     (let stale = isQuotaStale h fetchedAt in
      \<lparr>qp_stale = stale, qp_blocked = quota_blocked_notice quota,
       qp_primary = WindowRow h c_qb_five_hours (quota_primary quota) stale,
       qp_secondary = (case quota_secondary quota of
           Some w \<Rightarrow> Inr (WindowRow h c_qb_seven_days w stale)
         | None \<Rightarrow> Inl (codexWeeklyWindowMeta (Some planType) quotaErrorLabel)),
       qp_credits = credits_text (quota_credits_of quota),
       qp_fetched = c_qb_fetched @
         (if truthy_str fetchedAt then relativeTime h (Some (sqliteToISO h (or_str fetchedAt []))) else c_qb_never),
       qp_plan = (if planType \<noteq> [] then Some (js ''plan: '' @ planType) else None)\<rparr>)"

section \<open>The card\<close>

fun health_name :: "route_health \<Rightarrow> jstr" where
  "health_name Unknown = js ''unknown''"
| "health_name Healthy = js ''healthy''"
| "health_name Degraded = js ''degraded''"
| "health_name Error = js ''error''"
| "health_name Disabled = js ''disabled''"

datatype card_bars =
    CompactBars bool "quota_line list"
  | PendingBars "quota_line list"
  | SignalStrip nat success_signal
  | NoBars

record account_card =
  cd_tone :: jstr
  cd_priority :: "nat option"
  cd_access :: jstr
  cd_label :: jstr
  cd_plan :: "(jstr \<times> jstr \<times> jstr) option"
  cd_badge :: "jstr \<times> jstr \<times> jstr option"
  cd_bars :: card_bars
  cd_chips :: "(jstr \<times> jstr \<times> jstr option) list"
  cd_footer :: jstr
  cd_refreshDisabled :: bool
  cd_toggle :: jstr

definition card_tone :: "bool \<Rightarrow> route_health \<Rightarrow> jstr" where
  "card_tone enabled health =
     (if \<not> enabled then js ''border-moon-200/60 bg-moon-100/55''
      else if health = Error then js ''border-status-red/20 bg-red-50/55''
      else if health = Degraded then js ''border-status-yellow/20 bg-amber-50/55''
      else js ''border-white/78 bg-white/88'')"

definition card_bars_of :: "host \<Rightarrow> account \<Rightarrow> codex_quota option \<Rightarrow> account_stats \<Rightarrow> card_bars" where
  "card_bars_of h a codexQuota st =
     (let quotaLabel = map_option qm_label (getCpaQuotaErrorMeta a) in
      case codexQuota of
        Some q \<Rightarrow>
          (let stale = isQuotaStale h (codex_quota_fetched_at a) in
           CompactBars stale (CodexQuotaBarsCompact q stale (codexWeeklyWindowMeta (Some (cpa_plan_type a)) quotaLabel)))
      | None \<Rightarrow>
          if sheet_is_codex a then PendingBars (CodexQuotaBarsPendingCompact (cpa_plan_type a) quotaLabel)
          else if \<not> sheet_is_codex a then
            SignalStrip (requestsToFilledDots (st_requests st)) (describeSuccess (st_requests st) (st_successRate st))
          else NoBars)"

definition chip_views :: "card_chip list \<Rightarrow> (jstr \<times> jstr \<times> jstr option) list" where
  "chip_views chips =
     map (\<lambda>(i, c). (chip_label c, if i = 0 then js ''bg-moon-100/80 text-moon-500'' else chipClass (chip_tone_of c), chip_detail c))
       (enumerate 0 chips)"

definition card_view ::
    "host \<Rightarrow> pool_member \<Rightarrow> account \<Rightarrow> codex_quota option \<Rightarrow> account_stats \<Rightarrow> nat option \<Rightarrow> bool \<Rightarrow> account_card" where
  "card_view h m a codexQuota st priorityIndex refreshing =
     (let health = getAccountHealth a in
      \<lparr>cd_tone = card_tone (member_enabled m) health,
       cd_priority = (if member_enabled m then priorityIndex else None),
       cd_access = getAccessLabel a, cd_label = acc_label a,
       cd_plan = map_option (\<lambda>c. (chip_label c, chipClass (chip_tone_of c), or_str (chip_detail c) (chip_label c)))
         (getPlanChip (Some a) (sheet_is_codex a)),
       cd_badge = StatusBadge (health_name (getRouteHealth h (Some a) (member_enabled m) (Some (health_name health)))) None,
       cd_bars = card_bars_of h a codexQuota st,
       cd_chips = chip_views (cardChips h (Some a) (st_requests st)),
       cd_footer = (if refreshing then c_av_refreshing else if \<not> sheet_is_codex a then [0xA0]
         else relativeTime h (last_checked_at a)),
       cd_refreshDisabled = refreshing,
       cd_toggle = (if member_enabled m then c_av_disable else c_av_enable)\<rparr>)"

text \<open>The card, \<open>None\<close> for a member without account data; \<open>parseCodexQuota\<close> throws while it is rendered.\<close>

definition AccountCard ::
    "host \<Rightarrow> pool_member \<Rightarrow> account_stats \<Rightarrow> nat option \<Rightarrow> bool \<Rightarrow> js_error + account_card option" where
  "AccountCard h m st priorityIndex refreshing =
     (case member_account m of
        None \<Rightarrow> Inr None
      | Some a \<Rightarrow>
          (case parseCodexQuota a of
             Inl e \<Rightarrow> Inl e
           | Inr q \<Rightarrow> Inr (Some (card_view h m a q st priorityIndex refreshing))))"

section \<open>The sheet\<close>

datatype sheet_tab = TabOverview | TabPlayground | TabDiagnostics

record sheet_tabs =
  tb_open :: "int option"
  tb_tab :: sheet_tab

text \<open>A render with another account, or the sheet opened again: the effect goes back to the first tab.\<close>

definition sheet_render :: "int option \<Rightarrow> sheet_tabs \<Rightarrow> sheet_tabs" where
  "sheet_render acc s =
     (if acc = tb_open s then s
      else \<lparr>tb_open = acc, tb_tab = (if acc \<noteq> None then TabOverview else tb_tab s)\<rparr>)"

record summary_panel =
  sp_title :: jstr
  sp_impact :: jstr
  sp_badge :: "jstr \<times> jstr \<times> jstr option"
  sp_actions :: "jstr list"

definition RouteSummaryPanel :: "route_summary \<Rightarrow> bool \<Rightarrow> summary_panel" where
  "RouteSummaryPanel summary is_compact =
     \<lparr>sp_title = rs_label summary @ js '' '' @ [0xB7] @ js '' '' @ rs_reason summary, sp_impact = rs_impact summary,
      sp_badge = StatusBadge (health_name (rs_status summary)) None,
      sp_actions = (if \<not> is_compact then rs_actions summary else [])\<rparr>"

record sheet_header =
  hd_access :: jstr
  hd_priority :: "nat option"
  hd_label :: jstr
  hd_badge :: "jstr \<times> jstr \<times> jstr option"
  hd_plan :: jstr
  hd_expiry :: "expiry_meta option"
  hd_credential :: "credential_meta option"
  hd_subscription :: "credential_meta option"
  hd_checked :: jstr

definition sheet_header_of :: "host \<Rightarrow> account \<Rightarrow> nat option \<Rightarrow> route_summary \<Rightarrow> sheet_header" where
  "sheet_header_of h a priorityIndex summary =
     \<lparr>hd_access = getAccessLabel a, hd_priority = priorityIndex, hd_label = acc_label a,
      hd_badge = StatusBadge (health_name (rs_status summary)) None, hd_plan = sheet_plan a,
      hd_expiry = sheet_expiry h a, hd_credential = getCpaCredentialMeta a,
      hd_subscription = getCpaSubscriptionErrorMeta a, hd_checked = relativeTime h (last_checked_at a)\<rparr>"

text \<open>The quota section: the text of a quota error, if any, with its tone.\<close>

datatype sheet_quota =
    QuotaBars quota_panel "(jstr \<times> jstr) option"
  | QuotaWaiting "quota_line list" jstr jstr
  | QuotaPlain jstr

definition quota_error_text :: "quota_error_meta \<Rightarrow> jstr" where
  "quota_error_text q = qm_label q @ c_sv_colon @ qm_detail q"

definition sheet_quota_of :: "host \<Rightarrow> account \<Rightarrow> codex_quota option \<Rightarrow> sheet_quota" where
  "sheet_quota_of h a codexQuota =
     (let quotaError = getCpaQuotaErrorMeta a; quotaLabel = map_option qm_label quotaError in
      case codexQuota of
        Some q \<Rightarrow>
          QuotaBars (CodexQuotaBarsFull h q (codex_quota_fetched_at a) (cpa_plan_type a) quotaLabel)
            (map_option (\<lambda>e. (quota_error_text e,
               if qm_tone e = ToneDanger then js ''text-status-red'' else js ''text-status-yellow'')) quotaError)
      | None \<Rightarrow>
          if sheet_is_codex a then
            QuotaWaiting (CodexQuotaBarsPendingCompact (cpa_plan_type a) quotaLabel)
              (case quotaError of Some e \<Rightarrow> quota_error_text e | None \<Rightarrow> c_sv_syncing)
              (if has_tone ToneDanger quotaError then js ''text-status-red''
               else if has_tone ToneWarning quotaError then js ''text-status-yellow'' else js ''text-moon-400'')
          else QuotaPlain (parseQuotaDisplay (quota_display a)))"

record overview_panel =
  ovp_summary :: summary_panel
  ovp_connection :: bool
  ovp_meters :: "(jstr \<times> jstr \<times> meter_tone) list"
  ovp_models :: "jstr list"
  ovp_quota :: sheet_quota

definition successLabel :: "account_stats \<Rightarrow> jstr" where
  "successLabel st =
     (case st_successRate st of
        Some r \<Rightarrow> if st_requests st > 0 then formatSuccessRate r else c_sh_dash
      | None \<Rightarrow> c_sh_dash)"

definition overview_panel_of ::
    "host \<Rightarrow> account \<Rightarrow> codex_quota option \<Rightarrow> account_stats \<Rightarrow> latency_state \<Rightarrow> route_summary \<Rightarrow> overview_panel" where
  "overview_panel_of h a codexQuota st lat summary =
     \<lparr>ovp_summary = RouteSummaryPanel summary True,
      ovp_connection = (source_kind a = js ''openai_compat''),
      ovp_meters =
        [(compact (st_requests st), show_int (st_requests st) @ c_sv_times, MDefault),
         (successLabel st, c_sv_window, successTone (st_requests st) (st_successRate st)),
         (latencyLabel lat, latencyHint lat, if lat = LatError then MWarning else MDefault)],
      ovp_models = ensureArray (acc_models a),
      ovp_quota = sheet_quota_of h a codexQuota\<rparr>"

definition sheet_summary :: "host \<Rightarrow> pool_member \<Rightarrow> account \<Rightarrow> route_summary" where
  "sheet_summary h m a =
     getRouteSummary h (Some a) (member_enabled m) (Some (health_name (getAccountHealth a)))"

definition AccountDetailSheet ::
    "host \<Rightarrow> pool_member option \<Rightarrow> account_stats \<Rightarrow> nat option \<Rightarrow> latency_state \<Rightarrow>
     js_error + (sheet_header \<times> overview_panel) option" where
  "AccountDetailSheet h member st priorityIndex lat =
     (case Option.bind member member_account of
        None \<Rightarrow> Inr None
      | Some a \<Rightarrow>
          (case parseCodexQuota a of
             Inl e \<Rightarrow> Inl e
           | Inr q \<Rightarrow>
               (let summary = sheet_summary h (the member) a in
                Inr (Some (sheet_header_of h a priorityIndex summary, overview_panel_of h a q st lat summary)))))"

text \<open>The playground's answer: the line above the box, and the box.\<close>

datatype response_box = BoxError jstr "jstr option" | BoxReply json | BoxHint

definition response_line :: "playground \<Rightarrow> jstr" where
  "response_line s =
     or_str (Some (join_with (js '' '' @ [0xB7] @ js '' '')
       (filter (\<lambda>t. t \<noteq> [])
         [or_str (pg_selectedModel s) [], (case pg_durationMs s of None \<Rightarrow> [] | Some d \<Rightarrow> latency d), pg_usageText s])))
       c_sv_waiting"

definition response_box_of :: "playground \<Rightarrow> response_box" where
  "response_box_of s =
     (if truthy_str (pg_error s) then
        BoxError (or_str (pg_error s) []) (if truthy_str (pg_lastCurl s) then pg_lastCurl s else None)
      else if json_truthy (pg_reply s) then BoxReply (pg_reply s) else BoxHint)"

text \<open>A row of the diagnostic table: title, text and tone, which colours the reason only when it is red.\<close>

definition diagnostic_text :: "jstr \<Rightarrow> tone \<Rightarrow> jstr \<times> jstr" where
  "diagnostic_text v t =
     (or_str (Some v) (js ''--''),
      if t = ToneDanger then js ''text-status-red'' else if t = ToneWarning then js ''text-status-yellow''
      else js ''text-moon-700'')"

definition DiagnosticPanel :: "host \<Rightarrow> account \<Rightarrow> (jstr \<times> (jstr \<times> jstr) list) list" where
  "DiagnosticPanel h a =
     map (\<lambda>d. (dm_title d,
        [diagnostic_text (dm_status d) (dm_tone d), diagnostic_text (dm_checkedAt d) ToneDefault,
         diagnostic_text (dm_reason d) (if dm_tone d = ToneDanger then ToneDanger else ToneDefault),
         diagnostic_text (dm_action d) ToneDefault]))
       (buildDiagnosticDimensions h a (health_name (getAccountHealth a)) (sheet_is_codex a))"

section \<open>Copying with one timer\<close>

text \<open>
  The button of the sheet (1400 ms) and the icon of the page (1600 ms): a new copy replaces the timer. A
  failed copy takes the tick of the sheet's button away and leaves that of the icon.
\<close>

record one_timer_copy =
  oc_copied :: bool
  oc_expires :: "int option"

definition sheet_copy :: "int \<Rightarrow> bool \<Rightarrow> one_timer_copy \<Rightarrow> one_timer_copy" where
  "sheet_copy now ok s =
     (if ok then \<lparr>oc_copied = True, oc_expires = Some (now + 1400)\<rparr> else s\<lparr>oc_copied := False\<rparr>)"

definition inline_copy :: "int \<Rightarrow> bool \<Rightarrow> one_timer_copy \<Rightarrow> one_timer_copy" where
  "inline_copy now ok s = (if ok then \<lparr>oc_copied = True, oc_expires = Some (now + 1600)\<rparr> else s)"

definition copy_expiry :: "int \<Rightarrow> one_timer_copy \<Rightarrow> one_timer_copy" where
  "copy_expiry now s =
     (case oc_expires s of
        None \<Rightarrow> s
      | Some t \<Rightarrow> if t \<le> now then \<lparr>oc_copied = False, oc_expires = None\<rparr> else s)"

section \<open>The page\<close>

record pool_frame =
  px_title :: jstr
  px_token :: jstr
  px_dot :: jstr
  px_health :: jstr
  px_counts :: "jstr list"
  px_check :: "jstr \<times> bool"
  px_policy :: "jstr \<times> bool"
  px_setupDisabled :: bool
  px_empty :: "jstr option"
  px_deleteText :: jstr

definition pool_dot_class :: "route_health \<Rightarrow> jstr" where
  "pool_dot_class health =
     (if health = Healthy then js ''bg-status-green'' else if health = Degraded then js ''bg-status-yellow''
      else if health = Error then js ''bg-status-red'' else js ''bg-moon-400'')"

definition pool_frame_of :: "pool_page \<Rightarrow> pool_detail_response \<Rightarrow> pool_frame" where
  "pool_frame_of s d =
     (let p = detail_pool d; health = getPoolHealth p; st = detail_stats d in
      \<lparr>px_title = pool_label p, px_token = primaryTokenDisplay s,
       px_dot = pool_dot_class health, px_health = health_name health,
       px_counts =
         [show_int (account_count p) @ c_pv_accounts, show_int (routable_account_count p) @ c_pv_usable,
          c_pv_requests @ compact (total_requests st), c_pv_success @ pct (success_rate st)],
       px_check = (if pd_selfChecking s then c_pv_checking else c_pv_check,
                   pd_selfChecking s \<or> pd_enabledMembers s = []),
       px_policy = (if routing_policy p = js ''ordered'' then c_pv_ordered else c_pv_by_health, pd_routingPolicySaving s),
       px_setupDisabled = (case primaryPoolTokenId s of None \<Rightarrow> True | Some i \<Rightarrow> i = 0),
       px_empty = (if pd_members s = [] then Some (pool_label p @ c_pv_empty) else None),
       px_deleteText = c_pv_delete @
         (case Option.bind (pd_deleteTarget s) member_account of Some a \<Rightarrow> acc_label a | None \<Rightarrow> c_pv_this_account) @
         c_pv_removed\<rparr>)"

text \<open>
  The cards in the order of the drag area: the enabled members, numbered from one, then the others.
\<close>

definition card_places :: "pool_member list \<Rightarrow> (pool_member \<times> nat option) list" where
  "card_places ms =
     map (\<lambda>(i, m). (m, Some (i + 1))) (enumerate 0 (enabledMembers ms)) @
     map (\<lambda>m. (m, None)) (disabledMembers ms)"

definition stats_of_member :: "pool_page \<Rightarrow> pool_member \<Rightarrow> account_stats" where
  "stats_of_member s m = nullish (map_get (accountStatsMap s) (member_account_id m)) no_stats"

definition renderMember ::
    "host \<Rightarrow> pool_page \<Rightarrow> pool_member \<times> nat option \<Rightarrow> js_error + (pool_member \<times> account_card option)" where
  "renderMember h s place =
     map_sum id (Pair (fst place))
       (AccountCard h (fst place) (stats_of_member s (fst place)) (snd place)
          (member_account_id (fst place) \<in> set (pd_refreshingAccountIds s)))"

fun render_all :: "('e + 'a) list \<Rightarrow> 'e + 'a list" where
  "render_all [] = Inr []"
| "render_all (Inl e # xs) = Inl e"
| "render_all (Inr x # xs) = map_sum id (Cons x) (render_all xs)"

datatype pool_screen =
    ScreenSkeleton
  | ScreenError jstr
  | ScreenPool pool_frame "(pool_member \<times> account_card option) list" "(sheet_header \<times> overview_panel) option"

definition pool_screen_of :: "host \<Rightarrow> latency_state \<Rightarrow> pool_page \<Rightarrow> js_error + pool_screen" where
  "pool_screen_of h lat s =
     (case pool_view_of s of
        ShowSkeleton \<Rightarrow> Inr ScreenSkeleton
      | ShowError m \<Rightarrow> Inr (ScreenError m)
      | ShowPool d \<Rightarrow>
          (case render_all (map (renderMember h s) (card_places (pd_members s))) of
             Inl e \<Rightarrow> Inl e
           | Inr cards \<Rightarrow>
               map_sum id (ScreenPool (pool_frame_of s d) cards)
                 (AccountDetailSheet h (detailMember s) (detailMemberStats s) (detailPriorityIndex s) lat)))"

section \<open>Lemmas on the views\<close>

lemma render_all_Inr: "render_all xs = Inr ys \<longleftrightarrow> xs = map Inr ys"
proof (induction xs arbitrary: ys rule: render_all.induct)
  case (3 x xs)
  show ?case
  proof (cases "render_all xs")
    case (Inl e)
    then have "xs \<noteq> map Inr zs" for zs using 3 [of zs] by simp
    then show ?thesis using Inl by (cases ys) auto
  next
    case (Inr zs)
    then show ?thesis using 3 [of zs] by (cases ys) (auto simp: inj_map_eq_map inj_def)
  qed
qed auto

lemma render_all_isl: "isl (render_all xs) \<longleftrightarrow> list_ex isl xs"
proof (induction xs rule: render_all.induct)
  case (3 x xs)
  then show ?case by (cases "render_all xs") auto
qed auto

text \<open>A member whose stored quota is the text of \<open>null\<close>, with any space around it.\<close>

definition null_payload :: "pool_member \<Rightarrow> bool" where
  "null_payload m =
     (case member_account m of
        None \<Rightarrow> False
      | Some a \<Rightarrow>
          toLowerCase (cpa_provider a) = js ''codex'' \<and> truthy_str (codex_quota_json a) \<and>
          json_parse (or_str (codex_quota_json a) []) = Some JNull)"

lemma null_payload_throws:
  "member_account m = Some a \<Longrightarrow> null_payload m \<longleftrightarrow> parseCodexQuota a = Inl TypeError"
  by (auto simp: null_payload_def parseCodexQuota_throws_iff truthy_str_def or_str_def split: option.splits)

lemma renderMember_isl: "isl (renderMember h s place) \<longleftrightarrow> null_payload (fst place)"
proof (cases "member_account (fst place)")
  case (Some a)
  have "(\<exists>e. parseCodexQuota a = Inl e) \<longleftrightarrow> parseCodexQuota a = Inl TypeError"
    using js_error.exhaust by (metis (full_types))
  then show ?thesis
    using null_payload_throws [OF Some]
    by (cases "parseCodexQuota a") (auto simp: renderMember_def AccountCard_def Some isl_def)
qed (simp add: renderMember_def AccountCard_def null_payload_def)

lemma fst_card_places: "map fst (card_places ms) = enabledMembers ms @ disabledMembers ms"
  by (simp add: card_places_def comp_def split_def flip: map_map) (simp add: comp_def)

lemma set_card_places: "set (map fst (card_places ms)) = set ms"
  unfolding fst_card_places using zone_split [of ms] by (metis mset_eq_setD)

section \<open>One payload and the page\<close>

lemma cards_throw:
  "isl (render_all (map (renderMember h s) (card_places ms))) \<longleftrightarrow> list_ex null_payload ms"
proof -
  have "list_ex isl (map (renderMember h s) (card_places ms)) \<longleftrightarrow> (\<exists>m \<in> set (map fst (card_places ms)). null_payload m)"
    by (auto simp: list_ex_iff renderMember_isl)
  then show ?thesis by (simp only: render_all_isl set_card_places list_ex_iff)
qed

lemma detailMember_in: "detailMember s = Some m \<Longrightarrow> m \<in> set (pd_members s)"
  by (auto simp: detailMember_def find_Some_iff split: option.splits)

lemma sheet_throws:
  "isl (AccountDetailSheet h m st p lat) \<longleftrightarrow> (case m of None \<Rightarrow> False | Some x \<Rightarrow> null_payload x)"
proof (cases "Option.bind m member_account")
  case None
  then show ?thesis by (cases m) (auto simp: AccountDetailSheet_def null_payload_def)
next
  case (Some a)
  then obtain x where x: "m = Some x" "member_account x = Some a" by (cases m) auto
  show ?thesis
    using null_payload_throws [OF x(2)]
    by (cases "parseCodexQuota a") (auto simp: AccountDetailSheet_def x Let_def intro: js_error.exhaust)
qed

lemma pool_screen_throws:
  assumes "pool_view_of s = ShowPool d"
  shows "isl (pool_screen_of h lat s) \<longleftrightarrow> list_ex null_payload (pd_members s)"
proof (cases "render_all (map (renderMember h s) (card_places (pd_members s)))")
  case (Inl e)
  then show ?thesis using assms cards_throw [of h s "pd_members s"] by (simp add: pool_screen_of_def)
next
  case (Inr cards)
  then have n: "\<not> list_ex null_payload (pd_members s)" using cards_throw [of h s "pd_members s"] by simp
  then have "\<not> isl (AccountDetailSheet h (detailMember s) (detailMemberStats s) (detailPriorityIndex s) lat)"
    using detailMember_in [of s] by (auto simp: sheet_throws list_ex_iff split: option.splits)
  then show ?thesis
    using n by (cases "AccountDetailSheet h (detailMember s) (detailMemberStats s) (detailPriorityIndex s) lat")
      (simp_all add: pool_screen_of_def assms Inr)
qed

text \<open>What the pool page throws in the state \<open>s\<close>, for the boundary around it; \<open>msg\<close> is the engine's message.\<close>

definition pool_page_throws :: "host \<Rightarrow> latency_state \<Rightarrow> pool_page \<Rightarrow> jstr \<Rightarrow> page \<Rightarrow> jstr option" where
  "pool_page_throws h lat s msg pg =
     (case pg of
        PoolDetailPage _ \<Rightarrow> if isl (pool_screen_of h lat s) then Some msg else None
      | _ \<Rightarrow> None)"

text \<open>
  C29: One bad account hides its pool: when the page has its data, the boundary shows the page of the address
  exactly if no member has the payload \<open>null\<close> as its stored quota; with a single such member, enabled or
  not, all cards, the settings and the way to delete that member are replaced by the error message.
\<close>

theorem null_payload_hides_pool:
  assumes "pool_view_of s = ShowPool d" and "PageRouter (pathname (pd_router s)) = Inr (PoolDetailPage params)"
  shows "app_screen_of (app_render u (pool_page_throws h lat s msg)
      \<lparr>ap_router = pd_router s, ap_shell_error = None, ap_page_error = None\<rparr>) =
    Some (if list_ex null_payload (pd_members s) then PageError (boundary_text msg) else Showing (PoolDetailPage params))"
  using assms(2) pool_screen_throws [OF assms(1), of h lat]
  by (simp add: app_render_def app_screen_of_def pool_page_throws_def)

text \<open>Two pages on the address of pool 5, with one member that has no number: one bad, one with its sheet open.\<close>

definition member_with :: "account \<Rightarrow> pool_member" where
  "member_with a = \<lparr>member_id = 1, member_pool_id = 5, member_account_id = acc_id a, member_position = 0,
     member_enabled = True, member_account = Some a\<rparr>"

definition page_with :: "account \<Rightarrow> pool_page" where
  "page_with a = (pd_blank (router_init (js ''/admin/pools/5'')) admin_ui_init)
     \<lparr>pd_loading := False, pd_detailMemberId := Some 1,
      pd_detail := Some \<lparr>detail_pool = \<lparr>pool_id = 5, pool_label = js ''five'', pool_priority = 0, pool_enabled = True,
          routing_policy = [], account_count = 1, healthy_account_count = 0, routable_account_count = 0,
          pool_models = [], pool_created_at = [], pool_updated_at = []\<rparr>,
        detail_members = Some [member_with a], detail_tokens = [], detail_models = [],
        detail_stats = \<lparr>total_requests = 0, success_rate = 0, total_input_tokens = 0, total_output_tokens = 0,
          by_account = [], by_token = []\<rparr>\<rparr>\<rparr>"

definition bad_account :: account where
  "bad_account = blank_account\<lparr>cpa_provider := js ''codex'', codex_quota_json := Some (js '' null'')\<rparr>"

lemma page_with_facts:
  "\<exists>d. pool_view_of (page_with a) = ShowPool d" "pd_members (page_with a) = [member_with a]"
  "pd_router (page_with a) = router_init (js ''/admin/pools/5'')"
  "PageRouter (pathname (pd_router (page_with a))) = Inr (PoolDetailPage [(js ''id'', js ''5'')])"
proof -
  have "PageRouter (pathname (router_init (js ''/admin/pools/5''))) = Inr (PoolDetailPage [(js ''id'', js ''5'')])"
    by code_simp
  then show "PageRouter (pathname (pd_router (page_with a))) = Inr (PoolDetailPage [(js ''id'', js ''5'')])"
    by (simp add: page_with_def pd_blank_def)
qed (simp_all add: page_with_def pd_blank_def pool_view_of_def pd_members_def nullish_def)

lemma detailMember_page: "detailMember (page_with a) = find (\<lambda>m. member_id m = 1) (pd_members (page_with a))"
  by (simp add: detailMember_def page_with_def)

lemma bad_account_null: "null_payload (member_with bad_account)"
proof -
  have "json_parse (js '' null'') = Some JNull" by (rule json_parseI) (simp add: json_eval)
  moreover have "toLowerCase (js ''codex'') = js ''codex''" by code_simp
  ultimately show ?thesis
    by (simp add: null_payload_def member_with_def bad_account_def truthy_str_def or_str_def)
qed

theorem null_payload_hides_pool_witness:
  "app_screen_of (app_render [] (pool_page_throws sample_host LatLoading (page_with bad_account) (js ''boom''))
      \<lparr>ap_router = router_init (js ''/admin/pools/5''), ap_shell_error = None, ap_page_error = None\<rparr>) =
    Some (PageError (boundary_text (js ''boom'')))"
proof -
  obtain d where "pool_view_of (page_with bad_account) = ShowPool d" using page_with_facts(1) by blast
  from null_payload_hides_pool [OF this page_with_facts(4)] bad_account_null
  show ?thesis by (simp add: page_with_facts(2,3))
qed

section \<open>Card and sheet\<close>

text \<open>The bars of the card and those of the sheet show the same windows in the same colours.\<close>

fun quota_agrees :: "sheet_quota \<Rightarrow> card_bars \<Rightarrow> bool" where
  "quota_agrees (QuotaBars p _) (CompactBars stale [l1, l2]) \<longleftrightarrow>
     stale = qp_stale p \<and> ql_bar l1 = Some (wv_bar (qp_primary p)) \<and> wv_text (qp_primary p) = ql_text l1 @ c_qb_left \<and>
     (case qp_secondary p of
        Inr w \<Rightarrow> ql_bar l2 = Some (wv_bar w) \<and> wv_text w = ql_text l2 @ c_qb_left
      | Inl meta \<Rightarrow> ql_bar l2 = None \<and> ql_text l2 = wm_text meta \<and> ql_title l2 = Some (wm_detail meta))"
| "quota_agrees (QuotaWaiting ls _ _) (PendingBars ls') \<longleftrightarrow> ls = ls'"
| "quota_agrees (QuotaPlain _) (SignalStrip _ _) \<longleftrightarrow> True"
| "quota_agrees _ _ \<longleftrightarrow> False"

lemma quota_views_agree: "quota_agrees (sheet_quota_of h a q) (card_bars_of h a q st)"
  by (cases q) (auto simp: sheet_quota_of_def card_bars_of_def CodexQuotaBarsCompact_def CodexQuotaBarsFull_def
      CompactRow_def WindowRow_def UnavailableCompactRow_def Let_def split: option.splits)

lemma map_sum_Inr: "map_sum id f r = Inr y \<longleftrightarrow> (\<exists>x. r = Inr x \<and> y = f x)"
  by (cases r) auto

lemma shown_cards:
  assumes "pool_screen_of h lat s = Inr (ScreenPool f cards sh)"
  shows "map (renderMember h s) (card_places (pd_members s)) = map Inr cards \<and>
    AccountDetailSheet h (detailMember s) (detailMemberStats s) (detailPriorityIndex s) lat = Inr sh"
  using assms by (auto simp: pool_screen_of_def render_all_Inr map_sum_Inr split: pool_view.splits sum.splits)

lemma priority_indices:
  fixes ms :: "pool_member list"
  assumes "distinct (map member_id ms)"
  shows "map_get (foldl (\<lambda>m (i, x). map_set (member_id x) (i + 1) m) [] (enumerate 0 ms)) k =
    (case find (\<lambda>(i, x). member_id x = k) (enumerate 0 ms) of None \<Rightarrow> None | Some (i, _) \<Rightarrow> Some (i + 1))"
  using assms
proof (induction ms rule: rev_induct)
  case Nil
  then show ?case by (simp add: map_get_def)
next
  case (snoc x ms)
  have f: "find P (xs @ [y]) = (case find P xs of None \<Rightarrow> if P y then Some y else None | Some z \<Rightarrow> Some z)" for P xs and y :: "nat \<times> pool_member"
    by (induction xs) auto
  have "find (\<lambda>(i, z). member_id z = member_id x) (enumerate 0 ms) = None"
    unfolding find_None_iff using snoc.prems by (auto simp: in_set_enumerate_eq) (metis image_eqI nth_mem)
  then show ?case
    using snoc by (auto simp: enumerate_append_eq jm.get_put f map_get_def map_set_def update_conv' split: option.splits)
qed

text \<open>The number in the sheet is the number on the card.\<close>

lemma sheet_number:
  assumes "distinct (map member_id (pd_members s))" and "detailMember s = Some m"
    and "(m, n) \<in> set (card_places (pd_members s))"
  shows "detailPriorityIndex s = (if member_enabled m then n else None)"
proof -
  let ?E = "pd_enabledMembers s"
  let ?P = "\<lambda>(i :: nat, x). member_id x = member_id m"
  have d: "distinct (map member_id ?E)"
    using assms(1) by (simp add: pd_enabledMembers_def distinct_map_filter)
  have idx: "detailPriorityIndex s =
      (case find ?P (enumerate 0 ?E) of None \<Rightarrow> None | Some (i, _) \<Rightarrow> Some (i + 1))"
    using priority_indices [OF d] by (simp add: detailPriorityIndex_def assms(2) priorityIndexMap_def)
  have same: "x = m" if "x \<in> set ?E" "member_id x = member_id m" for x
    using that assms(1) detailMember_in [OF assms(2)]
    by (auto simp: pd_enabledMembers_def distinct_map inj_on_def)
  show ?thesis
  proof (cases "member_enabled m")
    case False
    have "find ?P (enumerate 0 ?E) = None"
      unfolding find_None_iff using same False
      by (auto simp: in_set_enumerate_eq) (metis nth_mem mem_Collect_eq pd_enabledMembers_def set_filter)
    then show ?thesis using False idx by simp
  next
    case True
    then obtain i where i: "i < length ?E" "?E ! i = m" "n = Some (i + 1)"
      using assms(3)
      by (auto simp: card_places_def in_set_enumerate_eq pd_enabledMembers_def enabledMembers_def disabledMembers_def)
    have "find ?P (enumerate 0 ?E) \<noteq> None"
      unfolding find_None_iff using i by (auto simp: in_set_enumerate_eq)
    then obtain j x where j: "find ?P (enumerate 0 ?E) = Some (j, x)" by auto
    then have "j < length ?E \<and> ?E ! j = x \<and> member_id x = member_id m"
      by (auto simp: find_Some_iff nth_enumerate_eq)
    moreover from this have "j = i"
      using d i(1,2) by (metis distinct_conv_nth length_map nth_map)
    ultimately show ?thesis using True i(3) idx j by simp
  qed
qed

text \<open>
  C31: The sheet agrees with the card it was opened from: on every pool page that is shown, whichever member is
  open, its card is among the cards, and card and sheet have the same name, access, route badge, priority
  number, and the same quota windows with the same bars and remainders.
\<close>

theorem sheet_agrees_with_card:
  assumes "pool_screen_of h lat s = Inr (ScreenPool f cards (Some (hdr, panel)))"
    and "distinct (map member_id (pd_members s))"
  shows "\<exists>m c. detailMember s = Some m \<and> (m, Some c) \<in> set cards \<and>
    hd_access hdr = cd_access c \<and> hd_label hdr = cd_label c \<and> hd_badge hdr = cd_badge c \<and>
    hd_priority hdr = cd_priority c \<and> quota_agrees (ovp_quota panel) (cd_bars c)"
proof -
  note sc = shown_cards [OF assms(1)]
  obtain m a q where m: "detailMember s = Some m" "member_account m = Some a" "parseCodexQuota a = Inr q"
    and hp: "hdr = sheet_header_of h a (detailPriorityIndex s) (sheet_summary h m a)"
      "panel = overview_panel_of h a q (detailMemberStats s) lat (sheet_summary h m a)"
    using sc [THEN conjunct2]
    by (auto simp: AccountDetailSheet_def Let_def bind_eq_Some_conv split: option.splits sum.splits)
  have "m \<in> set (map fst (card_places (pd_members s)))"
    using detailMember_in [OF m(1)] by (simp only: set_card_places)
  then obtain n where n: "(m, n) \<in> set (card_places (pd_members s))" by auto
  define c where "c = card_view h m a q (stats_of_member s m) n (member_account_id m \<in> set (pd_refreshingAccountIds s))"
  have "renderMember h s (m, n) = Inr (m, Some c)"
    by (simp add: renderMember_def AccountCard_def m c_def)
  moreover have "renderMember h s (m, n) \<in> set (map Inr cards)"
    unfolding sc [THEN conjunct1, symmetric] set_map using n by (rule imageI)
  ultimately have "(m, Some c) \<in> set cards" by auto
  moreover have "hd_priority hdr = cd_priority c"
    using sheet_number [OF assms(2) m(1) n] by (simp add: hp sheet_header_of_def c_def card_view_def Let_def)
  ultimately show ?thesis
    using m(1) by (auto simp: hp sheet_header_of_def overview_panel_of_def c_def card_view_def Let_def
        sheet_summary_def getRouteHealth_def quota_views_agree)
qed

theorem sheet_agrees_with_card_witness:
  "\<exists>f cards hdr panel m c.
     pool_screen_of sample_host LatLoading (page_with blank_account) = Inr (ScreenPool f cards (Some (hdr, panel))) \<and>
     (m, Some c) \<in> set cards \<and> hd_priority hdr = cd_priority c"
proof -
  let ?s = "page_with blank_account"
  have q: "parseCodexQuota blank_account = Inr None"
    by (simp add: parseCodexQuota_def blank_account_def js_def)
  have "detailMember ?s = Some (member_with blank_account)"
    by (simp add: page_with_facts(2) detailMember_page member_with_def)
  then obtain f cards hdr panel where
    "pool_screen_of sample_host LatLoading ?s = Inr (ScreenPool f cards (Some (hdr, panel)))"
    using page_with_facts(1) [of blank_account]
    by (auto simp: pool_screen_of_def page_with_facts(2) card_places_def enabledMembers_def disabledMembers_def
        member_with_def renderMember_def AccountCard_def AccountDetailSheet_def q Let_def)
  then show ?thesis
    using sheet_agrees_with_card [of sample_host LatLoading ?s f cards hdr panel] page_with_facts(2) [of blank_account]
    by fastforce
qed

text \<open>
  Old numbers do not alarm: the bars of a stale quota have no tone, however little is left, while the
  remainder is still shown.
\<close>

lemma stale_bars_neutral:
  "bar_of (quota_bar w True) True = (js ''bg-moon-200/50'', js ''bg-moon-300'', qr_remain (quota_bar w True)) \<and>
   ql_textClass (CompactRow label w True) = js ''text-moon-400''"
  by (simp add: bar_of_def CompactRow_def Let_def)

text \<open>The branch of the card that shows nothing is never taken.\<close>

lemma card_has_bars: "card_bars_of h a q st \<noteq> NoBars"
  by (auto simp: card_bars_of_def Let_def split: option.splits)

text \<open>The card and the sheet print the same success rate differently: 99.6 percent is a full hundred on the card only.\<close>

lemma card_and_sheet_rates_differ:
  "formatSuccess (996/10) = js ''100%''" "formatSuccessRate (996/1000) = js ''99.6%''"
proof -
  show "formatSuccess (996/10) = js ''100%''" by (rule failures_shown_as_hundred_percent [THEN conjunct1])
  have "\<lfloor>1993 / 2 :: rat\<rfloor> = 996" by (rule floor_unique) simp_all
  then show "formatSuccessRate (996/1000) = js ''99.6%''"
    by (simp add: formatSuccessRate_def toFixed_def toFixed_pos_def nat_digits.simps js_def Let_def padStart_def endsWith_def)
qed

text \<open>Another account starts on the first tab, and the same account keeps its tab.\<close>

lemma sheet_render_tab:
  "tb_tab (sheet_render (Some i) s) = (if tb_open s = Some i then tb_tab s else TabOverview)"
  by (simp add: sheet_render_def)

text \<open>
  With one timer the tick stays for the whole time after the last copy; the shared button, which starts a
  timer per copy, loses it to the first.
\<close>

lemma tick_lasts:
  assumes "now \<le> t" and "t < now + 1400"
  shows "oc_copied (copy_expiry t (sheet_copy now True (copy_expiry now s)))"
    and "oc_copied (copy_expiry t (inline_copy now True (copy_expiry now s)))"
  using assms by (simp_all add: copy_expiry_def sheet_copy_def inline_copy_def)

text \<open>A red row of the diagnostic table has a red reason, a yellow one a plain reason.\<close>

lemma diagnostic_reason_tone:
  "(t, rows) \<in> set (DiagnosticPanel h a) \<Longrightarrow> snd (rows ! 2) = js ''text-status-red'' \<longleftrightarrow> snd (rows ! 0) = js ''text-status-red''"
  by (auto simp: DiagnosticPanel_def diagnostic_text_def js_def split: if_splits)

text \<open>
  The tone of a card and its badge come from different fields: the badge from the gateway's view of the
  account, the tone from the last self-check of a direct account and from the account's status. For an
  account with a green badge the status is healthy or degraded, so its card is red only after a failed
  self-check.
\<close>

lemma routable_status:
  "isAccountRoutable h a \<Longrightarrow> acc_status a = js ''healthy'' \<or> acc_status a = js ''degraded''"
  by (auto simp: isAccountRoutable_def isCpaOrDirectOtherwiseRoutable_def split: if_splits)

lemma routable_health:
  assumes "isAccountRoutable h a"
  shows "getAccountHealth a = Error \<longleftrightarrow> \<not> is_cpa a \<and> last_probe_status a = Some (js ''error'')"
    and "getAccountHealth a = Degraded \<longleftrightarrow>
      (if \<not> is_cpa a \<and> last_probe_status a \<in> {Some (js ''healthy''), Some (js ''degraded''), Some (js ''error'')}
       then last_probe_status a = Some (js ''degraded'') else acc_status a = js ''degraded'')"
  using routable_status [OF assms] routable_enabled [OF assms]
  by (auto simp: getAccountHealth_def)

lemma healthy_card_tone:
  assumes "getRouteHealth h (Some a) (member_enabled m) d = Healthy"
  shows "cd_tone (card_view h m a q st p r) = card_tone True (getAccountHealth a)"
  using assms by (simp add: Healthy_iff card_view_def Let_def)

lemma card_tone_colours:
  "card_tone True s = js ''border-status-red/20 bg-red-50/55'' \<longleftrightarrow> s = Error"
  "card_tone True s = js ''border-status-yellow/20 bg-amber-50/55'' \<longleftrightarrow> s = Degraded"
  by (simp_all add: card_tone_def)

text \<open>
  The comment of \<open>getAccountHealth\<close> says that the badge on the card matches the verdict of the self-check.
  It does not: after a failed self-check the card is red and its badge still says healthy.
\<close>

theorem failed_probe_keeps_green_badge:
  "let a = blank_account\<lparr>acc_status := js ''healthy'', last_probe_status := Some (js ''error'')\<rparr>;
       d = Some (health_name (getAccountHealth a))
   in getAccountHealth a = Error \<and> getRouteHealth sample_host (Some a) True d = Healthy \<and>
      card_tone True (getAccountHealth a) = js ''border-status-red/20 bg-red-50/55''"
  by (simp add: route_eval blank_account_def card_tone_def getAccountHealth_def Let_def)

end
