(* ===== verification/Orbit.thy ===== *)
theory Orbit
  imports Overview Copy
begin

text \<open>
  \<^verbatim>\<open>web/src/pages/OverviewPage/OrbitCanvas.tsx\<close>: the accounts of the enabled pools as dots on rings around a
  moon. The geometry is over the real numbers with the sine and cosine of the library; rounding is not
  modelled. The canvas keeps the tilt of the rings, the offset of the moon, the clock of the animation,
  the dot under the mouse, a drag in progress and the animation that springs back after it. The refs the
  effects copy from the state (\<open>pausedRef\<close>, \<open>tiltRef\<close>, \<open>moonOffsetRef\<close>) are read from the state.
\<close>

section \<open>Colours and labels\<close>

fun HEALTH_COLOR :: "route_health \<Rightarrow> jstr" where
  "HEALTH_COLOR Healthy = js ''#5d9f87''"
| "HEALTH_COLOR Degraded = js ''#c09a55''"
| "HEALTH_COLOR Error = js ''#be7476''"
| "HEALTH_COLOR Disabled = js ''#98a0b7''"
| "HEALTH_COLOR Unknown = js ''#98a0b7''"

fun HEALTH_LABEL :: "route_health \<Rightarrow> jstr" where
  "HEALTH_LABEL Healthy = c_orbit_healthy"
| "HEALTH_LABEL Degraded = c_orbit_degraded"
| "HEALTH_LABEL Error = c_orbit_error"
| "HEALTH_LABEL Disabled = c_orbit_disabled"
| "HEALTH_LABEL Unknown = c_orbit_unknown"

record moon_gradient =
  mg_halo :: jstr
  mg_rim :: jstr
  mg_haloEdge :: jstr

fun MOON_TONE_GRADIENT :: "moon_tone \<Rightarrow> moon_gradient" where
  "MOON_TONE_GRADIENT Calm =
     \<lparr>mg_halo = js ''rgba(170,158,212,0.28)'', mg_rim = js ''rgba(170,158,212,0.13)'', mg_haloEdge = js ''rgba(170,158,212,0)''\<rparr>"
| "MOON_TONE_GRADIENT Warning =
     \<lparr>mg_halo = js ''rgba(192,154,85,0.30)'', mg_rim = js ''rgba(192,154,85,0.15)'', mg_haloEdge = js ''rgba(192,154,85,0)''\<rparr>"
| "MOON_TONE_GRADIENT Critical =
     \<lparr>mg_halo = js ''rgba(190,116,118,0.36)'', mg_rim = js ''rgba(190,116,118,0.18)'', mg_haloEdge = js ''rgba(190,116,118,0)''\<rparr>"

section \<open>Rings and dots\<close>

abbreviation (input) MOON_BASE_RADIUS :: real where "MOON_BASE_RADIUS \<equiv> 64"

definition moonRadius :: "real \<Rightarrow> real" where
  "moonRadius zoomScale = MOON_BASE_RADIUS * zoomScale"

definition seededOffset :: "int \<Rightarrow> real \<Rightarrow> real" where
  "seededOffset seed mx =
     (let x = sin (of_int (seed * 9301 + 49297)) * 233280 in (x - of_int \<lfloor>x\<rfloor>) * mx)"

record account_breath =
  ab_acc :: orbit_account
  ab_breathPeriod :: real
  ab_breathPhase :: real

record orbit_ring =
  or_pool :: orbit_pool
  or_radius :: real
  or_duration :: real
  or_direction :: real
  or_phase :: real
  or_accounts :: "account_breath list"

definition account_breath_of :: "orbit_pool \<Rightarrow> orbit_account \<Rightarrow> account_breath" where
  "account_breath_of pool acc =
     (let breathSeed = op_id pool * 31 + oa_id acc in
      \<lparr>ab_acc = acc, ab_breathPeriod = 2400 + seededOffset breathSeed 2600,
       ab_breathPhase = seededOffset (breathSeed + 1) (pi * 2)\<rparr>)"

definition orbit_ring_of :: "real \<Rightarrow> nat \<Rightarrow> orbit_pool \<Rightarrow> orbit_ring" where
  "orbit_ring_of zoomScale i pool =
     (let baseRadius = 160 * zoomScale; stp = 72 * zoomScale in
      \<lparr>or_pool = pool, or_radius = baseRadius + real i * stp, or_duration = 120 + real i * 48,
       or_direction = (if i mod 2 = 0 then 1 else - 1), or_phase = seededOffset (op_id pool) (pi * 2),
       or_accounts = map (account_breath_of pool) (op_accounts pool)\<rparr>)"

definition orbitPools :: "orbit_pool list \<Rightarrow> real \<Rightarrow> orbit_ring list" where
  "orbitPools pools zoomScale =
     map (\<lambda>(i, pool). orbit_ring_of zoomScale i pool) (enumerate 0 (filter op_enabled pools))"

record dot_position =
  dp_poolIdx :: nat
  dp_accountIdx :: nat
  dp_pool :: orbit_pool
  dp_account :: orbit_account
  dp_x :: real
  dp_y :: real
  dp_depth :: real
  dp_breathPhase :: real
  dp_breathPeriod :: real

definition ring_rotation :: "real \<Rightarrow> orbit_ring \<Rightarrow> real" where
  "ring_rotation frameTime ring = (frameTime / 1000 / or_duration ring) * 2 * pi * or_direction ring"

definition dot_angle :: "real \<Rightarrow> orbit_ring \<Rightarrow> nat \<Rightarrow> real" where
  "dot_angle frameTime ring i =
     (let n = max (length (or_accounts ring)) 1 in
      (real i / real n) * 2 * pi + or_phase ring + ring_rotation frameTime ring)"

definition ring_dot ::
  "real \<Rightarrow> real \<Rightarrow> real \<times> real \<Rightarrow> nat \<Rightarrow> orbit_ring \<Rightarrow> nat \<Rightarrow> account_breath \<Rightarrow> dot_position" where
  "ring_dot frameTime tilt moonOffset poolIdx ring i ab =
     (let angle = dot_angle frameTime ring i;
          x = or_radius ring * cos angle;
          y = or_radius ring * sin angle * tilt + snd moonOffset * 0.15
      in \<lparr>dp_poolIdx = poolIdx, dp_accountIdx = i, dp_pool = or_pool ring, dp_account = ab_acc ab,
          dp_x = x + fst moonOffset * 0.15, dp_y = y, dp_depth = sin angle,
          dp_breathPhase = ab_breathPhase ab, dp_breathPeriod = ab_breathPeriod ab\<rparr>)"

definition ring_dots :: "real \<Rightarrow> real \<Rightarrow> real \<times> real \<Rightarrow> nat \<times> orbit_ring \<Rightarrow> dot_position list" where
  "ring_dots frameTime tilt moonOffset r =
     map (\<lambda>(i, ab). ring_dot frameTime tilt moonOffset (fst r) (snd r) i ab) (enumerate 0 (or_accounts (snd r)))"

definition orbit_dots :: "orbit_ring list \<Rightarrow> real \<Rightarrow> real \<Rightarrow> real \<times> real \<Rightarrow> dot_position list" where
  "orbit_dots rings frameTime tilt moonOffset =
     concat (map (ring_dots frameTime tilt moonOffset) (enumerate 0 rings))"

definition backDots :: "dot_position list \<Rightarrow> dot_position list" where
  "backDots dots = filter (\<lambda>d. dp_depth d < 0) dots"

definition frontDots :: "dot_position list \<Rightarrow> dot_position list" where
  "frontDots dots = filter (\<lambda>d. dp_depth d \<ge> 0) dots"

definition hoveredDot :: "(nat \<times> nat) option \<Rightarrow> dot_position list \<Rightarrow> dot_position option" where
  "hoveredDot hover dots =
     (case hover of
        None \<Rightarrow> None
      | Some (p, a) \<Rightarrow> find (\<lambda>d. dp_poolIdx d = p \<and> dp_accountIdx d = a) dots)"

definition visibleRingOpacity :: "real \<Rightarrow> real" where
  "visibleRingOpacity zoomScale = (if zoomScale < 0.7 then 0.4 else if zoomScale > 1.5 then 0.25 else 1)"

definition back_ring_opacity :: "(nat \<times> nat) option \<Rightarrow> real \<Rightarrow> nat \<Rightarrow> real" where
  "back_ring_opacity hover zoomScale i =
     (if map_option fst hover = Some i then 0.78 else 0.55) * visibleRingOpacity zoomScale"

definition front_ring_opacity :: "(nat \<times> nat) option \<Rightarrow> real \<Rightarrow> nat \<Rightarrow> real" where
  "front_ring_opacity hover zoomScale i =
     (if map_option fst hover = Some i then 1 else 0.82) * visibleRingOpacity zoomScale"

section \<open>One dot and its label\<close>

record dot_style =
  ds_color :: jstr
  ds_opacity :: real
  ds_r :: real
  ds_haloR :: real
  ds_haloOpacity :: real

definition AccountDot :: "dot_position \<Rightarrow> real \<Rightarrow> bool \<Rightarrow> dot_style" where
  "AccountDot dot frameTime highlighted =
     (let d = (dp_depth dot + 1) / 2;
          scale = 0.66 + 0.42 * d;
          t = frameTime / dp_breathPeriod dot;
          breath = 0.5 + 0.5 * sin (t * pi * 2 + dp_breathPhase dot);
          breathOpacity = 0.68 + 0.32 * breath;
          depthOpacity = 0.44 + 0.56 * d;
          baseOpacity = depthOpacity * breathOpacity;
          r = 4.4 * scale
      in \<lparr>ds_color = HEALTH_COLOR (oa_health (dp_account dot)),
          ds_opacity = (if highlighted then 1 else baseOpacity), ds_r = r,
          ds_haloR = r * (if highlighted then 3.4 else 2.2 + breath * 0.6),
          ds_haloOpacity = (if highlighted then 0.42 else 0.2 + breath * 0.14)\<rparr>)"

record hover_label =
  hl_lx :: real
  hl_ly :: real
  hl_anchor :: jstr
  hl_pool :: jstr
  hl_account :: jstr
  hl_status :: jstr

definition HoverFloatLabel :: "dot_position \<Rightarrow> hover_label" where
  "HoverFloatLabel dot =
     (let side = (if dp_x dot \<ge> 0 then 1 else - 1);
          rawLx = dp_x dot + side * 28;
          rawLy = dp_y dot - 8
      in \<lparr>hl_lx = max (- 470) (min 470 rawLx), hl_ly = max (- 360) (min 360 rawLy),
          hl_anchor = (if side = 1 then js ''start'' else js ''end''),
          hl_pool = op_label (dp_pool dot), hl_account = oa_label (dp_account dot),
          hl_status = HEALTH_LABEL (oa_health (dp_account dot))\<rparr>)"

section \<open>The canvas as a state machine\<close>

record drag_start =
  dg_startX :: real
  dg_startY :: real
  dg_startTilt :: real
  dg_startOffset :: "real \<times> real"

record springback =
  sp_start :: real
  sp_tiltStart :: real
  sp_offsetStart :: "real \<times> real"

record canvas =
  cv_frameTime :: real
  cv_lastTick :: "real option"
  cv_hover :: "(nat \<times> nat) option"
  cv_tilt :: real
  cv_moonOffset :: "real \<times> real"
  cv_drag :: "drag_start option"
  cv_isDragging :: bool
  cv_spring :: "springback option"

definition canvas_init :: canvas where
  "canvas_init =
     \<lparr>cv_frameTime = 0, cv_lastTick = None, cv_hover = None, cv_tilt = 0.42, cv_moonOffset = (0, 0),
      cv_drag = None, cv_isDragging = False, cv_spring = None\<rparr>"

definition cv_paused :: "canvas \<Rightarrow> bool" where
  "cv_paused s \<longleftrightarrow> cv_hover s \<noteq> None \<or> cv_isDragging s"

text \<open>The loop of the animation; \<open>elapsedRef\<close> and the frame time hold the same value.\<close>

definition canvas_loop :: "real \<Rightarrow> canvas \<Rightarrow> canvas" where
  "canvas_loop now s =
     (let dt = now - nullish (cv_lastTick s) now;
          s1 = s\<lparr>cv_lastTick := Some now\<rparr>
      in if cv_paused s then s1 else s1\<lparr>cv_frameTime := cv_frameTime s + dt\<rparr>)"

text \<open>\<open>hit\<close>: the pointer is over a dot or the moon.\<close>

definition handlePointerDown :: "bool \<Rightarrow> real \<Rightarrow> real \<Rightarrow> canvas \<Rightarrow> canvas" where
  "handlePointerDown hit x y s =
     (if hit then s
      else s\<lparr>cv_spring := None,
             cv_drag := Some \<lparr>dg_startX = x, dg_startY = y, dg_startTilt = cv_tilt s, dg_startOffset = cv_moonOffset s\<rparr>,
             cv_isDragging := True\<rparr>)"

definition handlePointerMove :: "real \<Rightarrow> real \<Rightarrow> canvas \<Rightarrow> canvas" where
  "handlePointerMove x y s =
     (case cv_drag s of
        None \<Rightarrow> s
      | Some d \<Rightarrow>
          (let dx = x - dg_startX d; dy = y - dg_startY d in
           s\<lparr>cv_tilt := max 0.12 (min 0.72 (dg_startTilt d + dy * 0.0018)),
             cv_moonOffset := (max (- 120) (min 120 (fst (dg_startOffset d) + dx * 0.6)),
                               max (- 80) (min 80 (snd (dg_startOffset d) + dy * 0.4)))\<rparr>))"

definition handlePointerUp :: "real \<Rightarrow> canvas \<Rightarrow> canvas" where
  "handlePointerUp now s =
     (case cv_drag s of
        None \<Rightarrow> s
      | Some _ \<Rightarrow>
          s\<lparr>cv_drag := None, cv_isDragging := False,
            cv_spring := Some \<lparr>sp_start = now, sp_tiltStart = cv_tilt s, sp_offsetStart = cv_moonOffset s\<rparr>\<rparr>)"

definition spring_eased :: "real \<Rightarrow> real \<Rightarrow> real" where
  "spring_eased start now = (let t = min 1 ((now - start) / 420) in 1 - (1 - t) ^ 3)"

text \<open>One frame of the animation after a drag; it asks for another one while \<open>t < 1\<close>.\<close>

definition spring_step :: "real \<Rightarrow> canvas \<Rightarrow> canvas" where
  "spring_step now s =
     (case cv_spring s of
        None \<Rightarrow> s
      | Some sp \<Rightarrow>
          (let t = min 1 ((now - sp_start sp) / 420); eased = spring_eased (sp_start sp) now in
           s\<lparr>cv_tilt := sp_tiltStart sp + (0.42 - sp_tiltStart sp) * eased,
             cv_moonOffset := (fst (sp_offsetStart sp) * (1 - eased), snd (sp_offsetStart sp) * (1 - eased)),
             cv_spring := (if t < 1 then Some sp else None)\<rparr>))"

datatype canvas_event =
    LoopFrame real
  | SpringFrame real
  | PointerDown bool real real
  | PointerMove real real
  | PointerUp real
  | HoverDot nat nat
  | LeaveDot

fun canvas_step :: "canvas \<Rightarrow> canvas_event \<Rightarrow> canvas" where
  "canvas_step s (LoopFrame now) = canvas_loop now s"
| "canvas_step s (SpringFrame now) = spring_step now s"
| "canvas_step s (PointerDown hit x y) = handlePointerDown hit x y s"
| "canvas_step s (PointerMove x y) = handlePointerMove x y s"
| "canvas_step s (PointerUp now) = handlePointerUp now s"
| "canvas_step s (HoverDot p a) = s\<lparr>cv_hover := Some (p, a)\<rparr>"
| "canvas_step s LeaveDot = s\<lparr>cv_hover := None\<rparr>"

text \<open>The keys that act on the moon like a click.\<close>

definition moon_key :: "jstr \<Rightarrow> bool" where
  "moon_key key \<longleftrightarrow> key = js ''Enter'' \<or> key = js '' ''"

section \<open>Lemmas on the geometry\<close>

lemma seededOffset_range: "0 < mx \<Longrightarrow> 0 \<le> seededOffset seed mx \<and> seededOffset seed mx < mx"
proof -
  assume m: "0 < mx"
  let ?x = "sin (real_of_int (seed * 9301 + 49297)) * 233280"
  have "0 \<le> ?x - of_int \<lfloor>?x\<rfloor>" "?x - of_int \<lfloor>?x\<rfloor> < 1" by linarith+
  then have "0 \<le> (?x - of_int \<lfloor>?x\<rfloor>) * mx" "(?x - of_int \<lfloor>?x\<rfloor>) * mx < 1 * mx"
    using m by (simp_all only: mult_nonneg_nonneg less_imp_le mult_strict_right_mono)
  then show ?thesis by (simp add: seededOffset_def Let_def)
qed

lemma orbitPools_nth:
  "i < length (filter op_enabled pools) \<Longrightarrow>
   orbitPools pools z ! i = orbit_ring_of z i (filter op_enabled pools ! i)"
  by (simp add: orbitPools_def nth_enumerate_eq)

lemma length_orbitPools [simp]: "length (orbitPools pools z) = length (filter op_enabled pools)"
  by (simp add: orbitPools_def)

text \<open>The rings are clear of the moon, each one outside the one before.\<close>

lemma orbit_radius:
  assumes "0 < z" and "i < length (orbitPools pools z)"
  shows "or_radius (orbitPools pools z ! i) = (160 + 72 * real i) * z"
    and "2 * moonRadius z < or_radius (orbitPools pools z ! i)"
proof -
  show r: "or_radius (orbitPools pools z ! i) = (160 + 72 * real i) * z"
    using assms(2) by (simp add: orbitPools_nth orbit_ring_of_def Let_def algebra_simps)
  have "2 * moonRadius z = 128 * z" by (simp add: moonRadius_def)
  also have "\<dots> < (160 + 72 * real i) * z" using assms(1) by (intro mult_strict_right_mono) auto
  finally show "2 * moonRadius z < or_radius (orbitPools pools z ! i)" by (simp add: r)
qed

text \<open>The dots of the rings by their two numbers.\<close>

lemma set_orbit_dots:
  "set (orbit_dots rings ft tilt mo) =
     {ring_dot ft tilt mo p (rings ! p) a (or_accounts (rings ! p) ! a) | p a.
        p < length rings \<and> a < length (or_accounts (rings ! p))}"
proof -
  have r: "set (ring_dots ft tilt mo r) =
      {ring_dot ft tilt mo (fst r) (snd r) a (or_accounts (snd r) ! a) | a. a < length (or_accounts (snd r))}" for r
  proof -
    have "ring_dots ft tilt mo r =
        map (\<lambda>a. ring_dot ft tilt mo (fst r) (snd r) a (or_accounts (snd r) ! a)) [0..<length (or_accounts (snd r))]"
      by (rule nth_equalityI) (simp_all add: ring_dots_def nth_enumerate_eq)
    then show ?thesis by auto
  qed
  have "set (enumerate 0 rings) = {(p, rings ! p) | p. p < length rings}"
    by (auto simp: in_set_enumerate_eq)
  then show ?thesis by (auto simp: orbit_dots_def r)
qed

lemma ring_dot_index [simp]:
  "dp_poolIdx (ring_dot ft tilt mo p r a ab) = p" "dp_accountIdx (ring_dot ft tilt mo p r a ab) = a"
  "dp_depth (ring_dot ft tilt mo p r a ab) = sin (dot_angle ft r a)"
  "dp_x (ring_dot ft tilt mo p r a ab) = or_radius r * cos (dot_angle ft r a) + fst mo * 0.15"
  "dp_y (ring_dot ft tilt mo p r a ab) = or_radius r * sin (dot_angle ft r a) * tilt + snd mo * 0.15"
  by (simp_all add: ring_dot_def Let_def)

definition dot_key :: "dot_position \<Rightarrow> nat \<times> nat" where
  "dot_key d = (dp_poolIdx d, dp_accountIdx d)"

lemma map_ring_dot_key:
  "map dot_key (ring_dots ft tilt mo r) = map (Pair (fst r)) [0..<length (or_accounts (snd r))]"
  by (rule nth_equalityI) (simp_all add: ring_dots_def dot_key_def nth_enumerate_eq)

lemma distinct_dot_keys: "distinct (map dot_key (orbit_dots rings ft tilt mo))"
proof -
  have "map dot_key (orbit_dots rings ft tilt mo) =
      concat (map (\<lambda>r. map (Pair (fst r)) [0..<length (or_accounts (snd r))]) (enumerate 0 rings))"
    by (simp add: orbit_dots_def map_concat comp_def map_ring_dot_key)
  moreover have "distinct (concat (map (\<lambda>r. map (Pair (fst r)) [0..<length (or_accounts (snd r))]) (enumerate n rings)))" for n
  proof (induction rings arbitrary: n)
    case (Cons r rings)
    then show ?case
      by (auto simp: distinct_map inj_on_def in_set_enumerate_eq)
  qed simp
  ultimately show ?thesis by simp
qed

text \<open>A ring keeps its accounts apart: dots at equal angles have the same number.\<close>

lemma dot_angle_inj:
  assumes "a < length (or_accounts r)" and "b < length (or_accounts r)"
    and "cos (dot_angle ft r a) = cos (dot_angle ft r b)" and "sin (dot_angle ft r a) = sin (dot_angle ft r b)"
  shows "a = b"
proof -
  let ?n = "real (length (or_accounts r))"
  have n: "max (length (or_accounts r)) 1 = length (or_accounts r)" "0 < ?n" using assms(1) by auto
  obtain k :: int where "dot_angle ft r a = dot_angle ft r b + 2 * pi * of_int k"
    using assms(3,4) by (metis sin_cos_eq_iff)
  then have "real a / ?n * 2 * pi = real b / ?n * 2 * pi + 2 * pi * of_int k"
    unfolding dot_angle_def Let_def n(1) by simp
  then have "2 * pi * (real a / ?n) = 2 * pi * (real b / ?n + of_int k)" by (simp add: algebra_simps)
  then have "real a / ?n = real b / ?n + of_int k" by (subst (asm) mult_cancel_left) simp
  then have e: "real a - real b = of_int k * ?n" using n(2) by (simp add: field_simps)
  then have "real_of_int (int a - int b) = of_int (k * int (length (or_accounts r)))" by simp
  then have i: "int a - int b = k * int (length (or_accounts r))" by (simp only: of_int_eq_iff)
  moreover have "\<bar>int a - int b\<bar> < int (length (or_accounts r))" using assms(1,2) by auto
  ultimately have "\<bar>k\<bar> * int (length (or_accounts r)) < 1 * int (length (or_accounts r))"
    by (simp add: abs_mult)
  then have "\<bar>k\<bar> < 1" by (rule mult_right_less_imp_less) simp
  then show ?thesis using i by simp
qed

lemma ellipse_radius:
  assumes "0 < (r::real)" "0 < r'" "0 < (t::real)"
    and "r * cos a = r' * cos b" "r * sin a * t = r' * sin b * t"
  shows "r = r' \<and> cos a = cos b \<and> sin a = sin b"
proof -
  have s: "r * sin a = r' * sin b" using assms(3,5) by simp
  have "r\<^sup>2 = (r * cos a)\<^sup>2 + (r * sin a)\<^sup>2"
    by (simp add: power_mult_distrib flip: distrib_left)
  also have "\<dots> = (r' * cos b)\<^sup>2 + (r' * sin b)\<^sup>2" by (simp add: assms(4) s)
  also have "\<dots> = r'\<^sup>2"
    by (simp add: power_mult_distrib flip: distrib_left)
  finally have "r = r'" using assms(1,2) by simp
  then show ?thesis using assms(1,4) s by simp
qed

definition dot_point :: "dot_position \<Rightarrow> real \<times> real" where
  "dot_point d = (dp_x d, dp_y d)"

lemma dot_point_inj:
  assumes "0 < z" and "0 < tilt"
  shows "inj_on dot_point (set (orbit_dots (orbitPools pools z) ft tilt mo))"
proof (rule inj_onI)
  let ?R = "orbitPools pools z"
  fix d d'
  assume "d \<in> set (orbit_dots ?R ft tilt mo)" "d' \<in> set (orbit_dots ?R ft tilt mo)"
    and eq: "dot_point d = dot_point d'"
  then obtain p a p' a' where
    d: "d = ring_dot ft tilt mo p (?R ! p) a (or_accounts (?R ! p) ! a)" and
    d': "d' = ring_dot ft tilt mo p' (?R ! p') a' (or_accounts (?R ! p') ! a')" and
    l: "p < length ?R" "a < length (or_accounts (?R ! p))" "p' < length ?R" "a' < length (or_accounts (?R ! p'))"
    by (auto simp: set_orbit_dots)
  note r = orbit_radius [OF assms(1) l(1)] orbit_radius [OF assms(1) l(3)]
  have pos: "0 < or_radius (?R ! p)" "0 < or_radius (?R ! p')"
    using assms(1) by (simp_all add: r)
  from ellipse_radius [OF pos assms(2), of "dot_angle ft (?R ! p) a" "dot_angle ft (?R ! p') a'"] eq
  have e: "or_radius (?R ! p) = or_radius (?R ! p')"
    "cos (dot_angle ft (?R ! p) a) = cos (dot_angle ft (?R ! p') a')"
    "sin (dot_angle ft (?R ! p) a) = sin (dot_angle ft (?R ! p') a')"
    by (simp_all add: dot_point_def d d')
  then have "p = p'" using assms(1) by (simp add: r)
  moreover from this have "a = a'" using dot_angle_inj [of a "?R ! p" a' ft] e(2,3) l(2,4) by simp
  ultimately show "d = d'" by (simp add: d d')
qed

lemma length_orbit_dots:
  "length (orbit_dots (orbitPools pools z) ft tilt mo) = (\<Sum>p \<leftarrow> filter op_enabled pools. length (op_accounts p))"
proof -
  have "length (orbit_dots rings ft tilt mo) = (\<Sum>r \<leftarrow> rings. length (or_accounts r))" for rings
  proof -
    have "length (orbit_dots rings ft tilt mo) = sum_list (map (\<lambda>r. length (or_accounts r)) (map snd (enumerate 0 rings)))"
      by (simp add: orbit_dots_def length_concat ring_dots_def comp_def del: map_snd_enumerate)
    then show ?thesis by simp
  qed
  moreover have "map (\<lambda>r. length (or_accounts r)) (orbitPools pools z) = map (\<lambda>p. length (op_accounts p)) (filter op_enabled pools)"
    by (rule nth_equalityI) (simp_all add: orbitPools_nth orbit_ring_of_def Let_def)
  ultimately show ?thesis by simp
qed

lemma back_front_partition:
  "mset (backDots dots) + mset (frontDots dots) = mset dots"
proof -
  have "frontDots dots = filter (\<lambda>d. \<not> dp_depth d < 0) dots"
    by (simp add: frontDots_def not_less)
  then show ?thesis by (simp add: backDots_def)
qed

text \<open>The label shown is that of the dot the mouse entered.\<close>

lemma hovered_is_entered:
  assumes "d \<in> set (orbit_dots rings ft tilt mo)"
  shows "hoveredDot (Some (dp_poolIdx d, dp_accountIdx d)) (orbit_dots rings ft tilt mo) = Some d"
proof -
  let ?ds = "orbit_dots rings ft tilt mo"
  obtain i where i: "i < length ?ds" "d = ?ds ! i" using assms by (metis in_set_conv_nth)
  have "dot_key (?ds ! j) \<noteq> dot_key d" if "j < i" for j
  proof -
    have "map dot_key ?ds ! j \<noteq> map dot_key ?ds ! i"
      using that i(1) distinct_dot_keys [of rings ft tilt mo] by (subst nth_eq_iff_index_eq) auto
    then show ?thesis using that i by simp
  qed
  then show ?thesis
    using i by (auto simp: hoveredDot_def find_Some_iff dot_key_def intro!: exI [of _ i])
qed

section \<open>Lemmas on one dot\<close>

lemma dot_depth_range: "d \<in> set (orbit_dots rings ft tilt mo) \<Longrightarrow> - 1 \<le> dp_depth d \<and> dp_depth d \<le> 1"
  by (auto simp: set_orbit_dots)

text \<open>
  The style of a dot stays in its range: it is never invisible and never more than opaque, and a dot at
  the back is smaller than one in front.
\<close>

lemma AccountDot_ranges:
  assumes "- 1 \<le> dp_depth d" and "dp_depth d \<le> 1"
  shows "0.29 \<le> ds_opacity (AccountDot d ft hl) \<and> ds_opacity (AccountDot d ft hl) \<le> 1"
    and "2.9 \<le> ds_r (AccountDot d ft hl) \<and> ds_r (AccountDot d ft hl) \<le> 4.76"
    and "0.2 \<le> ds_haloOpacity (AccountDot d ft hl) \<and> ds_haloOpacity (AccountDot d ft hl) \<le> 0.42"
proof -
  define b where "b = sin (ft / dp_breathPeriod d * pi * 2 + dp_breathPhase d)"
  have b: "- 1 \<le> b" "b \<le> 1" by (simp_all add: b_def)
  let ?k = "(dp_depth d + 1) / 2"
  define u where "u = 0.44 + 0.56 * ?k"
  define v where "v = 0.68 + 0.32 * (0.5 + 0.5 * b)"
  have uv: "0.44 \<le> u" "u \<le> 1" "0.68 \<le> v" "v \<le> 1"
    using assms b by (simp_all add: u_def v_def field_simps)
  have "0.44 * 0.68 \<le> u * v" "u * v \<le> 1 * 1"
    using uv by (intro mult_mono; simp)+
  then show "0.29 \<le> ds_opacity (AccountDot d ft hl) \<and> ds_opacity (AccountDot d ft hl) \<le> 1"
    by (simp add: AccountDot_def Let_def b_def u_def v_def)
  show "2.9 \<le> ds_r (AccountDot d ft hl) \<and> ds_r (AccountDot d ft hl) \<le> 4.76"
    using assms by (simp add: AccountDot_def Let_def field_simps)
  show "0.2 \<le> ds_haloOpacity (AccountDot d ft hl) \<and> ds_haloOpacity (AccountDot d ft hl) \<le> 0.42"
  proof -
    have "ds_haloOpacity (AccountDot d ft hl) = (if hl then 0.42 else 0.2 + (0.5 + 0.5 * b) * 0.14)"
      by (simp add: AccountDot_def Let_def b_def)
    then show ?thesis using b by (simp add: field_simps)
  qed
qed

lemma hover_label_in_view:
  "\<bar>hl_lx (HoverFloatLabel d)\<bar> \<le> 470 \<and> \<bar>hl_ly (HoverFloatLabel d)\<bar> \<le> 360"
  by (auto simp: HoverFloatLabel_def Let_def abs_le_iff max_def min_def)

section \<open>Reachable states of the canvas\<close>

text \<open>
  A frame of the springback is timely if its time stamp is not before the moment the pointer went up. The
  browser may stamp the first frame earlier, so the ranges below are stated for timely histories.
\<close>

fun frame_timely :: "canvas \<Rightarrow> canvas_event \<Rightarrow> bool" where
  "frame_timely s (SpringFrame now) = (case cv_spring s of None \<Rightarrow> True | Some sp \<Rightarrow> sp_start sp \<le> now)"
| "frame_timely s _ = True"

fun timely :: "canvas \<Rightarrow> canvas_event list \<Rightarrow> bool" where
  "timely s [] = True"
| "timely s (e # es) = (frame_timely s e \<and> timely (canvas_step s e) es)"

inductive canvas_runs :: "canvas \<Rightarrow> bool" where
  start: "canvas_runs canvas_init"
| step: "canvas_runs s \<Longrightarrow> frame_timely s e \<Longrightarrow> canvas_runs (canvas_step s e)"

definition tilt_ok :: "real \<Rightarrow> bool" where
  "tilt_ok t \<longleftrightarrow> 0.12 \<le> t \<and> t \<le> 0.72"

definition offset_ok :: "real \<times> real \<Rightarrow> bool" where
  "offset_ok p \<longleftrightarrow> \<bar>fst p\<bar> \<le> 120 \<and> \<bar>snd p\<bar> \<le> 80"

definition canvas_inv :: "canvas \<Rightarrow> bool" where
  "canvas_inv s \<longleftrightarrow>
     tilt_ok (cv_tilt s) \<and> offset_ok (cv_moonOffset s) \<and>
     cv_isDragging s = (cv_drag s \<noteq> None) \<and> (cv_drag s = None \<or> cv_spring s = None) \<and>
     (case cv_spring s of
        None \<Rightarrow> cv_drag s \<noteq> None \<or> (cv_tilt s = 0.42 \<and> cv_moonOffset s = (0, 0))
      | Some sp \<Rightarrow> tilt_ok (sp_tiltStart sp) \<and> offset_ok (sp_offsetStart sp))"

lemma spring_eased_range: "start \<le> now \<Longrightarrow> 0 \<le> spring_eased start now \<and> spring_eased start now \<le> 1"
proof -
  assume "start \<le> now"
  then have "0 \<le> 1 - min 1 ((now - start) / 420)" "1 - min 1 ((now - start) / 420) \<le> 1" by auto
  then show ?thesis by (simp add: spring_eased_def Let_def power_le_one)
qed

lemma tilt_ok_clamp: "tilt_ok (max 0.12 (min 0.72 x))"
  unfolding tilt_ok_def by (simp add: max_def min_def)

lemma offset_ok_clamp: "offset_ok (max (- 120) (min 120 x), max (- 80) (min 80 y))"
  unfolding offset_ok_def by (auto simp: max_def min_def)

lemma tilt_ok_between: "tilt_ok a \<Longrightarrow> 0 \<le> k \<Longrightarrow> k \<le> 1 \<Longrightarrow> tilt_ok (a + (0.42 - a) * k)"
proof -
  assume a: "tilt_ok a" and k: "0 \<le> k" "k \<le> 1"
  define m where "m = a * (1 - k)"
  have m: "0.12 * (1 - k) \<le> m" "m \<le> 0.72 * (1 - k)"
    unfolding m_def using a k by (intro mult_right_mono; simp add: tilt_ok_def)+
  have "a + (0.42 - a) * k = m + 0.42 * k" by (simp add: m_def algebra_simps)
  moreover have "0.12 \<le> m + 0.42 * k" using m k by (simp add: field_simps)
  moreover have "m + 0.42 * k \<le> 0.72" using m k by (simp add: field_simps)
  ultimately show ?thesis by (simp only: tilt_ok_def)
qed

lemma offset_ok_scaled: "offset_ok p \<Longrightarrow> 0 \<le> k \<Longrightarrow> k \<le> 1 \<Longrightarrow> offset_ok (fst p * (1 - k), snd p * (1 - k))"
proof -
  assume p: "offset_ok p" and k: "0 \<le> k" "k \<le> 1"
  have "\<bar>x * (1 - k)\<bar> \<le> \<bar>x\<bar>" for x :: real
    using k mult_left_mono [of "1 - k" 1 "\<bar>x\<bar>"] by (simp add: abs_mult)
  from this [of "fst p"] this [of "snd p"] p show ?thesis by (simp add: offset_ok_def)
qed

lemma canvas_inv_dragging:
  "canvas_inv s \<Longrightarrow> cv_drag s = Some d \<Longrightarrow> tilt_ok t \<Longrightarrow> offset_ok p \<Longrightarrow>
   canvas_inv (s\<lparr>cv_tilt := t, cv_moonOffset := p\<rparr>)"
  by (auto simp: canvas_inv_def split: option.splits)

lemma canvas_inv_move: "canvas_inv s \<Longrightarrow> canvas_inv (handlePointerMove x y s)"
proof (cases "cv_drag s")
  case (Some d)
  assume "canvas_inv s"
  then show ?thesis
    unfolding handlePointerMove_def Let_def Some option.case
    by (rule canvas_inv_dragging [OF _ Some tilt_ok_clamp offset_ok_clamp])
qed (simp add: handlePointerMove_def)

lemma canvas_inv_spring:
  assumes "canvas_inv s" and "frame_timely s (SpringFrame now)"
  shows "canvas_inv (spring_step now s)"
proof (cases "cv_spring s")
  case None
  then show ?thesis using assms(1) by (simp add: spring_step_def)
next
  case (Some sp)
  then have sp: "cv_spring s = Some sp" "sp_start sp \<le> now"
    using assms(2) by simp_all
  have i: "tilt_ok (sp_tiltStart sp)" "offset_ok (sp_offsetStart sp)" "cv_drag s = None" "\<not> cv_isDragging s"
    using assms(1) sp(1) by (auto simp: canvas_inv_def)
  note e = spring_eased_range [OF sp(2)]
  note ok = tilt_ok_between [OF i(1), of "spring_eased (sp_start sp) now"]
    offset_ok_scaled [OF i(2), of "spring_eased (sp_start sp) now"]
  have home: "spring_eased (sp_start sp) now = 1" if "\<not> min 1 ((now - sp_start sp) / 420) < 1"
    using that by (simp add: spring_eased_def Let_def not_less)
  show ?thesis
    using e ok i home by (auto simp: canvas_inv_def spring_step_def sp(1) Let_def)
qed

lemma canvas_inv_step:
  assumes "canvas_inv s" and "frame_timely s e"
  shows "canvas_inv (canvas_step s e)"
proof (cases e)
  case (PointerMove x y)
  then show ?thesis using assms(1) by (simp add: canvas_inv_move)
next
  case (SpringFrame now)
  then show ?thesis using assms canvas_inv_spring by simp
qed (use assms in \<open>auto simp: canvas_inv_def canvas_loop_def handlePointerDown_def handlePointerUp_def Let_def
      split: option.splits\<close>)

lemma canvas_runs_inv: "canvas_runs s \<Longrightarrow> canvas_inv s"
  by (induction rule: canvas_runs.induct)
     (simp_all add: canvas_inv_step, simp add: canvas_inv_def canvas_init_def tilt_ok_def offset_ok_def)

lemma timely_runs: "canvas_runs s \<Longrightarrow> timely s es \<Longrightarrow> canvas_runs (foldl canvas_step s es)"
  by (induction es arbitrary: s) (auto intro: canvas_runs.step)

text \<open>Without any assumption on the time stamps: a drag excludes a springback, and without both the picture is at rest.\<close>

definition rests :: "canvas \<Rightarrow> bool" where
  "rests s \<longleftrightarrow>
     cv_isDragging s = (cv_drag s \<noteq> None) \<and> (cv_drag s = None \<or> cv_spring s = None) \<and>
     (cv_drag s = None \<and> cv_spring s = None \<longrightarrow>
        cv_tilt s = cv_tilt canvas_init \<and> cv_moonOffset s = cv_moonOffset canvas_init)"

lemma spring_at_home: "\<not> min 1 ((now - start) / 420) < 1 \<Longrightarrow> spring_eased start now = 1"
  by (simp add: spring_eased_def Let_def not_less)

lemma rests_step: "rests s \<Longrightarrow> rests (canvas_step s e)"
proof (cases e)
  case (SpringFrame now)
  assume "rests s"
  then show ?thesis
    by (cases "cv_spring s")
       (auto simp: SpringFrame rests_def spring_step_def Let_def canvas_init_def spring_at_home)
qed (auto simp: rests_def canvas_loop_def handlePointerDown_def handlePointerMove_def handlePointerUp_def Let_def
      canvas_init_def split: option.splits)

lemma rests_run: "rests (foldl canvas_step canvas_init es)"
  by (induction es rule: rev_induct) (simp_all add: rests_step, simp add: rests_def canvas_init_def)

text \<open>
  C34: Every account of an enabled pool has a place of its own. After any history of drags, hovers, ticks and
  frames the canvas draws exactly one dot per account of the enabled pools, no two with the same key. If the
  zoom is positive and no frame of a springback in the history was stamped before its release, no two
  dots lie at the same point.
\<close>

theorem every_account_has_its_place:
  fixes es :: "canvas_event list" and pools :: "orbit_pool list" and zoomScale :: real
  defines "s \<equiv> foldl canvas_step canvas_init es"
  defines "dots \<equiv> orbit_dots (orbitPools pools zoomScale) (cv_frameTime s) (cv_tilt s) (cv_moonOffset s)"
  shows "length dots = (\<Sum>p \<leftarrow> filter op_enabled pools. length (op_accounts p)) \<and>
    distinct (map dot_key dots) \<and>
    (0 < zoomScale \<and> timely canvas_init es \<longrightarrow> distinct (map dot_point dots))"
proof -
  have "0 < cv_tilt s" if "timely canvas_init es"
    using canvas_runs_inv [OF timely_runs [OF canvas_runs.start that]] by (simp add: s_def canvas_inv_def tilt_ok_def)
  moreover have "distinct dots"
    using distinct_dot_keys by (metis distinct_map dots_def)
  ultimately show ?thesis
    using dot_point_inj distinct_dot_keys by (auto simp: distinct_map length_orbit_dots dots_def)
qed

theorem every_account_has_its_place_witness:
  "distinct (map dot_point (orbit_dots (orbitPools [\<lparr>op_id = 1, op_label = [], op_enabled = True, op_health = Healthy,
      op_accounts = [\<lparr>oa_id = 1, oa_label = [], oa_health = Healthy\<rparr>, \<lparr>oa_id = 2, oa_label = [], oa_health = Error\<rparr>]\<rparr>] 1)
      (cv_frameTime canvas_init) (cv_tilt canvas_init) (cv_moonOffset canvas_init)))"
  using every_account_has_its_place [of _ 1 "[]"] by simp

text \<open>
  C27: The picture is at rest unless the user holds it. After any history, once no drag and no springback is
  running, tilt and moon are exactly where they were at the start. If no frame of a springback in the history
  was stamped before its release, the tilt always stays between 0.12 and 0.72 and the moon within 120 by
  80 units.
\<close>

theorem canvas_stays_in_range:
  fixes es :: "canvas_event list"
  defines "s \<equiv> foldl canvas_step canvas_init es"
  shows "(cv_isDragging s \<or> cv_spring s \<noteq> None \<or>
      cv_tilt s = cv_tilt canvas_init \<and> cv_moonOffset s = cv_moonOffset canvas_init) \<and>
    (timely canvas_init es \<longrightarrow> tilt_ok (cv_tilt s) \<and> offset_ok (cv_moonOffset s))"
proof -
  have "timely canvas_init es \<Longrightarrow> canvas_inv s"
    unfolding s_def by (intro canvas_runs_inv timely_runs canvas_runs.start)
  then show ?thesis
    using rests_run [of es] by (auto simp: rests_def s_def canvas_inv_def)
qed

theorem canvas_stays_in_range_witness:
  "tilt_ok (cv_tilt (canvas_step (canvas_step canvas_init (PointerDown False 0 0)) (PointerMove 5000 5000)))"
  using canvas_stays_in_range [of "[PointerDown False 0 0, PointerMove 5000 5000]"] by simp

text \<open>The springback ends: its first frame at least 420 ms after the release is the last one.\<close>

lemma springback_ends:
  assumes "cv_spring s = Some sp" and "sp_start sp + 420 \<le> now"
  shows "cv_spring (spring_step now s) = None \<and> cv_tilt (spring_step now s) = 0.42 \<and>
    cv_moonOffset (spring_step now s) = (0, 0)"
  using assms by (simp add: spring_step_def spring_eased_def Let_def)

text \<open>
  The share \<open>t\<close> has no lower bound: a frame whose time stamp lies before the release moves the picture
  away from its rest, out of the range the drag allows.
\<close>

lemma early_frame_overshoots:
  assumes "cv_spring s = Some \<lparr>sp_start = 42, sp_tiltStart = 0.72, sp_offsetStart = (120, 0)\<rparr>"
  shows "\<not> tilt_ok (cv_tilt (spring_step 0 s)) \<and> \<not> offset_ok (cv_moonOffset (spring_step 0 s))"
  using assms by (simp add: spring_step_def spring_eased_def Let_def tilt_ok_def offset_ok_def power3_eq_cube)

text \<open>
  A pause costs no jump: while a dot is hovered or the picture is dragged, frames leave the time of the
  animation alone, and the first frame after the pause adds only the time since the last frame.
\<close>

lemma canvas_loop_pause:
  assumes "cv_paused s"
  shows "cv_frameTime (canvas_loop now s) = cv_frameTime s"
    and "\<not> cv_paused (t (canvas_loop now s)) \<Longrightarrow> cv_frameTime (t (canvas_loop now s)) = cv_frameTime s \<Longrightarrow>
      cv_lastTick (t (canvas_loop now s)) = Some now \<Longrightarrow>
      cv_frameTime (canvas_loop later (t (canvas_loop now s))) = cv_frameTime s + (later - now)"
  using assms by (simp_all add: canvas_loop_def Let_def nullish_def)

end
