(* ===== verification/OverviewWidgets.thy ===== *)
theory OverviewWidgets
  imports Overview Router Copy
begin

text \<open>
  The small parts of the overview page: \<^verbatim>\<open>web/src/pages/OverviewPage/MoonInscription.tsx\<close> (the numbers of the
  day in Chinese digits), \<^verbatim>\<open>AlertConstellation.tsx\<close> (the list of alerts), \<^verbatim>\<open>PhaseReveal.tsx\<close> (the name of the
  moon's phase) and \<open>GatewayBaseUrlInscription\<close> of \<^verbatim>\<open>web/src/pages/OverviewPage.tsx\<close>. A running timer is a
  flag of the state; its firing is an event.
\<close>

section \<open>The numbers of the day\<close>

definition CN_DIGIT :: jstr where
  "CN_DIGIT = [0x3007, 0x4E00, 0x4E8C, 0x4E09, 0x56DB, 0x4E94, 0x516D, 0x4E03, 0x516B, 0x4E5D]"

definition cn_unit :: "nat \<Rightarrow> nat" where
  "cn_unit ch =
     (if ch = 46 then 0x70B9
      else if ch = 45 then 0x8D1F
      else if is_digit ch then CN_DIGIT ! (ch - 48)
      else ch)"

text \<open>\<open>toChineseDigits\<close> on the text of the number.\<close>

definition toChineseDigits :: "jstr \<Rightarrow> jstr" where
  "toChineseDigits s = map cn_unit s"

definition inscription_success :: "rat \<Rightarrow> jstr" where
  "inscription_success successRate = toFixed 1 (successRate * 100)"

definition inscription_latency :: "rat \<Rightarrow> jstr \<times> jstr" where
  "inscription_latency avgLatency =
     (if avgLatency \<ge> 1000 then (toFixed 1 (avgLatency / 1000), c_unit_s)
      else (show_int (math_round avgLatency), c_unit_ms))"

text \<open>The three lines, without their captions.\<close>

definition inscription_lines :: "int \<Rightarrow> rat \<Rightarrow> rat \<Rightarrow> jstr list" where
  "inscription_lines requests successRate avgLatency =
     [toChineseDigits (show_int requests), toChineseDigits (inscription_success successRate),
      toChineseDigits (fst (inscription_latency avgLatency))]"

record inscription =
  in_awake :: bool
  in_open :: bool
  in_timer :: bool

datatype inscription_event = InEnter | InLeave | InClick | InTimer

definition inscription_touch :: "inscription \<Rightarrow> inscription" where
  "inscription_touch s = s\<lparr>in_awake := True, in_timer := True\<rparr>"

fun inscription_step :: "inscription \<Rightarrow> inscription_event \<Rightarrow> inscription" where
  "inscription_step s InEnter = s\<lparr>in_awake := True, in_timer := False\<rparr>"
| "inscription_step s InLeave = (if \<not> in_open s then inscription_touch s else s)"
| "inscription_step s InClick = s\<lparr>in_open := \<not> in_open s\<rparr>"
| "inscription_step s InTimer = (if in_timer s then s\<lparr>in_awake := False, in_timer := False\<rparr> else s)"

definition inscription_bright :: "inscription \<Rightarrow> bool" where
  "inscription_bright s \<longleftrightarrow> in_awake s \<or> in_open s"

section \<open>The address of the gateway\<close>

record base_url_note =
  bu_awake :: bool
  bu_copied :: bool
  bu_awakeTimer :: bool
  bu_copyTimer :: bool
  bu_toasts :: "(jstr \<times> bool) list"

datatype base_url_event = BuEnter | BuLeave | BuFocus | BuBlur | BuCopied | BuCopyFailed | BuAwakeTimer | BuCopyTimer

definition soften :: "base_url_note \<Rightarrow> base_url_note" where
  "soften s = s\<lparr>bu_awakeTimer := True\<rparr>"

text \<open>\<open>copyBaseUrl\<close> after the clipboard has answered; a toast is a text and whether it is an error.\<close>

definition copyBaseUrl :: "bool \<Rightarrow> base_url_note \<Rightarrow> base_url_note" where
  "copyBaseUrl ok s =
     (if ok then s\<lparr>bu_copied := True, bu_toasts := bu_toasts s @ [(c_ov_copied, False)], bu_copyTimer := True\<rparr>
      else s\<lparr>bu_toasts := bu_toasts s @ [(c_ov_copy_failed, True)]\<rparr>)"

fun base_url_step :: "base_url_note \<Rightarrow> base_url_event \<Rightarrow> base_url_note" where
  "base_url_step s BuEnter = s\<lparr>bu_awake := True, bu_awakeTimer := False\<rparr>"
| "base_url_step s BuLeave = soften s"
| "base_url_step s BuFocus = s\<lparr>bu_awake := True\<rparr>"
| "base_url_step s BuBlur = soften s"
| "base_url_step s BuCopied = copyBaseUrl True s"
| "base_url_step s BuCopyFailed = copyBaseUrl False s"
| "base_url_step s BuAwakeTimer = (if bu_awakeTimer s then s\<lparr>bu_awake := False, bu_awakeTimer := False\<rparr> else s)"
| "base_url_step s BuCopyTimer = (if bu_copyTimer s then s\<lparr>bu_copied := False, bu_copyTimer := False\<rparr> else s)"

definition base_url_bright :: "base_url_note \<Rightarrow> bool" where
  "base_url_bright s \<longleftrightarrow> bu_awake s \<or> bu_copied s"

section \<open>The name of the phase\<close>

abbreviation (input) PHASE_REVEAL_MS :: int where "PHASE_REVEAL_MS \<equiv> 3200"

text \<open>
  The time of the click that is shown and the time its timer is due. A click in another millisecond is
  another key, so the element is mounted again and its timer starts anew.
\<close>

type_synonym phase_reveal = "(int \<times> int) option"

definition phase_click :: "int \<Rightarrow> phase_reveal \<Rightarrow> phase_reveal" where
  "phase_click now s = (if map_option fst s = Some now then s else Some (now, now + PHASE_REVEAL_MS))"

definition phase_timer :: "int \<Rightarrow> phase_reveal \<Rightarrow> phase_reveal" where
  "phase_timer now s = (case s of None \<Rightarrow> None | Some (k, due) \<Rightarrow> if due \<le> now then None else s)"

section \<open>The alerts\<close>

record tone_palette =
  tp_dot :: jstr
  tp_ring :: jstr
  tp_text :: jstr

fun TONE_COLOR :: "moon_tone \<Rightarrow> tone_palette" where
  "TONE_COLOR Calm = \<lparr>tp_dot = js ''rgba(120,160,140,0.8)'', tp_ring = js ''rgba(120,160,140,0.35)'', tp_text = js ''text-status-green''\<rparr>"
| "TONE_COLOR Warning = \<lparr>tp_dot = js ''rgba(192,154,85,0.92)'', tp_ring = js ''rgba(192,154,85,0.35)'', tp_text = js ''text-status-yellow''\<rparr>"
| "TONE_COLOR Critical = \<lparr>tp_dot = js ''rgba(190,116,118,0.95)'', tp_ring = js ''rgba(190,116,118,0.4)'', tp_text = js ''text-status-red''\<rparr>"

record alert_row =
  ar_text :: jstr
  ar_title :: "jstr option"
  ar_canDismiss :: bool
  ar_fingerprint :: jstr

definition alert_row_of :: "overview_alert \<times> parsed_alert \<Rightarrow> alert_row" where
  "alert_row_of = (\<lambda>(a, p).
     \<lparr>ar_text = formatCn a p, ar_title = (if pa_detail p \<noteq> [] then Some (pa_detail p) else None),
      ar_canDismiss = (pa_kind p = AccountExpiring), ar_fingerprint = fingerprint a p\<rparr>)"

definition page_alerts :: "overview_state \<Rightarrow> (overview_alert \<times> parsed_alert) list" where
  "page_alerts s = filterVisible (alerts_of s) (ov_dismissed s)"

text \<open>The state of the list together with the page it is on.\<close>

record constellation =
  co_page :: overview_state
  co_router :: router_state
  co_open :: bool
  co_hover :: bool

text \<open>What the component renders: nothing without alerts, else the count, the palette and the open rows.\<close>

definition constellation_view :: "constellation \<Rightarrow> (nat \<times> tone_palette \<times> alert_row list) option" where
  "constellation_view c =
     (let visible = page_alerts (co_page c) in
      if visible = [] then None
      else Some (length visible, TONE_COLOR (moonTone (co_page c)),
                 if co_open c then map alert_row_of visible else []))"

text \<open>\<open>onAlertClick\<close> of the page.\<close>

definition alert_href :: "overview_alert \<Rightarrow> jstr" where
  "alert_href a =
     (let i = nullish (alert_pool_id a) 0 in
      if i \<noteq> 0 then js ''/admin/pools/'' @ show_int i else js ''/admin/settings'')"

datatype constellation_event =
    CoToggle
  | CoCollapse
  | CoOutsidePointer
  | CoHover bool
  | CoRowClick overview_alert
  | CoRowDismiss overview_alert
  | CoPage ov_event

text \<open>
  The document's listener is there only while the list is open, and does nothing while the component
  renders nothing. A page that shows its skeleton, an error or no pools has unmounted the component.
\<close>

definition page_shows_canvas :: "overview_state \<Rightarrow> bool" where
  "page_shows_canvas s \<longleftrightarrow> \<not> ov_loading s \<and> (ov_error s = None \<or> ov_error s = Some []) \<and> ov_pools s \<noteq> []"

definition constellation_page :: "overview_state \<Rightarrow> constellation \<Rightarrow> constellation" where
  "constellation_page p c =
     (if page_shows_canvas p then c\<lparr>co_page := p\<rparr>
      else c\<lparr>co_page := p, co_open := False, co_hover := False\<rparr>)"

fun constellation_step :: "constellation \<Rightarrow> constellation_event \<Rightarrow> constellation" where
  "constellation_step c CoToggle = c\<lparr>co_open := \<not> co_open c\<rparr>"
| "constellation_step c CoCollapse = c\<lparr>co_open := False\<rparr>"
| "constellation_step c CoOutsidePointer =
     (if co_open c \<and> page_alerts (co_page c) \<noteq> [] then c\<lparr>co_open := False\<rparr> else c)"
| "constellation_step c (CoHover b) = c\<lparr>co_hover := b\<rparr>"
| "constellation_step c (CoRowClick a) =
     c\<lparr>co_router := navigate (co_router c) (alert_href a) False, co_open := False\<rparr>"
| "constellation_step c (CoRowDismiss a) =
     constellation_page (ov_step (co_page c) (Dismiss (fingerprint a (parseAlert a)))) c"
| "constellation_step c (CoPage e) = constellation_page (ov_step (co_page c) e) c"

section \<open>Lemmas on the alerts\<close>

lemma alerts_of_dismiss: "alerts_of (ov_step s (Dismiss fp)) = alerts_of s"
  by (simp add: ov_step_def ov_prune_def Let_def alerts_of_def)

text \<open>
  Dismissing a row hides that alert and nothing else: after a dismissal the list is the old one, in its
  order, without the expiry alerts of that fingerprint; every other alert stays, of whatever kind.
\<close>

theorem dismiss_removes_exactly:
  "page_alerts (ov_step s (Dismiss fp)) =
     filter (\<lambda>(b, q). pa_kind q \<noteq> AccountExpiring \<or> fingerprint b q \<noteq> fp) (page_alerts s)"
proof (cases "alerts_of s = []")
  case True
  then show ?thesis by (simp add: page_alerts_def alerts_of_dismiss filterVisible_def)
next
  case False
  then have "\<not> alerts_renewed (ov_handle s (Dismiss fp)) (Dismiss fp)"
    by (auto simp: alerts_renewed_def alerts_of_def ensureArray_def Let_def split: option.splits)
  then have "ov_dismissed (ov_step s (Dismiss fp)) = set_add (JStr fp) (ov_dismissed s)"
    by (simp add: ov_step_def Let_def)
  moreover have "set_has (set_add (JStr fp) D) g \<longleftrightarrow> set_has D g \<or> g = fp" for D g
    by (auto simp: set_has_def set_add_def)
  ultimately show ?thesis
    by (auto simp: page_alerts_def alerts_of_dismiss filterVisible_def intro!: filter_cong)
qed

text \<open>The list is hidden exactly when the moon is calm, so the palette of a calm moon is never used.\<close>

lemma constellation_hidden_iff_calm: "constellation_view c = None \<longleftrightarrow> moonTone (co_page c) = Calm"
  by (auto simp: constellation_view_def Let_def moonTone_def visibleAlerts_def page_alerts_def getMoonTone_def)

text \<open>The number on the dot is the number of rows the open list has.\<close>

lemma constellation_count:
  "constellation_view c = Some (n, pal, rows) \<Longrightarrow> co_open c \<Longrightarrow> length rows = n \<and> 0 < n"
  by (auto simp: constellation_view_def Let_def split: if_splits)

text \<open>A click on an alert opens its pool, or the settings where it has none.\<close>

lemma alert_click_opens:
  "PageRouter (pathname (co_router (constellation_step c (CoRowClick a)))) =
     Inr (if nullish (alert_pool_id a) 0 \<noteq> 0
          then PoolDetailPage [(js ''id'', show_int (nullish (alert_pool_id a) 0))] else SettingsPage)"
proof (cases "nullish (alert_pool_id a) 0 = 0")
  case True
  have "pathname (navigate r (js ''/admin/settings'') False) = js ''/admin/settings''" for r
  proof -
    have "normalizePath (js ''/admin/settings'') = js ''/admin/settings''" by code_simp
    then show ?thesis by (simp add: navigate_def history_write_def Let_def)
  qed
  moreover have "PageRouter (js ''/admin/settings'') = Inr SettingsPage" by code_simp
  ultimately show ?thesis using True by (simp add: alert_href_def)
qed (simp add: alert_href_def pool_link_opens_pool)

lemma loading_closes_list:
  "\<not> page_shows_canvas (ov_step (co_page c) e) \<Longrightarrow> \<not> co_open (constellation_step c (CoPage e))"
  by (simp add: constellation_page_def)

section \<open>Lemmas on the numbers\<close>

definition cn_read :: "nat \<Rightarrow> nat" where
  "cn_read u =
     (if u = 0x70B9 then 46 else if u = 0x8D1F then 45
      else case find (\<lambda>i. CN_DIGIT ! i = u) [0..<10] of Some i \<Rightarrow> 48 + i | None \<Rightarrow> u)"

lemma digit_cases: "is_digit c \<Longrightarrow> c \<in> {48, 49, 50, 51, 52, 53, 54, 55, 56, 57}"
  by (simp add: is_digit_def) presburger

lemma cn_read_unit: "c < 128 \<Longrightarrow> cn_read (cn_unit c) = c"
proof (cases "is_digit c")
  case True
  then show ?thesis
    using digit_cases by (fastforce simp: cn_read_def cn_unit_def is_digit_def CN_DIGIT_def upt_rec)
next
  case False
  assume "c < 128"
  then show ?thesis using False
    by (auto simp: cn_read_def cn_unit_def CN_DIGIT_def upt_rec is_digit_def)
qed

text \<open>The Chinese digits say what the number says: they can be read back.\<close>

lemma toChineseDigits_readable:
  "list_all (\<lambda>c. c < 128) s \<Longrightarrow> map cn_read (toChineseDigits s) = s"
  by (simp add: toChineseDigits_def list_all_iff map_idI cn_read_unit)

lemma show_int_ascii: "list_all (\<lambda>c. c < 128) (show_int i)"
  using nat_digits_all by (fastforce simp: list_all_iff show_int_def is_digit_def)

lemma toChineseDigits_number: "toChineseDigits (show_int a) = toChineseDigits (show_int b) \<longleftrightarrow> a = b"
  by (metis toChineseDigits_readable show_int_ascii show_int_inject)

text \<open>Just below a second the rounded milliseconds are a thousand, in the smaller unit.\<close>

lemma latency_rounds_to_thousand:
  "999.5 \<le> x \<Longrightarrow> x < 1000 \<Longrightarrow> inscription_latency x = (show_int 1000, c_unit_ms)"
proof -
  assume "999.5 \<le> x" "x < 1000"
  then have "\<lfloor>x + 1 / 2\<rfloor> = 1000" by (intro floor_unique) simp_all
  then show ?thesis using \<open>x < 1000\<close> by (simp add: inscription_latency_def math_round_def)
qed

text \<open>After the mouse has left the closed inscription, it dims when the timer fires.\<close>

lemma inscription_dims:
  "\<not> in_open s \<Longrightarrow> \<not> inscription_bright (inscription_step (inscription_step s InLeave) InTimer)"
  by (simp add: inscription_touch_def inscription_bright_def)

text \<open>
  Left while it is open, it starts no timer: closed later from the keyboard, it stays bright until the
  mouse comes by again.
\<close>

lemma inscription_stays_bright:
  assumes "list_all (\<lambda>e. e = InClick \<or> e = InTimer) es" and "in_awake s" and "\<not> in_timer s"
  shows "inscription_bright (foldl inscription_step s es)"
  using assms
proof (induction es arbitrary: s)
  case (Cons e es)
  then show ?case by (cases e) auto
qed (simp add: inscription_bright_def)

text \<open>
  The focus does not stop a timer that runs: the address dims under the focus after the mouse has left.
\<close>

lemma base_url_dims_under_focus:
  "\<not> bu_copied s \<Longrightarrow>
   \<not> base_url_bright (base_url_step (base_url_step (base_url_step s BuLeave) BuFocus) BuAwakeTimer)"
  by (simp add: soften_def base_url_bright_def)

text \<open>The name of the phase stays for the given time after the last click, and no longer.\<close>

lemma phase_visible_time:
  assumes "map_option fst s \<noteq> Some t"
  shows "phase_timer now (phase_click t s) \<noteq> None \<longleftrightarrow> now < t + PHASE_REVEAL_MS"
  using assms by (auto simp: phase_click_def phase_timer_def)

end
