(* ===== verification/ActivityRibbons.thy ===== *)
theory ActivityRibbons
  imports ActivityCharts
begin

text \<open>
  The ribbons of the flow diagram in \<^verbatim>\<open>web/src/pages/ActivityPage.tsx\<close>. Each link becomes a band between two
  nodes; two cursors per node say how much of its height the bands before it have used on the right and
  on the left. The path of a band is kept as the list of its numbers.
\<close>

section \<open>Laying out the links\<close>

record ribbon =
  rb_source :: jstr
  rb_target :: jstr
  rb_value :: int
  rb_y0Top :: rat
  rb_y0Bot :: rat
  rb_y1Top :: rat
  rb_y1Bot :: rat
  rb_path :: "rat list"

text \<open>\<open>allPositions\<close>: of equal identifiers the one spread last wins.\<close>

definition allPositions :: "sankey_graph \<Rightarrow> (jstr \<rightharpoonup> sankey_position)" where
  "allPositions g = map_of (map (\<lambda>p. (sp_id p, p)) (modelPositions g @ accountPositions g @ poolPositions g))"

definition nodeValues :: "sankey_graph \<Rightarrow> (jstr \<rightharpoonup> int)" where
  "nodeValues g = map_of (map (\<lambda>n. (sn_id n, sn_value n)) (rev (sg_pools g @ sg_accounts g @ sg_models g)))"

definition sankey_all_links :: "sankey_graph \<Rightarrow> sankey_link list" where
  "sankey_all_links g = sg_poolAccountLinks g @ sg_accountModelLinks g"

definition node_value_or_one :: "(jstr \<rightharpoonup> int) \<Rightarrow> jstr \<Rightarrow> int" where
  "node_value_or_one values i = (let v = nullish (values i) 0 in if v = 0 then 1 else v)"

text \<open>The step of \<open>map\<close>: the two cursors and the bands made so far; a link without both nodes is dropped.\<close>

record ribbon_state =
  rs_source :: "jstr \<Rightarrow> rat"
  rs_target :: "jstr \<Rightarrow> rat"
  rs_ribbons :: "ribbon list"

definition ribbon_path :: "rat \<Rightarrow> rat \<Rightarrow> rat \<Rightarrow> rat \<Rightarrow> rat \<Rightarrow> rat \<Rightarrow> rat list" where
  "ribbon_path x0 x1 y0Top y0Bot y1Top y1Bot =
     (let xi0 = x0 + (x1 - x0) * 0.55; xi1 = x1 - (x1 - x0) * 0.55 in
      [x0, y0Top, xi0, y0Top, xi1, y1Top, x1, y1Top, x1, y1Bot, xi1, y1Bot, xi0, y0Bot, x0, y0Bot])"

definition lay_ribbon ::
  "(jstr \<rightharpoonup> sankey_position) \<Rightarrow> (jstr \<rightharpoonup> int) \<Rightarrow> ribbon_state \<Rightarrow> sankey_link \<Rightarrow> ribbon_state" where
  "lay_ribbon pos values st l =
     (case (pos (sl_source l), pos (sl_target l)) of
        (Some s, Some t) \<Rightarrow>
          (let sourceH = of_int (sl_value l) / of_int (node_value_or_one values (sl_source l)) * sp_h s;
               targetH = of_int (sl_value l) / of_int (node_value_or_one values (sl_target l)) * sp_h t;
               sOffset = rs_source st (sl_source l);
               tOffset = rs_target st (sl_target l);
               y0Top = sp_y s + sOffset; y0Bot = y0Top + sourceH;
               y1Top = sp_y t + tOffset; y1Bot = y1Top + targetH
           in \<lparr>rs_source = (rs_source st)(sl_source l := sOffset + sourceH),
               rs_target = (rs_target st)(sl_target l := tOffset + targetH),
               rs_ribbons = rs_ribbons st @
                 [\<lparr>rb_source = sl_source l, rb_target = sl_target l, rb_value = sl_value l,
                   rb_y0Top = y0Top, rb_y0Bot = y0Bot, rb_y1Top = y1Top, rb_y1Bot = y1Bot,
                   rb_path = ribbon_path (sp_x s + 10) (sp_x t) y0Top y0Bot y1Top y1Bot\<rparr>]\<rparr>)
      | _ \<Rightarrow> st)"

definition no_ribbons :: ribbon_state where
  "no_ribbons = \<lparr>rs_source = (\<lambda>_. 0), rs_target = (\<lambda>_. 0), rs_ribbons = []\<rparr>"

definition sankeyRibbons :: "sankey_graph \<Rightarrow> ribbon list" where
  "sankeyRibbons g =
     rs_ribbons (foldl (lay_ribbon (allPositions g) (nodeValues g)) no_ribbons (sort_desc sl_value (sankey_all_links g)))"

section \<open>Stacks of bands\<close>

text \<open>The bands of a list lie one below the other without a gap, from \<open>y\<close> down to \<open>y'\<close>.\<close>

fun stacked :: "(ribbon \<Rightarrow> rat) \<Rightarrow> (ribbon \<Rightarrow> rat) \<Rightarrow> rat \<Rightarrow> ribbon list \<Rightarrow> rat \<Rightarrow> bool" where
  "stacked t b y [] y' \<longleftrightarrow> y = y'"
| "stacked t b y (r # rs) y' \<longleftrightarrow> t r = y \<and> stacked t b (b r) rs y'"

lemma stacked_append:
  "stacked t b y (rs @ [r]) y' \<longleftrightarrow> stacked t b y rs (t r) \<and> b r = y'"
  by (induction rs arbitrary: y) auto

definition share :: "(sankey_link \<Rightarrow> jstr) \<Rightarrow> (jstr \<rightharpoonup> int) \<Rightarrow> jstr \<Rightarrow> sankey_link list \<Rightarrow> rat" where
  "share side values a ls = of_int (ribbon_sum side a ls) / of_int (node_value_or_one values a)"

lemma share_snoc:
  "share side values a (ls @ [l]) =
     share side values a ls + (if side l = a then of_int (sl_value l) / of_int (node_value_or_one values a) else 0)"
  by (simp add: share_def ribbon_sum_def add_divide_distrib)

lemma lay_ribbon_fields:
  fixes vals :: "jstr \<rightharpoonup> int"
  assumes "pos (sl_source l) = Some s" and "pos (sl_target l) = Some t"
  defines "sh \<equiv> of_int (sl_value l) / of_int (node_value_or_one vals (sl_source l)) * sp_h s"
    and "th \<equiv> of_int (sl_value l) / of_int (node_value_or_one vals (sl_target l)) * sp_h t"
  shows "rs_source (lay_ribbon pos vals st l) = (rs_source st)(sl_source l := rs_source st (sl_source l) + sh)"
    and "rs_target (lay_ribbon pos vals st l) = (rs_target st)(sl_target l := rs_target st (sl_target l) + th)"
    and "\<exists>r. rs_ribbons (lay_ribbon pos vals st l) = rs_ribbons st @ [r] \<and> rb_source r = sl_source l \<and>
      rb_target r = sl_target l \<and> rb_y0Top r = sp_y s + rs_source st (sl_source l) \<and> rb_y0Bot r = rb_y0Top r + sh \<and>
      rb_y1Top r = sp_y t + rs_target st (sl_target l) \<and> rb_y1Bot r = rb_y1Top r + th"
  using assms(1,2) by (simp_all add: lay_ribbon_def Let_def sh_def th_def)

text \<open>
  The invariant of the layout: at each node the bands so far are stacked from its top, and the cursor is
  the part of its height they have used.
\<close>

lemma ribbons_stacked:
  fixes ls :: "sankey_link list" and pos :: "jstr \<rightharpoonup> sankey_position" and vals :: "jstr \<rightharpoonup> int"
  assumes "\<forall>l \<in> set ls. pos (sl_source l) \<noteq> None \<and> pos (sl_target l) \<noteq> None" and "pos a = Some p"
  defines "st \<equiv> foldl (lay_ribbon pos vals) no_ribbons ls"
  shows "rs_source st a = share sl_source vals a ls * sp_h p \<and>
     rs_target st a = share sl_target vals a ls * sp_h p \<and>
     stacked rb_y0Top rb_y0Bot (sp_y p) (filter (\<lambda>r. rb_source r = a) (rs_ribbons st)) (sp_y p + rs_source st a) \<and>
     stacked rb_y1Top rb_y1Bot (sp_y p) (filter (\<lambda>r. rb_target r = a) (rs_ribbons st)) (sp_y p + rs_target st a)"
  using assms(1) unfolding st_def
proof (induction ls rule: rev_induct)
  case Nil
  then show ?case by (simp add: no_ribbons_def share_def ribbon_sum_def)
next
  case (snoc l ls)
  obtain s t where st: "pos (sl_source l) = Some s" "pos (sl_target l) = Some t"
    using snoc.prems by auto
  define X where "X = foldl (lay_ribbon pos vals) no_ribbons ls"
  have IH: "rs_source X a = share sl_source vals a ls * sp_h p"
     "rs_target X a = share sl_target vals a ls * sp_h p"
     "stacked rb_y0Top rb_y0Bot (sp_y p) (filter (\<lambda>r. rb_source r = a) (rs_ribbons X)) (sp_y p + rs_source X a)"
     "stacked rb_y1Top rb_y1Bot (sp_y p) (filter (\<lambda>r. rb_target r = a) (rs_ribbons X)) (sp_y p + rs_target X a)"
    using snoc unfolding X_def by auto
  obtain r where r: "rs_ribbons (lay_ribbon pos vals X l) = rs_ribbons X @ [r]" "rb_source r = sl_source l"
      "rb_target r = sl_target l" "rb_y0Top r = sp_y s + rs_source X (sl_source l)"
      "rb_y0Bot r = rb_y0Top r + of_int (sl_value l) / of_int (node_value_or_one vals (sl_source l)) * sp_h s"
      "rb_y1Top r = sp_y t + rs_target X (sl_target l)"
      "rb_y1Bot r = rb_y1Top r + of_int (sl_value l) / of_int (node_value_or_one vals (sl_target l)) * sp_h t"
    using lay_ribbon_fields(3) [OF st, of vals X] by blast
  have fold: "foldl (lay_ribbon pos vals) no_ribbons (ls @ [l]) = lay_ribbon pos vals X l"
    by (simp add: X_def)
  have s: "sl_source l = a \<Longrightarrow> s = p" and t: "sl_target l = a \<Longrightarrow> t = p"
    using st assms(2) by auto
  show ?case
    unfolding fold using IH r s t
    by (cases "sl_source l = a"; cases "sl_target l = a")
       (simp_all add: lay_ribbon_fields(1,2) [OF st] stacked_append share_snoc distrib_right)
qed

section \<open>The diagram\<close>

lemma ids_place_nodes: "map sp_id (place_nodes x tot space y ns) = map sn_id ns"
  by (induction ns arbitrary: y) (simp_all add: Let_def)

lemma ids_column: "map sp_id (computeColumn H ns x tot) = map sn_id ns"
  by (simp add: computeColumn_def Let_def ids_place_nodes)

lemma ids_nodes:
  "distinct (map sn_id (sankey_nodes key label logs)) \<and> set (map sn_id (sankey_nodes key label logs)) = key ` set logs"
proof -
  let ?ns = "map (\<lambda>(k, v). \<lparr>sn_id = k, sn_label = label k, sn_value = v\<rparr>) (tally (map key logs))"
  have ids: "map sn_id ?ns = map fst (tally (map key logs))" by (simp add: comp_def case_prod_unfold)
  have "mset (map sn_id (sankey_nodes key label logs)) = mset (map sn_id ?ns)"
    by (simp add: sankey_nodes_def sd.mset_srt del: map_map)
  then have "mset (map sn_id (sankey_nodes key label logs)) = mset (map fst (tally (map key logs)))"
    by (simp only: ids)
  then have "distinct (map sn_id (sankey_nodes key label logs)) = distinct (map fst (tally (map key logs)))"
    "set (map sn_id (sankey_nodes key label logs)) = set (map fst (tally (map key logs)))"
    by (metis mset_eq_imp_distinct_iff, metis set_mset_mset)
  then show ?thesis by (simp add: distinct_tally keys_tally)
qed

lemma keys_differ:
  "pool_key x \<noteq> account_key y" "account_key x \<noteq> model_key y" "pool_key x \<noteq> model_key y"
  by (auto simp: pool_key_def account_key_def model_key_def js_def)

lemma link_ends:
  assumes "l \<in> set (sankey_links source target logs)"
  shows "\<exists>lg \<in> set logs. sl_source l = source lg \<and> sl_target l = target lg"
proof -
  let ?upd = "\<lambda>l. l\<lparr>sl_value := sl_value l + 1\<rparr>"
  obtain k where "(k, l) \<in> set (group_by (\<lambda>lg. stringify_strings [source lg, target lg]) ?upd
      (\<lambda>lg. \<lparr>sl_source = source lg, sl_target = target lg, sl_value = 1\<rparr>) logs)"
    using assms by (auto simp: sankey_links_def)
  then have "map_of (group_by (\<lambda>lg. stringify_strings [source lg, target lg]) ?upd
      (\<lambda>lg. \<lparr>sl_source = source lg, sl_target = target lg, sl_value = 1\<rparr>) logs) k = Some l"
    by (simp only: map_of_eq_Some_iff [OF distinct_group_by])
  then obtain y ys where "filter (\<lambda>lg. stringify_strings [source lg, target lg] = k) logs = y # ys"
      "l = (?upd ^^ length ys) \<lparr>sl_source = source y, sl_target = target y, sl_value = 1\<rparr>"
    by (auto simp: map_of_group_by split: list.splits)
  then show ?thesis by (auto simp: funpow_link dest: filter_eq_ConsD)
qed

definition graph_ids :: "sankey_graph \<Rightarrow> jstr list" where
  "graph_ids g = map sn_id (sg_models g @ sg_accounts g @ sg_pools g)"

lemma ids_positions: "map sp_id (modelPositions g @ accountPositions g @ poolPositions g) = graph_ids g"
  by (simp add: graph_ids_def modelPositions_def accountPositions_def poolPositions_def ids_column)

lemma graph_nodes:
  "sg_pools (SankeyDiagram logs m) = sankey_nodes pool_key (pool_label_of m) (filter is_routed logs)"
  "sg_accounts (SankeyDiagram logs m) = sankey_nodes account_key (account_label_of logs) (filter is_routed logs)"
  "sg_models (SankeyDiagram logs m) = sankey_nodes model_key (drop 6) (filter is_routed logs)"
  by (simp_all add: SankeyDiagram_def Let_def)

lemma distinct_graph_ids: "distinct (graph_ids (SankeyDiagram logs poolMap))"
proof -
  let ?r = "filter is_routed logs"
  have "pool_key ` set ?r \<inter> account_key ` set ?r = {}" "account_key ` set ?r \<inter> model_key ` set ?r = {}"
    "pool_key ` set ?r \<inter> model_key ` set ?r = {}"
    using keys_differ by blast+
  then show ?thesis
    unfolding graph_ids_def graph_nodes map_append distinct_append set_append ids_nodes [THEN conjunct2]
    by (intro conjI ids_nodes [THEN conjunct1]) blast+
qed

lemma position_of:
  "p \<in> set (modelPositions (SankeyDiagram logs m) @ accountPositions (SankeyDiagram logs m) @ poolPositions (SankeyDiagram logs m)) \<Longrightarrow>
   allPositions (SankeyDiagram logs m) (sp_id p) = Some p"
  unfolding allPositions_def
proof (rule map_of_is_SomeI)
  show "distinct (map fst (map (\<lambda>p. (sp_id p, p)) (modelPositions (SankeyDiagram logs m) @
      accountPositions (SankeyDiagram logs m) @ poolPositions (SankeyDiagram logs m))))"
    using distinct_graph_ids [of logs m] ids_positions [of "SankeyDiagram logs m"] by (simp add: comp_def)
qed auto

lemma value_of:
  assumes "n \<in> set (sg_pools (SankeyDiagram logs m) @ sg_accounts (SankeyDiagram logs m) @ sg_models (SankeyDiagram logs m))"
  shows "nodeValues (SankeyDiagram logs m) (sn_id n) = Some (sn_value n)"
  unfolding nodeValues_def
proof (rule map_of_is_SomeI)
  show "distinct (map fst (map (\<lambda>n. (sn_id n, sn_value n)) (rev (sg_pools (SankeyDiagram logs m) @
      sg_accounts (SankeyDiagram logs m) @ sg_models (SankeyDiagram logs m)))))"
    using distinct_graph_ids [of logs m] by (auto simp: graph_ids_def comp_def rev_map [symmetric])
qed (use assms in auto)

lemma allPositions_defined:
  "i \<in> set (graph_ids (SankeyDiagram logs m)) \<Longrightarrow> allPositions (SankeyDiagram logs m) i \<noteq> None"
proof -
  let ?ps = "modelPositions (SankeyDiagram logs m) @ accountPositions (SankeyDiagram logs m) @ poolPositions (SankeyDiagram logs m)"
  assume "i \<in> set (graph_ids (SankeyDiagram logs m))"
  then obtain p where "p \<in> set ?ps" "sp_id p = i"
    unfolding ids_positions [symmetric] set_map by auto
  then show ?thesis using position_of by blast
qed

lemma link_positions:
  assumes "l \<in> set (sankey_all_links (SankeyDiagram logs m))"
  shows "allPositions (SankeyDiagram logs m) (sl_source l) \<noteq> None \<and>
    allPositions (SankeyDiagram logs m) (sl_target l) \<noteq> None"
proof -
  have "sl_source l \<in> set (graph_ids (SankeyDiagram logs m)) \<and> sl_target l \<in> set (graph_ids (SankeyDiagram logs m))"
    using assms link_ends [of l pool_key account_key "filter is_routed logs"]
      link_ends [of l account_key model_key "filter is_routed logs"]
    by (auto simp: sankey_all_links_def graph_ids_def SankeyDiagram_def Let_def ids_nodes simp flip: set_map)
  then show ?thesis by (simp add: allPositions_defined)
qed

lemma ribbon_sum_sorted: "ribbon_sum side a (sort_desc sl_value ls) = ribbon_sum side a ls"
proof -
  have "ribbon_sum side a xs = sum_mset (image_mset (\<lambda>l. if side l = a then sl_value l else 0) (mset xs))" for xs
    by (simp add: ribbon_sum_def flip: sum_mset_sum_list)
  then show ?thesis by (simp add: sd.mset_srt)
qed

lemma ribbon_sum_append: "ribbon_sum side a (xs @ ys) = ribbon_sum side a xs + ribbon_sum side a ys"
  by (simp add: ribbon_sum_def)

lemma ribbon_sum_links:
  "ribbon_sum sl_source a (sankey_links source target logs) = int (length (filter (\<lambda>lg. source lg = a) logs))"
  "ribbon_sum sl_target a (sankey_links source target logs) = int (length (filter (\<lambda>lg. target lg = a) logs))"
  by (simp_all add: ribbon_sum_def link_sums)

text \<open>At a node, the links of one side carry as many requests as the node has.\<close>

lemma full_share:
  assumes "n \<in> set (sg_pools (SankeyDiagram logs m) @ sg_accounts (SankeyDiagram logs m) @ sg_models (SankeyDiagram logs m))"
    and "ribbon_sum side (sn_id n) (sankey_all_links (SankeyDiagram logs m)) = sn_value n"
  shows "share side (nodeValues (SankeyDiagram logs m)) (sn_id n)
    (sort_desc sl_value (sankey_all_links (SankeyDiagram logs m))) = 1"
proof -
  have "sn_value n \<noteq> 0"
  proof -
    have "n \<in> set (sankey_nodes key label (filter is_routed logs)) \<Longrightarrow> sn_value n \<noteq> 0" for key label
    proof -
      assume a: "n \<in> set (sankey_nodes key label (filter is_routed logs))"
      then have "sn_id n \<in> key ` set (filter is_routed logs)"
        using ids_nodes [of key label "filter is_routed logs"] by (metis image_eqI set_map)
      then have "filter (\<lambda>lg. key lg = sn_id n) (filter is_routed logs) \<noteq> []"
        by (auto simp: filter_empty_conv)
      then show ?thesis using sankey_node_value [OF a] by (simp del: filter_filter)
    qed
    then show ?thesis using assms(1) by (auto simp: SankeyDiagram_def Let_def)
  qed
  then show ?thesis
    by (simp add: share_def ribbon_sum_sorted assms(2) node_value_or_one_def value_of [OF assms(1)] nullish_def)
qed

lemma node_of_position:
  assumes "map sp_id ps = map sn_id ns" and "p \<in> set ps"
  obtains n where "n \<in> set ns" "sn_id n = sp_id p"
proof -
  have "sp_id p \<in> set (map sp_id ps)" using assms(2) by auto
  then have "sp_id p \<in> sn_id ` set ns" by (simp only: assms(1) set_map)
  then show ?thesis using that by auto
qed

lemma side_sums:
  "n \<in> set (sg_pools (SankeyDiagram logs m)) \<Longrightarrow>
     ribbon_sum sl_source (sn_id n) (sankey_all_links (SankeyDiagram logs m)) = sn_value n"
  "n \<in> set (sg_accounts (SankeyDiagram logs m)) \<Longrightarrow>
     ribbon_sum sl_source (sn_id n) (sankey_all_links (SankeyDiagram logs m)) = sn_value n"
  "n \<in> set (sg_accounts (SankeyDiagram logs m)) \<Longrightarrow>
     ribbon_sum sl_target (sn_id n) (sankey_all_links (SankeyDiagram logs m)) = sn_value n"
  "n \<in> set (sg_models (SankeyDiagram logs m)) \<Longrightarrow>
     ribbon_sum sl_target (sn_id n) (sankey_all_links (SankeyDiagram logs m)) = sn_value n"
proof -
  let ?r = "filter is_routed logs"
  have id: "sn_id n \<in> key ` set ?r" if "n \<in> set (sankey_nodes key label ?r)" for key label
    using that ids_nodes [of key label ?r] by (metis image_eqI set_map)
  have zero: "filter (\<lambda>lg. f lg = sn_id n) ?r = []" if "sn_id n \<in> key ` set ?r" "\<And>x y. key x \<noteq> f y" for f key
    using that by (auto simp: filter_empty_conv) metis
  note d = keys_differ keys_differ [symmetric]
  note defs = SankeyDiagram_def Let_def sankey_all_links_def ribbon_sum_append ribbon_sum_links sankey_node_value
  show "n \<in> set (sg_pools (SankeyDiagram logs m)) \<Longrightarrow>
      ribbon_sum sl_source (sn_id n) (sankey_all_links (SankeyDiagram logs m)) = sn_value n"
    using zero [OF id d(1)] by (simp add: defs del: filter_filter)
  show "n \<in> set (sg_accounts (SankeyDiagram logs m)) \<Longrightarrow>
      ribbon_sum sl_source (sn_id n) (sankey_all_links (SankeyDiagram logs m)) = sn_value n"
    using zero [OF id d(4)] by (simp add: defs del: filter_filter)
  show "n \<in> set (sg_accounts (SankeyDiagram logs m)) \<Longrightarrow>
      ribbon_sum sl_target (sn_id n) (sankey_all_links (SankeyDiagram logs m)) = sn_value n"
    using zero [OF id d(2)] by (simp add: defs del: filter_filter)
  show "n \<in> set (sg_models (SankeyDiagram logs m)) \<Longrightarrow>
      ribbon_sum sl_target (sn_id n) (sankey_all_links (SankeyDiagram logs m)) = sn_value n"
    using zero [OF id d(5)] by (simp add: defs del: filter_filter)
qed

text \<open>The bands on one side of a node cover it from top to bottom.\<close>

definition leaves_fill :: "ribbon list \<Rightarrow> sankey_position \<Rightarrow> bool" where
  "leaves_fill rs p \<longleftrightarrow>
     stacked rb_y0Top rb_y0Bot (sp_y p) (filter (\<lambda>r. rb_source r = sp_id p) rs) (sp_y p + sp_h p)"

definition arrivals_fill :: "ribbon list \<Rightarrow> sankey_position \<Rightarrow> bool" where
  "arrivals_fill rs p \<longleftrightarrow>
     stacked rb_y1Top rb_y1Bot (sp_y p) (filter (\<lambda>r. rb_target r = sp_id p) rs) (sp_y p + sp_h p)"

lemma side_filled:
  fixes logs m
  defines "g \<equiv> SankeyDiagram logs m"
  assumes "p \<in> set (modelPositions g @ accountPositions g @ poolPositions g)"
    and "n \<in> set (sg_pools g @ sg_accounts g @ sg_models g)" and "sn_id n = sp_id p"
  shows "ribbon_sum sl_source (sn_id n) (sankey_all_links g) = sn_value n \<Longrightarrow> leaves_fill (sankeyRibbons g) p"
    and "ribbon_sum sl_target (sn_id n) (sankey_all_links g) = sn_value n \<Longrightarrow> arrivals_fill (sankeyRibbons g) p"
proof -
  let ?ls = "sort_desc sl_value (sankey_all_links g)"
  have l: "\<forall>l \<in> set ?ls. allPositions g (sl_source l) \<noteq> None \<and> allPositions g (sl_target l) \<noteq> None"
    using link_positions unfolding g_def by simp
  define X where "X = foldl (lay_ribbon (allPositions g) (nodeValues g)) no_ribbons ?ls"
  note st = ribbons_stacked [OF l position_of [OF assms(2) [unfolded g_def], folded g_def], of "nodeValues g", folded X_def]
  note sh = full_share [OF assms(3) [unfolded g_def], folded g_def]
  have R: "sankeyRibbons g = rs_ribbons X" by (simp add: sankeyRibbons_def X_def)
  show "leaves_fill (sankeyRibbons g) p" if v: "ribbon_sum sl_source (sn_id n) (sankey_all_links g) = sn_value n"
  proof -
    have "rs_source X (sp_id p) = sp_h p" using st sh [OF v] assms(4) by simp
    then show ?thesis using st [THEN conjunct2, THEN conjunct2, THEN conjunct1] by (simp only: leaves_fill_def R)
  qed
  show "arrivals_fill (sankeyRibbons g) p" if v: "ribbon_sum sl_target (sn_id n) (sankey_all_links g) = sn_value n"
  proof -
    have "rs_target X (sp_id p) = sp_h p" using st sh [OF v] assms(4) by simp
    then show ?thesis using st [THEN conjunct2, THEN conjunct2, THEN conjunct2] by (simp only: arrivals_fill_def R)
  qed
qed

text \<open>
  C40: The bands of the flow diagram fill the nodes: for every list of logs, at each pool, account and model
  the bands that leave it, and those that reach it, lie one below the other without gap or overlap and
  cover the node exactly from its top to its bottom.
\<close>

theorem ribbons_fill_nodes:
  "let g = SankeyDiagram logs poolMap; rs = sankeyRibbons g in
     list_all (leaves_fill rs) (poolPositions g) \<and> list_all (leaves_fill rs) (accountPositions g) \<and>
     list_all (arrivals_fill rs) (accountPositions g) \<and> list_all (arrivals_fill rs) (modelPositions g)"
proof -
  let ?g = "SankeyDiagram logs poolMap"
  have P: "map sp_id (poolPositions ?g) = map sn_id (sg_pools ?g)"
    "map sp_id (accountPositions ?g) = map sn_id (sg_accounts ?g)"
    "map sp_id (modelPositions ?g) = map sn_id (sg_models ?g)"
    by (simp_all add: poolPositions_def accountPositions_def modelPositions_def ids_column)
  have A: "leaves_fill (sankeyRibbons ?g) p" if p: "p \<in> set (poolPositions ?g)" for p
  proof -
    obtain n where "n \<in> set (sg_pools ?g)" "sn_id n = sp_id p" using node_of_position [OF P(1) p] .
    then show ?thesis using side_filled(1) [of p logs poolMap n] side_sums(1) [of n logs poolMap] p by simp
  qed
  have B: "leaves_fill (sankeyRibbons ?g) p \<and> arrivals_fill (sankeyRibbons ?g) p" if p: "p \<in> set (accountPositions ?g)" for p
  proof -
    obtain n where "n \<in> set (sg_accounts ?g)" "sn_id n = sp_id p" using node_of_position [OF P(2) p] .
    then show ?thesis
      using side_filled [of p logs poolMap n] side_sums(2,3) [of n logs poolMap] p by simp
  qed
  have C: "arrivals_fill (sankeyRibbons ?g) p" if p: "p \<in> set (modelPositions ?g)" for p
  proof -
    obtain n where "n \<in> set (sg_models ?g)" "sn_id n = sp_id p" using node_of_position [OF P(3) p] .
    then show ?thesis using side_filled(2) [of p logs poolMap n] side_sums(4) [of n logs poolMap] p by simp
  qed
  show ?thesis using A B C by (simp add: list_all_iff Let_def)
qed

end
