(* ===== verification/ActivityPanels.thy ===== *)
theory ActivityPanels
  imports Activity ActivityDigest
begin

text \<open>
  What \<^verbatim>\<open>web/src/pages/ActivityPage.tsx\<close> shows of its data: the bars of the trends, the 24-hour dial, the
  cells of the error list and of the latency panel, the rows of the request table with their details, the
  chip of a single request and the permalink of a row. The angles of the dial are real numbers.
\<close>

section \<open>Trend bars\<close>

record trend_bar =
  ba_heightPct :: rat
  ba_successPct :: rat
  ba_title :: jstr

definition bucket_max :: "trend_bucket list \<Rightarrow> int" where
  "bucket_max buckets = Max (set (map tb_total buckets @ [1]))"

definition bucket_text :: "trend_bucket \<Rightarrow> rat \<Rightarrow> jstr" where
  "bucket_text b rate =
     tb_label b @ [32, 0xB7, 32] @ show_int (tb_success b) @ c_ap_success_frag @ show_int (tb_fail b) @
     c_ap_fail_frag @ pct rate @ js '')''"

definition trend_bar_of :: "int \<Rightarrow> trend_bucket \<Rightarrow> trend_bar" where
  "trend_bar_of mx b =
     \<lparr>ba_heightPct = (if tb_total b > 0 then max (of_int (tb_total b) / of_int mx * 100) 6 else 2),
      ba_successPct = (if tb_total b > 0 then of_int (tb_success b) / of_int (tb_total b) * 100 else 0),
      ba_title = (if tb_total b > 0 then bucket_text b (of_int (tb_success b) / of_int (tb_total b))
                  else tb_label b @ c_ap_no_requests)\<rparr>"

definition bucket_total :: "trend_bucket list \<Rightarrow> int" where
  "bucket_total buckets = sum_list (map tb_total buckets)"

text \<open>The bars, the labels below them (first, middle, last) and the sum.\<close>

definition StackedTrendBars :: "trend_bucket list \<Rightarrow> trend_bar list \<times> jstr option list \<times> jstr" where
  "StackedTrendBars buckets =
     (map (trend_bar_of (bucket_max buckets)) buckets,
      (if buckets = [] then [None, None, None]
       else [Some (tb_label (hd buckets)), Some (tb_label (buckets ! ((length buckets - 1) div 2))),
             Some (tb_label (last buckets))]),
      (if bucket_total buckets > 0 then c_ap_total_a @ compact (bucket_total buckets) @ c_ap_total_b else c_act_dash))"

section \<open>The dial\<close>

text \<open>\<open>Number.parseInt(s, 10)\<close>.\<close>

definition parseInt10 :: "jstr \<Rightarrow> int option" where
  "parseInt10 s =
     (let t = dropWhile is_js_space s;
          neg = (t \<noteq> [] \<and> hd t = 45);
          u = (if t \<noteq> [] \<and> (hd t = 45 \<or> hd t = 43) then tl t else t);
          ds = takeWhile is_digit u
      in if ds = [] then None else Some (if neg then - int (digits_val ds) else int (digits_val ds)))"

definition hourToAngle :: "int \<Rightarrow> real" where
  "hourToAngle hour = (- 90 + of_int hour * 15) * (pi / 180)"

record dial_line =
  dl_x1 :: real
  dl_y1 :: real
  dl_x2 :: real
  dl_y2 :: real
  dl_color :: jstr
  dl_tooltip :: jstr

definition dial_color :: "rat \<Rightarrow> jstr" where
  "dial_color successRate =
     (if successRate \<ge> 0.98 then js ''rgba(93,159,135,0.85)''
      else if successRate \<ge> 0.9 then js ''rgba(192,154,85,0.85)''
      else js ''rgba(190,116,118,0.85)'')"

definition dial_angle :: "nat \<Rightarrow> trend_bucket \<Rightarrow> real" where
  "dial_angle i b = hourToAngle (case parseInt10 (tb_key b) of Some hour \<Rightarrow> hour | None \<Rightarrow> int i)"

definition dial_outer :: "int \<Rightarrow> trend_bucket \<Rightarrow> real" where
  "dial_outer mx b = (42 + 2) + of_int (tb_total b) / of_int mx * (96 - 42 - 4)"

definition dial_line_of :: "int \<Rightarrow> nat \<Rightarrow> trend_bucket \<Rightarrow> dial_line option" where
  "dial_line_of mx i b =
     (if tb_total b = 0 then None
      else let angle = dial_angle i b; rInner = 42 + 2; rOuter = dial_outer mx b;
               rate = (if tb_total b > 0 then of_int (tb_success b) / of_int (tb_total b) else 1)
           in Some \<lparr>dl_x1 = 110 + cos angle * rInner, dl_y1 = 110 + sin angle * rInner,
                    dl_x2 = 110 + cos angle * rOuter, dl_y2 = 110 + sin angle * rOuter,
                    dl_color = dial_color rate, dl_tooltip = bucket_text b rate\<rparr>)"

text \<open>The lines of the dial, the number in its middle and the hint below it.\<close>

definition MoonDial :: "trend_bucket list \<Rightarrow> dial_line list \<times> jstr \<times> jstr" where
  "MoonDial buckets =
     (concat (map (\<lambda>(i, b). case dial_line_of (bucket_max buckets) i b of None \<Rightarrow> [] | Some l \<Rightarrow> [l]) (enumerate 0 buckets)),
      (if bucket_total buckets > 0 then compact (bucket_total buckets) else c_act_dash),
      (if bucket_total buckets > 0 then c_ap_hover_hint else c_ap_no_24h))"

text \<open>The tick of a full hour and the place of its number.\<close>

definition dial_tick :: "int \<Rightarrow> (real \<times> real) \<times> (real \<times> real)" where
  "dial_tick h =
     (let angle = hourToAngle h in
      ((110 + cos angle * (96 + 3), 110 + sin angle * (96 + 3)),
       (110 + cos angle * (96 + 16), 110 + sin angle * (96 + 16))))"

section \<open>Error list and latency panel\<close>

definition error_pill :: "error_row \<Rightarrow> jstr \<times> jstr" where
  "error_pill row =
     ((if er_statusCode row = 0 \<or> er_statusCode row \<ge> 500 then js ''bg-status-red/12 text-status-red''
       else js ''bg-status-yellow/12 text-status-yellow''),
      (if er_statusCode row = 0 then c_ap_network else js ''HTTP '' @ show_int (er_statusCode row)))"

definition error_href :: "error_row \<Rightarrow> jstr" where
  "error_href row = js ''#logs-'' @ request_id (er_sample row)"

definition latency_cells :: "latency_percentiles \<Rightarrow> jstr list" where
  "latency_cells p =
     (if lp_count p > 0 then map (\<lambda>v. latency (of_int v)) [lp_p50 p, lp_p95 p, lp_p99 p]
      else [c_act_dash, c_act_dash, c_act_dash])"

definition latency_note :: "latency_percentiles \<Rightarrow> jstr" where
  "latency_note p =
     (if lp_count p > 0 then c_ap_based_a @ compact (lp_count p) @ c_ap_based_b else c_ap_no_success)"

section \<open>Table rows\<close>

definition getRequestSummary :: "request_log \<Rightarrow> jstr" where
  "getRequestSummary lg =
     js ''chat/completions'' @ [32, 0xB7, 32] @ (if log_stream lg then js ''stream'' else js ''non-stream'')"

definition or_else :: "jstr \<Rightarrow> jstr \<Rightarrow> jstr" where
  "or_else a b = (if a \<noteq> [] then a else b)"

record log_row =
  lr_id :: jstr
  lr_expanded :: bool
  lr_highlighted :: bool
  lr_time :: jstr
  lr_summary :: jstr
  lr_kind :: jstr
  lr_binding :: "(jstr \<times> bool) option"
  lr_retries :: "jstr option"
  lr_pool :: jstr
  lr_model :: jstr
  lr_status :: "jstr \<times> bool"
  lr_latency :: jstr
  lr_tokens :: jstr
  lr_request :: jstr

definition log_row_of :: "host \<Rightarrow> (int \<rightharpoonup> jstr) \<Rightarrow> activity_state \<Rightarrow> request_log \<Rightarrow> log_row" where
  "log_row_of h poolMap s lg =
     \<lparr>lr_id = js ''logs-'' @ request_id lg,
      lr_expanded = (act_expandedRowId s = Some (log_id lg)),
      lr_highlighted = (act_highlighted s = Some (request_id lg)),
      lr_time = shortDate h (log_created_at lg),
      lr_summary = getRequestSummary lg,
      lr_kind = or_else (log_source_kind lg) (js ''gateway''),
      lr_binding = map_option (\<lambda>t. (t, runtime_binding_status lg = js ''confirmed'')) (runtimeBindingLabel lg),
      lr_retries = (if attempt_count lg > 1 then Some (c_ap_retry_times @ show_int (attempt_count lg)) else None),
      lr_pool = nullish (poolMap (log_pool_id lg)) (js ''#'' @ show_int (log_pool_id lg)),
      lr_model = or_else (model_actual lg) (model_requested lg),
      lr_status = (if log_success lg then js ''OK'' else show_int (status_code lg), log_success lg),
      lr_latency = (if latency_ms lg > 0 then latency (of_int (latency_ms lg)) else c_act_dash),
      lr_tokens = tokenSummary lg,
      lr_request = request_id lg\<rparr>"

definition attempts_text :: "request_log \<Rightarrow> jstr" where
  "attempts_text lg =
     (if attempt_count lg = 0 then c_ap_rejected
      else if attempt_count lg > 1
      then js ''#'' @ show_int (attempt_count lg) @ (if log_success lg then c_ap_saved else c_ap_still_failed)
      else js ''#'' @ show_int (attempt_count lg))"

text \<open>The details of the open row, in their order, then the two that may be missing.\<close>

definition log_details :: "(int \<rightharpoonup> jstr) \<Rightarrow> request_log \<Rightarrow> jstr list \<times> jstr option \<times> jstr option" where
  "log_details poolMap lg =
     ([request_id lg, or_else (model_requested lg) (js ''--''), or_else (model_actual lg) (js ''--''),
       nullish (poolMap (log_pool_id lg)) (js ''Pool #'' @ show_int (log_pool_id lg)),
       or_else (log_account_label lg) (js ''#'' @ show_int (log_account_id lg)),
       (if log_source_kind lg = js ''cpa'' then or_else (runtime_binding_status lg) (js ''unknown'') else c_act_dash),
       or_else (runtime_auth_index lg) (or_else (runtime_auth_id lg) (or_else (runtime_account_key lg) c_act_dash)),
       show_int (status_code lg), latency (of_int (latency_ms lg)), tokenDetail lg, attempts_text lg],
      (if truthy_str (error_message lg) then error_message lg else None),
      (if runtime_binding_reason lg \<noteq> [] then Some (runtime_binding_reason lg) else None))"

section \<open>Filters, chip and permalink\<close>

definition pool_filter_text :: "pool list \<Rightarrow> jstr \<Rightarrow> jstr" where
  "pool_filter_text pools v =
     (if v = [] \<or> v = js ''all'' then c_ap_all
      else case find (\<lambda>p. show_int (pool_id p) = v) pools of
        Some p \<Rightarrow> pool_label p
      | None \<Rightarrow> js ''Pool #'' @ v)"

definition status_filter_text :: "jstr \<Rightarrow> jstr" where
  "status_filter_text v =
     (if v = js ''success'' then c_ap_ok else if v = js ''error'' then c_ap_failed else c_ap_all)"

definition model_filter_text :: "jstr \<Rightarrow> jstr" where
  "model_filter_text v = (if v = [] \<or> v = js ''all'' then c_ap_all else v)"

definition matched_text :: "activity_state \<Rightarrow> jstr" where
  "matched_text s =
     (let n = int (length (filteredLogs (act_filters s) (logs30d s))) in
      c_ap_matched_a @ [32] @ (if n > 0 then compact n else c_act_dash) @ c_ap_matched_b @
      (if n > LOGS_PER_PAGE then c_ap_per_page_a @ show_int LOGS_PER_PAGE @ c_ap_per_page_b else []) @ [0x3002])"

definition truncated_text :: "activity_state \<Rightarrow> jstr option" where
  "truncated_text s =
     (case act_usage s of
        None \<Rightarrow> None
      | Some u \<Rightarrow>
          if ub_truncated u
          then Some (c_ap_truncated_a @ compact (int (length (ub_logs u))) @ [32] @ c_ap_truncated_b) else None)"

definition request_chip :: "log_filters \<Rightarrow> jstr option" where
  "request_chip f =
     (let r = searchRequestId f in
      if r = [] then None else Some (slice 0 8 r @ (if length r > 8 then c_dg_ellipsis else [])))"

text \<open>The chip's button: the filter and the hash are cleared.\<close>

definition clear_request :: "activity_state \<Rightarrow> activity_state" where
  "clear_request s = (set_filters ((act_filters s)\<lparr>searchRequestId := []\<rparr>) s)\<lparr>act_hash := []\<rparr>"

definition permalink_hash :: "request_log \<Rightarrow> jstr" where
  "permalink_hash lg = js ''#logs-'' @ request_id lg"

text \<open>\<open>copyPermalink\<close>: the text for the clipboard, and the state after the clipboard has answered.\<close>

definition permalink_url :: "jstr \<Rightarrow> jstr \<Rightarrow> request_log \<Rightarrow> jstr" where
  "permalink_url origin path lg = origin @ path @ permalink_hash lg"

definition copyPermalink :: "bool \<Rightarrow> request_log \<Rightarrow> activity_state \<Rightarrow> activity_state" where
  "copyPermalink ok lg s =
     (if ok then s\<lparr>act_hash := permalink_hash lg, act_toasts := act_toasts s @ [c_ap_link_copied]\<rparr>
      else s\<lparr>act_toasts := act_toasts s @ [c_ap_link_failed]\<rparr>)"

text \<open>The keys that open a row like a click.\<close>

definition row_key :: "jstr \<Rightarrow> request_log \<Rightarrow> activity_state \<Rightarrow> activity_state" where
  "row_key key lg s = (if key = js ''Enter'' \<or> key = js '' '' then act_step s (ToggleRow (log_id lg)) else s)"

text \<open>What the page shows instead of its panels.\<close>

datatype activity_view = ActivitySkeleton | ActivityError jstr | ActivityPanels

definition activity_view_of :: "activity_state \<Rightarrow> activity_view" where
  "activity_view_of s =
     (if act_loading s \<and> act_usage s = None then ActivitySkeleton
      else case act_error s of
        Some m \<Rightarrow> (if m \<noteq> [] then ActivityError m else ActivityPanels)
      | None \<Rightarrow> ActivityPanels)"

section \<open>Lemmas on bars and dial\<close>

lemma bucket_max_ge: "b \<in> set buckets \<Longrightarrow> tb_total b \<le> bucket_max buckets" "1 \<le> bucket_max buckets"
  by (auto simp: bucket_max_def)

lemma percent_range:
  fixes a b :: int
  assumes "0 \<le> a" and "a \<le> b" and "0 < b"
  shows "0 \<le> of_int a / (of_int b :: 'a :: linordered_field) \<and> of_int a / of_int b \<le> (1 :: 'a)"
  using assms by (simp add: divide_le_eq_1)

text \<open>Every bar is visible and fits the panel, and its two parts make up the whole bar.\<close>

lemma trend_bar_ranges:
  assumes "b \<in> set buckets" and "0 \<le> tb_success b" and "tb_success b \<le> tb_total b"
  shows "2 \<le> ba_heightPct (trend_bar_of (bucket_max buckets) b) \<and> ba_heightPct (trend_bar_of (bucket_max buckets) b) \<le> 100 \<and>
    0 \<le> ba_successPct (trend_bar_of (bucket_max buckets) b) \<and> ba_successPct (trend_bar_of (bucket_max buckets) b) \<le> 100"
proof (cases "tb_total b > 0")
  case True
  define q r where "q = of_int (tb_total b) / rat_of_int (bucket_max buckets)"
    and "r = of_int (tb_success b) / rat_of_int (tb_total b)"
  have "0 \<le> q \<and> q \<le> 1"
    unfolding q_def using bucket_max_ge(1) [of b buckets] bucket_max_ge(2) [of buckets] assms(1) True
    by (intro percent_range) auto
  moreover have "0 \<le> r \<and> r \<le> 1"
    unfolding r_def using assms True by (intro percent_range) auto
  moreover have "ba_heightPct (trend_bar_of (bucket_max buckets) b) = max (q * 100) 6"
    "ba_successPct (trend_bar_of (bucket_max buckets) b) = r * 100"
    using True by (simp_all add: trend_bar_of_def q_def r_def)
  ultimately show ?thesis by (simp add: le_max_iff_disj)
qed (simp add: trend_bar_of_def)

lemma dial_outer_range:
  assumes "b \<in> set buckets" and "0 \<le> tb_total b"
  shows "44 \<le> dial_outer (bucket_max buckets) b \<and> dial_outer (bucket_max buckets) b \<le> 94"
proof -
  have "0 \<le> of_int (tb_total b) / real_of_int (bucket_max buckets) \<and> of_int (tb_total b) / real_of_int (bucket_max buckets) \<le> 1"
    using bucket_max_ge(1) [of b buckets] bucket_max_ge(2) [of buckets] assms by (intro percent_range) auto
  moreover have "dial_outer (bucket_max buckets) b = 44 + 50 * (of_int (tb_total b) / real_of_int (bucket_max buckets))"
    by (simp add: dial_outer_def)
  ultimately show ?thesis by linarith
qed

lemma parseInt10_digits: "parseInt10 (nat_digits n) = Some (int n)"
proof -
  obtain c r where c: "nat_digits n = c # r" by (cases "nat_digits n") auto
  have d: "is_digit c" using nat_digits_all [of c n] by (simp add: c)
  have tw: "takeWhile is_digit (nat_digits n) = nat_digits n"
    using nat_digits_all [of _ n] by (simp add: takeWhile_eq_all_conv)
  moreover have "dropWhile is_js_space (nat_digits n) = nat_digits n"
    using digit_facts(1) [OF d] by (simp add: c)
  moreover have "hd (nat_digits n) \<noteq> 45" "hd (nat_digits n) \<noteq> 43" using d by (auto simp: c is_digit_def)
  ultimately show ?thesis by (simp add: parseInt10_def Let_def tw)
qed

lemma getHours_range: "0 \<le> getHours h t \<and> getHours h t < 24"
  by (simp add: getHours_eq)

lemma dial_angle_bucket:
  assumes "i < 24"
  shows "dial_angle i (buildBuckets h logs R24h ! i) =
    hourToAngle (getHours h (bucket_start h R24h + int i * ms_per_hour))"
proof -
  let ?g = "getHours h (bucket_start h R24h + int i * ms_per_hour)"
  have "tb_key (buildBuckets h logs R24h ! i) = show_int ?g"
    using assms buildBuckets_nth [of i R24h h logs] by (simp add: bucket_count_def empty_bucket_def Let_def)
  moreover have "parseInt10 (show_int ?g) = Some ?g"
    using getHours_range [of h "bucket_start h R24h + int i * ms_per_hour"] by (simp add: show_int_def parseInt10_digits)
  ultimately show ?thesis by (simp add: dial_angle_def)
qed

lemma bucket_hour:
  "getHours h (bucket_start h R24h + int i * ms_per_hour) =
     (local_ms h (bucket_start h R24h) div ms_per_hour + int i) mod 24"
proof -
  obtain q where q: "local_ms h (bucket_start h R24h) = ms_per_hour * q" using bucket_start_hour by blast
  then have "local_ms h (bucket_start h R24h + int i * ms_per_hour) = ms_per_hour * (q + int i)"
    by (simp add: local_ms_def algebra_simps)
  then show ?thesis using q by (simp add: getHours_eq)
qed

lemma hour_direction_inj:
  assumes "0 \<le> a" "a < 24" "0 \<le> b" "b < 24"
    and "cos (hourToAngle a) = cos (hourToAngle b)" "sin (hourToAngle a) = sin (hourToAngle b)"
  shows "a = b"
proof -
  obtain k :: int where "hourToAngle a = hourToAngle b + 2 * pi * of_int k"
    using assms(5,6) by (metis sin_cos_eq_iff)
  then have "pi * (of_int a * 15) = pi * (of_int b * 15 + 360 * of_int k)"
    by (simp add: hourToAngle_def field_simps)
  then have "real_of_int a * 15 = of_int b * 15 + 360 * of_int k"
    by (subst (asm) mult_cancel_left) simp
  then have "real_of_int a = of_int (b + 24 * k)" by simp
  then have "a = b + 24 * k" by (simp only: of_int_eq_iff)
  then show ?thesis using assms(1-4) by presburger
qed

text \<open>The direction of the line that the dial draws for bucket \<open>i\<close>.\<close>

definition dial_direction :: "host \<Rightarrow> request_log list \<Rightarrow> nat \<Rightarrow> real \<times> real" where
  "dial_direction h logs i =
     (cos (dial_angle i (buildBuckets h logs R24h ! i)), sin (dial_angle i (buildBuckets h logs R24h ! i)))"

text \<open>
  A clock face with 24 hours, midnight on top and later hours clockwise: the point of an hour at a distance
  from the centre, and the ends of a line.
\<close>

definition clock_point :: "int \<Rightarrow> real \<Rightarrow> real \<times> real" where
  "clock_point hr r = (110 + r * sin (of_int hr * pi / 12), 110 - r * cos (of_int hr * pi / 12))"

definition line_ends :: "dial_line \<Rightarrow> (real \<times> real) \<times> (real \<times> real)" where
  "line_ends l = ((dl_x1 l, dl_y1 l), (dl_x2 l, dl_y2 l))"

definition dial_reach :: "trend_bucket list \<Rightarrow> trend_bucket \<Rightarrow> real" where
  "dial_reach bs b = 44 + 50 * (of_int (tb_total b) / of_int (bucket_max bs))"

lemma hour_on_clock:
  "cos (hourToAngle hr) = sin (of_int hr * pi / 12)" "sin (hourToAngle hr) = - cos (of_int hr * pi / 12)"
proof -
  have "hourToAngle hr = of_int hr * pi / 12 - pi / 2" by (simp add: hourToAngle_def field_simps)
  then show "cos (hourToAngle hr) = sin (of_int hr * pi / 12)" "sin (hourToAngle hr) = - cos (of_int hr * pi / 12)"
    by (simp_all add: cos_diff sin_diff)
qed

lemma dial_line_ends:
  assumes "tb_key b = show_int hr" and "0 \<le> hr"
  shows "map line_ends (case dial_line_of (bucket_max bs) i b of None \<Rightarrow> [] | Some l \<Rightarrow> [l]) =
    (if tb_total b = 0 then [] else [(clock_point hr 44, clock_point hr (dial_reach bs b))])"
proof -
  have a: "dial_angle i b = hourToAngle hr"
    using assms by (simp add: dial_angle_def show_int_def parseInt10_digits)
  show ?thesis
    by (simp add: dial_line_of_def a Let_def line_ends_def hour_on_clock clock_point_def dial_outer_def dial_reach_def
        algebra_simps)
qed

lemma dial_lines_ends:
  assumes "map tb_key cs = map show_int hrs" and "list_all (\<lambda>hr. 0 \<le> hr) hrs"
  shows "map line_ends (concat (map (\<lambda>(i, b). case dial_line_of (bucket_max bs) i b of None \<Rightarrow> [] | Some l \<Rightarrow> [l]) (enumerate n cs))) =
    map (\<lambda>(b, hr). (clock_point hr 44, clock_point hr (dial_reach bs b))) (filter (\<lambda>(b, hr). tb_total b \<noteq> 0) (zip cs hrs))"
  using assms
proof (induction cs arbitrary: n hrs)
  case (Cons c cs)
  then obtain hr hrs' where "hrs = hr # hrs'" "tb_key c = show_int hr" by (cases hrs) auto
  with Cons show ?case by (simp add: dial_line_ends)
qed simp

lemma clock_point_inj:
  assumes "list_all (\<lambda>hr. 0 \<le> hr \<and> hr < 24) hrs"
  shows "inj_on (\<lambda>hr. clock_point hr 44) (set hrs)"
  using assms hour_direction_inj
  by (auto simp: inj_on_def clock_point_def list_all_iff hour_on_clock)



text \<open>
  With a fixed offset from UTC, so without a change of the clock within the day, the 24 buckets have 24
  different hours, and no two of their lines point the same way.
\<close>

theorem dial_hours_apart:
  "inj_on (dial_direction h logs) {..<24} \<and>
   list_all (\<lambda>i. dial_angle i (buildBuckets h logs R24h ! i) =
        hourToAngle (getHours h (bucket_start h R24h + int i * ms_per_hour)) \<and>
      44 \<le> dial_outer (bucket_max (buildBuckets h logs R24h)) (buildBuckets h logs R24h ! i) \<and>
      dial_outer (bucket_max (buildBuckets h logs R24h)) (buildBuckets h logs R24h ! i) \<le> 94) [0..<24]"
proof -
  let ?hr = "\<lambda>i. getHours h (bucket_start h R24h + int i * ms_per_hour)"
  have "i = j" if "i < 24" "j < 24" "dial_direction h logs i = dial_direction h logs j" for i j
  proof -
    have "?hr i = ?hr j"
      using that getHours_range by (intro hour_direction_inj) (auto simp: dial_direction_def dial_angle_bucket)
    then have "int i mod 24 = int j mod 24"
      unfolding bucket_hour using mod_add_left_eq mod_diff_cong by (metis add_diff_cancel_left')
    then show ?thesis using that(1,2) by simp
  qed
  moreover have "44 \<le> dial_outer (bucket_max bs) (bs ! i) \<and> dial_outer (bucket_max bs) (bs ! i) \<le> 94"
    if "i < 24" "bs = buildBuckets h logs R24h" for i bs
    using that by (intro dial_outer_range) (auto simp: bucket_count_def buildBuckets_nth)
  ultimately show ?thesis by (auto simp: inj_on_def list_all_iff dial_angle_bucket)
qed

text \<open>The hours run clockwise: six stands on the right of the dial, midnight on top, eighteen on the left.\<close>

lemma hour_angles: "hourToAngle 0 = - (pi / 2)" "hourToAngle 6 = 0" "hourToAngle 18 = pi"
  by (simp_all add: hourToAngle_def field_simps)

lemma dial_clockwise:
  "110 < fst (fst (dial_tick 6)) \<and> fst (fst (dial_tick 18)) < 110 \<and> snd (fst (dial_tick 0)) < 110"
  by (simp add: dial_tick_def Let_def hour_angles)

section \<open>Lemmas on rows and links\<close>

text \<open>A row whose badge is not green shows no token count, and a row with one has no such badge.\<close>

lemma unconfirmed_row:
  "(case lr_binding (log_row_of h m s lg) of Some (_, ok) \<Rightarrow> \<not> ok | None \<Rightarrow> False) \<longleftrightarrow> \<not> hasTrustedTokenAccounting lg"
  by (auto simp: log_row_of_def runtimeBindingLabel_def hasTrustedTokenAccounting_def)

lemma unconfirmed_row_tokens:
  "\<not> hasTrustedTokenAccounting lg \<Longrightarrow> lr_tokens (log_row_of h m s lg) = c_act_unconfirmed"
  by (simp add: log_row_of_def tokenSummary_def)

text \<open>A failure without an answer and without a message is called a network fault above and HTTP 0 below.\<close>

lemma error_pill_zero:
  assumes "status_code lg = 0" and "\<not> truthy_str (error_message lg)"
    and "er_statusCode row = status_code lg" and "er_message row = failure_message lg"
  shows "snd (error_pill row) = c_ap_network \<and> er_message row = js ''HTTP 0''"
  using assms
  by (auto simp: error_pill_def failure_message_def or_str_def truthy_str_def show_int_def nat_digits.simps js_def split: option.splits)

lemma permalink_read:
  assumes "request_id lg \<noteq> []" and "list_all is_slug_unit (request_id lg)"
  shows "hash_request (permalink_hash lg) = Some (request_id lg)"
proof -
  have "drop 6 (permalink_hash lg) = request_id lg" by (simp add: permalink_hash_def js_def)
  then show ?thesis using assms by (simp add: hash_request_def permalink_hash_def)
qed

text \<open>
  Copying a link moves the reader: the copied hash stays in the address, and when the next automatic
  refresh is answered the page follows it. Whatever filters were set, only that request is left, and its
  row is opened, although nobody asked for it.
\<close>

theorem copied_link_followed_by_refresh:
  assumes "request_id lg \<noteq> []" and "list_all is_slug_unit (request_id lg)"
    and "act_hashHandled s \<noteq> Some (request_id lg)" and "find (\<lambda>l. request_id l = request_id lg) (ub_logs u) = Some target"
    and "t = foldl act_step (copyPermalink True lg s) [StartLoad, LoadOk (Suc (act_loadRequestId s)) ps u now]"
  shows "act_filters t = no_filters\<lparr>searchRequestId := request_id lg\<rparr> \<and> act_expandedRowId t = Some (log_id target)"
  using assms permalink_read [OF assms(1,2)]
  by (simp add: copyPermalink_def deep_link_def jumpToLog_def logs30d_def set_filters_def)

theorem copied_link_followed_by_refresh_witness:
  "act_expandedRowId (foldl act_step (copyPermalink True (blank_log\<lparr>request_id := js ''b''\<rparr>) jump_state)
     [StartLoad, LoadOk 1 None (the (act_usage jump_state)) 0]) = Some 2"
proof -
  let ?lg = "blank_log\<lparr>request_id := js ''b''\<rparr>" and ?u = "the (act_usage jump_state)"
  have "find (\<lambda>l. request_id l = request_id ?lg) (ub_logs ?u) = Some (blank_log\<lparr>request_id := js ''b'', log_id := 2\<rparr>)"
    by (simp add: jump_state_def js_def)
  moreover have "act_loadRequestId jump_state = 0" "act_hashHandled jump_state = None"
    by (simp_all add: jump_state_def act_initial_def)
  moreover have "list_all is_slug_unit (request_id ?lg)" "request_id ?lg \<noteq> []"
    by (simp_all add: js_def is_slug_unit_def)
  ultimately show ?thesis
    using copied_link_followed_by_refresh [of ?lg jump_state ?u _ _ None 0] by fastforce
qed

text \<open>Once the chip is cleared, a refresh leaves the filters alone.\<close>

lemma set_filters_search: "searchRequestId (act_filters (set_filters f s)) = searchRequestId f"
  by (simp add: set_filters_def)

lemma cleared_request_stays_cleared:
  assumes "t = foldl act_step (clear_request s) [StartLoad, LoadOk (Suc (act_loadRequestId s)) ps u now]"
  shows "searchRequestId (act_filters t) = [] \<and> request_chip (act_filters t) = None"
proof -
  have "act_loadRequestId (clear_request s) = act_loadRequestId s"
    by (simp add: clear_request_def set_filters_def)
  then have "act_filters t = act_filters (clear_request s)"
    using assms by (simp add: clear_request_def deep_link_def hash_request_def startsWith_def js_def)
  then show ?thesis by (simp add: clear_request_def set_filters_search request_chip_def)
qed

end
