(* ===== verification/DrawerViews.thy ===== *)
theory DrawerViews
  imports AddAccountRuns
begin

text \<open>
  What the "add account" drawer of \<^verbatim>\<open>web/src/components/AddAccountDrawer.tsx\<close> shows: the heading with its four
  dots, the panel of the step, and the buttons of the footer, the disabled ones included. The view is a
  function of the drawer's state and of the clock of the countdown; its values come in the order of the
  markup. \<open>None\<close> is the exception that reading the title of an unknown step raises.
\<close>

section \<open>Parts\<close>

text \<open>A card, pill or row that can be chosen: whether it is the active one, its title and its description.\<close>

record choice =
  ch_active :: bool
  ch_title :: jstr
  ch_description :: "jstr option"

definition PathCard :: "bool \<Rightarrow> jstr \<Rightarrow> jstr \<Rightarrow> choice" where
  "PathCard active title description =
     \<lparr>ch_active = active, ch_title = title, ch_description = Some description\<rparr>"

definition SelectPill :: "bool \<Rightarrow> jstr \<Rightarrow> choice" where
  "SelectPill active label = \<lparr>ch_active = active, ch_title = label, ch_description = None\<rparr>"

definition PoolRow :: "bool \<Rightarrow> jstr \<Rightarrow> jstr option \<Rightarrow> choice" where
  "PoolRow active title description =
     \<lparr>ch_active = active, ch_title = title,
      ch_description = (if truthy_str description then description else None)\<rparr>"

text \<open>The copy action starts a timer per copy and stops none.\<close>

record copy_action =
  ca_copied :: bool
  ca_timers :: nat

definition InlineCopyAction :: "bool \<Rightarrow> copy_action \<Rightarrow> copy_action" where
  "InlineCopyAction ok s = (if ok then \<lparr>ca_copied = True, ca_timers = Suc (ca_timers s)\<rparr> else s)"

definition copy_action_timer :: "copy_action \<Rightarrow> copy_action" where
  "copy_action_timer s =
     (if ca_timers s = 0 then s else \<lparr>ca_copied = False, ca_timers = ca_timers s - 1\<rparr>)"

definition copy_action_label :: "copy_action \<Rightarrow> jstr" where
  "copy_action_label s = (if ca_copied s then c_dw_copied else c_dw_copy)"

text \<open>The clock of the countdown: it is set and started with each active session, and stopped by any other.\<close>

record countdown_clock =
  ck_now :: int
  ck_running :: bool

definition clock_effect :: "int \<Rightarrow> login_session option \<Rightarrow> countdown_clock \<Rightarrow> countdown_clock" where
  "clock_effect now session s =
     (if \<not> isActiveLoginSession session then s\<lparr>ck_running := False\<rparr> else \<lparr>ck_now = now, ck_running = True\<rparr>)"

definition clock_tick :: "int \<Rightarrow> countdown_clock \<Rightarrow> countdown_clock" where
  "clock_tick now s = (if ck_running s then s\<lparr>ck_now := now\<rparr> else s)"

section \<open>The panels\<close>

record form_field =
  ff_label :: jstr
  ff_value :: jstr
  ff_placeholder :: jstr
  ff_secret :: bool

record source_panel =
  sp_paths :: "choice list"
  sp_pills :: "choice list option"
  sp_deviceHint :: bool

definition source_panel_of :: "drawer \<Rightarrow> source_panel" where
  "source_panel_of s =
     \<lparr>sp_paths =
        [PathCard (dr_sourceKind s = Some SrcCpa) (js ''CPA'') c_dw_cpa_card,
         PathCard (dr_sourceKind s = Some SrcDirect) c_dw_direct c_dw_direct_card],
      sp_pills =
        (if dr_sourceKind s \<noteq> None
         then Some (map (\<lambda>item. SelectPill (dr_provider s = po_value item) (po_label item)) (providerOptions s))
         else None),
      sp_deviceHint = (dr_sourceKind s = Some SrcCpa)\<rparr>"

text \<open>The pools to choose from, or, after a failed load, the button that loads them again.\<close>

record pool_panel =
  pp_recommended :: jstr
  pp_note :: jstr
  pp_rows :: "jstr + choice list"
  pp_newLabel :: "form_field option"

definition recommendedPoolLabel :: "drawer \<Rightarrow> jstr" where
  "recommendedPoolLabel s =
     (if dr_provider s \<noteq> [] then nullish (PROVIDER_POOL_RECOMMENDATION (dr_provider s)) [] else [])"

definition new_pool_chosen :: "drawer \<Rightarrow> bool" where
  "new_pool_chosen s \<longleftrightarrow> dr_selectedPoolId s = NEW_POOL_VALUE \<or> dr_selectedPoolId s = [] \<and> dr_pools s = []"

definition pool_panel_of :: "drawer \<Rightarrow> pool_panel" where
  "pool_panel_of s =
     \<lparr>pp_recommended = c_dw_recommended @
        (if dr_poolLoadFailed s then c_dw_reload else or_str (Some (recommendedPoolLabel s)) c_dw_by_hand),
      pp_note = (if dr_poolLoadFailed s then c_dw_pools_failed else c_dw_may_change),
      pp_rows =
        (if dr_poolLoadFailed s then Inl c_dw_pools_unsafe
         else Inr (map (\<lambda>p. PoolRow (dr_selectedPoolId s = show_int (pool_id p)) (pool_label p) None) (dr_pools s) @
           [PoolRow (new_pool_chosen s) c_dw_new_pool (Some c_dw_new_pool_hint)])),
      pp_newLabel =
        (if \<not> dr_poolLoadFailed s \<and> new_pool_chosen s
         then Some \<lparr>ff_label = c_dw_new_pool_name, ff_value = dr_newPoolLabel s,
                    ff_placeholder = c_dw_new_pool_example, ff_secret = False\<rparr>
         else None)\<rparr>"

definition direct_fields :: "drawer \<Rightarrow> form_field list" where
  "direct_fields s =
     (let f = dr_directForm s in
      [\<lparr>ff_label = js ''Label'', ff_value = fm_label f, ff_placeholder = c_dw_label_example, ff_secret = False\<rparr>,
       \<lparr>ff_label = js ''Base URL'', ff_value = fm_base_url f, ff_placeholder = js ''https://api.openai.com/v1'',
        ff_secret = False\<rparr>,
       \<lparr>ff_label = js ''API Key'', ff_value = fm_api_key f, ff_placeholder = c_dw_paste_key, ff_secret = True\<rparr>])"

text \<open>The authorization window. An unreadable expiry date counts down to \<open>NaN\<close>.\<close>

record login_window =
  lw_restored :: bool
  lw_alert :: bool
  lw_label :: jstr
  lw_hint :: jstr
  lw_countdown :: jstr
  lw_until :: jstr
  lw_uri :: "jstr option"
  lw_copyUri :: "jstr option"
  lw_code :: jstr
  lw_copyCode :: "jstr option"
  lw_error :: "jstr option"

definition countdownLabel :: "host \<Rightarrow> int \<Rightarrow> login_session option \<Rightarrow> jstr" where
  "countdownLabel h nowTick session =
     (case remainingMs h session nowTick of Some ms \<Rightarrow> formatCountdown ms | None \<Rightarrow> js ''NaN:NaN'')"

definition shown_if :: "jstr option \<Rightarrow> jstr option" where
  "shown_if v = (if truthy_str v then v else None)"

definition login_window_of :: "host \<Rightarrow> int \<Rightarrow> drawer \<Rightarrow> login_session \<Rightarrow> login_window" where
  "login_window_of h nowTick s session =
     \<lparr>lw_restored = dr_restoredSession s, lw_alert = ended_status (ls_status session),
      lw_label = getLoginStatusLabel (ls_status session), lw_hint = getLoginStatusHint (ls_status session),
      lw_countdown = countdownLabel h nowTick (Some session),
      lw_until = c_dw_window_until @ formatExpiryTime h (ls_expires_at session) @ c_dw_window_ends,
      lw_uri = ls_verification_uri session, lw_copyUri = shown_if (ls_verification_uri session),
      lw_code = or_str (ls_user_code session) c_dw_code_waiting, lw_copyCode = shown_if (ls_user_code session),
      lw_error = shown_if (ls_error_message session)\<rparr>"

definition openVerificationUri :: "drawer \<Rightarrow> jstr option" where
  "openVerificationUri s =
     (case dr_loginSession s of None \<Rightarrow> None | Some session \<Rightarrow> shown_if (ls_verification_uri session))"

text \<open>Before a session: whether the built-in service is there.\<close>

definition login_panel_of :: "host \<Rightarrow> int \<Rightarrow> drawer \<Rightarrow> jstr + login_window" where
  "login_panel_of h nowTick s =
     (case dr_loginSession s of
        None \<Rightarrow> Inl (if dr_cpaService s = None then c_aa_no_service else c_dw_goes_on)
      | Some session \<Rightarrow> Inr (login_window_of h nowTick s session))"

record import_panel =
  ip_caption :: jstr
  ip_error :: "jstr option"
  ip_summary :: "(jstr \<times> jstr) list option"
  ip_preview :: "(jstr \<times> jstr) list option"

definition ImportSummaryRows :: "auth_summary \<Rightarrow> (jstr \<times> jstr) list" where
  "ImportSummaryRows m =
     [(js ''Provider'', or_str (Some (as_provider m)) (js ''codex'')), (js ''Email'', or_str (Some (as_email m)) (js ''--'')),
      (js ''Account ID'', or_str (Some (as_account_id m)) (js ''--'')), (js ''Plan'', or_str (Some (as_plan_type m)) (js ''--'')),
      (js ''Expired At'', or_str (Some (as_expired_at m)) (js ''--'')),
      (js ''Disabled'', if as_disabled m then js ''Yes'' else js ''No'')]"

definition preview_status :: "batch_item \<Rightarrow> jstr" where
  "preview_status item =
     (if bi_status item = js ''preview'' then or_str (bi_action item) c_aa_to_confirm else bi_status item)"

definition import_panel_of :: "drawer \<Rightarrow> import_panel" where
  "import_panel_of s =
     \<lparr>ip_caption =
        (if dr_authJSONFiles s \<noteq> [] then show_int (int (length (dr_authJSONFiles s))) @ c_dw_files else c_dw_choose_file),
      ip_error = shown_if (dr_authJSONError s),
      ip_summary = map_option ImportSummaryRows (dr_authJSONSummary s),
      ip_preview =
        map_option (\<lambda>p. map (\<lambda>item. (bi_client_file_name item, preview_status item)) (ba_items p)) (dr_authJSONPreview s)\<rparr>"

record done_panel =
  dp_lines :: "jstr list"
  dp_items :: "(jstr \<times> jstr \<times> jstr \<times> jstr) list option"

definition done_item :: "batch_item \<Rightarrow> jstr \<times> jstr \<times> jstr \<times> jstr" where
  "done_item item =
     (bi_client_file_name item, batchStatusLabel item,
      or_str (bi_masked_email item) (or_str (bi_account_key_hash item) (or_str (bi_error_message item) c_dw_no_summary)),
      runtimeSyncLabel (bi_runtime_sync item))"

definition done_panel_of :: "result_state \<Rightarrow> done_panel" where
  "done_panel_of r =
     (let batchId = (case re_batch r of None \<Rightarrow> None | Some b \<Rightarrow> shown_if (ba_batch_id b)) in
      \<lparr>dp_lines =
         [c_dw_done_source @ re_source r, c_dw_done_pool @ re_poolLabel r, c_dw_done_label @ re_label r] @
         (case batchId of None \<Rightarrow> [] | Some b \<Rightarrow> [c_dw_done_batch @ b]),
       dp_items = map_option (\<lambda>b. map done_item (ba_items b)) (re_batch r)\<rparr>)"

section \<open>The drawer\<close>

datatype drawer_panel =
    SourcePanel source_panel
  | PoolPanel pool_panel
  | FormPanel "form_field list"
  | CpaPanel jstr jstr "choice list" "(jstr + login_window) + import_panel"
  | DonePanel done_panel

definition drawer_panels :: "host \<Rightarrow> int \<Rightarrow> drawer \<Rightarrow> drawer_panel list" where
  "drawer_panels h nowTick s =
     (if dr_step s = 1 then [SourcePanel (source_panel_of s)] else []) @
     (if dr_step s = 2 then [PoolPanel (pool_panel_of s)] else []) @
     (if dr_step s = 3 \<and> dr_sourceKind s = Some SrcDirect then [FormPanel (direct_fields s)] else []) @
     (if dr_step s = 3 \<and> dr_sourceKind s = Some SrcCpa
      then (let logs = (dr_cpaEntryMode s = EntryLogin) in
        [CpaPanel (if logs then c_dw_authorize else c_dw_import) (if logs then c_dw_authorize_hint else c_dw_import_hint)
           [PathCard logs (js ''Login with Codex'') c_dw_login_card,
            PathCard (\<not> logs) (js ''Import auth JSON'') c_dw_import_card]
           (if logs then Inl (login_panel_of h nowTick s) else Inr (import_panel_of s))])
      else []) @
     (case dr_result s of Some r \<Rightarrow> if dr_step s = 4 then [DonePanel (done_panel_of r)] else [] | None \<Rightarrow> [])"

text \<open>The buttons of the footer: each with its label and whether it is disabled.\<close>

definition buttons_left :: "drawer \<Rightarrow> (footer_button \<times> jstr \<times> bool) list" where
  "buttons_left s =
     (let cpaAuthorizationInProgress = isActiveLoginSession (dr_loginSession s);
          canCancelCpaAuthorization = (session_status s = Some (js ''pending'')) in
      if dr_step s = 3 \<and> dr_sourceKind s = Some SrcCpa \<and> cpaAuthorizationInProgress then
        [(BLater, c_dw_later, False), (BCancel, c_dw_cancel, dr_loading s \<or> \<not> canCancelCpaAuthorization)]
      else if dr_step s > 1 \<and> dr_step s < 4 \<and> \<not> cpaAuthorizationInProgress then [(BBack, c_dw_back, False)]
      else if dr_step s = 4 then [(BNextAccount, c_dw_next, False)]
      else [])"

definition buttons_right :: "drawer \<Rightarrow> (footer_button \<times> jstr \<times> bool) list" where
  "buttons_right s =
     (let cpa3 = (dr_step s = 3 \<and> dr_sourceKind s = Some SrcCpa); login3 = (cpa3 \<and> dr_cpaEntryMode s = EntryLogin);
          no_start = (dr_loading s \<or> dr_cpaService s = None);
          confirms = (dr_authJSONBatchStage s = Some StagePreview) in
      (if dr_step s = 1 then [(BContinue, c_dw_continue, \<not> canContinueStepOne s)] else []) @
      (if dr_step s = 2 then [(BConfirmPool, c_dw_confirm_pool, \<not> canContinueStepTwo s)] else []) @
      (if dr_step s = 3 \<and> dr_sourceKind s = Some SrcDirect
       then [(BSubmitDirect, c_dw_confirm_add, dr_loading s \<or> \<not> canSubmitDirect s)] else []) @
      (if login3 \<and> dr_loginSession s = None then [(BStart, c_dw_start, no_start)] else []) @
      (if login3 \<and> (session_status s = Some (js ''failed'') \<or> session_status s = Some (js ''expired''))
       then [(BRestart, c_dw_restart, no_start)] else []) @
      (if login3 \<and> session_status s = Some (js ''cancelled'') then [(BRestart, c_dw_restart, no_start)] else []) @
      (if cpa3 \<and> dr_cpaEntryMode s = EntryImport
       then [(if confirms then BConfirmImport else BPreview, if confirms then c_dw_confirm_import else c_dw_preview,
              no_start \<or> dr_authJSONFiles s = [] \<or> truthy_str (dr_authJSONError s))]
       else []) @
      (if dr_step s = 4 then [(BGoToPool, c_dw_go, False)] else []))"

text \<open>A dot is the current step, a step done or a step to come.\<close>

datatype step_dot = DotCurrent | DotDone | DotToCome

record drawer_view =
  dv_open :: bool
  dv_heading :: jstr
  dv_description :: jstr
  dv_dots :: "step_dot list"
  dv_panels :: "drawer_panel list"
  dv_left :: "(footer_button \<times> jstr \<times> bool) list"
  dv_right :: "(footer_button \<times> jstr \<times> bool) list"

definition step_dot_of :: "int \<Rightarrow> int \<Rightarrow> step_dot" where
  "step_dot_of step index = (if step = index then DotCurrent else if step > index then DotDone else DotToCome)"

definition AddAccountDrawer :: "host \<Rightarrow> int \<Rightarrow> drawer \<Rightarrow> drawer_view option" where
  "AddAccountDrawer h nowTick s =
     (case STEP_META (dr_step s) of
        None \<Rightarrow> None
      | Some (title, description) \<Rightarrow>
          Some \<lparr>dv_open = addAccountOpen (dr_ui s),
            dv_heading = js ''Step '' @ show_int (dr_step s) @ js '' '' @ [0xB7] @ js '' '' @ title,
            dv_description = description, dv_dots = map (step_dot_of (dr_step s)) [1, 2, 3, 4],
            dv_panels = drawer_panels h nowTick s, dv_left = buttons_left s, dv_right = buttons_right s\<rparr>)"

section \<open>The enabled buttons\<close>

definition enabled_buttons :: "(footer_button \<times> jstr \<times> bool) list \<Rightarrow> footer_button list" where
  "enabled_buttons bs = map fst (filter (\<lambda>b. \<not> snd (snd b)) bs)"

lemma enabled_buttons_simps [simp]:
  "enabled_buttons [] = []"
  "enabled_buttons ((b, l, d) # bs) = (if d then enabled_buttons bs else b # enabled_buttons bs)"
  "enabled_buttons (bs @ cs) = enabled_buttons bs @ enabled_buttons cs"
  by (simp_all add: enabled_buttons_def)

text \<open>The buttons a user can press are those shown enabled.\<close>

lemma enabled_left: "enabled_buttons (buttons_left s) = footer_left s"
  by (simp add: buttons_left_def footer_left_def Let_def)

lemma enabled_right: "enabled_buttons (buttons_right s) = footer_right s"
  by (cases "session_status s")
    (auto simp: buttons_right_def footer_right_def Let_def ended_status_def session_status_def js_def)

section \<open>The source behind a step\<close>

definition source_ok :: "drawer \<Rightarrow> bool" where
  "source_ok s \<longleftrightarrow> (dr_step s = 2 \<or> dr_step s = 3 \<longrightarrow> dr_sourceKind s \<noteq> None)"

lemma flush_sourceKind [simp]:
  "dr_sourceKind (flush old new) = (if closes old new then None else dr_sourceKind new)"
proof -
  have "dr_sourceKind (run_effects old new) = (if closes old new then None else dr_sourceKind new)"
    by (simp add: run_effects_def run_open_effect_def open_effect_def reset_on_close_def closes_def setter_defs)
  then show ?thesis by (simp add: flush_def Let_def poll_effect_def)
qed


lemma ensurePool_frame [simp]:
  "dr_sourceKind (snd (ensurePool a c s)) = dr_sourceKind s" "dr_ui (snd (ensurePool a c s)) = dr_ui s"
  by (simp_all add: ensurePool_def Let_def setter_defs split: sum.split)

lemma not_closes [simp]: "dr_ui old = dr_ui new \<Longrightarrow> \<not> closes old new"
  by (simp add: closes_def)

lemma setters_source [simp]:
  "source_ok (toast m s) = source_ok s" "source_ok (send r s) = source_ok s" "source_ok (set_pools ps s) = source_ok s"
  "source_ok (set_session x s) = source_ok s" "source_ok (set_flow f s) = source_ok s"
  "source_ok (set_service v s) = source_ok s" "source_ok (writeStoredCpaSession w s) = source_ok s"
  "source_ok (clearStoredCpaSession s) = source_ok s" "source_ok (refreshAfterAccountCreate n s) = source_ok s"
  "source_ok (snd (ensurePool a c s)) = source_ok s" "source_ok (s\<lparr>dr_loading := b\<rparr>) = source_ok s"
  by (simp_all add: source_ok_def setter_defs refreshAfterAccountCreate_def Let_def split: option.split)

lemma flush_source_ok: "source_ok new \<Longrightarrow> source_ok (flush old new)"
  by (simp add: source_ok_def)

lemma source_submits:
  assumes "source_ok c"
  shows "source_ok (submitDirect p a c)" "source_ok (confirmAuthJSONImport p b c)"
proof -
  obtain made s1 where e: "ensurePool p c (c\<lparr>dr_loading := True\<rparr>) = (made, s1)" by fastforce
  have "source_ok s1" using setters_source(10) [of p c "c\<lparr>dr_loading := True\<rparr>"] assms by (simp add: e)
  then have "source_ok (flush c s1)" by (rule flush_source_ok)
  then show "source_ok (submitDirect p a c)" "source_ok (confirmAuthJSONImport p b c)"
    using assms unfolding submitDirect_def confirmAuthJSONImport_def e
    by (auto simp: Let_def split: sum.split option.split) (simp_all add: source_ok_def setter_defs)
qed

lemma source_logins:
  "source_ok s \<Longrightarrow> source_ok (login_failed f s)" "source_ok (adopt_session svc x c s)"
  "dr_sourceKind s \<noteq> None \<Longrightarrow> source_ok (begin_session svc n x c s)"
  "source_ok (show_restored flow prov x s)" "source_ok (finish_restored flow x s)"
  "source_ok (store_restored svc prov flow x s) = source_ok s"
  by (simp_all add: login_failed_def adopt_session_def begin_session_def show_restored_def finish_restored_def
      store_restored_def Let_def) (simp_all add: source_ok_def setter_defs)

lemma setters_frame:
  "dr_sourceKind (send r s) = dr_sourceKind s" "dr_ui (send r s) = dr_ui s"
  "dr_sourceKind (set_flow f s) = dr_sourceKind s" "dr_ui (set_flow f s) = dr_ui s"
  by (simp_all add: setter_defs)

lemma source_start:
  assumes "source_ok c" "dr_sourceKind c \<noteq> None"
  shows "source_ok (startCpaLogin a p l c)"
proof (cases "dr_cpaService c")
  case None
  then show ?thesis using assms(1) by (simp add: startCpaLogin_def)
next
  case (Some svc)
  define s where "s = send (GetActiveSession (svc_id svc)) (c\<lparr>dr_loading := True\<rparr>)"
  have s: "source_ok s" "dr_sourceKind s \<noteq> None" using assms by (simp_all add: s_def setters_frame)
  obtain made s1 where e: "ensurePool p c s = (made, s1)" by fastforce
  have s1: "source_ok s1" "dr_sourceKind s1 \<noteq> None" "dr_ui s1 = dr_ui s"
    using setters_source(10) [of p c s] ensurePool_frame [of p c s] s by (simp_all add: e)
  define s2 where "s2 = flush s s1"
  have s2: "source_ok s2" "dr_sourceKind s2 \<noteq> None" using s1 by (simp_all add: s2_def flush_source_ok)
  have s3: "source_ok (flush s2 (send r (set_flow f s2)))" "dr_sourceKind (flush s2 (send r (set_flow f s2))) \<noteq> None" for r f
    using s2 by (simp_all add: flush_source_ok setters_frame)
  show ?thesis
    using assms(1) Some s s2 s3 unfolding startCpaLogin_def Some
    by (auto simp: Let_def e s_def [symmetric] s2_def [symmetric] intro!: flush_source_ok source_logins split: sum.split)
qed

lemma source_restore: "source_ok s \<Longrightarrow> source_ok (snd (restoreBySession ps svc i fb x s))"
  by (auto simp: restoreBySession_def Let_def source_logins intro!: flush_source_ok split: sum.split prod.split)

lemma source_open_loaded:
  assumes "source_ok s"
  shows "source_ok (open_loaded a b c d s)"
proof -
  have fin: "source_ok (t\<lparr>dr_loading := False, dr_loadsOut := n\<rparr>) = source_ok t" for t n by (simp add: source_ok_def)
  have fl: "source_ok (t\<lparr>dr_poolLoadFailed := x\<rparr>) = source_ok t" for t x by (simp add: source_ok_def)
  have rest: "source_ok t'" if "source_ok t" "restoreBySession ps svc i fb x t = (ok, t')" for ps svc i fb x t ok t'
    using source_restore [OF that(1), of ps svc i fb x] that(2) by simp
  show ?thesis unfolding open_loaded_def Let_def fin
    by (auto simp: assms fl intro!: flush_source_ok source_restore split: option.split sum.split prod.split)
      (auto simp: assms fl intro!: flush_source_ok elim!: rest [rotated])
qed

lemma source_polls:
  assumes "source_ok s"
  shows "source_ok (timer_fires s)" "source_ok (poll_answered i a s)" "source_ok (poll_refreshed j s)" "source_ok (cancelCpaLogin b s)"
proof -
  have g: "source_ok (poll_got p x t) = source_ok t" for p x t
    by (simp add: poll_got_def poll_stored_def Let_def source_ok_def setter_defs split: option.split)
  show "source_ok (poll_answered i a s)"
    using assms by (auto simp: poll_answered_def Let_def g intro!: flush_source_ok split: sum.split) (auto simp: source_ok_def)
  show "source_ok (timer_fires s)"
    using assms by (auto simp: timer_fires_def Let_def intro!: flush_source_ok split: option.split poll_timer.split)
      (auto simp: source_ok_def)
  show "source_ok (poll_refreshed j s)"
    using assms by (auto simp: poll_refreshed_def Let_def source_ok_def split: prod.split)
  show "source_ok (cancelCpaLogin b s)"
    using assms by (auto simp: cancelCpaLogin_def Let_def intro!: flush_source_ok split: option.split sum.split)
      (auto simp: source_ok_def setter_defs)
qed

lemma start_has_source: "possible s (PressStart a p l) \<Longrightarrow> dr_sourceKind s \<noteq> None"
  by (auto simp: footer_right_def Let_def split: if_splits)

lemma drawer_step_source_ok:
  assumes "source_ok s" and "possible s e"
  shows "source_ok (drawer_step syn s e)"
proof (cases "flushes_itself e")
  case True
  then show ?thesis using assms start_has_source [of s]
    by (cases e) (auto simp: drawer_step_def source_open_loaded source_submits source_start source_polls)
next
  case False
  have "source_ok (dr_handle syn s e)"
    using assms False
    by (cases e) (auto simp: source_polls source_ok_def Let_def start_open_load_def chooseSourceKind_def chooseAuthJSONFiles_def
        retry_pools_def previewAuthJSONImport_def preview_answered_def resetForNextAccount_def complete_def setter_defs
        footer_left_def footer_right_def canContinueStepOne_def poll_refreshed_def
        split: option.split sum.split prod.split if_splits)
  with False show ?thesis by (simp add: drawer_step_def flush_source_ok)
qed

lemma runs_source_ok: "drawer_runs syn ok s \<Longrightarrow> source_ok s"
proof (induction rule: drawer_runs.induct)
  case (initial ui sl r)
  then show ?case by (simp add: source_ok_def drawer_initial_def)
qed (rule drawer_step_source_ok)

section \<open>What is shown\<close>

lemma drawer_has_panel:
  assumes "wizard_ok s" "source_ok s"
  shows "length (drawer_panels h now s) = 1"
proof -
  have "dr_step s = 1 \<or> dr_step s = 2 \<or> dr_step s = 3 \<or> dr_step s = 4"
    using assms(1) by (auto simp: wizard_ok_def)
  then show ?thesis
    using assms by (cases "dr_sourceKind s"; cases "the (dr_sourceKind s)")
      (auto simp: drawer_panels_def Let_def wizard_ok_def source_ok_def split: option.split)
qed

lemma step_meta_known: "wizard_ok s \<Longrightarrow> STEP_META (dr_step s) \<noteq> None"
  by (auto simp: wizard_ok_def STEP_META_def)

text \<open>
  C10: In every run the drawer shows exactly one panel under the title of its step, and the buttons it shows
  enabled are those of the model, of which a press is a step. A run answers the requests of a pressed
  button before the next event; what a later answer can do is shown below.
\<close>

theorem drawer_shows_one_panel:
  assumes "drawer_runs syn ok s"
  shows "\<exists>v p. AddAccountDrawer h now s = Some v \<and> dv_panels v = [p] \<and>
    enabled_buttons (dv_left v) = footer_left s \<and> enabled_buttons (dv_right v) = footer_right s"
proof -
  have w: "wizard_ok s" and k: "source_ok s" using assms by (rule runs_wizard_ok, rule runs_source_ok)
  obtain t d where t: "STEP_META (dr_step s) = Some (t, d)" using step_meta_known [OF w] by auto
  obtain p where p: "drawer_panels h now s = [p]"
    using drawer_has_panel [OF w k, of h now] by (auto simp: length_Suc_conv)
  show ?thesis by (simp add: AddAccountDrawer_def t p enabled_left enabled_right)
qed

theorem drawer_shows_one_panel_witness:
  "\<forall>h now. \<exists>v p. AddAccountDrawer h now drawer_polling = Some v \<and> dv_panels v = [p] \<and>
    enabled_buttons (dv_left v) = footer_left drawer_polling \<and> enabled_buttons (dv_right v) = footer_right drawer_polling"
  by (intro allI) (rule drawer_shows_one_panel [OF sample_runs])

text \<open>
  A login that is answered after the drawer was closed goes to the third step without a source: the
  drawer, opened again, is blank until a restored session repairs it.
\<close>

lemma login_after_close_is_blank:
  assumes "dr_sourceKind s = None" "dr_result s = None"
  shows "drawer_panels h now (begin_session svc n x c s) = []"
  using assms by (simp add: drawer_panels_def begin_session_def Let_def setter_defs)

text \<open>The countdown stands still once the session is no longer active.\<close>

lemma clock_stops:
  "\<not> isActiveLoginSession session \<Longrightarrow> ck_now (clock_tick t (clock_effect now session s)) = ck_now s"
  by (simp add: clock_tick_def clock_effect_def)

end
