(* ===== verification/SettingsViews.thy ===== *)
theory SettingsViews
  imports SettingsHome
begin

text \<open>
  What \<^verbatim>\<open>web/src/pages/SettingsPage.tsx\<close> shows: the runtime with its badges, the numeric rows, the table of the pool
  credentials and its dialogs, and the cards of \<^verbatim>\<open>SettingsPage/data-retention/\<close> and \<^verbatim>\<open>SettingsPage/config-transfer/\<close>. Each view
  is a function of the state, its values in the order of the markup; fixed headings and styling are left
  out. \<open>loc\<close> stands for \<open>toLocaleString\<close>.
\<close>

section \<open>The runtime\<close>

datatype badge_tone = BadgeOk | BadgePending | BadgeBad

definition RuntimeBadge :: "bool \<Rightarrow> bool \<Rightarrow> jstr \<Rightarrow> badge_tone \<times> jstr" where
  "RuntimeBadge ok pending children =
     (if ok then BadgeOk else if pending then BadgePending else BadgeBad, children)"

definition gateway_badge :: "cpa_service \<Rightarrow> readiness option \<Rightarrow> badge_tone \<times> jstr" where
  "gateway_badge v r =
     RuntimeBadge (runtime_ok v r) (runtime_open v r)
       (if runtime_ok v r then c_sx_can_receive else if runtime_open v r then c_sx_checking else c_sx_attention)"

definition service_badge :: "cpa_service \<Rightarrow> badge_tone \<times> jstr" where
  "service_badge v =
     (let ok = (svc_status v = js ''healthy''); pending = (svc_status v = js ''unknown'') in
      RuntimeBadge ok pending (if ok then c_sx_normal else if pending then c_sx_checking else c_sx_abnormal))"

definition ready_badge :: "readiness option \<Rightarrow> badge_tone \<times> jstr" where
  "ready_badge r =
     (let st = map_option rd_status r in
      RuntimeBadge (st = Some (js ''ok'')) (r = None \<or> st = Some (js ''pending''))
        (if st = Some (js ''ok'') then c_sx_is_ready
         else if st = Some (js ''pending'') then c_sx_checking else c_sx_not_available))"

definition pinning_badge :: "cpa_service \<Rightarrow> badge_tone \<times> jstr" where
  "pinning_badge v =
     (let on = (svc_provider_pinning_state v = Some (js ''enabled'') \<or> svc_provider_pinning_supported v);
          open = (svc_provider_pinning_state v = Some (js ''unknown''))
      in RuntimeBadge on open (if on then c_sx_pinned else if open then c_sx_unknown else c_sx_not_pinned))"

text \<open>A block is a label and a text or a badge.\<close>

definition InfoBlocks :: "host \<Rightarrow> cpa_service \<Rightarrow> readiness option \<Rightarrow> (jstr \<times> (jstr + badge_tone \<times> jstr)) list" where
  "InfoBlocks h v r =
     [(c_sx_state, Inr (service_badge v)),
      (c_sx_ready, Inr (ready_badge r)),
      (c_sx_mode, Inl (runtimeModeLabel (svc_runtime_mode v))),
      (c_sx_last_check,
        Inl (if truthy_str (svc_last_checked_at v) then shortDate h (nullish (svc_last_checked_at v) []) else c_sx_never_checked)),
      (c_sx_image_version, Inl (or_str (svc_image_pinned_version v) (or_str (svc_current_version v) c_sx_unknown))),
      (c_sx_running_version, Inl (or_str (svc_running_version v) (or_str (svc_current_version v) c_sx_unknown))),
      (c_sx_update_source,
        Inl (if truthy_str (svc_latest_version v) then c_sx_can_update @ nullish (svc_latest_version v) []
             else c_sx_with_image)),
      (c_sx_pinning, Inr (pinning_badge v)),
      (c_sx_reason, Inl (friendlyDiagnostic (map_option rd_message r) (js ''--''))),
      (c_sx_last_error, Inl (friendlyDiagnostic (Some (svc_last_error v)) c_sp_none))]"

record runtime_panel =
  rp_tone :: runtime_tone
  rp_summary :: jstr
  rp_detail :: jstr
  rp_badge :: "badge_tone \<times> jstr"
  rp_blocks :: "(jstr \<times> (jstr + badge_tone \<times> jstr)) list"

definition runtime_panel_of :: "host \<Rightarrow> settings_page \<Rightarrow> jstr + runtime_panel" where
  "runtime_panel_of h s =
     (case sp_service s of
        None \<Rightarrow> Inl c_sx_no_service
      | Some v \<Rightarrow>
          (let r = sp_readiness s in
           Inr \<lparr>rp_tone = getRuntimeTone v r, rp_summary = runtimeSummary v r, rp_detail = runtimeSummaryDetail v r,
             rp_badge = gateway_badge v r, rp_blocks = InfoBlocks h v r\<rparr>))"

definition test_button_disabled :: "settings_page \<Rightarrow> bool" where
  "test_button_disabled s \<longleftrightarrow> sp_testing s \<or> sp_service s = None"

section \<open>The numeric rows\<close>

record number_row =
  wr_field :: setting_field
  wr_label :: jstr
  wr_suffix :: jstr
  wr_helper :: jstr
  wr_min :: int
  wr_value :: int
  wr_saving :: bool

definition SettingsNumericRow ::
    "settings_state \<Rightarrow> setting_field \<Rightarrow> jstr \<Rightarrow> int \<Rightarrow> jstr \<Rightarrow> jstr option \<Rightarrow> number_row" where
  "SettingsNumericRow s f label v suffix helper =
     \<lparr>wr_field = f, wr_label = label, wr_suffix = suffix, wr_helper = nullish helper c_sx_live, wr_min = 1,
      wr_value = v, wr_saving = (gs_savingField s = Some f)\<rparr>"

definition gateway_rows :: "settings_state \<Rightarrow> number_row list" where
  "gateway_rows s =
     (let g = gs_form s in
      [SettingsNumericRow s RequestTimeout c_sx_timeout (gf_request_timeout g) c_sx_seconds None,
       SettingsNumericRow s MaxRetryAttempts c_sx_retries (gf_max_retry_attempts g) c_sx_times None,
       SettingsNumericRow s HealthCheckInterval c_sx_interval (gf_health_check_interval g) c_sx_seconds (Some c_sx_interval_hint),
       SettingsNumericRow s GatewayMaxBodyMb c_sx_max_body (gf_max_body_mb g) (js ''MB'') (Some c_sx_max_body_hint),
       SettingsNumericRow s GatewayMemoryBodyMb c_sx_memory (gf_memory_body_mb g) (js ''MB'') (Some c_sx_memory_hint)])"

section \<open>The credentials\<close>

definition TOKEN_COLUMNS :: "jstr list" where
  "TOKEN_COLUMNS = [js ''Pool'', c_sx_tokens_name, js ''Token'', js ''Last Used'', c_sx_tokens_actions]"

definition SETTINGS_SECTIONS :: "(jstr \<times> jstr) list" where
  "SETTINGS_SECTIONS =
     [(js ''settings-gateway'', js ''Runtime''), (js ''notifications'', js ''Notifications''),
      (js ''token-management'', js ''Tokens''), (js ''data-retention'', js ''Retention''),
      (js ''config-transfer'', js ''Transfer''), (js ''notification-history'', js ''History'')]"

record credential_row =
  ce_anchor :: "jstr option"
  ce_pool :: jstr
  ce_name :: jstr
  ce_token :: jstr
  ce_muted :: bool
  ce_lastUsed :: jstr
  ce_highlighted :: bool
  ce_disabled :: bool

definition PoolCredentialRow :: "host \<Rightarrow> settings_page \<Rightarrow> pool \<times> access_token option \<Rightarrow> credential_row" where
  "PoolCredentialRow h s pt =
     (let (p, token) = pt; c = sp_credentials s;
          visible = (case token of None \<Rightarrow> False | Some t \<Rightarrow> token_id t \<in> set (cr_visible c))
      in \<lparr>ce_anchor = map_option (\<lambda>t. js ''access-token-'' @ show_int (token_id t)) token,
          ce_pool = pool_label p, ce_name = nullish (map_option token_name token) c_sx_creating,
          ce_token = displayToken c token, ce_muted = (\<not> visible),
          ce_lastUsed =
            (case Option.bind token token_last_used_at of
               Some d \<Rightarrow> if d \<noteq> [] then shortDate h d else js ''Never''
             | None \<Rightarrow> js ''Never''),
          ce_highlighted = (case token of None \<Rightarrow> False | Some t \<Rightarrow> sp_highlighted s = Some (token_id t)),
          ce_disabled = (token = None)\<rparr>)"

definition PoolCredentialsTable :: "host \<Rightarrow> settings_page \<Rightarrow> jstr + credential_row list" where
  "PoolCredentialsTable h s =
     (let credentials = poolCredentials (sp_pools s) (cr_tokens (sp_credentials s)) in
      if credentials = [] then Inl c_sx_no_pools else Inr (map (PoolCredentialRow h s) credentials))"

text \<open>\<open>InlineMeta\<close>: the tooltip repeats a text unless it is the dash.\<close>

definition inline_meta_title :: "jstr \<Rightarrow> jstr option" where
  "inline_meta_title v = (if v \<noteq> js ''--'' then Some v else None)"

text \<open>The three dialogs of a token.\<close>

record token_dialog =
  td_open :: bool
  td_subject :: jstr
  td_input :: jstr
  td_busy :: bool
  td_confirm :: jstr

definition rename_dialog :: "credentials \<Rightarrow> token_dialog" where
  "rename_dialog c =
     \<lparr>td_open = (cr_renaming c \<noteq> None), td_subject = [], td_input = cr_nameValue c, td_busy = cr_savingName c,
      td_confirm = (if cr_savingName c then c_sx_saving else c_sx_save)\<rparr>"

definition replace_dialog :: "credentials \<Rightarrow> token_dialog" where
  "replace_dialog c =
     \<lparr>td_open = (cr_replacing c \<noteq> None), td_subject = nullish (map_option token_name (cr_replacing c)) (js ''--''),
      td_input = cr_draft c, td_busy = cr_savingValue c,
      td_confirm = (if cr_savingValue c then c_sx_saving else c_sx_save)\<rparr>"

definition regenerate_text :: "credentials \<Rightarrow> bool \<times> jstr" where
  "regenerate_text c =
     (cr_regenerate c \<noteq> None,
      c_sx_regen_before @ nullish (map_option token_name (cr_regenerate c)) c_sx_regen_this @ c_sx_regen_after)"

section \<open>Retention\<close>

text \<open>A missing summary counts as zero everywhere.\<close>

definition of_summary :: "(retention_summary \<Rightarrow> int) \<Rightarrow> retention_summary option \<Rightarrow> int" where
  "of_summary f m = (case m of None \<Rightarrow> 0 | Some x \<Rightarrow> f x)"

definition CurrentUsageCard :: "host \<Rightarrow> (int \<Rightarrow> jstr) \<Rightarrow> retention_summary option \<Rightarrow> jstr \<times> (jstr \<times> jstr \<times> jstr) list" where
  "CurrentUsageCard h loc m =
     (formatBytes (of_summary database_size_bytes m),
      [(c_sx_usage_logs,
          loc (of_summary total_logs m) @ c_dr_items @ js '' '' @ [0xB7] @ js '' '' @ formatBytes (of_summary logs_size_bytes m),
          formatRange h (Option.bind m oldest_log_at) (Option.bind m newest_log_at)),
       (js ''WAL / SHM'',
          formatBytes (of_summary database_wal_size_bytes m) @ js '' '' @ [0xB7] @ js '' '' @
            formatBytes (of_summary database_shm_size_bytes m),
          c_sx_usage_wal),
       (c_sx_usage_history, loc (of_summary total_notification_deliveries m) @ c_dr_items,
          formatRange h (Option.bind m deliveries_oldest_at) (Option.bind m deliveries_newest_at)),
       (c_sx_usage_queue, fst (outbox_line loc m), snd (outbox_line loc m))])"

record auto_prune_card =
  au_draft :: jstr
  au_saving :: bool
  au_enabled :: bool
  au_state :: jstr
  au_detail :: jstr
  au_last :: "jstr \<times> jstr"
  au_split :: "jstr option"

definition AutoPruneCard ::
    "host \<Rightarrow> (int \<Rightarrow> jstr) \<Rightarrow> int \<Rightarrow> bool \<Rightarrow> retention_summary option \<Rightarrow> numeric_row \<Rightarrow> auto_prune_card" where
  "AutoPruneCard h loc retentionDays savingRetention summary r =
     (let enabled = (retentionDays > 0) in
      \<lparr>au_draft = nr_draft r, au_saving = savingRetention, au_enabled = enabled,
       au_state = (if enabled then c_sx_prune_runs else c_sx_prune_off),
       au_detail = (if enabled then c_sx_keep_before @ show_int retentionDays @ c_sx_keep_after else c_sx_keep_zero),
       au_last = last_prune_text h loc summary,
       au_split =
         (if lastDeleted summary > 0
          then Some (c_sx_logs @ loc (of_summary last_prune_deleted_logs summary) @ c_sx_deliveries @ js '' '' @
            loc (of_summary last_prune_deleted_deliveries summary) @ c_sx_queue @ js '' '' @
            loc (of_summary last_prune_deleted_outbox summary) @ c_sx_close)
          else None)\<rparr>)"

text \<open>Before the preview: a hint and its button. After it: the total, three rows, and the two buttons.\<close>

record prune_summary =
  ps_total :: jstr
  ps_rows :: "(jstr \<times> jstr) list"
  ps_cancelDisabled :: bool
  ps_confirm :: jstr
  ps_confirmDisabled :: bool

definition ManualPruneCard :: "(int \<Rightarrow> jstr) \<Rightarrow> prune_panel \<Rightarrow> (jstr \<times> bool) + prune_summary" where
  "ManualPruneCard loc s =
     (let enabled = (pr_days s > 0); of_preview = (\<lambda>f. case pr_preview s of None \<Rightarrow> 0 | Some p \<Rightarrow> f p) in
      if \<not> pr_previewOpen s
      then Inl (if enabled then c_sx_manual_on else c_sx_manual_off, \<not> enabled \<or> pr_previewLoading s)
      else
        Inr \<lparr>ps_total = loc (totalToDelete s) @ c_dr_items,
          ps_rows =
            [(c_sx_older_logs @ show_int (of_preview pv_retention_days) @ c_sx_days,
              loc (of_preview logs_to_delete) @ c_dr_items @ js '' '' @ [0xB7] @ js '' '' @
                formatBytes (of_preview logs_to_delete_size_bytes)),
             (c_sx_older_deliveries @ show_int (of_preview pv_retention_days) @ c_sx_days,
              loc (of_preview deliveries_to_delete) @ c_dr_items),
             (c_sx_older_queue @ show_int (of_preview outbox_safety_days) @ c_sx_days,
              loc (of_preview outbox_to_delete) @ c_dr_items)],
          ps_cancelDisabled = pr_pruning s,
          ps_confirm = (if totalToDelete s = 0 then c_sx_nothing else c_sx_confirm_prune),
          ps_confirmDisabled = (pr_pruning s \<or> totalToDelete s = 0)\<rparr>)"

section \<open>Transfer\<close>

record import_summary =
  is_file :: jstr
  is_origin :: jstr
  is_schema :: jstr
  is_secrets :: bool
  is_plan :: "(jstr \<times> jstr) list"
  is_ignored :: "jstr option"
  is_busy :: bool

definition import_origin :: "host \<Rightarrow> import_preview \<Rightarrow> jstr" where
  "import_origin h p =
     (if source_host p \<noteq> [] then c_sx_from @ source_host p else c_sx_source_unknown) @
     (if exported_at p \<noteq> [] then c_sx_exported @ shortDate h (exported_at p) else [])"

definition ImportCard :: "host \<Rightarrow> import_card \<Rightarrow> (jstr \<times> bool) + import_summary" where
  "ImportCard h s =
     (case im_preview s of
        None \<Rightarrow> Inl (if im_previewing s then c_sx_parsing else c_sx_choose_file, im_previewing s)
      | Some p \<Rightarrow>
          Inr \<lparr>is_file = nullish (im_fileName s) (js ''import.json''), is_origin = import_origin h p,
            is_schema = js ''schema '' @ or_str (Some (schema_version p)) (js ''?''), is_secrets = include_secrets p,
            is_plan = buildWritePlan p,
            is_ignored =
              (if ignored_accounts p + ignored_services p > 0
               then Some (c_sx_ignored_before @ show_int (ignored_accounts p) @ c_sx_ignored_accounts @ js '' '' @
                 show_int (ignored_services p) @ c_sx_ignored_services @ js '' '' @ c_sx_ignored_end)
               else None),
            is_busy = im_importing s\<rparr>)"

record export_option =
  eo_active :: bool
  eo_title :: jstr
  eo_hint :: jstr
  eo_icon :: jstr

definition ModeOption :: "bool \<Rightarrow> jstr \<Rightarrow> jstr \<Rightarrow> bool \<Rightarrow> export_option" where
  "ModeOption active title hint warning =
     \<lparr>eo_active = active, eo_title = title, eo_hint = hint,
      eo_icon =
        (if active then (if warning then js ''bg-status-yellow/15 text-status-yellow'' else js ''bg-lunar-200/70 text-lunar-700'')
         else js ''bg-moon-100/60 text-moon-500'')\<rparr>"

definition ExportCard :: "export_mode \<Rightarrow> export_option list \<times> jstr" where
  "ExportCard mode =
     ([ModeOption (mode = Masked) c_sx_masked c_sx_masked_hint False,
       ModeOption (mode = Full) c_sx_full c_sx_full_hint True], export_url mode)"

section \<open>The page\<close>

record settings_content =
  sc_runtime :: "jstr + runtime_panel"
  sc_testDisabled :: bool
  sc_rows :: "number_row list"
  sc_expiringDays :: int
  sc_credentials :: "jstr + credential_row list"
  sc_dialogs :: "token_dialog \<times> token_dialog \<times> bool \<times> jstr"
  sc_retentionDays :: int
  sc_savingRetention :: bool
  sc_summary :: "retention_summary option"

datatype settings_screen = SettingsSkeleton | SettingsError jstr | SettingsContent settings_content

definition SettingsPage :: "host \<Rightarrow> settings_page \<Rightarrow> settings_screen" where
  "SettingsPage h s =
     (case shown_view s of
        SkeletonView \<Rightarrow> SettingsSkeleton
      | ErrorView m \<Rightarrow> SettingsError m
      | ContentView \<Rightarrow>
          (let g = sp_gateway s; c = sp_credentials s in
           SettingsContent \<lparr>sc_runtime = runtime_panel_of h s, sc_testDisabled = test_button_disabled s,
             sc_rows = gateway_rows g,
             sc_expiringDays = (case gs_settings g of None \<Rightarrow> 7 | Some d \<Rightarrow> notification_expiring_days d),
             sc_credentials = PoolCredentialsTable h s,
             sc_dialogs = (rename_dialog c, replace_dialog c, regenerate_text c),
             sc_retentionDays = (case gs_settings g of None \<Rightarrow> 0 | Some d \<Rightarrow> data_retention_days d),
             sc_savingRetention = (gs_savingField g = Some DataRetentionDays), sc_summary = sp_summary s\<rparr>))"


section \<open>What the page shows\<close>

lemma displayToken_cases:
  "cache_current c \<Longrightarrow> displayToken c (Some t) \<in> {token_masked t, cr_server c (token_id t)}"
  by (auto simp: displayToken_def cache_current_def nullish_def split: option.split)

lemma hidden_token_masked: "token_id t \<notin> set (cr_visible c) \<Longrightarrow> displayToken c (Some t) = token_masked t"
  by (simp add: displayToken_def)

text \<open>
  C11: The table of the credentials is honest: it has a row per pool in the order of the pools, a row without a
  token has no button, a hidden row shows the mask, and a row that shows a value shows the one the server
  accepts, after any history in which no token changes during a reveal.
\<close>

theorem credential_rows_current:
  fixes c0 :: credentials
  assumes "cache_current c0" and "calm c0 es" and "sp_credentials s = foldl cr_step c0 es" and "sp_pools s \<noteq> []"
  shows "\<exists>rows. PoolCredentialsTable h s = Inr rows \<and> map ce_pool rows = map pool_label (sp_pools s) \<and>
    (\<forall>(p, r) \<in> set (zip (sp_pools s) rows).
       case find (\<lambda>t. token_pool_id t = pool_id p) (cr_tokens (sp_credentials s)) of
         None \<Rightarrow> ce_disabled r \<and> ce_token r = c_tk_not_ready
       | Some t \<Rightarrow> \<not> ce_disabled r \<and>
           (if ce_muted r then ce_token r = token_masked t
            else ce_token r \<in> {token_masked t, cr_server (sp_credentials s) (token_id t)}))"
proof -
  let ?c = "sp_credentials s"
  define token where "token = (\<lambda>p :: pool. find (\<lambda>t. token_pool_id t = pool_id p) (cr_tokens ?c))"
  have current: "cache_current ?c" unfolding assms(3) using assms(1,2) by (rule cache_current_run)
  have table: "PoolCredentialsTable h s = Inr (map (\<lambda>p. PoolCredentialRow h s (p, token p)) (sp_pools s))"
    using assms(4) by (simp add: PoolCredentialsTable_def poolCredentials_def token_def Let_def)
  have row: "case token p of
         None \<Rightarrow> ce_disabled r \<and> ce_token r = c_tk_not_ready
       | Some t \<Rightarrow> \<not> ce_disabled r \<and>
           (if ce_muted r then ce_token r = token_masked t else ce_token r \<in> {token_masked t, cr_server ?c (token_id t)})"
    if "r = PoolCredentialRow h s (p, token p)" for p r
  proof (cases "token p")
    case None
    then show ?thesis by (simp add: that PoolCredentialRow_def displayToken_def Let_def)
  next
    case (Some t)
    then show ?thesis using displayToken_cases [OF current, of t] hidden_token_masked [of t ?c]
      by (simp add: that PoolCredentialRow_def Let_def)
  qed
  have "map ce_pool (map (\<lambda>p. PoolCredentialRow h s (p, token p)) (sp_pools s)) = map pool_label (sp_pools s)"
    by (simp add: PoolCredentialRow_def Let_def)
  then show ?thesis
    unfolding table using row by (auto simp: zip_map2 zip_same_conv_map token_def)
qed

definition sample_page :: "credentials \<Rightarrow> settings_page" where
  "sample_page c =
     \<lparr>sp_service = None, sp_gateway = settings_loaded sample_settings, sp_credentials = c,
      sp_pools = [\<lparr>pool_id = 1, pool_label = js ''p'', pool_priority = 0, pool_enabled = True, routing_policy = [],
        account_count = 0, healthy_account_count = 0, routable_account_count = 0, pool_models = [],
        pool_created_at = [], pool_updated_at = []\<rparr>],
      sp_summary = None, sp_readiness = None, sp_loading = False, sp_error = None, sp_testing = False,
      sp_highlighted = None, sp_toasts = []\<rparr>"

text \<open>A token is revealed: its row shows it.\<close>

theorem credential_rows_current_witness:
  fixes s :: settings_page
  defines "s \<equiv> sample_page (foldl cr_step sample_credentials [RevealClicked sample_token, RevealAnswer 0 None None])"
  shows "\<forall>h. \<exists>r. PoolCredentialsTable h s = Inr [r] \<and> ce_pool r = js ''p'' \<and> \<not> ce_muted r \<and> ce_token r \<in> {js ''sk-'', js ''old''}"
proof
  fix h
  define es where "es = [RevealClicked sample_token, RevealAnswer 0 None None]"
  define c where "c = foldl cr_step sample_credentials es"
  have c: "cr_tokens c = [sample_token]" "cr_visible c = [7]" "cr_server c 7 = js ''old''"
    by (simp_all add: c_def es_def sample_credentials_def sample_token_def token_reveal_answered_def reveal_defs nullish_def)
  have start: "cache_current sample_credentials" "calm sample_credentials es"
    by (simp_all add: es_def cache_current_def sample_credentials_def)
  define p where "p = hd (sp_pools s)"
  have s: "sp_credentials s = foldl cr_step sample_credentials es" "sp_pools s \<noteq> []" "sp_credentials s = c"
      "sp_pools s = [p]" "pool_id p = 1" "pool_label p = js ''p''"
    by (simp_all add: s_def sample_page_def p_def c_def es_def)
  have t: "token_pool_id sample_token = 1" "token_id sample_token = 7" "token_masked sample_token = js ''sk-''"
    by (simp_all add: sample_token_def)
  obtain x where x: "PoolCredentialsTable h s = Inr [x]" "ce_pool x = js ''p''"
      "ce_token x \<in> {js ''sk-'', js ''old''}"
    using credential_rows_current [OF start s(1,2), of h] s(3-6) c t by (auto simp: map_eq_Cons_conv split: if_splits)
  have "\<not> ce_muted x"
    using x(1) s(3-5) c t
    by (auto simp: PoolCredentialsTable_def poolCredentials_def PoolCredentialRow_def Let_def)
  with x show "\<exists>r. PoolCredentialsTable h s = Inr [r] \<and> ce_pool r = js ''p'' \<and> \<not> ce_muted r \<and> ce_token r \<in> {js ''sk-'', js ''old''}"
    by auto
qed

text \<open>A button of the prune card that is disabled does nothing.\<close>

lemma prune_buttons:
  "case ManualPruneCard loc s of
     Inl (_, disabled) \<Rightarrow> (disabled \<longrightarrow> prune_step s PreviewClicked = s) \<and> prune_step s ConfirmClicked = s
   | Inr v \<Rightarrow> prune_step s PreviewClicked = s \<and> (ps_confirmDisabled v \<longrightarrow> prune_step s ConfirmClicked = s) \<and>
       (ps_cancelDisabled v \<longrightarrow> prune_step s CancelClicked = s)"
  by (simp add: ManualPruneCard_def Let_def)

text \<open>The three counts in parentheses add up to the number before them.\<close>

lemma prune_counts_add_up:
  "lastDeleted m = of_summary last_prune_deleted_logs m + of_summary last_prune_deleted_deliveries m +
     of_summary last_prune_deleted_outbox m"
  by (simp add: lastDeleted_def of_summary_def split: option.split)

text \<open>
  While the readiness is not known the badge of the gateway says that it is being checked, and the badge
  beside it, in the same neutral tone, that requests cannot be served.
\<close>

lemma unknown_readiness_reads_unavailable:
  "ready_badge None = (BadgePending, c_sx_not_available)"
  "svc_status v \<noteq> js ''unknown'' \<Longrightarrow> gateway_badge v None = (BadgePending, c_sx_checking)"
  by (simp_all add: ready_badge_def gateway_badge_def RuntimeBadge_def runtime_ok_def runtime_open_def Let_def)

text \<open>The badge of the runtime and the icon beside it never disagree.\<close>

lemma gateway_badge_tone:
  "fst (gateway_badge v r) = BadgeOk \<longleftrightarrow> getRuntimeTone v r = RuntimeOk"
  "fst (gateway_badge v r) = BadgePending \<longleftrightarrow> getRuntimeTone v r = RuntimePending"
  by (simp_all add: gateway_badge_def RuntimeBadge_def getRuntimeTone_def)

end
