(* ===== verification/NotificationViews.thy ===== *)
theory NotificationViews
  imports Notifications NotificationHistory TemplateEditing
begin

text \<open>
  What the notification parts of the settings page show, \<^verbatim>\<open>web/src/pages/SettingsPage/notifications/\<close>: the section with
  its switch, channel form, test panel and subscriptions, and the history of deliveries with its filters,
  rows, details and pages. Each view is a function of the state, its values in the order of the markup;
  fixed headings and styling are left out. \<open>loc\<close> stands for \<open>toLocaleString\<close>.
\<close>

section \<open>Subscriptions\<close>

text \<open>The open part of a row; \<open>sy_days\<close> is the threshold field of the expiry event with its error.\<close>

record subscription_body =
  sy_trigger :: jstr
  sy_unsubscribed :: bool
  sy_days :: "(int \<times> jstr option) option"
  sy_text :: jstr
  sy_canReset :: bool
  sy_disabled :: bool
  sy_error :: "jstr option"

record subscription_view =
  sv_green :: bool
  sv_label :: jstr
  sv_event :: jstr
  sv_severity :: "jstr \<times> jstr"
  sv_checked :: bool
  sv_switchDisabled :: bool
  sv_body :: "subscription_body option"

definition triggerDescription :: "notification_event_type \<Rightarrow> jstr" where
  "triggerDescription et = nullish (EVENT_TRIGGER_DESCRIPTION (nt_event et)) c_sx_builtin"

text \<open>\<open>renderExtra\<close>: only the expiry event has a control of its own.\<close>

definition renderExtra :: "expiring_state \<Rightarrow> jstr \<Rightarrow> (int \<times> jstr option) option" where
  "renderExtra x event = (if event = js ''account_expiring'' then Some (ex_days x, ex_error x) else None)"

definition SubscriptionRow ::
    "notifications_page \<Rightarrow> bool \<Rightarrow> jstr \<Rightarrow> notification_event_type \<Rightarrow> subscription \<Rightarrow> jstr \<Rightarrow> subscription_view" where
  "SubscriptionRow s expanded bodyDisplay et sub defaultBodyDisplay =
     (let ev = nt_event et; b = np_subscriptions s; saving = sb_saving b ev in
      \<lparr>sv_green = subscribed sub, sv_label = nt_label et, sv_event = ev,
       sv_severity = (severityTone (nt_default_severity et), nt_default_severity et),
       sv_checked = subscribed sub, sv_switchDisabled = (saving = Some FSubscribed),
       sv_body =
         (if expanded
          then Some \<lparr>sy_trigger = c_sx_trigger @ triggerDescription et @ c_sx_severity_fixed,
            sy_unsubscribed = (\<not> subscribed sub), sy_days = renderExtra (np_expiring s) ev, sy_text = bodyDisplay,
            sy_canReset = (\<not> reset_disabled (saving = Some FBody) bodyDisplay defaultBodyDisplay True),
            sy_disabled = (saving = Some FBody), sy_error = sb_errors b ev\<rparr>
          else None)\<rparr>)"

text \<open>The rows in the order of the event types; \<open>expanded\<close> and \<open>display\<close> are the states the rows keep.\<close>

definition SubscriptionsTable ::
    "host \<Rightarrow> (jstr \<Rightarrow> bool) \<Rightarrow> (jstr \<Rightarrow> jstr) \<Rightarrow> notifications_page \<Rightarrow> subscription_view list" where
  "SubscriptionsTable h expanded display s =
     concat (map (\<lambda>et.
       case subscription_row et (sb_subscriptions (np_subscriptions s)) of
         None \<Rightarrow> []
       | Some sub \<Rightarrow>
           [SubscriptionRow s (expanded (nt_event et)) (display (nt_event et)) et sub
              (toDisplay (nt_default_body_template et) (placeholdersForEvent h et))])
       (np_eventTypes s))"

section \<open>The channel\<close>

record test_panel =
  tp_disabled :: bool
  tp_reason :: "jstr option"
  tp_line :: "jstr + bool \<times> jstr"

definition TestPanel :: "channel_state \<Rightarrow> test_panel" where
  "TestPanel s =
     \<lparr>tp_disabled = (\<not> canTest s \<or> ch_testLoading s),
      tp_reason = (if \<not> canTest s then testDisabledReason s else None),
      tp_line = (case ch_testResult s of None \<Rightarrow> Inl c_sx_test_hint | Some r \<Rightarrow> Inr (tr_ok r, test_line r))\<rparr>"

record settings_form =
  sf_url :: jstr
  sf_disabled :: bool
  sf_urlError :: "jstr option"
  sf_mobiles :: "jstr list"

definition SettingsForm :: "notification_settings \<Rightarrow> channel_state \<Rightarrow> settings_form" where
  "SettingsForm d s =
     \<lparr>sf_url = ch_draft s, sf_disabled = ch_saving s,
      sf_urlError = (if truthy_str (ch_urlError s) then ch_urlError s else None), sf_mobiles = mention_mobile_list d\<rparr>"

section \<open>The section\<close>

definition NOTIFICATION_TABS :: "(jstr \<times> jstr) list" where
  "NOTIFICATION_TABS = [(js ''channel'', c_sx_channel), (js ''subscriptions'', c_sx_subscriptions)]"

record notifications_content =
  nc_checked :: bool
  nc_switchDisabled :: bool
  nc_notice :: "jstr option"
  nc_form :: settings_form
  nc_test :: test_panel
  nc_subscriptions :: "jstr + subscription_view list"

record notifications_view =
  nw_error :: "jstr option"
  nw_banner :: "jstr option"
  nw_loading :: "jstr option"
  nw_content :: "notifications_content option"

definition NotificationsSection ::
    "host \<Rightarrow> (jstr \<Rightarrow> bool) \<Rightarrow> (jstr \<Rightarrow> jstr) \<Rightarrow> notifications_page \<Rightarrow> notifications_view" where
  "NotificationsSection h expanded display s =
     (let c = np_channel s; some = (\<lambda>m. if truthy_str m then m else None) in
      \<lparr>nw_error = some (np_error s), nw_banner = some (sb_banner (np_subscriptions s)),
       nw_loading = (if np_loading s \<and> ch_settings c = None then Some c_sx_loading else None),
       nw_content =
         map_option (\<lambda>d. \<lparr>nc_checked = ns_enabled d, nc_switchDisabled = ch_saving c,
             nc_notice = (if ns_enabled d then None else Some c_sx_notifications_off),
             nc_form = SettingsForm d c, nc_test = TestPanel c,
             nc_subscriptions =
               (if np_eventTypes s \<noteq> [] then Inr (SubscriptionsTable h expanded display s) else Inl c_sx_no_events)\<rparr>)
           (ch_settings c)\<rparr>)"

section \<open>The history\<close>

fun filter_value :: "status_filter \<Rightarrow> jstr" where
  "filter_value FilterAll = js ''all''"
| "filter_value (FilterStatus DSuccess) = js ''success''"
| "filter_value (FilterStatus DFailed) = js ''failed''"
| "filter_value (FilterStatus DDropped) = js ''dropped''"
| "filter_value FilterTest = js ''test''"

fun STATUS_LABELS :: "status_filter \<Rightarrow> jstr" where
  "STATUS_LABELS FilterAll = c_sx_all"
| "STATUS_LABELS (FilterStatus DSuccess) = c_sx_success"
| "STATUS_LABELS (FilterStatus DFailed) = c_sx_failed"
| "STATUS_LABELS (FilterStatus DDropped) = c_sx_dropped"
| "STATUS_LABELS FilterTest = c_sx_test"

fun delivery_tone :: "delivery_status \<Rightarrow> jstr" where
  "delivery_tone DSuccess = js ''bg-status-green/12 text-status-green''"
| "delivery_tone DFailed = js ''bg-status-red/12 text-status-red''"
| "delivery_tone DDropped = js ''bg-moon-100/90 text-moon-500''"

definition severity_badge :: "jstr \<Rightarrow> jstr" where
  "severity_badge severity =
     (if severity = js ''critical'' then js ''bg-status-red/12 text-status-red''
      else if severity = js ''warning'' then js ''bg-status-yellow/15 text-status-yellow''
      else js ''bg-lunar-100/70 text-lunar-600'')"

text \<open>The detail of a delivery; \<open>dd_upstream\<close> is the red panel with its code and its message.\<close>

record delivery_detail =
  dd_title :: jstr
  dd_severity :: "jstr \<times> jstr"
  dd_testMark :: bool
  dd_upstream :: "(jstr option \<times> jstr option) option"
  dd_fields :: "(jstr \<times> jstr) list"
  dd_summary :: jstr

definition DeliveryDetail :: "delivery \<Rightarrow> delivery_detail" where
  "DeliveryDetail d =
     (let some = (\<lambda>v. if v \<noteq> [] then Some v else None) in
      \<lparr>dd_title = or_str (Some (dv_title d)) c_sx_untitled,
       dd_severity = (severity_badge (dv_severity d), dv_severity d), dd_testMark = dv_test d,
       dd_upstream =
         (if shows_upstream_error d then Some (some (dv_upstream_code d), some (dv_upstream_message d)) else None),
       dd_fields =
         [(js ''Channel'', or_str (Some (dv_channel_name d)) (js ''--'')),
          (js ''Channel Type'', or_str (Some (dv_channel_type d)) (js ''--'')),
          (js ''Attempt'', js ''#'' @ show_int (dv_attempt d)),
          (js ''Triggered By'', if dv_test d then c_sx_test else js ''system'')] @
         (if dv_dedup_key d \<noteq> [] then [(js ''Dedup Key'', dv_dedup_key d)] else []),
       dd_summary = or_str (Some (dv_payload_summary d)) c_sx_no_summary\<rparr>)"

record history_row =
  hr_id :: int
  hr_cells :: "jstr list"
  hr_badge :: "jstr \<times> jstr"
  hr_detail :: "delivery_detail option"

definition delivery_row :: "host \<Rightarrow> int option \<Rightarrow> delivery \<Rightarrow> history_row" where
  "delivery_row h expandedId d =
     \<lparr>hr_id = dv_id d,
      hr_cells =
        [shortDate h (dv_created_at d), dv_event d, dv_severity d, or_str (Some (dv_upstream_code d)) (js ''--''),
         latency (of_int (dv_latency_ms d)), or_str (Some (dv_payload_summary d)) (js ''--'')],
      hr_badge = (delivery_tone (dv_status d), status_text d),
      hr_detail = (if expandedId = Some (dv_id d) then Some (DeliveryDetail d) else None)\<rparr>"

record history_pager =
  hg_text :: jstr
  hg_backDisabled :: bool
  hg_nextDisabled :: bool

record history_view =
  hv_events :: "jstr list"
  hv_eventText :: jstr
  hv_statusText :: jstr
  hv_error :: "jstr option"
  hv_matched :: jstr
  hv_truncated :: "jstr option"
  hv_rows :: "jstr + history_row list"
  hv_pager :: "history_pager option"

definition history_matched_text :: "(int \<Rightarrow> jstr) \<Rightarrow> history_state \<Rightarrow> jstr" where
  "history_matched_text loc s =
     (let n = length (filteredDeliveries s) in
      c_sx_matched @ loc (int n) @ c_sx_records @
      (if n > HISTORY_PAGE_SIZE then c_sx_per_page @ show_int (int HISTORY_PAGE_SIZE) @ c_sx_items else []) @ c_sx_stop)"

definition NotificationHistorySection ::
    "host \<Rightarrow> (int \<Rightarrow> jstr) \<Rightarrow> notification_event_type list \<Rightarrow> history_state \<Rightarrow> history_view" where
  "NotificationHistorySection h loc eventTypes s =
     (let ev = hi_filterEvent s in
      \<lparr>hv_events = js ''all'' # map nt_event eventTypes,
       hv_eventText = (if ev = [] \<or> ev = js ''all'' then c_sx_all else ev),
       hv_statusText = STATUS_LABELS (hi_filterStatus s),
       hv_error = (if truthy_str (hi_error s) then hi_error s else None), hv_matched = history_matched_text loc s,
       hv_truncated =
         (if hi_truncated s then Some (c_sx_only_latest @ loc (int FETCH_LIMIT) @ c_sx_latest_end) else None),
       hv_rows =
         (if pagedDeliveries s \<noteq> [] then Inr (map (delivery_row h (hi_expandedId s)) (pagedDeliveries s))
          else Inl c_sx_none_shown),
       hv_pager =
         (if historyPages s > 1
          then Some \<lparr>hg_text = c_sx_page @ show_int (int (historyPage s)) @ js '' / '' @ show_int (int (historyPages s)) @ c_sx_pages,
                 hg_backDisabled = (historyPage s \<le> 1), hg_nextDisabled = (historyPage s \<ge> historyPages s)\<rparr>
          else None)\<rparr>)"


section \<open>What the history shows\<close>

text \<open>Under a status filter every row carries the label of that filter.\<close>

lemma shown_rows_carry_filter:
  assumes "hi_filterStatus s \<noteq> FilterAll" and "hv_rows (NotificationHistorySection h loc ets s) = Inr rows"
    and "r \<in> set rows"
  shows "snd (hr_badge r) = filter_value (hi_filterStatus s)"
proof -
  have "set (pagedDeliveries s) \<subseteq> set (filteredDeliveries s)"
    by (auto simp: pagedDeliveries_def page_of_def dest: in_set_takeD in_set_dropD)
  moreover have "r \<in> delivery_row h (hi_expandedId s) ` set (pagedDeliveries s)"
    using assms(2,3) by (auto simp: NotificationHistorySection_def Let_def split: if_splits)
  ultimately obtain d where d: "d \<in> set (filteredDeliveries s)" "r = delivery_row h (hi_expandedId s) d" by blast
  then have "matches (hi_filterEvent s) (hi_filterStatus s) d" by (simp add: filteredDeliveries_def)
  with assms(1) d(2) show ?thesis
    by (cases "hi_filterStatus s"; cases "dv_status d")
      (auto simp: matches_def delivery_row_def status_text_def split: if_splits)
qed

text \<open>A button of the pager that is disabled does nothing, and an enabled one turns the page.\<close>

lemma pager_buttons:
  assumes "hv_pager (NotificationHistorySection h loc ets s) = Some g"
  shows "hg_backDisabled g \<longleftrightarrow> history_step s PreviousPage = s \<and> historyPage s = 1"
    and "hg_nextDisabled g \<longleftrightarrow> history_step s NextPage = s \<and> historyPage s = historyPages s"
proof -
  have "1 \<le> historyPage s" "historyPage s \<le> historyPages s"
    by (simp_all add: historyPage_def historyPages_def)
  with assms show "hg_backDisabled g \<longleftrightarrow> history_step s PreviousPage = s \<and> historyPage s = 1"
    and "hg_nextDisabled g \<longleftrightarrow> history_step s NextPage = s \<and> historyPage s = historyPages s"
    by (auto simp: NotificationHistorySection_def Let_def split: if_splits)
qed

text \<open>The detail that is open is that of the row last clicked, and closes on the second click.\<close>

lemma clicked_row_open:
  "hr_detail (delivery_row h (hi_expandedId (history_step s (RowClicked (dv_id d)))) d) =
     (if hi_expandedId s = Some (dv_id d) then None else Some (DeliveryDetail d))"
  by (simp add: delivery_row_def)

section \<open>What the subscriptions show\<close>

lemma find_replaced:
  "x \<in> set xs \<Longrightarrow> P x \<Longrightarrow> P u \<Longrightarrow> find P (map (\<lambda>i. if P i then u else i) xs) = Some u"
  by (induction xs) auto

text \<open>The table has a row per event type with a subscription, the test excepted.\<close>

lemma table_events:
  "map sv_event (SubscriptionsTable h expanded display s) =
     map nt_event (filter (\<lambda>et. subscription_row et (sb_subscriptions (np_subscriptions s)) \<noteq> None) (np_eventTypes s))"
proof -
  have "map sv_event (concat (map (\<lambda>et. case f et of None \<Rightarrow> [] | Some x \<Rightarrow> [SubscriptionRow s (a et) (b et) et x (c et)]) ets)) =
      map nt_event (filter (\<lambda>et. f et \<noteq> None) ets)" for f a b c ets
    by (induction ets) (auto simp: SubscriptionRow_def Let_def split: option.split)
  then show ?thesis by (simp add: SubscriptionsTable_def)
qed

lemma table_row:
  assumes "v \<in> set (SubscriptionsTable h expanded display s)"
  obtains et sub where "et \<in> set (np_eventTypes s)" "nt_event et = sv_event v"
    "subscription_row et (sb_subscriptions (np_subscriptions s)) = Some sub" "sv_checked v = subscribed sub"
    "sv_switchDisabled v = (sb_saving (np_subscriptions s) (sv_event v) = Some FSubscribed)"
proof -
  let ?row = "\<lambda>et sub. SubscriptionRow s (expanded (nt_event et)) (display (nt_event et)) et sub
    (toDisplay (nt_default_body_template et) (placeholdersForEvent h et))"
  obtain et where et: "et \<in> set (np_eventTypes s)"
      "v \<in> set (case subscription_row et (sb_subscriptions (np_subscriptions s)) of None \<Rightarrow> [] | Some sub \<Rightarrow> [?row et sub])"
    using assms unfolding SubscriptionsTable_def by auto
  then obtain sub where "subscription_row et (sb_subscriptions (np_subscriptions s)) = Some sub" "v = ?row et sub"
    by (cases "subscription_row et (sb_subscriptions (np_subscriptions s))") simp_all
  with et(1) show thesis by (intro that [of et sub]) (simp_all add: SubscriptionRow_def Let_def)
qed

text \<open>
  The answer to the newest save of an event shows at once: its row, which is in the table, has the switch
  of the stored subscription, ready to be used again.
\<close>

theorem saved_subscription_shown:
  fixes s :: notifications_page and ev :: jstr and field :: sub_field and u :: subscription
  defines "b \<equiv> np_subscriptions s"
  defines "s' \<equiv> s\<lparr>np_subscriptions := subscription_answered ev (sb_seq b ev) field (Inr u) b\<rparr>"
  assumes "et \<in> set (np_eventTypes s)" "nt_event et = ev" "ev \<noteq> js ''test''" "sub_event u = ev"
    and "i \<in> set (sb_subscriptions b)" "sub_event i = ev"
  shows "ev \<in> sv_event ` set (SubscriptionsTable h expanded display s') \<and>
    (\<forall>v \<in> set (SubscriptionsTable h expanded display s').
       sv_event v = ev \<longrightarrow> sv_checked v = subscribed u \<and> \<not> sv_switchDisabled v)"
proof -
  let ?subs = "sb_subscriptions (np_subscriptions s')"
  have subs: "?subs = map (\<lambda>i. if sub_event i = ev then u else i) (sb_subscriptions b)"
    and saving: "sb_saving (np_subscriptions s') ev = None"
    by (simp_all add: s'_def subscription_answered_def)
  have row: "subscription_row e ?subs = Some u" if "nt_event e = ev" for e
    using find_replaced [of i "rev (sb_subscriptions b)" "\<lambda>i. sub_event i = ev" u] assms(5-8) that
    by (simp add: subscription_row_def subs rev_map)
  have "ev \<in> set (map sv_event (SubscriptionsTable h expanded display s'))"
    using assms(3,4) row by (auto simp: table_events s'_def)
  moreover have "sv_checked v = subscribed u \<and> \<not> sv_switchDisabled v"
    if "v \<in> set (SubscriptionsTable h expanded display s')" "sv_event v = ev" for v
    using that(1) by (rule table_row) (use that(2) row saving in auto)
  ultimately show ?thesis by auto
qed

end
