(* ===== verification/Spec2Isabelle.thy ===== *)
theory Spec2Isabelle
  imports LunePrelude JsCollections JsNumber AdminTypes Copy RouteHealth Json Format Quota Requests
    Alerts Overview TokenCodec Templates Router DragSort ActivityCharts ActivityDigest Activity
    AuthImport AddAccount AddAccountRuns SelfCheck PoolDetail PoolDetailRuns PoolDialogs CodexSetup Cards
    AccountSheet Diagnostics GatewaySettings DataTransfer Credentials SettingsHome Notifications NotificationHistory
    TemplateEditing Shell Chrome AccountViews Orbit OverviewWidgets ActivityRibbons ActivityPanels
    DrawerViews SettingsViews NotificationViews
begin

text \<open>
  The admin console of lune, a gateway that routes model requests over pools of accounts. The console
  is the TypeScript program under \<^verbatim>\<open>web/src\<close>; it talks to the Go server over a JSON API. This
  development translates the console's logic into HOL functions and proves what makes it right. The
  server's answers, the clock, the time zone and the third-party packages are arguments.

  \<^bold>\<open>The language.\<close> \<open>LunePrelude\<close> has JavaScript strings as lists of UTF-16 code units (\<open>jstr\<close>, literals
  \<open>js ''...''\<close>) with the string methods the sources call, optional values with \<open>||\<close> (\<open>or_str\<close>) and \<open>??\<close>
  (\<open>nullish\<close>), and the \<open>host\<close>: clock, time zone and locale. \<open>JsCollections\<close> has \<open>Map\<close> in insertion
  order and stable sorting; its locales \<open>keyed_store\<close> and \<open>ranked_sort\<close> are the contracts the charts
  rely on. \<open>JsNumber\<close> has \<open>Number(s)\<close>, \<open>toFixed\<close> and dates over exact rationals and integers; the
  rounding of binary floating point is not modelled, nor is a time zone whose offset changes. \<open>Json\<close>
  has \<open>JSON.parse\<close> as a reader with fuel, two units per code unit of the text and two more, which is
  proved to be enough for every text \<open>JSON.stringify\<close> writes here. \<open>Copy\<close> holds the user-visible texts,
  one constant per literal. \<open>AdminTypes\<close> has the interfaces of \<^verbatim>\<open>lib/types.ts\<close> as records.

  \<^bold>\<open>The library of the console.\<close>
  \<^item> \<open>RouteHealth\<close>: \<^verbatim>\<open>lib/lune.ts\<close>. Whether an account takes traffic, the badge that says so and the
    snapshot of a pool. The theorems characterise the healthy and the degraded badge, show that an
    unpinned CPA runtime fails closed, and fix what a snapshot counts; two show where badge and rule
    disagree.
  \<^item> \<open>Format\<close>, \<open>Quota\<close>, \<open>Requests\<close>: \<^verbatim>\<open>lib/fmt.ts\<close>, \<^verbatim>\<open>lib/pricing.ts\<close>, \<^verbatim>\<open>lib/codexQuota.ts\<close>,
    \<^verbatim>\<open>lib/api.ts\<close>. Every outcome of a request; when the quota reader answers and when it throws. \<open>Requests\<close>
    also has the locale \<open>latest_wins\<close>, the contract of a page that numbers its loads: an answer to a
    load that was superseded changes nothing, in whatever order answers arrive.
  \<^item> \<open>Router\<close>: \<^verbatim>\<open>lib/router.tsx\<close>, \<^verbatim>\<open>App.tsx\<close>, \<^verbatim>\<open>components/AdminUI.tsx\<close>. The browser history is a
    list of addresses with a position; the router's path agrees with it after every event, as long as the
    addresses have no query and no fragment. With a query it does not, which is shown.

  \<^bold>\<open>The pages.\<close> A page is a record of its React state, one function per handler or effect and a step
  function or relation over its events. A handler runs to its next \<open>await\<close>; what follows an \<open>await\<close> is
  an event of its own wherever another event can come between and matter, and the answer of the server
  is an argument of the event. Effects run after a handler when a value they depend on changed.
  \<^item> \<open>Alerts\<close> and \<open>Overview\<close>: \<^verbatim>\<open>pages/OverviewPage.tsx\<close> and its helpers. Alert messages are read back as
    the store of the server writes them (\<^verbatim>\<open>internal/store/stats.go\<close>), the label as Go's \<open>%q\<close> escapes it, if
    the label has no double quote and the detail is one line; the dismissed alerts are always live ones; \<open>latest_wins\<close> is interpreted on the page's loads.
  \<^item> \<open>Orbit\<close>, \<open>OverviewWidgets\<close>: \<^verbatim>\<open>pages/OverviewPage/OrbitCanvas.tsx\<close> over the real numbers, and the inscription,
    alert list, gateway address and phase text around it. Tilt and moon come back to rest after any
    history. That they stay in range, and that every account keeps a place of its own, is proved for \<open>timely\<close>
    histories, in which no frame of a springback is stamped before its release: \<open>canvas_runs\<close> is the
    relation of the canvases these reach. A frame that is stamped earlier, which a browser may send, leaves
    the range; \<open>early_frame_overshoots\<close> shows it.
  \<^item> \<open>ActivityCharts\<close>, \<open>ActivityDigest\<close>, \<open>Activity\<close>: \<^verbatim>\<open>pages/ActivityPage.tsx\<close>. Buckets, percentiles, flow
    diagram and columns over the request logs; the texts of the daily digest; the page's loads, filters,
    pages and deep link, again an instance of \<open>latest_wins\<close>.
  \<^item> \<open>ActivityRibbons\<close>, \<open>ActivityPanels\<close>: the same file. The bands of the flow diagram, which fill the nodes; the
    bars, the 24-hour dial, the rows and details of the table, the chip and the permalink. The dial is proved
    for any buckets keyed by hours of the day; that the hours of a day are 24 different ones needs the fixed
    offset from UTC under which \<open>ActivityCharts\<close> computes buckets, so not a day on which the clock changes.
  \<^item> \<open>DragSort\<close>: \<^verbatim>\<open>components/DragSortArea.tsx\<close>. The orders sent after a drop are permutations, and a drop
    into the other zone is the specified move.
  \<^item> \<open>TokenCodec\<close>, \<open>Templates\<close>: \<^verbatim>\<open>pages/SettingsPage/notifications/types.ts\<close>. The locale \<open>token_codec\<close>
    says when replacing one set of tokens by another can be undone; it is interpreted in both directions
    on the placeholders of every event.
  \<^item> \<open>AuthImport\<close>, \<open>AddAccount\<close>, \<open>AddAccountRuns\<close>: \<^verbatim>\<open>components/AddAccountDrawer.tsx\<close>. The wizard with
    its five effects; the polling of a login with a timer, polls in flight and runs of the effect that
    were disposed; \<open>drawer_runs\<close> is the relation of reachable states. The theorems give the invariant
    of the wizard, that a pending login stays polled, what a submission sends, and the histories in
    which a late answer or an effect undoes what the user did.
  \<^item> \<open>DrawerViews\<close>: what the drawer shows. In every reachable state it is one panel, and the buttons shown
    enabled are those of which a press is an event.
  \<^item> \<open>SelfCheck\<close>, \<open>PoolDetail\<close>, \<open>PoolDetailRuns\<close>, \<open>PoolDialogs\<close>: \<^verbatim>\<open>pages/PoolDetailPage.tsx\<close>,
    \<^verbatim>\<open>components/PoolCreateDialog.tsx\<close>. The choice of a model to probe; the page with its loads, reveals, member
    edits, drags and the self check; \<open>pd_runs\<close> is the relation of reachable states. The pool on the
    screen is the one of the address, the locale \<open>reorder_source\<close> is the contract of the drag area and is
    interpreted on \<open>DragSort\<close>, a self check reports every member, and nothing waits for an answer that
    cannot come.
  \<^item> \<open>CodexSetup\<close>: \<^verbatim>\<open>components/CodexSetupDialog.tsx\<close>. Names, shell lines and the TOML file for a pool,
    against a reader of shell words and one of TOML strings.
  \<^item> \<open>Cards\<close>, \<open>AccountSheet\<close>, \<open>Diagnostics\<close>: \<^verbatim>\<open>components/AccountCard.tsx\<close>, \<^verbatim>\<open>DirectAccountSignal.tsx\<close>,
    \<^verbatim>\<open>CodexQuotaBars.tsx\<close>, \<^verbatim>\<open>AccountDetailSheet.tsx\<close>, \<^verbatim>\<open>ProbeModelChipPicker.tsx\<close>. The chips of a card; the
    panels of the sheet with the edits of the probe models and the playground; the diagnostic table. What
    a healthy badge promises of the card and of the table, and edits answered one by one keep the sheet
    equal to the server.
  \<^item> \<open>AccountViews\<close>: what these files and the frame of \<^verbatim>\<open>pages/PoolDetailPage.tsx\<close> show of the state, thrown
    exceptions included. Card and sheet agree on an account; one unreadable quota hides the page.
  \<^item> \<open>GatewaySettings\<close>, \<open>Credentials\<close>, \<open>DataTransfer\<close>, \<open>SettingsHome\<close>: \<^verbatim>\<open>pages/SettingsPage.tsx\<close> with
    \<^verbatim>\<open>data-retention\<close> and \<^verbatim>\<open>config-transfer\<close>. The numeric settings refine the server's settings when saves do not
    overlap; revealed tokens are current; only what was previewed is imported; no internal detail is
    shown. \<open>tryScroll\<close> retries at most twenty times, which is its measure.
  \<^item> \<open>Notifications\<close>, \<open>NotificationHistory\<close>: \<^verbatim>\<open>pages/SettingsPage/notifications\<close>. The channel, the subscription
    rows and the threshold are three instances of \<open>latest_wins\<close>; the history's filters split the
    deliveries and its pages show each once.
  \<^item> \<open>SettingsViews\<close>, \<open>NotificationViews\<close>: what the settings page and its sections show. Each credential row
    shows its mask or the value the server accepts; rows of the history carry the label of the filter they
    are under; the answer to a save of a subscription shows in its row.
  \<^item> \<open>TemplateEditing\<close>: \<^verbatim>\<open>TemplateEditor.tsx\<close>. The preview catches up with the text, and a field inserted
    anywhere is stored as its action; the locale \<open>insert_codec\<close> extends \<open>token_codec\<close> by what that needs.
  \<^item> \<open>Shell\<close>, \<open>Chrome\<close>: \<^verbatim>\<open>components/Shell.tsx\<close>, \<^verbatim>\<open>SideTOC.tsx\<close>, \<^verbatim>\<open>notifications/Tabs.tsx\<close>,
    \<^verbatim>\<open>App.tsx\<close>, \<^verbatim>\<open>AppErrorBoundary.tsx\<close>, \<^verbatim>\<open>ui/sidebar.tsx\<close>, \<^verbatim>\<open>CopyButton.tsx\<close>, \<^verbatim>\<open>StatusBadge.tsx\<close>. The
    sidebar is the fourth kind of page that numbers its loads: it settles on the newest pools. Two error
    boundaries: what each covers, how long, and what a retry does.

  In the groups of the settings some records carry a field for what the server holds; it is not state of the
  page, no handler reads it but to say what an answer contains, and the theorems compare the page with it.
  It changes together with the answer, and a request that failed is taken not to have changed it. Where
  nothing can come between that matters, a request and its answer are one event: the confirmation of a
  regeneration, and in a self check the probes of a member with the report of their result.

  \<^bold>\<open>Not modelled.\<close> Markup, styling and constant drawing (gradients, craters, icons), the wrappers of the
  component library under \<^verbatim>\<open>components/ui\<close> but for the sidebar's state, headings and empty states, and the
  Go server.
\<close>

section \<open>The badge, the card and the table agree\<close>

text \<open>
  C5: What a green badge promises on the card and in the sheet, which compute their views by different code
  from different fields of the account: the card has no warning chip, only the count of requests; the card
  itself is red exactly after a failed self-check of a direct account, and yellow exactly if the last
  self-check of a direct account, or without one the status of the account, is degraded; and in the
  diagnostic table of the sheet no row but the credential and the subscription is red.
\<close>

theorem green_badge_agrees:
  assumes "getRouteHealth h (Some a) (member_enabled m) (Some d) = Healthy"
  shows "cardChips h (Some a) (st_requests st) = [requestChip (st_requests st)] \<and>
     (cd_tone (card_view h m a q st p r) = js ''border-status-red/20 bg-red-50/55'' \<longleftrightarrow>
        \<not> is_cpa a \<and> last_probe_status a = Some (js ''error'')) \<and>
     (cd_tone (card_view h m a q st p r) = js ''border-status-yellow/20 bg-amber-50/55'' \<longleftrightarrow>
        (if \<not> is_cpa a \<and> last_probe_status a \<in> {Some (js ''healthy''), Some (js ''degraded''), Some (js ''error'')}
         then last_probe_status a = Some (js ''degraded'') else acc_status a = js ''degraded'')) \<and>
     (\<forall>row \<in> set (buildDiagnosticDimensions h a d (sheet_is_codex a)).
        dm_tone row = ToneDanger \<longrightarrow> row = credentialDimension h a \<or> row = subscriptionDimension h a)"
proof (intro conjI)
  have on: "member_enabled m" and rt: "isAccountRoutable h a"
    using assms by (simp_all add: Healthy_iff)
  show "cardChips h (Some a) (st_requests st) = [requestChip (st_requests st)]"
    by (rule healthy_card_has_no_issue [OF assms])
  show "cd_tone (card_view h m a q st p r) = js ''border-status-red/20 bg-red-50/55'' \<longleftrightarrow>
      \<not> is_cpa a \<and> last_probe_status a = Some (js ''error'')"
    unfolding healthy_card_tone [OF assms] card_tone_colours by (rule routable_health(1) [OF rt])
  show "cd_tone (card_view h m a q st p r) = js ''border-status-yellow/20 bg-amber-50/55'' \<longleftrightarrow>
      (if \<not> is_cpa a \<and> last_probe_status a \<in> {Some (js ''healthy''), Some (js ''degraded''), Some (js ''error'')}
       then last_probe_status a = Some (js ''degraded'') else acc_status a = js ''degraded'')"
    unfolding healthy_card_tone [OF assms] card_tone_colours by (rule routable_health(2) [OF rt])
  show "\<forall>row \<in> set (buildDiagnosticDimensions h a d (sheet_is_codex a)).
      dm_tone row = ToneDanger \<longrightarrow> row = credentialDimension h a \<or> row = subscriptionDimension h a"
    using healthy_badge_rows [of h a d] assms on by auto
qed

theorem green_badge_agrees_witness:
  "getRouteHealth sample_host (Some keyless) True (Some (js ''healthy'')) = Healthy \<and>
   cardChips sample_host (Some keyless) 3 = [requestChip 3] \<and>
   cd_tone (card_view sample_host
       \<lparr>member_id = 4, member_pool_id = 1, member_account_id = 9, member_position = 0, member_enabled = True,
         member_account = Some keyless\<rparr> keyless None
       \<lparr>st_requests = 3, st_successRate = None, st_inputTokens = 0, st_outputTokens = 0\<rparr> (Some 0) False)
     \<noteq> js ''border-status-red/20 bg-red-50/55''"
proof -
  let ?m = "\<lparr>member_id = 4, member_pool_id = 1, member_account_id = 9, member_position = 0,
      member_enabled = True, member_account = Some keyless\<rparr>"
  let ?st = "\<lparr>st_requests = 3, st_successRate = None, st_inputTokens = 0, st_outputTokens = 0\<rparr>"
  have h: "getRouteHealth sample_host (Some keyless) (member_enabled ?m) (Some (js ''healthy'')) = Healthy"
    by (simp add: route_eval blank_account_def keyless_def)
  have "last_probe_status keyless \<noteq> Some (js ''error'')"
    by (simp add: keyless_def blank_account_def)
  then show ?thesis
    using green_badge_agrees [OF h, of ?st None "Some 0" False] h by simp
qed

end
